(* ===== verification/Prelude.thy ===== *)
theory Prelude
  imports Main "HOL-Library.AList" "HOL-Library.Word" "HOL-Library.Product_Lexorder"
    "HOL-Library.Char_ord" "HOL-Library.List_Lexorder"
begin

text \<open>
  Shared vocabulary of the development: identifiers, instants and durations,
  hash maps as association lists with distinct keys, results and panics, and
  the generic lemmas on lists and sorting that several components use.

  An instant (\<open>chrono::DateTime<Utc>\<close>) is the number of nanoseconds since the
  Unix epoch and a duration (\<open>chrono::Duration\<close>) a number of nanoseconds, both
  as \<open>int\<close>; the calendar range of chrono is not bounded here.  A \<open>HashMap\<close> is
  an association list in which an insert replaces in place or appends; the
  order of such a list is one possible iteration order of the Rust map.
\<close>

section \<open>Collections of rewrite rules\<close>

named_theorems instant_simps \<open>definitions of the instant and duration operations\<close>
named_theorems table_simps \<open>laws of the hash-map operations\<close>
named_theorems codec_simps \<open>the string forms of the enumerations\<close>
named_theorems store_simps \<open>definitions of the storage operations\<close>

section \<open>Identifiers, instants, durations\<close>

type_synonym uuid = "128 word"
type_synonym instant = int
type_synonym duration = int

definition nil_uuid :: uuid where
  "nil_uuid = 0"

definition nanos_per_sec :: int where
  "nanos_per_sec = 1000000000"

definition seconds :: "int \<Rightarrow> duration" where
  "seconds n = n * nanos_per_sec"

definition minutes :: "int \<Rightarrow> duration" where
  "minutes n = seconds (60 * n)"

definition hours :: "int \<Rightarrow> duration" where
  "hours n = seconds (3600 * n)"

definition days :: "int \<Rightarrow> duration" where
  "days n = seconds (86400 * n)"

text \<open>\<open>TimeDelta::num_seconds\<close> counts whole seconds and truncates towards zero.\<close>

definition num_seconds :: "duration \<Rightarrow> int" where
  "num_seconds d = (if d < 0 then - ((- d) div nanos_per_sec) else d div nanos_per_sec)"

lemmas instant_defs [instant_simps] =
  nanos_per_sec_def seconds_def minutes_def hours_def days_def num_seconds_def

lemma num_seconds_nonneg [simp]: "0 \<le> d \<Longrightarrow> 0 \<le> num_seconds d"
  by (simp add: instant_simps)

lemma num_seconds_mono: "a \<le> b \<Longrightarrow> num_seconds a \<le> num_seconds b"
proof (cases "a < 0")
  case True
  assume "a \<le> b"
  show ?thesis
  proof (cases "b < 0")
    case True
    with \<open>a \<le> b\<close> \<open>a < 0\<close> show ?thesis
      by (simp add: instant_simps zdiv_mono1)
  next
    case False
    have "0 \<le> (- a) div 1000000000" using \<open>a < 0\<close> by simp
    moreover have "0 \<le> b div 1000000000" using False by simp
    ultimately show ?thesis
      using False \<open>a < 0\<close> by (simp add: instant_simps)
  qed
next
  case False
  assume "a \<le> b"
  with False show ?thesis by (simp add: instant_simps zdiv_mono1)
qed

lemma num_seconds_neg: "d \<le> 0 \<Longrightarrow> num_seconds d \<le> 0"
  using num_seconds_mono [of d 0] by (simp add: instant_simps)

lemma le_div_iff:
  fixes q x c :: int
  assumes "0 < c"
  shows "q \<le> x div c \<longleftrightarrow> q * c \<le> x"
proof
  assume "q \<le> x div c"
  then have "q * c \<le> (x div c) * c" using assms by simp
  also have "\<dots> \<le> x" using assms by (metis div_mod_decomp_int le_add_same_cancel1 pos_mod_sign)
  finally show "q * c \<le> x" .
next
  assume "q * c \<le> x"
  then have "(q * c) div c \<le> x div c" using assms by (rule zdiv_mono1)
  then show "q \<le> x div c" using assms by simp
qed

lemma div_add_le:
  fixes a b c :: int
  assumes "0 < c"
  shows "a div c + b div c \<le> (a + b) div c"
proof -
  have "(a div c) * c \<le> a" "(b div c) * c \<le> b"
    using le_div_iff [OF assms] by blast+
  then show ?thesis using le_div_iff [OF assms] by (simp add: distrib_right)
qed

lemma num_seconds_less:
  assumes "0 \<le> d" "d < seconds n"
  shows "num_seconds d < n"
proof -
  have "\<not> n \<le> d div 1000000000"
    using assms(2) le_div_iff [of 1000000000 n d] by (simp add: instant_simps)
  then show ?thesis using assms(1) by (simp add: instant_simps)
qed

lemma num_seconds_add_le:
  assumes "0 \<le> a" "0 \<le> b"
  shows "num_seconds a + num_seconds b \<le> num_seconds (a + b)"
  using assms div_add_le [of 1000000000 a b] by (simp add: instant_simps)

lemma num_seconds_seconds [simp]: "num_seconds (seconds n) = n"
  by (auto simp: instant_simps) 

section \<open>Results\<close>

text \<open>
  \<open>Result<'a, 'e>\<close> is \<open>'e + 'a\<close> with the error on the left.  A call that can
  panic returns a value of type \<open>run\<close>.
\<close>

datatype 'a run = Panic | Ret 'a

abbreviation Ok :: "'a \<Rightarrow> 'e + 'a" where "Ok \<equiv> Inr"
abbreviation Err :: "'e \<Rightarrow> 'e + 'a" where "Err \<equiv> Inl"

definition is_ok :: "'e + 'a \<Rightarrow> bool" where
  "is_ok r = (case r of Inl _ \<Rightarrow> False | Inr _ \<Rightarrow> True)"

lemma is_ok_simps [simp]: "is_ok (Inr x)" "\<not> is_ok (Inl e)"
  by (simp_all add: is_ok_def)

lemma find_unique:
  assumes "x \<in> set xs" "P x" "\<And>y. y \<in> set xs \<Longrightarrow> P y \<Longrightarrow> y = x"
  shows "find P xs = Some x"
proof (cases "find P xs")
  case None
  then show ?thesis using assms(1,2) by (auto simp: find_None_iff)
next
  case (Some y)
  then have "y \<in> set xs" "P y" by (auto simp: find_Some_iff)
  then show ?thesis using Some assms(3) by simp
qed

end
