(* ===== verification/Text_Util.thy ===== *)
theory Text_Util
  imports Prelude
begin

text \<open>
  The operations of Rust's \<open>str\<close> and \<open>char\<close> the program uses.  A \<open>string\<close> is a
  sequence of Unicode scalar values up to U+00FF, one \<open>char\<close> each; on that
  range the predicates below are those of the standard library.  A length in
  bytes (\<open>str::len\<close>) is the length of the UTF-8 encoding.
\<close>

section \<open>Characters\<close>

definition code :: "char \<Rightarrow> nat" where
  "code c = of_char c"

definition is_ascii_digit :: "char \<Rightarrow> bool" where
  "is_ascii_digit c = (48 \<le> code c \<and> code c \<le> 57)"

definition is_ascii_lowercase :: "char \<Rightarrow> bool" where
  "is_ascii_lowercase c = (97 \<le> code c \<and> code c \<le> 122)"

definition is_ascii_uppercase :: "char \<Rightarrow> bool" where
  "is_ascii_uppercase c = (65 \<le> code c \<and> code c \<le> 90)"

definition is_ascii_alphanumeric :: "char \<Rightarrow> bool" where
  "is_ascii_alphanumeric c = (is_ascii_digit c \<or> is_ascii_lowercase c \<or> is_ascii_uppercase c)"

definition is_ascii_hexdigit :: "char \<Rightarrow> bool" where
  "is_ascii_hexdigit c = (is_ascii_digit c \<or> (97 \<le> code c \<and> code c \<le> 102) \<or> (65 \<le> code c \<and> code c \<le> 70))"

definition is_ascii_graphic :: "char \<Rightarrow> bool" where
  "is_ascii_graphic c = (33 \<le> code c \<and> code c \<le> 126)"

definition is_ascii_whitespace :: "char \<Rightarrow> bool" where
  "is_ascii_whitespace c = (code c \<in> {9, 10, 12, 13, 32})"

definition is_whitespace :: "char \<Rightarrow> bool" where
  "is_whitespace c = ((9 \<le> code c \<and> code c \<le> 13) \<or> code c = 32 \<or> code c = 133 \<or> code c = 160)"

definition is_control :: "char \<Rightarrow> bool" where
  "is_control c = (code c \<le> 31 \<or> (127 \<le> code c \<and> code c \<le> 159))"

definition to_ascii_lower_char :: "char \<Rightarrow> char" where
  "to_ascii_lower_char c = (if is_ascii_uppercase c then char_of (code c + 32) else c)"

definition to_lower_char :: "char \<Rightarrow> char" where
  "to_lower_char c =
     (if is_ascii_uppercase c \<or> (192 \<le> code c \<and> code c \<le> 222 \<and> code c \<noteq> 215)
      then char_of (code c + 32) else c)"

lemmas char_class_defs [simp] = is_ascii_digit_def is_ascii_lowercase_def is_ascii_uppercase_def
  is_ascii_alphanumeric_def is_ascii_hexdigit_def is_ascii_graphic_def is_ascii_whitespace_def
  is_whitespace_def is_control_def code_def

section \<open>Strings\<close>

definition utf8_len :: "string \<Rightarrow> nat" where
  "utf8_len s = length s + length (filter (\<lambda>c. 128 \<le> code c) s)"

definition trim :: "string \<Rightarrow> string" where
  "trim s = rev (dropWhile is_whitespace (rev (dropWhile is_whitespace s)))"

definition trim_matches :: "char \<Rightarrow> string \<Rightarrow> string" where
  "trim_matches c s = rev (dropWhile (\<lambda>x. x = c) (rev (dropWhile (\<lambda>x. x = c) s)))"

definition trim_start_matches :: "char \<Rightarrow> string \<Rightarrow> string" where
  "trim_start_matches c s = dropWhile (\<lambda>x. x = c) s"

definition trim_end_matches :: "char \<Rightarrow> string \<Rightarrow> string" where
  "trim_end_matches c s = rev (dropWhile (\<lambda>x. x = c) (rev s))"

definition to_lowercase :: "string \<Rightarrow> string" where
  "to_lowercase s = map to_lower_char s"

definition to_ascii_lowercase :: "string \<Rightarrow> string" where
  "to_ascii_lowercase s = map to_ascii_lower_char s"

definition starts_with :: "string \<Rightarrow> string \<Rightarrow> bool" where
  "starts_with s p = (take (length p) s = p)"

definition ends_with :: "string \<Rightarrow> string \<Rightarrow> bool" where
  "ends_with s p = (length p \<le> length s \<and> drop (length s - length p) s = p)"

definition strip_prefix :: "string \<Rightarrow> string \<Rightarrow> string option" where
  "strip_prefix s p = (if starts_with s p then Some (drop (length p) s) else None)"

definition strip_suffix :: "string \<Rightarrow> string \<Rightarrow> string option" where
  "strip_suffix s p = (if ends_with s p then Some (take (length s - length p) s) else None)"

text \<open>\<open>str::find\<close> of a pattern: the position of its first occurrence.\<close>

fun find_str :: "string \<Rightarrow> string \<Rightarrow> nat option" where
  "find_str [] p = (if p = [] then Some 0 else None)"
| "find_str (c # s) p = (if starts_with (c # s) p then Some 0 else map_option Suc (find_str s p))"

definition contains_str :: "string \<Rightarrow> string \<Rightarrow> bool" where
  "contains_str s p = (find_str s p \<noteq> None)"

fun split_char :: "char \<Rightarrow> string \<Rightarrow> string list" where
  "split_char c [] = [[]]"
| "split_char c (x # xs) =
     (case split_char c xs of
        part # parts \<Rightarrow> if x = c then [] # part # parts else (x # part) # parts
      | [] \<Rightarrow> [])"

definition split_once :: "char \<Rightarrow> string \<Rightarrow> (string \<times> string) option" where
  "split_once c s =
     (if c \<in> set s then Some (takeWhile (\<lambda>x. x \<noteq> c) s, tl (dropWhile (\<lambda>x. x \<noteq> c) s)) else None)"

text \<open>Decimal integers: \<open>str::parse\<close> for an unsigned or signed type with the given bounds.\<close>

definition digits_value :: "string \<Rightarrow> int" where
  "digits_value s = foldl (\<lambda>n c. n * 10 + (int (code c) - 48)) 0 s"

definition parse_digits :: "string \<Rightarrow> int option" where
  "parse_digits s = (if s \<noteq> [] \<and> list_all is_ascii_digit s then Some (digits_value s) else None)"

definition in_bounds :: "int \<Rightarrow> int \<Rightarrow> int option \<Rightarrow> int option" where
  "in_bounds lo hi r = (case r of Some n \<Rightarrow> if lo \<le> n \<and> n \<le> hi then Some n else None | None \<Rightarrow> None)"

definition parse_u64 :: "string \<Rightarrow> int option" where
  "parse_u64 s = in_bounds 0 (2 ^ 64 - 1) (parse_digits (case s of c # r \<Rightarrow> if c = CHR ''+'' then r else s | [] \<Rightarrow> s))"

definition parse_i64 :: "string \<Rightarrow> int option" where
  "parse_i64 s =
     in_bounds (- (2 ^ 63)) (2 ^ 63 - 1)
       (case s of
          c # r \<Rightarrow> if c = CHR ''-'' then map_option uminus (parse_digits r)
                   else if c = CHR ''+'' then parse_digits r else parse_digits s
        | [] \<Rightarrow> None)"

section \<open>Facts\<close>

lemma starts_with_append: "starts_with s p \<longleftrightarrow> (\<exists>r. s = p @ r)"
  by (metis append_take_drop_id append_eq_conv_conj starts_with_def)

lemma strip_prefix_Some: "strip_prefix s p = Some r \<longleftrightarrow> s = p @ r"
  by (metis append_eq_conv_conj option.distinct(1) option.inject starts_with_append strip_prefix_def)

lemma trim_Nil [simp]: "trim [] = []"
  by (simp add: trim_def)

lemma trim_eq_Nil: "trim s = [] \<longleftrightarrow> list_all is_whitespace s"
  by (induction s) (auto simp: trim_def list_all_iff dropWhile_eq_Nil_conv simp del: char_class_defs)

lemma in_bounds_Some: "in_bounds lo hi r = Some n \<Longrightarrow> r = Some n \<and> lo \<le> n \<and> n \<le> hi"
  by (auto simp: in_bounds_def split: option.splits if_splits)

lemma parse_u64_range: "parse_u64 s = Some n \<Longrightarrow> 0 \<le> n \<and> n < 2 ^ 64"
  by (auto simp: parse_u64_def dest: in_bounds_Some)

lemma lower_char_facts:
  "is_whitespace (to_lower_char c) = is_whitespace c" "to_lower_char (to_lower_char c) = to_lower_char c"
  by (auto simp: to_lower_char_def of_char_of)

lemma dropWhile_map_cong: "(\<And>c. P (f c) = P c) \<Longrightarrow> dropWhile P (map f xs) = map f (dropWhile P xs)"
  by (simp add: dropWhile_map comp_def)

lemma trim_lowercase: "trim (to_lowercase s) = to_lowercase (trim s)"
  unfolding trim_def to_lowercase_def rev_map dropWhile_map_cong [of is_whitespace to_lower_char, OF lower_char_facts(1)] ..

lemma dropWhile_idem: "dropWhile P (dropWhile P xs) = dropWhile P xs"
  by (simp add: dropWhile_eq_self_iff hd_dropWhile)

lemma trim_idem: "trim (trim s) = trim s"
proof -
  let ?d = "dropWhile is_whitespace s" and ?W = is_whitespace
  let ?t = "rev (dropWhile ?W (rev ?d))"
  have "?t @ rev (takeWhile ?W (rev ?d)) = ?d"
    by (metis rev_append rev_rev_ident takeWhile_dropWhile_id)
  then have "?t = [] \<or> hd ?t = hd ?d \<and> ?d \<noteq> []"
    by (metis append_is_Nil_conv hd_append2)
  then have "dropWhile ?W ?t = ?t" by (metis dropWhile_eq_self_iff dropWhile_eq_Nil_conv hd_dropWhile)
  then show ?thesis unfolding trim_def by (simp add: dropWhile_idem)
qed

lemma dropWhile_none: "list_all (\<lambda>c. \<not> P c) s \<Longrightarrow> dropWhile P s = s"
  by (cases s) auto

lemma trim_no_space: "list_all (\<lambda>c. \<not> is_whitespace c) s \<Longrightarrow> trim s = s"
  by (simp add: trim_def dropWhile_none list_all_rev del: char_class_defs)

lemma split_char_free: "c \<notin> set s \<Longrightarrow> split_char c s = [s]"
  by (induction s) auto

end
