(* ===== verification/Channel_Config.thy ===== *)
theory Channel_Config
  imports Domain_Types
begin

text \<open>
  \<open>crates/core/src/domain/notification_channel\<close>: the forty notification
  transports.  A configuration is a value of \<open>channel_config\<close>; the
  implementation of the \<open>TransportConfig\<close> trait for one transport is a
  definition \<open><transport>_impl\<close> that gives, for the fields of a configuration,
  what each method of the trait returns; \<open>with_transport\<close> is the dispatch of
  the macro of that name.  The URL parser (crate \<open>url\<close>) is a parameter.  The em dash in
  three error messages is written as a hyphen.
\<close>

section \<open>URLs and validation helpers\<close>

record url =
  url_scheme :: string
  url_host :: "string option"
  url_path :: string
  url_query :: "string option"
  url_fragment :: "string option"
  url_username :: string
  url_password :: "string option"

definition MASK :: string where
  "MASK = ''***''"

text \<open>A guard that fails with a message, and checks run in order until one fails.\<close>

definition reject :: "bool \<Rightarrow> string \<Rightarrow> string + unit" where
  "reject failed msg = (if failed then Err msg else Ok ())"

fun run_checks :: "(string + unit) list \<Rightarrow> string + unit" where
  "run_checks [] = Ok ()"
| "run_checks (c # cs) = (case c of Inl msg \<Rightarrow> Err msg | Inr _ \<Rightarrow> run_checks cs)"

definition require_https :: "(string \<Rightarrow> url option) \<Rightarrow> string \<Rightarrow> string \<Rightarrow> string + unit" where
  "require_https parse_url u field =
     (case parse_url u of
        None \<Rightarrow> Err (field @ '' is not a valid URL'')
      | Some parsed \<Rightarrow>
         if url_scheme parsed \<noteq> ''https'' then Err (field @ '' must be an https:// URL'') else Ok ())"

definition provider_mismatch :: "string \<Rightarrow> string" where
  "provider_mismatch provider =
     ''this doesn't look like a '' @ provider @
     '' webhook URL - use the webhook type for nonstandard endpoints''"

definition require_provider_webhook ::
  "(string \<Rightarrow> url option) \<Rightarrow> string \<Rightarrow> string \<Rightarrow> string list \<Rightarrow> string option \<Rightarrow> string + unit" where
  "require_provider_webhook parse_url u provider domains path_prefix =
     (case parse_url u of
        None \<Rightarrow> Err ''webhook_url is not a valid URL''
      | Some parsed \<Rightarrow>
         if url_scheme parsed \<noteq> ''https'' then Err ''webhook_url must be an https:// URL''
         else
           (let host = to_ascii_lowercase (trim_end_matches CHR ''.''
                         (case url_host parsed of Some h \<Rightarrow> h | None \<Rightarrow> []));
                pinned = list_ex (\<lambda>d. host = d \<or> ends_with host (CHR ''.'' # d)) domains
            in if \<not> pinned then Err (provider_mismatch provider)
               else
                 (case path_prefix of
                    Some prefix \<Rightarrow> if \<not> starts_with (url_path parsed) prefix
                                   then Err (provider_mismatch provider) else Ok ()
                  | None \<Rightarrow> Ok ())))"

section \<open>Configurations\<close>

datatype sms_config =
    Twilio (twilio_to: string) (twilio_from: string) (twilio_account_sid: string) (twilio_auth_token: string)
  | Telnyx (telnyx_to: string) (telnyx_from: string) (telnyx_api_key: string) (telnyx_messaging_profile_id: "string option")
  | Vonage (vonage_to: string) (vonage_from: string) (vonage_api_key: string) (vonage_api_secret: string)
  | Plivo (plivo_to: string) (plivo_from: string) (plivo_auth_id: string) (plivo_auth_token: string)
  | Sinch (sinch_to: string) (sinch_from: string) (sinch_service_plan_id: string) (sinch_api_token: string) (sinch_region: string)

datatype (plugins only: code) channel_kind =
    Webhook | Slack | Telegram | TelegramApp | WhatsApp | WhatsAppApp
  | Discord | MsTeams | GoogleChat | Email | PagerDuty | Ntfy
  | Pushover | Sms | Opsgenie | Gotify | Matrix | Mattermost
  | Rocketchat | Webex | Zulip | GitHub | GitLab | Gitea
  | Ilert | Incidentio | Squadcast | SIGNL4 | Datadog | NewRelic
  | Splunk | Line | Signal | ClickUp | Ifttt | Zapier
  | N8n | HomeAssistant | AwsSes | SendGrid

fun kind_as_db_str :: "channel_kind \<Rightarrow> string" where
  "kind_as_db_str channel_kind.Webhook = ''webhook''"
| "kind_as_db_str channel_kind.Slack = ''slack''"
| "kind_as_db_str channel_kind.Telegram = ''telegram''"
| "kind_as_db_str channel_kind.TelegramApp = ''telegram_app''"
| "kind_as_db_str channel_kind.WhatsApp = ''whatsapp''"
| "kind_as_db_str channel_kind.WhatsAppApp = ''whatsapp_app''"
| "kind_as_db_str channel_kind.Discord = ''discord''"
| "kind_as_db_str channel_kind.MsTeams = ''msteams''"
| "kind_as_db_str channel_kind.GoogleChat = ''google_chat''"
| "kind_as_db_str channel_kind.Email = ''email''"
| "kind_as_db_str channel_kind.PagerDuty = ''pagerduty''"
| "kind_as_db_str channel_kind.Ntfy = ''ntfy''"
| "kind_as_db_str channel_kind.Pushover = ''pushover''"
| "kind_as_db_str channel_kind.Sms = ''sms''"
| "kind_as_db_str channel_kind.Opsgenie = ''opsgenie''"
| "kind_as_db_str channel_kind.Gotify = ''gotify''"
| "kind_as_db_str channel_kind.Matrix = ''matrix''"
| "kind_as_db_str channel_kind.Mattermost = ''mattermost''"
| "kind_as_db_str channel_kind.Rocketchat = ''rocketchat''"
| "kind_as_db_str channel_kind.Webex = ''webex''"
| "kind_as_db_str channel_kind.Zulip = ''zulip''"
| "kind_as_db_str channel_kind.GitHub = ''github''"
| "kind_as_db_str channel_kind.GitLab = ''gitlab''"
| "kind_as_db_str channel_kind.Gitea = ''gitea''"
| "kind_as_db_str channel_kind.Ilert = ''ilert''"
| "kind_as_db_str channel_kind.Incidentio = ''incidentio''"
| "kind_as_db_str channel_kind.Squadcast = ''squadcast''"
| "kind_as_db_str channel_kind.SIGNL4 = ''signl4''"
| "kind_as_db_str channel_kind.Datadog = ''datadog''"
| "kind_as_db_str channel_kind.NewRelic = ''newrelic''"
| "kind_as_db_str channel_kind.Splunk = ''splunk''"
| "kind_as_db_str channel_kind.Line = ''line''"
| "kind_as_db_str channel_kind.Signal = ''signal''"
| "kind_as_db_str channel_kind.ClickUp = ''clickup''"
| "kind_as_db_str channel_kind.Ifttt = ''ifttt''"
| "kind_as_db_str channel_kind.Zapier = ''zapier''"
| "kind_as_db_str channel_kind.N8n = ''n8n''"
| "kind_as_db_str channel_kind.HomeAssistant = ''homeassistant''"
| "kind_as_db_str channel_kind.AwsSes = ''awsses''"
| "kind_as_db_str channel_kind.SendGrid = ''sendgrid''"

datatype (plugins only: code) channel_config =
    Webhook string "(string \<times> string) list" "string option"
  | Slack string
  | Telegram string string
  | TelegramApp string "string option"
  | WhatsApp string string string string "string option"
  | WhatsAppApp string "string option"
  | Discord string
  | MsTeams string
  | GoogleChat string
  | Email string
  | PagerDuty string
  | Ntfy string string "string option"
  | Pushover string string "string option" bool
  | Sms sms_config
  | Opsgenie string string
  | Gotify string string
  | Matrix string string string
  | Mattermost string
  | Rocketchat string
  | Webex string
  | Zulip string string string string string
  | GitHub string string string
  | GitLab string string string
  | Gitea string string string
  | Ilert string
  | Incidentio string
  | Squadcast string
  | SIGNL4 string string
  | Datadog string string
  | NewRelic string string
  | Splunk string string
  | Line string
  | Signal string string
  | ClickUp string
  | Ifttt string string
  | Zapier string
  | N8n string
  | HomeAssistant string
  | AwsSes string string
  | SendGrid string string

text \<open>The arguments of a constructor are the fields of the struct, in their order.\<close>

text \<open>The methods of the \<open>TransportConfig\<close> trait, applied to one configuration.\<close>

record transport =
  t_kind :: channel_kind
  t_redacted :: channel_config
  t_sentinel :: bool
  t_validate :: "(string \<Rightarrow> url option) \<Rightarrow> string + unit"
  t_abuse_url :: "string option"
  t_operator_managed :: bool
  t_lifecycle_ref :: "string option"

section \<open>Helpers of single transports\<close>

definition MAX_EMAIL_LEN :: nat where
  "MAX_EMAIL_LEN = 254"

definition validate_email :: "string \<Rightarrow> string + unit" where
  "validate_email a =
     run_checks
       [reject (a = []) ''to address is required'',
        reject (MAX_EMAIL_LEN < utf8_len a) ''to address must be at most 254 characters'',
        reject (list_ex (\<lambda>c. is_whitespace c \<or> is_control c) a) ''to address must not contain whitespace'',
        reject (list_ex is_ascii_uppercase a) ''to address must be lowercase'',
        (case split_once CHR ''@'' a of
           None \<Rightarrow> Err ''to address is not a valid email''
         | Some (local, domain) \<Rightarrow>
            run_checks
              [reject (local = [] \<or> 64 < utf8_len local \<or> CHR ''@'' \<in> set domain) ''to address is not a valid email'',
               reject (CHR ''.'' \<notin> set domain \<or> contains_str domain ''..'' \<or> starts_with domain ''.''
                       \<or> ends_with domain ''.'') ''to address is not a valid email''])]"

definition ntfy_server_root :: "(string \<Rightarrow> url option) \<Rightarrow> string \<Rightarrow> string + unit" where
  "ntfy_server_root parse_url server_url =
     (case parse_url server_url of
        None \<Rightarrow> Err ''server_url is not a valid URL''
      | Some parsed \<Rightarrow>
         run_checks
           [reject (url_path parsed \<noteq> ''/'' \<or> url_query parsed \<noteq> None \<or> url_fragment parsed \<noteq> None)
              ''server_url must be the server root - put the topic in the topic field'',
            reject (url_username parsed \<noteq> [] \<or> url_password parsed \<noteq> None)
              ''server_url must not embed credentials - use the access token field''])"

definition is_pushover_key :: "string \<Rightarrow> bool" where
  "is_pushover_key s = (utf8_len s = 30 \<and> list_all is_ascii_alphanumeric s)"

definition SINCH_REGIONS :: "string list" where
  "SINCH_REGIONS = [''us'', ''eu'', ''au'', ''br'', ''ca'']"

definition is_e164 :: "string \<Rightarrow> bool" where
  "is_e164 s =
     (case strip_prefix s ''+'' of
        None \<Rightarrow> False
      | Some rest \<Rightarrow> 8 \<le> utf8_len rest \<and> utf8_len rest \<le> 15 \<and> list_all is_ascii_digit rest)"

definition is_sender_id :: "string \<Rightarrow> bool" where
  "is_sender_id s =
     (s \<noteq> [] \<and> utf8_len s \<le> 34 \<and>
      list_all (\<lambda>b. is_ascii_alphanumeric b \<or> b \<in> {CHR ''+'', CHR ''-'', CHR ''.'', CHR ''_''}) s)"

definition is_token :: "string \<Rightarrow> bool" where
  "is_token s = (s \<noteq> [] \<and> \<not> list_ex is_whitespace s)"

definition is_twilio_sid :: "string \<Rightarrow> bool" where
  "is_twilio_sid s = (utf8_len s = 34 \<and> starts_with s ''AC'' \<and> list_all is_ascii_hexdigit (drop 2 s))"

definition is_path_id :: "string \<Rightarrow> bool" where
  "is_path_id s = (s \<noteq> [] \<and> list_all is_ascii_alphanumeric s)"

fun sms_to :: "sms_config \<Rightarrow> string" where
  "sms_to (Twilio to _ _ _) = to"
| "sms_to (Telnyx to _ _ _) = to"
| "sms_to (Vonage to _ _ _) = to"
| "sms_to (Plivo to _ _ _) = to"
| "sms_to (Sinch to _ _ _ _) = to"

fun sms_from :: "sms_config \<Rightarrow> string" where
  "sms_from (Twilio _ from_id _ _) = from_id"
| "sms_from (Telnyx _ from_id _ _) = from_id"
| "sms_from (Vonage _ from_id _ _) = from_id"
| "sms_from (Plivo _ from_id _ _) = from_id"
| "sms_from (Sinch _ from_id _ _ _) = from_id"

fun sms_redact :: "sms_config \<Rightarrow> sms_config" where
  "sms_redact (Twilio to from_id account_sid _) = Twilio to from_id account_sid MASK"
| "sms_redact (Plivo to from_id auth_id _) = Plivo to from_id auth_id MASK"
| "sms_redact (Telnyx to from_id _ profile) = Telnyx to from_id MASK profile"
| "sms_redact (Vonage to from_id api_key _) = Vonage to from_id api_key MASK"
| "sms_redact (Sinch to from_id plan _ region) = Sinch to from_id plan MASK region"

fun sms_sentinel :: "sms_config \<Rightarrow> bool" where
  "sms_sentinel (Twilio _ _ _ auth_token) = (auth_token = MASK)"
| "sms_sentinel (Plivo _ _ _ auth_token) = (auth_token = MASK)"
| "sms_sentinel (Telnyx _ _ api_key _) = (api_key = MASK)"
| "sms_sentinel (Vonage _ _ _ api_secret) = (api_secret = MASK)"
| "sms_sentinel (Sinch _ _ _ api_token _) = (api_token = MASK)"

fun sms_validate_gateway :: "sms_config \<Rightarrow> string + unit" where
  "sms_validate_gateway (Twilio _ _ account_sid auth_token) =
     run_checks [reject (\<not> is_twilio_sid account_sid) ''account_sid must be a Twilio Account SID (AC + 32 hex)'',
                 reject (\<not> is_token auth_token) ''auth_token is required'']"
| "sms_validate_gateway (Telnyx _ _ api_key messaging_profile_id) =
     run_checks [reject (\<not> is_token api_key) ''api_key is required'',
                 reject (case messaging_profile_id of Some p \<Rightarrow> \<not> is_token p | None \<Rightarrow> False)
                   ''messaging_profile_id must not be blank or contain spaces'']"
| "sms_validate_gateway (Vonage _ _ api_key api_secret) =
     run_checks [reject (\<not> is_token api_key) ''api_key is required'',
                 reject (\<not> is_token api_secret) ''api_secret is required'']"
| "sms_validate_gateway (Plivo _ _ auth_id auth_token) =
     run_checks [reject (\<not> is_path_id auth_id) ''auth_id must be the alphanumeric Plivo Auth ID'',
                 reject (\<not> is_token auth_token) ''auth_token is required'']"
| "sms_validate_gateway (Sinch _ _ service_plan_id api_token region) =
     run_checks [reject (\<not> is_path_id service_plan_id)
                   ''service_plan_id must be the alphanumeric Sinch service plan id'',
                 reject (\<not> is_token api_token) ''api_token is required'',
                 reject (region \<notin> set SINCH_REGIONS) ''region must be one of us, eu, au, br, ca'']"

definition sms_validate :: "sms_config \<Rightarrow> string + unit" where
  "sms_validate config =
     run_checks
       [reject (\<not> is_e164 (sms_to config)) ''recipient must be in E.164 format, e.g. +15551234567'',
        reject (\<not> is_sender_id (sms_from config))
          ''sender must be an E.164 number, sender id, or messaging-service id'',
        sms_validate_gateway config]"

section \<open>The transports\<close>

definition webhook_impl :: "string \<Rightarrow> (string \<times> string) list \<Rightarrow> string option \<Rightarrow> transport" where
  "webhook_impl url headers secret =
     \<lparr>t_kind = channel_kind.Webhook,
      t_redacted = channel_config.Webhook MASK (map (\<lambda>(k, _). (k, MASK)) headers) (map_option (\<lambda>_. MASK) secret),
      t_sentinel = (url = MASK \<or> list_ex (\<lambda>(_, v). v = MASK) headers \<or> secret = Some MASK),
      t_validate = (\<lambda>parse_url. run_checks
        [require_https parse_url url ''url'',
         reject (case secret of Some s \<Rightarrow> utf8_len s < 16 | None \<Rightarrow> False) ''secret must be at least 16 characters'']),
      t_abuse_url = Some url, t_operator_managed = False, t_lifecycle_ref = None\<rparr>"

definition slack_impl :: "string \<Rightarrow> transport" where
  "slack_impl webhook_url =
     \<lparr>t_kind = channel_kind.Slack,
      t_redacted = channel_config.Slack MASK,
      t_sentinel = (webhook_url = MASK),
      t_validate = (\<lambda>parse_url. require_https parse_url webhook_url ''webhook_url''),
      t_abuse_url = Some webhook_url, t_operator_managed = False, t_lifecycle_ref = None\<rparr>"

definition telegram_impl :: "string \<Rightarrow> string \<Rightarrow> transport" where
  "telegram_impl bot_token chat_id =
     \<lparr>t_kind = channel_kind.Telegram,
      t_redacted = channel_config.Telegram MASK chat_id,
      t_sentinel = (bot_token = MASK),
      t_validate = (\<lambda>_. run_checks
        [reject (trim bot_token = []) ''bot_token is required'',
         reject (trim chat_id = []) ''chat_id is required'']),
      t_abuse_url = None, t_operator_managed = False, t_lifecycle_ref = None\<rparr>"

definition telegram_app_impl :: "string \<Rightarrow> string option \<Rightarrow> transport" where
  "telegram_app_impl chat_id chat_title =
     \<lparr>t_kind = channel_kind.TelegramApp,
      t_redacted = channel_config.TelegramApp chat_id chat_title,
      t_sentinel = False,
      t_validate = (\<lambda>_. run_checks
        [reject (trim chat_id = []) ''chat_id is required'',
         reject (parse_i64 chat_id = None) ''chat_id must be a Telegram numeric chat id'']),
      t_abuse_url = None, t_operator_managed = True, t_lifecycle_ref = Some chat_id\<rparr>"

definition whatsapp_impl :: "string \<Rightarrow> string \<Rightarrow> string \<Rightarrow> string \<Rightarrow> string option \<Rightarrow> transport" where
  "whatsapp_impl access_token phone_number_id to template_name language_code =
     \<lparr>t_kind = channel_kind.WhatsApp,
      t_redacted = channel_config.WhatsApp MASK phone_number_id to template_name language_code,
      t_sentinel = (access_token = MASK),
      t_validate = (\<lambda>_. run_checks
        [reject (access_token = [] \<or> \<not> list_all is_ascii_graphic access_token)
         ''access_token is required and must not contain spaces or line breaks'',
         reject (phone_number_id = [] \<or> \<not> list_all is_ascii_digit phone_number_id)
         ''phone_number_id must be the numeric Cloud API id'',
         (let digits = (case strip_prefix to ''+'' of Some r \<Rightarrow> r | None \<Rightarrow> to)
        in reject (\<not> (6 \<le> utf8_len digits \<and> utf8_len digits \<le> 15) \<or> \<not> list_all is_ascii_digit digits)
             ''to must be a phone number in international format''),
         reject (template_name = [] \<or> \<not> list_all (\<lambda>c. is_ascii_lowercase c \<or> is_ascii_digit c \<or> c = CHR ''_'') template_name)
         ''template_name is required (lowercase letters, digits, and _ only)'',
         reject (case language_code of Some l \<Rightarrow> l = [] \<or> \<not> list_all (\<lambda>c. is_ascii_alphanumeric c \<or> c = CHR ''_'') l | None \<Rightarrow> False)
         ''language_code must be a code like en or en_US'']),
      t_abuse_url = None, t_operator_managed = False, t_lifecycle_ref = None\<rparr>"

definition whatsapp_app_impl :: "string \<Rightarrow> string option \<Rightarrow> transport" where
  "whatsapp_app_impl phone profile_name =
     \<lparr>t_kind = channel_kind.WhatsAppApp,
      t_redacted = channel_config.WhatsAppApp phone profile_name,
      t_sentinel = False,
      t_validate = (\<lambda>_. run_checks
        [reject (trim phone = []) ''phone is required'',
         reject (\<not> (5 \<le> utf8_len (trim phone) \<and> utf8_len (trim phone) \<le> 20) \<or> \<not> list_all is_ascii_digit (trim phone))
         ''phone must be international-format digits'']),
      t_abuse_url = None, t_operator_managed = True, t_lifecycle_ref = Some phone\<rparr>"

definition discord_impl :: "string \<Rightarrow> transport" where
  "discord_impl webhook_url =
     \<lparr>t_kind = channel_kind.Discord,
      t_redacted = channel_config.Discord MASK,
      t_sentinel = (webhook_url = MASK),
      t_validate = (\<lambda>parse_url. require_provider_webhook parse_url webhook_url ''Discord'' [''discord.com'', ''discordapp.com''] (Some ''/api/webhooks/'')),
      t_abuse_url = Some webhook_url, t_operator_managed = False, t_lifecycle_ref = None\<rparr>"

definition msteams_impl :: "string \<Rightarrow> transport" where
  "msteams_impl webhook_url =
     \<lparr>t_kind = channel_kind.MsTeams,
      t_redacted = channel_config.MsTeams MASK,
      t_sentinel = (webhook_url = MASK),
      t_validate = (\<lambda>parse_url. require_provider_webhook parse_url webhook_url ''Teams'' [''logic.azure.com'', ''powerplatform.com''] None),
      t_abuse_url = Some webhook_url, t_operator_managed = False, t_lifecycle_ref = None\<rparr>"

definition google_chat_impl :: "string \<Rightarrow> transport" where
  "google_chat_impl webhook_url =
     \<lparr>t_kind = channel_kind.GoogleChat,
      t_redacted = channel_config.GoogleChat MASK,
      t_sentinel = (webhook_url = MASK),
      t_validate = (\<lambda>parse_url. require_provider_webhook parse_url webhook_url ''Google Chat'' [''chat.googleapis.com''] None),
      t_abuse_url = Some webhook_url, t_operator_managed = False, t_lifecycle_ref = None\<rparr>"

definition email_impl :: "string \<Rightarrow> transport" where
  "email_impl to =
     \<lparr>t_kind = channel_kind.Email,
      t_redacted = channel_config.Email to,
      t_sentinel = False,
      t_validate = (\<lambda>_. validate_email to),
      t_abuse_url = None, t_operator_managed = False, t_lifecycle_ref = Some to\<rparr>"

definition pagerduty_impl :: "string \<Rightarrow> transport" where
  "pagerduty_impl routing_key =
     \<lparr>t_kind = channel_kind.PagerDuty,
      t_redacted = channel_config.PagerDuty MASK,
      t_sentinel = (routing_key = MASK),
      t_validate = (\<lambda>_. reject (utf8_len routing_key \<noteq> 32 \<or> \<not> list_all is_ascii_alphanumeric routing_key)
         ''routing_key must be the 32-character Events API v2 integration key of a PagerDuty service''),
      t_abuse_url = None, t_operator_managed = False, t_lifecycle_ref = None\<rparr>"

definition ntfy_impl :: "string \<Rightarrow> string \<Rightarrow> string option \<Rightarrow> transport" where
  "ntfy_impl server_url topic access_token =
     \<lparr>t_kind = channel_kind.Ntfy,
      t_redacted = channel_config.Ntfy server_url topic (map_option (\<lambda>_. MASK) access_token),
      t_sentinel = (access_token = Some MASK),
      t_validate = (\<lambda>parse_url. run_checks
        [require_https parse_url server_url ''server_url'',
         ntfy_server_root parse_url server_url,
         reject (topic = [] \<or> 64 < utf8_len topic
         \<or> \<not> list_all (\<lambda>c. is_ascii_alphanumeric c \<or> c = CHR ''_'' \<or> c = CHR ''-'') topic)
         ''topic must be 1-64 characters of letters, digits, _ or -'',
         reject (case access_token of Some t \<Rightarrow> t = [] \<or> list_ex is_ascii_whitespace t | None \<Rightarrow> False)
         ''access_token must not be empty or contain whitespace'']),
      t_abuse_url = Some server_url, t_operator_managed = False, t_lifecycle_ref = None\<rparr>"

definition pushover_impl :: "string \<Rightarrow> string \<Rightarrow> string option \<Rightarrow> bool \<Rightarrow> transport" where
  "pushover_impl token user device emergency =
     \<lparr>t_kind = channel_kind.Pushover,
      t_redacted = channel_config.Pushover MASK MASK device emergency,
      t_sentinel = (token = MASK \<or> user = MASK),
      t_validate = (\<lambda>_. run_checks
        [reject (\<not> is_pushover_key token) ''token must be a 30-character Pushover application token'',
         reject (\<not> is_pushover_key user) ''user must be a 30-character Pushover user or group key'',
         reject (case device of Some d \<Rightarrow> d = [] \<or> 25 < utf8_len d
         \<or> \<not> list_all (\<lambda>c. is_ascii_alphanumeric c \<or> c = CHR ''_'' \<or> c = CHR ''-'') d | None \<Rightarrow> False)
         ''device must be 1-25 characters of letters, digits, _ or -'']),
      t_abuse_url = None, t_operator_managed = False, t_lifecycle_ref = None\<rparr>"

definition sms_impl :: "sms_config \<Rightarrow> transport" where
  "sms_impl config =
     \<lparr>t_kind = channel_kind.Sms,
      t_redacted = channel_config.Sms (sms_redact config),
      t_sentinel = sms_sentinel config,
      t_validate = (\<lambda>_. sms_validate config),
      t_abuse_url = None, t_operator_managed = False, t_lifecycle_ref = None\<rparr>"

definition opsgenie_impl :: "string \<Rightarrow> string \<Rightarrow> transport" where
  "opsgenie_impl api_key region =
     \<lparr>t_kind = channel_kind.Opsgenie,
      t_redacted = channel_config.Opsgenie MASK region,
      t_sentinel = (api_key = MASK),
      t_validate = (\<lambda>_. run_checks
        [reject (trim api_key = []) ''api_key is required'',
         reject (region \<notin> {''us'', ''eu''}) ''region must be us or eu'']),
      t_abuse_url = None, t_operator_managed = False, t_lifecycle_ref = None\<rparr>"

definition gotify_impl :: "string \<Rightarrow> string \<Rightarrow> transport" where
  "gotify_impl server_url app_token =
     \<lparr>t_kind = channel_kind.Gotify,
      t_redacted = channel_config.Gotify server_url MASK,
      t_sentinel = (app_token = MASK),
      t_validate = (\<lambda>parse_url. run_checks
        [require_https parse_url server_url ''server_url'',
         reject (trim app_token = []) ''app_token is required'']),
      t_abuse_url = Some server_url, t_operator_managed = False, t_lifecycle_ref = None\<rparr>"

definition matrix_impl :: "string \<Rightarrow> string \<Rightarrow> string \<Rightarrow> transport" where
  "matrix_impl homeserver_url access_token room_id =
     \<lparr>t_kind = channel_kind.Matrix,
      t_redacted = channel_config.Matrix homeserver_url MASK room_id,
      t_sentinel = (access_token = MASK),
      t_validate = (\<lambda>parse_url. run_checks
        [require_https parse_url homeserver_url ''homeserver_url'',
         reject (trim access_token = []) ''access_token is required'',
         reject (trim room_id = []) ''room_id is required'']),
      t_abuse_url = Some homeserver_url, t_operator_managed = False, t_lifecycle_ref = None\<rparr>"

definition mattermost_impl :: "string \<Rightarrow> transport" where
  "mattermost_impl webhook_url =
     \<lparr>t_kind = channel_kind.Mattermost,
      t_redacted = channel_config.Mattermost MASK,
      t_sentinel = (webhook_url = MASK),
      t_validate = (\<lambda>parse_url. require_https parse_url webhook_url ''webhook_url''),
      t_abuse_url = Some webhook_url, t_operator_managed = False, t_lifecycle_ref = None\<rparr>"

definition rocketchat_impl :: "string \<Rightarrow> transport" where
  "rocketchat_impl webhook_url =
     \<lparr>t_kind = channel_kind.Rocketchat,
      t_redacted = channel_config.Rocketchat MASK,
      t_sentinel = (webhook_url = MASK),
      t_validate = (\<lambda>parse_url. require_https parse_url webhook_url ''webhook_url''),
      t_abuse_url = Some webhook_url, t_operator_managed = False, t_lifecycle_ref = None\<rparr>"

definition webex_impl :: "string \<Rightarrow> transport" where
  "webex_impl webhook_url =
     \<lparr>t_kind = channel_kind.Webex,
      t_redacted = channel_config.Webex MASK,
      t_sentinel = (webhook_url = MASK),
      t_validate = (\<lambda>parse_url. require_https parse_url webhook_url ''webhook_url''),
      t_abuse_url = Some webhook_url, t_operator_managed = False, t_lifecycle_ref = None\<rparr>"

definition zulip_impl :: "string \<Rightarrow> string \<Rightarrow> string \<Rightarrow> string \<Rightarrow> string \<Rightarrow> transport" where
  "zulip_impl server_url email api_key stream topic =
     \<lparr>t_kind = channel_kind.Zulip,
      t_redacted = channel_config.Zulip server_url email MASK stream topic,
      t_sentinel = (api_key = MASK),
      t_validate = (\<lambda>parse_url. run_checks
        [require_https parse_url server_url ''server_url'',
         reject (trim email = []) ''email is required'',
         reject (trim api_key = []) ''api_key is required'',
         reject (trim stream = []) ''stream is required'',
         reject (trim topic = []) ''topic is required'']),
      t_abuse_url = Some server_url, t_operator_managed = False, t_lifecycle_ref = None\<rparr>"

definition github_impl :: "string \<Rightarrow> string \<Rightarrow> string \<Rightarrow> transport" where
  "github_impl repo token api_url =
     \<lparr>t_kind = channel_kind.GitHub,
      t_redacted = channel_config.GitHub repo MASK api_url,
      t_sentinel = (token = MASK),
      t_validate = (\<lambda>parse_url. run_checks
        [reject (trim repo = [] \<or> CHR ''/'' \<notin> set repo) ''repo must be in owner/repo format'',
         reject (trim token = []) ''token is required'',
         require_https parse_url api_url ''api_url'']),
      t_abuse_url = Some api_url, t_operator_managed = False, t_lifecycle_ref = None\<rparr>"

definition gitlab_impl :: "string \<Rightarrow> string \<Rightarrow> string \<Rightarrow> transport" where
  "gitlab_impl repo token api_url =
     \<lparr>t_kind = channel_kind.GitLab,
      t_redacted = channel_config.GitLab repo MASK api_url,
      t_sentinel = (token = MASK),
      t_validate = (\<lambda>parse_url. run_checks
        [reject (trim repo = []) ''repo is required'',
         reject (trim token = []) ''token is required'',
         require_https parse_url api_url ''api_url'']),
      t_abuse_url = Some api_url, t_operator_managed = False, t_lifecycle_ref = None\<rparr>"

definition gitea_impl :: "string \<Rightarrow> string \<Rightarrow> string \<Rightarrow> transport" where
  "gitea_impl repo token api_url =
     \<lparr>t_kind = channel_kind.Gitea,
      t_redacted = channel_config.Gitea repo MASK api_url,
      t_sentinel = (token = MASK),
      t_validate = (\<lambda>parse_url. run_checks
        [reject (trim repo = [] \<or> CHR ''/'' \<notin> set repo) ''repo must be in owner/repo format'',
         reject (trim token = []) ''token is required'',
         require_https parse_url api_url ''api_url'']),
      t_abuse_url = Some api_url, t_operator_managed = False, t_lifecycle_ref = None\<rparr>"

definition ilert_impl :: "string \<Rightarrow> transport" where
  "ilert_impl api_key =
     \<lparr>t_kind = channel_kind.Ilert,
      t_redacted = channel_config.Ilert MASK,
      t_sentinel = (api_key = MASK),
      t_validate = (\<lambda>_. reject (trim api_key = []) ''api_key is required''),
      t_abuse_url = None, t_operator_managed = False, t_lifecycle_ref = None\<rparr>"

definition incidentio_impl :: "string \<Rightarrow> transport" where
  "incidentio_impl api_key =
     \<lparr>t_kind = channel_kind.Incidentio,
      t_redacted = channel_config.Incidentio MASK,
      t_sentinel = (api_key = MASK),
      t_validate = (\<lambda>_. reject (trim api_key = []) ''api_key is required''),
      t_abuse_url = None, t_operator_managed = False, t_lifecycle_ref = None\<rparr>"

definition squadcast_impl :: "string \<Rightarrow> transport" where
  "squadcast_impl webhook_url =
     \<lparr>t_kind = channel_kind.Squadcast,
      t_redacted = channel_config.Squadcast MASK,
      t_sentinel = (webhook_url = MASK),
      t_validate = (\<lambda>parse_url. require_https parse_url webhook_url ''webhook_url''),
      t_abuse_url = Some webhook_url, t_operator_managed = False, t_lifecycle_ref = None\<rparr>"

definition signl4_impl :: "string \<Rightarrow> string \<Rightarrow> transport" where
  "signl4_impl webhook_url secret =
     \<lparr>t_kind = channel_kind.SIGNL4,
      t_redacted = channel_config.SIGNL4 MASK MASK,
      t_sentinel = (webhook_url = MASK \<or> secret = MASK),
      t_validate = (\<lambda>parse_url. run_checks
        [require_https parse_url webhook_url ''webhook_url'',
         reject (trim secret = []) ''secret is required'']),
      t_abuse_url = Some webhook_url, t_operator_managed = False, t_lifecycle_ref = None\<rparr>"

definition datadog_impl :: "string \<Rightarrow> string \<Rightarrow> transport" where
  "datadog_impl api_key app_key =
     \<lparr>t_kind = channel_kind.Datadog,
      t_redacted = channel_config.Datadog MASK MASK,
      t_sentinel = (api_key = MASK \<or> app_key = MASK),
      t_validate = (\<lambda>_. run_checks
        [reject (trim api_key = []) ''api_key is required'',
         reject (trim app_key = []) ''app_key is required'']),
      t_abuse_url = None, t_operator_managed = False, t_lifecycle_ref = None\<rparr>"

definition newrelic_impl :: "string \<Rightarrow> string \<Rightarrow> transport" where
  "newrelic_impl api_key account_id =
     \<lparr>t_kind = channel_kind.NewRelic,
      t_redacted = channel_config.NewRelic MASK account_id,
      t_sentinel = (api_key = MASK),
      t_validate = (\<lambda>_. run_checks
        [reject (trim api_key = []) ''api_key is required'',
         reject (trim account_id = []) ''account_id is required'']),
      t_abuse_url = None, t_operator_managed = False, t_lifecycle_ref = None\<rparr>"

definition splunk_impl :: "string \<Rightarrow> string \<Rightarrow> transport" where
  "splunk_impl hec_url hec_token =
     \<lparr>t_kind = channel_kind.Splunk,
      t_redacted = channel_config.Splunk hec_url MASK,
      t_sentinel = (hec_token = MASK),
      t_validate = (\<lambda>parse_url. run_checks
        [require_https parse_url hec_url ''hec_url'',
         reject (trim hec_token = []) ''hec_token is required'']),
      t_abuse_url = Some hec_url, t_operator_managed = False, t_lifecycle_ref = None\<rparr>"

definition line_impl :: "string \<Rightarrow> transport" where
  "line_impl channel_access_token =
     \<lparr>t_kind = channel_kind.Line,
      t_redacted = channel_config.Line MASK,
      t_sentinel = (channel_access_token = MASK),
      t_validate = (\<lambda>_. reject (trim channel_access_token = []) ''channel_access_token is required''),
      t_abuse_url = None, t_operator_managed = False, t_lifecycle_ref = None\<rparr>"

definition signal_impl :: "string \<Rightarrow> string \<Rightarrow> transport" where
  "signal_impl phone_number api_url =
     \<lparr>t_kind = channel_kind.Signal,
      t_redacted = channel_config.Signal phone_number MASK,
      t_sentinel = (api_url = MASK),
      t_validate = (\<lambda>parse_url. run_checks
        [reject (trim phone_number = []) ''phone_number is required'',
         require_https parse_url api_url ''api_url'']),
      t_abuse_url = Some api_url, t_operator_managed = False, t_lifecycle_ref = None\<rparr>"

definition clickup_impl :: "string \<Rightarrow> transport" where
  "clickup_impl webhook_url =
     \<lparr>t_kind = channel_kind.ClickUp,
      t_redacted = channel_config.ClickUp MASK,
      t_sentinel = (webhook_url = MASK),
      t_validate = (\<lambda>parse_url. require_https parse_url webhook_url ''webhook_url''),
      t_abuse_url = Some webhook_url, t_operator_managed = False, t_lifecycle_ref = None\<rparr>"

definition ifttt_impl :: "string \<Rightarrow> string \<Rightarrow> transport" where
  "ifttt_impl webhook_key event_name =
     \<lparr>t_kind = channel_kind.Ifttt,
      t_redacted = channel_config.Ifttt MASK event_name,
      t_sentinel = (webhook_key = MASK),
      t_validate = (\<lambda>_. run_checks
        [reject (trim webhook_key = []) ''webhook_key is required'',
         reject (trim event_name = []) ''event_name is required'']),
      t_abuse_url = None, t_operator_managed = False, t_lifecycle_ref = None\<rparr>"

definition zapier_impl :: "string \<Rightarrow> transport" where
  "zapier_impl webhook_url =
     \<lparr>t_kind = channel_kind.Zapier,
      t_redacted = channel_config.Zapier MASK,
      t_sentinel = (webhook_url = MASK),
      t_validate = (\<lambda>parse_url. require_https parse_url webhook_url ''webhook_url''),
      t_abuse_url = Some webhook_url, t_operator_managed = False, t_lifecycle_ref = None\<rparr>"

definition n8n_impl :: "string \<Rightarrow> transport" where
  "n8n_impl webhook_url =
     \<lparr>t_kind = channel_kind.N8n,
      t_redacted = channel_config.N8n MASK,
      t_sentinel = (webhook_url = MASK),
      t_validate = (\<lambda>parse_url. require_https parse_url webhook_url ''webhook_url''),
      t_abuse_url = Some webhook_url, t_operator_managed = False, t_lifecycle_ref = None\<rparr>"

definition homeassistant_impl :: "string \<Rightarrow> transport" where
  "homeassistant_impl webhook_url =
     \<lparr>t_kind = channel_kind.HomeAssistant,
      t_redacted = channel_config.HomeAssistant MASK,
      t_sentinel = (webhook_url = MASK),
      t_validate = (\<lambda>parse_url. require_https parse_url webhook_url ''webhook_url''),
      t_abuse_url = Some webhook_url, t_operator_managed = False, t_lifecycle_ref = None\<rparr>"

definition awsses_impl :: "string \<Rightarrow> string \<Rightarrow> transport" where
  "awsses_impl region from_address =
     \<lparr>t_kind = channel_kind.AwsSes,
      t_redacted = channel_config.AwsSes region from_address,
      t_sentinel = False,
      t_validate = (\<lambda>_. run_checks
        [reject (trim region = []) ''region is required'',
         reject (trim from_address = [] \<or> CHR ''@'' \<notin> set from_address) ''from_address must be a valid email'']),
      t_abuse_url = None, t_operator_managed = False, t_lifecycle_ref = None\<rparr>"

definition sendgrid_impl :: "string \<Rightarrow> string \<Rightarrow> transport" where
  "sendgrid_impl api_key from_address =
     \<lparr>t_kind = channel_kind.SendGrid,
      t_redacted = channel_config.SendGrid MASK from_address,
      t_sentinel = (api_key = MASK),
      t_validate = (\<lambda>_. run_checks
        [reject (trim api_key = []) ''api_key is required'',
         reject (trim from_address = [] \<or> CHR ''@'' \<notin> set from_address) ''from_address must be a valid email'']),
      t_abuse_url = None, t_operator_managed = False, t_lifecycle_ref = None\<rparr>"

fun with_transport :: "channel_config \<Rightarrow> transport" where
  "with_transport (channel_config.Webhook url headers secret) = webhook_impl url headers secret"
| "with_transport (channel_config.Slack webhook_url) = slack_impl webhook_url"
| "with_transport (channel_config.Telegram bot_token chat_id) = telegram_impl bot_token chat_id"
| "with_transport (channel_config.TelegramApp chat_id chat_title) = telegram_app_impl chat_id chat_title"
| "with_transport (channel_config.WhatsApp access_token phone_number_id to template_name language_code) = whatsapp_impl access_token phone_number_id to template_name language_code"
| "with_transport (channel_config.WhatsAppApp phone profile_name) = whatsapp_app_impl phone profile_name"
| "with_transport (channel_config.Discord webhook_url) = discord_impl webhook_url"
| "with_transport (channel_config.MsTeams webhook_url) = msteams_impl webhook_url"
| "with_transport (channel_config.GoogleChat webhook_url) = google_chat_impl webhook_url"
| "with_transport (channel_config.Email to) = email_impl to"
| "with_transport (channel_config.PagerDuty routing_key) = pagerduty_impl routing_key"
| "with_transport (channel_config.Ntfy server_url topic access_token) = ntfy_impl server_url topic access_token"
| "with_transport (channel_config.Pushover token user device emergency) = pushover_impl token user device emergency"
| "with_transport (channel_config.Sms config) = sms_impl config"
| "with_transport (channel_config.Opsgenie api_key region) = opsgenie_impl api_key region"
| "with_transport (channel_config.Gotify server_url app_token) = gotify_impl server_url app_token"
| "with_transport (channel_config.Matrix homeserver_url access_token room_id) = matrix_impl homeserver_url access_token room_id"
| "with_transport (channel_config.Mattermost webhook_url) = mattermost_impl webhook_url"
| "with_transport (channel_config.Rocketchat webhook_url) = rocketchat_impl webhook_url"
| "with_transport (channel_config.Webex webhook_url) = webex_impl webhook_url"
| "with_transport (channel_config.Zulip server_url email api_key stream topic) = zulip_impl server_url email api_key stream topic"
| "with_transport (channel_config.GitHub repo token api_url) = github_impl repo token api_url"
| "with_transport (channel_config.GitLab repo token api_url) = gitlab_impl repo token api_url"
| "with_transport (channel_config.Gitea repo token api_url) = gitea_impl repo token api_url"
| "with_transport (channel_config.Ilert api_key) = ilert_impl api_key"
| "with_transport (channel_config.Incidentio api_key) = incidentio_impl api_key"
| "with_transport (channel_config.Squadcast webhook_url) = squadcast_impl webhook_url"
| "with_transport (channel_config.SIGNL4 webhook_url secret) = signl4_impl webhook_url secret"
| "with_transport (channel_config.Datadog api_key app_key) = datadog_impl api_key app_key"
| "with_transport (channel_config.NewRelic api_key account_id) = newrelic_impl api_key account_id"
| "with_transport (channel_config.Splunk hec_url hec_token) = splunk_impl hec_url hec_token"
| "with_transport (channel_config.Line channel_access_token) = line_impl channel_access_token"
| "with_transport (channel_config.Signal phone_number api_url) = signal_impl phone_number api_url"
| "with_transport (channel_config.ClickUp webhook_url) = clickup_impl webhook_url"
| "with_transport (channel_config.Ifttt webhook_key event_name) = ifttt_impl webhook_key event_name"
| "with_transport (channel_config.Zapier webhook_url) = zapier_impl webhook_url"
| "with_transport (channel_config.N8n webhook_url) = n8n_impl webhook_url"
| "with_transport (channel_config.HomeAssistant webhook_url) = homeassistant_impl webhook_url"
| "with_transport (channel_config.AwsSes region from_address) = awsses_impl region from_address"
| "with_transport (channel_config.SendGrid api_key from_address) = sendgrid_impl api_key from_address"

section \<open>The operations of a configuration\<close>

definition kind :: "channel_config \<Rightarrow> channel_kind" where
  "kind c = t_kind (with_transport c)"

definition redact_in_place :: "channel_config \<Rightarrow> channel_config" where
  "redact_in_place c = t_redacted (with_transport c)"

definition has_redaction_sentinel :: "channel_config \<Rightarrow> bool" where
  "has_redaction_sentinel c = t_sentinel (with_transport c)"

definition validate :: "(string \<Rightarrow> url option) \<Rightarrow> channel_config \<Rightarrow> string + unit" where
  "validate parse_url c = t_validate (with_transport c) parse_url"

definition abuse_url :: "channel_config \<Rightarrow> string option" where
  "abuse_url c = t_abuse_url (with_transport c)"

definition operator_managed :: "channel_config \<Rightarrow> bool" where
  "operator_managed c = t_operator_managed (with_transport c)"

definition lifecycle_ref :: "channel_config \<Rightarrow> string option" where
  "lifecycle_ref c = t_lifecycle_ref (with_transport c)"

definition MAX_CHANNEL_NAME_LEN :: nat where
  "MAX_CHANNEL_NAME_LEN = 100"

definition validate_channel_name :: "string \<Rightarrow> string + unit" where
  "validate_channel_name name =
     run_checks [reject (trim name = []) ''name is required'',
                 reject (MAX_CHANNEL_NAME_LEN < length (trim name)) ''name must be at most 100 characters'']"

section \<open>Secrets\<close>

text \<open>The secret-bearing values of a configuration, transport by transport.\<close>

fun sms_secret :: "sms_config \<Rightarrow> string" where
  "sms_secret (Twilio _ _ _ auth_token) = auth_token"
| "sms_secret (Telnyx _ _ api_key _) = api_key"
| "sms_secret (Vonage _ _ _ api_secret) = api_secret"
| "sms_secret (Plivo _ _ _ auth_token) = auth_token"
| "sms_secret (Sinch _ _ _ api_token _) = api_token"

fun secrets :: "channel_config \<Rightarrow> string list" where
  "secrets (channel_config.Webhook url headers secret) = url # map snd headers @ (case secret of Some s \<Rightarrow> [s] | None \<Rightarrow> [])"
| "secrets (channel_config.Slack webhook_url) = [webhook_url]"
| "secrets (channel_config.Telegram bot_token _) = [bot_token]"
| "secrets (channel_config.TelegramApp _ _) = []"
| "secrets (channel_config.WhatsApp access_token _ _ _ _) = [access_token]"
| "secrets (channel_config.WhatsAppApp _ _) = []"
| "secrets (channel_config.Discord webhook_url) = [webhook_url]"
| "secrets (channel_config.MsTeams webhook_url) = [webhook_url]"
| "secrets (channel_config.GoogleChat webhook_url) = [webhook_url]"
| "secrets (channel_config.Email _) = []"
| "secrets (channel_config.PagerDuty routing_key) = [routing_key]"
| "secrets (channel_config.Ntfy _ _ access_token) = (case access_token of Some s \<Rightarrow> [s] | None \<Rightarrow> [])"
| "secrets (channel_config.Pushover token user _ _) = [token, user]"
| "secrets (channel_config.Sms config) = [sms_secret config]"
| "secrets (channel_config.Opsgenie api_key _) = [api_key]"
| "secrets (channel_config.Gotify _ app_token) = [app_token]"
| "secrets (channel_config.Matrix _ access_token _) = [access_token]"
| "secrets (channel_config.Mattermost webhook_url) = [webhook_url]"
| "secrets (channel_config.Rocketchat webhook_url) = [webhook_url]"
| "secrets (channel_config.Webex webhook_url) = [webhook_url]"
| "secrets (channel_config.Zulip _ _ api_key _ _) = [api_key]"
| "secrets (channel_config.GitHub _ token _) = [token]"
| "secrets (channel_config.GitLab _ token _) = [token]"
| "secrets (channel_config.Gitea _ token _) = [token]"
| "secrets (channel_config.Ilert api_key) = [api_key]"
| "secrets (channel_config.Incidentio api_key) = [api_key]"
| "secrets (channel_config.Squadcast webhook_url) = [webhook_url]"
| "secrets (channel_config.SIGNL4 webhook_url secret) = [webhook_url, secret]"
| "secrets (channel_config.Datadog api_key app_key) = [api_key, app_key]"
| "secrets (channel_config.NewRelic api_key _) = [api_key]"
| "secrets (channel_config.Splunk _ hec_token) = [hec_token]"
| "secrets (channel_config.Line channel_access_token) = [channel_access_token]"
| "secrets (channel_config.Signal _ api_url) = [api_url]"
| "secrets (channel_config.ClickUp webhook_url) = [webhook_url]"
| "secrets (channel_config.Ifttt webhook_key _) = [webhook_key]"
| "secrets (channel_config.Zapier webhook_url) = [webhook_url]"
| "secrets (channel_config.N8n webhook_url) = [webhook_url]"
| "secrets (channel_config.HomeAssistant webhook_url) = [webhook_url]"
| "secrets (channel_config.AwsSes _ _) = []"
| "secrets (channel_config.SendGrid api_key _) = [api_key]"


lemmas transport_impls =
  webhook_impl_def slack_impl_def telegram_impl_def telegram_app_impl_def whatsapp_impl_def
  whatsapp_app_impl_def discord_impl_def msteams_impl_def google_chat_impl_def email_impl_def
  pagerduty_impl_def ntfy_impl_def pushover_impl_def sms_impl_def opsgenie_impl_def gotify_impl_def
  matrix_impl_def mattermost_impl_def rocketchat_impl_def webex_impl_def zulip_impl_def
  github_impl_def gitlab_impl_def gitea_impl_def ilert_impl_def incidentio_impl_def
  squadcast_impl_def signl4_impl_def datadog_impl_def newrelic_impl_def splunk_impl_def
  line_impl_def signal_impl_def clickup_impl_def ifttt_impl_def zapier_impl_def n8n_impl_def
  homeassistant_impl_def awsses_impl_def sendgrid_impl_def

lemma sms_redact_simps [simp]:
  "sms_secret (sms_redact s) = MASK" "sms_redact (sms_redact s) = sms_redact s"
  "sms_sentinel s \<longleftrightarrow> sms_secret s = MASK"
  by (cases s; simp)+

lemma kind_redact [simp]: "kind (redact_in_place c) = kind c"
  by (cases c) (simp_all add: kind_def redact_in_place_def transport_impls)

lemma redact_idem [simp]: "redact_in_place (redact_in_place c) = redact_in_place c"
  by (cases c) (simp_all add: redact_in_place_def transport_impls comp_def split_def option.map_comp)

lemma secrets_redact: "secrets (redact_in_place c) = map (\<lambda>_. MASK) (secrets c)"
  by (cases c) (simp_all add: redact_in_place_def transport_impls split_def comp_def split: option.split)

lemma list_ex_snd: "list_ex (\<lambda>(_, v). v = m) xs \<longleftrightarrow> m \<in> snd ` set xs"
  by (induction xs) auto

lemma mask_in_masked: "m \<in> set (map (\<lambda>_. m) xs) \<longleftrightarrow> xs \<noteq> []"
  by (cases xs) auto

lemma sentinel_iff: "has_redaction_sentinel c \<longleftrightarrow> MASK \<in> set (secrets c)"
  by (cases c) (auto simp: has_redaction_sentinel_def transport_impls list_ex_snd split: option.splits)

text \<open>
  Redaction hides every secret and nothing slips back.  The masked copy of
  a channel configuration keeps the transport and carries the mask in place of
  each secret; masking twice changes nothing; a configuration carries the
  sentinel exactly when one of its secrets is the mask, so the masked copy of
  every configuration that has a secret is recognised by the sentinel test.
\<close>

theorem redaction_masks_secrets:
  "kind (redact_in_place c) = kind c \<and>
   secrets (redact_in_place c) = map (\<lambda>_. MASK) (secrets c) \<and>
   redact_in_place (redact_in_place c) = redact_in_place c \<and>
   (has_redaction_sentinel c \<longleftrightarrow> MASK \<in> set (secrets c)) \<and>
   (has_redaction_sentinel (redact_in_place c) \<longleftrightarrow> secrets c \<noteq> [])"
  by (simp only: kind_redact secrets_redact redact_idem sentinel_iff mask_in_masked simp_thms)

lemma run_checks_Ok: "run_checks cs = Ok () \<longleftrightarrow> (\<forall>c\<in>set cs. c = Ok ())"
  by (induction cs) (auto split: sum.split)

lemma require_https_Ok: "require_https parse_url u f = Ok () \<longleftrightarrow> (\<exists>p. parse_url u = Some p \<and> url_scheme p = ''https'')"
  by (auto simp: require_https_def split: option.splits)

lemma require_provider_webhook_https:
  "require_provider_webhook parse_url u pr ds pp = Ok () \<Longrightarrow> \<exists>p. parse_url u = Some p \<and> url_scheme p = ''https''"
  by (auto simp: require_provider_webhook_def split: option.splits if_splits)

text \<open>
  A configuration that passes validation and sends to a customer-supplied
  URL sends to an https URL: whatever the abuse gate is given to inspect was
  parsed and has the scheme \<open>https\<close>.
\<close>

theorem validated_abuse_url_is_https:
  assumes "validate parse_url c = Ok ()" "abuse_url c = Some u"
  shows "\<exists>p. parse_url u = Some p \<and> url_scheme p = ''https''"
  using assms
  by (cases c)
    (auto simp: validate_def abuse_url_def transport_impls require_https_Ok run_checks_Ok
      simp del: run_checks.simps dest: require_provider_webhook_https)

definition parse_https :: "string \<Rightarrow> url option" where
  "parse_https s =
     (if starts_with s ''https://'' then
        Some \<lparr>url_scheme = ''https'', url_host = Some (takeWhile (\<lambda>c. c \<noteq> CHR ''/'') (drop 8 s)),
              url_path = dropWhile (\<lambda>c. c \<noteq> CHR ''/'') (drop 8 s), url_query = None, url_fragment = None,
              url_username = [], url_password = None\<rparr>
      else None)"

lemma validated_abuse_url_is_https_witness:
  "url_scheme (the (parse_https ''https://discord.com/api/webhooks/1'')) = ''https''"
proof -
  have "validate parse_https (channel_config.Discord ''https://discord.com/api/webhooks/1'') = Ok ()"
    by (simp add: validate_def discord_impl_def require_provider_webhook_def parse_https_def starts_with_def
        to_ascii_lowercase_def to_ascii_lower_char_def trim_end_matches_def Let_def)
  moreover have "abuse_url (channel_config.Discord ''https://discord.com/api/webhooks/1'')
      = Some ''https://discord.com/api/webhooks/1''"
    by (simp add: abuse_url_def discord_impl_def)
  ultimately show ?thesis using validated_abuse_url_is_https by fastforce
qed

text \<open>
  Only the operator's own link flows may produce the two shared-bot
  transports, and exactly those and email have a provider-side lifecycle
  reference, which is the destination itself and survives redaction.
\<close>

theorem operator_managed_transports:
  "(operator_managed c \<longleftrightarrow> kind c = channel_kind.TelegramApp \<or> kind c = channel_kind.WhatsAppApp) \<and>
   (lifecycle_ref c \<noteq> None \<longleftrightarrow> operator_managed c \<or> kind c = channel_kind.Email) \<and>
   lifecycle_ref (redact_in_place c) = lifecycle_ref c"
  by (cases c) (simp_all add: operator_managed_def kind_def lifecycle_ref_def redact_in_place_def transport_impls)

end
