(* ===== verification/Check_Spec.thy ===== *)
theory Check_Spec
  imports Channel_Config
begin

text \<open>
  \<open>crates/core/src/domain/check.rs\<close>: what a monitor checks.  One record per
  check struct, the tagged union \<open>CheckSpec\<close>, its kind strings, the kinds the
  control plane can run and the interval floor of each kind.  The public
  suffix list (crate \<open>psl\<close>) is a parameter of the registrable-domain lookup.
  A probe timeout (\<open>std::time::Duration\<close>) is a duration in nanoseconds.
\<close>

section \<open>Check structures\<close>

datatype (plugins only: code) http_method = Get | Head | Post | Put | Patch | Delete | Options

datatype (plugins only: code) expected_status = Exact nat | Range nat nat | OneOf "nat list"

datatype (plugins only: code) dns_rcode = Noerror | Nxdomain | Servfail | Refused | Formerr | Notimp

datatype (plugins only: code) dns_record_type = A | Aaaa | Cname | Mx | Ns | Txt | Soa | Ptr | Caa | Srv

record body_condition =
  bc_path :: string
  bc_value :: "string option"
  bc_exists :: bool
  bc_negate :: bool

record http_check =
  hc_url :: url
  hc_method :: http_method
  hc_timeout :: duration
  hc_follow_redirects :: bool
  hc_max_redirects :: nat
  hc_expected_status :: expected_status
  hc_expected_body_contains :: "string option"
  hc_headers :: "(string \<times> string) list"
  hc_body :: "string option"
  hc_verify_tls :: bool
  hc_basic_auth :: "(string \<times> string) option"
  hc_bearer_token :: "string option"
  hc_body_conditions :: "body_condition list option"
  hc_max_response_time_ms :: "nat option"
  hc_cert_expiry_warn_days :: "nat option"

record tcp_check =
  tcp_host :: string
  tcp_port :: nat
  tcp_timeout :: duration

record ping_check =
  png_host :: string
  png_timeout :: duration

record heartbeat_check =
  hb_period :: duration
  hb_grace :: duration

record tls_cert_check =
  tls_host :: string
  tls_port :: nat
  tls_server_name :: "string option"
  tls_warn_days :: nat
  tls_critical_days :: nat
  tls_timeout :: duration

record domain_expiry_check =
  dx_domain :: string
  dx_warn_days :: nat
  dx_critical_days :: nat
  dx_timeout :: duration

record dns_check =
  dns_domain :: string
  dns_rtype :: dns_record_type
  dns_resolver :: "string option"
  dns_expected_contains :: "string option"
  dns_timeout :: duration
  dns_expected_rcode :: "dns_rcode option"

datatype (plugins only: code) flow_step =
    Goto url
  | Click string
  | Fill string string
  | WaitFor string
  | AssertText "string option" string
  | AssertUrl string

record flow_check =
  fl_start_url :: url
  fl_steps :: "flow_step list"
  fl_timeout :: duration
  fl_step_timeout :: duration
  fl_verify_tls :: bool

record websocket_check =
  ws_url :: url
  ws_message :: "string option"
  ws_expected_response_contains :: "string option"
  ws_timeout :: duration

record grpc_check =
  gr_url :: url
  gr_service :: "string option"
  gr_timeout :: duration

record ssh_check =
  ssh_host :: string
  ssh_port :: nat
  ssh_timeout :: duration
  ssh_username :: "string option"
  ssh_password :: "string option"

record udp_check =
  udp_host :: string
  udp_port :: nat
  udp_payload :: "string option"
  udp_expected_response_contains :: "string option"
  udp_timeout :: duration

record starttls_check =
  st_host :: string
  st_port :: nat
  st_timeout :: duration

record suite_step =
  sst_name :: string
  sst_check :: http_check
  sst_extract :: "(string \<times> string) list option"
  sst_always_run :: bool

record suite_check =
  su_steps :: "suite_step list"
  su_timeout :: duration

datatype (plugins only: code) check_spec =
    Http http_check
  | Tcp tcp_check
  | Ping ping_check
  | Heartbeat heartbeat_check
  | TlsCert tls_cert_check
  | DomainExpiry domain_expiry_check
  | Dns dns_check
  | Flow flow_check
  | WebSocket websocket_check
  | Grpc grpc_check
  | Ssh ssh_check
  | Udp udp_check
  | Starttls starttls_check
  | Suite suite_check

section \<open>Kinds\<close>

definition ALL_KINDS :: "string list" where
  "ALL_KINDS = [''http'', ''tcp'', ''ping'', ''heartbeat'', ''dns'', ''tls_cert'', ''domain_expiry'', ''flow'',
     ''websocket'', ''grpc'', ''ssh'', ''udp'', ''starttls'', ''suite'']"

definition CONTROL_PLANE_KINDS :: "string list" where
  "CONTROL_PLANE_KINDS = [''http'', ''tcp'', ''ping'', ''heartbeat'', ''dns'', ''tls_cert'',
     ''websocket'', ''grpc'', ''ssh'', ''udp'', ''starttls'']"

fun check_kind :: "check_spec \<Rightarrow> string" where
  "check_kind (Http _) = ''http''"
| "check_kind (Tcp _) = ''tcp''"
| "check_kind (Ping _) = ''ping''"
| "check_kind (Heartbeat _) = ''heartbeat''"
| "check_kind (Dns _) = ''dns''"
| "check_kind (TlsCert _) = ''tls_cert''"
| "check_kind (DomainExpiry _) = ''domain_expiry''"
| "check_kind (Flow _) = ''flow''"
| "check_kind (WebSocket _) = ''websocket''"
| "check_kind (Grpc _) = ''grpc''"
| "check_kind (Ssh _) = ''ssh''"
| "check_kind (Udp _) = ''udp''"
| "check_kind (Starttls _) = ''starttls''"
| "check_kind (Suite _) = ''suite''"

fun is_passive :: "check_spec \<Rightarrow> bool" where
  "is_passive (Heartbeat _) = True"
| "is_passive _ = False"

fun supported_on_control_plane :: "check_spec \<Rightarrow> bool" where
  "supported_on_control_plane (Http _) = True"
| "supported_on_control_plane (Tcp _) = True"
| "supported_on_control_plane (Ping _) = True"
| "supported_on_control_plane (Heartbeat _) = True"
| "supported_on_control_plane (Dns _) = True"
| "supported_on_control_plane (TlsCert _) = True"
| "supported_on_control_plane (WebSocket _) = True"
| "supported_on_control_plane (Grpc _) = True"
| "supported_on_control_plane (Ssh _) = True"
| "supported_on_control_plane (Udp _) = True"
| "supported_on_control_plane (Starttls _) = True"
| "supported_on_control_plane _ = False"

datatype (plugins only: code) check_spec_error = NotSupportedOnControlPlane string

definition require_control_plane_support :: "check_spec \<Rightarrow> check_spec_error + unit" where
  "require_control_plane_support c =
     (if supported_on_control_plane c then Ok () else Err (NotSupportedOnControlPlane (check_kind c)))"

definition min_interval_secs_for_kind :: "string \<Rightarrow> nat" where
  "min_interval_secs_for_kind k =
     (if k = ''tls_cert'' \<or> k = ''domain_expiry'' then 3600
      else if k = ''flow'' then 300
      else if k = ''heartbeat'' then 60
      else if k = ''suite'' then 60
      else if k \<in> {''websocket'', ''grpc'', ''ssh'', ''udp'', ''starttls''} then 10
      else 10)"

section \<open>Registrable domains\<close>

definition normalize_domain :: "string \<Rightarrow> string" where
  "normalize_domain domain = to_ascii_lowercase (trim_end_matches CHR ''.'' (trim domain))"

definition resolve_registrable :: "(string \<Rightarrow> string option) \<Rightarrow> string \<Rightarrow> string" where
  "resolve_registrable psl normalized = (case psl normalized of None \<Rightarrow> normalized | Some d \<Rightarrow> d)"

definition registered_domain :: "(string \<Rightarrow> string option) \<Rightarrow> string \<Rightarrow> string" where
  "registered_domain psl domain = resolve_registrable psl (normalize_domain domain)"

definition reduced_domain_hint :: "(string \<Rightarrow> string option) \<Rightarrow> string \<Rightarrow> string option" where
  "reduced_domain_hint psl domain =
     (let normalized = normalize_domain domain; registered = resolve_registrable psl normalized
      in if registered \<noteq> normalized then Some registered else None)"

section \<open>Properties\<close>

lemma check_kind_in_ALL_KINDS: "check_kind c \<in> set ALL_KINDS"
  by (cases c) (simp_all add: ALL_KINDS_def)

lemma supported_iff_kind: "supported_on_control_plane c \<longleftrightarrow> check_kind c \<in> set CONTROL_PLANE_KINDS"
  by (cases c) (simp_all add: CONTROL_PLANE_KINDS_def)

text \<open>
  The kind string decides where a check runs.  A check passes the
  control-plane gate exactly when its kind is in the published list of
  control-plane kinds; the gate refuses exactly domain expiry, browser flow
  and suite checks, naming the kind; DNS and certificate checks pass, contrary
  to the comments that call them agent-only.
\<close>

theorem control_plane_gate:
  "(require_control_plane_support c = Ok () \<longleftrightarrow> check_kind c \<in> set CONTROL_PLANE_KINDS) \<and>
   (require_control_plane_support c = Err (NotSupportedOnControlPlane k) \<longleftrightarrow>
      k = check_kind c \<and> k \<in> {''domain_expiry'', ''flow'', ''suite''}) \<and>
   set CONTROL_PLANE_KINDS = set ALL_KINDS - {''domain_expiry'', ''flow'', ''suite''}"
  unfolding require_control_plane_support_def supported_iff_kind
  by (cases c) (auto simp: CONTROL_PLANE_KINDS_def ALL_KINDS_def)

end
