(* ===== verification/Slugs.thy ===== *)
theory Slugs
  imports Text_Util
begin

text \<open>
  Status-page slugs: the table of reserved words
  (\<open>crates/core/src/domain/reserved_slugs.rs\<close>), the validator
  (\<open>validate_slug\<close> in \<open>org.rs\<close>) and the generator of the slug a new account
  starts with (\<open>word_lists.rs\<close>).  The random number generator (crate
  \<open>fastrand\<close>) is a parameter.
\<close>

section \<open>Word tables\<close>

definition reserved_system :: "string list" where
  "reserved_system = [
    ''admin'', ''api'', ''app'', ''apps'', ''auth'', ''billing'', ''blog'', ''ci'', ''console'',
    ''dashboard'', ''dev'', ''docs'', ''embed'', ''feed'', ''feeds'', ''ftp'', ''git'', ''help'', ''home'',
    ''host'', ''imap'', ''internal'', ''login'', ''logout'', ''mail'', ''mcp'', ''mx'', ''ns'', ''ns1'',
    ''ns2'', ''official'', ''page'', ''pages'', ''personal'', ''pop3'', ''portal'', ''private'', ''prod'',
    ''public'', ''register'', ''root'', ''rss'', ''secure'', ''settings'', ''signin'', ''signup'',
    ''site'', ''smtp'', ''ssh'', ''ssl'', ''staging'', ''static'', ''status'', ''support'', ''system'',
    ''team'', ''test'', ''tools'', ''tos'', ''user'', ''users'', ''vpn'', ''web'', ''webmail'', ''www'']"

definition reserved_brands :: "string list" where
  "reserved_brands = [
    ''apple'', ''google'', ''microsoft'', ''amazon'', ''meta'', ''facebook'', ''twitter'', ''x'',
    ''instagram'', ''tiktok'', ''youtube'', ''linkedin'', ''github'', ''gitlab'', ''bitbucket'',
    ''stripe'', ''paypal'', ''shopify'', ''slack'', ''discord'', ''zoom'', ''notion'', ''figma'',
    ''atlassian'', ''openai'', ''anthropic'', ''claude'', ''chatgpt'', ''perplexity'', ''nvidia'', ''amd'',
    ''intel'', ''tesla'', ''spacex'', ''spotify'', ''netflix'', ''disney'', ''uber'', ''airbnb'',
    ''doordash'', ''ibm'', ''oracle'', ''salesforce'', ''adobe'', ''samsung'', ''sony'', ''huawei'',
    ''xiaomi'', ''lenovo'', ''dell'', ''hp'', ''cisco'', ''twitch'', ''reddit'', ''pinterest'',
    ''snapchat'', ''whatsapp'', ''telegram'', ''signal'', ''wechat'', ''line'', ''kakaotalk'', ''ebay'',
    ''alibaba'', ''tencent'', ''baidu'', ''yandex'', ''vmware'', ''redhat'', ''ubuntu'', ''debian'',
    ''fedora'', ''docker'', ''kubernetes'', ''hashicorp'', ''terraform'', ''mongodb'', ''redis'',
    ''mysql'', ''snowflake'', ''databricks'', ''cloudflare'', ''akamai'', ''fastly'', ''vercel'',
    ''netlify'', ''heroku'', ''digitalocean'', ''linode'', ''twilio'', ''sendgrid'', ''mailchimp'',
    ''hubspot'', ''intercom'', ''zendesk'', ''freshworks'', ''asana'', ''trello'', ''monday'', ''linear'',
    ''jira'', ''confluence'', ''bitwarden'', ''1password'', ''lastpass'', ''okta'', ''auth0'', ''ping'']"

definition reserved_competitors :: "string list" where
  "reserved_competitors = [
    ''betterstack'', ''statuspage'', ''pingdom'', ''datadog'', ''uptimerobot'', ''pageruptime'',
    ''freshping'', ''cachet'', ''uptimekuma'', ''instatus'', ''checkly'', ''newrelic'', ''grafana'',
    ''honeycomb'', ''lightstep'', ''splunk'', ''elastic'', ''logz'', ''sumologic'', ''sentry'',
    ''bugsnag'', ''rollbar'', ''raygun'', ''appsignal'']"

definition reserved_subdomains_1 :: "string list" where
  "reserved_subdomains_1 = [
    ''account'', ''accounts'', ''alerts'', ''analytics'', ''archive'', ''backup'', ''backups'', ''cache'',
    ''callback'', ''callbacks'', ''cdn'', ''config'', ''control'', ''cron'', ''data'', ''db'', ''debug'',
    ''default'', ''demo'', ''deploy'', ''designer'', ''download'', ''engine'', ''error'', ''events'',
    ''experiments'', ''graphql'', ''healthcheck'', ''hub'', ''id'', ''idp'', ''key'', ''keys'', ''lab'',
    ''labs'', ''latest'', ''link'', ''links'', ''live'', ''logger'', ''logs'', ''manage'', ''metrics'',
    ''migration'', ''migrations'', ''monitor'', ''monitoring'', ''ops'', ''platform'', ''preview'',
    ''proxy'', ''queue'', ''queues'', ''raw'', ''reset'', ''rest'', ''rpc'', ''runtime'', ''schema'',
    ''sdk'', ''service'', ''services'', ''session'', ''sessions'', ''share'', ''shared'', ''socket'',
    ''sockets'', ''source'', ''stage'', ''stat'', ''stats'', ''stream'', ''streams'', ''swagger'', ''tcp'',
    ''telemetry'', ''trace'', ''traces'', ''track'', ''tracker'', ''tracking'', ''udp'', ''update'',
    ''updates'', ''upload'', ''uploads'', ''version'', ''versions'', ''vmstat'', ''webhooks'',
    ''workflow'', ''workflows'', ''ws'', ''wss'']"

definition reserved_subdomains_2 :: "string list" where
  "reserved_subdomains_2 = [
    ''authenticate'', ''captcha'', ''cookie'', ''cookies'', ''credentials'', ''csrf'', ''hmac'',
    ''identity'', ''jwt'', ''keycloak'', ''oauth'', ''oauth2'', ''oidc'', ''openid'', ''password'',
    ''passwords'', ''saml'', ''sso'', ''tokens'', ''abuse'', ''bounce'', ''bounces'', ''complaint'',
    ''complaints'', ''dkim'', ''dmarc'', ''e-mail'', ''email'', ''emails'', ''imaps'', ''mailing'',
    ''mailer'', ''noreply'', ''no-reply'', ''notification'', ''notifications'', ''pop'', ''pops'',
    ''postmaster'', ''sender'', ''smtps'', ''spam'', ''subscribe'', ''unsubscribe'', ''assets'', ''audio'',
    ''avatar'', ''avatars'', ''banner'', ''blogs'', ''comment'', ''comments'', ''content'', ''discover'',
    ''discuss'', ''feedback'', ''files'', ''folder'', ''folders'', ''forum'', ''forums'', ''gallery'',
    ''galleries'', ''gif'', ''gifs'', ''icon'', ''icons'', ''image'', ''images'', ''img'', ''library'',
    ''logo'', ''logos'', ''media'', ''music'', ''photo'', ''photos'', ''picture'', ''pictures'',
    ''podcast'', ''podcasts'', ''pre'', ''press'', ''publish'', ''publisher'', ''showcase'', ''thumb'',
    ''thumbs'', ''thumbnail'', ''thumbnails'', ''videos'', ''voice'', ''wiki'', ''about'', ''affiliate'',
    ''affiliates'', ''buy'']"

definition reserved_subdomains_3 :: "string list" where
  "reserved_subdomains_3 = [
    ''career'', ''careers'', ''checkout'', ''client'', ''clients'', ''company'', ''contact'',
    ''contracts'', ''customer'', ''customers'', ''discount'', ''donate'', ''enterprise'', ''group'',
    ''groups'', ''investor'', ''investors'', ''jobs'', ''legal'', ''marketing'', ''member'', ''members'',
    ''merchant'', ''news'', ''newsletter'', ''newsletters'', ''order'', ''orders'', ''partner'',
    ''partners'', ''pay'', ''payment'', ''payments'', ''plan'', ''plans'', ''policy'', ''price'',
    ''pricing'', ''privacy'', ''promo'', ''promotion'', ''promotions'', ''purchase'', ''referral'',
    ''referrals'', ''refund'', ''refunds'', ''reseller'', ''sale'', ''sales'', ''shop'', ''social'',
    ''sponsor'', ''sponsors'', ''store'', ''subscription'', ''subscriptions'', ''supplier'', ''teams'',
    ''terms'', ''ticket'', ''tickets'', ''trust'', ''vendor'', ''vendors'', ''alpha'', ''beta'',
    ''canary'', ''development'', ''feature'', ''features'', ''hotfix'', ''integration'', ''lts'',
    ''master'', ''nightly'', ''prerelease'', ''preprod'', ''preproduction'', ''production'', ''qa'',
    ''release'', ''releases'', ''rolling'', ''snapshot'', ''stable'', ''trunk'', ''admin1'', ''admin2'',
    ''administrator'', ''fake'', ''imposter'', ''phishing'', ''scam'', ''spoof'', ''verify'',
    ''verification'', ''verified'']"

definition reserved_apex :: "string list" where
  "reserved_apex = [
    ''acme'', ''caddy'', ''hetzner'', ''letsencrypt'', ''lets-encrypt'', ''healthz'', ''liveness'',
    ''livez'', ''metricz'', ''readiness'', ''readyz'', ''ccpa'', ''dpa'', ''dpo'', ''gdpr'', ''aup'',
    ''copyright'', ''dmca'', ''cve'', ''disclosure'', ''security'', ''transparency'', ''vuln'',
    ''vulnerability'', ''audit'', ''auditlog'', ''audit-log'', ''incident'', ''incidents'', ''postmortem'',
    ''postmortems'', ''playbook'', ''playbooks'', ''runbook'', ''runbooks'', ''report'', ''reporting'',
    ''reports'', ''homepage'', ''landing'', ''m'', ''mobile'', ''go'', ''goto'', ''r'', ''redir'',
    ''redirect'', ''t'', ''tr'', ''css'', ''font'', ''fonts'', ''i'', ''js'', ''clear'', ''flush'',
    ''purge'']"

definition RESERVED_SLUGS :: "string list" where
  "RESERVED_SLUGS = reserved_system @ reserved_brands @ reserved_competitors @ reserved_subdomains_1 @
     reserved_subdomains_2 @ reserved_subdomains_3 @ reserved_apex"

definition ADJECTIVES_1 :: "string list" where
  "ADJECTIVES_1 = [
    ''agile'', ''alert'', ''amber'', ''ancient'', ''ardent'', ''arctic'', ''ashen'', ''autumn'', ''balmy'',
    ''bashful'', ''beaming'', ''bitter'', ''blissful'', ''bold'', ''bouncy'', ''brave'', ''breezy'',
    ''bright'', ''brisk'', ''bronze'', ''brown'', ''bubbly'', ''burly'', ''busy'', ''calm'', ''candid'',
    ''cheery'', ''chilly'', ''chrome'', ''cinder'', ''citrus'', ''civic'', ''classic'', ''clever'',
    ''cloudy'', ''cobalt'', ''cool'', ''copper'', ''cosmic'', ''cosy'', ''courtly'', ''crimson'',
    ''crisp'', ''crystal'', ''curious'', ''daring'', ''dawn'', ''deep'', ''dizzy'', ''dreamy'', ''dusky'',
    ''dusty'', ''eager'', ''early'', ''earnest'', ''earthen'', ''ebony'', ''echoing'', ''elder'',
    ''electric'', ''elegant'', ''ember'', ''emerald'', ''endless'', ''epic'', ''even'', ''fabled'',
    ''fair'', ''fancy'', ''feisty'', ''fierce'', ''fiery'', ''fleet'', ''fluffy'', ''foggy'', ''forest'',
    ''frosty'', ''fuzzy'', ''gallant'', ''gentle'', ''gilded'', ''glassy'', ''gleaming'', ''gleeful'',
    ''glowing'', ''golden'', ''graceful'', ''grand'', ''grassy'', ''great'', ''happy'', ''hardy'',
    ''hazy'', ''hearty'', ''hidden'', ''honest'', ''honey'', ''humble'', ''icy'', ''indigo'', ''inky'',
    ''iron'', ''ivory'', ''jade'', ''jolly'', ''joyful'', ''keen'', ''kind'', ''lakeside'', ''late'',
    ''lavender'', ''lazy'', ''leafy'', ''lemon'', ''lilac'', ''lively'', ''lone'', ''loud'', ''loyal'',
    ''lucid'', ''lucky'', ''lunar'', ''lush'', ''magenta'', ''majestic'']"

definition ADJECTIVES_2 :: "string list" where
  "ADJECTIVES_2 = [
    ''mango'', ''maple'', ''marble'', ''meadow'', ''merry'', ''mighty'', ''milky'', ''mint'', ''misty'',
    ''modern'', ''morning'', ''mossy'', ''mystic'', ''neat'', ''neon'', ''nimble'', ''noble'', ''north'',
    ''olive'', ''open'', ''orange'', ''patient'', ''peach'', ''pearl'', ''peaceful'', ''pebble'',
    ''pixel'', ''placid'', ''plucky'', ''polar'', ''polite'', ''prairie'', ''proud'', ''purple'',
    ''quick'', ''quiet'', ''radiant'', ''rapid'', ''rare'', ''raven'', ''regal'', ''remote'', ''rich'',
    ''ripe'', ''river'', ''robust'', ''rosy'', ''round'', ''rugged'', ''ruby'', ''rustic'', ''sage'',
    ''salty'', ''sandy'', ''sapphire'', ''savvy'', ''scarlet'', ''secret'', ''serene'', ''shadow'',
    ''shiny'', ''silent'', ''silver'', ''sleek'', ''smart'', ''smoky'', ''smooth'', ''snowy'', ''solar'',
    ''solid'', ''soothing'', ''sparkling'', ''spicy'', ''spry'', ''stalwart'', ''starry'', ''steady'',
    ''stellar'', ''stoic'', ''stormy'', ''strong'', ''subtle'', ''sunny'', ''sunset'', ''supple'',
    ''swift'', ''tame'', ''tangy'', ''tart'', ''teal'', ''tender'', ''thrifty'', ''tidal'', ''tidy'',
    ''timber'', ''tiny'', ''topaz'', ''trusty'', ''tundra'', ''twilight'', ''umber'', ''valiant'',
    ''velvet'', ''verdant'', ''vibrant'', ''vintage'', ''violet'', ''vivid'', ''warm'', ''watery'',
    ''wavy'', ''whimsical'', ''wild'', ''windy'', ''winter'', ''wise'', ''witty'', ''wooded'', ''woolly'',
    ''woven'', ''young'', ''zealous'', ''zen'']"

definition NOUNS_1 :: "string list" where
  "NOUNS_1 = [
    ''acorn'', ''alder'', ''apple'', ''ash'', ''aspen'', ''atlas'', ''badger'', ''bay'', ''beach'',
    ''beacon'', ''bear'', ''beaver'', ''beech'', ''berry'', ''birch'', ''bison'', ''blossom'',
    ''blueprint'', ''boat'', ''branch'', ''breeze'', ''brook'', ''bud'', ''bumblebee'', ''burrow'',
    ''butterfly'', ''cabin'', ''cactus'', ''campfire'', ''canal'', ''canary'', ''candle'', ''canyon'',
    ''cape'', ''caribou'', ''castle'', ''cavern'', ''cedar'', ''chalet'', ''chasm'', ''chestnut'',
    ''cliff'', ''clipper'', ''cloud'', ''clover'', ''coast'', ''cocoa'', ''comet'', ''compass'', ''coral'',
    ''cottage'', ''cove'', ''cricket'', ''crocus'', ''crystal'', ''cypress'', ''daisy'', ''dahlia'',
    ''dawn'', ''deer'', ''delta'', ''desert'', ''dewdrop'', ''dolphin'', ''dove'', ''dragonfly'', ''dune'',
    ''dusk'', ''eagle'', ''echo'', ''elm'', ''ember'', ''estuary'', ''fable'', ''falcon'', ''feather'',
    ''fern'', ''finch'', ''fir'', ''fjord'', ''fleet'', ''flint'', ''flower'', ''forest'', ''fox'',
    ''frog'', ''frost'', ''galaxy'', ''garden'', ''geyser'', ''glacier'', ''glade'', ''glen'', ''glow'',
    ''gorge'', ''gosling'', ''grove'', ''gull'', ''hamlet'', ''harbor'', ''harvest'', ''hawk'', ''hazel'',
    ''heather'', ''heron'', ''highland'', ''hill'', ''horizon'', ''hummingbird'', ''iceberg'', ''iris'',
    ''isle'', ''ivy'', ''jasmine'', ''journey'', ''junction'', ''juniper'', ''kestrel'', ''kettle'',
    ''kite'', ''lagoon'', ''lake'', ''lantern'', ''larch'', ''lark'', ''leaf'', ''ledge'', ''lichen'',
    ''lighthouse'', ''lily'', ''linden'', ''lion'', ''lookout'', ''lotus'']"

definition NOUNS_2 :: "string list" where
  "NOUNS_2 = [
    ''lynx'', ''magpie'', ''mango'', ''mantle'', ''maple'', ''marble'', ''marigold'', ''marsh'',
    ''meadow'', ''mesa'', ''meteor'', ''mist'', ''moat'', ''monolith'', ''moon'', ''moor'', ''moss'',
    ''mountain'', ''mulberry'', ''nebula'', ''nectar'', ''nettle'', ''newt'', ''north'', ''oak'',
    ''oasis'', ''obelisk'', ''ocean'', ''olive'', ''opal'', ''orbit'', ''orca'', ''orchard'', ''orchid'',
    ''osprey'', ''otter'', ''outpost'', ''owl'', ''palm'', ''pasture'', ''peach'', ''pebble'', ''pelican'',
    ''petal'', ''pier'', ''pine'', ''pinnacle'', ''pioneer'', ''piper'', ''plateau'', ''plover'',
    ''pollen'', ''pond'', ''poppy'', ''porch'', ''prairie'', ''puffin'', ''pumpkin'', ''quail'',
    ''quartz'', ''rabbit'', ''raccoon'', ''rain'', ''rapid'', ''raven'', ''reed'', ''reef'', ''ridge'',
    ''river'', ''robin'', ''rose'', ''rowan'', ''salmon'', ''sand'', ''sapling'', ''sapphire'',
    ''savannah'', ''seal'', ''seashell'', ''sequoia'', ''shore'', ''silver'', ''skylark'', ''sparrow'',
    ''spire'', ''spring'', ''spruce'', ''starling'', ''stone'', ''stream'', ''summit'', ''sunflower'',
    ''surf'', ''swallow'', ''sycamore'', ''tangerine'', ''thistle'', ''thunder'', ''tide'', ''topaz'',
    ''torch'', ''tower'', ''trail'', ''tundra'', ''turtle'', ''twig'', ''valley'', ''vapor'', ''vine'',
    ''vineyard'', ''violet'', ''volcano'', ''warbler'', ''waterfall'', ''wave'', ''whale'', ''whisper'',
    ''wildflower'', ''willow'', ''wisp'', ''wolf'', ''woodpecker'', ''wren'', ''yarrow'', ''yew'',
    ''zenith'', ''zephyr'']"

definition ADJECTIVES :: "string list" where
  "ADJECTIVES = ADJECTIVES_1 @ ADJECTIVES_2"

definition NOUNS :: "string list" where
  "NOUNS = NOUNS_1 @ NOUNS_2"

text \<open>The set \<open>SET\<close> of the source is built from the table; membership is the same.\<close>

definition is_reserved :: "string \<Rightarrow> bool" where
  "is_reserved slug \<longleftrightarrow> slug \<in> set RESERVED_SLUGS"

section \<open>Validation\<close>

datatype slug_error =
  TooShort | TooLong | InvalidChar | LeadingDigitOrHyphen | TrailingHyphen | ConsecutiveHyphens | Reserved

definition slug_char :: "char \<Rightarrow> bool" where
  "slug_char b \<longleftrightarrow> is_ascii_lowercase b \<or> is_ascii_digit b \<or> b = CHR ''-''"

definition validate_slug :: "string \<Rightarrow> slug_error + unit" where
  "validate_slug slug =
     (let len = utf8_len slug in
      if len < 3 then Err TooShort
      else if len > 30 then Err TooLong
      else if \<not> is_ascii_lowercase (hd slug) then Err LeadingDigitOrHyphen
      else if \<not> (is_ascii_lowercase (last slug) \<or> is_ascii_digit (last slug)) then Err TrailingHyphen
      else if \<not> list_all slug_char slug then Err InvalidChar
      else if contains_str slug ''--'' then Err ConsecutiveHyphens
      else if is_reserved slug then Err Reserved
      else Ok ())"

section \<open>Generated slugs\<close>

definition BASE32 :: string where
  "BASE32 = ''0123456789abcdefghjkmnpqrstvwxyz''"

definition MAX_WORD_LEN :: nat where
  "MAX_WORD_LEN = 6"

definition SHORT_ADJECTIVES :: "string list" where
  "SHORT_ADJECTIVES = filter (\<lambda>w. utf8_len w \<le> MAX_WORD_LEN) ADJECTIVES"

definition SHORT_NOUNS :: "string list" where
  "SHORT_NOUNS = filter (\<lambda>w. utf8_len w \<le> MAX_WORD_LEN) NOUNS"

text \<open>
  \<open>fastrand::usize(..n)\<close> is the parameter \<open>rnd k n\<close>, the \<open>k\<close>-th draw below \<open>n\<close>.
\<close>

definition generate_signup_slug :: "(nat \<Rightarrow> nat \<Rightarrow> nat) \<Rightarrow> string" where
  "generate_signup_slug rnd =
     (let adj = SHORT_ADJECTIVES ! rnd 0 (length SHORT_ADJECTIVES);
          noun = SHORT_NOUNS ! rnd 1 (length SHORT_NOUNS);
          suffix = map (\<lambda>k. BASE32 ! rnd (k + 2) (length BASE32)) [0..<6]
      in adj @ ''-'' @ noun @ ''-'' @ suffix)"

section \<open>Facts about the tables\<close>

definition plain_word :: "string \<Rightarrow> bool" where
  "plain_word w \<longleftrightarrow> w \<noteq> [] \<and> length w \<le> 6 \<and> list_all is_ascii_lowercase w"

definition hyphens :: "string \<Rightarrow> nat" where
  "hyphens w = length (filter (\<lambda>c. c = CHR ''-'') w)"

lemma lowercase_letters: "list_all is_ascii_lowercase ''abcdefghijklmnopqrstuvwxyz''"
  by simp

lemmas lowercase_letter_facts = lowercase_letters [unfolded list.pred_inject]

lemmas table_defs = ADJECTIVES_def ADJECTIVES_1_def ADJECTIVES_2_def NOUNS_def NOUNS_1_def NOUNS_2_def

lemma tables_lowercase:
  "list_all (list_all is_ascii_lowercase) ADJECTIVES" "list_all (list_all is_ascii_lowercase) NOUNS"
  by (simp_all only: table_defs list_all_append list.pred_inject lowercase_letter_facts simp_thms)

lemma tables_nonempty_words: "[] \<notin> set ADJECTIVES" "[] \<notin> set NOUNS"
  by (simp_all only: table_defs set_append list.set insert_iff Un_iff empty_iff list.distinct simp_thms)

lemma short_words_plain:
  assumes "list_all (list_all is_ascii_lowercase) ws" "[] \<notin> set ws"
  shows "list_all plain_word (filter (\<lambda>w. utf8_len w \<le> MAX_WORD_LEN) ws)"
  using assms unfolding list_all_iff plain_word_def utf8_len_def MAX_WORD_LEN_def by fastforce

lemma short_adjectives_plain: "list_all plain_word SHORT_ADJECTIVES \<and> SHORT_ADJECTIVES \<noteq> []"
proof -
  have "''bold'' \<in> set ADJECTIVES" by (simp add: ADJECTIVES_def ADJECTIVES_1_def)
  then have "SHORT_ADJECTIVES \<noteq> []"
    unfolding SHORT_ADJECTIVES_def filter_empty_conv by (force simp: utf8_len_def MAX_WORD_LEN_def)
  then show ?thesis using short_words_plain [OF tables_lowercase(1) tables_nonempty_words(1)] by (simp add: SHORT_ADJECTIVES_def)
qed

lemma short_nouns_plain: "list_all plain_word SHORT_NOUNS \<and> SHORT_NOUNS \<noteq> []"
proof -
  have "''acorn'' \<in> set NOUNS" by (simp add: NOUNS_def NOUNS_1_def)
  then have "SHORT_NOUNS \<noteq> []"
    unfolding SHORT_NOUNS_def filter_empty_conv by (force simp: utf8_len_def MAX_WORD_LEN_def)
  then show ?thesis using short_words_plain [OF tables_lowercase(2) tables_nonempty_words(2)] by (simp add: SHORT_NOUNS_def)
qed

lemma base32_chars: "list_all (\<lambda>c. is_ascii_lowercase c \<or> is_ascii_digit c) BASE32 \<and> length BASE32 = 32"
  by code_simp

lemma reserved_hyphens: "list_all (\<lambda>w. hyphens w < 2) RESERVED_SLUGS"
  by (simp only: RESERVED_SLUGS_def reserved_system_def reserved_brands_def reserved_competitors_def
        reserved_subdomains_1_def reserved_subdomains_2_def reserved_subdomains_3_def reserved_apex_def
        list_all_append list.pred_inject) (simp add: hyphens_def)

lemma contains_str_Cons: "contains_str (c # s) p \<longleftrightarrow> starts_with (c # s) p \<or> contains_str s p"
  by (auto simp: contains_str_def)

lemma not_hyphen: "is_ascii_lowercase c \<or> is_ascii_digit c \<Longrightarrow> c \<noteq> CHR ''-''"
  by (auto simp: char_class_defs)

lemma no_double_hyphen_free: "CHR ''-'' \<notin> set w \<Longrightarrow> \<not> contains_str w ''--''"
  by (induction w) (auto simp: contains_str_Cons starts_with_def contains_str_def)

lemma no_double_hyphen_join:
  assumes "CHR ''-'' \<notin> set w" "r \<noteq> []" "hd r \<noteq> CHR ''-''" "\<not> contains_str r ''--''"
  shows "\<not> contains_str (w @ CHR ''-'' # r) ''--''"
  using assms
proof (induction w)
  case Nil
  then show ?case by (cases r) (auto simp: contains_str_Cons starts_with_def)
next
  case (Cons c w)
  then show ?case by (auto simp: contains_str_Cons starts_with_def)
qed

lemma ascii_word_len: "list_all slug_char w \<Longrightarrow> utf8_len w = length w"
  by (induction w) (auto simp: utf8_len_def slug_char_def char_class_defs)

lemma generated_parts:
  assumes rnd: "\<forall>k n. 0 < n \<longrightarrow> rnd k n < n"
  obtains adj noun suffix where
    "generate_signup_slug rnd = adj @ CHR ''-'' # noun @ CHR ''-'' # suffix"
    "plain_word adj" "plain_word noun" "length suffix = 6"
    "list_all (\<lambda>c. is_ascii_lowercase c \<or> is_ascii_digit c) suffix"
proof -
  let ?adj = "SHORT_ADJECTIVES ! rnd 0 (length SHORT_ADJECTIVES)"
  let ?noun = "SHORT_NOUNS ! rnd 1 (length SHORT_NOUNS)"
  let ?suffix = "map (\<lambda>k. BASE32 ! rnd (k + 2) (length BASE32)) [0..<6]"
  have "plain_word ?adj" using short_adjectives_plain rnd by (simp add: list_all_length)
  moreover have "plain_word ?noun" using short_nouns_plain rnd by (simp add: list_all_length)
  moreover have "list_all (\<lambda>c. is_ascii_lowercase c \<or> is_ascii_digit c) ?suffix"
    using base32_chars rnd unfolding list_all_length by (simp del: char_class_defs)
  moreover have "generate_signup_slug rnd = ?adj @ CHR ''-'' # ?noun @ CHR ''-'' # ?suffix"
    by (simp add: generate_signup_slug_def Let_def)
  ultimately show thesis using that by simp
qed

lemma plain_word_slug: "plain_word w \<Longrightarrow> list_all slug_char w \<and> CHR ''-'' \<notin> set w"
  unfolding plain_word_def slug_char_def list_all_iff using not_hyphen by blast

lemma plain_word_hd: "plain_word w \<Longrightarrow> w \<noteq> [] \<and> is_ascii_lowercase (hd w) \<and> length w \<le> 6"
  unfolding plain_word_def list_all_iff by (metis hd_in_set)

lemma two_hyphens_not_reserved: "2 \<le> hyphens w \<Longrightarrow> \<not> is_reserved w"
  using reserved_hyphens unfolding is_reserved_def list_all_iff by fastforce

text \<open>
  Every slug the generator can produce passes the validator: for every
  random number generator that draws below its bound, the generated slug has
  an allowed length, starts with a letter, ends with a letter or digit, has
  only slug characters, no double hyphen, and is not reserved.
\<close>

theorem generated_slug_valid:
  assumes "\<forall>k n. 0 < n \<longrightarrow> rnd k n < n"
  shows "validate_slug (generate_signup_slug rnd) = Ok ()"
proof -
  obtain adj noun suffix where s: "generate_signup_slug rnd = adj @ CHR ''-'' # noun @ CHR ''-'' # suffix"
    and w: "plain_word adj" "plain_word noun" "length suffix = 6"
    and suf: "list_all (\<lambda>c. is_ascii_lowercase c \<or> is_ascii_digit c) suffix"
    using generated_parts [OF assms] by blast
  let ?s = "adj @ CHR ''-'' # noun @ CHR ''-'' # suffix"
  have free: "CHR ''-'' \<notin> set suffix" using suf not_hyphen unfolding list_all_iff by blast
  have ne: "suffix \<noteq> []" using w(3) by auto
  have chars: "list_all slug_char ?s"
    using w suf plain_word_slug unfolding list_all_iff slug_char_def by auto
  have "utf8_len ?s = length ?s" using ascii_word_len [OF chars] .
  then have len: "3 \<le> utf8_len ?s" "utf8_len ?s \<le> 30"
    using w plain_word_hd [OF w(1)] plain_word_hd [OF w(2)] by auto
  have hd: "is_ascii_lowercase (hd ?s)" using plain_word_hd [OF w(1)] by simp
  have last: "is_ascii_lowercase (last ?s) \<or> is_ascii_digit (last ?s)"
    using suf ne unfolding list_all_iff by (simp del: char_class_defs)
  have "hd suffix \<noteq> CHR ''-''" using free ne by (metis hd_in_set)
  then have "\<not> contains_str (noun @ CHR ''-'' # suffix) ''--''"
    using no_double_hyphen_join plain_word_slug [OF w(2)] ne no_double_hyphen_free [OF free] by blast
  moreover have "hd (noun @ CHR ''-'' # suffix) \<noteq> CHR ''-''"
    using plain_word_hd [OF w(2)] plain_word_slug [OF w(2)] by (metis hd_append2 hd_in_set)
  ultimately have dbl: "\<not> contains_str ?s ''--''"
    using no_double_hyphen_join [of adj "noun @ CHR ''-'' # suffix"] plain_word_slug [OF w(1)] by simp
  have "\<not> is_reserved ?s" by (rule two_hyphens_not_reserved) (simp add: hyphens_def)
  then show ?thesis
    using len hd last chars dbl unfolding s validate_slug_def Let_def by (simp del: char_class_defs)
qed

lemma generated_slug_valid_witness:
  "validate_slug (generate_signup_slug (\<lambda>k n. (k * 7) mod n)) = Ok ()"
  by (rule generated_slug_valid) simp

end
