(* ===== verification/Incident_Domain.thy ===== *)
theory Incident_Domain
  imports Complex_Main Domain_Types
begin

text \<open>
  \<open>crates/core/src/domain/incident.rs\<close>: the public incident record, durations
  and uptime arithmetic, the coalescer that turns an ordered stream of check
  observations into incidents, and the operational state machine.  The
  coalescer is proved equal to a specification in terms of maximal runs of bad
  observations.
\<close>

section \<open>Incidents\<close>

record incident =
  inc_id :: uuid
  inc_target_id :: uuid
  inc_started_at :: instant
  inc_ended_at :: "instant option"
  inc_status :: check_status
  inc_duration_secs :: "nat option"
  inc_check_count :: nat
  inc_error_sample :: "string option"
  inc_severity :: incident_severity
  inc_public_title :: "string option"
  inc_public_description :: "string option"
  inc_created_at :: "instant option"
  inc_updated_at :: "instant option"
  inc_updates :: "public_incident_update list"
  inc_regions_down :: "string list"
  inc_regions_up :: "string list"

record incident_narration_update =
  inu_public_title :: "string option option"
  inu_public_description :: "string option option"
  inu_severity :: "incident_severity option"

record new_incident_update =
  niu_phase :: incident_status_phase
  niu_message :: string

text \<open>
  \<open>ChronoDuration::seconds\<close> panics outside \<open>\<plusminus>i64::MAX / 1000\<close> seconds, the
  range chrono documents for a \<open>TimeDelta\<close>.
\<close>

definition i64_max :: int where
  "i64_max = 9223372036854775807"

definition time_delta_seconds :: "int \<Rightarrow> duration run" where
  "time_delta_seconds s = (if \<bar>s\<bar> \<le> i64_max div 1000 then Ret (seconds s) else Panic)"

definition closed_duration :: "incident \<Rightarrow> duration option run" where
  "closed_duration i =
     (case inc_ended_at i of
        None \<Rightarrow> Ret None
      | Some end_at \<Rightarrow>
         (case inc_duration_secs i of
            Some s \<Rightarrow>
              (case time_delta_seconds (if int s \<le> i64_max then int s else i64_max) of
                 Panic \<Rightarrow> Panic | Ret d \<Rightarrow> Ret (Some d))
          | None \<Rightarrow> Ret (Some (max (end_at - inc_started_at i) 0))))"

definition elapsed_at :: "instant \<Rightarrow> instant option \<Rightarrow> instant \<Rightarrow> duration" where
  "elapsed_at started_at ended_at now =
     (let end_at = (case ended_at of Some e \<Rightarrow> e | None \<Rightarrow> now) in max (end_at - started_at) 0)"

definition incident_overlap_secs :: "instant \<Rightarrow> instant \<Rightarrow> instant \<Rightarrow> incident \<Rightarrow> int" where
  "incident_overlap_secs from_at to_at now i =
     (let end_at = min (case inc_ended_at i of Some e \<Rightarrow> e | None \<Rightarrow> now) to_at;
          start = max (inc_started_at i) from_at
      in max (num_seconds (end_at - start)) 0)"

definition confirmed_downtime_secs :: "incident list \<Rightarrow> instant \<Rightarrow> instant \<Rightarrow> instant \<Rightarrow> int" where
  "confirmed_downtime_secs incidents from_at to_at now =
     sum_list (map (incident_overlap_secs from_at to_at now) incidents)"

text \<open>The \<open>f64\<close> division is taken over the reals; rounding is not modelled.\<close>

definition uptime_pct_from_downtime :: "int \<Rightarrow> int \<Rightarrow> real" where
  "uptime_pct_from_downtime downtime_secs window_secs =
     (if window_secs \<le> 0 then 100
      else let up = real_of_int (max (window_secs - downtime_secs) 0)
           in min (max (up / real_of_int window_secs * 100) 0) 100)"

section \<open>The coalescer\<close>

type_synonym observation = "instant \<times> check_status \<times> string option"

definition is_bad :: "check_status \<Rightarrow> bool" where
  "is_bad s = (s = Down \<or> s = Error)"

definition extend_incident ::
  "incident \<Rightarrow> instant \<Rightarrow> check_status \<Rightarrow> string option \<Rightarrow> incident" where
  "extend_incident inc ts status error =
     inc\<lparr>inc_check_count := inc_check_count inc + 1,
         inc_error_sample := (case inc_error_sample inc of None \<Rightarrow> error | Some e \<Rightarrow> Some e),
         inc_ended_at := Some ts,
         inc_duration_secs := Some (nat (max (num_seconds (ts - inc_started_at inc)) 0)),
         inc_status := status\<rparr>"

definition new_incident ::
  "uuid \<Rightarrow> uuid \<Rightarrow> instant \<Rightarrow> check_status \<Rightarrow> string option \<Rightarrow> incident" where
  "new_incident fresh_id target_id ts status error =
     \<lparr>inc_id = fresh_id, inc_target_id = target_id, inc_started_at = ts, inc_ended_at = None,
      inc_status = status, inc_duration_secs = None, inc_check_count = 1,
      inc_error_sample = error, inc_severity = Major, inc_public_title = None,
      inc_public_description = None, inc_created_at = None, inc_updated_at = None,
      inc_updates = [], inc_regions_down = [], inc_regions_up = []\<rparr>"

text \<open>
  The loop of \<open>coalesce_incidents\<close>.  \<open>Uuid::now_v7\<close> is the supply \<open>fresh\<close>; an
  incident is created when \<open>length out\<close> incidents have been pushed before it.
\<close>

fun coalesce_loop ::
  "(nat \<Rightarrow> uuid) \<Rightarrow> uuid \<Rightarrow> observation list \<Rightarrow> incident option \<Rightarrow> incident list
    \<Rightarrow> incident list \<times> incident option" where
  "coalesce_loop fresh tid [] current out = (out, current)"
| "coalesce_loop fresh tid ((ts, status, error) # obs) current out =
     (if is_bad status then
        (case current of
           Some inc \<Rightarrow> coalesce_loop fresh tid obs (Some (extend_incident inc ts status error)) out
         | None \<Rightarrow> coalesce_loop fresh tid obs
                     (Some (new_incident (fresh (length out)) tid ts status error)) out)
      else
        (case current of
           Some inc \<Rightarrow> coalesce_loop fresh tid obs None (out @ [inc])
         | None \<Rightarrow> coalesce_loop fresh tid obs None out))"

definition coalesce_incidents :: "(nat \<Rightarrow> uuid) \<Rightarrow> uuid \<Rightarrow> observation list \<Rightarrow> incident list" where
  "coalesce_incidents fresh tid observations =
     (case coalesce_loop fresh tid observations None [] of
        (out, None) \<Rightarrow> out
      | (out, Some inc) \<Rightarrow> out @ [inc\<lparr>inc_ended_at := None, inc_duration_secs := None\<rparr>])"

section \<open>The operational state machine\<close>

datatype incident_transition = Acknowledge | Resolve | AutoResolve | Reopen

datatype transition_error = TransitionError incident_state incident_transition

fun next_state :: "incident_state \<Rightarrow> incident_transition \<Rightarrow> transition_error + incident_state" where
  "next_state incident_state.Triggered Acknowledge = Ok incident_state.Acknowledged"
| "next_state incident_state.Acknowledged Acknowledge = Ok incident_state.Acknowledged"
| "next_state incident_state.Resolved Acknowledge =
     Err (TransitionError incident_state.Resolved Acknowledge)"
| "next_state current Resolve = Ok incident_state.Resolved"
| "next_state current AutoResolve = Ok incident_state.Resolved"
| "next_state incident_state.Resolved Reopen = Ok incident_state.Triggered"
| "next_state current Reopen = Err (TransitionError current Reopen)"

section \<open>Durations and uptime\<close>

definition incident_end :: "instant \<Rightarrow> incident \<Rightarrow> instant" where
  "incident_end now i = (case inc_ended_at i of Some e \<Rightarrow> e | None \<Rightarrow> now)"

lemma incident_overlap_secs_alt:
  "incident_overlap_secs from_at to_at now i =
     max (num_seconds (min (incident_end now i) to_at - max (inc_started_at i) from_at)) 0"
  by (simp add: incident_overlap_secs_def incident_end_def)

lemma incident_overlap_secs_nonneg [simp]: "0 \<le> incident_overlap_secs from_at to_at now i"
  by (simp add: incident_overlap_secs_def Let_def)

lemma confirmed_downtime_nonneg [simp]: "0 \<le> confirmed_downtime_secs is from_at to_at now"
  unfolding confirmed_downtime_secs_def by (rule sum_list_nonneg) auto

lemma confirmed_downtime_simps [simp]:
  "confirmed_downtime_secs [] from_at to_at now = 0"
  "confirmed_downtime_secs (i # is) from_at to_at now =
     incident_overlap_secs from_at to_at now i + confirmed_downtime_secs is from_at to_at now"
  by (simp_all add: confirmed_downtime_secs_def)

lemma incident_overlap_advance:
  assumes "from_at \<le> to_at" "inc_started_at i \<le> incident_end now i"
  shows "incident_overlap_secs from_at to_at now i
           + num_seconds (to_at - min to_at (max from_at (incident_end now i)))
         \<le> num_seconds (to_at - from_at)" (is "?o + num_seconds ?r \<le> _")
proof (cases "max (inc_started_at i) from_at \<le> min (incident_end now i) to_at")
  case True
  define d where "d = min (incident_end now i) to_at - max (inc_started_at i) from_at"
  have "0 \<le> d" "0 \<le> ?r" using True assms by (auto simp: d_def)
  then have "num_seconds d + num_seconds ?r \<le> num_seconds (d + ?r)"
    by (rule num_seconds_add_le)
  also have "\<dots> \<le> num_seconds (to_at - from_at)"
    by (rule num_seconds_mono) (use True in \<open>auto simp: d_def\<close>)
  finally show ?thesis
    using \<open>0 \<le> d\<close> by (simp add: incident_overlap_secs_alt flip: d_def)
next
  case False
  then have "?o = 0"
    unfolding incident_overlap_secs_alt by (intro max_absorb2 num_seconds_neg) linarith
  moreover have "num_seconds ?r \<le> num_seconds (to_at - from_at)"
    by (rule num_seconds_mono) (use assms in auto)
  ultimately show ?thesis by simp
qed

lemma incident_overlap_shift:
  assumes "from_at \<le> to_at" "e \<le> inc_started_at i"
  shows "incident_overlap_secs (min to_at (max from_at e)) to_at now i
           = incident_overlap_secs from_at to_at now i"
proof -
  have "max (inc_started_at i) (min to_at (max from_at e)) = max (inc_started_at i) from_at"
    using assms by (auto simp: min_def max_def)
  then show ?thesis by (simp add: incident_overlap_secs_alt)
qed

lemma confirmed_downtime_le_window:
  assumes "from_at \<le> to_at"
    and "\<And>i. i \<in> set is \<Longrightarrow> inc_started_at i \<le> incident_end now i"
    and "sorted_wrt (\<lambda>i j. incident_end now i \<le> inc_started_at j) is"
  shows "confirmed_downtime_secs is from_at to_at now \<le> num_seconds (to_at - from_at)"
  using assms
proof (induction "is" arbitrary: from_at)
  case (Cons i rest)
  define from1 where "from1 = min to_at (max from_at (incident_end now i))"
  have "map (incident_overlap_secs from1 to_at now) rest
          = map (incident_overlap_secs from_at to_at now) rest"
    using Cons.prems unfolding from1_def by (auto intro!: incident_overlap_shift)
  then have "confirmed_downtime_secs rest from_at to_at now
               = confirmed_downtime_secs rest from1 to_at now"
    by (simp only: confirmed_downtime_secs_def)
  also have "\<dots> \<le> num_seconds (to_at - from1)"
    using Cons.prems by (intro Cons.IH) (auto simp: from1_def)
  finally have "confirmed_downtime_secs (i # rest) from_at to_at now
      \<le> incident_overlap_secs from_at to_at now i + num_seconds (to_at - from1)"
    by simp
  also have "\<dots> \<le> num_seconds (to_at - from_at)"
    unfolding from1_def using Cons.prems by (intro incident_overlap_advance) auto
  finally show ?case .
qed simp

text \<open>
  Confirmed downtime is conservative.  For incidents that do not overlap
  (each ends before the next starts, an open one ends at \<open>now\<close>), the summed
  downtime of a window lies between zero and the window's length in whole
  seconds, so the uptime percentage computed from it is the exact share of the
  window that was not downtime: the clamps of \<open>uptime_pct_from_downtime\<close> never
  cut anything off.
\<close>

theorem uptime_of_disjoint_incidents:
  assumes "from_at \<le> to_at"
    and "\<And>i. i \<in> set is \<Longrightarrow> inc_started_at i \<le> incident_end now i"
    and "sorted_wrt (\<lambda>i j. incident_end now i \<le> inc_started_at j) is"
    and "0 < num_seconds (to_at - from_at)"
  defines "d \<equiv> confirmed_downtime_secs is from_at to_at now"
    and "w \<equiv> num_seconds (to_at - from_at)"
  shows "0 \<le> d \<and> d \<le> w \<and>
    uptime_pct_from_downtime d w = 100 * (1 - real_of_int d / real_of_int w)"
proof (intro conjI)
  show "0 \<le> d" by (simp add: d_def)
  show le: "d \<le> w" unfolding d_def w_def using assms(1-3) by (rule confirmed_downtime_le_window)
  have "0 < w" using assms(4) by (simp add: w_def)
  have "real_of_int (w - d) / real_of_int w * 100 = 100 * (1 - real_of_int d / real_of_int w)"
    using \<open>0 < w\<close> by (simp add: field_simps)
  moreover have "0 \<le> real_of_int d / real_of_int w" "real_of_int d / real_of_int w \<le> 1"
    using \<open>0 < w\<close> le \<open>0 \<le> d\<close> by simp_all
  ultimately show "uptime_pct_from_downtime d w = 100 * (1 - real_of_int d / real_of_int w)"
    using \<open>0 < w\<close> le by (simp add: uptime_pct_from_downtime_def del: times_divide_eq_right)
qed

lemma uptime_of_disjoint_incidents_witness:
  "let i = (new_incident 1 2 (seconds 10) Down None)\<lparr>inc_ended_at := Some (seconds 30)\<rparr>;
       d = confirmed_downtime_secs [i] 0 (seconds 100) (seconds 100)
   in d = 20 \<and> uptime_pct_from_downtime d 100 = 80"
  using uptime_of_disjoint_incidents [of 0 "seconds 100"
      "[(new_incident 1 2 (seconds 10) Down None)\<lparr>inc_ended_at := Some (seconds 30)\<rparr>]" "seconds 100"]
  by (simp add: new_incident_def incident_end_def incident_overlap_secs_def instant_simps Let_def)

text \<open>
  The saturating conversion in \<open>closed_duration\<close> does not keep it from
  panicking: it panics exactly on a closed incident whose stored
  \<open>duration_secs\<close> exceeds \<open>i64::MAX / 1000\<close>, the largest number of seconds a
  chrono duration holds, because the saturated value is itself out of range.
\<close>

theorem closed_duration_panics_iff:
  "closed_duration i = Panic \<longleftrightarrow>
     inc_ended_at i \<noteq> None \<and> (\<exists>s. inc_duration_secs i = Some s \<and> 9223372036854775 < s)"
  by (auto simp: closed_duration_def time_delta_seconds_def i64_max_def split: option.splits)

section \<open>Coalescing as runs of bad observations\<close>

definition bad_obs :: "observation \<Rightarrow> bool" where
  "bad_obs ob = is_bad (fst (snd ob))"

text \<open>The maximal runs of consecutive bad observations, in order.\<close>

function bad_runs :: "observation list \<Rightarrow> observation list list" where
  "bad_runs [] = []"
| "bad_runs (ob # obs) =
     (if bad_obs ob then (ob # takeWhile bad_obs obs) # bad_runs (dropWhile bad_obs obs)
      else bad_runs obs)"
  by pat_completeness auto
termination
  by (relation "measure length") (auto simp: length_dropWhile_le le_imp_less_Suc)

definition first_error :: "observation list \<Rightarrow> string option" where
  "first_error run = (case List.find (\<lambda>ob. snd (snd ob) \<noteq> None) run of
                        None \<Rightarrow> None | Some ob \<Rightarrow> snd (snd ob))"

text \<open>The incident a run stands for once an observation that is not bad has closed it.\<close>

definition run_incident :: "uuid \<Rightarrow> uuid \<Rightarrow> observation list \<Rightarrow> incident" where
  "run_incident iid tid run =
     (let started = fst (hd run); ended = fst (last run) in
      \<lparr>inc_id = iid, inc_target_id = tid, inc_started_at = started,
       inc_ended_at = (if length run = 1 then None else Some ended),
       inc_status = fst (snd (last run)),
       inc_duration_secs = (if length run = 1 then None
                            else Some (nat (max (num_seconds (ended - started)) 0))),
       inc_check_count = length run, inc_error_sample = first_error run, inc_severity = Major,
       inc_public_title = None, inc_public_description = None, inc_created_at = None,
       inc_updated_at = None, inc_updates = [], inc_regions_down = [], inc_regions_up = []\<rparr>)"

definition ongoing :: "incident \<Rightarrow> incident" where
  "ongoing inc = inc\<lparr>inc_ended_at := None, inc_duration_secs := None\<rparr>"

definition run_incidents :: "(nat \<Rightarrow> uuid) \<Rightarrow> nat \<Rightarrow> uuid \<Rightarrow> observation list list \<Rightarrow> incident list" where
  "run_incidents fresh n tid runs =
     map2 (\<lambda>k run. run_incident (fresh k) tid run) [n..<n + length runs] runs"

lemma first_error_append:
  "first_error (run @ [ob]) = (case first_error run of None \<Rightarrow> snd (snd ob) | Some e \<Rightarrow> Some e)"
proof (induction run)
  case (Cons a run)
  then show ?case by (cases "snd (snd a)") (auto simp: first_error_def)
qed (simp add: first_error_def)

lemma new_incident_run: "new_incident iid tid ts st er = run_incident iid tid [(ts, st, er)]"
  by (simp add: new_incident_def run_incident_def first_error_def)

lemma extend_incident_run:
  "run \<noteq> [] \<Longrightarrow> extend_incident (run_incident iid tid run) ts st er = run_incident iid tid (run @ [(ts, st, er)])"
  by (simp add: extend_incident_def run_incident_def first_error_append Let_def split: option.split)

lemma bad_runs_good:
  assumes "\<And>ob. ob \<in> set r \<Longrightarrow> bad_obs ob" "\<not> bad_obs g"
  shows "bad_runs (r @ g # obs) = (if r = [] then [] else [r]) @ bad_runs obs"
proof (cases r)
  case (Cons a r')
  have "takeWhile bad_obs (r' @ g # obs) = r'" "dropWhile bad_obs (r' @ g # obs) = g # obs"
    using assms Cons by (simp_all add: takeWhile_append dropWhile_append)
  then show ?thesis using assms Cons by simp
qed (use assms in simp)

lemma bad_runs_all_bad:
  assumes "\<And>ob. ob \<in> set r \<Longrightarrow> bad_obs ob"
  shows "bad_runs r = (if r = [] then [] else [r])"
proof (cases r)
  case (Cons a r')
  then have all: "takeWhile bad_obs r' = r'" "dropWhile bad_obs r' = []"
    using assms by simp_all
  show ?thesis using assms by (simp add: Cons all del: takeWhile_eq_all_conv dropWhile_eq_Nil_conv)
qed simp

lemma run_incidents_Cons [simp]:
  "run_incidents fresh n tid (r # runs) = run_incident (fresh n) tid r # run_incidents fresh (Suc n) tid runs"
  by (simp add: run_incidents_def upt_conv_Cons del: upt_Suc)

lemma run_incidents_Nil [simp]: "run_incidents fresh n tid [] = []"
  by (simp add: run_incidents_def)

definition pending :: "(nat \<Rightarrow> uuid) \<Rightarrow> nat \<Rightarrow> uuid \<Rightarrow> observation list \<Rightarrow> incident option" where
  "pending fresh n tid r = (if r = [] then None else Some (run_incident (fresh n) tid r))"

lemma coalesce_loop_runs:
  assumes "\<And>ob. ob \<in> set r \<Longrightarrow> bad_obs ob"
    and "coalesce_loop fresh tid obs (pending fresh (length out) tid r) out = (out', cur)"
  shows "out' @ (case cur of None \<Rightarrow> [] | Some inc \<Rightarrow> [inc])
           = out @ run_incidents fresh (length out) tid (bad_runs (r @ obs))
         \<and> (cur \<noteq> None \<longleftrightarrow> r @ obs \<noteq> [] \<and> bad_obs (last (r @ obs)))"
  using assms
proof (induction obs arbitrary: r out)
  case Nil
  then show ?case by (auto simp: pending_def bad_runs_all_bad)
next
  case (Cons ob obs)
  obtain ts st er where ob: "ob = (ts, st, er)" by (cases ob) auto
  show ?case
  proof (cases "bad_obs ob")
    case True
    have next_cur: "coalesce_loop fresh tid obs (pending fresh (length out) tid (r @ [ob])) out = (out', cur)"
      using Cons.prems(2) True
      by (cases "r = []") (auto simp: ob bad_obs_def pending_def new_incident_run extend_incident_run)
    have "\<And>x. x \<in> set (r @ [ob]) \<Longrightarrow> bad_obs x" using Cons.prems(1) True by auto
    from Cons.IH [OF this next_cur] show ?thesis by simp
  next
    case False
    define out1 where "out1 = out @ (if r = [] then [] else [run_incident (fresh (length out)) tid r])"
    have "coalesce_loop fresh tid obs (pending fresh (length out1) tid []) out1 = (out', cur)"
      using Cons.prems(2) False by (cases "r = []") (auto simp: ob bad_obs_def pending_def out1_def)
    from Cons.IH [OF _ this] False show ?thesis
      using Cons.prems(1) by (auto simp: bad_runs_good out1_def)
  qed
qed

text \<open>
  \<open>coalesce_incidents\<close> implements its specification: the incidents are the
  maximal runs of down or error observations, in order and one incident per
  run, each counting the checks of its run, starting at its first check, with
  the last status and the first error text of the run; the last incident is
  marked ongoing exactly when the stream ends in a bad observation.
\<close>

theorem coalesce_incidents_runs:
  "coalesce_incidents fresh tid obs =
     (let incs = run_incidents fresh 0 tid (bad_runs obs)
      in if obs \<noteq> [] \<and> bad_obs (last obs) then butlast incs @ [ongoing (last incs)] else incs)"
proof -
  obtain out cur where loop: "coalesce_loop fresh tid obs None [] = (out, cur)" by fastforce
  then have "coalesce_loop fresh tid obs (pending fresh (length ([]::incident list)) tid []) [] = (out, cur)"
    by (simp add: pending_def)
  from coalesce_loop_runs [OF _ this]
  have "out @ (case cur of None \<Rightarrow> [] | Some inc \<Rightarrow> [inc]) = run_incidents fresh 0 tid (bad_runs obs)"
    and "cur \<noteq> None \<longleftrightarrow> obs \<noteq> [] \<and> bad_obs (last obs)" by simp_all
  moreover from this have "cur = Some inc \<Longrightarrow> run_incidents fresh 0 tid (bad_runs obs) = out @ [inc]" for inc
    by simp
  ultimately show ?thesis
    by (cases cur) (auto simp: coalesce_incidents_def loop ongoing_def Let_def)
qed

lemma run_incidents_nth:
  "k < length runs \<Longrightarrow> run_incidents fresh n tid runs ! k = run_incident (fresh (n + k)) tid (runs ! k)"
  by (simp add: run_incidents_def)

lemma length_run_incidents [simp]: "length (run_incidents fresh n tid runs) = length runs"
  by (simp add: run_incidents_def)

lemma coalesce_incidents_closed:
  assumes "obs \<noteq> []" "\<not> bad_obs (last obs)"
  shows "coalesce_incidents fresh tid obs = run_incidents fresh 0 tid (bad_runs obs)"
proof -
  obtain out cur where loop: "coalesce_loop fresh tid obs None [] = (out, cur)" by fastforce
  then have "coalesce_loop fresh tid obs (pending fresh (length ([]::incident list)) tid []) [] = (out, cur)"
    by (simp add: pending_def)
  from coalesce_loop_runs [OF _ this] assms show ?thesis
    by (cases cur) (auto simp: coalesce_incidents_def loop)
qed

text \<open>
  In a stream that ends in recovery no run is ongoing, yet the incident of
  a run is reported without an end exactly when the run is a single check:
  \<open>new_incident\<close> leaves \<open>ended_at\<close> empty and only \<open>extend_incident\<close> fills it,
  so an isolated bad check that recovered looks ongoing.
\<close>

theorem coalesce_isolated_check_stays_open:
  assumes "obs \<noteq> []" "\<not> bad_obs (last obs)" "k < length (bad_runs obs)"
  shows "inc_ended_at (coalesce_incidents fresh tid obs ! k) = None
           \<longleftrightarrow> length (bad_runs obs ! k) = 1"
  using assms
  by (simp add: coalesce_incidents_closed run_incidents_nth run_incident_def Let_def)

lemma coalesce_isolated_check_stays_open_witness:
  "inc_ended_at (coalesce_incidents (\<lambda>n. of_nat n) 7
     [(seconds 0, Up, None), (seconds 30, Down, Some ''timeout''), (seconds 60, Up, None)] ! 0) = None"
  using coalesce_isolated_check_stays_open
    [of "[(seconds 0, Up, None), (seconds 30, Down, Some ''timeout''), (seconds 60, Up, None)]" 0
        "\<lambda>n. of_nat n" 7]
  by (simp add: bad_obs_def is_bad_def)

section \<open>Histories of the state machine\<close>

text \<open>An illegal transition is rejected and leaves the state as it was.\<close>

definition apply_transition :: "incident_state \<Rightarrow> incident_transition \<Rightarrow> incident_state" where
  "apply_transition s t = (case next_state s t of Inl _ \<Rightarrow> s | Inr s' \<Rightarrow> s')"

definition is_resolve :: "incident_transition \<Rightarrow> bool" where
  "is_resolve t = (t = Resolve \<or> t = AutoResolve)"

definition state_after :: "incident_transition list \<Rightarrow> incident_state" where
  "state_after ts = foldl apply_transition incident_state.Triggered ts"

text \<open>The state a history of requests leads to, read off the requests alone.\<close>

definition since_resolve :: "incident_transition list \<Rightarrow> incident_transition list" where
  "since_resolve ts = rev (takeWhile (\<lambda>t. \<not> is_resolve t) (rev ts))"

definition acked_in :: "incident_transition list \<Rightarrow> incident_state" where
  "acked_in ts = (if Acknowledge \<in> set ts then incident_state.Acknowledged else incident_state.Triggered)"

definition state_of_history :: "incident_transition list \<Rightarrow> incident_state" where
  "state_of_history ts =
     (if \<not> list_ex is_resolve ts then acked_in ts
      else if Reopen \<notin> set (since_resolve ts) then incident_state.Resolved
      else acked_in (tl (dropWhile (\<lambda>t. t \<noteq> Reopen) (since_resolve ts))))"

lemma state_after_snoc: "state_after (ts @ [t]) = apply_transition (state_after ts) t"
  by (simp add: state_after_def)

lemma since_resolve_snoc:
  "since_resolve (ts @ [t]) = (if is_resolve t then [] else since_resolve ts @ [t])"
  by (simp add: since_resolve_def)

lemma acked_in_snoc: "acked_in (ts @ [t]) = (if t = Acknowledge then incident_state.Acknowledged else acked_in ts)"
  by (simp add: acked_in_def)

lemma tl_dropWhile_snoc:
  "x \<in> set xs \<Longrightarrow> tl (dropWhile (\<lambda>y. y \<noteq> x) (xs @ [z])) = tl (dropWhile (\<lambda>y. y \<noteq> x) xs) @ [z]"
  by (induction xs) (auto simp: dropWhile_append)

text \<open>
  The operational state after any history of requests, illegal ones
  rejected, depends only on the requests since the last resolve: with no
  reopen among them the incident is resolved, otherwise it is acknowledged
  exactly when an acknowledgement followed the first such reopen; before any
  resolve it is acknowledged exactly when it was ever acknowledged.
\<close>

theorem state_after_history: "state_after ts = state_of_history ts"
proof (induction ts rule: rev_induct)
  case Nil
  show ?case by (simp add: state_after_def state_of_history_def acked_in_def)
next
  case (snoc t ts)
  show ?case
    by (cases t)
      (auto simp: state_after_snoc snoc apply_transition_def state_of_history_def
        since_resolve_snoc is_resolve_def acked_in_def tl_dropWhile_snoc dropWhile_append)
qed

end
