(* ===== verification/Errors.thy ===== *)
theory Errors
  imports Prelude
begin

text \<open>
  The error values of the program: \<open>StorageError\<close> (\<open>crates/storage/src/traits.rs\<close>),
  \<open>AppError\<close> (\<open>crates/core/src/error.rs\<close>), the conversion between them and the
  HTTP response an error becomes (\<open>bin/status-server/src/api/error.rs\<close>).

  A formatted message is a list of fragments: literal text, a displayed UUID
  or a displayed number, because the textual form of those values is the
  business of the libraries that print them.
\<close>

datatype frag = Lit string | Id uuid | Num int

type_synonym message = "frag list"

datatype storage_error =
    NotFound message
  | Duckdb message
  | Conflict message
  | InvalidInput message

datatype app_error =
    Config message
  | Io message
  | BindAddr string message
  | NotFound string message
  | BadRequest string message "string option"
  | PayloadTooLarge string message
  | Conflict string message
  | Unprocessable string message
  | UnprocessableDetails string message message
  | Gone string message
  | ServiceUnavailable string message
  | QuotaExceeded string message string int int string
  | RateLimited string nat
  | Unauthorized
  | SessionRequired
  | Forbidden
  | ForbiddenCoded string message
  | Internal string message
  | Other message

definition bad_request :: "string \<Rightarrow> message \<Rightarrow> app_error" where
  "bad_request code msg = BadRequest code msg None"

fun from_storage_error :: "storage_error \<Rightarrow> app_error" where
  "from_storage_error (storage_error.NotFound msg) = app_error.NotFound ''STORAGE_NOT_FOUND'' msg"
| "from_storage_error (storage_error.Conflict msg) = app_error.Conflict ''STORAGE_CONFLICT'' msg"
| "from_storage_error (storage_error.InvalidInput msg) = bad_request ''STORAGE_INVALID_INPUT'' msg"
| "from_storage_error (storage_error.Duckdb msg) = Internal ''STORAGE_ERROR'' msg"

definition quota_exceeded :: "string \<Rightarrow> int \<Rightarrow> int \<Rightarrow> string \<Rightarrow> app_error" where
  "quota_exceeded quota current limit plan =
     QuotaExceeded ''QUOTA_EXCEEDED''
       [Lit quota, Lit '' limit reached: '', Num current, Lit '' of '', Num limit,
        Lit '' used on the '', Lit plan, Lit '' plan.'']
       quota current limit plan"

definition min_check_interval :: "int \<Rightarrow> int \<Rightarrow> string \<Rightarrow> app_error" where
  "min_check_interval requested minimum plan =
     QuotaExceeded ''MIN_CHECK_INTERVAL''
       [Lit ''check interval '', Num requested, Lit ''s is below the '', Num minimum,
        Lit ''s minimum on the '', Lit plan, Lit '' plan.'']
       ''min_check_interval_secs'' requested minimum plan"

text \<open>The response: HTTP status, machine-readable code, message and details.\<close>

record error_response =
  er_status :: nat
  er_code :: string
  er_message :: message
  er_details :: "(string \<times> nat) option"

definition plain_response :: "nat \<Rightarrow> string \<Rightarrow> message \<Rightarrow> error_response" where
  "plain_response st code msg = \<lparr>er_status = st, er_code = code, er_message = msg, er_details = None\<rparr>"

fun into_response :: "app_error \<Rightarrow> error_response" where
  "into_response (app_error.NotFound code msg) = plain_response 404 code msg"
| "into_response (app_error.Conflict code msg) = plain_response 409 code msg"
| "into_response (BadRequest code msg field) = plain_response 400 code msg"
| "into_response (PayloadTooLarge code msg) = plain_response 413 code msg"
| "into_response (Unprocessable code msg) = plain_response 422 code msg"
| "into_response (UnprocessableDetails code msg details) = plain_response 422 code msg"
| "into_response (Gone code msg) = plain_response 410 code msg"
| "into_response (ServiceUnavailable code msg) = plain_response 503 code msg"
| "into_response (QuotaExceeded code msg quota current limit plan) = plain_response 422 code msg"
| "into_response (RateLimited scope retry_after_secs) =
     \<lparr>er_status = 429, er_code = ''RATE_LIMITED'',
      er_message = [Lit ''rate limited on '', Lit scope], er_details = Some (scope, retry_after_secs)\<rparr>"
| "into_response Unauthorized = plain_response 401 ''UNAUTHORIZED'' [Lit ''authentication required'']"
| "into_response SessionRequired = plain_response 401 ''SESSION_REQUIRED'' [Lit ''browser session required'']"
| "into_response Forbidden = plain_response 403 ''FORBIDDEN'' [Lit ''access denied'']"
| "into_response (ForbiddenCoded code msg) = plain_response 403 code msg"
| "into_response (Internal code log) = plain_response 500 code [Lit ''internal error'']"
| "into_response (Other e) = plain_response 500 ''INTERNAL'' [Lit ''internal error'']"
| "into_response (Config e) = plain_response 500 ''INTERNAL'' [Lit ''internal error'']"
| "into_response (Io e) = plain_response 500 ''INTERNAL'' [Lit ''internal error'']"
| "into_response (BindAddr addr source) = plain_response 500 ''INTERNAL'' [Lit ''internal error'']"

text \<open>
  Internal details never reach a client.  Every error whose status is 500
  has the same generic message whatever private text it carries, and a
  storage error becomes 404, 409, 400 or 500 by its kind, with the storage
  message shown in the first three cases and withheld in the last.
\<close>

theorem internal_details_withheld:
  "(er_status (into_response e) = 500 \<longleftrightarrow> er_message (into_response e) = [Lit ''internal error''] \<and>
      (case e of Internal _ _ \<Rightarrow> True | Other _ \<Rightarrow> True | Config _ \<Rightarrow> True | Io _ \<Rightarrow> True
               | BindAddr _ _ \<Rightarrow> True | _ \<Rightarrow> False)) \<and>
   into_response (from_storage_error se) =
     (case se of storage_error.NotFound m \<Rightarrow> plain_response 404 ''STORAGE_NOT_FOUND'' m
               | storage_error.Conflict m \<Rightarrow> plain_response 409 ''STORAGE_CONFLICT'' m
               | InvalidInput m \<Rightarrow> plain_response 400 ''STORAGE_INVALID_INPUT'' m
               | Duckdb m \<Rightarrow> plain_response 500 ''STORAGE_ERROR'' [Lit ''internal error''])"
  by (cases e; cases se) (simp_all add: plain_response_def bad_request_def)

end
