(* ===== verification/Escalation_Policy.thy ===== *)
theory Escalation_Policy
  imports Errors Domain_Types Text_Util
begin

text \<open>
  \<open>crates/core/src/domain/escalation_policy.rs\<close>: escalation policies and the
  ladder walk \<open>next_step\<close>, with the validation and construction of a policy
  from a request (\<open>bin/status-server/src/api/escalation_policies.rs\<close>).  The
  whole walk is computed by \<open>walk\<close>, shown to terminate for every policy and to
  page every rung in order in every round when the steps are sorted.
\<close>

section \<open>Policies\<close>

record escalation_target =
  et_id :: uuid
  et_target_type :: escalation_target_type
  et_user_id :: "uuid option"
  et_schedule_id :: "uuid option"
  et_channel_id :: "uuid option"

record escalation_step =
  es_id :: uuid
  es_level :: int
  es_delay_secs :: int
  es_targets :: "escalation_target list"

record escalation_policy =
  ep_id :: uuid
  ep_name :: string
  ep_description :: "string option"
  ep_repeat_count :: int
  ep_steps :: "escalation_step list"
  ep_created_at :: instant
  ep_updated_at :: instant

record escalation_policy_summary =
  eps_id :: uuid
  eps_name :: string
  eps_description :: "string option"
  eps_repeat_count :: int
  eps_step_count :: int
  eps_created_at :: instant
  eps_updated_at :: instant

record new_escalation_target =
  net_target_type :: escalation_target_type
  net_user_id :: "uuid option"
  net_schedule_id :: "uuid option"
  net_channel_id :: "uuid option"

record new_escalation_step =
  nes_level :: int
  nes_delay_secs :: int
  nes_targets :: "new_escalation_target list"

record new_escalation_policy =
  nep_name :: string
  nep_description :: "string option"
  nep_repeat_count :: int
  nep_steps :: "new_escalation_step list"

record incident_escalation_state =
  ies_incident_id :: uuid
  ies_policy_id :: uuid
  ies_current_level :: int
  ies_current_round :: int
  ies_last_paged_at :: instant
  ies_next_check_at :: instant
  ies_acked :: bool

section \<open>The ladder walk\<close>

datatype escalation_decision = Page int int int | Exhausted

definition next_step :: "escalation_step list \<Rightarrow> int \<Rightarrow> int \<Rightarrow> int \<Rightarrow> escalation_decision" where
  "next_step steps repeat_count level round =
     (case steps of
        [] \<Rightarrow> Exhausted
      | first # _ \<Rightarrow>
         (case List.find (\<lambda>s. es_level s > level) steps of
            Some nxt \<Rightarrow> Page (es_level nxt) round (es_delay_secs nxt)
          | None \<Rightarrow>
             (if round < repeat_count then Page (es_level first) (round + 1) (es_delay_secs first)
              else Exhausted)))"

section \<open>Requests\<close>

definition is_some :: "'a option \<Rightarrow> bool" where
  "is_some x = (case x of None \<Rightarrow> False | Some _ \<Rightarrow> True)"

definition validate_target :: "new_escalation_target \<Rightarrow> message + unit" where
  "validate_target target =
     (let set_count = length (filter (\<lambda>b. b)
            [is_some (net_user_id target), is_some (net_schedule_id target), is_some (net_channel_id target)])
      in if set_count \<noteq> 1 then
           Err [Lit ''expected exactly one of user_id/schedule_id/channel_id set, got '', Num (int set_count)]
         else
           (let matches = (case net_target_type target of
                  escalation_target_type.User \<Rightarrow> is_some (net_user_id target)
                | Schedule \<Rightarrow> is_some (net_schedule_id target)
                | Channel \<Rightarrow> is_some (net_channel_id target))
            in if \<not> matches then
                 Err [Lit ''set id does not match target_type '',
                      Lit (case net_target_type target of escalation_target_type.User \<Rightarrow> ''User''
                             | Schedule \<Rightarrow> ''Schedule'' | Channel \<Rightarrow> ''Channel'')]
               else Ok ()))"

fun validate_targets :: "nat \<Rightarrow> nat \<Rightarrow> new_escalation_target list \<Rightarrow> app_error + unit" where
  "validate_targets i j [] = Ok ()"
| "validate_targets i j (t # ts) =
     (case validate_target t of
        Inl reason \<Rightarrow> Err (bad_request ''INVALID_ESCALATION_TARGET''
          ([Lit ''step '', Num (int i), Lit '' target '', Num (int j), Lit '': ''] @ reason))
      | Inr _ \<Rightarrow> validate_targets i (j + 1) ts)"

fun validate_steps :: "nat \<Rightarrow> new_escalation_step list \<Rightarrow> app_error + unit" where
  "validate_steps i [] = Ok ()"
| "validate_steps i (s # ss) =
     (if nes_level s \<le> 0 then
        Err (bad_request ''INVALID_STEP_LEVEL''
          [Lit ''step at index '', Num (int i), Lit '' has non-positive level '', Num (nes_level s)])
      else
        (case validate_targets i 0 (nes_targets s) of
           Inl e \<Rightarrow> Err e
         | Inr _ \<Rightarrow> validate_steps (i + 1) ss))"

definition validate_new_policy :: "new_escalation_policy \<Rightarrow> app_error + unit" where
  "validate_new_policy new =
     (if trim (nep_name new) = [] then
        Err (bad_request ''INVALID_POLICY_NAME'' [Lit ''name is required''])
      else validate_steps 0 (nep_steps new))"

text \<open>
  \<open>build_policy\<close> stamps the policy; the ids minted for the steps and targets
  are the supplies \<open>sid\<close> and \<open>tid\<close>.
\<close>

definition build_policy ::
  "instant \<Rightarrow> (nat \<Rightarrow> uuid) \<Rightarrow> (nat \<Rightarrow> nat \<Rightarrow> uuid) \<Rightarrow> uuid \<Rightarrow> new_escalation_policy \<Rightarrow> escalation_policy" where
  "build_policy now sid tid pid new =
     \<lparr>ep_id = pid, ep_name = nep_name new, ep_description = nep_description new,
      ep_repeat_count = nep_repeat_count new,
      ep_steps = map (\<lambda>(i, s). \<lparr>es_id = sid i, es_level = nes_level s, es_delay_secs = nes_delay_secs s,
          es_targets = map (\<lambda>(j, t). \<lparr>et_id = tid i j, et_target_type = net_target_type t,
              et_user_id = net_user_id t, et_schedule_id = net_schedule_id t,
              et_channel_id = net_channel_id t\<rparr>) (enumerate 0 (nes_targets s))\<rparr>)
        (enumerate 0 (nep_steps new)),
      ep_created_at = now, ep_updated_at = now\<rparr>"

section \<open>The whole walk\<close>

text \<open>The pages \<open>(level, round, delay)\<close> the engine issues from a state on, if nobody acknowledges.\<close>

function walk :: "escalation_step list \<Rightarrow> int \<Rightarrow> int \<Rightarrow> int \<Rightarrow> (int \<times> int \<times> int) list" where
  "walk steps repeat_count level round =
     (case next_step steps repeat_count level round of
        Exhausted \<Rightarrow> []
      | Page l r d \<Rightarrow> (l, r, d) # walk steps repeat_count l r)"
  by pat_completeness auto

lemma find_Some_mem: "List.find P xs = Some x \<Longrightarrow> x \<in> set xs \<and> P x"
  by (induction xs) (auto split: if_splits)

lemma next_step_Page:
  assumes "next_step steps rc level round = Page l r d"
  shows "(r = round \<and> level < l \<and> (\<exists>s\<in>set steps. es_level s = l \<and> es_delay_secs s = d))
       \<or> (r = round + 1 \<and> round < rc \<and> steps \<noteq> [] \<and> l = es_level (hd steps) \<and> d = es_delay_secs (hd steps))"
  using assms
  by (auto simp: next_step_def split: list.splits option.splits if_splits dest!: find_Some_mem)

termination walk
proof (relation "inv_image (less_than <*lex*> less_than)
      (\<lambda>(steps, rc, level, round). (nat (rc - round), length (filter (\<lambda>s. es_level s > level) steps)))")
  fix steps rc level round l r d
  assume "next_step steps rc level round = Page l r d"
  from next_step_Page [OF this]
  show "((steps, rc, l, r), (steps, rc, level, round)) \<in> inv_image (less_than <*lex*> less_than)
      (\<lambda>(steps, rc, level, round). (nat (rc - round), length (filter (\<lambda>s. es_level s > level) steps)))"
  proof (elim disjE conjE bexE)
    fix s assume *: "r = round" "level < l" "s \<in> set steps" "es_level s = l"
    have "filter (\<lambda>s. es_level s > l) steps = filter (\<lambda>s. es_level s > l) (filter (\<lambda>s. es_level s > level) steps)"
      using *(2) by (auto simp: filter_filter intro!: filter_cong)
    moreover have "s \<in> set (filter (\<lambda>s. es_level s > level) steps)" using * by simp
    ultimately have "length (filter (\<lambda>s. es_level s > l) steps) < length (filter (\<lambda>s. es_level s > level) steps)"
      using *(4) by (metis length_filter_less less_irrefl)
    then show ?thesis using *(1) by simp
  qed auto
qed auto

declare walk.simps [simp del]

text \<open>The rungs whose level exceeds \<open>m\<close> and every level listed before them.\<close>

fun rungs_above :: "int \<Rightarrow> escalation_step list \<Rightarrow> escalation_step list" where
  "rungs_above m [] = []"
| "rungs_above m (s # ss) =
     (if es_level s > m then s # rungs_above (es_level s) ss else rungs_above m ss)"

definition page_of :: "int \<Rightarrow> escalation_step \<Rightarrow> int \<times> int \<times> int" where
  "page_of round s = (es_level s, round, es_delay_secs s)"

lemma find_rungs_above:
  "List.find (\<lambda>s. es_level s > m) steps = (case rungs_above m steps of [] \<Rightarrow> None | s # _ \<Rightarrow> Some s)"
  by (induction steps) auto

lemma next_step_rungs:
  "next_step steps rc m r =
     (case rungs_above m steps of
        s # _ \<Rightarrow> Page (es_level s) r (es_delay_secs s)
      | [] \<Rightarrow> if steps \<noteq> [] \<and> r < rc then Page (es_level (hd steps)) (r + 1) (es_delay_secs (hd steps))
               else Exhausted)"
  unfolding next_step_def find_rungs_above
  by (cases steps) (simp_all del: rungs_above.simps(2) split: list.split)

lemma rungs_above_tl: "rungs_above m steps = s # rest \<Longrightarrow> rungs_above (es_level s) steps = rest"
proof (induction steps)
  case (Cons x steps)
  show ?case
  proof (cases "es_level x > m")
    case False
    with Cons have "rungs_above m steps = s # rest" by simp
    moreover from this have "m < es_level s"
      using find_rungs_above [of m steps] find_Some_mem [of "\<lambda>s. es_level s > m" steps s] by simp
    ultimately show ?thesis using Cons False by simp
  qed (use Cons in auto)
qed simp

lemma rungs_above_sorted:
  "sorted_wrt (<) (map es_level steps) \<Longrightarrow> (\<And>s. s \<in> set steps \<Longrightarrow> m < es_level s) \<Longrightarrow> rungs_above m steps = steps"
  by (induction steps arbitrary: m) auto

lemma set_rungs_above: "set (rungs_above m steps) \<subseteq> set steps"
  by (induction steps arbitrary: m) (auto split: if_splits)

lemma walk_round:
  "walk steps rc m r = map (page_of r) (rungs_above m steps)
     @ (if r < rc \<and> steps \<noteq> [] then page_of (r + 1) (hd steps) # walk steps rc (es_level (hd steps)) (r + 1) else [])"
proof (induction "length (rungs_above m steps)" arbitrary: m)
  case 0
  then show ?case
    by (subst walk.simps) (simp add: next_step_rungs page_of_def)
next
  case (Suc n)
  then obtain s rest where r: "rungs_above m steps = s # rest" by (cases "rungs_above m steps") auto
  then have tl: "rungs_above (es_level s) steps = rest" by (rule rungs_above_tl)
  have "next_step steps rc m r' = Page (es_level s) r' (es_delay_secs s)" for r'
    using r by (simp add: next_step_rungs)
  then have "walk steps rc m r = page_of r s # walk steps rc (es_level s) r"
    by (subst walk.simps) (simp add: page_of_def)
  with Suc.hyps(1) [of "es_level s"] Suc.hyps(2) r tl show ?case by simp
qed

lemma walk_from_start:
  assumes "\<And>s. s \<in> set steps \<Longrightarrow> 0 < es_level s"
  shows "walk steps rc 0 r = map (page_of r) (rungs_above 0 steps) @ (if r < rc then walk steps rc 0 (r + 1) else [])"
proof (cases steps)
  case Nil
  then show ?thesis by (simp add: walk.simps next_step_def)
next
  case (Cons f fs)
  have "rungs_above 0 steps = f # rungs_above (es_level f) steps"
    using Cons assms by simp
  then have "walk steps rc 0 r' = page_of r' f # walk steps rc (es_level f) r'" for r'
    by (subst (1 2) walk_round) simp
  with walk_round [of steps rc 0 r] show ?thesis using Cons by simp
qed

lemma walk_rounds:
  assumes "\<And>s. s \<in> set steps \<Longrightarrow> 0 < es_level s"
  shows "walk steps rc 0 r = concat (map (\<lambda>k. map (page_of k) (rungs_above 0 steps)) [r..max r rc])"
proof (induction "nat (rc - r)" arbitrary: r)
  case 0
  then show ?case using walk_from_start [OF assms, where rc = rc and r = r] by simp
next
  case (Suc n)
  then have "r < rc" by simp
  then have "[r..max r rc] = r # [r + 1..max (r + 1) rc]" by (simp add: upto_rec1)
  with Suc.hyps(1) [of "r + 1"] Suc.hyps(2) walk_from_start [OF assms, where rc = rc and r = r] \<open>r < rc\<close>
  show ?case by simp
qed

section \<open>Validated policies\<close>

lemma validate_steps_ok: "validate_steps i ss = Ok () \<Longrightarrow> s \<in> set ss \<Longrightarrow> 0 < nes_level s"
  by (induction ss arbitrary: i) (auto split: if_splits sum.splits)

lemma validate_policy_positive:
  "validate_new_policy new = Ok () \<Longrightarrow> s \<in> set (nep_steps new) \<Longrightarrow> 0 < nes_level s"
  by (auto simp: validate_new_policy_def dest: validate_steps_ok split: if_splits)

lemma build_policy_levels:
  "map es_level (ep_steps (build_policy now sid tid pid new)) = map nes_level (nep_steps new)"
  unfolding build_policy_def by (auto simp: enumerate_eq_zip intro!: nth_equalityI)

lemma build_policy_positive:
  assumes "validate_new_policy new = Ok ()" "s \<in> set (ep_steps (build_policy now sid tid pid new))"
  shows "0 < es_level s"
proof -
  have "es_level s \<in> set (map nes_level (nep_steps new))"
    using assms(2) build_policy_levels [of now sid tid pid new] by (metis image_eqI set_map)
  then show ?thesis using assms(1) validate_policy_positive by auto
qed

text \<open>
  The escalation ladder of a policy accepted by the API, walked from an
  unpaged state with nobody acknowledging, terminates and repeats one round
  \<open>max 0 repeat_count + 1\<close> times; when the requested levels are strictly
  ascending each round pages every rung, in order, with the delay of that rung.
\<close>

theorem escalation_ladder_pages_every_rung:
  fixes now :: instant and sid tid and pid :: uuid
  assumes "validate_new_policy new = Ok ()"
    and "sorted_wrt (<) (map nes_level (nep_steps new))"
  defines "steps \<equiv> ep_steps (build_policy now sid tid pid new)"
  shows "walk steps (nep_repeat_count new) 0 0 =
           concat (map (\<lambda>k. map (page_of k) steps) [0..max 0 (nep_repeat_count new)])
       \<and> map es_level steps = map nes_level (nep_steps new)"
proof
  show levels: "map es_level steps = map nes_level (nep_steps new)"
    unfolding steps_def by (rule build_policy_levels)
  have pos: "\<And>s. s \<in> set steps \<Longrightarrow> 0 < es_level s"
    unfolding steps_def by (rule build_policy_positive [OF assms(1)])
  have "rungs_above 0 steps = steps"
    using assms(2) pos by (intro rungs_above_sorted) (auto simp: levels)
  with walk_rounds [OF pos]
  show "walk steps (nep_repeat_count new) 0 0 =
          concat (map (\<lambda>k. map (page_of k) steps) [0..max 0 (nep_repeat_count new)])" by simp
qed

definition ascending_request :: new_escalation_policy where
  "ascending_request = \<lparr>nep_name = ''p'', nep_description = None, nep_repeat_count = 1,
     nep_steps = [\<lparr>nes_level = 1, nes_delay_secs = 60, nes_targets = []\<rparr>,
                  \<lparr>nes_level = 2, nes_delay_secs = 300, nes_targets = []\<rparr>]\<rparr>"

lemma escalation_ladder_pages_every_rung_witness:
  "walk (ep_steps (build_policy 0 of_nat (\<lambda>i j. of_nat j) 9 ascending_request)) 1 0 0
     = [(1, 0, 60), (2, 0, 300), (1, 1, 60), (2, 1, 300)]"
proof -
  have "validate_new_policy ascending_request = Ok ()"
    by (simp add: ascending_request_def validate_new_policy_def trim_def is_whitespace_def)
  moreover have "sorted_wrt (<) (map nes_level (nep_steps ascending_request))"
    by (simp add: ascending_request_def)
  ultimately show ?thesis
    using escalation_ladder_pages_every_rung [of ascending_request 0 of_nat "\<lambda>i j. of_nat j" 9]
    by (simp add: ascending_request_def build_policy_def page_of_def upto.simps)
qed

text \<open>
  The API neither sorts the steps of a policy nor rejects unsorted ones,
  while the ladder walk relies on ascending levels: for every accepted policy
  the walk pages exactly the rungs whose level exceeds all levels listed
  before them, in every round, so a rung listed after a higher one is never paged.
\<close>

theorem escalation_ladder_skips_unsorted_rungs:
  fixes now :: instant and sid tid and pid :: uuid
  assumes "validate_new_policy new = Ok ()"
  defines "steps \<equiv> ep_steps (build_policy now sid tid pid new)"
  shows "walk steps (nep_repeat_count new) 0 0 =
           concat (map (\<lambda>k. map (page_of k) (rungs_above 0 steps)) [0..max 0 (nep_repeat_count new)])"
  unfolding steps_def by (rule walk_rounds) (rule build_policy_positive [OF assms(1)])

lemma escalation_ladder_skips_unsorted_rungs_witness:
  "walk (ep_steps (build_policy 0 of_nat (\<lambda>i j. of_nat j) 9
      (ascending_request\<lparr>nep_steps := rev (nep_steps ascending_request)\<rparr>))) 1 0 0
     = [(2, 0, 300), (2, 1, 300)]"
proof -
  have "validate_new_policy (ascending_request\<lparr>nep_steps := rev (nep_steps ascending_request)\<rparr>) = Ok ()"
    by (simp add: ascending_request_def validate_new_policy_def trim_def is_whitespace_def)
  from escalation_ladder_skips_unsorted_rungs [OF this, of 0 of_nat "\<lambda>i j. of_nat j" 9]
  show ?thesis by (simp add: ascending_request_def build_policy_def page_of_def upto.simps)
qed

text \<open>
  The round counter never overflows: when the state and the repeat count
  are \<open>i32\<close> values, every page \<open>next_step\<close> decides on has a round between the
  current one and the larger of it and the repeat count, and a level and delay
  taken from a step of the policy.
\<close>

theorem next_step_in_range:
  assumes "next_step steps repeat_count level round = Page l r d"
    and "- (2 ^ 31) \<le> round" "round < 2 ^ 31" "repeat_count < 2 ^ 31"
  shows "round \<le> r \<and> r \<le> max round repeat_count \<and> - (2 ^ 31) \<le> r \<and> r < 2 ^ 31
    \<and> (\<exists>s\<in>set steps. l = es_level s \<and> d = es_delay_secs s)"
proof -
  from next_step_Page [OF assms(1)] consider
      (same) "r = round" "\<exists>s\<in>set steps. es_level s = l \<and> es_delay_secs s = d"
    | (wrap) "r = round + 1" "round < repeat_count" "steps \<noteq> []"
        "l = es_level (hd steps)" "d = es_delay_secs (hd steps)"
    by blast
  then show ?thesis
  proof cases
    case same
    then show ?thesis using assms(2,3) by auto
  next
    case wrap
    then show ?thesis using assms(2-4) hd_in_set [of steps] by auto
  qed
qed

lemma next_step_in_range_witness:
  "next_step [\<lparr>es_id = 0, es_level = 1, es_delay_secs = 5, es_targets = []\<rparr>] 2147483647 1 2147483646
     = Page 1 2147483647 5 \<and> (2147483647::int) < 2 ^ 31"
  using next_step_in_range [of "[\<lparr>es_id = 0, es_level = 1, es_delay_secs = 5, es_targets = []\<rparr>]"
      2147483647 1 2147483646 1 2147483647 5]
  by (simp add: next_step_def)

end
