(* ===== verification/On_Call.thy ===== *)
theory On_Call
  imports Domain_Types
begin

text \<open>
  \<open>crates/core/src/domain/on_call.rs\<close>: on-call schedules and the resolver that
  computes who is on call at an instant.  The time-zone database (chrono-tz)
  is a parameter: a zone gives the offset at an instant and resolves a local
  wall-clock time to one instant, two (the repeated hour) or none (the gap).
\<close>

section \<open>Schedules\<close>

record on_call_participant =
  ocp_id :: uuid
  ocp_user_id :: uuid
  ocp_position :: int

record on_call_layer =
  ocl_id :: uuid
  ocl_name :: "string option"
  ocl_rotation_type :: rotation_type
  ocl_rotation_length_secs :: int
  ocl_handoff_at :: instant
  ocl_layer_order :: int
  ocl_created_at :: instant
  ocl_participants :: "on_call_participant list"

record on_call_override =
  oco_id :: uuid
  oco_user_id :: uuid
  oco_starts_at :: instant
  oco_ends_at :: instant
  oco_created_by :: "uuid option"
  oco_created_at :: instant

record on_call_schedule =
  ocs_id :: uuid
  ocs_name :: string
  ocs_timezone :: string
  ocs_created_at :: instant
  ocs_updated_at :: instant

record on_call_schedule_detail =
  ocd_schedule :: on_call_schedule
  ocd_layers :: "on_call_layer list"
  ocd_overrides :: "on_call_override list"

record on_call_schedule_summary =
  ocsm_id :: uuid
  ocsm_name :: string
  ocsm_timezone :: string
  ocsm_layer_count :: int
  ocsm_created_at :: instant
  ocsm_updated_at :: instant

section \<open>Time zones\<close>

text \<open>A naive local date-time is its number of nanoseconds since 1970-01-01T00:00 local time.\<close>

type_synonym naive = int

datatype local_result = Single instant | Ambiguous instant instant | NoLocal

record zone =
  offset_secs :: "instant \<Rightarrow> int"
  from_local :: "naive \<Rightarrow> local_result"

definition UTC :: zone where
  "UTC = \<lparr>offset_secs = (\<lambda>_. 0), from_local = Single\<rparr>"

definition earliest :: "local_result \<Rightarrow> instant option" where
  "earliest r = (case r of Single t \<Rightarrow> Some t | Ambiguous t _ \<Rightarrow> Some t | NoLocal \<Rightarrow> None)"

definition day_nanos :: int where
  "day_nanos = 86400000000000"

definition to_local :: "zone \<Rightarrow> instant \<Rightarrow> naive" where
  "to_local tz t = t + seconds (offset_secs tz t)"

definition date_naive :: "naive \<Rightarrow> int" where
  "date_naive n = n div day_nanos"

definition time_naive :: "naive \<Rightarrow> int" where
  "time_naive n = n mod day_nanos"

definition and_time :: "int \<Rightarrow> int \<Rightarrow> naive" where
  "and_time date time = date * day_nanos + time"

text \<open>Rust's integer division truncates towards zero; the divisor is positive here.\<close>

definition quot :: "int \<Rightarrow> int \<Rightarrow> int" where
  "quot a b = (if a < 0 then - ((- a) div b) else a div b)"

section \<open>The resolver\<close>

fun first_after_gap :: "zone \<Rightarrow> naive \<Rightarrow> int list \<Rightarrow> instant option" where
  "first_after_gap tz n [] = None"
| "first_after_gap tz n (mins # rest) =
     (case earliest (from_local tz (n + minutes mins)) of
        Some t \<Rightarrow> Some t
      | None \<Rightarrow> first_after_gap tz n rest)"

definition local_to_utc :: "zone \<Rightarrow> naive \<Rightarrow> instant" where
  "local_to_utc tz n =
     (case from_local tz n of
        Single t \<Rightarrow> t
      | Ambiguous t _ \<Rightarrow> t
      | NoLocal \<Rightarrow>
         (case first_after_gap tz n [60, 120, 180, 240] of
            Some t \<Rightarrow> t
          | None \<Rightarrow> n - seconds (offset_secs tz n)))"

definition rotation_index :: "on_call_layer \<Rightarrow> zone \<Rightarrow> instant \<Rightarrow> int" where
  "rotation_index layer tz at =
     (case ocl_rotation_type layer of
        Custom \<Rightarrow>
          (let secs = num_seconds (at - ocl_handoff_at layer);
               len = max (ocl_rotation_length_secs layer) 1
           in if secs < 0 then 0 else secs div len)
      | _ \<Rightarrow>
          (let period_days = max (quot (ocl_rotation_length_secs layer) 86400) 1;
               anchor_local = to_local tz (ocl_handoff_at layer);
               now_local = to_local tz at;
               anchor_date = date_naive anchor_local;
               now_date = date_naive now_local
           in if now_date < anchor_date then 0
              else
                (let handoff_today = local_to_utc tz (and_time now_date (time_naive anchor_local));
                     elapsed = now_date - anchor_date;
                     elapsed = (if at < handoff_today then elapsed - 1 else elapsed)
                 in if elapsed < 0 then 0 else elapsed div period_days)))"

definition layer_on_call :: "on_call_layer \<Rightarrow> zone \<Rightarrow> instant \<Rightarrow> uuid option" where
  "layer_on_call layer tz at =
     (if ocl_participants layer = [] then None
      else
        (let ps = sort_key ocp_position (ocl_participants layer);
             idx = rotation_index layer tz at;
             slot = nat (idx mod int (length ps))
         in Some (ocp_user_id (ps ! slot))))"

fun push_new_users :: "on_call_override list \<Rightarrow> uuid list \<Rightarrow> uuid list" where
  "push_new_users [] out = out"
| "push_new_users (ov # rest) out =
     push_new_users rest (if oco_user_id ov \<in> set out then out else out @ [oco_user_id ov])"

fun first_layer :: "on_call_layer list \<Rightarrow> zone \<Rightarrow> instant \<Rightarrow> uuid list" where
  "first_layer [] tz at = []"
| "first_layer (layer # rest) tz at =
     (case layer_on_call layer tz at of Some uid \<Rightarrow> [uid] | None \<Rightarrow> first_layer rest tz at)"

definition covers :: "instant \<Rightarrow> on_call_override \<Rightarrow> bool" where
  "covers at ov = (oco_starts_at ov \<le> at \<and> at < oco_ends_at ov)"

definition resolve_on_call ::
  "(string \<Rightarrow> zone option) \<Rightarrow> on_call_schedule \<Rightarrow> on_call_layer list \<Rightarrow> on_call_override list
     \<Rightarrow> instant \<Rightarrow> uuid list" where
  "resolve_on_call parse_tz schedule layers overrides at =
     (let covering = filter (covers at) overrides
      in if covering \<noteq> [] then push_new_users (sort_key oco_starts_at covering) []
         else
           (let tz = (case parse_tz (ocs_timezone schedule) of Some z \<Rightarrow> z | None \<Rightarrow> UTC);
                ranked = sort_key (\<lambda>l. (- ocl_layer_order l, ocl_created_at l))
                           (filter (\<lambda>l. ocl_participants l \<noteq> []) layers)
            in first_layer ranked tz at))"

section \<open>Overrides\<close>

lemma push_new_users_set: "set (push_new_users ovs out) = set out \<union> oco_user_id ` set ovs"
  by (induction ovs arbitrary: out) auto

lemma push_new_users_distinct: "distinct out \<Longrightarrow> distinct (push_new_users ovs out)"
  by (induction ovs arbitrary: out) auto

lemma push_new_users_prefix: "\<exists>rest. push_new_users ovs out = out @ rest"
proof (induction ovs arbitrary: out)
  case (Cons ov ovs)
  from Cons.IH [of out] Cons.IH [of "out @ [oco_user_id ov]"] show ?case by auto
qed simp

lemma sort_key_hd_min:
  assumes "x \<in> set xs"
  shows "f (hd (sort_key f xs)) \<le> f x"
proof -
  have "x \<in> set (sort_key f xs)" using assms by simp
  then obtain y ys where ys: "sort_key f xs = y # ys" by (cases "sort_key f xs") auto
  have "sorted (map f (sort_key f xs))" by (rule sorted_sort_key)
  with ys \<open>x \<in> set (sort_key f xs)\<close> show ?thesis by auto
qed

lemma push_new_users_hd: "ovs \<noteq> [] \<Longrightarrow> hd (push_new_users ovs []) = oco_user_id (hd ovs)"
proof (cases ovs)
  case (Cons ov rest)
  then show ?thesis
    using push_new_users_prefix [of rest "[oco_user_id ov]"] by auto
qed simp

text \<open>
  An override beats every rotation.  When some override covers the
  instant, the users on call are exactly the users of the covering overrides,
  each once, whatever the layers say, and the first one holds an override that
  started no later than any other covering one.
\<close>

theorem override_beats_rotation:
  fixes parse_tz :: "string \<Rightarrow> zone option" and schedule :: on_call_schedule and layers :: "on_call_layer list"
  assumes "ov \<in> set overrides" "covers at ov"
  defines "users \<equiv> resolve_on_call parse_tz schedule layers overrides at"
  shows "set users = oco_user_id ` set (filter (covers at) overrides) \<and> distinct users
    \<and> (\<exists>o'\<in>set overrides. covers at o' \<and> hd users = oco_user_id o' \<and> oco_starts_at o' \<le> oco_starts_at ov)"
proof -
  define sorted_cov where "sorted_cov = sort_key oco_starts_at (filter (covers at) overrides)"
  have ov: "ov \<in> set (filter (covers at) overrides)" using assms by simp
  then have users: "users = push_new_users sorted_cov []"
    by (auto simp: users_def resolve_on_call_def sorted_cov_def filter_empty_conv)
  have "sorted_cov \<noteq> []" using ov by (auto simp: sorted_cov_def simp flip: set_empty)
  then have "hd sorted_cov \<in> set overrides" "covers at (hd sorted_cov)" "hd users = oco_user_id (hd sorted_cov)"
    using hd_in_set [of sorted_cov] by (auto simp: users sorted_cov_def push_new_users_hd)
  moreover have "oco_starts_at (hd sorted_cov) \<le> oco_starts_at ov"
    unfolding sorted_cov_def using ov by (rule sort_key_hd_min)
  ultimately show ?thesis
    by (auto simp: users push_new_users_set push_new_users_distinct sorted_cov_def)
qed

definition sample_override :: "uuid \<Rightarrow> instant \<Rightarrow> instant \<Rightarrow> on_call_override" where
  "sample_override u from_at to_at =
     \<lparr>oco_id = u, oco_user_id = u, oco_starts_at = from_at, oco_ends_at = to_at,
      oco_created_by = None, oco_created_at = 0\<rparr>"

definition sample_schedule :: on_call_schedule where
  "sample_schedule = \<lparr>ocs_id = 1, ocs_name = ''primary'', ocs_timezone = ''UTC'', ocs_created_at = 0, ocs_updated_at = 0\<rparr>"

lemma override_beats_rotation_witness:
  "set (resolve_on_call (\<lambda>_. None) sample_schedule [] [sample_override 7 5 20, sample_override 8 0 10] 6) = {7, 8}
   \<and> hd (resolve_on_call (\<lambda>_. None) sample_schedule [] [sample_override 7 5 20, sample_override 8 0 10] 6) = 8"
  using override_beats_rotation [of "sample_override 8 0 10" "[sample_override 7 5 20, sample_override 8 0 10]" 6
      "\<lambda>_. None" sample_schedule "[]"]
  by (auto simp: covers_def sample_override_def)

section \<open>Layers\<close>

lemma layer_on_call_mem:
  assumes "ocl_participants layer \<noteq> []"
  shows "\<exists>p\<in>set (ocl_participants layer). layer_on_call layer tz at = Some (ocp_user_id p)"
proof -
  define ps where "ps = sort_key ocp_position (ocl_participants layer)"
  define slot where "slot = nat (rotation_index layer tz at mod int (length ps))"
  have "0 < length ps" using assms by (simp add: ps_def)
  then have "slot < length ps" by (simp add: slot_def nat_less_iff)
  then have "ps ! slot \<in> set (ocl_participants layer)" by (metis nth_mem ps_def set_sort)
  moreover have "layer_on_call layer tz at = Some (ocp_user_id (ps ! slot))"
    using assms by (simp add: layer_on_call_def ps_def slot_def Let_def)
  ultimately show ?thesis by blast
qed

text \<open>
  With no override covering the instant, nobody is on call exactly when no
  layer has participants; otherwise exactly one user is, the rotation slot of
  a layer of the highest order, and among those of the earliest created one.
\<close>

theorem top_layer_decides:
  fixes parse_tz :: "string \<Rightarrow> zone option" and schedule :: on_call_schedule and layers :: "on_call_layer list"
  assumes "\<forall>ov\<in>set overrides. \<not> covers at ov"
  defines "tz \<equiv> (case parse_tz (ocs_timezone schedule) of Some z \<Rightarrow> z | None \<Rightarrow> UTC)"
    and "users \<equiv> resolve_on_call parse_tz schedule layers overrides at"
  shows "(if \<exists>l\<in>set layers. ocl_participants l \<noteq> []
          then \<exists>l\<in>set layers. \<exists>p\<in>set (ocl_participants l). layer_on_call l tz at = Some (ocp_user_id p)
             \<and> users = [ocp_user_id p]
             \<and> (\<forall>l'. l' \<in> set layers \<and> ocl_participants l' \<noteq> [] \<longrightarrow>
                   ocl_layer_order l' < ocl_layer_order l \<or>
                   ocl_layer_order l' = ocl_layer_order l \<and> ocl_created_at l \<le> ocl_created_at l')
          else users = [])"
proof -
  define staffed where "staffed = filter (\<lambda>l. ocl_participants l \<noteq> []) layers"
  define key where "key = (\<lambda>l :: on_call_layer. (- ocl_layer_order l, ocl_created_at l))"
  have users: "users = first_layer (sort_key key staffed) tz at"
    using assms(1) by (simp add: users_def resolve_on_call_def staffed_def tz_def key_def Let_def filter_empty_conv)
  show ?thesis
  proof (cases "staffed = []")
    case True
    then show ?thesis by (auto simp: users staffed_def filter_empty_conv)
  next
    case False
    then obtain l rest where sorted_l: "sort_key key staffed = l # rest"
      by (metis list.exhaust set_empty set_sort)
    then have "l \<in> set staffed" by (metis list.set_intros(1) set_sort)
    then have l: "l \<in> set layers" "ocl_participants l \<noteq> []" by (simp_all add: staffed_def)
    then obtain p where p: "p \<in> set (ocl_participants l)" "layer_on_call l tz at = Some (ocp_user_id p)"
      using layer_on_call_mem by blast
    have key: "key l \<le> key l'" if "l' \<in> set layers" "ocl_participants l' \<noteq> []" for l'
      using sort_key_hd_min [of l' staffed key] that sorted_l by (simp add: staffed_def)
    have "ocl_layer_order l' < ocl_layer_order l \<or>
          ocl_layer_order l' = ocl_layer_order l \<and> ocl_created_at l \<le> ocl_created_at l'"
      if "l' \<in> set layers" "ocl_participants l' \<noteq> []" for l'
      using key [OF that] by (auto simp: key_def)
    moreover have "users = [ocp_user_id p]" using p(2) by (simp add: users sorted_l)
    ultimately show ?thesis using l p by auto
  qed
qed

definition sample_layer :: "int \<Rightarrow> uuid list \<Rightarrow> on_call_layer" where
  "sample_layer order us =
     \<lparr>ocl_id = 1, ocl_name = None, ocl_rotation_type = Daily, ocl_rotation_length_secs = 86400,
      ocl_handoff_at = 0, ocl_layer_order = order, ocl_created_at = 0,
      ocl_participants = map (\<lambda>u. \<lparr>ocp_id = u, ocp_user_id = u, ocp_position = 0\<rparr>) us\<rparr>"

lemma top_layer_decides_witness:
  "resolve_on_call (\<lambda>_. None) sample_schedule [sample_layer 1 [5], sample_layer 2 [6], sample_layer 3 []]
     [sample_override 7 5 20] 30 = [6]"
proof -
  let ?L = "[sample_layer 1 [5], sample_layer 2 [6], sample_layer 3 []]"
  have staffed: "\<exists>l\<in>set ?L. ocl_participants l \<noteq> []" by (simp add: sample_layer_def)
  have "\<forall>ov\<in>set [sample_override 7 5 20]. \<not> covers 30 ov"
    by (simp add: covers_def sample_override_def)
  from top_layer_decides [where parse_tz = "\<lambda>_. None" and schedule = sample_schedule and layers = ?L, OF this]
  obtain l p where l: "l \<in> set ?L" "p \<in> set (ocl_participants l)"
    and user: "resolve_on_call (\<lambda>_. None) sample_schedule ?L [sample_override 7 5 20] 30 = [ocp_user_id p]"
    and top: "\<forall>l'. l' \<in> set ?L \<and> ocl_participants l' \<noteq> [] \<longrightarrow> ocl_layer_order l' < ocl_layer_order l \<or>
        ocl_layer_order l' = ocl_layer_order l \<and> ocl_created_at l \<le> ocl_created_at l'"
    unfolding if_P [OF staffed] by (elim bexE conjE) (rule that)
  from top [rule_format, of "sample_layer 2 [6]"] have "2 \<le> ocl_layer_order l" by (auto simp: sample_layer_def)
  then have "l = sample_layer 2 [6]" using l by (auto simp: sample_layer_def)
  then show ?thesis using l(2) user by (simp add: sample_layer_def)
qed

section \<open>Rotations\<close>

lemma floor_diff_days:
  fixes a b c :: int
  assumes "0 < c"
  shows "(a - b) div c = a div c - b div c - (if a mod c < b mod c then 1 else 0)"
proof -
  have ab: "a - b = (a div c - b div c) * c + (a mod c - b mod c)"
    by (simp add: left_diff_distrib) (simp add: algebra_simps mult_div_mod_eq flip: minus_div_mult_eq_mod)
  have bnd: "0 \<le> a mod c" "a mod c < c" "0 \<le> b mod c" "b mod c < c"
    using assms by simp_all
  have quot: "(a - b) div c = q" if "a - b = c * q + r" "0 \<le> r" "r < c" for q r
    using that by (rule int_div_pos_eq)
  show ?thesis
  proof (cases "a mod c < b mod c")
    case True
    have "(a - b) div c = a div c - b div c - 1"
    proof (rule quot)
      show "a - b = c * (a div c - b div c - 1) + (a mod c - b mod c + c)"
        using ab by (simp add: algebra_simps)
    qed (use True bnd in linarith)+
    then show ?thesis using True by simp
  next
    case False
    have "(a - b) div c = a div c - b div c"
    proof (rule quot)
      show "a - b = c * (a div c - b div c) + (a mod c - b mod c)"
        using ab by (simp add: mult.commute)
    qed (use False bnd in linarith)+
    then show ?thesis using False by simp
  qed
qed

text \<open>
  The wall-clock reading of a rotation: whole periods between the anchor and
  the instant, both read off the local clock, and no period before the anchor.
\<close>

definition period_days :: "on_call_layer \<Rightarrow> int" where
  "period_days layer = max (quot (ocl_rotation_length_secs layer) 86400) 1"

definition wall_clock_index :: "on_call_layer \<Rightarrow> zone \<Rightarrow> instant \<Rightarrow> int" where
  "wall_clock_index layer tz at =
     max 0 ((to_local tz at - to_local tz (ocl_handoff_at layer)) div (day_nanos * period_days layer))"

definition handoff_of_day :: "on_call_layer \<Rightarrow> zone \<Rightarrow> instant \<Rightarrow> naive" where
  "handoff_of_day layer tz at =
     and_time (date_naive (to_local tz at)) (time_naive (to_local tz (ocl_handoff_at layer)))"

lemma day_nanos_pos: "0 < day_nanos"
  by (simp add: day_nanos_def)

lemma rotation_index_wall_clock:
  assumes "ocl_rotation_type layer \<noteq> Custom"
    and "at < local_to_utc tz (handoff_of_day layer tz at)
           \<longleftrightarrow> to_local tz at < handoff_of_day layer tz at"
  shows "rotation_index layer tz at = wall_clock_index layer tz at"
proof -
  define a where "a = to_local tz at"
  define b where "b = to_local tz (ocl_handoff_at layer)"
  define q where "q = (a - b) div day_nanos"
  have p: "0 < period_days layer" by (simp add: period_days_def)
  have "a < handoff_of_day layer tz at \<longleftrightarrow> a mod day_nanos < b mod day_nanos"
    by (simp add: handoff_of_day_def and_time_def date_naive_def time_naive_def flip: a_def b_def)
       (metis add.commute add_less_cancel_right div_mult_mod_eq)
  then have q: "q = date_naive a - date_naive b - (if at < local_to_utc tz (handoff_of_day layer tz at) then 1 else 0)"
    using assms(2) floor_diff_days [OF day_nanos_pos, of a b] by (simp add: q_def date_naive_def a_def)
  have "wall_clock_index layer tz at = max 0 (q div period_days layer)"
    using p day_nanos_pos by (simp add: wall_clock_index_def q_def zdiv_zmult2_eq flip: a_def b_def)
  also have "\<dots> = (if q < 0 then 0 else q div period_days layer)"
    using p by (auto simp: pos_imp_zdiv_neg_iff pos_imp_zdiv_nonneg_iff max_def not_less)
  also have "\<dots> = rotation_index layer tz at"
    using assms(1) q
    by (cases "ocl_rotation_type layer")
      (auto simp: rotation_index_def Let_def handoff_of_day_def period_days_def a_def b_def)
  finally show ?thesis by simp
qed

text \<open>Zones with a constant offset, and a zone whose clock jumps one hour forward at \<open>jump\<close>.\<close>

definition fixed_zone :: "int \<Rightarrow> zone" where
  "fixed_zone off = \<lparr>offset_secs = (\<lambda>_. off), from_local = (\<lambda>n. Single (n - seconds off))\<rparr>"

definition spring_zone :: "int \<Rightarrow> instant \<Rightarrow> zone" where
  "spring_zone off jump =
     \<lparr>offset_secs = (\<lambda>t. if t < jump then off else off + 3600),
      from_local = (\<lambda>n. if n < jump + seconds off then Single (n - seconds off)
                        else if n < jump + seconds (off + 3600) then NoLocal
                        else Single (n - seconds (off + 3600)))\<rparr>"

lemma UTC_fixed: "UTC = fixed_zone 0"
  by (simp add: UTC_def fixed_zone_def instant_simps)

text \<open>
  In a zone of constant offset (UTC among them) a daily or weekly rotation
  advances by exactly one slot every \<open>rotation_length_secs / 86400\<close> whole days
  after the anchor: the calendar computation with its local dates and
  handoff-of-today test equals the plain count of elapsed periods.
\<close>

theorem rotation_index_fixed_zone:
  assumes "ocl_rotation_type layer \<noteq> Custom"
  shows "rotation_index layer (fixed_zone off) at =
           max 0 ((at - ocl_handoff_at layer) div (day_nanos * max (ocl_rotation_length_secs layer div 86400) 1))"
proof -
  have q: "max (quot n 86400) 1 = max (n div 86400) 1" for n
    by (auto simp: quot_def max_def)
  have "rotation_index layer (fixed_zone off) at = wall_clock_index layer (fixed_zone off) at"
    using assms by (rule rotation_index_wall_clock)
      (simp add: fixed_zone_def local_to_utc_def to_local_def, linarith)
  then show ?thesis
    by (simp add: wall_clock_index_def period_days_def q to_local_def fixed_zone_def)
qed

lemma rotation_index_fixed_zone_witness:
  "rotation_index (sample_layer 1 [5, 6]) (fixed_zone 3600) (days 3 + 1) = 3"
  using rotation_index_fixed_zone [of "sample_layer 1 [5, 6]" 3600 "days 3 + 1"]
  by (simp add: sample_layer_def day_nanos_def instant_simps)

text \<open>
  Across a spring-forward transition a daily or weekly handoff keeps its
  wall-clock time: unless the handoff of the day falls into the skipped hour,
  the slot is the number of whole periods between the anchor and the instant
  as the local clock reads them, although one of those days had 23 hours.
\<close>

theorem rotation_index_across_dst:
  assumes "ocl_rotation_type layer \<noteq> Custom"
    and "from_local (spring_zone off jump) (handoff_of_day layer (spring_zone off jump) at) \<noteq> NoLocal"
  shows "rotation_index layer (spring_zone off jump) at = wall_clock_index layer (spring_zone off jump) at"
proof -
  define n where "n = handoff_of_day layer (spring_zone off jump) at"
  have "from_local (spring_zone off jump) n \<noteq> NoLocal" using assms(2) by (simp add: n_def)
  then have "at < local_to_utc (spring_zone off jump) n \<longleftrightarrow> to_local (spring_zone off jump) at < n"
    by (auto simp: spring_zone_def local_to_utc_def to_local_def instant_simps split: if_splits)
  with assms(1) show ?thesis unfolding n_def by (rule rotation_index_wall_clock)
qed

lemma rotation_index_across_dst_witness:
  "rotation_index (sample_layer 1 [5, 6]) (spring_zone 0 (hours 49)) (days 4 - hours 1) = 4"
proof -
  let ?tz = "spring_zone 0 (hours 49)"
  have "from_local ?tz (handoff_of_day (sample_layer 1 [5, 6]) ?tz (days 4 - hours 1)) \<noteq> NoLocal"
    by (simp add: spring_zone_def handoff_of_day_def and_time_def date_naive_def time_naive_def to_local_def
        sample_layer_def day_nanos_def instant_simps)
  moreover have "ocl_rotation_type (sample_layer 1 [5, 6]) \<noteq> Custom" by (simp add: sample_layer_def)
  ultimately show ?thesis
    using rotation_index_across_dst [of "sample_layer 1 [5, 6]" 0 "hours 49" "days 4 - hours 1"]
    by (simp add: wall_clock_index_def period_days_def quot_def to_local_def spring_zone_def
        sample_layer_def day_nanos_def instant_simps)
qed

text \<open>
  A handoff time inside the skipped hour is resolved to the instant the
  wall clock would have reached it without the jump, which is later than the
  jump itself except when the handoff is at the start of the gap: the search
  adds whole hours to the wall time and does not stop at the first local time
  that exists.
\<close>

theorem local_to_utc_in_gap:
  assumes "jump + seconds off \<le> n" "n < jump + seconds (off + 3600)"
  shows "local_to_utc (spring_zone off jump) n = n - seconds off
    \<and> (local_to_utc (spring_zone off jump) n = jump \<longleftrightarrow> n = jump + seconds off)"
  using assms by (auto simp: local_to_utc_def spring_zone_def earliest_def instant_simps)

lemma local_to_utc_in_gap_witness:
  "local_to_utc (spring_zone 3600 (hours 1)) (hours 2 + minutes 30) = hours 1 + minutes 30"
  using local_to_utc_in_gap [of "hours 1" 3600 "hours 2 + minutes 30"] by (simp add: instant_simps)

text \<open>
  The participant of a layer at an instant is the one whose position rank
  is the rotation index modulo the number of participants, and for a custom
  rotation the slot is held for exactly \<open>rotation_length_secs\<close> seconds from
  each handoff on: the same user is on call at every instant of
  \<open>[handoff + k * length, handoff + (k + 1) * length)\<close>.
\<close>

theorem custom_rotation_slot:
  assumes "ocl_rotation_type layer = Custom" "0 < ocl_rotation_length_secs layer"
    and "0 \<le> k" "ocl_participants layer \<noteq> []"
    and "ocl_handoff_at layer + seconds (k * ocl_rotation_length_secs layer) \<le> at"
    and "at < ocl_handoff_at layer + seconds ((k + 1) * ocl_rotation_length_secs layer)"
  shows "layer_on_call layer tz at =
    Some (ocp_user_id (sort_key ocp_position (ocl_participants layer)
            ! nat (k mod int (length (ocl_participants layer)))))"
proof -
  define len where "len = ocl_rotation_length_secs layer"
  define d where "d = at - ocl_handoff_at layer"
  have d: "seconds (k * len) \<le> d" "d < seconds ((k + 1) * len)"
    using assms(5,6) by (simp_all add: d_def len_def)
  have "0 \<le> seconds (k * len)" using assms(2,3) by (simp add: instant_simps len_def)
  then have "0 \<le> d" using d(1) by linarith
  have lo: "k * len \<le> num_seconds d" using num_seconds_mono [OF d(1)] by simp
  have "num_seconds d < (k + 1) * len"
    using \<open>0 \<le> d\<close> d(2) by (rule num_seconds_less)
  with lo have "num_seconds d div len = k"
    using assms(2) by (intro int_div_pos_eq [where r = "num_seconds d - len * k"]) (auto simp: len_def algebra_simps)
  moreover have "max len 1 = len" "\<not> num_seconds d < 0"
    using assms(2) num_seconds_nonneg [OF \<open>0 \<le> d\<close>] by (simp_all add: len_def)
  ultimately have "rotation_index layer tz at = k"
    using assms(1) by (simp add: rotation_index_def Let_def flip: d_def len_def)
  then show ?thesis using assms(4) by (simp add: layer_on_call_def Let_def)
qed

lemma custom_rotation_slot_witness:
  "layer_on_call ((sample_layer 1 [5, 6])\<lparr>ocl_rotation_type := Custom, ocl_rotation_length_secs := 600\<rparr>)
     UTC (seconds 1799) = Some 5"
  using custom_rotation_slot
    [of "(sample_layer 1 [5, 6])\<lparr>ocl_rotation_type := Custom, ocl_rotation_length_secs := 600\<rparr>" 2
       "seconds 1799" UTC]
  by (simp add: sample_layer_def instant_simps)

end
