(* ===== verification/Store_Types.thy ===== *)
theory Store_Types
  imports Check_Spec Slugs Incident_Domain Escalation_Policy On_Call Complex_Main
begin

text \<open>
  The rows the storage layer keeps (\<open>crates/core/src/domain\<close>: target, status
  page, maintenance, silence, subscriber, variable, user, session, API token,
  magic link, page asset, monitor share, postmortem and the aggregation types
  of \<open>extras.rs\<close>) and the operations those types carry themselves: region
  quorum, partial updates, silence matching, scope grants, key, slug and
  branding validation.

  \<open>UserId\<close>, \<open>OrgId\<close> and the other newtypes over \<open>Uuid\<close> are their UUID.  The
  enumerations marked \<open>#[non_exhaustive]\<close> have the variants the source
  declares.
\<close>

section \<open>Shared enumerations\<close>

text \<open>\<open>serde_json::Value\<close>, kept as data.\<close>

datatype json =
    JNull
  | JBool bool
  | JNumber real
  | JString string
  | JArray "json list"
  | JObject "(string \<times> json) list"

datatype (plugins only: code) write_source = Ui | Api | Terraform

fun write_source_as_str :: "write_source \<Rightarrow> string" where
  "write_source_as_str Ui = ''ui''"
| "write_source_as_str Api = ''api''"
| "write_source_as_str Terraform = ''terraform''"

definition write_source_from_db :: "string \<Rightarrow> write_source" where
  "write_source_from_db s = (if s = ''api'' then Api else if s = ''terraform'' then Terraform else Ui)"

fun managed_label :: "write_source \<Rightarrow> string option" where
  "managed_label Ui = None"
| "managed_label Api = Some ''api''"
| "managed_label Terraform = Some ''terraform''"

interpretation write_source_codec: db_codec write_source_as_str write_source_from_db Ui
proof
  show "write_source_from_db (write_source_as_str x) = x" for x by (cases x) (simp_all add: write_source_from_db_def)
qed (simp add: write_source_from_db_def)

datatype (plugins only: code) day_state = Operational | Degraded | PartialOutage | MajorOutage | Maintenance | NoData

section \<open>Targets\<close>

datatype (plugins only: code) region_incident_policy = Any | Majority | All | Count nat

definition required :: "region_incident_policy \<Rightarrow> nat \<Rightarrow> nat" where
  "required p region_count =
     (let n = (case p of Any \<Rightarrow> 1 | Majority \<Rightarrow> region_count div 2 + 1 | All \<Rightarrow> region_count | Count c \<Rightarrow> c)
      in min (max n 1) (max region_count 1))"

record target =
  tg_id :: uuid
  tg_name :: string
  tg_check :: check_spec
  tg_interval :: duration
  tg_enabled :: bool
  tg_tags :: "string list"
  tg_alerts :: "uuid list"
  tg_alert_confirmations :: nat
  tg_notify_recovery :: bool
  tg_renotify_interval_secs :: nat
  tg_region_policy :: region_incident_policy
  tg_group_name :: "string option"
  tg_owner_user_id :: "uuid option"
  tg_escalation_policy_id :: "uuid option"
  tg_created_at :: instant
  tg_updated_at :: instant
  tg_write_source :: write_source

record target_update =
  tu_name :: "string option"
  tu_check :: "check_spec option"
  tu_interval :: "duration option"
  tu_enabled :: "bool option"
  tu_region_policy :: "region_incident_policy option"
  tu_alert_confirmations :: "nat option"
  tu_notify_recovery :: "bool option"
  tu_renotify_interval_secs :: "nat option"
  tu_tags :: "string list option"
  tu_alerts :: "uuid list option"
  tu_group_name :: "string option option"
  tu_owner_user_id :: "uuid option option"
  tu_escalation_policy_id :: "uuid option option"

text \<open>\<open>if let Some(v) = self.f { target.f = v; }\<close>\<close>

definition patch :: "'a option \<Rightarrow> ('a \<Rightarrow> 'r \<Rightarrow> 'r) \<Rightarrow> 'r \<Rightarrow> 'r" where
  "patch o' upd r = (case o' of None \<Rightarrow> r | Some v \<Rightarrow> upd v r)"

lemma patch_simps [simp]: "patch None u r = r" "patch (Some v) u r = u v r"
  by (simp_all add: patch_def)

definition target_apply_to :: "target_update \<Rightarrow> target \<Rightarrow> target" where
  "target_apply_to u t =
     patch (tu_escalation_policy_id u) (\<lambda>v t. t\<lparr>tg_escalation_policy_id := v\<rparr>)
    (patch (tu_owner_user_id u) (\<lambda>v t. t\<lparr>tg_owner_user_id := v\<rparr>)
    (patch (tu_group_name u) (\<lambda>v t. t\<lparr>tg_group_name := v\<rparr>)
    (patch (tu_region_policy u) (\<lambda>v t. t\<lparr>tg_region_policy := v\<rparr>)
    (patch (tu_renotify_interval_secs u) (\<lambda>v t. t\<lparr>tg_renotify_interval_secs := v\<rparr>)
    (patch (tu_notify_recovery u) (\<lambda>v t. t\<lparr>tg_notify_recovery := v\<rparr>)
    (patch (tu_alert_confirmations u) (\<lambda>v t. t\<lparr>tg_alert_confirmations := v\<rparr>)
    (patch (tu_alerts u) (\<lambda>v t. t\<lparr>tg_alerts := v\<rparr>)
    (patch (tu_tags u) (\<lambda>v t. t\<lparr>tg_tags := v\<rparr>)
    (patch (tu_enabled u) (\<lambda>v t. t\<lparr>tg_enabled := v\<rparr>)
    (patch (tu_interval u) (\<lambda>v t. t\<lparr>tg_interval := v\<rparr>)
    (patch (tu_check u) (\<lambda>v t. t\<lparr>tg_check := v\<rparr>)
    (patch (tu_name u) (\<lambda>v t. t\<lparr>tg_name := v\<rparr>) t))))))))))))"

definition default_alert_confirmations :: nat where
  "default_alert_confirmations = 2"

definition default_renotify_interval_secs :: nat where
  "default_renotify_interval_secs = 3600"

section \<open>Status pages\<close>

datatype (plugins only: code) public_style =
  StyleDefault | Classic | Terminal | Winter | Dark | Night | Dim | Nord | Dracula | Corporate | Light
  | Cupcake | Cyberpunk | Synthwave

record public_org_branding =
  br_display_name :: "string option"
  br_about :: "string option"
  br_brand_color :: "string option"
  br_logo_hash :: "string option"
  br_show_powered_by :: "bool option"
  br_style :: public_style

datatype (plugins only: code) branding_error = BrandColorFormat | AboutTooLong | DisplayNameLength

definition is_hex_color :: "string \<Rightarrow> bool" where
  "is_hex_color s \<longleftrightarrow> utf8_len s = 7 \<and> hd s = CHR ''#'' \<and> list_all is_ascii_hexdigit (tl s)"

definition show_powered_by :: "public_org_branding \<Rightarrow> bool \<Rightarrow> bool" where
  "show_powered_by b d = (case br_show_powered_by b of None \<Rightarrow> d | Some v \<Rightarrow> v)"

definition branding_validate :: "public_org_branding \<Rightarrow> branding_error + unit" where
  "branding_validate b =
     (if (case br_brand_color b of Some c \<Rightarrow> \<not> is_hex_color c | None \<Rightarrow> False) then Err BrandColorFormat
      else if (case br_about b of Some a \<Rightarrow> length a > 500 | None \<Rightarrow> False) then Err AboutTooLong
      else if (case br_display_name b of Some n \<Rightarrow> \<not> (1 \<le> length n \<and> length n \<le> 80) | None \<Rightarrow> False)
        then Err DisplayNameLength
      else Ok ())"

record status_page =
  sp_id :: uuid
  sp_org_id :: uuid
  sp_slug :: string
  sp_name :: string
  sp_enabled :: bool
  sp_branding :: public_org_branding
  sp_write_source :: write_source
  sp_created_at :: instant
  sp_updated_at :: instant

record status_page_update =
  spu_name :: "string option"
  spu_slug :: "string option"
  spu_enabled :: "bool option"
  spu_branding :: "public_org_branding option"

definition status_page_apply_to :: "status_page_update \<Rightarrow> status_page \<Rightarrow> status_page" where
  "status_page_apply_to u p =
     patch (spu_branding u) (\<lambda>v p. p\<lparr>sp_branding := v\<rparr>)
    (patch (spu_enabled u) (\<lambda>v p. p\<lparr>sp_enabled := v\<rparr>)
    (patch (spu_slug u) (\<lambda>v p. p\<lparr>sp_slug := v\<rparr>)
    (patch (spu_name u) (\<lambda>v p. p\<lparr>sp_name := v\<rparr>) p)))"

record status_page_component =
  spc_target_id :: uuid
  spc_monitor_name :: string
  spc_public_name :: "string option"
  spc_public_description :: "string option"
  spc_public_group :: "string option"
  spc_sort_order :: int

datatype (plugins only: code) asset_slot = Logo

fun slot_as_str :: "asset_slot \<Rightarrow> string" where
  "slot_as_str Logo = ''logo''"

definition slot_parse :: "string \<Rightarrow> asset_slot option" where
  "slot_parse s = (if s = ''logo'' then Some Logo else None)"

record slot_policy =
  pol_allowed_content_types :: "string list"
  pol_max_byte_size :: nat

fun slot_policy_of :: "asset_slot \<Rightarrow> slot_policy" where
  "slot_policy_of Logo =
     \<lparr>pol_allowed_content_types = [''image/png'', ''image/jpeg'', ''image/webp''], pol_max_byte_size = 1048576\<rparr>"

record page_asset =
  pa_status_page_id :: uuid
  pa_slot :: asset_slot
  pa_content_type :: string
  pa_data :: "8 word list"
  pa_hash :: string
  pa_created_at :: instant
  pa_updated_at :: instant

section \<open>Maintenance windows and silence rules\<close>

datatype (plugins only: code) maintenance_filter = Active | Upcoming | Past | All

datatype (plugins only: code) silence_filter = Active | Upcoming | Past | All

record maintenance_window =
  mw_id :: uuid
  mw_title :: string
  mw_description :: "string option"
  mw_starts_at :: instant
  mw_ends_at :: instant
  mw_component_ids :: "uuid list"
  mw_created_at :: instant
  mw_updated_at :: instant
  mw_write_source :: write_source

datatype (plugins only: code) delivery_status = Pending | Claimed | Sent | Failed | DeadLetter

fun delivery_status_as_db_str :: "delivery_status \<Rightarrow> string" where
  "delivery_status_as_db_str Pending = ''pending''"
| "delivery_status_as_db_str Claimed = ''claimed''"
| "delivery_status_as_db_str Sent = ''sent''"
| "delivery_status_as_db_str Failed = ''failed''"
| "delivery_status_as_db_str DeadLetter = ''dead_letter''"

definition delivery_status_from_db_str :: "string \<Rightarrow> delivery_status" where
  "delivery_status_from_db_str s =
     (if s = ''claimed'' then Claimed else if s = ''sent'' then Sent else if s = ''failed'' then Failed
      else if s = ''dead_letter'' then DeadLetter else Pending)"

interpretation delivery_status_codec: db_codec delivery_status_as_db_str delivery_status_from_db_str Pending
proof
  show "delivery_status_from_db_str (delivery_status_as_db_str x) = x" for x by (cases x) (simp_all add: delivery_status_from_db_str_def)
qed (simp add: delivery_status_from_db_str_def)

datatype (plugins only: code) delivery_reason =
  IncidentOpened | IncidentResolved | IncidentUpdate | MaintenanceStarted | MaintenanceEnded

fun delivery_reason_as_db_str :: "delivery_reason \<Rightarrow> string" where
  "delivery_reason_as_db_str IncidentOpened = ''incident_opened''"
| "delivery_reason_as_db_str IncidentResolved = ''incident_resolved''"
| "delivery_reason_as_db_str IncidentUpdate = ''incident_update''"
| "delivery_reason_as_db_str MaintenanceStarted = ''maintenance_started''"
| "delivery_reason_as_db_str MaintenanceEnded = ''maintenance_ended''"

definition delivery_reason_from_db_str :: "string \<Rightarrow> delivery_reason" where
  "delivery_reason_from_db_str s =
     (if s = ''incident_resolved'' then IncidentResolved else if s = ''incident_update'' then IncidentUpdate
      else if s = ''maintenance_started'' then MaintenanceStarted
      else if s = ''maintenance_ended'' then MaintenanceEnded else IncidentOpened)"

interpretation delivery_reason_codec: db_codec delivery_reason_as_db_str delivery_reason_from_db_str IncidentOpened
proof
  show "delivery_reason_from_db_str (delivery_reason_as_db_str x) = x" for x by (cases x) (simp_all add: delivery_reason_from_db_str_def)
qed (simp add: delivery_reason_from_db_str_def)

record silence_rule =
  sr_id :: uuid
  sr_title :: string
  sr_description :: "string option"
  sr_target_id :: "uuid option"
  sr_channel_id :: "uuid option"
  sr_reasons :: "delivery_reason list"
  sr_starts_at :: instant
  sr_ends_at :: instant
  sr_created_at :: instant
  sr_updated_at :: instant
  sr_write_source :: write_source

definition is_active_at :: "silence_rule \<Rightarrow> instant \<Rightarrow> bool" where
  "is_active_at r now \<longleftrightarrow> sr_starts_at r \<le> now \<and> now < sr_ends_at r"

definition silence_matches :: "silence_rule \<Rightarrow> uuid \<Rightarrow> uuid option \<Rightarrow> delivery_reason \<Rightarrow> bool" where
  "silence_matches r target_id channel_id reason =
     (if (case sr_target_id r of Some t \<Rightarrow> t \<noteq> target_id | None \<Rightarrow> False) then False
      else if (case (sr_channel_id r, channel_id) of (Some rc, Some ch) \<Rightarrow> rc \<noteq> ch | _ \<Rightarrow> False) then False
      else if sr_reasons r \<noteq> [] \<and> reason \<notin> set (sr_reasons r) then False
      else True)"

record new_silence_rule =
  nsr_title :: string
  nsr_description :: "string option"
  nsr_target_id :: "uuid option"
  nsr_channel_id :: "uuid option"
  nsr_reasons :: "delivery_reason list"
  nsr_starts_at :: instant
  nsr_ends_at :: instant

record silence_rule_update =
  sru_title :: "string option"
  sru_description :: "string option"
  sru_target_id :: "uuid option option"
  sru_channel_id :: "uuid option option"
  sru_reasons :: "delivery_reason list option"
  sru_starts_at :: "instant option"
  sru_ends_at :: "instant option"

section \<open>Subscribers and deliveries\<close>

datatype (plugins only: code) subscriber_channel = Email | Webhook | Slack | Sms

fun subscriber_channel_as_db_str :: "subscriber_channel \<Rightarrow> string" where
  "subscriber_channel_as_db_str subscriber_channel.Email = ''email''"
| "subscriber_channel_as_db_str subscriber_channel.Webhook = ''webhook''"
| "subscriber_channel_as_db_str subscriber_channel.Slack = ''slack''"
| "subscriber_channel_as_db_str subscriber_channel.Sms = ''sms''"

definition ALL_subscriber_channels :: "subscriber_channel list" where
  "ALL_subscriber_channels = [subscriber_channel.Email, subscriber_channel.Webhook, subscriber_channel.Slack, subscriber_channel.Sms]"

definition subscriber_channel_from_db_str :: "string \<Rightarrow> subscriber_channel option" where
  "subscriber_channel_from_db_str s = find (\<lambda>c. subscriber_channel_as_db_str c = s) ALL_subscriber_channels"

record subscriber =
  sub_id :: uuid
  sub_status_page_id :: uuid
  sub_org_id :: uuid
  sub_channel :: subscriber_channel
  sub_target :: string
  sub_config :: json
  sub_verified_at :: "instant option"
  sub_created_at :: instant
  sub_updated_at :: instant

definition is_verified :: "subscriber \<Rightarrow> bool" where
  "is_verified s \<longleftrightarrow> sub_verified_at s \<noteq> None"

record subscriber_delivery =
  sd_id :: uuid
  sd_subscriber_id :: uuid
  sd_status_page_id :: uuid
  sd_channel :: subscriber_channel
  sd_target :: string
  sd_payload :: string
  sd_reason :: delivery_reason
  sd_status :: delivery_status
  sd_attempts :: nat
  sd_last_error :: "string option"
  sd_created_at :: instant
  sd_sent_at :: "instant option"
  sd_next_attempt_at :: "instant option"

section \<open>Variables\<close>

record variable =
  var_id :: uuid
  var_org_id :: uuid
  var_key :: string
  var_is_secret :: bool
  var_value :: "string option"
  var_updated_at :: instant
  var_updated_by :: "uuid option"

definition MAX_VAR_KEY_LEN :: nat where
  "MAX_VAR_KEY_LEN = 63"

datatype (plugins only: code) var_key_error = Empty | KeyTooLong | LeadingNonAlpha | KeyInvalidChar

definition validate_var_key :: "string \<Rightarrow> var_key_error + unit" where
  "validate_var_key key =
     (if key = [] then Err Empty
      else if utf8_len key > MAX_VAR_KEY_LEN then Err KeyTooLong
      else if \<not> is_ascii_lowercase (hd key) then Err LeadingNonAlpha
      else if \<not> list_all (\<lambda>b. is_ascii_lowercase b \<or> is_ascii_digit b \<or> b = CHR ''_'') key then Err KeyInvalidChar
      else Ok ())"

section \<open>Users, sessions, API tokens, magic links\<close>

datatype (plugins only: code) app_theme =
  ThemeDefault | ThemeTerminal | ThemeWinter | ThemeDark | ThemeNight | ThemeDim | ThemeNord | ThemeDracula
  | ThemeCorporate | ThemeLight | ThemeCupcake | ThemeCyberpunk | ThemeSynthwave

datatype (plugins only: code) time_format = Auto | TwelveHour | TwentyFourHour

record user =
  us_id :: uuid
  us_email :: string
  us_display_name :: "string option"
  us_email_verified_at :: "instant option"
  us_last_seen_at :: "instant option"
  us_theme :: app_theme
  us_time_format :: time_format
  us_created_at :: instant
  us_updated_at :: instant
  us_deleted_at :: "instant option"

record new_user =
  nu_email :: string
  nu_display_name :: "string option"
  nu_email_verified :: bool

record user_update =
  uu_display_name :: "string option"
  uu_theme :: "app_theme option"
  uu_time_format :: "time_format option"

definition normalize_email :: "string \<Rightarrow> string" where
  "normalize_email email = to_lowercase (trim email)"

record session_row =
  ses_id_hash :: string
  ses_user_id :: uuid
  ses_created_at :: instant
  ses_last_used_at :: instant
  ses_expires_at :: instant
  ses_ip_hash :: "string option"
  ses_user_agent_hash :: "string option"

record new_session =
  ns_user_id :: uuid
  ns_expires_at :: instant
  ns_ip_hash :: "string option"
  ns_user_agent_hash :: "string option"

datatype (plugins only: code) scope =
  TargetsRead | TargetsWrite | TargetsDelete | TargetsExecute | ChannelsRead | ChannelsWrite | ChannelsDelete
  | IncidentsRead | IncidentsWrite | OncallRead | OncallWrite | MaintenanceRead | MaintenanceWrite
  | MaintenanceDelete | StatusPageRead | StatusPageWrite | StatusPageDelete | VariablesRead | VariablesWrite
  | FullAccess

fun scope_as_str :: "scope \<Rightarrow> string" where
  "scope_as_str TargetsRead = ''targets:read''"
| "scope_as_str TargetsWrite = ''targets:write''"
| "scope_as_str TargetsDelete = ''targets:delete''"
| "scope_as_str TargetsExecute = ''targets:execute''"
| "scope_as_str ChannelsRead = ''channels:read''"
| "scope_as_str ChannelsWrite = ''channels:write''"
| "scope_as_str ChannelsDelete = ''channels:delete''"
| "scope_as_str IncidentsRead = ''incidents:read''"
| "scope_as_str IncidentsWrite = ''incidents:write''"
| "scope_as_str OncallRead = ''oncall:read''"
| "scope_as_str OncallWrite = ''oncall:write''"
| "scope_as_str MaintenanceRead = ''maintenance:read''"
| "scope_as_str MaintenanceWrite = ''maintenance:write''"
| "scope_as_str MaintenanceDelete = ''maintenance:delete''"
| "scope_as_str StatusPageRead = ''status_page:read''"
| "scope_as_str StatusPageWrite = ''status_page:write''"
| "scope_as_str StatusPageDelete = ''status_page:delete''"
| "scope_as_str VariablesRead = ''variables:read''"
| "scope_as_str VariablesWrite = ''variables:write''"
| "scope_as_str FullAccess = ''full_access''"

definition scope_parse_str :: "string \<Rightarrow> scope option" where
  "scope_parse_str s =
     (if s = ''targets:read'' then Some TargetsRead
      else if s = ''targets:write'' then Some TargetsWrite
      else if s = ''targets:delete'' then Some TargetsDelete
      else if s = ''targets:execute'' then Some TargetsExecute
      else if s = ''channels:read'' then Some ChannelsRead
      else if s = ''channels:write'' then Some ChannelsWrite
      else if s = ''channels:delete'' then Some ChannelsDelete
      else if s = ''incidents:read'' then Some IncidentsRead
      else if s = ''incidents:write'' then Some IncidentsWrite
      else if s = ''oncall:read'' then Some OncallRead
      else if s = ''oncall:write'' then Some OncallWrite
      else if s = ''maintenance:read'' then Some MaintenanceRead
      else if s = ''maintenance:write'' then Some MaintenanceWrite
      else if s = ''maintenance:delete'' then Some MaintenanceDelete
      else if s = ''status_page:read'' then Some StatusPageRead
      else if s = ''status_page:write'' then Some StatusPageWrite
      else if s = ''status_page:delete'' then Some StatusPageDelete
      else if s = ''variables:read'' then Some VariablesRead
      else if s = ''variables:write'' then Some VariablesWrite
      else if s = ''full_access'' then Some FullAccess
      else None)"

definition full_access :: "scope list" where
  "full_access = [FullAccess]"

fun write_scope :: "scope \<Rightarrow> scope option" where
  "write_scope TargetsRead = Some TargetsWrite"
| "write_scope ChannelsRead = Some ChannelsWrite"
| "write_scope IncidentsRead = Some IncidentsWrite"
| "write_scope OncallRead = Some OncallWrite"
| "write_scope MaintenanceRead = Some MaintenanceWrite"
| "write_scope StatusPageRead = Some StatusPageWrite"
| "write_scope VariablesRead = Some VariablesWrite"
| "write_scope _ = None"

definition grants :: "scope list \<Rightarrow> scope \<Rightarrow> bool" where
  "grants ss req \<longleftrightarrow>
     (if FullAccess \<in> set ss then True
      else if req \<in> set ss then True
      else (case write_scope req of None \<Rightarrow> False | Some w \<Rightarrow> w \<in> set ss))"

record api_token_row =
  at_id :: uuid
  at_user_id :: uuid
  at_name :: string
  at_token_hash :: string
  at_token_prefix :: string
  at_scopes :: "scope list"
  at_created_at :: instant
  at_last_used_at :: "instant option"
  at_expires_at :: "instant option"

record new_api_token =
  nat_name :: string
  nat_scopes :: "scope list option"
  nat_expires_in_days :: "nat option"

definition DEFAULT_PREFIX_VISIBLE_CHARS :: nat where
  "DEFAULT_PREFIX_VISIBLE_CHARS = 16"

text \<open>
  \<open>&raw[..n]\<close> counts bytes and panics, here \<open>None\<close>, when the cut falls inside a
  character.
\<close>

fun take_bytes :: "nat \<Rightarrow> string \<Rightarrow> string option" where
  "take_bytes 0 cs = Some []"
| "take_bytes (Suc n) [] = None"
| "take_bytes (Suc n) (c # cs) =
     (if utf8_len [c] \<le> Suc n then map_option (Cons c) (take_bytes (Suc n - utf8_len [c]) cs) else None)"

definition slice_prefix :: "string \<Rightarrow> nat \<Rightarrow> string option" where
  "slice_prefix raw prefix_len = take_bytes (min prefix_len (utf8_len raw)) raw"

record magic_link_row =
  ml_id :: uuid
  ml_email :: string
  ml_token_hash :: string
  ml_token_prefix :: string
  ml_created_at :: instant
  ml_expires_at :: instant
  ml_used_at :: "instant option"
  ml_ip_hash :: "string option"
  ml_redirect_after :: "string option"

section \<open>Notification channels and bindings\<close>

record notification_channel =
  nc_id :: uuid
  nc_name :: string
  nc_kind :: channel_kind
  nc_config :: channel_config
  nc_enabled :: bool
  nc_disabled_reason :: "string option"
  nc_verified_at :: "instant option"
  nc_created_at :: instant
  nc_updated_at :: instant
  nc_write_source :: write_source

definition awaiting_verification :: "notification_channel \<Rightarrow> bool" where
  "awaiting_verification c \<longleftrightarrow> nc_kind c = channel_kind.Email \<and> nc_verified_at c = None"

record new_notification_channel =
  nnc_name :: string
  nnc_config :: channel_config
  nnc_enabled :: bool

record notification_channel_update =
  ncu_name :: "string option"
  ncu_config :: "channel_config option"
  ncu_enabled :: "bool option"

record channel_verification_token_row =
  cvt_id :: uuid
  cvt_channel_id :: uuid
  cvt_token_hash :: string
  cvt_expires_at :: instant
  cvt_used_at :: "instant option"
  cvt_created_at :: instant

record target_channel_binding =
  tcb_target_id :: uuid
  tcb_channel_id :: uuid
  tcb_created_at :: instant

section \<open>Postmortems, shares, expiry state, aggregates\<close>

record action_item =
  ai_text :: string
  ai_owner_user_id :: "uuid option"
  ai_done :: bool

record incident_postmortem =
  pm_incident_id :: uuid
  pm_summary :: "string option"
  pm_root_cause :: "string option"
  pm_impact :: "string option"
  pm_action_items :: "action_item list"
  pm_author_id :: "uuid option"
  pm_created_at :: instant
  pm_updated_at :: instant
  pm_published_at :: "instant option"

record postmortem_upsert =
  pmu_summary :: "string option"
  pmu_root_cause :: "string option"
  pmu_impact :: "string option"
  pmu_action_items :: "action_item list"

record monitor_share_row =
  msr_id :: uuid
  msr_target_id :: uuid
  msr_label :: "string option"
  msr_token_hash :: string
  msr_created_at :: instant
  msr_expires_at :: "instant option"
  msr_view_count :: int
  msr_last_viewed_at :: "instant option"

record monitor_share =
  ms_id :: uuid
  ms_org_id :: uuid
  ms_target_id :: uuid
  ms_label :: "string option"
  ms_token :: "string option"
  ms_created_at :: instant
  ms_expires_at :: "instant option"
  ms_view_count :: int
  ms_last_viewed_at :: "instant option"

record resolved_share =
  rs_share_id :: uuid
  rs_target_id :: uuid
  rs_org :: uuid

record domain_expiry_state =
  des_target_id :: uuid
  des_domain :: string
  des_expires_at :: "int option"
  des_registrar :: "string option"
  des_fetched_at :: instant

record incident_ops_patch =
  iop_transition :: "string option"
  iop_assignee_id :: "uuid option"
  iop_publish :: "bool option"
  iop_severity :: "incident_severity option"
  iop_note :: "string option"

record latency_bucket =
  lb_ts :: instant
  lb_p50 :: "real option"
  lb_p95 :: "real option"
  lb_p99 :: "real option"
  lb_count :: nat

record uptime_result =
  ur_target_id :: uuid
  ur_uptime_pct :: real
  ur_total_checks :: nat
  ur_failed_checks :: nat

record dashboard_row =
  dr_target_id :: uuid
  dr_name :: string
  dr_kind :: string
  dr_enabled :: bool
  dr_current_status :: check_status
  dr_last_check_at :: "instant option"
  dr_uptime_pct_24h :: "real option"
  dr_p95_24h :: "real option"
  dr_history :: "day_state list"

record dashboard_summary =
  ds_total :: nat
  ds_up :: nat
  ds_down :: nat
  ds_degraded :: nat
  ds_error :: nat
  ds_disabled :: nat

record component_day_history =
  cdh_target_id :: uuid
  cdh_day :: int
  cdh_state :: day_state

record incident_metrics_rollup =
  imr_window_days :: nat
  imr_total :: nat
  imr_open :: nat
  imr_resolved :: nat
  imr_mttr_secs :: "real option"

section \<open>Properties of the row types\<close>

lemma required_bounds: "1 \<le> required p n \<and> required p n \<le> max n 1"
  by (simp add: required_def Let_def)

lemma scope_parse_as_str: "scope_parse_str s = Some sc \<longleftrightarrow> s = scope_as_str sc"
proof
  show "scope_parse_str s = Some sc \<Longrightarrow> s = scope_as_str sc"
    unfolding scope_parse_str_def
    by (simp only: split: if_splits) (simp_all only: option.inject scope_as_str.simps option.distinct)
  show "s = scope_as_str sc \<Longrightarrow> scope_parse_str s = Some sc"
    by (cases sc) (simp_all add: scope_parse_str_def)
qed

end
