(* ===== verification/Tables.thy ===== *)
theory Tables
  imports Errors
begin

text \<open>
  Hash maps as association lists, the shape every collection of the storage
  layer has, and the contract of a keyed collection of rows: what a read
  returns after a create, an update or a delete, and which error each
  operation gives.  The contract is the locale \<open>entry_store\<close> (get, create,
  update) and its extension \<open>crud_store\<close> (and delete); the histories of
  operations on a collection are related to a partial map inside them.
\<close>

section \<open>Hash maps\<close>

definition hm_get :: "('k \<times> 'v) list \<Rightarrow> 'k \<Rightarrow> 'v option" where
  "hm_get m k = map_of m k"

definition hm_contains :: "('k \<times> 'v) list \<Rightarrow> 'k \<Rightarrow> bool" where
  "hm_contains m k \<longleftrightarrow> map_of m k \<noteq> None"

definition hm_insert :: "'k \<Rightarrow> 'v \<Rightarrow> ('k \<times> 'v) list \<Rightarrow> ('k \<times> 'v) list" where
  "hm_insert k v m = AList.update k v m"

definition hm_remove :: "'k \<Rightarrow> ('k \<times> 'v) list \<Rightarrow> ('k \<times> 'v) list" where
  "hm_remove k m = AList.delete k m"

definition hm_values :: "('k \<times> 'v) list \<Rightarrow> 'v list" where
  "hm_values m = map snd m"

definition hm_retain :: "('k \<Rightarrow> 'v \<Rightarrow> bool) \<Rightarrow> ('k \<times> 'v) list \<Rightarrow> ('k \<times> 'v) list" where
  "hm_retain P m = filter (\<lambda>(k, v). P k v) m"

definition hm_ok :: "('k \<times> 'v) list \<Rightarrow> bool" where
  "hm_ok m \<longleftrightarrow> distinct (map fst m)"

lemma hm_ok_Nil [simp]: "hm_ok []"
  by (simp add: hm_ok_def)

lemma hm_get_Nil [simp]: "hm_get [] k = None"
  by (simp add: hm_get_def)

lemma hm_contains_get [simp]: "hm_contains m k \<longleftrightarrow> hm_get m k \<noteq> None"
  by (simp add: hm_contains_def hm_get_def)

lemma hm_get_insert [simp]: "hm_get (hm_insert k v m) k' = (if k' = k then Some v else hm_get m k')"
  by (simp add: hm_get_def hm_insert_def update_conv')

lemma hm_get_remove [simp]: "hm_get (hm_remove k m) k' = (if k' = k then None else hm_get m k')"
  by (simp add: hm_get_def hm_remove_def delete_conv')

lemma hm_ok_insert [simp, intro]: "hm_ok m \<Longrightarrow> hm_ok (hm_insert k v m)"
  by (simp add: hm_ok_def hm_insert_def distinct_update)

lemma hm_ok_remove [simp, intro]: "hm_ok m \<Longrightarrow> hm_ok (hm_remove k m)"
  by (simp add: hm_ok_def hm_remove_def distinct_delete)

lemma hm_ok_retain [simp, intro]: "hm_ok m \<Longrightarrow> hm_ok (hm_retain P m)"
  by (induction m) (auto simp: hm_ok_def hm_retain_def)

lemma hm_values_iff: "hm_ok m \<Longrightarrow> v \<in> set (hm_values m) \<longleftrightarrow> (\<exists>k. hm_get m k = Some v)"
  unfolding hm_ok_def hm_values_def hm_get_def by (force dest: map_of_SomeD)

lemma hm_get_retain:
  "hm_ok m \<Longrightarrow> hm_get (hm_retain P m) k =
     (case hm_get m k of Some v \<Rightarrow> if P k v then Some v else None | None \<Rightarrow> None)"
proof (induction m)
  case (Cons e m)
  have "map_of m (fst e) = None" "map_of (hm_retain P m) (fst e) = None"
    using Cons.prems by (auto simp: hm_ok_def map_of_eq_None_iff hm_retain_def)
  with Cons show ?case
    by (cases e) (auto simp: hm_ok_def hm_get_def hm_retain_def split: option.splits)
qed (simp add: hm_retain_def)

lemma hm_values_retain: "hm_values (hm_retain P m) = map snd (filter (\<lambda>(k, v). P k v) m)"
  by (simp add: hm_values_def hm_retain_def)

lemma hm_get_in_values: "hm_get m k = Some v \<Longrightarrow> v \<in> set (hm_values m)"
  by (force simp: hm_get_def hm_values_def dest: map_of_SomeD)

lemma hm_insert_entries: "set (hm_insert k v m) \<subseteq> insert (k, v) (set m)"
  by (induction m) (auto simp: hm_insert_def split: if_splits)

lemma hm_remove_entries: "set (hm_remove k m) \<subseteq> set m"
  by (induction m) (auto simp: hm_remove_def)

lemma hm_retain_entries: "set (hm_retain P m) \<subseteq> set m"
  by (auto simp: hm_retain_def)

lemma hm_get_entry: "hm_get m k = Some v \<Longrightarrow> (k, v) \<in> set m"
  by (simp add: hm_get_def map_of_SomeD)

lemmas hm_entries = hm_insert_entries hm_remove_entries hm_retain_entries

section \<open>Rows by key: the contract\<close>

text \<open>A mutating operation gives its result and the state it leaves.\<close>

type_synonym ('s, 'a) op = "'s \<Rightarrow> (app_error + 'a) \<times> 's"

definition storage_not_found :: "message \<Rightarrow> app_error" where
  "storage_not_found m = from_storage_error (storage_error.NotFound m)"

definition storage_conflict :: "message \<Rightarrow> app_error" where
  "storage_conflict m = from_storage_error (storage_error.Conflict m)"

definition storage_invalid_input :: "message \<Rightarrow> app_error" where
  "storage_invalid_input m = from_storage_error (InvalidInput m)"

text \<open>
  The runs of a component: what each of its steps keeps, every run keeps.
\<close>

locale step_invariant =
  fixes step :: "'s \<Rightarrow> 's \<Rightarrow> bool" and good :: "'s \<Rightarrow> bool"
  assumes step_good: "step s s' \<Longrightarrow> good s \<Longrightarrow> good s'"
begin

lemma run_good: "step\<^sup>*\<^sup>* s s' \<Longrightarrow> good s \<Longrightarrow> good s'"
  by (induction rule: rtranclp_induct) (auto intro: step_good)

end

text \<open>A value printed between single quotes.\<close>

definition quoted :: "string \<Rightarrow> frag" where
  "quoted s = Lit (CHR 0x27 # s @ [CHR 0x27])"

datatype 'a crud = Create 'a | Update 'a | Delete uuid

definition row_view :: "('s \<Rightarrow> uuid \<Rightarrow> app_error + 'a) \<Rightarrow> 's \<Rightarrow> uuid \<Rightarrow> 'a option" where
  "row_view get s k = (case get s k of Inr x \<Rightarrow> Some x | Inl _ \<Rightarrow> None)"

fun spec_crud :: "('a \<Rightarrow> uuid) \<Rightarrow> 'a crud \<Rightarrow> (uuid \<Rightarrow> 'a option) \<Rightarrow> uuid \<Rightarrow> 'a option" where
  "spec_crud key (Create x) m = (if m (key x) = None then m(key x \<mapsto> x) else m)"
| "spec_crud key (Update x) m = (if m (key x) = None then m else m(key x \<mapsto> x))"
| "spec_crud key (Delete k) m = m(k := None)"

fun crud_step ::
  "('a \<Rightarrow> ('s, 'a) op) \<Rightarrow> ('a \<Rightarrow> ('s, 'a) op) \<Rightarrow> (uuid \<Rightarrow> ('s, unit) op) \<Rightarrow> 'a crud \<Rightarrow> 's \<Rightarrow> 's" where
  "crud_step create update delete (Create x) s = snd (create x s)"
| "crud_step create update delete (Update x) s = snd (update x s)"
| "crud_step create update delete (Delete k) s = snd (delete k s)"

locale entry_store =
  fixes get :: "'s \<Rightarrow> uuid \<Rightarrow> app_error + 'a"
    and create update :: "'a \<Rightarrow> ('s, 'a) op"
    and key :: "'a \<Rightarrow> uuid"
    and missing exists :: "uuid \<Rightarrow> app_error"
  assumes get_Err: "get s k = Err e \<Longrightarrow> e = missing k"
    and create_conflict: "get s (key x) = Ok y \<Longrightarrow> create x s = (Err (exists (key x)), s)"
    and create_Ok: "get s (key x) = Err e \<Longrightarrow> fst (create x s) = Ok x"
    and get_create: "get s (key x) = Err e \<Longrightarrow> get (snd (create x s)) k = (if k = key x then Ok x else get s k)"
    and update_missing: "get s (key x) = Err e \<Longrightarrow> update x s = (Err (missing (key x)), s)"
    and update_Ok: "get s (key x) = Ok y \<Longrightarrow> fst (update x s) = Ok x"
    and get_update: "get s (key x) = Ok y \<Longrightarrow> get (snd (update x s)) k = (if k = key x then Ok x else get s k)"
begin

lemma get_row_view: "get s k = (case row_view get s k of Some x \<Rightarrow> Ok x | None \<Rightarrow> Err (missing k))"
  by (cases "get s k") (auto simp: row_view_def dest: get_Err)

lemma create_once: "fst (create x s) = Ok x \<Longrightarrow> create x (snd (create x s)) = (Err (exists (key x)), snd (create x s))"
  by (metis create_conflict get_create Inl_Inr_False fst_conv old.sum.exhaust)

lemma row_view_create: "row_view get (snd (create x s)) = spec_crud key (Create x) (row_view get s)"
  by (rule ext, cases "get s (key x)")
    (auto simp: row_view_def get_create create_conflict split: sum.splits)

lemma row_view_update: "row_view get (snd (update x s)) = spec_crud key (Update x) (row_view get s)"
  by (rule ext, cases "get s (key x)")
    (auto simp: row_view_def get_update update_missing split: sum.splits)

end

locale crud_store = entry_store get create update key missing exists
  for get :: "'s \<Rightarrow> uuid \<Rightarrow> app_error + 'a"
    and create update :: "'a \<Rightarrow> ('s, 'a) op"
    and key :: "'a \<Rightarrow> uuid"
    and missing exists :: "uuid \<Rightarrow> app_error" +
  fixes delete :: "uuid \<Rightarrow> ('s, unit) op"
  assumes delete_missing: "get s k = Err e \<Longrightarrow> delete k s = (Err (missing k), s)"
    and delete_Ok: "get s k = Ok x \<Longrightarrow> fst (delete k s) = Ok ()"
    and get_delete: "get s k = Ok x \<Longrightarrow> get (snd (delete k s)) k' = (if k' = k then Err (missing k) else get s k')"
begin

lemma row_view_delete: "row_view get (snd (delete k s)) = spec_crud key (Delete k) (row_view get s)"
  by (rule ext, cases "get s k")
    (auto simp: row_view_def get_delete delete_missing split: sum.splits)

lemma row_view_step:
  "row_view get (crud_step create update delete c s) = spec_crud key c (row_view get s)"
  by (cases c) (simp_all only: crud_step.simps row_view_create row_view_update row_view_delete)

lemma row_view_run:
  "row_view get (fold (crud_step create update delete) cs s) = fold (spec_crud key) cs (row_view get s)"
  by (induction cs arbitrary: s) (simp_all add: row_view_step)

lemma get_run:
  "get (fold (crud_step create update delete) cs s) k =
     (case fold (spec_crud key) cs (row_view get s) k of Some x \<Rightarrow> Ok x | None \<Rightarrow> Err (missing k))"
  using get_row_view [of "fold (crud_step create update delete) cs s" k] unfolding row_view_run .

end

end
