(* ===== verification/Memory_State.thy ===== *)
theory Memory_State
  imports Store_Types Tables
begin

text \<open>
  The in-memory implementation of the \<open>Storage\<close> contract
  (\<open>crates/storage/src/memory.rs\<close>), first part: the state and the operations on
  targets, check results, incidents, status pages and their components and
  assets, heartbeats, maintenance windows, silence rules, subscribers and
  variables.

  Every collection is a field of \<open>memory_storage\<close>.  A read is a function of the
  state, a write gives the result and the new state; each operation takes its
  lock once and is one step.  \<open>Utc::now()\<close> and fresh UUIDs are arguments.  A list
  that the source sorts by a key is sorted stably, so the order among equal
  keys is that of the association list, which stands for the arbitrary
  iteration order of the Rust map.  Secrets are stored as given.
\<close>

section \<open>State\<close>

record memory_storage =
  m_targets :: "(uuid \<times> target) list"
  m_results :: "check_result list"
  m_incidents :: "(uuid \<times> incident) list"
  m_status_pages :: "(uuid \<times> status_page) list"
  m_status_page_components :: "((uuid \<times> uuid) \<times> status_page_component) list"
  m_heartbeat_pings :: "(uuid \<times> instant) list"
  m_maintenance_windows :: "(uuid \<times> maintenance_window) list"
  m_silence_rules :: "(uuid \<times> silence_rule) list"
  m_subscribers :: "(uuid \<times> subscriber) list"
  m_variables :: "(uuid \<times> variable) list"
  m_notification_channels :: "(uuid \<times> notification_channel) list"
  m_channel_verification_tokens :: "(uuid \<times> channel_verification_token_row) list"
  m_target_channels :: "target_channel_binding list"
  m_subscriber_deliveries :: "subscriber_delivery list"
  m_domain_expiry_states :: "(uuid \<times> domain_expiry_state) list"
  m_users :: "(uuid \<times> user) list"
  m_sessions :: "(string \<times> session_row) list"
  m_api_tokens :: "(uuid \<times> api_token_row) list"
  m_magic_links :: "(uuid \<times> magic_link_row) list"
  m_escalation_policies :: "(uuid \<times> escalation_policy) list"
  m_on_call_schedules :: "(uuid \<times> on_call_schedule_detail) list"
  m_on_call_overrides :: "(uuid \<times> (uuid \<times> on_call_override)) list"
  m_escalation_states :: "(uuid \<times> incident_escalation_state) list"
  m_postmortems :: "(uuid \<times> incident_postmortem) list"
  m_monitor_shares :: "monitor_share_row list"
  m_page_assets :: "((uuid \<times> string) \<times> page_asset) list"

type_synonym mem = memory_storage

definition new_storage :: mem where
  "new_storage =
     \<lparr>m_targets = [], m_results = [], m_incidents = [], m_status_pages = [], m_status_page_components = [],
      m_heartbeat_pings = [], m_maintenance_windows = [], m_silence_rules = [], m_subscribers = [],
      m_variables = [], m_notification_channels = [], m_channel_verification_tokens = [],
      m_target_channels = [], m_subscriber_deliveries = [], m_domain_expiry_states = [], m_users = [],
      m_sessions = [], m_api_tokens = [], m_magic_links = [], m_escalation_policies = [],
      m_on_call_schedules = [], m_on_call_overrides = [], m_escalation_states = [], m_postmortems = [],
      m_monitor_shares = [], m_page_assets = []\<rparr>"

section \<open>Targets\<close>

definition target_missing :: "uuid \<Rightarrow> app_error" where
  "target_missing k = storage_not_found [Lit ''target '', Id k]"

definition target_exists :: "uuid \<Rightarrow> app_error" where
  "target_exists k = storage_conflict [Lit ''target '', Id k, Lit '' exists'']"

definition list_targets :: "mem \<Rightarrow> target list" where
  "list_targets s = sort_key tg_created_at (hm_values (m_targets s))"

definition get_target :: "mem \<Rightarrow> uuid \<Rightarrow> app_error + target" where
  "get_target s k = (case hm_get (m_targets s) k of Some t \<Rightarrow> Ok t | None \<Rightarrow> Err (target_missing k))"

definition create_target :: "target \<Rightarrow> (mem, target) op" where
  "create_target t s =
     (if hm_contains (m_targets s) (tg_id t) then (Err (target_exists (tg_id t)), s)
      else (Ok t, s\<lparr>m_targets := hm_insert (tg_id t) t (m_targets s)\<rparr>))"

definition update_target :: "target \<Rightarrow> (mem, target) op" where
  "update_target t s =
     (if \<not> hm_contains (m_targets s) (tg_id t) then (Err (target_missing (tg_id t)), s)
      else (Ok t, s\<lparr>m_targets := hm_insert (tg_id t) t (m_targets s)\<rparr>))"

definition delete_target :: "uuid \<Rightarrow> (mem, unit) op" where
  "delete_target k s =
     (let s' = s\<lparr>m_targets := hm_remove k (m_targets s)\<rparr> in
      case hm_get (m_targets s) k of None \<Rightarrow> (Err (target_missing k), s') | Some _ \<Rightarrow> (Ok (), s'))"

section \<open>Check results\<close>

definition same_slot :: "check_result \<Rightarrow> check_result \<Rightarrow> bool" where
  "same_slot r r' \<longleftrightarrow> cr_target_id r' = cr_target_id r \<and> cr_timestamp r' = cr_timestamp r"

fun upsert_result :: "check_result \<Rightarrow> check_result list \<Rightarrow> check_result list" where
  "upsert_result r [] = [r]"
| "upsert_result r (x # xs) = (if same_slot r x then r # xs else x # upsert_result r xs)"

definition record_result :: "check_result \<Rightarrow> (mem, unit) op" where
  "record_result r s = (Ok (), s\<lparr>m_results := upsert_result r (m_results s)\<rparr>)"

definition newest_first :: "check_result list \<Rightarrow> check_result list" where
  "newest_first rs = sort_key (\<lambda>r. - cr_timestamp r) rs"

definition list_results :: "mem \<Rightarrow> uuid \<Rightarrow> nat \<Rightarrow> check_result list" where
  "list_results s target_id limit =
     take limit (newest_first (filter (\<lambda>r. cr_target_id r = target_id) (m_results s)))"

definition list_recent_results :: "mem \<Rightarrow> nat \<Rightarrow> check_result list" where
  "list_recent_results s limit = take limit (newest_first (m_results s))"

definition recent_results_for_targets :: "mem \<Rightarrow> uuid list \<Rightarrow> nat \<Rightarrow> (uuid \<times> check_result list) list" where
  "recent_results_for_targets s target_ids limit =
     fold (\<lambda>tid out. hm_insert tid (list_results s tid limit) out) target_ids []"

definition delete_old_check_results :: "instant \<Rightarrow> (mem, nat) op" where
  "delete_old_check_results older_than s =
     (let kept = filter (\<lambda>r. cr_timestamp r \<ge> older_than) (m_results s)
      in (Ok (length (m_results s) - length kept), s\<lparr>m_results := kept\<rparr>))"

section \<open>Incidents\<close>

definition incident_missing :: "uuid \<Rightarrow> app_error" where
  "incident_missing k = storage_not_found [Lit ''incident '', Id k]"

definition incident_exists :: "uuid \<Rightarrow> app_error" where
  "incident_exists k = storage_conflict [Lit ''incident '', Id k, Lit '' exists'']"

definition list_incidents :: "mem \<Rightarrow> incident list" where
  "list_incidents s = take 200 (sort_key (\<lambda>i. - inc_started_at i) (hm_values (m_incidents s)))"

definition get_incident :: "mem \<Rightarrow> uuid \<Rightarrow> app_error + incident" where
  "get_incident s k = (case hm_get (m_incidents s) k of Some i \<Rightarrow> Ok i | None \<Rightarrow> Err (incident_missing k))"

definition create_incident :: "incident \<Rightarrow> (mem, incident) op" where
  "create_incident i s =
     (if hm_contains (m_incidents s) (inc_id i) then (Err (incident_exists (inc_id i)), s)
      else (Ok i, s\<lparr>m_incidents := hm_insert (inc_id i) i (m_incidents s)\<rparr>))"

definition update_incident :: "incident \<Rightarrow> (mem, incident) op" where
  "update_incident i s =
     (if \<not> hm_contains (m_incidents s) (inc_id i) then (Err (incident_missing (inc_id i)), s)
      else (Ok i, s\<lparr>m_incidents := hm_insert (inc_id i) i (m_incidents s)\<rparr>))"

definition add_incident_update :: "uuid \<Rightarrow> public_incident_update \<Rightarrow> (mem, incident) op" where
  "add_incident_update incident_id upd s =
     (case hm_get (m_incidents s) incident_id of
        None \<Rightarrow> (Err (incident_missing incident_id), s)
      | Some i \<Rightarrow>
         (let i' = i\<lparr>inc_updates := inc_updates i @ [upd]\<rparr>
          in (Ok i', s\<lparr>m_incidents := hm_insert incident_id i' (m_incidents s)\<rparr>)))"

definition find_open_incident_for_target :: "mem \<Rightarrow> uuid \<Rightarrow> incident option" where
  "find_open_incident_for_target s target_id =
     (case sort_key (\<lambda>i. - inc_started_at i)
         (filter (\<lambda>i. inc_target_id i = target_id \<and> inc_ended_at i = None) (hm_values (m_incidents s))) of
        [] \<Rightarrow> None | i # _ \<Rightarrow> Some i)"

text \<open>
  \<open>apply_incident_ops\<close> reads the clock for the resolve, for the note and for
  \<open>updated_at\<close>.
\<close>

definition parse_transition :: "string \<Rightarrow> incident_transition option" where
  "parse_transition t =
     (if t = ''acknowledge'' then Some Acknowledge else if t = ''resolve'' then Some Resolve
      else if t = ''reopen'' then Some Reopen else None)"

definition transition_message :: "incident_state \<Rightarrow> incident_transition \<Rightarrow> message" where
  "transition_message from_state t =
     [Lit ''illegal incident transition '',
      Lit (case t of Acknowledge \<Rightarrow> ''Acknowledge'' | Resolve \<Rightarrow> ''Resolve'' | AutoResolve \<Rightarrow> ''AutoResolve''
           | Reopen \<Rightarrow> ''Reopen''),
      Lit '' from state '', Lit (state_as_db_str from_state)]"

definition stored_state :: "incident \<Rightarrow> incident_state" where
  "stored_state i = (if inc_ended_at i \<noteq> None then incident_state.Resolved else incident_state.Triggered)"

definition apply_transition_to :: "instant \<Rightarrow> incident_state \<Rightarrow> incident \<Rightarrow> incident" where
  "apply_transition_to now new_state i =
     (case new_state of
        incident_state.Resolved \<Rightarrow>
          i\<lparr>inc_ended_at := Some now,
            inc_duration_secs := Some (nat (max (num_seconds (now - inc_started_at i)) 0))\<rparr>
      | incident_state.Triggered \<Rightarrow> i\<lparr>inc_ended_at := None, inc_duration_secs := None\<rparr>
      | incident_state.Acknowledged \<Rightarrow> i)"

definition ops_transition :: "instant \<Rightarrow> string option \<Rightarrow> incident \<Rightarrow> app_error + incident" where
  "ops_transition now transition i =
     (case transition of
        None \<Rightarrow> Ok i
      | Some t \<Rightarrow>
         (case parse_transition t of
            None \<Rightarrow> Err (storage_conflict [Lit ''unknown transition: '', Lit t])
          | Some tr \<Rightarrow>
             (case next_state (stored_state i) tr of
                Inl _ \<Rightarrow> Err (storage_conflict (transition_message (stored_state i) tr))
              | Inr new_state \<Rightarrow> Ok (apply_transition_to now new_state i))))"

definition apply_incident_ops ::
  "instant \<Rightarrow> instant \<Rightarrow> instant \<Rightarrow> uuid \<Rightarrow> incident_ops_patch \<Rightarrow> (mem, incident) op" where
  "apply_incident_ops now note_now updated_now incident_id p s =
     (case hm_get (m_incidents s) incident_id of
        None \<Rightarrow> (Err (incident_missing incident_id), s)
      | Some i \<Rightarrow>
         (case ops_transition now (iop_transition p) i of
            Inl e \<Rightarrow> (Err e, s)
          | Inr i1 \<Rightarrow>
             (let i2 = patch (iop_severity p) (\<lambda>v i. i\<lparr>inc_severity := v\<rparr>) i1;
                  i3 = patch (iop_note p) (\<lambda>note i. i\<lparr>inc_updates := inc_updates i @
                     [\<lparr>piu_posted_at = note_now, piu_phase = Investigating, piu_message = note\<rparr>]\<rparr>) i2;
                  i4 = i3\<lparr>inc_updated_at := Some updated_now\<rparr>
              in (Ok i4, s\<lparr>m_incidents := hm_insert incident_id i4 (m_incidents s)\<rparr>))))"

section \<open>Status pages, components, assets\<close>

definition status_page_missing :: "uuid \<Rightarrow> app_error" where
  "status_page_missing k = storage_not_found [Lit ''status page '', Id k]"

definition status_page_exists :: "uuid \<Rightarrow> app_error" where
  "status_page_exists k = storage_conflict [Lit ''status page '', Id k, Lit '' exists'']"

definition list_status_pages :: "mem \<Rightarrow> status_page list" where
  "list_status_pages s = sort_key sp_created_at (hm_values (m_status_pages s))"

definition get_status_page :: "mem \<Rightarrow> uuid \<Rightarrow> app_error + status_page" where
  "get_status_page s k =
     (case hm_get (m_status_pages s) k of Some p \<Rightarrow> Ok p | None \<Rightarrow> Err (status_page_missing k))"

definition create_status_page :: "status_page \<Rightarrow> (mem, status_page) op" where
  "create_status_page p s =
     (if hm_contains (m_status_pages s) (sp_id p) then (Err (status_page_exists (sp_id p)), s)
      else (Ok p, s\<lparr>m_status_pages := hm_insert (sp_id p) p (m_status_pages s)\<rparr>))"

definition update_status_page :: "status_page \<Rightarrow> (mem, status_page) op" where
  "update_status_page p s =
     (if \<not> hm_contains (m_status_pages s) (sp_id p) then (Err (status_page_missing (sp_id p)), s)
      else (Ok p, s\<lparr>m_status_pages := hm_insert (sp_id p) p (m_status_pages s)\<rparr>))"

definition delete_status_page :: "uuid \<Rightarrow> (mem, unit) op" where
  "delete_status_page k s =
     (let s' = s\<lparr>m_status_pages := hm_remove k (m_status_pages s)\<rparr> in
      case hm_get (m_status_pages s) k of None \<Rightarrow> (Err (status_page_missing k), s') | Some _ \<Rightarrow> (Ok (), s'))"

definition list_status_page_components :: "mem \<Rightarrow> uuid \<Rightarrow> status_page_component list" where
  "list_status_page_components s status_page_id =
     sort_key (\<lambda>c. (spc_sort_order c, spc_monitor_name c))
       (map snd (filter (\<lambda>((sp, _), _). sp = status_page_id) (m_status_page_components s)))"

definition set_status_page_component :: "uuid \<Rightarrow> status_page_component \<Rightarrow> (mem, unit) op" where
  "set_status_page_component status_page_id c s =
     (Ok (), s\<lparr>m_status_page_components :=
        hm_insert (status_page_id, spc_target_id c) c (m_status_page_components s)\<rparr>)"

definition delete_status_page_component :: "uuid \<Rightarrow> uuid \<Rightarrow> (mem, unit) op" where
  "delete_status_page_component status_page_id target_id s =
     (Ok (), s\<lparr>m_status_page_components := hm_remove (status_page_id, target_id) (m_status_page_components s)\<rparr>)"

text \<open>\<open>i as i32\<close> wraps; positions are below \<open>2 ^ 31\<close> for any list the process can hold.\<close>

definition wrap_i32 :: "int \<Rightarrow> int" where
  "wrap_i32 n = (n + 2 ^ 31) mod 2 ^ 32 - 2 ^ 31"

fun reorder_loop ::
  "uuid \<Rightarrow> nat \<Rightarrow> uuid list \<Rightarrow> ((uuid \<times> uuid) \<times> status_page_component) list \<Rightarrow> ((uuid \<times> uuid) \<times> status_page_component) list" where
  "reorder_loop page i [] m = m"
| "reorder_loop page i (tid # tids) m =
     reorder_loop page (Suc i) tids
       (case hm_get m (page, tid) of
          Some c \<Rightarrow> hm_insert (page, tid) (c\<lparr>spc_sort_order := wrap_i32 (int i)\<rparr>) m
        | None \<Rightarrow> m)"

definition reorder_status_page_components :: "uuid \<Rightarrow> uuid list \<Rightarrow> (mem, unit) op" where
  "reorder_status_page_components status_page_id ordered s =
     (Ok (), s\<lparr>m_status_page_components := reorder_loop status_page_id 0 ordered (m_status_page_components s)\<rparr>)"

definition upload_page_asset ::
  "(8 word list \<Rightarrow> string) \<Rightarrow> instant \<Rightarrow> uuid \<Rightarrow> asset_slot \<Rightarrow> string \<Rightarrow> 8 word list \<Rightarrow> (mem, page_asset) op" where
  "upload_page_asset sha256_hex now page slot content_type bytes s =
     (let k = (page, slot_as_str slot);
          created = (case hm_get (m_page_assets s) k of Some a \<Rightarrow> pa_created_at a | None \<Rightarrow> now);
          asset = \<lparr>pa_status_page_id = page, pa_slot = slot, pa_content_type = content_type, pa_data = bytes,
                   pa_hash = sha256_hex bytes, pa_created_at = created, pa_updated_at = now\<rparr>
      in (Ok asset, s\<lparr>m_page_assets := hm_insert k asset (m_page_assets s)\<rparr>))"

definition get_page_asset :: "mem \<Rightarrow> uuid \<Rightarrow> asset_slot \<Rightarrow> page_asset option" where
  "get_page_asset s page slot = hm_get (m_page_assets s) (page, slot_as_str slot)"

definition delete_page_asset :: "uuid \<Rightarrow> asset_slot \<Rightarrow> (mem, unit) op" where
  "delete_page_asset page slot s =
     (Ok (), s\<lparr>m_page_assets := hm_remove (page, slot_as_str slot) (m_page_assets s)\<rparr>)"

definition list_page_assets :: "mem \<Rightarrow> uuid \<Rightarrow> page_asset list" where
  "list_page_assets s page =
     sort_key (\<lambda>a. slot_as_str (pa_slot a)) (map snd (filter (\<lambda>((sp, _), _). sp = page) (m_page_assets s)))"

section \<open>Heartbeats\<close>

definition record_heartbeat_ping :: "instant \<Rightarrow> uuid \<Rightarrow> (mem, unit) op" where
  "record_heartbeat_ping now target_id s =
     (Ok (), s\<lparr>m_heartbeat_pings := hm_insert target_id now (m_heartbeat_pings s)\<rparr>)"

definition get_last_heartbeat_ping :: "mem \<Rightarrow> uuid \<Rightarrow> instant option" where
  "get_last_heartbeat_ping s target_id = hm_get (m_heartbeat_pings s) target_id"

section \<open>Maintenance windows\<close>

definition maintenance_missing :: "uuid \<Rightarrow> app_error" where
  "maintenance_missing k = storage_not_found [Lit ''maintenance window '', Id k]"

definition maintenance_exists :: "uuid \<Rightarrow> app_error" where
  "maintenance_exists k = storage_conflict [Lit ''maintenance window '', Id k, Lit '' exists'']"

fun maintenance_selected :: "maintenance_filter \<Rightarrow> instant \<Rightarrow> maintenance_window \<Rightarrow> bool" where
  "maintenance_selected maintenance_filter.Active now w = (mw_starts_at w \<le> now \<and> mw_ends_at w > now)"
| "maintenance_selected maintenance_filter.Upcoming now w = (mw_starts_at w > now)"
| "maintenance_selected maintenance_filter.Past now w = (mw_ends_at w \<le> now)"
| "maintenance_selected maintenance_filter.All now w = True"

definition list_maintenance_windows :: "mem \<Rightarrow> instant \<Rightarrow> maintenance_filter \<Rightarrow> maintenance_window list" where
  "list_maintenance_windows s now f =
     sort_key mw_starts_at (filter (maintenance_selected f now) (hm_values (m_maintenance_windows s)))"

definition get_maintenance_window :: "mem \<Rightarrow> uuid \<Rightarrow> app_error + maintenance_window" where
  "get_maintenance_window s k =
     (case hm_get (m_maintenance_windows s) k of Some w \<Rightarrow> Ok w | None \<Rightarrow> Err (maintenance_missing k))"

definition create_maintenance_window :: "maintenance_window \<Rightarrow> (mem, maintenance_window) op" where
  "create_maintenance_window w s =
     (if hm_contains (m_maintenance_windows s) (mw_id w) then (Err (maintenance_exists (mw_id w)), s)
      else (Ok w, s\<lparr>m_maintenance_windows := hm_insert (mw_id w) w (m_maintenance_windows s)\<rparr>))"

definition update_maintenance_window :: "maintenance_window \<Rightarrow> (mem, maintenance_window) op" where
  "update_maintenance_window w s =
     (if \<not> hm_contains (m_maintenance_windows s) (mw_id w) then (Err (maintenance_missing (mw_id w)), s)
      else (Ok w, s\<lparr>m_maintenance_windows := hm_insert (mw_id w) w (m_maintenance_windows s)\<rparr>))"

definition delete_maintenance_window :: "uuid \<Rightarrow> (mem, unit) op" where
  "delete_maintenance_window k s =
     (let s' = s\<lparr>m_maintenance_windows := hm_remove k (m_maintenance_windows s)\<rparr> in
      case hm_get (m_maintenance_windows s) k of
        None \<Rightarrow> (Err (maintenance_missing k), s') | Some _ \<Rightarrow> (Ok (), s'))"

definition is_target_in_active_maintenance :: "mem \<Rightarrow> instant \<Rightarrow> uuid \<Rightarrow> bool" where
  "is_target_in_active_maintenance s now target_id =
     list_ex (\<lambda>w. mw_starts_at w \<le> now \<and> mw_ends_at w > now \<and> target_id \<in> set (mw_component_ids w))
       (hm_values (m_maintenance_windows s))"

section \<open>Silence rules\<close>

definition silence_missing :: "uuid \<Rightarrow> app_error" where
  "silence_missing k = storage_not_found [Lit ''silence rule '', Id k]"

fun silence_selected :: "silence_filter \<Rightarrow> instant \<Rightarrow> silence_rule \<Rightarrow> bool" where
  "silence_selected silence_filter.Active now r = (sr_starts_at r \<le> now \<and> sr_ends_at r > now)"
| "silence_selected silence_filter.Upcoming now r = (sr_starts_at r > now)"
| "silence_selected silence_filter.Past now r = (sr_ends_at r \<le> now)"
| "silence_selected silence_filter.All now r = True"

definition list_silence_rules :: "mem \<Rightarrow> instant \<Rightarrow> silence_filter \<Rightarrow> silence_rule list" where
  "list_silence_rules s now f =
     sort_key sr_starts_at (filter (silence_selected f now) (hm_values (m_silence_rules s)))"

definition get_silence_rule :: "mem \<Rightarrow> uuid \<Rightarrow> app_error + silence_rule" where
  "get_silence_rule s k =
     (case hm_get (m_silence_rules s) k of Some r \<Rightarrow> Ok r | None \<Rightarrow> Err (silence_missing k))"

definition create_silence_rule :: "instant \<Rightarrow> uuid \<Rightarrow> new_silence_rule \<Rightarrow> (mem, silence_rule) op" where
  "create_silence_rule now new_id n s =
     (if hm_contains (m_silence_rules s) new_id
      then (Err (storage_conflict [Lit ''silence rule '', Id new_id, Lit '' exists'']), s)
      else (let rule = \<lparr>sr_id = new_id, sr_title = nsr_title n, sr_description = nsr_description n,
                        sr_target_id = nsr_target_id n, sr_channel_id = nsr_channel_id n,
                        sr_reasons = nsr_reasons n, sr_starts_at = nsr_starts_at n, sr_ends_at = nsr_ends_at n,
                        sr_created_at = now, sr_updated_at = now, sr_write_source = Ui\<rparr>
            in (Ok rule, s\<lparr>m_silence_rules := hm_insert new_id rule (m_silence_rules s)\<rparr>)))"

definition silence_patched :: "instant \<Rightarrow> silence_rule_update \<Rightarrow> silence_rule \<Rightarrow> silence_rule" where
  "silence_patched now u r =
     (patch (sru_ends_at u) (\<lambda>v r. r\<lparr>sr_ends_at := v\<rparr>)
     (patch (sru_starts_at u) (\<lambda>v r. r\<lparr>sr_starts_at := v\<rparr>)
     (patch (sru_reasons u) (\<lambda>v r. r\<lparr>sr_reasons := v\<rparr>)
     (patch (sru_channel_id u) (\<lambda>v r. r\<lparr>sr_channel_id := v\<rparr>)
     (patch (sru_target_id u) (\<lambda>v r. r\<lparr>sr_target_id := v\<rparr>)
     (patch (sru_description u) (\<lambda>v r. r\<lparr>sr_description := Some v\<rparr>)
     (patch (sru_title u) (\<lambda>v r. r\<lparr>sr_title := v\<rparr>) r)))))))\<lparr>sr_updated_at := now\<rparr>"

definition update_silence_rule :: "instant \<Rightarrow> uuid \<Rightarrow> silence_rule_update \<Rightarrow> (mem, silence_rule) op" where
  "update_silence_rule now k u s =
     (case hm_get (m_silence_rules s) k of
        None \<Rightarrow> (Err (silence_missing k), s)
      | Some r \<Rightarrow>
         (let new_starts_at = (case sru_starts_at u of Some v \<Rightarrow> v | None \<Rightarrow> sr_starts_at r);
              new_ends_at = (case sru_ends_at u of Some v \<Rightarrow> v | None \<Rightarrow> sr_ends_at r)
          in if new_starts_at \<ge> new_ends_at
             then (Err (storage_invalid_input [Lit ''silence rule: starts_at must be before ends_at'']), s)
             else (let r' = silence_patched now u r
                   in (Ok r', s\<lparr>m_silence_rules := hm_insert k r' (m_silence_rules s)\<rparr>))))"

definition delete_silence_rule :: "uuid \<Rightarrow> (mem, unit) op" where
  "delete_silence_rule k s =
     (let s' = s\<lparr>m_silence_rules := hm_remove k (m_silence_rules s)\<rparr> in
      case hm_get (m_silence_rules s) k of None \<Rightarrow> (Err (silence_missing k), s') | Some _ \<Rightarrow> (Ok (), s'))"

definition list_active_silences_for_target :: "mem \<Rightarrow> instant \<Rightarrow> uuid \<Rightarrow> silence_rule list" where
  "list_active_silences_for_target s now target_id =
     sort_key sr_starts_at
       (filter (\<lambda>r. is_active_at r now \<and> (sr_target_id r = None \<or> sr_target_id r = Some target_id))
         (hm_values (m_silence_rules s)))"

section \<open>Subscribers\<close>

definition subscriber_missing :: "uuid \<Rightarrow> app_error" where
  "subscriber_missing k = storage_not_found [Lit ''subscriber '', Id k]"

definition list_subscribers :: "mem \<Rightarrow> uuid \<Rightarrow> subscriber list" where
  "list_subscribers s page =
     sort_key sub_created_at (filter (\<lambda>x. sub_status_page_id x = page) (hm_values (m_subscribers s)))"

definition create_subscriber :: "subscriber \<Rightarrow> (mem, subscriber) op" where
  "create_subscriber x s =
     (if hm_contains (m_subscribers s) (sub_id x)
      then (Err (storage_conflict [Lit ''subscriber '', Id (sub_id x), Lit '' exists'']), s)
      else (Ok x, s\<lparr>m_subscribers := hm_insert (sub_id x) x (m_subscribers s)\<rparr>))"

definition verify_subscriber :: "instant \<Rightarrow> uuid \<Rightarrow> (mem, subscriber) op" where
  "verify_subscriber now k s =
     (case hm_get (m_subscribers s) k of
        None \<Rightarrow> (Err (subscriber_missing k), s)
      | Some x \<Rightarrow>
         (let x' = x\<lparr>sub_verified_at := Some now\<rparr>
          in (Ok x', s\<lparr>m_subscribers := hm_insert k x' (m_subscribers s)\<rparr>)))"

definition delete_subscriber :: "uuid \<Rightarrow> (mem, unit) op" where
  "delete_subscriber k s =
     (let s' = s\<lparr>m_subscribers := hm_remove k (m_subscribers s)\<rparr> in
      case hm_get (m_subscribers s) k of None \<Rightarrow> (Err (subscriber_missing k), s') | Some _ \<Rightarrow> (Ok (), s'))"

definition delete_unverified_subscribers :: "instant \<Rightarrow> (mem, nat) op" where
  "delete_unverified_subscribers older_than s =
     (let kept = hm_retain (\<lambda>_ x. \<not> (sub_verified_at x = None \<and> sub_created_at x < older_than)) (m_subscribers s)
      in (Ok (length (m_subscribers s) - length kept), s\<lparr>m_subscribers := kept\<rparr>))"

section \<open>Variables\<close>

definition redacted_variable :: "variable \<Rightarrow> variable" where
  "redacted_variable v = (if var_is_secret v then v\<lparr>var_value := None\<rparr> else v)"

definition list_variables :: "mem \<Rightarrow> variable list" where
  "list_variables s = sort_key var_key (map redacted_variable (hm_values (m_variables s)))"

definition create_variable :: "variable \<Rightarrow> (mem, variable) op" where
  "create_variable v s =
     (if list_ex (\<lambda>v'. var_key v' = var_key v) (hm_values (m_variables s))
      then (Err (storage_conflict [Lit ''variable key '', quoted (var_key v), Lit '' exists'']), s)
      else (Ok (redacted_variable v), s\<lparr>m_variables := hm_insert (var_id v) v (m_variables s)\<rparr>))"

definition update_variable :: "variable \<Rightarrow> (mem, variable) op" where
  "update_variable v s =
     (if \<not> hm_contains (m_variables s) (var_id v)
      then (Err (storage_not_found [Lit ''variable '', Id (var_id v)]), s)
      else (Ok (redacted_variable v), s\<lparr>m_variables := hm_insert (var_id v) v (m_variables s)\<rparr>))"

definition delete_variable :: "uuid \<Rightarrow> (mem, unit) op" where
  "delete_variable k s =
     (let s' = s\<lparr>m_variables := hm_remove k (m_variables s)\<rparr> in
      case hm_get (m_variables s) k of
        None \<Rightarrow> (Err (storage_not_found [Lit ''variable '', Id k]), s') | Some _ \<Rightarrow> (Ok (), s'))"

section \<open>The collections meet the contract of keyed rows\<close>

lemma hm_remove_missing: "hm_get m k = None \<Longrightarrow> hm_remove k m = m"
  by (simp add: hm_get_def hm_remove_def map_of_eq_None_iff delete_idem)

lemmas target_ops = get_target_def create_target_def update_target_def delete_target_def Let_def
lemmas incident_row_ops = get_incident_def create_incident_def update_incident_def
lemmas status_page_ops = get_status_page_def create_status_page_def update_status_page_def delete_status_page_def Let_def
lemmas maintenance_ops = get_maintenance_window_def create_maintenance_window_def update_maintenance_window_def
  delete_maintenance_window_def Let_def

interpretation target_store: crud_store get_target create_target update_target tg_id target_missing target_exists delete_target
  by unfold_locales (auto simp: target_ops hm_remove_missing split: option.splits if_splits)

interpretation incident_store: entry_store get_incident create_incident update_incident inc_id incident_missing incident_exists
  by unfold_locales (auto simp: incident_row_ops split: option.splits if_splits)

interpretation status_page_store: crud_store get_status_page create_status_page update_status_page sp_id
  status_page_missing status_page_exists delete_status_page
  by unfold_locales (auto simp: status_page_ops hm_remove_missing split: option.splits if_splits)

interpretation maintenance_store: crud_store get_maintenance_window create_maintenance_window
  update_maintenance_window mw_id maintenance_missing maintenance_exists delete_maintenance_window
  by unfold_locales (auto simp: maintenance_ops hm_remove_missing split: option.splits if_splits)

text \<open>
  The row collections behave as partial maps under every history of
  operations.  After any sequence of creates, updates and deletes, a read of
  a target, a status page or a maintenance window returns what the same
  sequence leaves in a partial map from identifiers to rows, and the
  not-found error of that collection where the map has nothing.
\<close>

theorem row_collections_refine_maps:
  "get_target (fold (crud_step create_target update_target delete_target) cs s) k =
     (case fold (spec_crud tg_id) cs (row_view get_target s) k of
        Some t \<Rightarrow> Ok t | None \<Rightarrow> Err (target_missing k)) \<and>
   get_status_page (fold (crud_step create_status_page update_status_page delete_status_page) ps s) k =
     (case fold (spec_crud sp_id) ps (row_view get_status_page s) k of
        Some p \<Rightarrow> Ok p | None \<Rightarrow> Err (status_page_missing k)) \<and>
   get_maintenance_window
       (fold (crud_step create_maintenance_window update_maintenance_window delete_maintenance_window) ws s) k =
     (case fold (spec_crud mw_id) ws (row_view get_maintenance_window s) k of
        Some w \<Rightarrow> Ok w | None \<Rightarrow> Err (maintenance_missing k))"
  using target_store.get_run status_page_store.get_run maintenance_store.get_run by blast

section \<open>Check results\<close>

definition results_ok :: "check_result list \<Rightarrow> bool" where
  "results_ok rs \<longleftrightarrow> distinct (map (\<lambda>r. (cr_target_id r, cr_timestamp r)) rs)"

lemma upsert_result_set:
  "results_ok rs \<Longrightarrow> set (upsert_result r rs) = insert r {x \<in> set rs. \<not> same_slot r x}"
  by (induction rs) (auto simp: results_ok_def same_slot_def image_iff)

lemma upsert_result_slots:
  "set (map (\<lambda>r. (cr_target_id r, cr_timestamp r)) (upsert_result r rs)) =
     insert (cr_target_id r, cr_timestamp r) (set (map (\<lambda>r. (cr_target_id r, cr_timestamp r)) rs))"
  by (induction rs) (auto simp: same_slot_def)

lemma results_ok_upsert: "results_ok rs \<Longrightarrow> results_ok (upsert_result r rs)"
  unfolding results_ok_def using upsert_result_slots
  by (induction rs) (auto simp: same_slot_def simp del: upsert_result_slots)

lemma upsert_result_idem: "upsert_result r (upsert_result r rs) = upsert_result r rs"
  by (induction rs) (auto simp: same_slot_def)

definition recorded :: "check_result list \<Rightarrow> mem \<Rightarrow> mem" where
  "recorded rs s = fold (\<lambda>r s. snd (record_result r s)) rs s"

definition latest :: "check_result list \<Rightarrow> uuid \<Rightarrow> check_result set" where
  "latest rs t = {r. cr_target_id r = t \<and> find (same_slot r) (rev rs) = Some r}"

lemma m_results_recorded: "m_results (recorded rs s) = fold upsert_result rs (m_results s)"
  by (induction rs arbitrary: s) (simp_all add: recorded_def record_result_def)

lemma results_ok_fold: "results_ok xs \<Longrightarrow> results_ok (fold upsert_result rs xs)"
  by (induction rs arbitrary: xs) (simp_all add: results_ok_upsert)

lemma set_fold_upsert: "set (fold upsert_result rs []) = {r. find (same_slot r) (rev rs) = Some r}"
proof (induction rs rule: rev_induct)
  case (snoc r rs)
  have "results_ok (fold upsert_result rs [])" by (rule results_ok_fold) (simp add: results_ok_def)
  then have "set (fold upsert_result (rs @ [r]) []) = insert r {x \<in> set (fold upsert_result rs []). \<not> same_slot r x}"
    by (simp add: upsert_result_set)
  then show ?case using snoc by (auto simp: same_slot_def)
qed simp

lemma newest_first_strict:
  assumes "distinct (map cr_timestamp rs)"
  shows "sorted_wrt (\<lambda>a b. cr_timestamp b < cr_timestamp a) (newest_first rs)"
proof -
  have "distinct (map (\<lambda>r. - cr_timestamp r) (newest_first rs))"
    using assms unfolding newest_first_def by (simp add: distinct_map inj_on_def)
  moreover have "sorted (map (\<lambda>r. - cr_timestamp r) (newest_first rs))"
    by (simp add: newest_first_def)
  ultimately have "sorted_wrt (<) (map (\<lambda>r. - cr_timestamp r) (newest_first rs))"
    by (simp add: strict_sorted_iff)
  then show ?thesis by (simp add: sorted_wrt_map)
qed

lemma results_ok_filter_timestamps:
  "results_ok rs \<Longrightarrow> distinct (map cr_timestamp (filter (\<lambda>r. cr_target_id r = t) rs))"
  by (induction rs) (auto simp: results_ok_def image_iff)

lemma take_drop_sorted_wrt:
  "sorted_wrt P xs \<Longrightarrow> x \<in> set xs \<Longrightarrow> x \<notin> set (take n xs) \<Longrightarrow> y \<in> set (take n xs) \<Longrightarrow> P y x"
  by (metis (no_types, lifting) Un_iff append_take_drop_id set_append sorted_wrt_append)

text \<open>
  The results of a target are the last one recorded for each instant,
  newest first.  After any sequence of recorded results, the listing of a
  target with a limit is strictly descending in time, has as many entries as
  the limit and the recorded instants allow, contains only results that no
  later recording of the same target and instant replaced, and leaves out only
  results older than all it shows.
\<close>

theorem list_results_newest:
  "let out = list_results (recorded rs new_storage) t n in
     sorted_wrt (\<lambda>a b. cr_timestamp b < cr_timestamp a) out \<and>
     length out = min n (card (latest rs t)) \<and>
     set out \<subseteq> latest rs t \<and>
     (\<forall>x \<in> latest rs t - set out. \<forall>y \<in> set out. cr_timestamp x < cr_timestamp y)"
proof -
  define xs where "xs = filter (\<lambda>r. cr_target_id r = t) (m_results (recorded rs new_storage))"
  have eq: "m_results (recorded rs new_storage) = fold upsert_result rs []"
    by (simp add: m_results_recorded new_storage_def)
  have ok: "results_ok (fold upsert_result rs [])" by (rule results_ok_fold) (simp add: results_ok_def)
  have set: "set xs = latest rs t"
    unfolding xs_def eq latest_def using set_fold_upsert by auto
  have dist: "distinct (map cr_timestamp xs)"
    unfolding xs_def eq using results_ok_filter_timestamps [OF ok] .
  have strict: "sorted_wrt (\<lambda>a b. cr_timestamp b < cr_timestamp a) (newest_first xs)"
    using newest_first_strict [OF dist] .
  have sets: "set (newest_first xs) = latest rs t" by (simp add: newest_first_def set)
  have "length (newest_first xs) = card (latest rs t)"
    using dist distinct_card [of xs] set by (simp add: newest_first_def distinct_map)
  moreover have "list_results (recorded rs new_storage) t n = take n (newest_first xs)"
    by (simp add: list_results_def xs_def)
  ultimately show ?thesis
    using strict sets take_drop_sorted_wrt [OF strict] set_take_subset [of n "newest_first xs"]
    by (auto simp: Let_def sorted_wrt_take min.commute)
qed

definition sample_result :: "uuid \<Rightarrow> instant \<Rightarrow> check_status \<Rightarrow> check_result" where
  "sample_result t ts st = (error_with_elapsed t 0 ts 0 [])\<lparr>cr_status := st\<rparr>"

lemma list_results_newest_witness:
  "let rs = [sample_result 1 10 Up, sample_result 1 30 Down, sample_result 2 20 Up, sample_result 1 30 Up];
       out = list_results (recorded rs new_storage) 1 1 in
     out = [sample_result 1 30 Up] \<and> set out \<subseteq> latest rs 1"
proof -
  let ?rs = "[sample_result 1 10 Up, sample_result 1 30 Down, sample_result 2 20 Up, sample_result 1 30 Up]"
  have "list_results (recorded ?rs new_storage) 1 1 = [sample_result 1 30 Up]"
    by code_simp
  then show ?thesis using list_results_newest [of ?rs 1 1] unfolding Let_def by simp
qed

section \<open>Incident operations\<close>

lemma stored_state_apply_transition:
  "stored_state (apply_transition_to now st i) =
     (case st of incident_state.Resolved \<Rightarrow> incident_state.Resolved
               | incident_state.Triggered \<Rightarrow> incident_state.Triggered
               | incident_state.Acknowledged \<Rightarrow> stored_state i)"
  by (cases st) (simp_all add: apply_transition_to_def stored_state_def)

lemma stored_state_patches [simp]:
  "stored_state (i\<lparr>inc_severity := sv\<rparr>) = stored_state i"
  "stored_state (i\<lparr>inc_updates := us\<rparr>) = stored_state i"
  "stored_state (i\<lparr>inc_updated_at := u\<rparr>) = stored_state i"
  by (simp_all add: stored_state_def)

lemma next_state_acknowledged:
  "next_state st tr = Ok incident_state.Acknowledged \<Longrightarrow> st \<noteq> incident_state.Resolved"
  by (cases st; cases tr) auto

lemma stored_state_open: "stored_state i \<noteq> incident_state.Resolved \<longleftrightarrow> stored_state i = incident_state.Triggered"
  by (simp add: stored_state_def)

text \<open>
  An operator's transition follows the incident state machine, and an
  illegal one changes nothing.  On a stored incident the operation succeeds
  exactly when the transition is known and the state machine allows it from
  the stored state; it then stores what it returns, whose state is the
  successor state, except that an acknowledgement leaves the incident
  triggered: the acknowledged state is not kept.
\<close>

theorem incident_ops_follow_lifecycle:
  assumes "get_incident s k = Ok i" "iop_transition p = Some t"
  shows "case apply_incident_ops now note_now upd_now k p s of
           (Inl e, s') \<Rightarrow> s' = s \<and>
             (case parse_transition t of None \<Rightarrow> True | Some tr \<Rightarrow> \<not> is_ok (next_state (stored_state i) tr))
         | (Inr i', s') \<Rightarrow> get_incident s' k = Ok i' \<and>
             (\<exists>tr st. parse_transition t = Some tr \<and> next_state (stored_state i) tr = Ok st \<and>
                stored_state i' = (if st = incident_state.Resolved then incident_state.Resolved
                                   else incident_state.Triggered))"
proof -
  have row: "hm_get (m_incidents s) k = Some i"
    using assms(1) by (simp add: get_incident_def split: option.splits)
  show ?thesis
  proof (cases "ops_transition now (iop_transition p) i")
    case (Inl e)
    then show ?thesis using row assms(2)
      by (auto simp: apply_incident_ops_def ops_transition_def split: option.splits sum.splits)
  next
    case (Inr i1)
    then obtain tr st where tr: "parse_transition t = Some tr" "next_state (stored_state i) tr = Ok st"
      and i1: "i1 = apply_transition_to now st i"
      using assms(2) by (auto simp: ops_transition_def split: option.splits sum.splits)
    have "stored_state i1 = (if st = incident_state.Resolved then incident_state.Resolved else incident_state.Triggered)"
      using tr(2) next_state_acknowledged [of "stored_state i" tr] stored_state_open [of i]
      unfolding i1 stored_state_apply_transition by (cases st) auto
    then show ?thesis using row Inr tr
      by (auto simp: apply_incident_ops_def get_incident_def Let_def patch_def split: option.splits)
  qed
qed

definition sample_incident :: "uuid \<Rightarrow> instant \<Rightarrow> incident" where
  "sample_incident k started = new_incident k 9 started Down None"

definition transition_patch :: "string \<Rightarrow> incident_ops_patch" where
  "transition_patch t =
     \<lparr>iop_transition = Some t, iop_assignee_id = None, iop_publish = None, iop_severity = None, iop_note = None\<rparr>"

lemma incident_ops_follow_lifecycle_witness:
  "let s = snd (create_incident (sample_incident 1 0) new_storage);
       (r, s') = apply_incident_ops 5 5 5 1 (transition_patch ''acknowledge'') s
   in \<exists>i'. r = Ok i' \<and> get_incident s' 1 = Ok i' \<and> stored_state i' = incident_state.Triggered"
proof -
  let ?s = "snd (create_incident (sample_incident 1 0) new_storage)"
  have get: "get_incident ?s 1 = Ok (sample_incident 1 0)"
    by (simp add: incident_row_ops sample_incident_def new_incident_def new_storage_def)
  have st: "stored_state (sample_incident 1 0) = incident_state.Triggered"
    by (simp add: stored_state_def sample_incident_def new_incident_def)
  have p: "iop_transition (transition_patch ''acknowledge'') = Some ''acknowledge''"
    by (simp add: transition_patch_def)
  show ?thesis
    using incident_ops_follow_lifecycle [OF get p, of 5 5 5] st
    by (auto simp: Let_def parse_transition_def split: prod.splits sum.splits)
qed

section \<open>Variables\<close>

definition variables_ok :: "mem \<Rightarrow> bool" where
  "variables_ok s \<longleftrightarrow> distinct (map var_key (hm_values (m_variables s)))"

lemma values_insert_fresh: "hm_get m k = None \<Longrightarrow> hm_values (hm_insert k v m) = hm_values m @ [v]"
  unfolding hm_values_def hm_insert_def hm_get_def by (induction m) (auto split: if_splits)

text \<open>
  Variable values that are secret are never read back: every listed
  variable and every variable that create or update returns has its value
  removed when it is secret and is the stored one otherwise.
\<close>

theorem secret_variables_withheld:
  "(v \<in> set (list_variables s) \<longleftrightarrow>
      (\<exists>w \<in> set (hm_values (m_variables s)). v = redacted_variable w)) \<and>
   fst (create_variable w s) \<in> insert (Ok (redacted_variable w)) (range Err) \<and>
   fst (update_variable w s) \<in> insert (Ok (redacted_variable w)) (range Err) \<and>
   var_value (redacted_variable w) = (if var_is_secret w then None else var_value w)"
  by (auto simp: list_variables_def create_variable_def update_variable_def redacted_variable_def split: if_splits)

definition sample_variable :: "uuid \<Rightarrow> string \<Rightarrow> variable" where
  "sample_variable n key = \<lparr>var_id = n, var_org_id = 0, var_key = key, var_is_secret = False, var_value = None,
     var_updated_at = 0, var_updated_by = None\<rparr>"

text \<open>
  Creating a variable keeps the keys of the store distinct, but updating
  does not: an update may rename a variable to a key another one has.
\<close>

theorem variable_update_may_duplicate_key:
  "(variables_ok s \<and> hm_get (m_variables s) (var_id v) = None \<longrightarrow> variables_ok (snd (create_variable v s))) \<and>
   (\<exists>s v. variables_ok s \<and> fst (update_variable v s) = Ok v \<and> \<not> variables_ok (snd (update_variable v s)))"
proof
  show "variables_ok s \<and> hm_get (m_variables s) (var_id v) = None \<longrightarrow> variables_ok (snd (create_variable v s))"
    by (auto simp: variables_ok_def create_variable_def values_insert_fresh list_ex_iff)
  let ?v = sample_variable
  let ?s = "new_storage\<lparr>m_variables := [(1, ?v 1 ''a''), (2, ?v 2 ''b'')]\<rparr>"
  have "variables_ok ?s" by (simp add: variables_ok_def hm_values_def sample_variable_def)
  moreover have "fst (update_variable (?v 2 ''a'') ?s) = Ok (?v 2 ''a'')"
    by (simp add: update_variable_def redacted_variable_def hm_get_def sample_variable_def)
  moreover have "\<not> variables_ok (snd (update_variable (?v 2 ''a'') ?s))"
    by (simp add: update_variable_def variables_ok_def hm_get_def hm_values_def hm_insert_def sample_variable_def)
  ultimately show "\<exists>s v. variables_ok s \<and> fst (update_variable v s) = Ok v \<and> \<not> variables_ok (snd (update_variable v s))"
    by blast
qed

lemma variable_update_may_duplicate_key_witness:
  "variables_ok (snd (create_variable (sample_variable 1 ''a'') new_storage))"
  using variable_update_may_duplicate_key [of new_storage "sample_variable 1 ''a''"]
  by (simp add: new_storage_def variables_ok_def hm_values_def)

end
