(* ===== verification/Memory_Analytics.thy ===== *)
theory Memory_Analytics
  imports Memory_State
begin

text \<open>
  The aggregations of the in-memory storage (\<open>crates/storage/src/memory.rs\<close>):
  percentiles, latency buckets, uptime, day strips, the dashboard and the
  incident metrics.  \<open>f64\<close> is \<open>real\<close>, so rounding is not modelled; a calendar day
  (\<open>NaiveDate\<close> in UTC) is its number of days since the epoch.
\<close>

section \<open>Percentiles\<close>

definition percentile :: "real list \<Rightarrow> real \<Rightarrow> real" where
  "percentile xs p =
     (if xs = [] then 0
      else let n = length xs in
        if n = 1 then xs ! 0
        else let rank = p * real (n - 1);
                 lower = nat \<lfloor>rank\<rfloor>;
                 upper = nat \<lceil>rank\<rceil>
             in if lower = upper then xs ! lower
                else let frac = rank - real lower in xs ! upper * frac + xs ! lower * (1 - frac))"

section \<open>Latency buckets and uptime\<close>

definition in_window :: "uuid \<Rightarrow> instant \<Rightarrow> instant \<Rightarrow> check_result \<Rightarrow> bool" where
  "in_window target_id from_at to_at r \<longleftrightarrow>
     cr_target_id r = target_id \<and> cr_timestamp r \<ge> from_at \<and> cr_timestamp r \<le> to_at"

definition bucket_index :: "instant \<Rightarrow> real \<Rightarrow> nat \<Rightarrow> check_result \<Rightarrow> nat" where
  "bucket_index from_at bucket_secs n r =
     min (nat \<lfloor>real_of_int (num_seconds (cr_timestamp r - from_at)) / bucket_secs\<rfloor>) (n - 1)"

fun fill_buckets :: "instant \<Rightarrow> real \<Rightarrow> nat \<Rightarrow> check_result list \<Rightarrow> real list list \<Rightarrow> real list list" where
  "fill_buckets from_at bucket_secs n [] buckets = buckets"
| "fill_buckets from_at bucket_secs n (r # rs) buckets =
     (let idx = bucket_index from_at bucket_secs n r
      in fill_buckets from_at bucket_secs n rs
           (buckets[idx := buckets ! idx @ [real (cr_duration_ms r)]]))"

definition bucket_row :: "instant \<Rightarrow> real \<Rightarrow> nat \<Rightarrow> real list \<Rightarrow> latency_bucket" where
  "bucket_row from_at bucket_secs i durations =
     (let ts = from_at + seconds \<lfloor>real i * bucket_secs\<rfloor> in
      if durations = [] then \<lparr>lb_ts = ts, lb_p50 = None, lb_p95 = None, lb_p99 = None, lb_count = 0\<rparr>
      else let sorted = sort durations
           in \<lparr>lb_ts = ts, lb_p50 = Some (percentile sorted (1 / 2)), lb_p95 = Some (percentile sorted (95 / 100)),
               lb_p99 = Some (percentile sorted (99 / 100)), lb_count = length durations\<rparr>)"

definition latency_buckets :: "mem \<Rightarrow> uuid \<Rightarrow> instant \<Rightarrow> instant \<Rightarrow> nat \<Rightarrow> latency_bucket list" where
  "latency_buckets s target_id from_at to_at bucket_count =
     (let n = max bucket_count 1;
          total_secs = real_of_int (max (num_seconds (to_at - from_at)) 1);
          bucket_secs = total_secs / real n;
          buckets = fill_buckets from_at bucket_secs n
                      (filter (in_window target_id from_at to_at) (m_results s)) (replicate n [])
      in map (\<lambda>(i, durations). bucket_row from_at bucket_secs i durations) (enumerate 0 buckets))"

definition uptime :: "mem \<Rightarrow> uuid \<Rightarrow> instant \<Rightarrow> instant \<Rightarrow> uptime_result option" where
  "uptime s target_id from_at to_at =
     (let rs = filter (in_window target_id from_at to_at) (m_results s) in
      if rs = [] then None
      else let total = length rs;
               up = length (filter (\<lambda>r. cr_status r = Up) rs);
               failed = total - up
           in Some \<lparr>ur_target_id = target_id, ur_uptime_pct = real up / real total * 100,
                    ur_total_checks = total, ur_failed_checks = failed\<rparr>)"

section \<open>Day strips\<close>

fun check_status_to_day_state :: "check_status \<Rightarrow> day_state" where
  "check_status_to_day_state Up = Operational"
| "check_status_to_day_state check_status.Degraded = day_state.Degraded"
| "check_status_to_day_state Down = MajorOutage"
| "check_status_to_day_state Error = MajorOutage"

fun day_state_rank :: "day_state \<Rightarrow> nat" where
  "day_state_rank Operational = 0"
| "day_state_rank day_state.Maintenance = 1"
| "day_state_rank day_state.Degraded = 2"
| "day_state_rank PartialOutage = 3"
| "day_state_rank MajorOutage = 4"
| "day_state_rank NoData = 5"

definition utc_day :: "instant \<Rightarrow> int" where
  "utc_day t = t div days 1"

definition day_entry :: "(int \<times> day_state) list \<Rightarrow> int \<Rightarrow> day_state" where
  "day_entry by_day d = (case hm_get by_day d of Some st \<Rightarrow> st | None \<Rightarrow> Operational)"

definition worse_entry :: "check_result \<Rightarrow> (int \<times> day_state) list \<Rightarrow> (int \<times> day_state) list" where
  "worse_entry r by_day =
     (let day = utc_day (cr_timestamp r);
          state = check_status_to_day_state (cr_status r);
          entry = day_entry by_day day
      in hm_insert day (if day_state_rank state > day_state_rank entry then state else entry) by_day)"

definition by_day_of :: "check_result list \<Rightarrow> (int \<times> day_state) list" where
  "by_day_of rs = fold worse_entry rs []"

text \<open>The loop \<open>while cursor <= end\<close> visits the days from the first to the last.\<close>

definition day_strip :: "check_result list \<Rightarrow> instant \<Rightarrow> instant \<Rightarrow> day_state list" where
  "day_strip rs from_at to_at =
     map (\<lambda>d. case hm_get (by_day_of rs) d of Some st \<Rightarrow> st | None \<Rightarrow> NoData) [utc_day from_at..utc_day to_at]"

definition day_strip_dated :: "uuid \<Rightarrow> check_result list \<Rightarrow> instant \<Rightarrow> instant \<Rightarrow> component_day_history list" where
  "day_strip_dated target_id rs from_at to_at =
     map (\<lambda>d. \<lparr>cdh_target_id = target_id, cdh_day = d,
                cdh_state = (case hm_get (by_day_of rs) d of Some st \<Rightarrow> st | None \<Rightarrow> NoData)\<rparr>)
       [utc_day from_at..utc_day to_at]"

definition component_day_history_of :: "mem \<Rightarrow> uuid \<Rightarrow> instant \<Rightarrow> instant \<Rightarrow> component_day_history list" where
  "component_day_history_of s target_id from_at to_at =
     day_strip_dated target_id (filter (in_window target_id from_at to_at) (m_results s)) from_at to_at"

section \<open>Dashboard\<close>

text \<open>\<open>Iterator::max_by_key\<close> returns the last of the maximal elements.\<close>

fun max_by_timestamp :: "check_result list \<Rightarrow> check_result option" where
  "max_by_timestamp [] = None"
| "max_by_timestamp (r # rs) =
     (case max_by_timestamp rs of
        None \<Rightarrow> Some r
      | Some m \<Rightarrow> if cr_timestamp m \<ge> cr_timestamp r then Some m else Some r)"

definition dashboard_row_of :: "mem \<Rightarrow> instant \<Rightarrow> target \<Rightarrow> dashboard_row" where
  "dashboard_row_of s now t =
     (let day_ago = now - hours 24;
          ninety_days_ago = now - days 90;
          target_results = filter (\<lambda>r. cr_target_id r = tg_id t) (m_results s);
          latest = map_option (\<lambda>r. (cr_timestamp r, cr_status r)) (max_by_timestamp target_results);
          window = filter (\<lambda>r. cr_timestamp r \<ge> day_ago) target_results;
          history_results = filter (\<lambda>r. cr_timestamp r \<ge> ninety_days_ago) target_results
      in \<lparr>dr_target_id = tg_id t, dr_name = tg_name t, dr_kind = check_kind (tg_check t),
          dr_enabled = tg_enabled t,
          dr_current_status = (case latest of None \<Rightarrow> Up | Some (_, st) \<Rightarrow> st),
          dr_last_check_at = map_option fst latest,
          dr_uptime_pct_24h =
            (if window = [] then None
             else Some (real (length (filter (\<lambda>r. cr_status r = Up) window)) / real (length window) * 100)),
          dr_p95_24h =
            (if window = [] then None
             else Some (percentile (sort (map (\<lambda>r. real (cr_duration_ms r)) window)) (95 / 100))),
          dr_history = day_strip history_results ninety_days_ago now\<rparr>)"

definition dashboard_rollup :: "mem \<Rightarrow> instant \<Rightarrow> dashboard_row list" where
  "dashboard_rollup s now = sort_key dr_name (map (dashboard_row_of s now) (hm_values (m_targets s)))"

definition count_target :: "mem \<Rightarrow> target \<Rightarrow> dashboard_summary \<Rightarrow> dashboard_summary" where
  "count_target s t summary =
     (if \<not> tg_enabled t then summary\<lparr>ds_disabled := ds_disabled summary + 1\<rparr>
      else case map_option cr_status (max_by_timestamp (filter (\<lambda>r. cr_target_id r = tg_id t) (m_results s))) of
          Some Up \<Rightarrow> summary\<lparr>ds_up := ds_up summary + 1\<rparr>
        | Some Down \<Rightarrow> summary\<lparr>ds_down := ds_down summary + 1\<rparr>
        | Some check_status.Degraded \<Rightarrow> summary\<lparr>ds_degraded := ds_degraded summary + 1\<rparr>
        | Some Error \<Rightarrow> summary\<lparr>ds_error := ds_error summary + 1\<rparr>
        | None \<Rightarrow> summary)"

definition dashboard_summary_of :: "mem \<Rightarrow> dashboard_summary" where
  "dashboard_summary_of s =
     fold (count_target s) (hm_values (m_targets s))
       \<lparr>ds_total = length (m_targets s), ds_up = 0, ds_down = 0, ds_degraded = 0, ds_error = 0, ds_disabled = 0\<rparr>"

section \<open>Incident metrics\<close>

definition incident_metrics :: "mem \<Rightarrow> instant \<Rightarrow> nat \<Rightarrow> incident_metrics_rollup" where
  "incident_metrics s now window_days =
     (let cutoff = now - days (int window_days);
          in_win = filter (\<lambda>i. inc_started_at i \<ge> cutoff) (hm_values (m_incidents s));
          total = length in_win;
          opened = length (filter (\<lambda>i. inc_ended_at i = None) in_win);
          resolved = length (filter (\<lambda>i. inc_ended_at i \<noteq> None) in_win);
          sum = sum_list (map real (List.map_filter inc_duration_secs in_win))
      in \<lparr>imr_window_days = window_days, imr_total = total, imr_open = opened, imr_resolved = resolved,
          imr_mttr_secs = (if resolved = 0 then None else Some (sum / real resolved))\<rparr>)"

section \<open>Percentiles\<close>

definition interp :: "real list \<Rightarrow> real \<Rightarrow> real" where
  "interp xs rank =
     xs ! nat \<lfloor>rank\<rfloor> + (rank - of_int \<lfloor>rank\<rfloor>) * (xs ! nat \<lceil>rank\<rceil> - xs ! nat \<lfloor>rank\<rfloor>)"

lemma percentile_interp:
  assumes "xs \<noteq> []" "0 \<le> p"
  shows "percentile xs p = interp xs (p * real (length xs - 1))"
proof (cases "length xs = 1")
  case True
  then show ?thesis using assms by (simp add: percentile_def interp_def)
next
  case False
  let ?r = "p * real (length xs - 1)"
  have r: "0 \<le> ?r" using assms by simp
  then have fl: "real (nat \<lfloor>?r\<rfloor>) = of_int \<lfloor>?r\<rfloor>" by simp
  show ?thesis
  proof (cases "nat \<lfloor>?r\<rfloor> = nat \<lceil>?r\<rceil>")
    case True
    then show ?thesis using False assms by (simp add: percentile_def interp_def Let_def)
  next
    case neq: False
    have "percentile xs p = xs ! nat \<lceil>?r\<rceil> * (?r - of_int \<lfloor>?r\<rfloor>) + xs ! nat \<lfloor>?r\<rfloor> * (1 - (?r - of_int \<lfloor>?r\<rfloor>))"
      using False assms neq fl by (simp add: percentile_def Let_def)
    then show ?thesis by (simp add: interp_def algebra_simps)
  qed
qed

lemma interp_between:
  assumes "sorted xs" "0 \<le> r" "r \<le> real (length xs - 1)" "xs \<noteq> []"
  shows "xs ! nat \<lfloor>r\<rfloor> \<le> interp xs r \<and> interp xs r \<le> xs ! nat \<lceil>r\<rceil>"
proof -
  have "nat \<lfloor>r\<rfloor> \<le> nat \<lceil>r\<rceil>" using floor_le_ceiling nat_mono by blast
  moreover have "nat \<lceil>r\<rceil> \<le> length xs - 1" using assms(3) by (simp add: ceiling_le_iff nat_le_iff)
  moreover have "0 < length xs" using assms(4) by simp
  ultimately have "nat \<lceil>r\<rceil> < length xs" by linarith
  then have d: "0 \<le> xs ! nat \<lceil>r\<rceil> - xs ! nat \<lfloor>r\<rfloor>"
    using assms(1) \<open>nat \<lfloor>r\<rfloor> \<le> nat \<lceil>r\<rceil>\<close> sorted_nth_mono by fastforce
  have f: "0 \<le> r - of_int \<lfloor>r\<rfloor>" "r - of_int \<lfloor>r\<rfloor> \<le> 1" by linarith+
  have "0 \<le> (r - of_int \<lfloor>r\<rfloor>) * (xs ! nat \<lceil>r\<rceil> - xs ! nat \<lfloor>r\<rfloor>)" using d f by simp
  moreover have "(r - of_int \<lfloor>r\<rfloor>) * (xs ! nat \<lceil>r\<rceil> - xs ! nat \<lfloor>r\<rfloor>) \<le> xs ! nat \<lceil>r\<rceil> - xs ! nat \<lfloor>r\<rfloor>"
    using mult_right_mono [OF f(2) d] by simp
  ultimately show ?thesis unfolding interp_def by linarith
qed

lemma interp_mono:
  assumes "sorted xs" "0 \<le> r" "r \<le> q" "q \<le> real (length xs - 1)" "xs \<noteq> []"
  shows "interp xs r \<le> interp xs q"
proof (cases "\<lceil>r\<rceil> \<le> \<lfloor>q\<rfloor>")
  case True
  have q: "0 \<le> q" "r \<le> real (length xs - 1)" using assms by auto
  have "real (length xs - 1) < real (length xs)" using assms(5) by simp
  then have "q < real (length xs)" using assms(4) by linarith
  then have "nat \<lfloor>q\<rfloor> < length xs" using q(1) by (simp add: nat_less_iff floor_less_iff)
  then have "xs ! nat \<lceil>r\<rceil> \<le> xs ! nat \<lfloor>q\<rfloor>"
    using sorted_nth_mono [OF assms(1) nat_mono [OF True]] by blast
  then show ?thesis
    using interp_between [OF assms(1,2) q(2) assms(5)] interp_between [OF assms(1) q(1) assms(4,5)] by linarith
next
  case False
  have eq: "\<lfloor>r\<rfloor> = \<lfloor>q\<rfloor>" "\<lceil>r\<rceil> = \<lceil>q\<rceil>" using False assms(3) by linarith+
  have "nat \<lceil>q\<rceil> \<le> length xs - 1" using assms(4) by (simp add: ceiling_le_iff nat_le_iff)
  moreover have "0 < length xs" using assms(5) by simp
  ultimately have "nat \<lceil>q\<rceil> < length xs" by linarith
  then have "0 \<le> xs ! nat \<lceil>q\<rceil> - xs ! nat \<lfloor>q\<rfloor>"
    using sorted_nth_mono [OF assms(1) nat_mono [OF floor_le_ceiling]] by fastforce
  then have "(r - of_int \<lfloor>q\<rfloor>) * (xs ! nat \<lceil>q\<rceil> - xs ! nat \<lfloor>q\<rfloor>) \<le> (q - of_int \<lfloor>q\<rfloor>) * (xs ! nat \<lceil>q\<rceil> - xs ! nat \<lfloor>q\<rfloor>)"
    using assms(3) by (simp add: mult_right_mono)
  then show ?thesis unfolding interp_def eq by linarith
qed

lemma percentile_mono:
  assumes "sorted xs" "xs \<noteq> []" "0 \<le> p" "p \<le> q" "q \<le> 1"
  shows "percentile xs p \<le> percentile xs q"
proof -
  have "q * real (length xs - 1) \<le> 1 * real (length xs - 1)"
    using assms by (intro mult_right_mono) auto
  then show ?thesis
    using interp_mono [OF assms(1), of "p * real (length xs - 1)" "q * real (length xs - 1)"] assms
    by (simp add: percentile_interp mult_right_mono)
qed

lemma percentile_bounds:
  assumes "sorted xs" "xs \<noteq> []" "0 \<le> p" "p \<le> 1"
  shows "hd xs \<le> percentile xs p \<and> percentile xs p \<le> last xs"
proof -
  have "percentile xs 0 = hd xs" "percentile xs 1 = last xs"
    using assms(2) by (simp_all add: percentile_interp interp_def hd_conv_nth last_conv_nth)
  then show ?thesis using percentile_mono assms by (metis order.refl zero_le_one order.trans)
qed

section \<open>Latency buckets\<close>

lemma bucket_index_less: "0 < n \<Longrightarrow> bucket_index from_at b n r < n"
  by (simp add: bucket_index_def min_def) linarith

lemma fill_buckets_length [simp]: "length (fill_buckets from_at b n rs bs) = length bs"
  by (induction from_at b n rs bs rule: fill_buckets.induct) (simp_all add: Let_def)

lemma fill_buckets_nth:
  assumes "i < length bs"
  shows "fill_buckets from_at b n rs bs ! i =
     bs ! i @ map (\<lambda>r. real (cr_duration_ms r)) (filter (\<lambda>r. bucket_index from_at b n r = i) rs)"
  using assms
  by (induction from_at b n rs bs rule: fill_buckets.induct) (auto simp: Let_def nth_list_update)

lemma sum_counts_partition:
  fixes f :: "'a \<Rightarrow> nat"
  assumes "\<forall>r \<in> set rs. f r < n"
  shows "(\<Sum>i<n. length (filter (\<lambda>r. f r = i) rs)) = length rs"
  using assms
proof (induction rs)
  case (Cons r rs)
  have "(\<Sum>i<n. length (filter (\<lambda>x. f x = i) (r # rs))) =
        (\<Sum>i<n. (if f r = i then 1 else 0) + length (filter (\<lambda>x. f x = i) rs))"
    by (rule sum.cong) auto
  also have "\<dots> = (\<Sum>i<n. if f r = i then 1 else 0) + (\<Sum>i<n. length (filter (\<lambda>x. f x = i) rs))"
    by (rule sum.distrib)
  also have "(\<Sum>i<n. if f r = i then 1 else 0) = (1 :: nat)" using Cons.prems by (subst sum.delta') auto
  also have "(\<Sum>i<n. length (filter (\<lambda>x. f x = i) rs)) = length rs" using Cons by simp
  finally show ?case by simp
qed simp

definition window_results :: "mem \<Rightarrow> uuid \<Rightarrow> instant \<Rightarrow> instant \<Rightarrow> check_result list" where
  "window_results s t from_at to_at = filter (in_window t from_at to_at) (m_results s)"

lemma latency_buckets_nth:
  assumes "i < max c 1"
  shows "latency_buckets s t from_at to_at c ! i =
     (let b = real_of_int (max (num_seconds (to_at - from_at)) 1) / real (max c 1)
      in bucket_row from_at b i (map (\<lambda>r. real (cr_duration_ms r))
           (filter (\<lambda>r. bucket_index from_at b (max c 1) r = i) (window_results s t from_at to_at))))"
  using assms by (simp add: latency_buckets_def Let_def nth_enumerate_eq fill_buckets_nth window_results_def)

lemma latency_buckets_length: "length (latency_buckets s t from_at to_at c) = max c 1"
  by (simp add: latency_buckets_def Let_def)

lemma bucket_row_count: "lb_count (bucket_row from_at b i ds) = length ds"
  by (simp add: bucket_row_def Let_def)

definition percentiles_ordered :: "latency_bucket \<Rightarrow> bool" where
  "percentiles_ordered lb \<longleftrightarrow>
     (if lb_count lb = 0 then lb_p50 lb = None \<and> lb_p95 lb = None \<and> lb_p99 lb = None
      else \<exists>p50 p95 p99. lb_p50 lb = Some p50 \<and> lb_p95 lb = Some p95 \<and> lb_p99 lb = Some p99 \<and>
             p50 \<le> p95 \<and> p95 \<le> p99)"

lemma bucket_row_percentiles: "percentiles_ordered (bucket_row from_at b i ds)"
proof (cases "ds = []")
  case False
  have s: "sorted (sort ds)" "sort ds \<noteq> []" using False by (simp, metis length_0_conv length_sort)
  have "percentile (sort ds) (1 / 2) \<le> percentile (sort ds) (95 / 100)"
    "percentile (sort ds) (95 / 100) \<le> percentile (sort ds) (99 / 100)"
    using percentile_mono [OF s] by auto
  then show ?thesis using False by (simp add: percentiles_ordered_def bucket_row_def Let_def)
qed (simp add: percentiles_ordered_def bucket_row_def Let_def)

text \<open>
  A latency series accounts for every check of its window exactly once
  and its percentiles are ordered.  The series has the requested number of
  buckets (at least one), the bucket counts add up to the number of results
  of the target in the window, and in each bucket either all percentiles are
  absent and the count is zero, or the median, the 95th and the 99th
  percentile are ascending.
\<close>

theorem latency_buckets_account:
  "length (latency_buckets s t from_at to_at c) = max c 1 \<and>
   sum_list (map lb_count (latency_buckets s t from_at to_at c)) =
     length (filter (in_window t from_at to_at) (m_results s)) \<and>
   list_all percentiles_ordered (latency_buckets s t from_at to_at c)"
proof (intro conjI)
  let ?bs = "latency_buckets s t from_at to_at c"
  let ?b = "real_of_int (max (num_seconds (to_at - from_at)) 1) / real (max c 1)"
  let ?w = "window_results s t from_at to_at"
  show "length ?bs = max c 1" by (rule latency_buckets_length)
  have "sum_list (map lb_count ?bs) = (\<Sum>i<max c 1. lb_count (?bs ! i))"
    by (simp add: sum_list_sum_nth latency_buckets_length atLeast0LessThan)
  also have "\<dots> = (\<Sum>i<max c 1. length (filter (\<lambda>r. bucket_index from_at ?b (max c 1) r = i) ?w))"
    by (rule sum.cong) (simp_all add: latency_buckets_nth Let_def bucket_row_count)
  also have "\<dots> = length ?w" by (rule sum_counts_partition) (simp add: bucket_index_less)
  finally show "sum_list (map lb_count ?bs) = length (filter (in_window t from_at to_at) (m_results s))"
    by (simp add: window_results_def)
  show "list_all percentiles_ordered ?bs"
    by (simp add: list_all_length latency_buckets_length latency_buckets_nth Let_def bucket_row_percentiles)
qed

section \<open>Day strips\<close>

definition day_states :: "check_result list \<Rightarrow> int \<Rightarrow> day_state list" where
  "day_states rs d = map (\<lambda>r. check_status_to_day_state (cr_status r)) (filter (\<lambda>r. utc_day (cr_timestamp r) = d) rs)"

definition worst_of_day :: "check_result list \<Rightarrow> int \<Rightarrow> day_state" where
  "worst_of_day rs d =
     (if day_states rs d = [] then NoData
      else if MajorOutage \<in> set (day_states rs d) then MajorOutage
      else if day_state.Degraded \<in> set (day_states rs d) then day_state.Degraded
      else Operational)"

lemma hm_get_worse_entry:
  "hm_get (worse_entry r m) d =
     (if utc_day (cr_timestamp r) = d
      then Some (let st = check_status_to_day_state (cr_status r); e = day_entry m d
                 in if day_state_rank st > day_state_rank e then st else e)
      else hm_get m d)"
  by (simp add: worse_entry_def Let_def)

lemma day_states_snoc:
  "day_states (rs @ [r]) d =
     day_states rs d @ (if utc_day (cr_timestamp r) = d then [check_status_to_day_state (cr_status r)] else [])"
  by (simp add: day_states_def)

lemma by_day_worst:
  "hm_get (by_day_of rs) d = (if day_states rs d = [] then None else Some (worst_of_day rs d))"
proof (induction rs rule: rev_induct)
  case (snoc r rs)
  have "hm_get (by_day_of (rs @ [r])) d = hm_get (worse_entry r (by_day_of rs)) d"
    by (simp add: by_day_of_def)
  then show ?case
    using snoc by (cases "cr_status r")
      (auto simp: hm_get_worse_entry day_entry_def Let_def worst_of_day_def day_states_snoc)
qed (simp add: by_day_of_def day_states_def)

text \<open>
  The day strip shows one entry per calendar day of the window, each the
  worst state observed that day: an outage if any check was down or failed,
  otherwise degraded if any was degraded, otherwise operational, and no data
  for a day without checks; the dated history of a component has the same
  entries with their days.
\<close>

theorem day_strip_worst:
  "day_strip rs from_at to_at = map (worst_of_day rs) [utc_day from_at..utc_day to_at] \<and>
   map cdh_state (day_strip_dated t rs from_at to_at) = day_strip rs from_at to_at \<and>
   map cdh_day (day_strip_dated t rs from_at to_at) = [utc_day from_at..utc_day to_at]"
  by (simp add: day_strip_def day_strip_dated_def by_day_worst worst_of_day_def comp_def)

section \<open>Uptime and the dashboard\<close>

lemma share_pct:
  fixes up n :: nat
  assumes "up \<le> n" "0 < n"
  shows "real up / real n * 100 = 100 - 100 * real (n - up) / real n"
    "0 \<le> real up / real n * 100" "real up / real n * 100 \<le> 100"
    "real up / real n * 100 = 100 \<longleftrightarrow> n - up = 0"
  using assms by (auto simp: of_nat_diff field_simps)

text \<open>
  The uptime of a window is a percentage and its counts agree: it exists
  exactly when the target has a result in the window, lies between 0 and 100,
  is 100 exactly when no check failed, and equals the share of checks that did
  not fail.
\<close>

theorem uptime_percentage:
  "case uptime s t from_at to_at of
     None \<Rightarrow> filter (in_window t from_at to_at) (m_results s) = []
   | Some u \<Rightarrow> ur_total_checks u = length (filter (in_window t from_at to_at) (m_results s)) \<and>
       0 < ur_total_checks u \<and> ur_failed_checks u \<le> ur_total_checks u \<and>
       ur_uptime_pct u = 100 - 100 * real (ur_failed_checks u) / real (ur_total_checks u) \<and>
       0 \<le> ur_uptime_pct u \<and> ur_uptime_pct u \<le> 100 \<and>
       (ur_uptime_pct u = 100 \<longleftrightarrow> ur_failed_checks u = 0)"
proof (cases "uptime s t from_at to_at")
  case None
  then show ?thesis by (simp add: uptime_def Let_def split: if_splits)
next
  case (Some u)
  define rs where "rs = filter (in_window t from_at to_at) (m_results s)"
  define up where "up = length (filter (\<lambda>r. cr_status r = Up) rs)"
  have u: "rs \<noteq> []" "u = \<lparr>ur_target_id = t, ur_uptime_pct = real up / real (length rs) * 100,
                ur_total_checks = length rs, ur_failed_checks = length rs - up\<rparr>"
    using Some unfolding uptime_def Let_def rs_def [symmetric] up_def by (simp_all split: if_splits)
  have "up \<le> length rs" "0 < length rs" using u(1) by (simp_all add: up_def)
  then show ?thesis
    unfolding Some option.case rs_def [symmetric] u(2) uptime_result.simps
    using share_pct [of up "length rs"] by (intro conjI) (assumption | simp only: diff_le_self)+
qed

lemma max_by_timestamp_None: "max_by_timestamp rs = None \<longleftrightarrow> rs = []"
  by (cases rs) (auto split: option.splits)

lemma max_by_timestamp_latest:
  "max_by_timestamp rs = Some m \<Longrightarrow> m \<in> set rs \<and> (\<forall>r \<in> set rs. cr_timestamp r \<le> cr_timestamp m)"
  by (induction rs arbitrary: m) (auto simp: max_by_timestamp_None split: option.splits if_splits)

definition counted :: "dashboard_summary \<Rightarrow> nat" where
  "counted d = ds_up d + ds_down d + ds_degraded d + ds_error d + ds_disabled d"

lemma counted_count_target: "counted (count_target s t d) \<le> Suc (counted d) \<and> ds_total (count_target s t d) = ds_total d"
  by (auto simp: count_target_def counted_def split: option.splits check_status.splits)

lemma counted_fold:
  "counted (fold (count_target s) ts d) \<le> counted d + length ts \<and>
   ds_total (fold (count_target s) ts d) = ds_total d"
proof (induction ts arbitrary: d)
  case (Cons t ts)
  have "counted (fold (count_target s) ts (count_target s t d)) \<le> counted (count_target s t d) + length ts"
    "ds_total (fold (count_target s) ts (count_target s t d)) = ds_total (count_target s t d)"
    using Cons.IH by blast+
  moreover have "counted (count_target s t d) \<le> Suc (counted d)" "ds_total (count_target s t d) = ds_total d"
    using counted_count_target by blast+
  ultimately show ?case by simp
qed simp

lemma dashboard_summary_counts: "counted (dashboard_summary_of s) \<le> ds_total (dashboard_summary_of s)"
proof -
  let ?d = "\<lparr>ds_total = length (m_targets s), ds_up = 0, ds_down = 0, ds_degraded = 0, ds_error = 0, ds_disabled = 0\<rparr>"
  have "counted ?d = 0" by (simp add: counted_def)
  then show ?thesis
    using counted_fold [of s "hm_values (m_targets s)" ?d] unfolding dashboard_summary_of_def
    by (simp add: hm_values_def)
qed

end
