(* ===== verification/Memory_Delivery.thy ===== *)
theory Memory_Delivery
  imports Memory_State
begin

text \<open>
  The in-memory storage (\<open>crates/storage/src/memory.rs\<close>): notification
  channels, their verification tokens and bindings to targets, the queue of
  subscriber deliveries and the domain-expiry cache.  The life of a delivery is the
  step relation \<open>delivery_step\<close> over the queue operations.
\<close>

section \<open>Notification channels\<close>

definition channel_missing :: "uuid \<Rightarrow> app_error" where
  "channel_missing k = storage_not_found [Lit ''notification channel '', Id k]"

definition list_notification_channels :: "mem \<Rightarrow> notification_channel list" where
  "list_notification_channels s = sort_key nc_created_at (hm_values (m_notification_channels s))"

definition get_notification_channel :: "mem \<Rightarrow> uuid \<Rightarrow> app_error + notification_channel" where
  "get_notification_channel s k =
     (case hm_get (m_notification_channels s) k of Some c \<Rightarrow> Ok c | None \<Rightarrow> Err (channel_missing k))"

definition create_notification_channel ::
  "instant \<Rightarrow> uuid \<Rightarrow> new_notification_channel \<Rightarrow> (mem, notification_channel) op" where
  "create_notification_channel now new_id c s =
     (let created = \<lparr>nc_id = new_id, nc_name = nnc_name c, nc_kind = kind (nnc_config c), nc_config = nnc_config c,
                     nc_enabled = nnc_enabled c, nc_disabled_reason = None, nc_verified_at = None,
                     nc_created_at = now, nc_updated_at = now, nc_write_source = Ui\<rparr>
      in (Ok created, s\<lparr>m_notification_channels := hm_insert new_id created (m_notification_channels s)\<rparr>))"

definition channel_patched :: "instant \<Rightarrow> notification_channel_update \<Rightarrow> notification_channel \<Rightarrow> notification_channel" where
  "channel_patched now u c =
     (patch (ncu_enabled u)
        (\<lambda>e c. let c = c\<lparr>nc_enabled := e\<rparr> in if e then c\<lparr>nc_disabled_reason := None\<rparr> else c)
     (patch (ncu_config u) (\<lambda>cfg c. c\<lparr>nc_config := cfg, nc_kind := kind cfg\<rparr>)
     (patch (ncu_name u) (\<lambda>n c. c\<lparr>nc_name := n\<rparr>) c)))\<lparr>nc_updated_at := now\<rparr>"

definition update_notification_channel ::
  "instant \<Rightarrow> uuid \<Rightarrow> notification_channel_update \<Rightarrow> (mem, notification_channel) op" where
  "update_notification_channel now k u s =
     (case hm_get (m_notification_channels s) k of
        None \<Rightarrow> (Err (channel_missing k), s)
      | Some c \<Rightarrow>
         (let c' = channel_patched now u c
          in (Ok c', s\<lparr>m_notification_channels := hm_insert k c' (m_notification_channels s)\<rparr>)))"

definition delete_notification_channel :: "uuid \<Rightarrow> (mem, unit) op" where
  "delete_notification_channel k s =
     (case hm_get (m_notification_channels s) k of
        None \<Rightarrow> (Err (channel_missing k), s\<lparr>m_notification_channels := hm_remove k (m_notification_channels s)\<rparr>)
      | Some _ \<Rightarrow>
         (Ok (), s\<lparr>m_notification_channels := hm_remove k (m_notification_channels s),
                   m_target_channels := filter (\<lambda>b. tcb_channel_id b \<noteq> k) (m_target_channels s)\<rparr>))"

section \<open>Verification tokens\<close>

definition create_channel_verification_token ::
  "instant \<Rightarrow> uuid \<Rightarrow> uuid \<Rightarrow> string \<Rightarrow> instant \<Rightarrow> (mem, unit) op" where
  "create_channel_verification_token now new_id channel_id token_hash expires_at s =
     (let row = \<lparr>cvt_id = new_id, cvt_channel_id = channel_id, cvt_token_hash = token_hash,
                 cvt_expires_at = expires_at, cvt_used_at = None, cvt_created_at = now\<rparr>
      in (Ok (), s\<lparr>m_channel_verification_tokens := hm_insert new_id row (m_channel_verification_tokens s)\<rparr>))"

text \<open>\<open>Iterator::min_by_key\<close> returns the first of the minimal elements.\<close>

fun min_by_created :: "(uuid \<times> channel_verification_token_row) list \<Rightarrow> (uuid \<times> channel_verification_token_row) option" where
  "min_by_created [] = None"
| "min_by_created (t # ts) =
     (case min_by_created ts of
        None \<Rightarrow> Some t
      | Some m \<Rightarrow> if cvt_created_at (snd m) < cvt_created_at (snd t) then Some m else Some t)"

definition token_usable :: "instant \<Rightarrow> string \<Rightarrow> channel_verification_token_row \<Rightarrow> bool" where
  "token_usable now token_hash t \<longleftrightarrow>
     cvt_token_hash t = token_hash \<and> cvt_used_at t = None \<and> cvt_expires_at t > now"

definition consume_channel_verification_token :: "instant \<Rightarrow> string \<Rightarrow> (mem, uuid option) op" where
  "consume_channel_verification_token now token_hash s =
     (case min_by_created (filter (\<lambda>(_, t). token_usable now token_hash t) (m_channel_verification_tokens s)) of
        None \<Rightarrow> (Ok None, s)
      | Some (k, row) \<Rightarrow>
         (Ok (Some (cvt_channel_id row)),
          s\<lparr>m_channel_verification_tokens :=
              hm_insert k (row\<lparr>cvt_used_at := Some now\<rparr>) (m_channel_verification_tokens s)\<rparr>))"

definition set_channel_verified :: "instant \<Rightarrow> instant \<Rightarrow> uuid \<Rightarrow> (mem, unit) op" where
  "set_channel_verified now updated_now k s =
     (case hm_get (m_notification_channels s) k of
        None \<Rightarrow> (Err (channel_missing k), s)
      | Some c \<Rightarrow>
         (Ok (), s\<lparr>m_notification_channels :=
            hm_insert k (c\<lparr>nc_verified_at := Some now, nc_updated_at := updated_now\<rparr>) (m_notification_channels s)\<rparr>))"

definition set_channel_disabled_reason :: "instant \<Rightarrow> uuid \<Rightarrow> string \<Rightarrow> (mem, unit) op" where
  "set_channel_disabled_reason now k reason s =
     (case hm_get (m_notification_channels s) k of
        None \<Rightarrow> (Err (channel_missing k), s)
      | Some c \<Rightarrow>
         (Ok (), s\<lparr>m_notification_channels :=
            hm_insert k (c\<lparr>nc_disabled_reason := (if reason = [] then None else Some reason), nc_updated_at := now\<rparr>)
              (m_notification_channels s)\<rparr>))"

section \<open>Bindings\<close>

definition list_target_channels :: "mem \<Rightarrow> uuid \<Rightarrow> target_channel_binding list" where
  "list_target_channels s target_id =
     sort_key tcb_created_at (filter (\<lambda>b. tcb_target_id b = target_id) (m_target_channels s))"

definition bind_target_channel :: "instant \<Rightarrow> uuid \<Rightarrow> uuid \<Rightarrow> (mem, unit) op" where
  "bind_target_channel now target_id channel_id s =
     (if list_ex (\<lambda>b. tcb_target_id b = target_id \<and> tcb_channel_id b = channel_id) (m_target_channels s)
      then (Ok (), s)
      else (Ok (), s\<lparr>m_target_channels := m_target_channels s @
              [\<lparr>tcb_target_id = target_id, tcb_channel_id = channel_id, tcb_created_at = now\<rparr>]\<rparr>))"

definition unbind_target_channel :: "uuid \<Rightarrow> uuid \<Rightarrow> (mem, unit) op" where
  "unbind_target_channel target_id channel_id s =
     (Ok (), s\<lparr>m_target_channels :=
        filter (\<lambda>b. \<not> (tcb_target_id b = target_id \<and> tcb_channel_id b = channel_id)) (m_target_channels s)\<rparr>)"

definition unbind_channel_everywhere :: "uuid \<Rightarrow> (mem, unit) op" where
  "unbind_channel_everywhere channel_id s =
     (Ok (), s\<lparr>m_target_channels := filter (\<lambda>b. tcb_channel_id b \<noteq> channel_id) (m_target_channels s)\<rparr>)"

section \<open>Subscriber deliveries\<close>

definition claimable :: "instant \<Rightarrow> subscriber_delivery \<Rightarrow> bool" where
  "claimable now d \<longleftrightarrow>
     sd_status d = Pending \<or>
     (sd_status d = Failed \<and> (case sd_next_attempt_at d of Some t \<Rightarrow> t \<le> now | None \<Rightarrow> False))"

definition list_pending_deliveries :: "mem \<Rightarrow> instant \<Rightarrow> nat \<Rightarrow> subscriber_delivery list" where
  "list_pending_deliveries s now limit =
     take limit (sort_key sd_created_at (filter (claimable now) (m_subscriber_deliveries s)))"

text \<open>The first delivery with the identifier, changed by a function.\<close>

fun update_first :: "uuid \<Rightarrow> (subscriber_delivery \<Rightarrow> subscriber_delivery) \<Rightarrow> subscriber_delivery list \<Rightarrow> subscriber_delivery list" where
  "update_first k f [] = []"
| "update_first k f (d # ds) = (if sd_id d = k then f d # ds else d # update_first k f ds)"

definition find_delivery :: "uuid \<Rightarrow> subscriber_delivery list \<Rightarrow> subscriber_delivery option" where
  "find_delivery k ds = find (\<lambda>d. sd_id d = k) ds"

definition claim_delivery :: "instant \<Rightarrow> uuid \<Rightarrow> (mem, subscriber_delivery option) op" where
  "claim_delivery now k s =
     (case find_delivery k (m_subscriber_deliveries s) of
        None \<Rightarrow> (Ok None, s)
      | Some d \<Rightarrow>
         if \<not> claimable now d then (Ok None, s)
         else (Ok (Some (d\<lparr>sd_status := Claimed\<rparr>)),
               s\<lparr>m_subscriber_deliveries := update_first k (\<lambda>d. d\<lparr>sd_status := Claimed\<rparr>) (m_subscriber_deliveries s)\<rparr>))"

definition backoff_secs :: "nat \<Rightarrow> nat" where
  "backoff_secs attempts = min (30 * 2 ^ min attempts 7) 3600"

definition marked :: "instant \<Rightarrow> delivery_status \<Rightarrow> string option \<Rightarrow> subscriber_delivery \<Rightarrow> subscriber_delivery" where
  "marked now status error d =
     (let d = d\<lparr>sd_status := status, sd_attempts := sd_attempts d + 1, sd_last_error := error\<rparr> in
      case status of
        Sent \<Rightarrow> d\<lparr>sd_sent_at := Some now, sd_next_attempt_at := None\<rparr>
      | DeadLetter \<Rightarrow> d\<lparr>sd_next_attempt_at := None\<rparr>
      | Failed \<Rightarrow> d\<lparr>sd_next_attempt_at := Some (now + seconds (int (backoff_secs (sd_attempts d))))\<rparr>
      | _ \<Rightarrow> d)"

definition mark_delivery :: "instant \<Rightarrow> uuid \<Rightarrow> delivery_status \<Rightarrow> string option \<Rightarrow> (mem, unit) op" where
  "mark_delivery now k status error s =
     (case find_delivery k (m_subscriber_deliveries s) of
        None \<Rightarrow> (Err (storage_not_found [Lit ''delivery '', Id k]), s)
      | Some _ \<Rightarrow>
         (Ok (), s\<lparr>m_subscriber_deliveries := update_first k (marked now status error) (m_subscriber_deliveries s)\<rparr>))"

definition enqueue_delivery ::
  "instant \<Rightarrow> uuid \<Rightarrow> uuid \<Rightarrow> uuid \<Rightarrow> subscriber_channel \<Rightarrow> string \<Rightarrow> string \<Rightarrow> delivery_reason \<Rightarrow> (mem, unit) op" where
  "enqueue_delivery now new_id subscriber_id page channel target payload reason s =
     (Ok (), s\<lparr>m_subscriber_deliveries := m_subscriber_deliveries s @
        [\<lparr>sd_id = new_id, sd_subscriber_id = subscriber_id, sd_status_page_id = page, sd_channel = channel,
          sd_target = target, sd_payload = payload, sd_reason = reason, sd_status = Pending, sd_attempts = 0,
          sd_last_error = None, sd_created_at = now, sd_sent_at = None, sd_next_attempt_at = Some now\<rparr>]\<rparr>)"

definition delete_old_deliveries :: "instant \<Rightarrow> (mem, nat) op" where
  "delete_old_deliveries older_than s =
     (let kept = filter (\<lambda>d. \<not> ((sd_status d = Sent \<or> sd_status d = DeadLetter) \<and>
                    (case sd_sent_at d of Some t \<Rightarrow> t | None \<Rightarrow> sd_created_at d) < older_than))
                  (m_subscriber_deliveries s)
      in (Ok (length (m_subscriber_deliveries s) - length kept), s\<lparr>m_subscriber_deliveries := kept\<rparr>))"

section \<open>Domain-expiry cache\<close>

definition get_domain_expiry_state :: "mem \<Rightarrow> uuid \<Rightarrow> domain_expiry_state option" where
  "get_domain_expiry_state s target_id = hm_get (m_domain_expiry_states s) target_id"

definition set_domain_expiry_state :: "domain_expiry_state \<Rightarrow> (mem, unit) op" where
  "set_domain_expiry_state st s =
     (Ok (), s\<lparr>m_domain_expiry_states := hm_insert (des_target_id st) st (m_domain_expiry_states s)\<rparr>)"

end
