(* ===== verification/Subscriber_Dispatch.thy ===== *)
theory Subscriber_Dispatch
  imports Memory_Delivery
begin

text \<open>
  \<open>bin/status-server/src/subscriber_dispatch.rs\<close>: the worker that drains the
  queue of subscriber deliveries.  A sweep lists the due deliveries, claims
  each, dispatches it and marks the outcome.  What a dispatch does to the
  network is an \<open>effect\<close>; the parameter \<open>perform\<close> says whether the mail or HTTP
  client carried it out or failed with a message, and the parameter \<open>parse_url\<close>
  is the URL parser.  The clock readings of one sweep are one instant.

  \<open>dispatch_step\<close> is the step relation of the queue shared by any number of
  workers: deliveries are enqueued, claimed, completed by the policy of the
  sweep, and purged, in any interleaving.
\<close>

section \<open>One delivery\<close>

definition BATCH_LIMIT :: nat where
  "BATCH_LIMIT = 200"

definition MAX_ATTEMPTS :: nat where
  "MAX_ATTEMPTS = 6"

record incident_email =
  ie_page_name :: string
  ie_incident_title :: string
  ie_phase :: string
  ie_message :: string
  ie_incident_url :: string
  ie_unsubscribe_url :: message

datatype effect =
    SendEmail string string incident_email
  | PostText url string
  | PostJson url "(string \<times> string) list"
  | LogOnly

definition newline :: char where
  "newline = CHR 0x0A"

definition carriage_return :: char where
  "carriage_return = CHR 0x0D"

text \<open>\<open>payload.lines().next()\<close>\<close>

definition first_line :: "string \<Rightarrow> string option" where
  "first_line s =
     (if s = [] then None
      else let l = takeWhile (\<lambda>c. c \<noteq> newline) s
           in Some (if newline \<in> set s \<and> l \<noteq> [] \<and> last l = carriage_return then butlast l else l))"

fun phase_of_reason :: "delivery_reason \<Rightarrow> string" where
  "phase_of_reason IncidentOpened = ''investigating''"
| "phase_of_reason IncidentResolved = ''resolved''"
| "phase_of_reason IncidentUpdate = ''update''"
| "phase_of_reason MaintenanceStarted = ''maintenance''"
| "phase_of_reason MaintenanceEnded = ''maintenance completed''"

definition parse_payload_for_email :: "delivery_reason \<Rightarrow> string \<Rightarrow> string \<times> string" where
  "parse_payload_for_email reason payload =
     ((case first_line payload of Some l \<Rightarrow> l | None \<Rightarrow> ''Status update''), phase_of_reason reason)"

definition delivery_effect ::
  "(string \<Rightarrow> url option) \<Rightarrow> string \<Rightarrow> subscriber_delivery \<Rightarrow> string + effect" where
  "delivery_effect parse_url public_base_url d =
     (let base = trim_end_matches CHR ''/'' public_base_url;
          unsubscribe = [Lit base, Lit ''/api/public/v1/subscribers/'', Id (sd_subscriber_id d), Lit ''/unsubscribe'']
      in case sd_channel d of
        subscriber_channel.Email \<Rightarrow>
          (let (title, phase) = parse_payload_for_email (sd_reason d) (sd_payload d)
           in Ok (SendEmail (sd_target d) ''no-reply@statuspage.local''
                \<lparr>ie_page_name = ''Status Page'', ie_incident_title = title, ie_phase = phase,
                 ie_message = sd_payload d, ie_incident_url = base @ ''/api/public/v1/incidents'',
                 ie_unsubscribe_url = unsubscribe\<rparr>))
      | subscriber_channel.Webhook \<Rightarrow>
          (case parse_url (sd_target d) of
             None \<Rightarrow> Err (''invalid webhook url '' @ sd_target d)
           | Some u \<Rightarrow> Ok (PostText u (sd_payload d)))
      | subscriber_channel.Slack \<Rightarrow>
          (case parse_url (sd_target d) of
             None \<Rightarrow> Err (''invalid slack webhook url '' @ sd_target d)
           | Some u \<Rightarrow> Ok (PostJson u [(''text'', sd_payload d)]))
      | subscriber_channel.Sms \<Rightarrow> Ok LogOnly)"

definition perform_effect :: "(effect \<Rightarrow> string + unit) \<Rightarrow> effect \<Rightarrow> string + unit" where
  "perform_effect perform e = (case e of LogOnly \<Rightarrow> Ok () | _ \<Rightarrow> perform e)"

definition dispatch_delivery ::
  "(string \<Rightarrow> url option) \<Rightarrow> string \<Rightarrow> (effect \<Rightarrow> string + unit) \<Rightarrow> subscriber_delivery \<Rightarrow> string + unit" where
  "dispatch_delivery parse_url public_base_url perform d =
     (case delivery_effect parse_url public_base_url d of
        Inl e \<Rightarrow> Err e | Inr eff \<Rightarrow> perform_effect perform eff)"

section \<open>One sweep\<close>

definition failure_status :: "nat \<Rightarrow> delivery_status" where
  "failure_status attempts = (if attempts \<ge> MAX_ATTEMPTS then DeadLetter else Failed)"

definition complete_delivery :: "instant \<Rightarrow> subscriber_delivery \<Rightarrow> string + unit \<Rightarrow> mem \<Rightarrow> mem" where
  "complete_delivery now claimed result s =
     (case result of
        Inr _ \<Rightarrow> snd (mark_delivery now (sd_id claimed) Sent None s)
      | Inl err \<Rightarrow> snd (mark_delivery now (sd_id claimed) (failure_status (sd_attempts claimed)) (Some err) s))"

text \<open>The deliveries dispatched, in order, and the state after the sweep.\<close>

fun sweep_loop ::
  "(subscriber_delivery \<Rightarrow> string + unit) \<Rightarrow> instant \<Rightarrow> subscriber_delivery list \<Rightarrow> mem \<Rightarrow> subscriber_delivery list \<times> mem" where
  "sweep_loop dispatch now [] s = ([], s)"
| "sweep_loop dispatch now (d # ds) s =
     (case claim_delivery now (sd_id d) s of
        (Inr (Some claimed), s1) \<Rightarrow>
          (let (sent, s2) = sweep_loop dispatch now ds (complete_delivery now claimed (dispatch claimed) s1)
           in (claimed # sent, s2))
      | (_, s1) \<Rightarrow> sweep_loop dispatch now ds s1)"

definition sweep ::
  "(subscriber_delivery \<Rightarrow> string + unit) \<Rightarrow> instant \<Rightarrow> mem \<Rightarrow> subscriber_delivery list \<times> mem" where
  "sweep dispatch now s = sweep_loop dispatch now (list_pending_deliveries s now BATCH_LIMIT) s"

section \<open>The queue shared by workers\<close>

inductive dispatch_step :: "mem \<Rightarrow> mem \<Rightarrow> bool" where
  enqueue: "dispatch_step s (snd (enqueue_delivery now k sub page ch tgt payload reason s))"
| claim: "claim_delivery now k s = (Ok (Some d), s') \<Longrightarrow> dispatch_step s s'"
| complete: "find_delivery k (m_subscriber_deliveries s) = Some d \<Longrightarrow> sd_status d = Claimed \<Longrightarrow>
    dispatch_step s (complete_delivery now d result s)"
| purge: "dispatch_step s (snd (delete_old_deliveries cutoff s))"

inductive_cases dispatch_stepE: "dispatch_step s s'"

section \<open>Facts about the queue operations\<close>

lemma update_first_set:
  assumes "find_delivery k ds = Some d"
  shows "set (update_first k f ds) \<subseteq> insert (f d) (set ds)"
  using assms by (induction ds) (auto simp: find_delivery_def split: if_splits)

lemma find_delivery_Some: "find_delivery k ds = Some d \<Longrightarrow> d \<in> set ds \<and> sd_id d = k"
  by (auto simp: find_delivery_def find_Some_iff)

definition sound_delivery :: "subscriber_delivery \<Rightarrow> bool" where
  "sound_delivery d \<longleftrightarrow>
     (case sd_status d of
        Pending \<Rightarrow> sd_attempts d = 0 \<and> sd_next_attempt_at d \<noteq> None
      | Claimed \<Rightarrow> sd_attempts d \<le> 6
      | Failed \<Rightarrow> 1 \<le> sd_attempts d \<and> sd_attempts d \<le> 6 \<and> sd_next_attempt_at d \<noteq> None
      | Sent \<Rightarrow> 1 \<le> sd_attempts d \<and> sd_attempts d \<le> 7 \<and> sd_sent_at d \<noteq> None \<and> sd_next_attempt_at d = None
      | DeadLetter \<Rightarrow> sd_attempts d = 7 \<and> sd_next_attempt_at d = None)"

lemma sound_claim: "sound_delivery d \<Longrightarrow> claimable now d \<Longrightarrow> sound_delivery (d\<lparr>sd_status := Claimed\<rparr>)"
  by (auto simp: sound_delivery_def claimable_def split: option.splits)

lemma sound_sent: "sound_delivery d \<Longrightarrow> sd_status d = Claimed \<Longrightarrow> sound_delivery (marked now Sent err d)"
  by (auto simp: sound_delivery_def marked_def Let_def)

lemma sound_failed:
  "sound_delivery d \<Longrightarrow> sd_status d = Claimed \<Longrightarrow>
   sound_delivery (marked now (failure_status (sd_attempts d)) err d)"
  by (auto simp: sound_delivery_def marked_def Let_def failure_status_def MAX_ATTEMPTS_def)

lemma dispatch_step_sound:
  assumes "dispatch_step s s'" "list_all sound_delivery (m_subscriber_deliveries s)"
  shows "list_all sound_delivery (m_subscriber_deliveries s')"
  using assms
proof cases
  case (claim now k d)
  then obtain d0 where d0: "find_delivery k (m_subscriber_deliveries s) = Some d0" "claimable now d0"
    and s': "m_subscriber_deliveries s' =
               update_first k (\<lambda>d. d\<lparr>sd_status := Claimed\<rparr>) (m_subscriber_deliveries s)"
    by (auto simp: claim_delivery_def split: option.splits if_splits)
  have "sound_delivery (d0\<lparr>sd_status := Claimed\<rparr>)"
    using sound_claim d0 find_delivery_Some [OF d0(1)] assms(2) by (simp add: list_all_iff)
  then show ?thesis
    using update_first_set [OF d0(1), of "\<lambda>d. d\<lparr>sd_status := Claimed\<rparr>"] assms(2)
    unfolding s' list_all_iff by blast
next
  case (complete k d now result)
  then have id: "sd_id d = k" "sound_delivery d"
    using find_delivery_Some assms(2) by (auto simp: list_all_iff)
  obtain st err where m: "m_subscriber_deliveries s' = update_first k (marked now st err) (m_subscriber_deliveries s)"
    and snd: "sound_delivery (marked now st err d)"
    using complete id sound_sent sound_failed
    by (cases result) (auto simp: complete_delivery_def mark_delivery_def)
  show ?thesis
    using update_first_set [OF complete(2), of "marked now st err"] snd assms(2)
    unfolding m list_all_iff by blast
qed (auto simp: enqueue_delivery_def delete_old_deliveries_def Let_def list_all_iff sound_delivery_def)

interpretation dispatch_runs: step_invariant dispatch_step "\<lambda>s. list_all sound_delivery (m_subscriber_deliveries s)"
  by unfold_locales (rule dispatch_step_sound)

text \<open>
  C13: Every delivery in the queue is in a consistent state whatever the
  workers do and however their steps interleave.  A delivery is tried at most
  seven times; a pending or retryable one has a time for its next attempt; a
  sent one has the time it was sent and no further attempt; a dead letter has
  been tried exactly seven times, one more than the documented maximum of six.
\<close>

theorem deliveries_stay_sound:
  assumes "dispatch_step\<^sup>*\<^sup>* new_storage s" "d \<in> set (m_subscriber_deliveries s)"
  shows "sound_delivery d \<and> sd_attempts d \<le> MAX_ATTEMPTS + 1 \<and>
    (sd_status d = DeadLetter \<longrightarrow> sd_attempts d = MAX_ATTEMPTS + 1)"
proof -
  have "list_all sound_delivery (m_subscriber_deliveries s)"
    using dispatch_runs.run_good [OF assms(1)] by (simp add: new_storage_def)
  then have "sound_delivery d" using assms(2) by (simp add: list_all_iff)
  then show ?thesis by (auto simp: sound_delivery_def MAX_ATTEMPTS_def split: delivery_status.splits)
qed

definition one_delivery :: mem where
  "one_delivery = snd (enqueue_delivery 0 1 2 3 subscriber_channel.Email ''a'' ''p'' IncidentOpened new_storage)"

lemma deliveries_stay_sound_witness:
  "sound_delivery (hd (m_subscriber_deliveries one_delivery))"
proof -
  have "dispatch_step\<^sup>*\<^sup>* new_storage one_delivery"
    unfolding one_delivery_def by (rule r_into_rtranclp) (rule dispatch_step.enqueue)
  moreover have "hd (m_subscriber_deliveries one_delivery) \<in> set (m_subscriber_deliveries one_delivery)"
    by (simp add: one_delivery_def enqueue_delivery_def new_storage_def)
  ultimately show ?thesis using deliveries_stay_sound by blast
qed

section \<open>A claim is exclusive\<close>

text \<open>Everything other workers may do while one worker holds the claim on \<open>k\<close>.\<close>

inductive rival_step :: "uuid \<Rightarrow> mem \<Rightarrow> mem \<Rightarrow> bool" for k where
  rival_enqueue: "k' \<noteq> k \<Longrightarrow> rival_step k s (snd (enqueue_delivery now k' sub page ch tgt payload reason s))"
| rival_claim: "rival_step k s (snd (claim_delivery now k' s))"
| rival_complete: "k' \<noteq> k \<Longrightarrow> rival_step k s (snd (mark_delivery now k' status err s))"
| rival_purge: "rival_step k s (snd (delete_old_deliveries cutoff s))"

definition held :: "uuid \<Rightarrow> subscriber_delivery list \<Rightarrow> bool" where
  "held k ds \<longleftrightarrow> k \<in> sd_id ` set ds \<and> (\<forall>d \<in> set ds. sd_id d = k \<longrightarrow> sd_status d = Claimed)"

lemma find_delivery_held: "held k ds \<Longrightarrow> \<exists>d. find_delivery k ds = Some d \<and> sd_status d = Claimed"
  unfolding held_def find_delivery_def by (induction ds) auto

lemma held_not_claimable: "held k ds \<Longrightarrow> d \<in> set ds \<Longrightarrow> sd_id d = k \<Longrightarrow> \<not> claimable now d"
  by (auto simp: held_def claimable_def)

lemma update_first_ids: "(\<And>d. sd_id (f d) = sd_id d) \<Longrightarrow> map sd_id (update_first k f ds) = map sd_id ds"
  by (induction ds) auto

lemma update_first_same:
  "(\<And>d. sd_id (f d) = sd_id d) \<Longrightarrow> k' \<noteq> k \<Longrightarrow> d \<in> set (update_first k' f ds) \<Longrightarrow> sd_id d = k \<Longrightarrow> d \<in> set ds"
  by (induction ds) (auto split: if_splits)

lemma update_first_other:
  assumes "k' \<noteq> k" "\<And>d. sd_id (f d) = sd_id d" "held k ds"
  shows "held k (update_first k' f ds)"
  using assms(3) update_first_ids [of f k' ds] update_first_same [OF assms(2,1)] assms(2)
  unfolding held_def by (metis list.set_map)

lemma update_first_distinct:
  assumes "distinct (map sd_id ds)" "\<And>d. sd_id (f d) = sd_id d" "d \<in> set (update_first k f ds)" "sd_id d = k"
  shows "\<exists>d0 \<in> set ds. d = f d0"
  using assms by (induction ds) (auto simp: image_iff split: if_splits)

lemma marked_id [simp]: "sd_id (marked now st err d) = sd_id d"
  by (cases st) (simp_all add: marked_def Let_def)

lemma held_rival_step:
  assumes "rival_step k s s'" "held k (m_subscriber_deliveries s)"
  shows "held k (m_subscriber_deliveries s')"
  using assms(1)
proof cases
  case (rival_claim now k')
  show ?thesis
  proof (cases "k' = k")
    case True
    obtain d where "find_delivery k (m_subscriber_deliveries s) = Some d" "sd_status d = Claimed"
      using find_delivery_held [OF assms(2)] by blast
    then have "snd (claim_delivery now k s) = s" by (simp add: claim_delivery_def claimable_def)
    then show ?thesis using rival_claim True assms(2) by simp
  next
    case False
    then show ?thesis using rival_claim assms(2) update_first_other [of k' k "\<lambda>d. d\<lparr>sd_status := Claimed\<rparr>"]
      by (auto simp: claim_delivery_def split: option.splits)
  qed
next
  case (rival_complete k' now status err)
  then show ?thesis using assms(2) update_first_other [of k' k "marked now status err"]
    by (auto simp: mark_delivery_def split: option.splits)
qed (use assms(2) in \<open>auto simp: held_def enqueue_delivery_def delete_old_deliveries_def Let_def image_iff\<close>)

lemma held_after_claim:
  assumes "claim_delivery now k s = (Ok (Some d), s')" "distinct (map sd_id (m_subscriber_deliveries s))"
  shows "held k (m_subscriber_deliveries s')"
proof -
  have s': "m_subscriber_deliveries s' = update_first k (\<lambda>d. d\<lparr>sd_status := Claimed\<rparr>) (m_subscriber_deliveries s)"
    and f: "find_delivery k (m_subscriber_deliveries s) \<noteq> None"
    using assms(1) by (auto simp: claim_delivery_def split: option.splits if_splits)
  have "k \<in> sd_id ` set (m_subscriber_deliveries s)"
    using f find_delivery_Some by fastforce
  moreover have "map sd_id (m_subscriber_deliveries s') = map sd_id (m_subscriber_deliveries s)"
    unfolding s' by (rule update_first_ids) simp
  ultimately have "k \<in> sd_id ` set (m_subscriber_deliveries s')" by (metis list.set_map)
  moreover have "sd_status d = Claimed" if "d \<in> set (m_subscriber_deliveries s')" "sd_id d = k" for d
    using update_first_distinct [OF assms(2) _ that(1)[unfolded s'] that(2)] by auto
  ultimately show ?thesis by (simp add: held_def)
qed

interpretation rival_runs: step_invariant "rival_step k" "\<lambda>s. held k (m_subscriber_deliveries s)" for k
  by unfold_locales (rule held_rival_step)

text \<open>
  A claimed delivery belongs to one worker.  After a worker has claimed a
  delivery, whatever other workers do, no other claim of it succeeds and no
  listing of due deliveries shows it, at any time, until the delivery is
  marked.  The same holds when the worker is lost: nothing returns the
  delivery to the queue or purges it.
\<close>

theorem claimed_delivery_exclusive:
  assumes "claim_delivery now k s = (Ok (Some d), s')"
    and "distinct (map sd_id (m_subscriber_deliveries s))"
    and "(rival_step k)\<^sup>*\<^sup>* s' s''"
  shows "fst (claim_delivery later k s'') = Ok None \<and>
    k \<notin> sd_id ` set (list_pending_deliveries s'' later limit) \<and>
    k \<in> sd_id ` set (m_subscriber_deliveries s'')"
proof -
  have held: "held k (m_subscriber_deliveries s'')"
    using rival_runs.run_good [OF assms(3)] held_after_claim [OF assms(1,2)] .
  then obtain d' where "find_delivery k (m_subscriber_deliveries s'') = Some d'" "sd_status d' = Claimed"
    using find_delivery_held by blast
  then have "fst (claim_delivery later k s'') = Ok None"
    by (simp add: claim_delivery_def claimable_def)
  moreover have "k \<notin> sd_id ` set (list_pending_deliveries s'' later limit)"
    using held_not_claimable [OF held] by (fastforce simp: list_pending_deliveries_def dest!: in_set_takeD)
  ultimately show ?thesis using held by (simp add: held_def)
qed

lemma claimed_delivery_exclusive_witness:
  "fst (claim_delivery 100 1 (snd (delete_old_deliveries 50 (snd (claim_delivery 5 1 one_delivery))))) = Ok None"
proof -
  have c: "claim_delivery 5 1 one_delivery =
      (Ok (Some (hd (m_subscriber_deliveries one_delivery)\<lparr>sd_status := Claimed\<rparr>)), snd (claim_delivery 5 1 one_delivery))"
    by (simp add: one_delivery_def enqueue_delivery_def new_storage_def claim_delivery_def find_delivery_def claimable_def)
  have d: "distinct (map sd_id (m_subscriber_deliveries one_delivery))"
    by (simp add: one_delivery_def enqueue_delivery_def new_storage_def)
  have "(rival_step 1)\<^sup>*\<^sup>* (snd (claim_delivery 5 1 one_delivery))
      (snd (delete_old_deliveries 50 (snd (claim_delivery 5 1 one_delivery))))"
    by (rule r_into_rtranclp) (rule rival_step.rival_purge)
  from claimed_delivery_exclusive [OF c d this] show ?thesis by blast
qed

text \<open>
  The retry delay after a failed attempt grows with the attempts and
  stays between a minute and an hour: the stored time of the next attempt is
  between 60 and 3600 seconds away and the delay never shrinks from one
  attempt to the next.
\<close>

theorem retry_backoff_bounds:
  "sd_next_attempt_at (marked now Failed err d) =
     Some (now + seconds (int (backoff_secs (sd_attempts d + 1)))) \<and>
   60 \<le> backoff_secs (sd_attempts d + 1) \<and> backoff_secs (sd_attempts d + 1) \<le> 3600 \<and>
   backoff_secs (sd_attempts d) \<le> backoff_secs (sd_attempts d + 1)"
proof -
  have "(2 :: nat) ^ 1 \<le> 2 ^ min (sd_attempts d + 1) 7" by (rule power_increasing) auto
  moreover have "(2 :: nat) ^ min (sd_attempts d) 7 \<le> 2 ^ min (sd_attempts d + 1) 7"
    by (rule power_increasing) auto
  ultimately show ?thesis by (auto simp: marked_def Let_def backoff_secs_def)
qed

end
