(* ===== verification/Memory_Oncall.thy ===== *)
theory Memory_Oncall
  imports Memory_State
begin

text \<open>
  The in-memory storage (\<open>crates/storage/src/memory.rs\<close>): escalation policies,
  on-call schedules and overrides, the escalation state of incidents,
  postmortems and monitor shares.  The random share token and its SHA-256 are
  arguments.
\<close>

section \<open>Escalation policies\<close>

definition policy_missing :: "uuid \<Rightarrow> app_error" where
  "policy_missing k = storage_not_found [Lit ''escalation policy '', Id k]"

definition policy_summary :: "escalation_policy \<Rightarrow> escalation_policy_summary" where
  "policy_summary p =
     \<lparr>eps_id = ep_id p, eps_name = ep_name p, eps_description = ep_description p,
      eps_repeat_count = ep_repeat_count p, eps_step_count = int (length (ep_steps p)),
      eps_created_at = ep_created_at p, eps_updated_at = ep_updated_at p\<rparr>"

definition list_escalation_policies :: "mem \<Rightarrow> escalation_policy_summary list" where
  "list_escalation_policies s = sort_key eps_created_at (map policy_summary (hm_values (m_escalation_policies s)))"

definition get_escalation_policy :: "mem \<Rightarrow> uuid \<Rightarrow> app_error + escalation_policy" where
  "get_escalation_policy s k =
     (case hm_get (m_escalation_policies s) k of Some p \<Rightarrow> Ok p | None \<Rightarrow> Err (policy_missing k))"

definition upsert_escalation_policy :: "escalation_policy \<Rightarrow> (mem, escalation_policy) op" where
  "upsert_escalation_policy p s =
     (Ok p, s\<lparr>m_escalation_policies := hm_insert (ep_id p) p (m_escalation_policies s)\<rparr>)"

definition delete_escalation_policy :: "uuid \<Rightarrow> (mem, unit) op" where
  "delete_escalation_policy k s =
     (let s' = s\<lparr>m_escalation_policies := hm_remove k (m_escalation_policies s)\<rparr> in
      case hm_get (m_escalation_policies s) k of None \<Rightarrow> (Err (policy_missing k), s') | Some _ \<Rightarrow> (Ok (), s'))"

section \<open>On-call schedules and overrides\<close>

definition schedule_missing :: "uuid \<Rightarrow> app_error" where
  "schedule_missing k = storage_not_found [Lit ''on-call schedule '', Id k]"

definition overrides_for_schedule :: "mem \<Rightarrow> uuid \<Rightarrow> on_call_override list" where
  "overrides_for_schedule s schedule_id =
     sort_key (\<lambda>ov. - oco_starts_at ov)
       (map snd (filter (\<lambda>(sid, _). sid = schedule_id) (hm_values (m_on_call_overrides s))))"

definition schedule_summary :: "on_call_schedule_detail \<Rightarrow> on_call_schedule_summary" where
  "schedule_summary d =
     \<lparr>ocsm_id = ocs_id (ocd_schedule d), ocsm_name = ocs_name (ocd_schedule d),
      ocsm_timezone = ocs_timezone (ocd_schedule d), ocsm_layer_count = int (length (ocd_layers d)),
      ocsm_created_at = ocs_created_at (ocd_schedule d), ocsm_updated_at = ocs_updated_at (ocd_schedule d)\<rparr>"

definition list_on_call_schedules :: "mem \<Rightarrow> on_call_schedule_summary list" where
  "list_on_call_schedules s = sort_key ocsm_created_at (map schedule_summary (hm_values (m_on_call_schedules s)))"

definition get_on_call_schedule :: "mem \<Rightarrow> uuid \<Rightarrow> app_error + on_call_schedule_detail" where
  "get_on_call_schedule s k =
     (case hm_get (m_on_call_schedules s) k of
        None \<Rightarrow> Err (schedule_missing k)
      | Some d \<Rightarrow> Ok \<lparr>ocd_schedule = ocd_schedule d, ocd_layers = ocd_layers d,
                     ocd_overrides = overrides_for_schedule s k\<rparr>)"

definition upsert_on_call_schedule :: "on_call_schedule_detail \<Rightarrow> (mem, on_call_schedule) op" where
  "upsert_on_call_schedule d s =
     (Ok (ocd_schedule d),
      s\<lparr>m_on_call_schedules := hm_insert (ocs_id (ocd_schedule d))
          \<lparr>ocd_schedule = ocd_schedule d, ocd_layers = ocd_layers d, ocd_overrides = []\<rparr> (m_on_call_schedules s)\<rparr>)"

definition delete_on_call_schedule :: "uuid \<Rightarrow> (mem, unit) op" where
  "delete_on_call_schedule k s =
     (case hm_get (m_on_call_schedules s) k of
        None \<Rightarrow> (Err (schedule_missing k), s\<lparr>m_on_call_schedules := hm_remove k (m_on_call_schedules s)\<rparr>)
      | Some _ \<Rightarrow>
         (Ok (), s\<lparr>m_on_call_schedules := hm_remove k (m_on_call_schedules s),
                   m_on_call_overrides := hm_retain (\<lambda>_ (sid, _). sid \<noteq> k) (m_on_call_overrides s)\<rparr>))"

definition list_on_call_overrides :: "mem \<Rightarrow> uuid \<Rightarrow> on_call_override list" where
  "list_on_call_overrides s schedule_id = overrides_for_schedule s schedule_id"

definition create_on_call_override :: "uuid \<Rightarrow> on_call_override \<Rightarrow> (mem, on_call_override) op" where
  "create_on_call_override schedule_id ov s =
     (if hm_contains (m_on_call_overrides s) (oco_id ov)
      then (Err (storage_conflict [Lit ''on-call override '', Id (oco_id ov), Lit '' exists'']), s)
      else (Ok ov, s\<lparr>m_on_call_overrides := hm_insert (oco_id ov) (schedule_id, ov) (m_on_call_overrides s)\<rparr>))"

definition delete_on_call_override :: "uuid \<Rightarrow> (mem, unit) op" where
  "delete_on_call_override k s =
     (let s' = s\<lparr>m_on_call_overrides := hm_remove k (m_on_call_overrides s)\<rparr> in
      case hm_get (m_on_call_overrides s) k of
        None \<Rightarrow> (Err (storage_not_found [Lit ''on-call override '', Id k]), s') | Some _ \<Rightarrow> (Ok (), s'))"

section \<open>Escalation state of incidents\<close>

definition get_escalation_state :: "mem \<Rightarrow> uuid \<Rightarrow> incident_escalation_state option" where
  "get_escalation_state s incident_id = hm_get (m_escalation_states s) incident_id"

definition upsert_escalation_state :: "incident_escalation_state \<Rightarrow> (mem, unit) op" where
  "upsert_escalation_state st s =
     (Ok (), s\<lparr>m_escalation_states := hm_insert (ies_incident_id st) st (m_escalation_states s)\<rparr>)"

definition list_due_escalation_states :: "mem \<Rightarrow> instant \<Rightarrow> incident_escalation_state list" where
  "list_due_escalation_states s now =
     sort_key ies_next_check_at
       (filter (\<lambda>st. \<not> ies_acked st \<and> ies_next_check_at st \<le> now) (hm_values (m_escalation_states s)))"

definition ack_escalation_state :: "uuid \<Rightarrow> (mem, unit) op" where
  "ack_escalation_state incident_id s =
     (case hm_get (m_escalation_states s) incident_id of
        None \<Rightarrow> (Err (storage_not_found [Lit ''escalation state for incident '', Id incident_id]), s)
      | Some st \<Rightarrow>
         (Ok (), s\<lparr>m_escalation_states := hm_insert incident_id (st\<lparr>ies_acked := True\<rparr>) (m_escalation_states s)\<rparr>))"

definition delete_escalation_state :: "uuid \<Rightarrow> (mem, unit) op" where
  "delete_escalation_state incident_id s =
     (Ok (), s\<lparr>m_escalation_states := hm_remove incident_id (m_escalation_states s)\<rparr>)"

section \<open>Postmortems\<close>

definition postmortem_missing :: "uuid \<Rightarrow> app_error" where
  "postmortem_missing k = storage_not_found [Lit ''postmortem for incident '', Id k]"

definition get_postmortem :: "mem \<Rightarrow> uuid \<Rightarrow> incident_postmortem option" where
  "get_postmortem s incident_id = hm_get (m_postmortems s) incident_id"

definition upsert_postmortem ::
  "instant \<Rightarrow> uuid \<Rightarrow> uuid option \<Rightarrow> postmortem_upsert \<Rightarrow> (mem, incident_postmortem) op" where
  "upsert_postmortem now incident_id author_id body s =
     (let old = hm_get (m_postmortems s) incident_id;
          pm = \<lparr>pm_incident_id = incident_id, pm_summary = pmu_summary body, pm_root_cause = pmu_root_cause body,
                pm_impact = pmu_impact body, pm_action_items = pmu_action_items body, pm_author_id = author_id,
                pm_created_at = (case old of Some p \<Rightarrow> pm_created_at p | None \<Rightarrow> now), pm_updated_at = now,
                pm_published_at = (case old of Some p \<Rightarrow> pm_published_at p | None \<Rightarrow> None)\<rparr>
      in (Ok pm, s\<lparr>m_postmortems := hm_insert incident_id pm (m_postmortems s)\<rparr>))"

definition publish_postmortem :: "instant \<Rightarrow> uuid \<Rightarrow> (mem, incident_postmortem) op" where
  "publish_postmortem now incident_id s =
     (case hm_get (m_postmortems s) incident_id of
        None \<Rightarrow> (Err (postmortem_missing incident_id), s)
      | Some pm \<Rightarrow>
         (let pm' = pm\<lparr>pm_published_at := Some now, pm_updated_at := now\<rparr>
          in (Ok pm', s\<lparr>m_postmortems := hm_insert incident_id pm' (m_postmortems s)\<rparr>)))"

definition unpublish_postmortem :: "instant \<Rightarrow> uuid \<Rightarrow> (mem, incident_postmortem) op" where
  "unpublish_postmortem now incident_id s =
     (case hm_get (m_postmortems s) incident_id of
        None \<Rightarrow> (Err (postmortem_missing incident_id), s)
      | Some pm \<Rightarrow>
         (let pm' = pm\<lparr>pm_published_at := None, pm_updated_at := now\<rparr>
          in (Ok pm', s\<lparr>m_postmortems := hm_insert incident_id pm' (m_postmortems s)\<rparr>)))"

definition delete_postmortem :: "uuid \<Rightarrow> (mem, unit) op" where
  "delete_postmortem incident_id s = (Ok (), s\<lparr>m_postmortems := hm_remove incident_id (m_postmortems s)\<rparr>)"

section \<open>Monitor shares\<close>

definition share_view :: "monitor_share_row \<Rightarrow> monitor_share" where
  "share_view r =
     \<lparr>ms_id = msr_id r, ms_org_id = nil_uuid, ms_target_id = msr_target_id r, ms_label = msr_label r,
      ms_token = None, ms_created_at = msr_created_at r, ms_expires_at = msr_expires_at r,
      ms_view_count = msr_view_count r, ms_last_viewed_at = msr_last_viewed_at r\<rparr>"

definition list_monitor_shares :: "mem \<Rightarrow> uuid \<Rightarrow> monitor_share list" where
  "list_monitor_shares s target_id =
     sort_key (\<lambda>x. - ms_created_at x)
       (map share_view (filter (\<lambda>r. msr_target_id r = target_id) (m_monitor_shares s)))"

definition create_monitor_share ::
  "string \<Rightarrow> (string \<Rightarrow> string) \<Rightarrow> instant \<Rightarrow> uuid \<Rightarrow> uuid \<Rightarrow> string option \<Rightarrow> instant option \<Rightarrow> (mem, monitor_share \<times> string) op" where
  "create_monitor_share raw_token hash now new_id target_id label expires_at s =
     (let row = \<lparr>msr_id = new_id, msr_target_id = target_id, msr_label = label, msr_token_hash = hash raw_token,
                 msr_created_at = now, msr_expires_at = expires_at, msr_view_count = 0, msr_last_viewed_at = None\<rparr>
      in if list_ex (\<lambda>r. msr_token_hash r = hash raw_token) (m_monitor_shares s)
         then (Err (storage_conflict [Lit ''monitor share token collision for target '', Id target_id]), s)
         else (Ok (share_view row, raw_token), s\<lparr>m_monitor_shares := m_monitor_shares s @ [row]\<rparr>))"

definition delete_monitor_share :: "uuid \<Rightarrow> (mem, unit) op" where
  "delete_monitor_share k s = (Ok (), s\<lparr>m_monitor_shares := filter (\<lambda>r. msr_id r \<noteq> k) (m_monitor_shares s)\<rparr>)"

definition share_valid :: "instant \<Rightarrow> string \<Rightarrow> monitor_share_row \<Rightarrow> bool" where
  "share_valid now token_hash r \<longleftrightarrow>
     msr_token_hash r = token_hash \<and> (case msr_expires_at r of None \<Rightarrow> True | Some e \<Rightarrow> e > now)"

fun view_first :: "instant \<Rightarrow> string \<Rightarrow> monitor_share_row list \<Rightarrow> monitor_share_row list" where
  "view_first now token_hash [] = []"
| "view_first now token_hash (r # rs) =
     (if share_valid now token_hash r
      then r\<lparr>msr_view_count := msr_view_count r + 1, msr_last_viewed_at := Some now\<rparr> # rs
      else r # view_first now token_hash rs)"

definition resolve_monitor_share :: "instant \<Rightarrow> string \<Rightarrow> (mem, resolved_share option) op" where
  "resolve_monitor_share now token_hash s =
     (case find (share_valid now token_hash) (m_monitor_shares s) of
        None \<Rightarrow> (Ok None, s)
      | Some r \<Rightarrow>
         (Ok (Some \<lparr>rs_share_id = msr_id r, rs_target_id = msr_target_id r, rs_org = nil_uuid\<rparr>),
          s\<lparr>m_monitor_shares := view_first now token_hash (m_monitor_shares s)\<rparr>))"

definition ping :: "mem \<Rightarrow> app_error + unit" where
  "ping s = Ok ()"

end
