(* ===== verification/Memory_Auth.thy ===== *)
theory Memory_Auth
  imports Memory_State
begin

text \<open>
  The in-memory storage (\<open>crates/storage/src/memory.rs\<close>): users, sessions, API
  tokens and magic links.  Token values are compared by their stored hash;
  the hash functions are arguments of the authentication service.
\<close>

section \<open>Users\<close>

definition user_missing :: "uuid \<Rightarrow> app_error" where
  "user_missing k = storage_not_found [Lit ''user '', Id k]"

definition create_user :: "instant \<Rightarrow> uuid \<Rightarrow> new_user \<Rightarrow> (mem, user) op" where
  "create_user now new_id n s =
     (let email = normalize_email (nu_email n);
          u = \<lparr>us_id = new_id, us_email = email, us_display_name = nu_display_name n,
               us_email_verified_at = (if nu_email_verified n then Some now else None), us_last_seen_at = None,
               us_theme = ThemeDefault, us_time_format = Auto, us_created_at = now, us_updated_at = now,
               us_deleted_at = None\<rparr>
      in if list_ex (\<lambda>u. us_email u = email \<and> us_deleted_at u = None) (hm_values (m_users s))
         then (Err (storage_conflict [Lit ''user email '', quoted email, Lit '' exists'']), s)
         else (Ok u, s\<lparr>m_users := hm_insert new_id u (m_users s)\<rparr>))"

definition live_user :: "mem \<Rightarrow> uuid \<Rightarrow> user option" where
  "live_user s k =
     (case hm_get (m_users s) k of Some u \<Rightarrow> if us_deleted_at u = None then Some u else None | None \<Rightarrow> None)"

definition get_user :: "mem \<Rightarrow> uuid \<Rightarrow> app_error + user" where
  "get_user s k = (case live_user s k of Some u \<Rightarrow> Ok u | None \<Rightarrow> Err (user_missing k))"

definition find_user_by_email :: "mem \<Rightarrow> string \<Rightarrow> user option" where
  "find_user_by_email s email =
     find (\<lambda>u. us_email u = normalize_email email \<and> us_deleted_at u = None) (hm_values (m_users s))"

definition count_users :: "mem \<Rightarrow> nat" where
  "count_users s = length (filter (\<lambda>u. us_deleted_at u = None) (hm_values (m_users s)))"

definition update_user :: "instant \<Rightarrow> uuid \<Rightarrow> user_update \<Rightarrow> (mem, user) op" where
  "update_user now k up s =
     (case live_user s k of
        None \<Rightarrow> (Err (user_missing k), s)
      | Some u \<Rightarrow>
         (let u' = (patch (uu_time_format up) (\<lambda>v u. u\<lparr>us_time_format := v\<rparr>)
                   (patch (uu_theme up) (\<lambda>v u. u\<lparr>us_theme := v\<rparr>)
                   (patch (uu_display_name up) (\<lambda>v u. u\<lparr>us_display_name := Some v\<rparr>) u)))\<lparr>us_updated_at := now\<rparr>
          in (Ok u', s\<lparr>m_users := hm_insert k u' (m_users s)\<rparr>)))"

definition touch_user :: "uuid \<Rightarrow> instant \<Rightarrow> (mem, unit) op" where
  "touch_user k at_time s =
     (case live_user s k of
        None \<Rightarrow> (Ok (), s)
      | Some u \<Rightarrow> (Ok (), s\<lparr>m_users := hm_insert k (u\<lparr>us_last_seen_at := Some at_time\<rparr>) (m_users s)\<rparr>))"

section \<open>Sessions\<close>

definition create_session :: "instant \<Rightarrow> string \<Rightarrow> new_session \<Rightarrow> (mem, session_row) op" where
  "create_session now id_hash n s =
     (let row = \<lparr>ses_id_hash = id_hash, ses_user_id = ns_user_id n, ses_created_at = now, ses_last_used_at = now,
                 ses_expires_at = ns_expires_at n, ses_ip_hash = ns_ip_hash n,
                 ses_user_agent_hash = ns_user_agent_hash n\<rparr>
      in if hm_contains (m_sessions s) id_hash
         then (Err (storage_conflict [Lit ''session id_hash '', quoted id_hash, Lit '' exists'']), s)
         else (Ok row, s\<lparr>m_sessions := hm_insert id_hash row (m_sessions s)\<rparr>))"

definition store_lookup_session :: "mem \<Rightarrow> string \<Rightarrow> session_row option" where
  "store_lookup_session s id_hash = hm_get (m_sessions s) id_hash"

definition store_touch_session :: "string \<Rightarrow> instant \<Rightarrow> (mem, unit) op" where
  "store_touch_session id_hash at_time s =
     (case hm_get (m_sessions s) id_hash of
        None \<Rightarrow> (Ok (), s)
      | Some r \<Rightarrow> (Ok (), s\<lparr>m_sessions := hm_insert id_hash (r\<lparr>ses_last_used_at := at_time\<rparr>) (m_sessions s)\<rparr>))"

definition delete_session :: "string \<Rightarrow> (mem, unit) op" where
  "delete_session id_hash s = (Ok (), s\<lparr>m_sessions := hm_remove id_hash (m_sessions s)\<rparr>)"

definition delete_other_sessions :: "uuid \<Rightarrow> string \<Rightarrow> (mem, nat) op" where
  "delete_other_sessions user_id keep s =
     (let kept = hm_retain (\<lambda>h r. \<not> (ses_user_id r = user_id \<and> h \<noteq> keep)) (m_sessions s)
      in (Ok (length (m_sessions s) - length kept), s\<lparr>m_sessions := kept\<rparr>))"

definition store_list_sessions :: "mem \<Rightarrow> uuid \<Rightarrow> session_row list" where
  "store_list_sessions s user_id =
     sort_key (\<lambda>r. - ses_created_at r) (filter (\<lambda>r. ses_user_id r = user_id) (hm_values (m_sessions s)))"

definition delete_expired_sessions :: "instant \<Rightarrow> (mem, nat) op" where
  "delete_expired_sessions now s =
     (let kept = hm_retain (\<lambda>_ r. ses_expires_at r \<ge> now) (m_sessions s)
      in (Ok (length (m_sessions s) - length kept), s\<lparr>m_sessions := kept\<rparr>))"

section \<open>API tokens\<close>

definition store_create_api_token ::
  "instant \<Rightarrow> uuid \<Rightarrow> uuid \<Rightarrow> new_api_token \<Rightarrow> string \<Rightarrow> string \<Rightarrow> (mem, api_token_row) op" where
  "store_create_api_token now new_id user_id n token_hash token_prefix s =
     (let row = \<lparr>at_id = new_id, at_user_id = user_id, at_name = nat_name n, at_token_hash = token_hash,
                 at_token_prefix = token_prefix,
                 at_scopes = (case nat_scopes n of Some sc \<Rightarrow> sc | None \<Rightarrow> full_access),
                 at_created_at = now, at_last_used_at = None,
                 at_expires_at = map_option (\<lambda>d. now + days (int d)) (nat_expires_in_days n)\<rparr>
      in if hm_contains (m_api_tokens s) new_id
         then (Err (storage_conflict [Lit ''api token '', Id new_id, Lit '' exists'']), s)
         else (Ok row, s\<lparr>m_api_tokens := hm_insert new_id row (m_api_tokens s)\<rparr>))"

definition find_api_tokens_by_prefix :: "mem \<Rightarrow> string \<Rightarrow> api_token_row list" where
  "find_api_tokens_by_prefix s prefix =
     sort_key (\<lambda>t. - at_created_at t) (filter (\<lambda>t. at_token_prefix t = prefix) (hm_values (m_api_tokens s)))"

definition store_list_api_tokens :: "mem \<Rightarrow> uuid \<Rightarrow> api_token_row list" where
  "store_list_api_tokens s user_id =
     sort_key (\<lambda>t. - at_created_at t) (filter (\<lambda>t. at_user_id t = user_id) (hm_values (m_api_tokens s)))"

definition update_api_token :: "uuid \<Rightarrow> string \<Rightarrow> (mem, api_token_row) op" where
  "update_api_token k name s =
     (case hm_get (m_api_tokens s) k of
        None \<Rightarrow> (Err (storage_not_found [Lit ''api token '', Id k]), s)
      | Some t \<Rightarrow>
         (let t' = t\<lparr>at_name := name\<rparr> in (Ok t', s\<lparr>m_api_tokens := hm_insert k t' (m_api_tokens s)\<rparr>)))"

definition store_touch_api_token :: "uuid \<Rightarrow> instant \<Rightarrow> (mem, unit) op" where
  "store_touch_api_token k at_time s =
     (case hm_get (m_api_tokens s) k of
        None \<Rightarrow> (Ok (), s)
      | Some t \<Rightarrow> (Ok (), s\<lparr>m_api_tokens := hm_insert k (t\<lparr>at_last_used_at := Some at_time\<rparr>) (m_api_tokens s)\<rparr>))"

definition store_delete_api_token :: "uuid \<Rightarrow> (mem, unit) op" where
  "store_delete_api_token k s = (Ok (), s\<lparr>m_api_tokens := hm_remove k (m_api_tokens s)\<rparr>)"

definition delete_api_tokens_for_user :: "uuid \<Rightarrow> (mem, nat) op" where
  "delete_api_tokens_for_user user_id s =
     (let kept = hm_retain (\<lambda>_ t. at_user_id t \<noteq> user_id) (m_api_tokens s)
      in (Ok (length (m_api_tokens s) - length kept), s\<lparr>m_api_tokens := kept\<rparr>))"

definition delete_expired_api_tokens :: "instant \<Rightarrow> (mem, nat) op" where
  "delete_expired_api_tokens cutoff s =
     (let kept = hm_retain (\<lambda>_ t. case at_expires_at t of None \<Rightarrow> True | Some e \<Rightarrow> e \<ge> cutoff) (m_api_tokens s)
      in (Ok (length (m_api_tokens s) - length kept), s\<lparr>m_api_tokens := kept\<rparr>))"

section \<open>Magic links\<close>

definition create_magic_link ::
  "instant \<Rightarrow> uuid \<Rightarrow> string \<Rightarrow> string \<Rightarrow> string \<Rightarrow> instant \<Rightarrow> string option \<Rightarrow> string option \<Rightarrow> (mem, magic_link_row) op" where
  "create_magic_link now new_id email token_hash token_prefix expires_at ip_hash redirect_after s =
     (let row = \<lparr>ml_id = new_id, ml_email = normalize_email email, ml_token_hash = token_hash,
                 ml_token_prefix = token_prefix, ml_created_at = now, ml_expires_at = expires_at,
                 ml_used_at = None, ml_ip_hash = ip_hash, ml_redirect_after = redirect_after\<rparr>
      in if hm_contains (m_magic_links s) new_id
         then (Err (storage_conflict [Lit ''magic link '', Id new_id, Lit '' exists'']), s)
         else (Ok row, s\<lparr>m_magic_links := hm_insert new_id row (m_magic_links s)\<rparr>))"

definition find_magic_links_by_prefix :: "mem \<Rightarrow> string \<Rightarrow> magic_link_row list" where
  "find_magic_links_by_prefix s prefix =
     sort_key (\<lambda>m. - ml_created_at m)
       (filter (\<lambda>m. ml_token_prefix m = prefix \<and> ml_used_at m = None) (hm_values (m_magic_links s)))"

definition consume_magic_link :: "instant \<Rightarrow> uuid \<Rightarrow> (mem, magic_link_row option) op" where
  "consume_magic_link now k s =
     (case hm_get (m_magic_links s) k of
        None \<Rightarrow> (Ok None, s)
      | Some l \<Rightarrow>
         if ml_used_at l \<noteq> None then (Ok None, s)
         else (let l' = l\<lparr>ml_used_at := Some now\<rparr>
               in (Ok (Some l'), s\<lparr>m_magic_links := hm_insert k l' (m_magic_links s)\<rparr>)))"

definition delete_expired_magic_links :: "instant \<Rightarrow> (mem, nat) op" where
  "delete_expired_magic_links now s =
     (let kept = hm_retain (\<lambda>_ l. \<not> (ml_expires_at l < now \<and> ml_used_at l = None)) (m_magic_links s)
      in (Ok (length (m_magic_links s) - length kept), s\<lparr>m_magic_links := kept\<rparr>))"

end
