(* ===== verification/Escalation_Engine.thy ===== *)
theory Escalation_Engine
  imports Memory_Oncall Memory_Auth Memory_Delivery
begin

text \<open>
  \<open>bin/status-server/src/escalation_engine.rs\<close>: the engine that walks the
  escalation ladder of unacknowledged incidents, with the operator endpoints
  that acknowledge, resolve and reopen incidents
  (\<open>bin/status-server/src/api/incident_ops.rs\<close>).

  What the engine sends is a list of \<open>page_event\<close>; whether the transport
  delivers it is not modelled, since the engine ignores the outcome.  The
  time-zone database is the parameter \<open>parse_tz\<close>.  The clock readings of one
  \<open>advance_state\<close> are one instant.  A sweep reads the due states once and then
  advances each of the copies it read, so other operations may come between.
\<close>

section \<open>Pages\<close>

datatype page_event =
    ChannelPage uuid channel_config string incident
  | EmailPage string string message

definition host_of :: "string \<Rightarrow> string" where
  "host_of base_url =
     (let after_scheme =
            (case find_str base_url ''://'' of
               None \<Rightarrow> base_url
             | Some i \<Rightarrow>
                (let r = drop (i + 3) base_url
                 in case find_str r ''://'' of None \<Rightarrow> r | Some j \<Rightarrow> take j r));
          host = takeWhile (\<lambda>c. c \<noteq> CHR '':'') (takeWhile (\<lambda>c. c \<noteq> CHR ''/'') after_scheme)
      in if host = [] then ''statuspage.local'' else host)"

definition send_incident_alert_email :: "string \<Rightarrow> incident \<Rightarrow> string \<Rightarrow> page_event" where
  "send_incident_alert_email public_base_url i to_address =
     EmailPage (''no-reply@'' @ host_of public_base_url) to_address
       [Lit ''incident escalated (id='', Id (inc_id i), Lit '', target='', Id (inc_target_id i),
        Lit '', severity='', Lit (severity_as_db_str (inc_severity i)), Lit '', started='', Num (inc_started_at i),
        Lit '') view: '', Lit (trim_end_matches CHR ''/'' public_base_url), Lit ''/api/public/v1/incidents'']"

definition page_user :: "string \<Rightarrow> mem \<Rightarrow> incident \<Rightarrow> uuid \<Rightarrow> page_event list" where
  "page_user base s i user_id =
     (case get_user s user_id of Inl _ \<Rightarrow> [] | Inr u \<Rightarrow> [send_incident_alert_email base i (us_email u)])"

definition dispatch_target ::
  "(string \<Rightarrow> zone option) \<Rightarrow> string \<Rightarrow> instant \<Rightarrow> mem \<Rightarrow> incident \<Rightarrow> escalation_target \<Rightarrow> page_event list" where
  "dispatch_target parse_tz base now s i t =
     (case et_target_type t of
        Channel \<Rightarrow>
          (case et_channel_id t of
             None \<Rightarrow> []
           | Some channel_id \<Rightarrow>
              (case get_notification_channel s channel_id of
                 Inl _ \<Rightarrow> []
               | Inr c \<Rightarrow>
                  if \<not> nc_enabled c \<or> awaiting_verification c then []
                  else [ChannelPage channel_id (nc_config c) (nc_name c) i]))
      | escalation_target_type.User \<Rightarrow>
          (case et_user_id t of None \<Rightarrow> [] | Some user_id \<Rightarrow> page_user base s i user_id)
      | Schedule \<Rightarrow>
          (case et_schedule_id t of
             None \<Rightarrow> []
           | Some schedule_id \<Rightarrow>
              (case get_on_call_schedule s schedule_id of
                 Inl _ \<Rightarrow> []
               | Inr d \<Rightarrow>
                  concat (map (page_user base s i)
                    (resolve_on_call parse_tz (ocd_schedule d) (ocd_layers d) (ocd_overrides d) now)))))"

section \<open>Advancing one state\<close>

fun is_not_found :: "app_error \<Rightarrow> bool" where
  "is_not_found (app_error.NotFound _ _) = True"
| "is_not_found _ = False"

definition drop_state :: "incident_escalation_state \<Rightarrow> mem \<Rightarrow> (app_error + unit) \<times> page_event list \<times> mem" where
  "drop_state st s = (Ok (), [], snd (delete_escalation_state (ies_incident_id st) s))"

definition advance_state ::
  "(string \<Rightarrow> zone option) \<Rightarrow> string \<Rightarrow> instant \<Rightarrow> incident_escalation_state \<Rightarrow> mem
     \<Rightarrow> (app_error + unit) \<times> page_event list \<times> mem" where
  "advance_state parse_tz base now st s =
     (case get_incident s (ies_incident_id st) of
        Inl e \<Rightarrow> if is_not_found e then drop_state st s else (Err e, [], s)
      | Inr i \<Rightarrow>
         if inc_ended_at i \<noteq> None then drop_state st s
         else (case get_escalation_policy s (ies_policy_id st) of
            Inl e \<Rightarrow> (Err e, [], s)
          | Inr p \<Rightarrow>
             (case next_step (ep_steps p) (ep_repeat_count p) (ies_current_level st) (ies_current_round st) of
                Exhausted \<Rightarrow> drop_state st s
              | Page level rnd delay_secs \<Rightarrow>
                 (case find (\<lambda>x. es_level x = level) (ep_steps p) of
                    None \<Rightarrow> drop_state st s
                  | Some step \<Rightarrow>
                     (let events = concat (map (dispatch_target parse_tz base now s i) (es_targets step));
                          st' = st\<lparr>ies_current_level := level, ies_current_round := rnd, ies_last_paged_at := now,
                                   ies_next_check_at := now + seconds (max delay_secs 0)\<rparr>;
                          (r, s') = upsert_escalation_state st' s
                      in (r, events, s'))))))"

text \<open>A sweep reports the pages it sent for each state it advanced, with the incident of the state.\<close>

fun sweep_states ::
  "(string \<Rightarrow> zone option) \<Rightarrow> string \<Rightarrow> instant \<Rightarrow> incident_escalation_state list \<Rightarrow> mem
     \<Rightarrow> (uuid \<times> page_event list) list \<times> mem" where
  "sweep_states parse_tz base now [] s = ([], s)"
| "sweep_states parse_tz base now (st # sts) s =
     (let (_, ev, s1) = advance_state parse_tz base now st s;
          (evs, s2) = sweep_states parse_tz base now sts s1
      in ((ies_incident_id st, ev) # evs, s2))"

definition engine_sweep ::
  "(string \<Rightarrow> zone option) \<Rightarrow> string \<Rightarrow> instant \<Rightarrow> mem \<Rightarrow> (uuid \<times> page_event list) list \<times> mem" where
  "engine_sweep parse_tz base now s = sweep_states parse_tz base now (list_due_escalation_states s now) s"

text \<open>The loop of the engine: a sweep at each tick.\<close>

fun run_escalation_engine ::
  "(string \<Rightarrow> zone option) \<Rightarrow> string \<Rightarrow> instant list \<Rightarrow> mem \<Rightarrow> (uuid \<times> page_event list) list list \<times> mem" where
  "run_escalation_engine parse_tz base [] s = ([], s)"
| "run_escalation_engine parse_tz base (now # ticks) s =
     (let (sent, s1) = engine_sweep parse_tz base now s;
          (rest, s2) = run_escalation_engine parse_tz base ticks s1
      in (sent # rest, s2))"

section \<open>Operator endpoints\<close>

datatype transition_request = Acknowledge | Resolve | Reopen

fun transition_as_str :: "transition_request \<Rightarrow> string" where
  "transition_as_str transition_request.Acknowledge = ''acknowledge''"
| "transition_as_str transition_request.Resolve = ''resolve''"
| "transition_as_str transition_request.Reopen = ''reopen''"

definition to_patch :: "transition_request \<Rightarrow> incident_ops_patch" where
  "to_patch t = \<lparr>iop_transition = Some (transition_as_str t), iop_assignee_id = None, iop_publish = None,
     iop_severity = None, iop_note = None\<rparr>"

definition acknowledge_incident :: "instant \<Rightarrow> uuid \<Rightarrow> (mem, incident) op" where
  "acknowledge_incident now k s = apply_incident_ops now now now k (to_patch transition_request.Acknowledge) s"

definition resolve_incident :: "instant \<Rightarrow> uuid \<Rightarrow> (mem, incident) op" where
  "resolve_incident now k s = apply_incident_ops now now now k (to_patch transition_request.Resolve) s"

definition reopen_incident :: "instant \<Rightarrow> uuid \<Rightarrow> (mem, incident) op" where
  "reopen_incident now k s = apply_incident_ops now now now k (to_patch transition_request.Reopen) s"

definition patch_incident_ops :: "instant \<Rightarrow> uuid \<Rightarrow> incident_ops_patch \<Rightarrow> (mem, incident) op" where
  "patch_incident_ops now k p s =
     (case apply_incident_ops now now now k p s of
        (Inl e, s1) \<Rightarrow> (Err e, s1)
      | (Inr i, s1) \<Rightarrow>
         (Ok i,
          if iop_transition p = Some (transition_as_str transition_request.Acknowledge)
          then snd (ack_escalation_state k s1)
          else if iop_transition p = Some (transition_as_str transition_request.Resolve)
          then snd (delete_escalation_state k s1)
          else s1))"

section \<open>The engine walks the ladder\<close>

lemma page_user_frame [simp]:
  "page_user base (s\<lparr>m_escalation_states := x\<rparr>) i u = page_user base s i u"
  by (simp add: page_user_def get_user_def live_user_def)

lemma escalation_frame [simp]:
  "get_incident (s\<lparr>m_escalation_states := x\<rparr>) k = get_incident s k"
  "get_escalation_policy (s\<lparr>m_escalation_states := x\<rparr>) k = get_escalation_policy s k"
  "get_notification_channel (s\<lparr>m_escalation_states := x\<rparr>) k = get_notification_channel s k"
  "get_on_call_schedule (s\<lparr>m_escalation_states := x\<rparr>) k = get_on_call_schedule s k"
  by (simp_all add: get_incident_def get_escalation_policy_def get_notification_channel_def
      get_on_call_schedule_def overrides_for_schedule_def split: option.splits)

lemma dispatch_target_frame [simp]:
  "dispatch_target tz base now (s\<lparr>m_escalation_states := x\<rparr>) i t = dispatch_target tz base now s i t"
proof -
  have "page_user base (s\<lparr>m_escalation_states := x\<rparr>) i = page_user base s i" by (rule ext) simp
  then show ?thesis
    by (cases "et_target_type t") (simp_all add: dispatch_target_def split: option.splits sum.splits)
qed

definition rung_pages ::
  "(string \<Rightarrow> zone option) \<Rightarrow> string \<Rightarrow> mem \<Rightarrow> incident \<Rightarrow> escalation_policy \<Rightarrow> instant \<Rightarrow> int \<Rightarrow> page_event list" where
  "rung_pages tz base s i p now level =
     (case find (\<lambda>x. es_level x = level) (ep_steps p) of
        None \<Rightarrow> [] | Some step \<Rightarrow> concat (map (dispatch_target tz base now s i) (es_targets step)))"

lemma rung_pages_frame [simp]:
  "rung_pages tz base (s\<lparr>m_escalation_states := x\<rparr>) i p now l = rung_pages tz base s i p now l"
  by (simp add: rung_pages_def cong: map_cong split: option.splits)

lemma find_level: "x \<in> set xs \<Longrightarrow> \<exists>y. find (\<lambda>y. es_level y = es_level x) xs = Some y"
  by (induction xs) auto

lemma next_step_level_found:
  assumes "next_step steps rc level rnd = Page l r d"
  obtains step where "find (\<lambda>x. es_level x = l) steps = Some step"
  using next_step_Page [OF assms] find_level by (metis list.set_sel(1))

lemma advance_page:
  assumes "get_incident s (ies_incident_id st) = Ok i" "inc_ended_at i = None"
    and "get_escalation_policy s (ies_policy_id st) = Ok p"
    and "next_step (ep_steps p) (ep_repeat_count p) (ies_current_level st) (ies_current_round st) = Page l r d"
  shows "advance_state tz base now st s =
    (Ok (), rung_pages tz base s i p now l,
     s\<lparr>m_escalation_states := hm_insert (ies_incident_id st)
        (st\<lparr>ies_current_level := l, ies_current_round := r, ies_last_paged_at := now,
            ies_next_check_at := now + seconds (max d 0)\<rparr>) (m_escalation_states s)\<rparr>)"
proof -
  obtain step where "find (\<lambda>x. es_level x = l) (ep_steps p) = Some step"
    using next_step_level_found [OF assms(4)] .
  then show ?thesis
    using assms by (simp add: advance_state_def rung_pages_def upsert_escalation_state_def Let_def)
qed

lemma advance_exhausted:
  assumes "get_incident s (ies_incident_id st) = Ok i" "inc_ended_at i = None"
    and "get_escalation_policy s (ies_policy_id st) = Ok p"
    and "next_step (ep_steps p) (ep_repeat_count p) (ies_current_level st) (ies_current_round st) = Exhausted"
  shows "advance_state tz base now st s =
    (Ok (), [], s\<lparr>m_escalation_states := hm_remove (ies_incident_id st) (m_escalation_states s)\<rparr>)"
  using assms by (simp add: advance_state_def drop_state_def delete_escalation_state_def)

section \<open>Sweeps over many states\<close>

text \<open>The states are stored under the incident they belong to, as \<open>upsert_escalation_state\<close> does.\<close>

definition states_keyed :: "mem \<Rightarrow> bool" where
  "states_keyed s \<longleftrightarrow> hm_ok (m_escalation_states s) \<and> (\<forall>(k, st) \<in> set (m_escalation_states s). ies_incident_id st = k)"

definition pages_for :: "uuid \<Rightarrow> (uuid \<times> page_event list) list \<Rightarrow> page_event list" where
  "pages_for k sent = concat (map snd (filter (\<lambda>e. fst e = k) sent))"

lemma pages_for_simps [simp]:
  "pages_for k [] = []"
  "pages_for k ((j, ev) # sent) = (if j = k then ev @ pages_for k sent else pages_for k sent)"
  by (simp_all add: pages_for_def)

lemma states_keyed_upsert: "states_keyed s \<Longrightarrow> states_keyed (snd (upsert_escalation_state st s))"
  using hm_insert_entries [of "ies_incident_id st" st "m_escalation_states s"]
  by (auto simp: states_keyed_def upsert_escalation_state_def)

lemma states_keyed_delete: "states_keyed s \<Longrightarrow> states_keyed (snd (delete_escalation_state k s))"
  using hm_remove_entries [of k "m_escalation_states s"]
  by (auto simp: states_keyed_def delete_escalation_state_def)

text \<open>
  Advancing one state changes only the entry of its incident: what is sent and
  what is stored there do not depend on the other entries.
\<close>

definition local_update :: "uuid \<Rightarrow> ((uuid \<times> incident_escalation_state) list \<Rightarrow> (uuid \<times> incident_escalation_state) list) \<Rightarrow> mem \<Rightarrow> bool" where
  "local_update k f s \<longleftrightarrow> f \<in> {id, hm_remove k} \<union> range (\<lambda>st'. hm_insert k st') \<and>
     (\<forall>x. states_keyed (s\<lparr>m_escalation_states := x\<rparr>) \<longrightarrow> states_keyed (s\<lparr>m_escalation_states := f x\<rparr>))"

lemma local_update_keyed: "local_update k f s \<Longrightarrow> states_keyed (s\<lparr>m_escalation_states := x\<rparr>) \<Longrightarrow> states_keyed (s\<lparr>m_escalation_states := f x\<rparr>)"
  by (simp add: local_update_def)

lemma local_update_other: "local_update k f s \<Longrightarrow> j \<noteq> k \<Longrightarrow> hm_get (f x) j = hm_get x j"
  by (auto simp: local_update_def)

lemma local_update_own: "local_update k f s \<Longrightarrow> hm_get x k = hm_get y k \<Longrightarrow> hm_get (f x) k = hm_get (f y) k"
  by (auto simp: local_update_def)

lemma advance_state_local:
  "\<exists>r ev f. (\<forall>x. advance_state tz base now st (s\<lparr>m_escalation_states := x\<rparr>) = (r, ev, s\<lparr>m_escalation_states := f x\<rparr>)) \<and>
     local_update (ies_incident_id st) f s"
proof -
  let ?k = "ies_incident_id st"
  have rem: "local_update ?k (hm_remove ?k) s"
    using states_keyed_delete by (fastforce simp: local_update_def delete_escalation_state_def)
  have ins: "local_update ?k (hm_insert ?k st') s" if "ies_incident_id st' = ?k" for st'
    using states_keyed_upsert [of _ st'] that by (fastforce simp: local_update_def upsert_escalation_state_def)
  have keep: "local_update ?k id s" by (simp add: local_update_def)
  show ?thesis
  proof (cases "get_incident s ?k")
    case (Inl e)
    show ?thesis
    proof (cases "is_not_found e")
      case True
      then show ?thesis
        using Inl rem
        by (intro exI [of _ "Ok ()"] exI [of _ "[]"] exI [of _ "hm_remove ?k"])
          (simp add: advance_state_def drop_state_def delete_escalation_state_def)
    next
      case False
      then show ?thesis
        using Inl keep by (intro exI [of _ "Err e"] exI [of _ "[]"] exI [of _ id]) (simp add: advance_state_def)
    qed
  next
    case (Inr i)
    note inc = Inr
    show ?thesis
    proof (cases "inc_ended_at i \<noteq> None")
      case True
      then show ?thesis
        using inc rem
        by (intro exI [of _ "Ok ()"] exI [of _ "[]"] exI [of _ "hm_remove ?k"])
          (auto simp add: advance_state_def drop_state_def delete_escalation_state_def)
    next
      case False
      then have open_inc: "inc_ended_at i = None" by simp
      show ?thesis
      proof (cases "get_escalation_policy s (ies_policy_id st)")
        case (Inl e)
        then show ?thesis
          using inc open_inc keep by (intro exI [of _ "Err e"] exI [of _ "[]"] exI [of _ id]) (simp add: advance_state_def)
      next
        case (Inr p)
        show ?thesis
        proof (cases "next_step (ep_steps p) (ep_repeat_count p) (ies_current_level st) (ies_current_round st)")
          case Exhausted
          then show ?thesis
            using inc open_inc Inr rem
            by (intro exI [of _ "Ok ()"] exI [of _ "[]"] exI [of _ "hm_remove ?k"]) (simp add: advance_exhausted)
        next
          case (Page l r d)
          let ?st = "st\<lparr>ies_current_level := l, ies_current_round := r, ies_last_paged_at := now,
            ies_next_check_at := now + seconds (max d 0)\<rparr>"
          from Page show ?thesis
            using inc open_inc Inr ins [of ?st]
            by (intro exI [of _ "Ok ()"] exI [of _ "rung_pages tz base s i p now l"] exI [of _ "hm_insert ?k ?st"])
              (simp add: advance_page [where i = i])
        qed
      qed
    qed
  qed
qed

text \<open>One sweep, seen from one incident.\<close>

lemma sweep_states_other:
  assumes "states_keyed (s\<lparr>m_escalation_states := x\<rparr>)"
  shows "\<exists>x'. snd (sweep_states tz base now sts (s\<lparr>m_escalation_states := x\<rparr>)) = s\<lparr>m_escalation_states := x'\<rparr> \<and>
    states_keyed (s\<lparr>m_escalation_states := x'\<rparr>) \<and>
    (k \<notin> ies_incident_id ` set sts \<longrightarrow> hm_get x' k = hm_get x k \<and>
       pages_for k (fst (sweep_states tz base now sts (s\<lparr>m_escalation_states := x\<rparr>))) = [])"
  using assms
proof (induction sts arbitrary: x)
  case Nil
  then show ?case by auto
next
  case (Cons st sts)
  obtain r ev f where adv: "\<forall>x. advance_state tz base now st (s\<lparr>m_escalation_states := x\<rparr>) = (r, ev, s\<lparr>m_escalation_states := f x\<rparr>)"
    and f: "local_update (ies_incident_id st) f s"
    using advance_state_local [of tz base now st s] by (elim exE conjE)
  from Cons.IH [OF local_update_keyed [OF f Cons.prems]] obtain x' where
    IH: "snd (sweep_states tz base now sts (s\<lparr>m_escalation_states := f x\<rparr>)) = s\<lparr>m_escalation_states := x'\<rparr>"
      "states_keyed (s\<lparr>m_escalation_states := x'\<rparr>)"
      "k \<notin> ies_incident_id ` set sts \<Longrightarrow> hm_get x' k = hm_get (f x) k \<and>
         pages_for k (fst (sweep_states tz base now sts (s\<lparr>m_escalation_states := f x\<rparr>))) = []"
    by blast
  note local_update_other [OF f, of k x]
  with IH show ?case by (intro exI [of _ x']) (auto simp: split_beta adv [rule_format])
qed

lemma state_table: "m_escalation_states (s\<lparr>m_escalation_states := x\<rparr>) = x"
  by simp

lemma sweep_states_own:
  assumes "states_keyed (s\<lparr>m_escalation_states := x\<rparr>)" "distinct (map ies_incident_id sts)" "st \<in> set sts"
    and "advance_state tz base now st (s\<lparr>m_escalation_states := x\<rparr>) = (r, ev, s\<lparr>m_escalation_states := y\<rparr>)"
    and "sweep_states tz base now sts (s\<lparr>m_escalation_states := x\<rparr>) = (sent, s')"
  shows "pages_for (ies_incident_id st) sent = ev \<and> get_escalation_state s' (ies_incident_id st) = hm_get y (ies_incident_id st)"
  using assms
proof (induction sts arbitrary: x y r ev sent)
  case (Cons st0 sts)
  let ?k = "ies_incident_id st"
  obtain r0 ev0 f where adv: "\<forall>x. advance_state tz base now st0 (s\<lparr>m_escalation_states := x\<rparr>) = (r0, ev0, s\<lparr>m_escalation_states := f x\<rparr>)"
    and f: "local_update (ies_incident_id st0) f s"
    using advance_state_local [of tz base now st0 s] by (elim exE conjE)
  obtain sent0 where rest: "sweep_states tz base now sts (s\<lparr>m_escalation_states := f x\<rparr>) = (sent0, s')"
    and sent: "sent = (ies_incident_id st0, ev0) # sent0"
    using Cons.prems(5) adv [rule_format, of x] by (cases "sweep_states tz base now sts (s\<lparr>m_escalation_states := f x\<rparr>)") (auto simp: split_beta)
  show ?case
  proof (cases "st0 = st")
    case True
    then have "ev = ev0 \<and> s\<lparr>m_escalation_states := y\<rparr> = s\<lparr>m_escalation_states := f x\<rparr>" using Cons.prems(4) adv [rule_format, of x] by simp
    then have same: "ev = ev0" "y = f x" by (simp, metis (no_types) state_table)
    have "?k \<notin> ies_incident_id ` set sts" using Cons.prems(2) True by auto
    then obtain x' where "s' = s\<lparr>m_escalation_states := x'\<rparr>" "hm_get x' ?k = hm_get (f x) ?k" "pages_for ?k sent0 = []"
      using sweep_states_other [OF local_update_keyed [OF f Cons.prems(1)], of tz base now sts ?k] unfolding rest fst_conv snd_conv by blast
    then show ?thesis using same sent True by (simp add: get_escalation_state_def)
  next
    case False
    then have tl: "st \<in> set sts" "ies_incident_id st0 \<noteq> ?k" using Cons.prems(2,3) by auto
    obtain r1 ev1 g where adv1: "\<forall>x. advance_state tz base now st (s\<lparr>m_escalation_states := x\<rparr>) = (r1, ev1, s\<lparr>m_escalation_states := g x\<rparr>)"
    and g: "local_update (ies_incident_id st) g s"
    using advance_state_local [of tz base now st s] by (elim exE conjE)
    have "ev = ev1 \<and> s\<lparr>m_escalation_states := y\<rparr> = s\<lparr>m_escalation_states := g x\<rparr>" using Cons.prems(4) adv1 [rule_format, of x] by simp
    then have same: "ev = ev1" "y = g x" by (simp, metis (no_types) state_table)
    have "hm_get (f x) ?k = hm_get x ?k" using local_update_other [OF f] tl(2) by metis
    then have "hm_get (g (f x)) ?k = hm_get (g x) ?k" by (rule local_update_own [OF g])
    moreover have "pages_for ?k sent0 = ev1 \<and> get_escalation_state s' ?k = hm_get (g (f x)) ?k"
      using Cons.IH [OF local_update_keyed [OF f Cons.prems(1)] _ tl(1) adv1 [rule_format] rest] Cons.prems(2) by simp
    ultimately show ?thesis using same sent tl(2) by simp
  qed
qed simp

lemma due_distinct: "states_keyed s \<Longrightarrow> distinct (map ies_incident_id (list_due_escalation_states s now))"
proof -
  assume keyed: "states_keyed s"
  then have "map ies_incident_id (hm_values (m_escalation_states s)) = map fst (m_escalation_states s)"
    by (auto simp: states_keyed_def hm_values_def)
  then have "distinct (map ies_incident_id (hm_values (m_escalation_states s)))"
    using keyed by (simp add: states_keyed_def hm_ok_def)
  then have "distinct (map ies_incident_id (filter P (hm_values (m_escalation_states s))))" for P
    by (rule distinct_map_filter)
  then show ?thesis
    unfolding list_due_escalation_states_def distinct_map by (simp add: distinct_map)
qed

lemma sweep_one:
  assumes keyed: "states_keyed (s\<lparr>m_escalation_states := x\<rparr>)"
    and run: "engine_sweep tz base now (s\<lparr>m_escalation_states := x\<rparr>) = (sent, s')"
  shows "\<exists>x'. s' = s\<lparr>m_escalation_states := x'\<rparr> \<and> states_keyed (s\<lparr>m_escalation_states := x'\<rparr>) \<and>
    (case hm_get x k of
       None \<Rightarrow> pages_for k sent = [] \<and> hm_get x' k = None
     | Some st \<Rightarrow>
        if ies_acked st \<or> now < ies_next_check_at st then pages_for k sent = [] \<and> hm_get x' k = Some st
        else pages_for k sent = fst (snd (advance_state tz base now st (s\<lparr>m_escalation_states := x\<rparr>))) \<and>
          hm_get x' k = get_escalation_state (snd (snd (advance_state tz base now st (s\<lparr>m_escalation_states := x\<rparr>)))) k)"
proof -
  let ?s = "s\<lparr>m_escalation_states := x\<rparr>" and ?due = "list_due_escalation_states (s\<lparr>m_escalation_states := x\<rparr>) now"
  have ids: "\<And>st. st \<in> set (hm_values x) \<Longrightarrow> hm_get x (ies_incident_id st) = Some st"
    using keyed by (auto simp: states_keyed_def hm_values_def hm_get_def hm_ok_def)
  have sw: "sweep_states tz base now ?due ?s = (sent, s')" using run by (simp add: engine_sweep_def)
  obtain x' where x': "s' = s\<lparr>m_escalation_states := x'\<rparr>" "states_keyed (s\<lparr>m_escalation_states := x'\<rparr>)"
    and other: "k \<notin> ies_incident_id ` set ?due \<Longrightarrow> hm_get x' k = hm_get x k \<and> pages_for k sent = []"
    using sweep_states_other [OF keyed, of tz base now ?due k] unfolding sw fst_conv snd_conv by blast
  have mem: "st \<in> set ?due \<longleftrightarrow> st \<in> set (hm_values x) \<and> \<not> ies_acked st \<and> ies_next_check_at st \<le> now" for st
    by (auto simp: list_due_escalation_states_def)
  show ?thesis
  proof (cases "hm_get x k")
    case None
    have "k \<notin> ies_incident_id ` set ?due"
    proof
      assume "k \<in> ies_incident_id ` set ?due"
      then obtain st where st: "k = ies_incident_id st" "st \<in> set ?due" by (rule imageE)
      then have "st \<in> set (hm_values x)" by (simp only: mem)
      from ids [OF this] None st(1) show False by simp
    qed
    with other None x' show ?thesis by (intro exI [of _ x']) simp
  next
    case (Some st)
    have id: "ies_incident_id st = k" using keyed hm_get_entry [OF Some] by (auto simp: states_keyed_def)
    show ?thesis
    proof (cases "ies_acked st \<or> now < ies_next_check_at st")
      case True
      have "k \<notin> ies_incident_id ` set ?due"
      proof
        assume "k \<in> ies_incident_id ` set ?due"
        then obtain st' where st': "k = ies_incident_id st'" "st' \<in> set ?due" by (rule imageE)
        from st'(2) have "st' \<in> set (hm_values x) \<and> \<not> ies_acked st' \<and> ies_next_check_at st' \<le> now" by (rule mem [THEN iffD1])
        with ids [of st'] st'(1) Some True show False by simp
      qed
      with other Some True x' show ?thesis by (intro exI [of _ x']) simp
    next
      case False
      then have due: "st \<in> set ?due" unfolding mem using hm_get_in_values [OF Some] by simp
      obtain r ev y where adv: "advance_state tz base now st ?s = (r, ev, s\<lparr>m_escalation_states := y\<rparr>)"
        using advance_state_local [of tz base now st s] by metis
      from sweep_states_own [OF keyed due_distinct [OF keyed] due adv sw] id
      have "pages_for k sent = ev" "hm_get x' k = hm_get y k" by (simp_all add: x' get_escalation_state_def)
      then show ?thesis using x' Some False by (intro exI [of _ x']) (simp add: adv get_escalation_state_def)
    qed
  qed
qed

section \<open>The timetable of a ladder\<close>

text \<open>
  The turns a list of rungs takes at the ticks of a clock: a rung is taken at the
  first tick at or after its due time, and the next one is due its delay later.
  The flag says that a tick came after the last rung was due.
\<close>

fun timetable :: "('a \<Rightarrow> int) \<Rightarrow> instant list \<Rightarrow> instant \<Rightarrow> 'a list \<Rightarrow> 'a option list \<times> bool" where
  "timetable delay [] due xs = ([], False)"
| "timetable delay (now # ticks) due xs =
     (if now < due then (let (row, over) = timetable delay ticks due xs in (None # row, over))
      else (case xs of
          [] \<Rightarrow> (map (\<lambda>_. None) (now # ticks), True)
        | x # rest \<Rightarrow>
           (let (row, over) = timetable delay ticks (now + seconds (max (delay x) 0)) rest in (Some x # row, over))))"

fun taken :: "'a option list \<Rightarrow> 'a list" where
  "taken [] = []"
| "taken (None # row) = taken row"
| "taken (Some x # row) = x # taken row"

lemma taken_none: "taken (map (\<lambda>_. None) xs) = []"
  by (induction xs) simp_all

text \<open>Ticks that never lie more than a gap apart reach every rung by the sum of the delays and gaps.\<close>

definition horizon :: "duration \<Rightarrow> ('a \<Rightarrow> int) \<Rightarrow> 'a list \<Rightarrow> duration" where
  "horizon gap delay xs = gap + sum_list (map (\<lambda>x. seconds (max (delay x) 0) + gap) xs)"

lemma horizon_simps [simp]:
  "horizon gap delay [] = gap"
  "horizon gap delay (x # xs) = seconds (max (delay x) 0) + gap + horizon gap delay xs"
  by (simp_all add: horizon_def)

lemma timetable_map: "timetable delay ticks due (map f xs) =
    (map (map_option f) (fst (timetable (delay \<circ> f) ticks due xs)), snd (timetable (delay \<circ> f) ticks due xs))"
  by (induction "delay \<circ> f" ticks due xs rule: timetable.induct) (auto simp: split_beta Let_def split: list.split)

lemma horizon_ge: "0 \<le> gap \<Longrightarrow> gap \<le> horizon gap delay xs"
  by (induction xs) (auto simp: seconds_def nanos_per_sec_def)

lemma timetable_complete:
  assumes "0 < gap" "successively (\<lambda>a b. a \<le> b \<and> b \<le> a + gap) (prev # ticks)" "prev \<le> due"
    and "due + horizon gap delay xs \<le> last (prev # ticks)"
  shows "taken (fst (timetable delay ticks due xs)) = xs \<and> snd (timetable delay ticks due xs)"
  using assms
proof (induction delay ticks due xs arbitrary: prev rule: timetable.induct)
  case (1 delay due xs)
  then show ?case using horizon_ge [of gap delay xs] by simp
next
  case (2 delay now ticks due xs)
  then have step: "successively (\<lambda>a b. a \<le> b \<and> b \<le> a + gap) (now # ticks)" "now \<le> prev + gap" by auto
  show ?case
  proof (cases "now < due")
    case True
    then have "taken (fst (timetable delay ticks due xs)) = xs \<and> snd (timetable delay ticks due xs)"
      using 2(1) [OF True _ step(1)] 2 by auto
    then show ?thesis using True by (simp add: split_beta Let_def)
  next
    case False
    note late = this
    show ?thesis
    proof (cases xs)
      case Nil
      then show ?thesis using False by (simp add: taken_none)
    next
      case (Cons x rest)
      let ?due = "now + seconds (max (delay x) 0)"
      have "now \<le> ?due" by (simp add: seconds_def nanos_per_sec_def)
      moreover have "?due + horizon gap delay rest \<le> last (now # ticks)"
        using 2(6) step(2) 2(5) Cons by simp
      ultimately have "taken (fst (timetable delay ticks ?due rest)) = rest \<and> snd (timetable delay ticks ?due rest)"
        using 2(2) [OF late Cons 2(3) step(1)] by blast
      then show ?thesis using late Cons by (simp add: split_beta Let_def)
    qed
  qed
qed

section \<open>The engine keeps the timetable\<close>

definition page_delay :: "int \<times> int \<times> int \<Rightarrow> int" where
  "page_delay pg = snd (snd pg)"

definition turn_pages :: "('a \<Rightarrow> page_event list) \<Rightarrow> 'a option \<Rightarrow> page_event list" where
  "turn_pages send turn = (case turn of None \<Rightarrow> [] | Some x \<Rightarrow> send x)"

lemma turn_pages_simps [simp]: "turn_pages send None = []" "turn_pages send (Some x) = send x"
  by (simp_all add: turn_pages_def)

lemma zip_same_none: "map (\<lambda>x. turn_pages (f x) (snd x)) (zip ticks (map (\<lambda>_. None) ticks)) = map (\<lambda>_. []) ticks"
  by (induction ticks) simp_all

lemma engine_after_removal:
  assumes "states_keyed (s\<lparr>m_escalation_states := x\<rparr>)" "hm_get x k = None"
  shows "map (pages_for k) (fst (run_escalation_engine tz base ticks (s\<lparr>m_escalation_states := x\<rparr>))) = map (\<lambda>_. []) ticks \<and>
    get_escalation_state (snd (run_escalation_engine tz base ticks (s\<lparr>m_escalation_states := x\<rparr>))) k = None"
  using assms
proof (induction ticks arbitrary: x)
  case (Cons now ticks)
  obtain sent s1 where sw: "engine_sweep tz base now (s\<lparr>m_escalation_states := x\<rparr>) = (sent, s1)" by fastforce
  from sweep_one [OF Cons.prems(1) sw, of k] Cons.prems(2) obtain x' where
    "s1 = s\<lparr>m_escalation_states := x'\<rparr>" "states_keyed (s\<lparr>m_escalation_states := x'\<rparr>)" "pages_for k sent = []" "hm_get x' k = None"
    by auto
  with Cons.IH sw show ?case by (simp add: split_beta)
qed (simp add: get_escalation_state_def)

lemma engine_keeps_timetable:
  assumes "get_incident s k = Ok i" "inc_ended_at i = None" "get_escalation_policy s pid = Ok p"
    and "states_keyed (s\<lparr>m_escalation_states := x\<rparr>)" "hm_get x k = Some st" "ies_policy_id st = pid" "\<not> ies_acked st"
    and "tt = timetable page_delay ticks (ies_next_check_at st)
           (walk (ep_steps p) (ep_repeat_count p) (ies_current_level st) (ies_current_round st))"
  shows "map (pages_for k) (fst (run_escalation_engine tz base ticks (s\<lparr>m_escalation_states := x\<rparr>))) =
      map2 (\<lambda>now. turn_pages (\<lambda>pg. rung_pages tz base s i p now (fst pg))) ticks (fst tt) \<and>
    (get_escalation_state (snd (run_escalation_engine tz base ticks (s\<lparr>m_escalation_states := x\<rparr>))) k = None \<longleftrightarrow> snd tt)"
  using assms(4-8)
proof (induction ticks arbitrary: x st tt)
  case Nil
  then show ?case by (simp add: get_escalation_state_def)
next
  case (Cons now ticks)
  let ?s = "s\<lparr>m_escalation_states := x\<rparr>"
  let ?next = "next_step (ep_steps p) (ep_repeat_count p) (ies_current_level st) (ies_current_round st)"
  have id: "ies_incident_id st = k" using Cons.prems(1) hm_get_entry [OF Cons.prems(2)] by (auto simp: states_keyed_def)
  obtain sent s1 where sw: "engine_sweep tz base now ?s = (sent, s1)" by fastforce
  obtain x' where s1: "s1 = s\<lparr>m_escalation_states := x'\<rparr>" and keyed: "states_keyed (s\<lparr>m_escalation_states := x'\<rparr>)"
    and one: "if now < ies_next_check_at st then pages_for k sent = [] \<and> hm_get x' k = Some st
        else pages_for k sent = fst (snd (advance_state tz base now st ?s)) \<and>
          hm_get x' k = get_escalation_state (snd (snd (advance_state tz base now st ?s))) k"
    using sweep_one [OF Cons.prems(1) sw, of k] Cons.prems(2,4) by auto
  have run: "run_escalation_engine tz base (now # ticks) ?s =
      (sent # fst (run_escalation_engine tz base ticks s1), snd (run_escalation_engine tz base ticks s1))"
    by (simp add: sw split_beta)
  show ?case
  proof (cases "now < ies_next_check_at st")
    case True
    with one Cons.IH [OF keyed _ Cons.prems(3,4) refl] show ?thesis
      unfolding run Cons.prems(5) by (simp add: s1 split_beta Let_def)
  next
    case False
    show ?thesis
    proof (cases ?next)
      case Exhausted
      then have w: "walk (ep_steps p) (ep_repeat_count p) (ies_current_level st) (ies_current_round st) = []"
        by (subst walk.simps) simp
      have "advance_state tz base now st ?s = (Ok (), [], s\<lparr>m_escalation_states := hm_remove k x\<rparr>)"
        using advance_exhausted [of ?s st i p] assms(1-3) Exhausted id Cons.prems(3) by simp
      with one False have "pages_for k sent = [] \<and> hm_get x' k = None" by (simp add: get_escalation_state_def)
      with engine_after_removal [OF keyed, of k tz base ticks] show ?thesis
        unfolding run Cons.prems(5) w using False by (simp add: s1 split_beta zip_same_none)
    next
      case (Page l r d)
      let ?st' = "st\<lparr>ies_current_level := l, ies_current_round := r, ies_last_paged_at := now,
        ies_next_check_at := now + seconds (max d 0)\<rparr>"
      have w: "walk (ep_steps p) (ep_repeat_count p) (ies_current_level st) (ies_current_round st) =
          (l, r, d) # walk (ep_steps p) (ep_repeat_count p) l r"
        using Page by (subst walk.simps) simp
      have "advance_state tz base now st ?s = (Ok (), rung_pages tz base s i p now l, s\<lparr>m_escalation_states := hm_insert k ?st' x\<rparr>)"
        using advance_page [of ?s st i p l r d] assms(1-3) Page id Cons.prems(3) by simp
      with one False have "pages_for k sent = rung_pages tz base s i p now l \<and> hm_get x' k = Some ?st'"
        by (simp add: get_escalation_state_def)
      with Cons.IH [OF keyed, of ?st'] Cons.prems(3,4) show ?thesis
        unfolding run Cons.prems(5) w using False by (simp add: s1 split_beta Let_def page_delay_def [of "(l, r, d)"])
    qed
  qed
qed

text \<open>The ladder of a policy: all its steps, once for each round, in order.\<close>

definition ladder :: "escalation_policy \<Rightarrow> (int \<times> escalation_step) list" where
  "ladder p = concat (map (\<lambda>r. map (Pair r) (ep_steps p)) [0..max 0 (ep_repeat_count p)])"

definition ascending :: "escalation_policy \<Rightarrow> bool" where
  "ascending p \<longleftrightarrow> sorted_wrt (<) (map es_level (ep_steps p)) \<and> list_all (\<lambda>x. 0 < es_level x) (ep_steps p)"

definition step_pages ::
  "(string \<Rightarrow> zone option) \<Rightarrow> string \<Rightarrow> mem \<Rightarrow> incident \<Rightarrow> instant \<Rightarrow> int \<times> escalation_step \<Rightarrow> page_event list" where
  "step_pages tz base s i now rung = concat (map (dispatch_target tz base now s i) (es_targets (snd rung)))"

lemma ascending_walk:
  assumes "ascending p"
  shows "walk (ep_steps p) (ep_repeat_count p) 0 0 = map (\<lambda>x. page_of (fst x) (snd x)) (ladder p)"
proof -
  have pos: "\<And>x. x \<in> set (ep_steps p) \<Longrightarrow> 0 < es_level x" using assms by (simp add: ascending_def list_all_iff)
  then have "rungs_above 0 (ep_steps p) = ep_steps p" using assms by (intro rungs_above_sorted) (auto simp: ascending_def)
  then show ?thesis using walk_rounds [of "ep_steps p" "ep_repeat_count p" 0] pos
    by (simp add: ladder_def map_concat o_def)
qed

lemma sorted_find_level:
  assumes "sorted_wrt (<) (map es_level xs)" "x \<in> set xs"
  shows "find (\<lambda>y. es_level y = es_level x) xs = Some x"
  using assms by (induction xs) auto

lemma ascending_rung_pages:
  "ascending p \<Longrightarrow> x \<in> set (ladder p) \<Longrightarrow> rung_pages tz base s i p now (es_level (snd x)) = step_pages tz base s i now x"
  using sorted_find_level [of "ep_steps p" "snd x"]
  by (auto simp: rung_pages_def step_pages_def ascending_def ladder_def)

lemma taken_subset: "set (taken (fst (timetable delay ticks due xs))) \<subseteq> set xs"
proof (induction delay ticks due xs rule: timetable.induct)
  case (2 delay now ticks due xs)
  then show ?case by (cases xs) (auto simp: split_beta Let_def taken_none)
qed simp

lemma turn_in_ladder: "Some x \<in> set row \<Longrightarrow> x \<in> set (taken row)"
  by (induction row rule: taken.induct) auto

lemma engine_ladder_run:
  assumes "states_keyed s" "get_incident s k = Ok i" "inc_ended_at i = None"
    and "get_escalation_state s k = Some st" "ies_current_level st = 0" "ies_current_round st = 0" "\<not> ies_acked st"
    and "get_escalation_policy s (ies_policy_id st) = Ok p" "ascending p"
    and "tt = timetable (\<lambda>x. es_delay_secs (snd x)) ticks (ies_next_check_at st) (ladder p)"
  shows "map (pages_for k) (fst (run_escalation_engine tz base ticks s)) =
      map2 (\<lambda>now. turn_pages (step_pages tz base s i now)) ticks (fst tt) \<and>
    (get_escalation_state (snd (run_escalation_engine tz base ticks s)) k = None \<longleftrightarrow> snd tt) \<and>
    (0 < gap \<and> successively (\<lambda>a b. a \<le> b \<and> b \<le> a + gap) ticks \<and> ticks \<noteq> [] \<and> hd ticks \<le> ies_next_check_at st \<and>
       ies_next_check_at st + horizon gap (\<lambda>x. es_delay_secs (snd x)) (ladder p) \<le> last ticks \<longrightarrow>
     taken (fst tt) = ladder p \<and> snd tt)"
proof -
  let ?f = "\<lambda>x. page_of (fst x) (snd x)"
  have delay: "page_delay \<circ> ?f = (\<lambda>x. es_delay_secs (snd x))" by (auto simp: page_delay_def page_of_def)
  have s: "s\<lparr>m_escalation_states := m_escalation_states s\<rparr> = s" by simp
  have run: "map (pages_for k) (fst (run_escalation_engine tz base ticks s)) =
      map2 (\<lambda>now. turn_pages (\<lambda>pg. rung_pages tz base s i p now (fst pg))) ticks (map (map_option ?f) (fst tt)) \<and>
      (get_escalation_state (snd (run_escalation_engine tz base ticks s)) k = None \<longleftrightarrow> snd tt)"
    using engine_keeps_timetable [OF assms(2,3,8), of "m_escalation_states s" st _ ticks tz base] assms(1,4-7,10)
    by (simp add: get_escalation_state_def ascending_walk [OF assms(9)] timetable_map delay)
  have rung: "x \<in> set (ladder p)" if "Some x \<in> set (fst tt)" for x
    using turn_in_ladder [OF that] taken_subset unfolding assms(10) by (rule subsetD [rotated])
  have same: "turn_pages (\<lambda>pg. rung_pages tz base s i p now (fst pg)) (map_option ?f turn) = turn_pages (step_pages tz base s i now) turn"
    if "turn \<in> set (fst tt)" for now turn
  proof (cases turn)
    case (Some x)
    then show ?thesis using ascending_rung_pages [OF assms(9) rung] that by (simp add: page_of_def)
  qed simp
  have pages: "map2 (\<lambda>now. turn_pages (\<lambda>pg. rung_pages tz base s i p now (fst pg))) ticks (map (map_option ?f) (fst tt)) =
      map2 (\<lambda>now. turn_pages (step_pages tz base s i now)) ticks (fst tt)"
    using same by (auto simp: zip_map2 dest: set_zip_rightD)
  have complete: "taken (fst tt) = ladder p \<and> snd tt"
    if "0 < gap" "successively (\<lambda>a b. a \<le> b \<and> b \<le> a + gap) ticks" "ticks \<noteq> []" "hd ticks \<le> ies_next_check_at st"
      "ies_next_check_at st + horizon gap (\<lambda>x. es_delay_secs (snd x)) (ladder p) \<le> last ticks"
  proof -
    have "successively (\<lambda>a b. a \<le> b \<and> b \<le> a + gap) (hd ticks # ticks)" using that(1-3) by (cases ticks) auto
    from timetable_complete [OF that(1) this that(4)] that(3,5) show ?thesis unfolding assms(10) by simp
  qed
  from run complete show ?thesis unfolding pages by blast
qed

text \<open>
  C3: The engine pages every step of an ascending policy in every round and
  then stops.  The engine sweeps at any ticks over a store with any other
  states.  For an open, unacknowledged incident that has not been paged yet,
  whose policy lists ascending levels, the pages of each sweep are exactly
  those the timetable gives: one step of the ladder at the first tick at or
  after it is due, the next due the delay of the step later, and nothing
  otherwise; the state is removed once a tick comes after the last step is
  due.  When the ticks begin no later than the state is due, are never more
  than a gap apart and go on for the delays of all steps and one gap each, every step of
  every round has been paged in order and the state is removed.
\<close>

theorem engine_pages_whole_ladder:
  assumes "states_keyed s" "get_incident s k = Ok i" "inc_ended_at i = None"
    and "get_escalation_state s k = Some st" "ies_current_level st = 0" "ies_current_round st = 0" "\<not> ies_acked st"
    and "get_escalation_policy s (ies_policy_id st) = Ok p" "ascending p"
    and "tt = timetable (\<lambda>x. es_delay_secs (snd x)) ticks (ies_next_check_at st) (ladder p)"
  shows "map (pages_for k) (fst (run_escalation_engine tz base ticks s)) =
      map2 (\<lambda>now. turn_pages (step_pages tz base s i now)) ticks (fst tt) \<and>
    (get_escalation_state (snd (run_escalation_engine tz base ticks s)) k = None \<longleftrightarrow> snd tt) \<and>
    (0 < gap \<and> successively (\<lambda>a b. a \<le> b \<and> b \<le> a + gap) ticks \<and> ticks \<noteq> [] \<and> hd ticks \<le> ies_next_check_at st \<and>
       ies_next_check_at st + horizon gap (\<lambda>x. es_delay_secs (snd x)) (ladder p) \<le> last ticks \<longrightarrow>
     taken (fst tt) = ladder p \<and> snd tt)"
  using engine_ladder_run [OF assms] .

definition sample_policy :: escalation_policy where
  "sample_policy =
     \<lparr>ep_id = 7, ep_name = ''p'', ep_description = None, ep_repeat_count = 1,
      ep_steps = [\<lparr>es_id = 8, es_level = 1, es_delay_secs = 60,
        es_targets = [\<lparr>et_id = 9, et_target_type = escalation_target_type.User, et_user_id = Some 4,
                       et_schedule_id = None, et_channel_id = None\<rparr>]\<rparr>],
      ep_created_at = 0, ep_updated_at = 0\<rparr>"

definition sample_state :: incident_escalation_state where
  "sample_state = \<lparr>ies_incident_id = 1, ies_policy_id = 7, ies_current_level = 0, ies_current_round = 0,
     ies_last_paged_at = 0, ies_next_check_at = 0, ies_acked = False\<rparr>"

definition paging_store :: mem where
  "paging_store = new_storage\<lparr>m_incidents := [(1, sample_incident 1 0)], m_escalation_policies := [(7, sample_policy)],
     m_escalation_states := [(1, sample_state)]\<rparr>"

lemma paging_store_facts:
  "get_incident paging_store 1 = Ok (sample_incident 1 0)"
  "inc_ended_at (sample_incident 1 0) = None"
  "get_escalation_state paging_store 1 = Some sample_state"
  "ies_incident_id sample_state = 1"
  "get_escalation_policy paging_store (ies_policy_id sample_state) = Ok sample_policy"
  by (simp_all add: paging_store_def get_incident_def get_escalation_state_def get_escalation_policy_def
      sample_state_def sample_incident_def new_incident_def hm_get_def)

lemma sample_ladder: "ladder sample_policy = map (\<lambda>r. (r, hd (ep_steps sample_policy))) [0, 1]"
  by (simp add: ladder_def sample_policy_def upto.simps)

lemma paging_store_keyed: "states_keyed paging_store"
  by (simp add: states_keyed_def paging_store_def sample_state_def hm_ok_def)

lemma sample_ascending: "ascending sample_policy"
  by (simp add: ascending_def sample_policy_def)

lemma engine_pages_whole_ladder_witness:
  "map (pages_for 1) (fst (run_escalation_engine (\<lambda>_. None) [] (map seconds [0, 30, 60, 90, 120, 150]) paging_store)) =
     map2 (\<lambda>now. turn_pages (step_pages (\<lambda>_. None) [] paging_store (sample_incident 1 0) now)) (map seconds [0, 30, 60, 90, 120, 150])
       [Some (0, hd (ep_steps sample_policy)), None, Some (1, hd (ep_steps sample_policy)), None, None, None] \<and>
   get_escalation_state (snd (run_escalation_engine (\<lambda>_. None) [] (map seconds [0, 30, 60, 90, 120, 150]) paging_store)) 1 = None"
proof -
  have start: "ies_current_level sample_state = 0" "ies_current_round sample_state = 0" "\<not> ies_acked sample_state"
    by (simp_all add: sample_state_def)
  have tt: "timetable (\<lambda>x. es_delay_secs (snd x)) (map seconds [0, 30, 60, 90, 120, 150]) (ies_next_check_at sample_state) (ladder sample_policy)
      = ([Some (0, hd (ep_steps sample_policy)), None, Some (1, hd (ep_steps sample_policy)), None, None, None], True)"
    unfolding sample_ladder by (simp add: sample_policy_def sample_state_def seconds_def nanos_per_sec_def)
  show ?thesis
    using engine_pages_whole_ladder [OF paging_store_keyed paging_store_facts(1,2,3) start paging_store_facts(5) sample_ascending tt [symmetric],
        of "\<lambda>_. None" "[]"] unfolding fst_conv snd_conv by blast
qed

section \<open>Acknowledgement\<close>

lemma acked_not_due: "hm_ok (m_escalation_states s) \<Longrightarrow> get_escalation_state s k = Some st \<Longrightarrow> ies_acked st \<Longrightarrow>
    ies_incident_id st = k \<Longrightarrow> st \<notin> set (list_due_escalation_states s now)"
  by (simp add: list_due_escalation_states_def)

lemma unacked_due: "get_escalation_state s k = Some st \<Longrightarrow> \<not> ies_acked st \<Longrightarrow> ies_next_check_at st \<le> now \<Longrightarrow>
    st \<in> set (list_due_escalation_states s now)"
  by (auto simp: list_due_escalation_states_def get_escalation_state_def dest: hm_get_in_values)

text \<open>
  An acknowledgement that arrives while a sweep is running is lost.  If
  the engine has read a due state, the incident is then acknowledged, and the
  engine goes on to page the next rung of the copy it read, the stored state
  is unacknowledged again and due again after the delay of the rung.
\<close>

theorem acknowledgement_during_sweep_is_lost:
  assumes "st \<in> set (list_due_escalation_states s now)" "get_escalation_state s (ies_incident_id st) = Some st"
    and "get_incident s (ies_incident_id st) = Ok i" "inc_ended_at i = None"
    and "get_escalation_policy s (ies_policy_id st) = Ok p"
    and "next_step (ep_steps p) (ep_repeat_count p) (ies_current_level st) (ies_current_round st) = Page l r d"
  shows "let s1 = snd (ack_escalation_state (ies_incident_id st) s);
             s2 = snd (snd (advance_state tz base now st s1));
             st2 = the (get_escalation_state s2 (ies_incident_id st))
         in ies_acked (the (get_escalation_state s1 (ies_incident_id st))) \<and>
            \<not> ies_acked st2 \<and> st2 \<in> set (list_due_escalation_states s2 (now + seconds (max d 0)))"
proof -
  let ?k = "ies_incident_id st"
  let ?s1 = "s\<lparr>m_escalation_states := hm_insert ?k (st\<lparr>ies_acked := True\<rparr>) (m_escalation_states s)\<rparr>"
  let ?st2 = "st\<lparr>ies_current_level := l, ies_current_round := r, ies_last_paged_at := now,
                  ies_next_check_at := now + seconds (max d 0)\<rparr>"
  let ?s2 = "?s1\<lparr>m_escalation_states := hm_insert ?k ?st2 (m_escalation_states ?s1)\<rparr>"
  have ack: "ack_escalation_state ?k s = (Ok (), ?s1)"
    using assms(2) by (simp add: ack_escalation_state_def get_escalation_state_def)
  have adv: "snd (snd (advance_state tz base now st ?s1)) = ?s2"
    using advance_page [of ?s1 st i p l r d tz base now] assms(3-6) by simp
  have unacked: "\<not> ies_acked st" using assms(1) by (simp add: list_due_escalation_states_def)
  have get2: "get_escalation_state ?s2 ?k = Some ?st2" by (simp add: get_escalation_state_def)
  have due: "?st2 \<in> set (list_due_escalation_states ?s2 (now + seconds (max d 0)))"
    using unacked_due [OF get2] unacked by simp
  have get1: "get_escalation_state ?s1 ?k = Some (st\<lparr>ies_acked := True\<rparr>)" by (simp add: get_escalation_state_def)
  show ?thesis
    unfolding Let_def ack snd_conv adv get1 get2 option.sel using due unacked by simp
qed

lemma acknowledgement_during_sweep_is_lost_witness:
  "\<not> ies_acked (the (get_escalation_state
      (snd (snd (advance_state (\<lambda>_. None) [] 0 sample_state (snd (ack_escalation_state 1 paging_store))))) 1))"
proof -
  have due: "sample_state \<in> set (list_due_escalation_states paging_store 0)"
    using unacked_due [OF paging_store_facts(3)] by (simp add: sample_state_def)
  have get: "get_escalation_state paging_store (ies_incident_id sample_state) = Some sample_state"
    "get_incident paging_store (ies_incident_id sample_state) = Ok (sample_incident 1 0)"
    using paging_store_facts by simp_all
  have step: "next_step (ep_steps sample_policy) (ep_repeat_count sample_policy) (ies_current_level sample_state)
      (ies_current_round sample_state) = Page 1 0 60"
    by (simp add: next_step_def sample_policy_def sample_state_def)
  show ?thesis
    using acknowledgement_during_sweep_is_lost [OF due get paging_store_facts(2,5) step, of "\<lambda>_. None" "[]"]
    by (simp add: Let_def paging_store_facts(4))
qed

lemma apply_incident_ops_escalation_states:
  "m_escalation_states (snd (apply_incident_ops a b c k p s)) = m_escalation_states s"
  by (auto simp: apply_incident_ops_def Let_def split: option.splits sum.splits)

text \<open>
  Only the patch endpoint stops the paging.  Acknowledging or resolving
  an incident through its own endpoint leaves every escalation state as it is,
  so the same states stay due; the patch endpoint with the same transition
  marks the state acknowledged, or removes it, whenever it succeeds.
\<close>

theorem convenience_endpoints_keep_paging:
  "list_due_escalation_states (snd (acknowledge_incident now k s)) later = list_due_escalation_states s later \<and>
   list_due_escalation_states (snd (resolve_incident now k s)) later = list_due_escalation_states s later \<and>
   (is_ok (fst (patch_incident_ops now k (to_patch transition_request.Acknowledge) s)) \<longrightarrow>
      get_escalation_state (snd (patch_incident_ops now k (to_patch transition_request.Acknowledge) s)) k =
        map_option (\<lambda>st. st\<lparr>ies_acked := True\<rparr>) (get_escalation_state s k)) \<and>
   (is_ok (fst (patch_incident_ops now k (to_patch transition_request.Resolve) s)) \<longrightarrow>
      get_escalation_state (snd (patch_incident_ops now k (to_patch transition_request.Resolve) s)) k = None)"
proof -
  have states: "m_escalation_states s1 = m_escalation_states s"
    if "apply_incident_ops now now now k p s = (r, s1)" for p r s1
    using apply_incident_ops_escalation_states [of now now now k p s] that by simp
  show ?thesis
    by (auto simp: acknowledge_incident_def resolve_incident_def list_due_escalation_states_def
        apply_incident_ops_escalation_states patch_incident_ops_def to_patch_def ack_escalation_state_def
        delete_escalation_state_def get_escalation_state_def
        split: prod.splits sum.splits option.splits dest!: states)
qed

lemma convenience_endpoints_keep_paging_witness:
  "list_due_escalation_states (snd (acknowledge_incident 0 1 paging_store)) 0 =
     list_due_escalation_states paging_store 0 \<and>
   get_escalation_state (snd (patch_incident_ops 0 1 (to_patch transition_request.Acknowledge) paging_store)) 1 =
     Some (sample_state\<lparr>ies_acked := True\<rparr>)"
proof -
  have "is_ok (fst (patch_incident_ops 0 1 (to_patch transition_request.Acknowledge) paging_store))"
    by code_simp
  then show ?thesis
    using convenience_endpoints_keep_paging [of 0 1 paging_store 0] paging_store_facts(3) by simp
qed

end
