(* ===== verification/Incident_Writer.thy ===== *)
theory Incident_Writer
  imports Escalation_Engine Subscriber_Dispatch
begin

text \<open>
  \<open>bin/status-server/src/incident_writer.rs\<close> and
  \<open>incident_writer/channel_dispatch.rs\<close>: the coalescer that opens and closes
  incidents from the stream of check results, queues deliveries for the
  subscribers of the status pages, alerts the channels bound to the target and
  starts or drops the escalation of the incident.

  An evaluation reads the open incident of the target once
  (\<open>find_open_incident_for_target\<close>) and then writes, with other tasks in
  between: \<open>apply_decision\<close> is the part after the read, so that the interleaving
  of two evaluations is the composition of two of them.  The parameters are the
  renderer of formatted messages (the \<open>Display\<close> of UUIDs and times), the clock
  and the supply of fresh identifiers; an identifier is drawn at the index that
  counts the rows already stored.  Alerts are the list of sends that are
  spawned; their outcome is ignored by the code.
\<close>

section \<open>Channel alerts\<close>

record email_address =
  ea_address :: string
  ea_name :: string

record channel_dispatch_ctx =
  dc_from_address :: email_address
  dc_public_base_url :: string

datatype (plugins only: code) notice_reason = Opened | Resolved | Reopened | Escalated

fun notice_reason_as_str :: "notice_reason \<Rightarrow> string" where
  "notice_reason_as_str Opened = ''opened''"
| "notice_reason_as_str notice_reason.Resolved = ''resolved''"
| "notice_reason_as_str Reopened = ''reopened''"
| "notice_reason_as_str Escalated = ''escalated''"

datatype channel_alert =
    EmailAlert uuid email_address email_address message
  | NoticeAlert uuid channel_config string incident notice_reason

fun alert_channel :: "channel_alert \<Rightarrow> uuid" where
  "alert_channel (EmailAlert c _ _ _) = c"
| "alert_channel (NoticeAlert c _ _ _ _) = c"

definition nl :: frag where
  "nl = Lit [newline]"

fun severity_label :: "incident_severity \<Rightarrow> string" where
  "severity_label Minor = ''MINOR''"
| "severity_label Major = ''MAJOR''"
| "severity_label Critical = ''CRITICAL''"

definition format_incident_body :: "incident \<Rightarrow> notice_reason \<Rightarrow> message" where
  "format_incident_body i reason =
     [Lit ''['', Lit (severity_label (inc_severity i)), Lit ''] incident '', Lit (notice_reason_as_str reason), nl] @
     (case inc_public_title i of Some t \<Rightarrow> [Lit ''Title: '', Lit t, nl] | None \<Rightarrow> []) @
     (case inc_public_description i of Some d \<Rightarrow> [Lit ''Description: '', Lit d, nl] | None \<Rightarrow> []) @
     [Lit ''Started: '', Num (inc_started_at i), nl] @
     (case inc_ended_at i of Some e \<Rightarrow> [Lit ''Ended: '', Num e, nl] | None \<Rightarrow> [Lit ''Status: ongoing'', nl]) @
     (case inc_duration_secs i of Some d \<Rightarrow> [Lit ''Duration: '', Num (int d), Lit ''s'', nl] | None \<Rightarrow> [])"

definition send_email_alert ::
  "channel_dispatch_ctx \<Rightarrow> uuid \<Rightarrow> string \<Rightarrow> incident \<Rightarrow> notice_reason \<Rightarrow> channel_alert" where
  "send_email_alert ctx channel_id to i reason =
     EmailAlert channel_id \<lparr>ea_address = to, ea_name = to\<rparr> (dc_from_address ctx) (format_incident_body i reason)"

fun notice_reason_of :: "delivery_reason \<Rightarrow> notice_reason" where
  "notice_reason_of IncidentOpened = Opened"
| "notice_reason_of IncidentResolved = notice_reason.Resolved"
| "notice_reason_of _ = Opened"

definition dispatch_to_channel ::
  "mem \<Rightarrow> channel_dispatch_ctx \<Rightarrow> silence_rule list \<Rightarrow> target \<Rightarrow> incident \<Rightarrow> delivery_reason \<Rightarrow> uuid \<Rightarrow> channel_alert list" where
  "dispatch_to_channel s ctx active_silences t i reason binding =
     (case get_notification_channel s binding of
        Inl _ \<Rightarrow> []
      | Inr c \<Rightarrow>
         if \<not> nc_enabled c then []
         else if awaiting_verification c then []
         else if list_ex (\<lambda>r. silence_matches r (tg_id t) (Some (nc_id c)) reason) active_silences then []
         else (case nc_config c of
              channel_config.Email to \<Rightarrow> [send_email_alert ctx (nc_id c) to i (notice_reason_of reason)]
            | cfg \<Rightarrow> [NoticeAlert (nc_id c) cfg (nc_name c) i (notice_reason_of reason)]))"

definition dispatch_to_target_channels ::
  "mem \<Rightarrow> instant \<Rightarrow> channel_dispatch_ctx \<Rightarrow> incident \<Rightarrow> delivery_reason \<Rightarrow> channel_alert list" where
  "dispatch_to_target_channels s now ctx i reason =
     (if inc_target_id i = nil_uuid then []
      else (case get_target s (inc_target_id i) of
         Inl _ \<Rightarrow> []
       | Inr t \<Rightarrow>
          if tg_alerts t = [] then []
          else concat (map (dispatch_to_channel s ctx (list_active_silences_for_target s now (tg_id t)) t i reason)
                 (tg_alerts t))))"

section \<open>Escalation seed\<close>

definition seed_escalation_state :: "instant \<Rightarrow> uuid \<Rightarrow> uuid \<Rightarrow> mem \<Rightarrow> mem" where
  "seed_escalation_state now target_id incident_id s =
     (case get_target s target_id of
        Inl _ \<Rightarrow> s
      | Inr t \<Rightarrow>
         (case tg_escalation_policy_id t of
            None \<Rightarrow> s
          | Some policy_id \<Rightarrow>
             (let first_step_delay_secs =
                    (case get_escalation_policy s policy_id of
                       Inl _ \<Rightarrow> 0
                     | Inr p \<Rightarrow> (case ep_steps p of [] \<Rightarrow> 0 | step # _ \<Rightarrow> max (es_delay_secs step) 0))
              in snd (upsert_escalation_state
                   \<lparr>ies_incident_id = incident_id, ies_policy_id = policy_id, ies_current_level = 0,
                    ies_current_round = 0, ies_last_paged_at = now,
                    ies_next_check_at = now + seconds first_step_delay_secs, ies_acked = False\<rparr> s))))"

section \<open>Subscriber deliveries\<close>

definition reason_word :: "delivery_reason \<Rightarrow> string" where
  "reason_word reason =
     (case reason of IncidentOpened \<Rightarrow> ''opened'' | IncidentResolved \<Rightarrow> ''resolved'' | _ \<Rightarrow> ''updated'')"

definition delivery_payload :: "incident \<Rightarrow> delivery_reason \<Rightarrow> message" where
  "delivery_payload i reason =
     [Lit ''incident '', Lit (reason_word reason), Lit '' '', Id (inc_id i), Lit '' (target='', Id (inc_target_id i),
      Lit '', severity='', Lit (severity_as_db_str (inc_severity i)), Lit '', started='', Num (inc_started_at i), Lit '')'']"

definition pages_with_target :: "mem \<Rightarrow> uuid \<Rightarrow> uuid list" where
  "pages_with_target s target_id =
     map sp_id (filter (\<lambda>p. sp_enabled p \<and>
         list_ex (\<lambda>c. spc_target_id c = target_id) (list_status_page_components s (sp_id p)))
       (list_status_pages s))"

fun enqueue_page ::
  "(nat \<Rightarrow> uuid) \<Rightarrow> instant \<Rightarrow> string \<Rightarrow> delivery_reason \<Rightarrow> uuid \<Rightarrow> subscriber list \<Rightarrow> mem \<Rightarrow> mem" where
  "enqueue_page fresh now payload reason page [] s = s"
| "enqueue_page fresh now payload reason page (x # xs) s =
     enqueue_page fresh now payload reason page xs
       (if \<not> is_verified x then s
        else (case subscriber_channel_from_db_str (subscriber_channel_as_db_str (sub_channel x)) of
           None \<Rightarrow> s
         | Some channel \<Rightarrow>
            snd (enqueue_delivery now (fresh (length (m_subscriber_deliveries s))) (sub_id x) page channel
              (sub_target x) payload reason s)))"

fun enqueue_pages ::
  "(nat \<Rightarrow> uuid) \<Rightarrow> instant \<Rightarrow> string \<Rightarrow> delivery_reason \<Rightarrow> uuid list \<Rightarrow> mem \<Rightarrow> mem" where
  "enqueue_pages fresh now payload reason [] s = s"
| "enqueue_pages fresh now payload reason (page # pages) s =
     enqueue_pages fresh now payload reason pages
       (enqueue_page fresh now payload reason page (list_subscribers s page) s)"

definition enqueue_subscriber_deliveries ::
  "(message \<Rightarrow> string) \<Rightarrow> (nat \<Rightarrow> uuid) \<Rightarrow> instant \<Rightarrow> incident \<Rightarrow> delivery_reason \<Rightarrow> mem \<Rightarrow> mem" where
  "enqueue_subscriber_deliveries render fresh now i reason s =
     enqueue_pages fresh now (render (delivery_payload i reason)) reason (pages_with_target s (inc_target_id i)) s"

section \<open>The decision\<close>

definition FLAP_THRESHOLD :: nat where
  "FLAP_THRESHOLD = 2"

definition LOOKBACK :: nat where
  "LOOKBACK = 10"

text \<open>What an evaluation is given besides the store.\<close>

record writer_env =
  we_render :: "message \<Rightarrow> string"
  we_incident_ids :: "nat \<Rightarrow> uuid"
  we_delivery_ids :: "nat \<Rightarrow> uuid"
  we_ctx :: "channel_dispatch_ctx option"

definition auto_incident ::
  "writer_env \<Rightarrow> instant \<Rightarrow> uuid \<Rightarrow> uuid \<Rightarrow> nat \<Rightarrow> check_result \<Rightarrow> incident" where
  "auto_incident env now new_id target_id bad_run first =
     \<lparr>inc_id = new_id, inc_target_id = target_id, inc_started_at = cr_timestamp first, inc_ended_at = None,
      inc_status = cr_status first, inc_duration_secs = None, inc_check_count = bad_run,
      inc_error_sample = cr_error first, inc_severity = Major,
      inc_public_title = Some (we_render env [Lit ''Auto-detected outage for target '', Id target_id]),
      inc_public_description = cr_error first, inc_created_at = Some now, inc_updated_at = Some now,
      inc_updates = [], inc_regions_down = [], inc_regions_up = []\<rparr>"

definition auto_closed :: "instant \<Rightarrow> instant \<Rightarrow> incident \<Rightarrow> incident" where
  "auto_closed now ended_at i =
     i\<lparr>inc_ended_at := Some ended_at,
       inc_duration_secs := Some (nat (max (num_seconds (ended_at - inc_started_at i)) 0)),
       inc_updated_at := Some now\<rparr>"

definition alerts_for ::
  "writer_env \<Rightarrow> mem \<Rightarrow> instant \<Rightarrow> incident \<Rightarrow> delivery_reason \<Rightarrow> channel_alert list" where
  "alerts_for env s now i reason =
     (case we_ctx env of None \<Rightarrow> [] | Some ctx \<Rightarrow> dispatch_to_target_channels s now ctx i reason)"

fun is_conflict :: "app_error \<Rightarrow> bool" where
  "is_conflict (app_error.Conflict _ _) = True"
| "is_conflict _ = False"

definition open_incident ::
  "writer_env \<Rightarrow> instant \<Rightarrow> incident \<Rightarrow> mem \<Rightarrow> (app_error + unit) \<times> channel_alert list \<times> mem" where
  "open_incident env now i s =
     (case create_incident i s of
        (Inl e, s1) \<Rightarrow> if is_conflict e then (Ok (), [], s1) else (Err e, [], s1)
      | (Inr created, s1) \<Rightarrow>
         (let s2 = enqueue_subscriber_deliveries (we_render env) (we_delivery_ids env) now created IncidentOpened s1;
              alerts = alerts_for env s2 now created IncidentOpened
          in (Ok (), alerts, seed_escalation_state now (inc_target_id i) (inc_id created) s2)))"

definition close_incident ::
  "writer_env \<Rightarrow> instant \<Rightarrow> incident \<Rightarrow> mem \<Rightarrow> (app_error + unit) \<times> channel_alert list \<times> mem" where
  "close_incident env now updated s =
     (case update_incident updated s of
        (Inl e, s1) \<Rightarrow> (Err e, [], s1)
      | (Inr _, s1) \<Rightarrow>
         (let s2 = enqueue_subscriber_deliveries (we_render env) (we_delivery_ids env) now updated IncidentResolved s1;
              alerts = alerts_for env s2 now updated IncidentResolved
          in (Ok (), alerts, snd (delete_escalation_state (inc_id updated) s2))))"

definition apply_decision ::
  "writer_env \<Rightarrow> instant \<Rightarrow> uuid \<Rightarrow> check_result list \<Rightarrow> incident option \<Rightarrow> mem
     \<Rightarrow> (app_error + unit) \<times> channel_alert list \<times> mem" where
  "apply_decision env now target_id results opened s =
     (let ordered = rev results;
          bad_run = length (takeWhile (\<lambda>r. cr_status r \<noteq> Up) (rev ordered));
          good_run = length (takeWhile (\<lambda>r. cr_status r = Up) (rev ordered))
      in if bad_run \<ge> FLAP_THRESHOLD \<and> opened = None then
           (case find (\<lambda>r. cr_status r \<noteq> Up) ordered of
              None \<Rightarrow> (Ok (), [], s)
            | Some first \<Rightarrow>
               open_incident env now
                 (auto_incident env now (we_incident_ids env (length (m_incidents s))) target_id bad_run first) s)
         else if good_run \<ge> FLAP_THRESHOLD then
           (case opened of
              None \<Rightarrow> (Ok (), [], s)
            | Some i \<Rightarrow>
               (let ended_at = (case find (\<lambda>r. cr_status r = Up) ordered of Some r \<Rightarrow> cr_timestamp r | None \<Rightarrow> now)
                in close_incident env now (auto_closed now ended_at i) s))
         else (Ok (), [], s))"

definition decide_and_apply_incident_state ::
  "writer_env \<Rightarrow> instant \<Rightarrow> uuid \<Rightarrow> check_result list \<Rightarrow> mem \<Rightarrow> (app_error + unit) \<times> channel_alert list \<times> mem" where
  "decide_and_apply_incident_state env now target_id results s =
     apply_decision env now target_id results (find_open_incident_for_target s target_id) s"

definition evaluate_target ::
  "writer_env \<Rightarrow> instant \<Rightarrow> uuid \<Rightarrow> mem \<Rightarrow> (app_error + unit) \<times> channel_alert list \<times> mem" where
  "evaluate_target env now target_id s =
     (if is_target_in_active_maintenance s now target_id then (Ok (), [], s)
      else (let results = list_results s target_id LOOKBACK
            in if results = [] then (Ok (), [], s)
               else decide_and_apply_incident_state env now target_id results s))"

fun background_loop ::
  "writer_env \<Rightarrow> instant \<Rightarrow> (uuid \<times> check_result list) list \<Rightarrow> uuid list \<Rightarrow> mem \<Rightarrow> channel_alert list \<times> mem" where
  "background_loop env now batch [] s = ([], s)"
| "background_loop env now batch (k # ks) s =
     (case hm_get batch k of
        None \<Rightarrow> background_loop env now batch ks s
      | Some results \<Rightarrow>
         if results = [] \<or> is_target_in_active_maintenance s now k then background_loop env now batch ks s
         else (let (_, alerts, s1) = decide_and_apply_incident_state env now k results s;
                   (more, s2) = background_loop env now batch ks s1
               in (alerts @ more, s2)))"

definition run_background_sweep :: "writer_env \<Rightarrow> instant \<Rightarrow> mem \<Rightarrow> channel_alert list \<times> mem" where
  "run_background_sweep env now s =
     (let target_ids = map tg_id (filter tg_enabled (list_targets s))
      in if target_ids = [] then ([], s)
         else background_loop env now (recent_results_for_targets s target_ids LOOKBACK) target_ids s)"

section \<open>The effect on each table\<close>

text \<open>The subscribers to be told: the verified ones of the enabled pages that show the target, page by page.\<close>

definition audience :: "mem \<Rightarrow> uuid \<Rightarrow> (uuid \<times> subscriber) list" where
  "audience s target_id =
     concat (map (\<lambda>page. map (Pair page) (filter is_verified (list_subscribers s page))) (pages_with_target s target_id))"

definition queued :: "(nat \<Rightarrow> uuid) \<Rightarrow> instant \<Rightarrow> string \<Rightarrow> delivery_reason \<Rightarrow> nat \<times> uuid \<times> subscriber \<Rightarrow> subscriber_delivery" where
  "queued fresh now payload reason = (\<lambda>(n, page, x).
     \<lparr>sd_id = fresh n, sd_subscriber_id = sub_id x, sd_status_page_id = page, sd_channel = sub_channel x,
      sd_target = sub_target x, sd_payload = payload, sd_reason = reason, sd_status = Pending, sd_attempts = 0,
      sd_last_error = None, sd_created_at = now, sd_sent_at = None, sd_next_attempt_at = Some now\<rparr>)"

lemma subscriber_channel_roundtrip: "subscriber_channel_from_db_str (subscriber_channel_as_db_str c) = Some c"
  by (cases c) (simp_all add: subscriber_channel_from_db_str_def ALL_subscriber_channels_def)

lemma enqueue_page_queued:
  "enqueue_page fresh now payload reason page xs s =
     s\<lparr>m_subscriber_deliveries := m_subscriber_deliveries s @
        map (queued fresh now payload reason)
          (List.enumerate (length (m_subscriber_deliveries s)) (map (Pair page) (filter is_verified xs)))\<rparr>"
  by (induction xs arbitrary: s)
    (simp_all add: enqueue_delivery_def subscriber_channel_roundtrip queued_def)

lemma list_subscribers_frame [simp]: "list_subscribers (s\<lparr>m_subscriber_deliveries := x\<rparr>) page = list_subscribers s page"
  by (simp add: list_subscribers_def)

lemma enqueue_pages_queued:
  "enqueue_pages fresh now payload reason pages s =
     s\<lparr>m_subscriber_deliveries := m_subscriber_deliveries s @
        map (queued fresh now payload reason)
          (List.enumerate (length (m_subscriber_deliveries s))
            (concat (map (\<lambda>page. map (Pair page) (filter is_verified (list_subscribers s page))) pages)))\<rparr>"
  by (induction pages arbitrary: s) (simp_all add: enqueue_page_queued enumerate_append_eq)

lemma enqueue_incidents [simp]:
  "m_incidents (enqueue_subscriber_deliveries render fresh now i reason s) = m_incidents s"
  by (simp add: enqueue_subscriber_deliveries_def enqueue_pages_queued)

lemma seed_incidents [simp]: "m_incidents (seed_escalation_state now t k s) = m_incidents s"
  by (simp add: seed_escalation_state_def upsert_escalation_state_def Let_def split: sum.split option.split)

lemma delete_escalation_incidents [simp]: "m_incidents (snd (delete_escalation_state k s)) = m_incidents s"
  by (simp add: delete_escalation_state_def Let_def split: option.split)

lemma open_incident_incidents:
  "m_incidents (snd (snd (open_incident env now i s))) =
     (if hm_get (m_incidents s) (inc_id i) = None then hm_insert (inc_id i) i (m_incidents s) else m_incidents s)"
  by (simp add: open_incident_def create_incident_def Let_def incident_exists_def storage_conflict_def)

lemma close_incident_incidents:
  "m_incidents (snd (snd (close_incident env now i s))) =
     (if hm_get (m_incidents s) (inc_id i) = None then m_incidents s else hm_insert (inc_id i) i (m_incidents s))"
  by (simp add: close_incident_def update_incident_def Let_def)

section \<open>Opening and closing\<close>

definition incidents_ok :: "mem \<Rightarrow> bool" where
  "incidents_ok s \<longleftrightarrow> hm_ok (m_incidents s) \<and> (\<forall>(k, i) \<in> set (m_incidents s). inc_id i = k)"

lemma find_open_cases:
  "find_open_incident_for_target s k = None \<and>
     (\<forall>i \<in> set (hm_values (m_incidents s)). inc_target_id i = k \<longrightarrow> inc_ended_at i \<noteq> None) \<or>
   (\<exists>i. find_open_incident_for_target s k = Some i \<and> i \<in> set (hm_values (m_incidents s)) \<and>
     inc_target_id i = k \<and> inc_ended_at i = None)"
proof -
  let ?l = "sort_key (\<lambda>i. - inc_started_at i)
    (filter (\<lambda>i. inc_target_id i = k \<and> inc_ended_at i = None) (hm_values (m_incidents s)))"
  have mem: "i \<in> set ?l \<longleftrightarrow> i \<in> set (hm_values (m_incidents s)) \<and> inc_target_id i = k \<and> inc_ended_at i = None" for i
    by auto
  show ?thesis
  proof (cases ?l)
    case Nil
    then show ?thesis unfolding find_open_incident_for_target_def using mem by auto
  next
    case (Cons i rest)
    then have "i \<in> set ?l" by (simp only: list.set_intros)
    then have open_i: "i \<in> set (hm_values (m_incidents s)) \<and> inc_target_id i = k \<and> inc_ended_at i = None"
      by (simp only: mem)
    have "find_open_incident_for_target s k = Some i" unfolding find_open_incident_for_target_def Cons by simp
    then show ?thesis using open_i by blast
  qed
qed

lemma find_open_Some:
  assumes "find_open_incident_for_target s k = Some i"
  shows "i \<in> set (hm_values (m_incidents s))" "inc_target_id i = k" "inc_ended_at i = None"
  using find_open_cases [of s k] assms by auto

lemma find_open_None:
  "find_open_incident_for_target s k = None \<longleftrightarrow>
     (\<forall>i \<in> set (hm_values (m_incidents s)). inc_target_id i = k \<longrightarrow> inc_ended_at i \<noteq> None)"
  using find_open_cases [of s k] by auto

lemma incidents_ok_get: "incidents_ok s \<Longrightarrow> i \<in> set (hm_values (m_incidents s)) \<Longrightarrow> hm_get (m_incidents s) (inc_id i) = Some i"
  by (auto simp: incidents_ok_def hm_values_def hm_ok_def hm_get_def)

lemma auto_incident_fields [simp]:
  "inc_id (auto_incident env now n k b f) = n" "inc_target_id (auto_incident env now n k b f) = k"
  "inc_ended_at (auto_incident env now n k b f) = None"
  by (simp_all add: auto_incident_def)

lemma take_while_two:
  "2 \<le> length (takeWhile P rs) \<longleftrightarrow> 2 \<le> length rs \<and> P (rs ! 0) \<and> P (rs ! 1)"
  by (cases rs; cases "tl rs") auto

lemma find_rev_last: "find P (rev xs) = (if filter P xs = [] then None else Some (last (filter P xs)))"
proof (induction xs)
  case (Cons x xs)
  have "find P (ys @ [x]) = (case find P ys of Some y \<Rightarrow> Some y | None \<Rightarrow> if P x then Some x else None)" for ys
    by (induction ys) auto
  then show ?case using Cons.IH by simp
qed simp

text \<open>
  C2: When the coalescer opens and closes an incident.  Outside a maintenance
  window, an evaluation opens an incident when the two newest results of the
  target are not up and none is open, closes the open one when the two newest
  are up, and leaves every incident alone otherwise.  A new incident starts at
  the oldest non-up result among the ten newest and carries the status and
  error of that result, the number of non-up results at the head of the list
  and the severity major; a closed one ends at the oldest up result among the
  ten, with the seconds from its start to that result as its duration, at
  least zero, and keeps its other fields.
\<close>

theorem evaluation_follows_newest_results:
  assumes "incidents_ok s"
  shows "m_incidents (snd (snd (evaluate_target env now k s))) =
    (let rs = list_results s k LOOKBACK;
         opened = find_open_incident_for_target s k;
         new_id = we_incident_ids env (length (m_incidents s));
         bad = (\<lambda>r. cr_status r \<noteq> Up);
         good = (\<lambda>r. cr_status r = Up)
     in if is_target_in_active_maintenance s now k \<or> length rs < 2 then m_incidents s
        else if bad (rs ! 0) \<and> bad (rs ! 1) \<and> opened = None \<and> hm_get (m_incidents s) new_id = None then
          hm_insert new_id
            \<lparr>inc_id = new_id, inc_target_id = k, inc_started_at = cr_timestamp (last (filter bad rs)), inc_ended_at = None,
             inc_status = cr_status (last (filter bad rs)), inc_duration_secs = None, inc_check_count = length (takeWhile bad rs),
             inc_error_sample = cr_error (last (filter bad rs)), inc_severity = Major,
             inc_public_title = Some (we_render env [Lit ''Auto-detected outage for target '', Id k]),
             inc_public_description = cr_error (last (filter bad rs)), inc_created_at = Some now, inc_updated_at = Some now,
             inc_updates = [], inc_regions_down = [], inc_regions_up = []\<rparr> (m_incidents s)
        else if good (rs ! 0) \<and> good (rs ! 1) \<and> opened \<noteq> None then
          (let i = the opened; e = cr_timestamp (last (filter good rs)) in
           hm_insert (inc_id i)
             (i\<lparr>inc_ended_at := Some e, inc_duration_secs := Some (nat (max (num_seconds (e - inc_started_at i)) 0)),
                inc_updated_at := Some now\<rparr>) (m_incidents s))
        else m_incidents s)"
proof -
  let ?rs = "list_results s k LOOKBACK" and ?o = "find_open_incident_for_target s k"
  have stored: "hm_get (m_incidents s) (inc_id i) = Some i" if "?o = Some i" for i
    using incidents_ok_get [OF assms] find_open_Some [OF that] by blast
  have ids: "inc_id (auto_closed now e i) = inc_id i" for e i
    by (simp add: auto_closed_def)
  have long: "2 \<le> length ?rs \<and> P (?rs ! 0) \<and> P (?rs ! 1) \<Longrightarrow> filter P ?rs \<noteq> []" for P
    by (cases ?rs) (auto simp: filter_empty_conv)
  show ?thesis
    using long [of "\<lambda>r. cr_status r \<noteq> Up"] long [of "\<lambda>r. cr_status r = Up"]
    by (cases ?o)
      (auto simp: evaluate_target_def decide_and_apply_incident_state_def apply_decision_def Let_def FLAP_THRESHOLD_def
        take_while_two find_rev_last open_incident_incidents close_incident_incidents ids stored auto_incident_def auto_closed_def)
qed

lemma decide_when_none_open:
  assumes "find_open_incident_for_target s k = None"
  shows "m_incidents (snd (snd (decide_and_apply_incident_state env now k rs s))) = m_incidents s \<or>
    (\<exists>i. inc_target_id i = k \<and>
       m_incidents (snd (snd (decide_and_apply_incident_state env now k rs s))) = hm_insert (inc_id i) i (m_incidents s))"
proof (cases "find (\<lambda>r. cr_status r \<noteq> Up) (rev rs)")
  case None
  then show ?thesis by (simp add: decide_and_apply_incident_state_def apply_decision_def assms Let_def)
next
  case (Some first)
  let ?i = "auto_incident env now (we_incident_ids env (length (m_incidents s))) k
    (length (takeWhile (\<lambda>r. cr_status r \<noteq> Up) rs)) first"
  have "m_incidents (snd (snd (decide_and_apply_incident_state env now k rs s))) \<in>
      {m_incidents s, hm_insert (inc_id ?i) ?i (m_incidents s)}"
    using Some by (simp add: decide_and_apply_incident_state_def apply_decision_def assms Let_def open_incident_incidents)
  moreover have "inc_target_id ?i = k" by simp
  ultimately show ?thesis by (metis (no_types, lifting) insertE singletonD)
qed

definition writer_sample_env :: writer_env where
  "writer_sample_env = \<lparr>we_render = (\<lambda>_. ''m''), we_incident_ids = (\<lambda>n. 100 + of_nat n), we_delivery_ids = (\<lambda>n. 200 + of_nat n),
     we_ctx = None\<rparr>"

lemma evaluation_follows_newest_results_witness:
  "m_incidents (snd (snd (evaluate_target writer_sample_env 50 9
      (recorded [sample_result 9 10 Down, sample_result 9 20 Up, sample_result 9 30 Down, sample_result 9 40 Error] new_storage)))) =
   [(100, \<lparr>inc_id = 100, inc_target_id = 9, inc_started_at = 10, inc_ended_at = None, inc_status = Down, inc_duration_secs = None,
      inc_check_count = 2, inc_error_sample = cr_error (sample_result 9 10 Down), inc_severity = Major, inc_public_title = Some ''m'',
      inc_public_description = cr_error (sample_result 9 10 Down), inc_created_at = Some 50, inc_updated_at = Some 50,
      inc_updates = [], inc_regions_down = [], inc_regions_up = []\<rparr>)]"
proof -
  let ?s = "recorded [sample_result 9 10 Down, sample_result 9 20 Up, sample_result 9 30 Down, sample_result 9 40 Error] new_storage"
  have inc: "m_incidents ?s = []" by code_simp
  have rs: "list_results ?s 9 LOOKBACK =
      [sample_result 9 40 Error, sample_result 9 30 Down, sample_result 9 20 Up, sample_result 9 10 Down]" by code_simp
  have maint: "\<not> is_target_in_active_maintenance ?s 50 9" by code_simp
  have opened: "find_open_incident_for_target ?s 9 = None" using inc by (simp add: find_open_None hm_values_def)
  have ok: "incidents_ok ?s" using inc by (simp add: incidents_ok_def)
  have st: "cr_status (sample_result t ts x) = x" "cr_timestamp (sample_result t ts x) = ts" for t ts x
    by (simp_all add: sample_result_def error_with_elapsed_def)
  show ?thesis
    using evaluation_follows_newest_results [OF ok, of writer_sample_env 50 9]
    unfolding rs inc opened Let_def using maint
    by (simp add: st inc writer_sample_env_def hm_insert_def numeral_2_eq_2)
qed

section \<open>One open incident per target\<close>

definition single_open :: "mem \<Rightarrow> bool" where
  "single_open s \<longleftrightarrow> incidents_ok s \<and>
     (\<forall>k l i j. get_incident s k = Ok i \<and> get_incident s l = Ok j \<and>
        inc_ended_at i = None \<and> inc_ended_at j = None \<and> inc_target_id i = inc_target_id j \<longrightarrow> k = l)"

lemma incidents_ok_iff:
  "incidents_ok s \<longleftrightarrow> hm_ok (m_incidents s) \<and> (\<forall>k i. hm_get (m_incidents s) k = Some i \<longrightarrow> inc_id i = k)"
  by (auto simp: incidents_ok_def hm_get_def hm_ok_def dest: map_of_SomeD)

lemma get_incident_Ok [simp]: "get_incident s k = Ok i \<longleftrightarrow> hm_get (m_incidents s) k = Some i"
  by (simp add: get_incident_def split: option.split)

lemma single_open_iff:
  "single_open s \<longleftrightarrow> incidents_ok s \<and>
     (\<forall>k l i j. hm_get (m_incidents s) k = Some i \<and> hm_get (m_incidents s) l = Some j \<and>
        inc_ended_at i = None \<and> inc_ended_at j = None \<and> inc_target_id i = inc_target_id j \<longrightarrow> k = l)"
  by (simp add: single_open_def)

lemma single_open_cong: "m_incidents s = m_incidents s' \<Longrightarrow> single_open s \<longleftrightarrow> single_open s'"
  by (simp add: single_open_iff incidents_ok_iff)

lemma single_open_opened:
  assumes "single_open s" "find_open_incident_for_target s (inc_target_id i) = None"
    and "m_incidents s' = hm_insert (inc_id i) i (m_incidents s)"
  shows "single_open s'"
proof -
  have ok: "hm_ok (m_incidents s)" using assms(1) by (simp add: single_open_iff incidents_ok_iff)
  have "inc_ended_at j \<noteq> None" if "hm_get (m_incidents s) l = Some j" "inc_target_id j = inc_target_id i" for l j
    using assms(2) that hm_get_in_values [OF that(1)] by (auto simp: find_open_None)
  then show ?thesis
    using assms(1,3) by (auto simp: single_open_iff incidents_ok_iff)
qed

lemma single_open_updated:
  assumes "single_open s" "hm_get (m_incidents s) (inc_id i) = Some old"
    and "inc_target_id i = inc_target_id old" "inc_ended_at old \<noteq> None \<Longrightarrow> inc_ended_at i \<noteq> None"
    and "m_incidents s' = hm_insert (inc_id i) i (m_incidents s)"
  shows "single_open s'"
proof -
  have ok: "hm_ok (m_incidents s)" and key: "\<And>k i. hm_get (m_incidents s) k = Some i \<Longrightarrow> inc_id i = k"
    using assms(1) by (simp_all add: single_open_iff incidents_ok_iff)
  have one: "hm_get (m_incidents s) k = Some a \<Longrightarrow> hm_get (m_incidents s) l = Some b \<Longrightarrow> inc_ended_at a = None \<Longrightarrow>
      inc_ended_at b = None \<Longrightarrow> inc_target_id a = inc_target_id b \<Longrightarrow> k = l" for k l a b
    using assms(1) by (simp add: single_open_iff)
  have other: "l = inc_id i" if "hm_get (m_incidents s) l = Some b" "inc_ended_at b = None" "inc_ended_at i = None"
    "inc_target_id b = inc_target_id i" for l b
    using one [OF that(1) assms(2) that(2)] assms(3,4) that by auto
  have other': "inc_id i = l" if "hm_get (m_incidents s) l = Some b" "inc_ended_at b = None" "inc_ended_at i = None"
    "inc_target_id i = inc_target_id b" for l b
    using other that by metis
  show ?thesis
    unfolding single_open_iff incidents_ok_iff assms(5) hm_get_insert
    using ok key one other other' by (auto split: if_splits)
qed

lemma single_open_decide:
  assumes "single_open s"
  shows "single_open (snd (snd (decide_and_apply_incident_state env now k rs s)))"
proof -
  let ?r = "decide_and_apply_incident_state env now k rs s" and ?o = "find_open_incident_for_target s k"
  have ok: "incidents_ok s" using assms by (simp add: single_open_def)
  show ?thesis
  proof (cases ?o)
    case None
    show ?thesis
      using decide_when_none_open [OF None, of env now rs] None assms single_open_opened [OF assms] single_open_cong
      by metis
  next
    case (Some i)
    have stored: "hm_get (m_incidents s) (inc_id i) = Some i"
      using incidents_ok_get [OF ok] find_open_Some [OF Some] by blast
    have "m_incidents (snd (snd ?r)) = m_incidents s \<or>
        (\<exists>e. m_incidents (snd (snd ?r)) = hm_insert (inc_id (auto_closed now e i)) (auto_closed now e i) (m_incidents s))"
      by (auto simp: decide_and_apply_incident_state_def apply_decision_def Some Let_def close_incident_incidents)
    moreover have "single_open s'" if "m_incidents s' = hm_insert (inc_id (auto_closed now e i)) (auto_closed now e i) (m_incidents s)"
      for e s'
      using single_open_updated [OF assms _ _ _ that] stored by (simp add: auto_closed_def)
    ultimately show ?thesis
      using assms single_open_cong by metis
  qed
qed

lemma single_open_evaluate: "single_open s \<Longrightarrow> single_open (snd (snd (evaluate_target env now k s)))"
  by (simp add: evaluate_target_def Let_def single_open_decide)

lemma single_open_background:
  "single_open s \<Longrightarrow> single_open (snd (background_loop env now batch ks s))"
proof (induction ks arbitrary: s)
  case (Cons k ks)
  then show ?case
    using single_open_decide [OF Cons.prems, of env now k]
    by (auto simp: split_beta split: option.split)
qed simp

lemma single_open_sweep: "single_open s \<Longrightarrow> single_open (snd (run_background_sweep env now s))"
  by (simp add: run_background_sweep_def Let_def single_open_background)

lemma ops_transition_keeps:
  assumes "ops_transition now t i = Ok i'" "t \<noteq> Some ''reopen''"
  shows "inc_id i' = inc_id i \<and> inc_target_id i' = inc_target_id i \<and> (inc_ended_at i \<noteq> None \<longrightarrow> inc_ended_at i' \<noteq> None)"
proof (cases t)
  case None
  then show ?thesis using assms(1) by (simp add: ops_transition_def)
next
  case (Some x)
  obtain tr new where tr: "parse_transition x = Some tr" "next_state (stored_state i) tr = Inr new"
    and i': "i' = apply_transition_to now new i"
    using assms(1) Some by (auto simp: ops_transition_def split: option.splits sum.splits)
  have "tr \<noteq> incident_transition.Reopen" using tr(1) assms(2) Some by (auto simp: parse_transition_def split: if_splits)
  then have "inc_ended_at i \<noteq> None \<longrightarrow> new \<noteq> incident_state.Triggered"
    using tr(2) by (cases tr) (auto simp: stored_state_def)
  then show ?thesis by (cases new) (simp_all add: i' apply_transition_to_def)
qed

lemma patch_incident_keeps [simp]:
  "inc_id (patch sv (\<lambda>v i. i\<lparr>inc_severity := f v\<rparr>) i) = inc_id i"
  "inc_target_id (patch sv (\<lambda>v i. i\<lparr>inc_severity := f v\<rparr>) i) = inc_target_id i"
  "inc_ended_at (patch sv (\<lambda>v i. i\<lparr>inc_severity := f v\<rparr>) i) = inc_ended_at i"
  "inc_id (patch n (\<lambda>v i. i\<lparr>inc_updates := g v i\<rparr>) i) = inc_id i"
  "inc_target_id (patch n (\<lambda>v i. i\<lparr>inc_updates := g v i\<rparr>) i) = inc_target_id i"
  "inc_ended_at (patch n (\<lambda>v i. i\<lparr>inc_updates := g v i\<rparr>) i) = inc_ended_at i"
  by (cases sv; cases n; simp)+

lemma single_open_ops:
  assumes "single_open s" "iop_transition p \<noteq> Some ''reopen''"
  shows "single_open (snd (apply_incident_ops a b c k p s))"
proof -
  let ?r = "apply_incident_ops a b c k p s"
  consider "m_incidents (snd ?r) = m_incidents s"
    | i i' where "hm_get (m_incidents s) k = Some i" "inc_id i' = inc_id i" "inc_target_id i' = inc_target_id i"
        "inc_ended_at i \<noteq> None \<Longrightarrow> inc_ended_at i' \<noteq> None" "m_incidents (snd ?r) = hm_insert k i' (m_incidents s)"
  proof (cases "hm_get (m_incidents s) k")
    case None
    then show ?thesis using that(1) by (simp add: apply_incident_ops_def)
  next
    case (Some i)
    show ?thesis
    proof (cases "ops_transition a (iop_transition p) i")
      case (Inl e)
      then show ?thesis using that(1) Some by (simp add: apply_incident_ops_def)
    next
      case (Inr i1)
      note keeps = ops_transition_keeps [OF Inr assms(2)]
      show ?thesis
        by (rule that(2) [of i "(patch (iop_note p) (\<lambda>note i. i\<lparr>inc_updates := inc_updates i @
              [\<lparr>piu_posted_at = b, piu_phase = Investigating, piu_message = note\<rparr>]\<rparr>)
              (patch (iop_severity p) (\<lambda>v i. i\<lparr>inc_severity := v\<rparr>) i1))\<lparr>inc_updated_at := Some c\<rparr>"])
          (use Some Inr keeps in \<open>simp_all add: apply_incident_ops_def Let_def\<close>)
    qed
  qed
  then show ?thesis
  proof cases
    case 1
    then show ?thesis using assms(1) single_open_cong by metis
  next
    case 2
    then have "inc_id i = k" using assms(1) by (simp add: single_open_iff incidents_ok_iff)
    then show ?thesis using single_open_updated [OF assms(1), of i' i] 2 by simp
  qed
qed

text \<open>
  The coalescer at work: results arrive, targets are evaluated after a probe or
  by the background sweep, and operators change incidents without reopening
  them.  Every step runs to its end before the next begins.
\<close>

inductive coalescer_step :: "mem \<Rightarrow> mem \<Rightarrow> bool" where
  result: "coalescer_step s (snd (record_result r s))"
| evaluate: "coalescer_step s (snd (snd (evaluate_target env now k s)))"
| background: "coalescer_step s (snd (run_background_sweep env now s))"
| operator: "iop_transition p \<noteq> Some ''reopen'' \<Longrightarrow> coalescer_step s (snd (apply_incident_ops a b c k p s))"

lemma single_open_step: "coalescer_step s s' \<Longrightarrow> single_open s \<Longrightarrow> single_open s'"
proof (induction rule: coalescer_step.induct)
  case (result s r)
  then show ?case using single_open_cong [of "snd (record_result r s)" s] by (simp add: record_result_def)
qed (simp_all add: single_open_evaluate single_open_sweep single_open_ops)

interpretation coalescer_runs: step_invariant coalescer_step single_open
  by unfold_locales (rule single_open_step)

text \<open>
  C1: A target has at most one open incident.  From a store where that holds it
  holds after any sequence of results, evaluations, background sweeps and
  operator changes other than reopening.
\<close>

theorem one_open_incident_per_target:
  assumes "coalescer_step\<^sup>*\<^sup>* s s'" "single_open s"
  shows "single_open s'"
  using assms by (rule coalescer_runs.run_good)

lemma single_open_new: "single_open new_storage"
  by (simp add: single_open_iff incidents_ok_iff new_storage_def)

lemma one_open_incident_per_target_witness:
  "single_open (snd (snd (evaluate_target writer_sample_env 50 9
      (snd (record_result (sample_result 9 20 Down) (snd (record_result (sample_result 9 10 Down) new_storage)))))))"
proof (rule one_open_incident_per_target [OF _ single_open_new])
  show "coalescer_step\<^sup>*\<^sup>* new_storage (snd (snd (evaluate_target writer_sample_env 50 9
      (snd (record_result (sample_result 9 20 Down) (snd (record_result (sample_result 9 10 Down) new_storage)))))))"
    by (meson coalescer_step.result coalescer_step.evaluate converse_rtranclp_into_rtranclp rtranclp.rtrancl_refl)
qed

text \<open>
  Two evaluations that overlap open two incidents.  When the per-probe and
  the background evaluation of a target both look for its open incident before
  either has written, both find none and, their identifiers being fresh, both
  create one; the conflict that the code expects in that race never occurs.
\<close>

theorem overlapping_evaluations_open_two:
  assumes "incidents_ok s" "find_open_incident_for_target s k = None"
    and "2 \<le> length (takeWhile (\<lambda>r. cr_status r \<noteq> Up) rs1)" "2 \<le> length (takeWhile (\<lambda>r. cr_status r \<noteq> Up) rs2)"
    and "id1 = we_incident_ids env1 (length (m_incidents s))" "id2 = we_incident_ids env2 (Suc (length (m_incidents s)))"
    and "hm_get (m_incidents s) id1 = None" "hm_get (m_incidents s) id2 = None" "id1 \<noteq> id2"
  shows "let opened = find_open_incident_for_target s k;
             s1 = snd (snd (apply_decision env1 now1 k rs1 opened s));
             (r2, _, s2) = apply_decision env2 now2 k rs2 opened s1
         in r2 = Ok () \<and>
            (\<exists>i j. get_incident s2 id1 = Ok i \<and> get_incident s2 id2 = Ok j \<and>
               inc_target_id i = k \<and> inc_target_id j = k \<and> inc_ended_at i = None \<and> inc_ended_at j = None)"
proof -
  have first: "\<exists>f. find (\<lambda>r. cr_status r \<noteq> Up) (rev rs) = Some f"
    if two: "2 \<le> length (takeWhile (\<lambda>r. cr_status r \<noteq> Up) rs)" for rs
  proof -
    obtain a as where "takeWhile (\<lambda>r. cr_status r \<noteq> Up) rs = a # as"
      using two by (cases "takeWhile (\<lambda>r. cr_status r \<noteq> Up) rs") auto
    then have "a \<in> set rs \<and> cr_status a \<noteq> Up" by (metis list.set_intros(1) set_takeWhileD)
    then have "filter (\<lambda>r. cr_status r \<noteq> Up) rs \<noteq> []" by (auto simp: filter_empty_conv)
    then show ?thesis by (simp add: find_rev_last)
  qed
  obtain f1 f2 where f: "find (\<lambda>r. cr_status r \<noteq> Up) (rev rs1) = Some f1" "find (\<lambda>r. cr_status r \<noteq> Up) (rev rs2) = Some f2"
    using first assms(3,4) by blast
  let ?i = "auto_incident env1 now1 id1 k (length (takeWhile (\<lambda>r. cr_status r \<noteq> Up) rs1)) f1"
  let ?j = "auto_incident env2 now2 id2 k (length (takeWhile (\<lambda>r. cr_status r \<noteq> Up) rs2)) f2"
  define s1 where "s1 = snd (snd (apply_decision env1 now1 k rs1 None s))"
  have s1: "m_incidents s1 = hm_insert id1 ?i (m_incidents s)"
    using assms(3,5,7) f(1)
    by (simp add: s1_def apply_decision_def Let_def FLAP_THRESHOLD_def open_incident_incidents)
  have fresh2: "hm_get (m_incidents s1) id2 = None" using s1 assms(8,9) by simp
  have len: "length (m_incidents s1) = Suc (length (m_incidents s))"
  proof -
    have "length (hm_values (m_incidents s1)) = Suc (length (hm_values (m_incidents s)))"
      unfolding s1 values_insert_fresh [OF assms(7)] by simp
    then show ?thesis by (simp add: hm_values_def)
  qed
  have second: "apply_decision env2 now2 k rs2 None s1 = open_incident env2 now2 ?j s1"
    using assms(4,6) f(2) len by (simp add: apply_decision_def Let_def FLAP_THRESHOLD_def)
  have "m_incidents (snd (snd (open_incident env2 now2 ?j s1))) = hm_insert id2 ?j (m_incidents s1)"
    using fresh2 by (simp add: open_incident_incidents)
  moreover have "fst (open_incident env2 now2 ?j s1) = Ok ()"
    using fresh2 by (simp add: open_incident_def create_incident_def Let_def)
  ultimately show ?thesis
    using s1 assms(9) unfolding assms(2) Let_def s1_def [symmetric] second by (simp add: split_beta)
qed

lemma overlapping_evaluations_open_two_witness:
  "let rs = [sample_result 9 20 Down, sample_result 9 10 Down];
       s1 = snd (snd (apply_decision writer_sample_env 50 9 rs None new_storage));
       s2 = snd (snd (apply_decision writer_sample_env 51 9 rs None s1))
   in \<not> single_open s2"
proof -
  let ?rs = "[sample_result 9 20 Down, sample_result 9 10 Down]"
  have empty: "m_incidents new_storage = []" by (simp add: new_storage_def)
  have ok: "incidents_ok new_storage" using single_open_new by (simp add: single_open_def)
  have none: "find_open_incident_for_target new_storage 9 = None" by (simp add: find_open_None empty hm_values_def)
  have run: "2 \<le> length (takeWhile (\<lambda>r. cr_status r \<noteq> Up) ?rs)" by (simp add: sample_result_def)
  have ids: "100 = we_incident_ids writer_sample_env (length (m_incidents new_storage))"
    "101 = we_incident_ids writer_sample_env (Suc (length (m_incidents new_storage)))"
    by (simp_all add: writer_sample_env_def empty)
  show ?thesis
    using overlapping_evaluations_open_two [OF ok none run run ids, of 50 51]
    unfolding none Let_def single_open_def by (fastforce simp: empty split_beta)
qed

section \<open>Alerts and deliveries\<close>

text \<open>A channel of the target is alerted when it is usable and no rule silences it.\<close>

definition alertable :: "mem \<Rightarrow> instant \<Rightarrow> uuid \<Rightarrow> delivery_reason \<Rightarrow> uuid \<Rightarrow> bool" where
  "alertable s now target_id reason channel_id \<longleftrightarrow>
     (case get_notification_channel s channel_id of
        Inl _ \<Rightarrow> False
      | Inr c \<Rightarrow> nc_enabled c \<and> \<not> awaiting_verification c \<and>
          \<not> list_ex (\<lambda>r. is_active_at r now \<and> silence_matches r target_id (Some channel_id) reason)
              (hm_values (m_silence_rules s)))"

definition channels_ok :: "mem \<Rightarrow> bool" where
  "channels_ok s \<longleftrightarrow> (\<forall>k c. get_notification_channel s k = Ok c \<longrightarrow> nc_id c = k)"

definition targets_ok :: "mem \<Rightarrow> bool" where
  "targets_ok s \<longleftrightarrow> (\<forall>k t. get_target s k = Ok t \<longrightarrow> tg_id t = k)"

lemma active_silences_complete:
  "list_ex (\<lambda>r. silence_matches r k c reason) (list_active_silences_for_target s now k) \<longleftrightarrow>
   list_ex (\<lambda>r. is_active_at r now \<and> silence_matches r k c reason) (hm_values (m_silence_rules s))"
  by (auto simp: list_ex_iff list_active_silences_for_target_def silence_matches_def split: option.splits if_splits)

lemma dispatch_to_channel_alerts:
  assumes "channels_ok s" "tg_id t = k"
  shows "map alert_channel (dispatch_to_channel s ctx (list_active_silences_for_target s now k) t i reason c) =
    (if alertable s now k reason c then [c] else [])"
proof (cases "get_notification_channel s c")
  case (Inr ch)
  then have "nc_id ch = c" using assms(1) by (simp add: channels_ok_def)
  then show ?thesis
    using Inr assms(2)
    by (cases "nc_config ch")
      (simp_all add: dispatch_to_channel_def alertable_def active_silences_complete send_email_alert_def)
qed (simp add: dispatch_to_channel_def alertable_def)

text \<open>
  Who is alerted of an incident.  The channels that are alerted are, in the
  order they are bound to the target of the incident, exactly those that exist,
  are enabled, do not wait for verification and are not silenced at that time
  for this target, channel and reason.
\<close>

theorem alerts_reach_unsilenced_channels:
  assumes "channels_ok s" "targets_ok s"
  shows "map alert_channel (dispatch_to_target_channels s now ctx i reason) =
    (if inc_target_id i = nil_uuid then []
     else (case get_target s (inc_target_id i) of
        Inl _ \<Rightarrow> []
      | Inr t \<Rightarrow> filter (alertable s now (inc_target_id i) reason) (tg_alerts t)))"
proof (cases "get_target s (inc_target_id i)")
  case (Inr t)
  then have k: "tg_id t = inc_target_id i" using assms(2) by (simp add: targets_ok_def)
  have "map alert_channel (concat (map (dispatch_to_channel s ctx (list_active_silences_for_target s now (tg_id t)) t i reason) cs)) =
      filter (alertable s now (inc_target_id i) reason) cs" for cs
    by (induction cs) (simp_all add: k dispatch_to_channel_alerts [OF assms(1) k])
  then show ?thesis using Inr by (simp add: dispatch_to_target_channels_def)
qed (simp add: dispatch_to_target_channels_def)

definition sample_channel :: "uuid \<Rightarrow> bool \<Rightarrow> notification_channel" where
  "sample_channel k enabled =
     \<lparr>nc_id = k, nc_name = ''ops'', nc_kind = channel_kind.Email, nc_config = channel_config.Email ''ops@example.org'',
      nc_enabled = enabled, nc_disabled_reason = None, nc_verified_at = Some 0, nc_created_at = 0, nc_updated_at = 0,
      nc_write_source = Ui\<rparr>"

definition sample_target :: "uuid \<Rightarrow> uuid list \<Rightarrow> uuid option \<Rightarrow> target" where
  "sample_target k alerts policy =
     \<lparr>tg_id = k, tg_name = ''web'', tg_check = Heartbeat \<lparr>hb_period = 60, hb_grace = 60\<rparr>, tg_interval = 60, tg_enabled = True, tg_tags = [],
      tg_alerts = alerts, tg_alert_confirmations = 2, tg_notify_recovery = True, tg_renotify_interval_secs = 0,
      tg_region_policy = region_incident_policy.Any, tg_group_name = None, tg_owner_user_id = None,
      tg_escalation_policy_id = policy, tg_created_at = 0, tg_updated_at = 0, tg_write_source = Ui\<rparr>"

definition alert_store :: mem where
  "alert_store = new_storage\<lparr>m_targets := [(9, sample_target 9 [21, 22, 23] None)],
     m_notification_channels := [(21, sample_channel 21 True), (22, sample_channel 22 False)]\<rparr>"

lemma alerts_reach_unsilenced_channels_witness:
  "map alert_channel (dispatch_to_target_channels alert_store 0
      \<lparr>dc_from_address = \<lparr>ea_address = ''a'', ea_name = ''b''\<rparr>, dc_public_base_url = ''u''\<rparr> (sample_incident 1 0) IncidentOpened) = [21]"
proof -
  have ok: "channels_ok alert_store" "targets_ok alert_store"
    by (auto simp: channels_ok_def targets_ok_def alert_store_def get_notification_channel_def get_target_def hm_get_def
        sample_channel_def sample_target_def split: if_splits option.splits)
  have "alertable alert_store 0 9 IncidentOpened 21" "\<not> alertable alert_store 0 9 IncidentOpened 22"
    "\<not> alertable alert_store 0 9 IncidentOpened 23"
    by (simp_all add: alertable_def alert_store_def get_notification_channel_def hm_get_def hm_values_def
        sample_channel_def awaiting_verification_def new_storage_def)
  moreover have "get_target alert_store 9 = Ok (sample_target 9 [21, 22, 23] None)"
    by (simp add: alert_store_def get_target_def hm_get_def)
  moreover have "inc_target_id (sample_incident 1 0) = 9" by (simp add: sample_incident_def new_incident_def)
  ultimately show ?thesis
    using alerts_reach_unsilenced_channels [OF ok, of 0
        "\<lparr>dc_from_address = \<lparr>ea_address = ''a'', ea_name = ''b''\<rparr>, dc_public_base_url = ''u''\<rparr>" "sample_incident 1 0" IncidentOpened]
    by (simp add: nil_uuid_def sample_target_def)
qed

text \<open>
  Who is told of an incident.  Queueing the deliveries of an incident
  appends, for every verified subscriber of every enabled status page that
  shows the target, one pending delivery to the subscriber's own channel and
  address, due at once, in page order, and changes nothing else.
\<close>

theorem deliveries_for_verified_subscribers:
  "enqueue_subscriber_deliveries render fresh now i reason s =
     s\<lparr>m_subscriber_deliveries := m_subscriber_deliveries s @
        map (queued fresh now (render (delivery_payload i reason)) reason)
          (List.enumerate (length (m_subscriber_deliveries s)) (audience s (inc_target_id i)))\<rparr>"
  by (simp add: enqueue_subscriber_deliveries_def enqueue_pages_queued audience_def)

section \<open>Escalation of opened and closed incidents\<close>

lemma open_incident_state:
  assumes "hm_get (m_incidents s) (inc_id i) = None"
  obtains ds where "snd (snd (open_incident env now i s)) = seed_escalation_state now (inc_target_id i) (inc_id i)
      (s\<lparr>m_incidents := hm_insert (inc_id i) i (m_incidents s), m_subscriber_deliveries := ds\<rparr>)"
  using assms
  by (simp add: open_incident_def create_incident_def Let_def enqueue_subscriber_deliveries_def enqueue_pages_queued)

lemma frame_incidents_deliveries [simp]:
  "get_target (s\<lparr>m_incidents := x, m_subscriber_deliveries := y\<rparr>) k = get_target s k"
  "get_escalation_policy (s\<lparr>m_incidents := x, m_subscriber_deliveries := y\<rparr>) k = get_escalation_policy s k"
  by (simp_all add: get_target_def get_escalation_policy_def)

definition seed_delay :: "escalation_policy \<Rightarrow> int" where
  "seed_delay p = (case ep_steps p of [] \<Rightarrow> 0 | step # _ \<Rightarrow> max (es_delay_secs step) 0)"

definition seeded :: "instant \<Rightarrow> uuid \<Rightarrow> uuid \<Rightarrow> int \<Rightarrow> incident_escalation_state" where
  "seeded now incident_id policy_id delay =
     \<lparr>ies_incident_id = incident_id, ies_policy_id = policy_id, ies_current_level = 0, ies_current_round = 0,
      ies_last_paged_at = now, ies_next_check_at = now + seconds delay, ies_acked = False\<rparr>"

lemma seed_with_policy:
  assumes "get_target s k = Ok t" "tg_escalation_policy_id t = Some pid" "get_escalation_policy s pid = Ok p"
  shows "seed_escalation_state now k n s =
    s\<lparr>m_escalation_states := hm_insert n (seeded now n pid (seed_delay p)) (m_escalation_states s)\<rparr>"
  using assms by (simp add: seed_escalation_state_def upsert_escalation_state_def seeded_def seed_delay_def)

text \<open>
  C20: An incident that is opened is escalated.  If its target names a stored
  policy whose levels ascend, then after opening it the sweeps of the engine,
  at any ticks, page for it exactly what the timetable of the ladder says: the
  first step is due its own delay after the opening, each later one the delay
  of the step before it after that was paged, and the state is removed once a
  tick comes after the last is due.  With ticks from before the first is due,
  never more than a gap apart, and long enough, every step of every round has
  been paged in order.
\<close>

theorem opened_incident_is_escalated:
  assumes "states_keyed s" "hm_get (m_incidents s) (inc_id i) = None" "inc_ended_at i = None"
    and "get_target s (inc_target_id i) = Ok t" "tg_escalation_policy_id t = Some pid"
    and "get_escalation_policy s pid = Ok p" "ascending p"
    and "s' = snd (snd (open_incident env now i s))"
    and "due = now + seconds (case ep_steps p of [] \<Rightarrow> 0 | step # _ \<Rightarrow> max (es_delay_secs step) 0)"
    and "tt = timetable (\<lambda>x. es_delay_secs (snd x)) ticks due (ladder p)"
  shows "map (pages_for (inc_id i)) (fst (run_escalation_engine tz base ticks s')) =
      map2 (\<lambda>now. turn_pages (step_pages tz base s' i now)) ticks (fst tt) \<and>
    (get_escalation_state (snd (run_escalation_engine tz base ticks s')) (inc_id i) = None \<longleftrightarrow> snd tt) \<and>
    (0 < gap \<and> successively (\<lambda>a b. a \<le> b \<and> b \<le> a + gap) ticks \<and> ticks \<noteq> [] \<and> hd ticks \<le> due \<and>
       due + horizon gap (\<lambda>x. es_delay_secs (snd x)) (ladder p) \<le> last ticks \<longrightarrow>
     taken (fst tt) = ladder p \<and> snd tt)"
proof -
  let ?st = "seeded now (inc_id i) pid (seed_delay p)"
  obtain ds where ds: "snd (snd (open_incident env now i s)) = seed_escalation_state now (inc_target_id i) (inc_id i)
      (s\<lparr>m_incidents := hm_insert (inc_id i) i (m_incidents s), m_subscriber_deliveries := ds\<rparr>)"
    using open_incident_state [OF assms(2)] .
  have s': "s' = snd (upsert_escalation_state ?st (s\<lparr>m_incidents := hm_insert (inc_id i) i (m_incidents s), m_subscriber_deliveries := ds\<rparr>))"
    unfolding assms(8) ds by (subst seed_with_policy) (use assms(4-6) in \<open>simp_all add: upsert_escalation_state_def seeded_def\<close>)
  have keyed: "states_keyed s'"
    unfolding s' by (rule states_keyed_upsert) (use assms(1) in \<open>simp add: states_keyed_def\<close>)
  have state: "get_escalation_state s' (inc_id i) = Some ?st"
    by (simp add: s' get_escalation_state_def upsert_escalation_state_def seeded_def)
  have inc: "get_incident s' (inc_id i) = Ok i" by (simp add: s' upsert_escalation_state_def)
  have pol: "get_escalation_policy s' (ies_policy_id ?st) = Ok p"
    using assms(6) by (simp add: s' seeded_def get_escalation_policy_def upsert_escalation_state_def)
  have start: "ies_current_level ?st = 0" "ies_current_round ?st = 0" "\<not> ies_acked ?st" and due: "ies_next_check_at ?st = due"
    by (simp_all add: seeded_def assms(9) seed_delay_def)
  show ?thesis
    using engine_ladder_run [OF keyed inc assms(3) state start pol assms(7), of tt ticks tz base gap] assms(10) unfolding due by simp
qed

lemma opened_incident_is_escalated_witness:
  "let s' = snd (snd (open_incident writer_sample_env 0 (sample_incident 1 0)
         (new_storage\<lparr>m_targets := [(9, sample_target 9 [] (Some 7))], m_escalation_policies := [(7, sample_policy)]\<rparr>)));
       ticks = map seconds [30, 60, 90, 120, 150, 180] in
   map (pages_for 1) (fst (run_escalation_engine (\<lambda>_. None) [] ticks s')) =
     map2 (\<lambda>now. turn_pages (step_pages (\<lambda>_. None) [] s' (sample_incident 1 0) now)) ticks
       [None, Some (0, hd (ep_steps sample_policy)), None, Some (1, hd (ep_steps sample_policy)), None, None] \<and>
   get_escalation_state (snd (run_escalation_engine (\<lambda>_. None) [] ticks s')) 1 = None"
proof -
  let ?s = "new_storage\<lparr>m_targets := [(9, sample_target 9 [] (Some 7))], m_escalation_policies := [(7, sample_policy)]\<rparr>"
  have i: "inc_id (sample_incident 1 0) = 1" "inc_ended_at (sample_incident 1 0) = None" "inc_target_id (sample_incident 1 0) = 9"
    by (simp_all add: sample_incident_def new_incident_def)
  have keyed: "states_keyed ?s" by (simp add: states_keyed_def new_storage_def)
  have fresh: "hm_get (m_incidents ?s) (inc_id (sample_incident 1 0)) = None" by (simp add: new_storage_def)
  have t: "get_target ?s (inc_target_id (sample_incident 1 0)) = Ok (sample_target 9 [] (Some 7))"
    by (simp add: i get_target_def hm_get_def)
  have pid: "tg_escalation_policy_id (sample_target 9 [] (Some 7)) = Some 7" by (simp add: sample_target_def)
  have p: "get_escalation_policy ?s 7 = Ok sample_policy" by (simp add: get_escalation_policy_def hm_get_def)
  have tt: "timetable (\<lambda>x. es_delay_secs (snd x)) (map seconds [30, 60, 90, 120, 150, 180])
        (0 + seconds (case ep_steps sample_policy of [] \<Rightarrow> 0 | step # _ \<Rightarrow> max (es_delay_secs step) 0)) (ladder sample_policy)
      = ([None, Some (0, hd (ep_steps sample_policy)), None, Some (1, hd (ep_steps sample_policy)), None, None], True)"
    unfolding sample_ladder by (simp add: sample_policy_def seconds_def nanos_per_sec_def)
  show ?thesis
    using opened_incident_is_escalated [OF keyed fresh i(2) t pid p sample_ascending refl refl tt [symmetric],
        where env = writer_sample_env and tz = "\<lambda>_. None" and base = "[]"]
    unfolding Let_def fst_conv snd_conv i(1) by blast
qed

end
