(* ===== verification/Auth_Service.thy ===== *)
theory Auth_Service
  imports Memory_Auth
begin

text \<open>
  Authentication: the service of \<open>bin/status-server/src/auth/service.rs\<close>
  (bootstrap of the first user, magic links, sessions, API tokens) and the
  request identity and guards of \<open>auth/middleware.rs\<close>.

  The cookie digest, the salted token hash and its verifier are third-party
  functions and parameters (\<open>crypto\<close>, with the salt of the call); fresh tokens, cookie values and
  identifiers are arguments.  The touches that the middleware spawns run after
  the identity is resolved and are separate operations.  A panic of the
  service is the result \<open>None\<close>.
\<close>

section \<open>Service state and parameters\<close>

record auth_config =
  cfg_idle_timeout_days :: nat
  cfg_absolute_timeout_days :: nat
  cfg_cookie_name :: string
  cfg_cookie_secure :: bool
  cfg_cookie_domain :: string
  cfg_magic_link_expiry_minutes :: nat
  cfg_public_base_url :: string

record crypto =
  cookie_digest :: "string \<Rightarrow> string"
  token_hash :: "string \<Rightarrow> app_error + string"
  token_verify :: "string \<Rightarrow> string \<Rightarrow> bool"

definition DEFAULT_PREFIX_LEN :: nat where
  "DEFAULT_PREFIX_LEN = 16"

definition TOUCH_DEBOUNCE_SECS :: int where
  "TOUCH_DEBOUNCE_SECS = 60"

definition TOKEN_PREFIX :: string where
  "TOKEN_PREFIX = ''sm_live_''"

record created_session =
  cs_cookie_value :: string
  cs_row :: session_row

datatype session_lookup_outcome = SessionActive session_row | SessionExpired | SessionMissing

datatype api_token_lookup_outcome = TokenActive api_token_row | TokenInvalid

section \<open>Bootstrap\<close>

definition bootstrap_needed :: "mem \<Rightarrow> bool" where
  "bootstrap_needed s \<longleftrightarrow> count_users s = 0"

definition bootstrap_in_progress :: app_error where
  "bootstrap_in_progress =
     app_error.Conflict ''BOOTSTRAP_IN_PROGRESS'' [Lit ''bootstrap is already in progress; retry shortly'']"

definition bootstrap_done :: app_error where
  "bootstrap_done = app_error.Conflict ''BOOTSTRAP_DONE''
     [Lit ''the first user has already been created; use the login flow instead'']"

definition first_user :: "string \<Rightarrow> string option \<Rightarrow> new_user" where
  "first_user email display_name =
     \<lparr>nu_email = normalize_email email, nu_display_name = display_name, nu_email_verified = True\<rparr>"

text \<open>
  A call of \<open>create_first_user\<close> that is not interrupted; the lock is free again
  when it returns.
\<close>

definition create_first_user ::
  "instant \<Rightarrow> uuid \<Rightarrow> string \<Rightarrow> string option \<Rightarrow> bool \<times> mem \<Rightarrow> (app_error + user) \<times> bool \<times> mem" where
  "create_first_user now new_id email display_name = (\<lambda>(locked, s).
     if locked then (Err bootstrap_in_progress, locked, s)
     else if \<not> bootstrap_needed s then (Err bootstrap_done, False, s)
     else (let (r, s') = create_user now new_id (first_user email display_name) s in (r, False, s')))"

section \<open>Sessions\<close>

definition create_session_for ::
  "auth_config \<Rightarrow> crypto \<Rightarrow> instant \<Rightarrow> string \<Rightarrow> uuid \<Rightarrow> (mem, created_session) op" where
  "create_session_for cfg cr now cookie_value user_id s =
     (let n = \<lparr>ns_user_id = user_id, ns_expires_at = now + days (int (cfg_absolute_timeout_days cfg)),
               ns_ip_hash = None, ns_user_agent_hash = None\<rparr>
      in case create_session now (cookie_digest cr cookie_value) n s of
           (Inl e, s') \<Rightarrow> (Err e, s')
         | (Inr row, s') \<Rightarrow> (Ok \<lparr>cs_cookie_value = cookie_value, cs_row = row\<rparr>, s'))"

definition lookup_session :: "auth_config \<Rightarrow> crypto \<Rightarrow> instant \<Rightarrow> string \<Rightarrow> mem \<Rightarrow> session_lookup_outcome" where
  "lookup_session cfg cr now cookie_value s =
     (case store_lookup_session s (cookie_digest cr cookie_value) of
        None \<Rightarrow> SessionMissing
      | Some row \<Rightarrow>
         if now > ses_expires_at row then SessionExpired
         else if now > ses_last_used_at row + days (int (cfg_idle_timeout_days cfg)) then SessionExpired
         else SessionActive row)"

definition touch_session :: "instant \<Rightarrow> session_row \<Rightarrow> (mem, unit) op" where
  "touch_session now row s =
     (if num_seconds (now - ses_last_used_at row) < TOUCH_DEBOUNCE_SECS then (Ok (), s)
      else store_touch_session (ses_id_hash row) now s)"

definition service_touch_user :: "instant \<Rightarrow> user \<Rightarrow> (mem, unit) op" where
  "service_touch_user now u s =
     (case us_last_seen_at u of
        Some last_at \<Rightarrow> if num_seconds (now - last_at) < TOUCH_DEBOUNCE_SECS then (Ok (), s) else touch_user (us_id u) now s
      | None \<Rightarrow> touch_user (us_id u) now s)"

definition destroy_session :: "crypto \<Rightarrow> string \<Rightarrow> (mem, unit) op" where
  "destroy_session cr cookie_value s = delete_session (cookie_digest cr cookie_value) s"

record session_info =
  si_id_hash :: string
  si_created_at :: instant
  si_last_used_at :: instant
  si_expires_at :: instant
  si_ip_hash :: "string option"
  si_user_agent_hash :: "string option"
  si_is_current :: bool

definition list_sessions :: "crypto \<Rightarrow> mem \<Rightarrow> uuid \<Rightarrow> string option \<Rightarrow> session_info list" where
  "list_sessions cr s user_id current_cookie_value =
     map (\<lambda>r. \<lparr>si_id_hash = ses_id_hash r, si_created_at = ses_created_at r, si_last_used_at = ses_last_used_at r,
              si_expires_at = ses_expires_at r, si_ip_hash = ses_ip_hash r, si_user_agent_hash = ses_user_agent_hash r,
              si_is_current = (map_option (cookie_digest cr) current_cookie_value = Some (ses_id_hash r))\<rparr>)
       (store_list_sessions s user_id)"

definition revoke_session :: "string \<Rightarrow> (mem, unit) op" where
  "revoke_session id_hash s = delete_session id_hash s"

section \<open>Magic links\<close>

datatype auth_email = MagicLinkEmail string string string "nat" "string option"

definition build_magic_link_url :: "auth_config \<Rightarrow> string \<Rightarrow> string" where
  "build_magic_link_url cfg raw_token =
     trim_end_matches CHR ''/'' (cfg_public_base_url cfg) @ ''/auth/magic-link/verify?token='' @ raw_token"

definition request_magic_link ::
  "auth_config \<Rightarrow> crypto \<Rightarrow> instant \<Rightarrow> uuid \<Rightarrow> string \<Rightarrow> string \<Rightarrow> string option \<Rightarrow> string option \<Rightarrow> mem
     \<Rightarrow> (app_error + unit) option \<times> auth_email list \<times> mem" where
  "request_magic_link cfg cr now new_id raw_token email ip_hint redirect_after s =
     (let normalized = normalize_email email; known = find_user_by_email s normalized in
      case slice_prefix raw_token DEFAULT_PREFIX_LEN of
        None \<Rightarrow> (None, [], s)
      | Some prefix \<Rightarrow>
         (case token_hash cr raw_token of
            Inl e \<Rightarrow> (Some (Err e), [], s)
          | Inr hash \<Rightarrow>
             (case create_magic_link now new_id normalized hash prefix
                     (now + minutes (int (cfg_magic_link_expiry_minutes cfg))) ip_hint redirect_after s of
                (Inl e, s') \<Rightarrow> (Some (Err e), [], s')
              | (Inr _, s') \<Rightarrow>
                 (Some (Ok ()),
                  (case known of
                     None \<Rightarrow> []
                   | Some u \<Rightarrow>
                      [MagicLinkEmail (us_email u) (case us_display_name u of Some n \<Rightarrow> n | None \<Rightarrow> us_email u)
                        (build_magic_link_url cfg raw_token) (cfg_magic_link_expiry_minutes cfg) ip_hint]),
                  s'))))"

definition login_by_email ::
  "auth_config \<Rightarrow> crypto \<Rightarrow> instant \<Rightarrow> uuid \<Rightarrow> string \<Rightarrow> string \<Rightarrow> (mem, created_session option) op" where
  "login_by_email cfg cr now new_user_id cookie_value email s =
     (case (case find_user_by_email s email of
              Some u \<Rightarrow> (Ok u, s)
            | None \<Rightarrow> create_user now new_user_id
                       \<lparr>nu_email = email, nu_display_name = None, nu_email_verified = True\<rparr> s) of
        (Inl e, s1) \<Rightarrow> (Err e, s1)
      | (Inr u, s1) \<Rightarrow>
         (case create_session_for cfg cr now cookie_value (us_id u) s1 of
            (Inl e, s2) \<Rightarrow> (Err e, s2)
          | (Inr created, s2) \<Rightarrow> (Ok (Some created), s2)))"

definition verify_magic_link ::
  "auth_config \<Rightarrow> crypto \<Rightarrow> instant \<Rightarrow> uuid \<Rightarrow> string \<Rightarrow> string \<Rightarrow> mem
     \<Rightarrow> (app_error + created_session option) option \<times> mem" where
  "verify_magic_link cfg cr now new_user_id cookie_value raw_token s =
     (case slice_prefix raw_token DEFAULT_PREFIX_LEN of
        None \<Rightarrow> (None, s)
      | Some prefix \<Rightarrow>
         (case find (\<lambda>l. token_verify cr raw_token (ml_token_hash l)) (find_magic_links_by_prefix s prefix) of
            None \<Rightarrow> (Some (Ok None), s)
          | Some l \<Rightarrow>
             (case consume_magic_link now (ml_id l) s of
                (Inl e, s1) \<Rightarrow> (Some (Err e), s1)
              | (Inr None, s1) \<Rightarrow> (Some (Ok None), s1)
              | (Inr (Some consumed), s1) \<Rightarrow>
                 (let (r, s2) = login_by_email cfg cr now new_user_id cookie_value (ml_email consumed) s1
                  in (Some r, s2)))))"

section \<open>API tokens\<close>

record api_token_info =
  ati_id :: uuid
  ati_name :: string
  ati_token_prefix :: string
  ati_scopes :: "scope list"
  ati_created_at :: instant
  ati_last_used_at :: "instant option"
  ati_expires_at :: "instant option"

definition token_info :: "api_token_row \<Rightarrow> api_token_info" where
  "token_info r =
     \<lparr>ati_id = at_id r, ati_name = at_name r, ati_token_prefix = at_token_prefix r, ati_scopes = at_scopes r,
      ati_created_at = at_created_at r, ati_last_used_at = at_last_used_at r, ati_expires_at = at_expires_at r\<rparr>"

definition create_api_token ::
  "crypto \<Rightarrow> instant \<Rightarrow> uuid \<Rightarrow> string \<Rightarrow> uuid \<Rightarrow> new_api_token \<Rightarrow> mem
     \<Rightarrow> (app_error + string \<times> api_token_info) option \<times> mem" where
  "create_api_token cr now new_id raw user_id n s =
     (case slice_prefix raw DEFAULT_PREFIX_LEN of
        None \<Rightarrow> (None, s)
      | Some prefix \<Rightarrow>
         (case token_hash cr raw of
            Inl e \<Rightarrow> (Some (Err e), s)
          | Inr hash \<Rightarrow>
             (case store_create_api_token now new_id user_id n hash prefix s of
                (Inl e, s') \<Rightarrow> (Some (Err e), s')
              | (Inr row, s') \<Rightarrow> (Some (Ok (raw, token_info row)), s'))))"

fun lookup_candidates :: "crypto \<Rightarrow> instant \<Rightarrow> string \<Rightarrow> api_token_row list \<Rightarrow> api_token_lookup_outcome" where
  "lookup_candidates cr now raw [] = TokenInvalid"
| "lookup_candidates cr now raw (row # rows) =
     (if (case at_expires_at row of Some e \<Rightarrow> now > e | None \<Rightarrow> False) then lookup_candidates cr now raw rows
      else if token_verify cr raw (at_token_hash row) then TokenActive row
      else lookup_candidates cr now raw rows)"

definition lookup_api_token :: "crypto \<Rightarrow> instant \<Rightarrow> string \<Rightarrow> mem \<Rightarrow> api_token_lookup_outcome option" where
  "lookup_api_token cr now raw s =
     (if \<not> starts_with raw TOKEN_PREFIX then Some TokenInvalid
      else (case slice_prefix raw DEFAULT_PREFIX_LEN of
         None \<Rightarrow> None
       | Some prefix \<Rightarrow> Some (lookup_candidates cr now raw (find_api_tokens_by_prefix s prefix))))"

definition list_api_tokens :: "mem \<Rightarrow> uuid \<Rightarrow> api_token_info list" where
  "list_api_tokens s user_id = map token_info (store_list_api_tokens s user_id)"

definition rename_api_token :: "uuid \<Rightarrow> uuid \<Rightarrow> string \<Rightarrow> (mem, api_token_info) op" where
  "rename_api_token _ k new_name s =
     (case update_api_token k new_name s of
        (Inl e, s') \<Rightarrow> (Err e, s')
      | (Inr row, s') \<Rightarrow> (Ok (token_info row), s'))"

definition delete_api_token :: "uuid \<Rightarrow> uuid \<Rightarrow> (mem, unit) op" where
  "delete_api_token _ k s = store_delete_api_token k s"

definition touch_api_token :: "instant \<Rightarrow> api_token_row \<Rightarrow> (mem, unit) op" where
  "touch_api_token now row s =
     (case at_last_used_at row of
        Some last_at \<Rightarrow> if num_seconds (now - last_at) < TOUCH_DEBOUNCE_SECS then (Ok (), s) else store_touch_api_token (at_id row) now s
      | None \<Rightarrow> store_touch_api_token (at_id row) now s)"

section \<open>Request identity\<close>

text \<open>
  The headers of a request: the text of a header when it is present and
  printable, and whether it is present.
\<close>

record http_headers =
  hd_text :: "string \<Rightarrow> string option"
  hd_has :: "string \<Rightarrow> bool"

datatype auth_identity =
    Anonymous
  | SessionIdentity user string
  | TokenIdentity api_token_row user

fun is_authenticated :: "auth_identity \<Rightarrow> bool" where
  "is_authenticated Anonymous = False"
| "is_authenticated _ = True"

fun is_api_token :: "auth_identity \<Rightarrow> bool" where
  "is_api_token (TokenIdentity _ _) = True"
| "is_api_token _ = False"

fun identity_user :: "auth_identity \<Rightarrow> user option" where
  "identity_user Anonymous = None"
| "identity_user (SessionIdentity u _) = Some u"
| "identity_user (TokenIdentity _ u) = Some u"

fun cookie_in :: "string \<Rightarrow> string list \<Rightarrow> string option" where
  "cookie_in cookie_name [] = None"
| "cookie_in cookie_name (p # ps) =
     (case split_once CHR ''='' (trim p) of
        Some (name, value) \<Rightarrow> if trim name = cookie_name then Some (trim value) else cookie_in cookie_name ps
      | None \<Rightarrow> cookie_in cookie_name ps)"

definition extract_session_cookie :: "http_headers \<Rightarrow> string \<Rightarrow> string option" where
  "extract_session_cookie h cookie_name =
     (case hd_text h ''cookie'' of None \<Rightarrow> None | Some t \<Rightarrow> cookie_in cookie_name (split_char CHR '';'' t))"

definition extract_bearer_token :: "http_headers \<Rightarrow> string option" where
  "extract_bearer_token h =
     (case hd_text h ''authorization'' of
        None \<Rightarrow> None
      | Some t \<Rightarrow>
         (case strip_prefix t ''Bearer '' of
            None \<Rightarrow> None
          | Some token \<Rightarrow> if trim token = [] then None else Some (trim token)))"

definition session_identity :: "auth_config \<Rightarrow> crypto \<Rightarrow> instant \<Rightarrow> http_headers \<Rightarrow> mem \<Rightarrow> auth_identity option" where
  "session_identity cfg cr now h s =
     (case extract_session_cookie h (cfg_cookie_name cfg) of
        None \<Rightarrow> None
      | Some cookie_value \<Rightarrow>
         (case lookup_session cfg cr now cookie_value s of
            SessionActive row \<Rightarrow>
              (case get_user s (ses_user_id row) of
                 Inr u \<Rightarrow> Some (SessionIdentity u cookie_value)
               | Inl _ \<Rightarrow> None)
          | SessionExpired \<Rightarrow> None
          | SessionMissing \<Rightarrow> None))"

definition token_identity :: "crypto \<Rightarrow> instant \<Rightarrow> http_headers \<Rightarrow> mem \<Rightarrow> auth_identity option" where
  "token_identity cr now h s =
     (case extract_bearer_token h of
        None \<Rightarrow> Some Anonymous
      | Some raw \<Rightarrow>
         (case lookup_api_token cr now raw s of
            None \<Rightarrow> None
          | Some (TokenActive row) \<Rightarrow>
              (case get_user s (at_user_id row) of
                 Inr u \<Rightarrow> Some (TokenIdentity row u)
               | Inl _ \<Rightarrow> Some Anonymous)
          | Some TokenInvalid \<Rightarrow> Some Anonymous))"

definition resolve_identity :: "auth_config \<Rightarrow> crypto \<Rightarrow> instant \<Rightarrow> http_headers \<Rightarrow> mem \<Rightarrow> auth_identity option" where
  "resolve_identity cfg cr now h s =
     (case session_identity cfg cr now h s of
        Some i \<Rightarrow> Some i
      | None \<Rightarrow> token_identity cr now h s)"

text \<open>
  The writes the middleware spawns while it resolves a request: the touches of
  an accepted session and its user, or the removal of an expired session, and
  the touch of an accepted token when the cookie gave no identity.
\<close>

definition session_touches :: "auth_config \<Rightarrow> crypto \<Rightarrow> instant \<Rightarrow> http_headers \<Rightarrow> mem \<Rightarrow> mem" where
  "session_touches cfg cr now h s =
     (case extract_session_cookie h (cfg_cookie_name cfg) of
        None \<Rightarrow> s
      | Some cookie_value \<Rightarrow>
         (case lookup_session cfg cr now cookie_value s of
            SessionActive row \<Rightarrow>
              (case get_user s (ses_user_id row) of
                 Inr u \<Rightarrow> snd (service_touch_user now u (snd (touch_session now row s)))
               | Inl _ \<Rightarrow> s)
          | SessionExpired \<Rightarrow> snd (destroy_session cr cookie_value s)
          | SessionMissing \<Rightarrow> s))"

definition spawned_touches :: "auth_config \<Rightarrow> crypto \<Rightarrow> instant \<Rightarrow> http_headers \<Rightarrow> mem \<Rightarrow> mem" where
  "spawned_touches cfg cr now h s =
     (let s' = session_touches cfg cr now h s in
      case resolve_identity cfg cr now h s of
        Some (TokenIdentity row _) \<Rightarrow> snd (touch_api_token now row s')
      | _ \<Rightarrow> s')"

section \<open>Guards\<close>

datatype rejection = Reject nat string

definition RequireAuth :: "auth_identity \<Rightarrow> rejection + auth_identity" where
  "RequireAuth identity =
     (if is_authenticated identity then Ok identity else Err (Reject 401 ''authentication required''))"

fun RequireSession :: "auth_identity \<Rightarrow> rejection + user \<times> string" where
  "RequireSession (SessionIdentity u cookie_value) = Ok (u, cookie_value)"
| "RequireSession (TokenIdentity _ _) = Err (Reject 401 ''browser session required; API tokens are not accepted here'')"
| "RequireSession Anonymous = Err (Reject 401 ''authentication required'')"

definition csrf_guard :: "auth_identity \<Rightarrow> http_headers \<Rightarrow> rejection + unit" where
  "csrf_guard identity h =
     (if is_api_token identity \<or> \<not> is_authenticated identity then Ok ()
      else if hd_has h ''x-requested-with'' then Ok ()
      else Err (Reject 403 ''CSRF check failed: missing X-Requested-With header''))"

definition csrf_guard_middleware :: "string \<Rightarrow> http_headers \<Rightarrow> rejection + unit" where
  "csrf_guard_middleware http_method h =
     (if http_method \<notin> {''POST'', ''PATCH'', ''DELETE'', ''PUT''} then Ok ()
      else if hd_has h ''x-requested-with'' \<or> hd_has h ''authorization'' then Ok ()
      else Err (Reject 403 ''CSRF check failed''))"

text \<open>\<open>require_auth_middleware\<close>: whether a request under \<open>/api/v1\<close> reaches its handler.\<close>

definition require_auth_middleware :: "auth_identity \<Rightarrow> rejection + unit" where
  "require_auth_middleware identity =
     (if is_authenticated identity then Ok () else Err (Reject 401 ''authentication required''))"

section \<open>Session lifetime\<close>

definition session_ok :: "auth_config \<Rightarrow> string \<Rightarrow> session_row \<Rightarrow> bool" where
  "session_ok cfg h r \<longleftrightarrow>
     ses_id_hash r = h \<and> ses_expires_at r = ses_created_at r + days (int (cfg_absolute_timeout_days cfg))"

definition sessions_ok :: "auth_config \<Rightarrow> mem \<Rightarrow> bool" where
  "sessions_ok cfg s \<longleftrightarrow> (\<forall>(h, r) \<in> set (m_sessions s). session_ok cfg h r)"

inductive session_step :: "auth_config \<Rightarrow> crypto \<Rightarrow> mem \<Rightarrow> mem \<Rightarrow> bool" for cfg cr where
  login: "session_step cfg cr s (snd (create_session_for cfg cr now cookie_value user_id s))"
| magic_link: "session_step cfg cr s (snd (verify_magic_link cfg cr now new_user cookie_value raw s))"
| request: "session_step cfg cr s (spawned_touches cfg cr now h s)"
| touch: "session_step cfg cr s (snd (touch_session now row s))"
| logout: "session_step cfg cr s (snd (destroy_session cr cookie_value s))"
| revoke: "session_step cfg cr s (snd (revoke_session id_hash s))"
| purge: "session_step cfg cr s (snd (delete_expired_sessions now s))"

lemma sessions_ok_subset: "sessions_ok cfg s \<Longrightarrow> set (m_sessions s') \<subseteq> set (m_sessions s) \<Longrightarrow> sessions_ok cfg s'"
  unfolding sessions_ok_def by blast

lemma sessions_ok_insert:
  "sessions_ok cfg s \<Longrightarrow> m_sessions s' = hm_insert h r (m_sessions s) \<Longrightarrow> session_ok cfg h r \<Longrightarrow> sessions_ok cfg s'"
  unfolding sessions_ok_def using hm_insert_entries [of h r "m_sessions s"] by fastforce

lemma sessions_ok_login:
  assumes "sessions_ok cfg s"
  shows "sessions_ok cfg (snd (create_session_for cfg cr now c u s))"
proof -
  let ?h = "cookie_digest cr c"
  let ?r = "\<lparr>ses_id_hash = ?h, ses_user_id = u, ses_created_at = now, ses_last_used_at = now,
    ses_expires_at = now + days (int (cfg_absolute_timeout_days cfg)), ses_ip_hash = None, ses_user_agent_hash = None\<rparr>"
  have "snd (create_session_for cfg cr now c u s) = s \<or>
      m_sessions (snd (create_session_for cfg cr now c u s)) = hm_insert ?h ?r (m_sessions s)"
    by (simp add: create_session_for_def create_session_def Let_def)
  moreover have "session_ok cfg ?h ?r" by (simp add: session_ok_def)
  ultimately show ?thesis using assms sessions_ok_insert by metis
qed

lemma sessions_ok_touch:
  assumes "sessions_ok cfg s"
  shows "sessions_ok cfg (snd (touch_session now row s))"
proof -
  have "session_ok cfg h r" if "hm_get (m_sessions s) h = Some r" for h r
    using assms hm_get_entry [OF that] by (auto simp: sessions_ok_def)
  then have "session_ok cfg h (r\<lparr>ses_last_used_at := now\<rparr>)" if "hm_get (m_sessions s) h = Some r" for h r
    using that by (simp add: session_ok_def)
  then show ?thesis
    using assms sessions_ok_insert [OF assms] by (simp add: touch_session_def store_touch_session_def split: option.split)
qed

lemma m_sessions_users [simp]:
  "m_sessions (snd (create_user now k n s)) = m_sessions s"
  "m_sessions (snd (service_touch_user now u s)) = m_sessions s"
  "m_sessions (snd (consume_magic_link now k s)) = m_sessions s"
  by (auto simp: create_user_def service_touch_user_def touch_user_def consume_magic_link_def Let_def split: option.split)

lemma sessions_ok_cong: "m_sessions s = m_sessions s' \<Longrightarrow> sessions_ok cfg s = sessions_ok cfg s'"
  by (simp add: sessions_ok_def)

lemma sessions_ok_delete: "sessions_ok cfg s \<Longrightarrow> sessions_ok cfg (snd (delete_session h s))"
  by (erule sessions_ok_subset) (simp add: delete_session_def hm_remove_entries)

lemma sessions_ok_login_by_email:
  assumes "sessions_ok cfg s"
  shows "sessions_ok cfg (snd (login_by_email cfg cr now n c e s))"
proof -
  let ?r = "case find_user_by_email s e of Some u \<Rightarrow> (Ok u, s)
    | None \<Rightarrow> create_user now n \<lparr>nu_email = e, nu_display_name = None, nu_email_verified = True\<rparr> s"
  have "m_sessions (snd ?r) = m_sessions s" by (simp split: option.split)
  then have ok: "sessions_ok cfg (snd ?r)" using sessions_ok_subset [OF assms, of "snd ?r"] by simp
  obtain r s1 where r: "?r = (r, s1)" by (cases ?r)
  then have s1: "sessions_ok cfg s1" using ok by simp
  show ?thesis
  proof (cases r)
    case (Inl e)
    then show ?thesis using s1 by (simp add: login_by_email_def r)
  next
    case (Inr u)
    then have "snd (login_by_email cfg cr now n c e s) = snd (create_session_for cfg cr now c (us_id u) s1)"
      by (simp add: login_by_email_def r split: prod.split sum.split)
    then show ?thesis using sessions_ok_login [OF s1] by simp
  qed
qed

lemma sessions_ok_magic_link:
  assumes "sessions_ok cfg s"
  shows "sessions_ok cfg (snd (verify_magic_link cfg cr now n c raw s))"
proof -
  have "sessions_ok cfg (snd (consume_magic_link now k s))" for k
    using assms sessions_ok_cong [of "snd (consume_magic_link now k s)" s] by simp
  then show ?thesis
    unfolding verify_magic_link_def using assms sessions_ok_login_by_email
    by (auto simp: split_beta split: option.split sum.split prod.split)
qed

lemma sessions_ok_step: "session_step cfg cr s s' \<Longrightarrow> sessions_ok cfg s \<Longrightarrow> sessions_ok cfg s'"
proof (induction rule: session_step.induct)
  case (request s now h)
  have "sessions_ok cfg (snd (service_touch_user now u (snd (touch_session now row s))))" for u row
    using sessions_ok_touch [OF request] sessions_ok_cong [of "snd (service_touch_user now u (snd (touch_session now row s)))"]
    by simp
  then have "sessions_ok cfg (session_touches cfg cr now h s)"
    using request sessions_ok_delete
    by (simp add: session_touches_def destroy_session_def split: option.split session_lookup_outcome.split sum.split)
  moreover have "m_sessions (snd (touch_api_token now row x)) = m_sessions x" for row x
    by (simp add: touch_api_token_def store_touch_api_token_def split: option.split)
  then have "sessions_ok cfg (snd (touch_api_token now row x)) = sessions_ok cfg x" for row x
    by (rule sessions_ok_cong)
  ultimately show ?case
    by (simp add: spawned_touches_def Let_def split: option.split auth_identity.split)
next
  case (purge s now)
  then show ?case
    by (rule sessions_ok_subset) (simp add: delete_expired_sessions_def Let_def hm_retain_entries)
qed (simp_all add: sessions_ok_login sessions_ok_magic_link sessions_ok_touch sessions_ok_delete destroy_session_def
    revoke_session_def)

interpretation session_runs: step_invariant "session_step cfg cr" "sessions_ok cfg" for cfg cr
  by unfold_locales (rule sessions_ok_step)

text \<open>
  C4: No session outlives its timeouts.  After any run of logins, requests with
  their touches, logouts, revocations and purges, a session that is accepted
  at some time is the one stored under the digest of the cookie, is within its
  absolute lifetime counted from its creation, which no use extends, and
  within the idle time counted from its last recorded use.
\<close>

theorem session_lifetime_bounded:
  assumes "(session_step cfg cr)\<^sup>*\<^sup>* new_storage s" "lookup_session cfg cr now cookie_value s = SessionActive row"
  shows "ses_id_hash row = cookie_digest cr cookie_value \<and>
    now \<le> ses_created_at row + days (int (cfg_absolute_timeout_days cfg)) \<and>
    now \<le> ses_last_used_at row + days (int (cfg_idle_timeout_days cfg))"
proof -
  have "sessions_ok cfg new_storage" by (simp add: sessions_ok_def new_storage_def)
  with assms(1) have "sessions_ok cfg s" by (rule session_runs.run_good)
  moreover have get: "hm_get (m_sessions s) (cookie_digest cr cookie_value) = Some row"
    and "now \<le> ses_expires_at row" "now \<le> ses_last_used_at row + days (int (cfg_idle_timeout_days cfg))"
    using assms(2) by (simp_all add: lookup_session_def store_lookup_session_def split: option.splits if_splits)
  ultimately show ?thesis
    using hm_get_entry [OF get] by (auto simp: sessions_ok_def session_ok_def)
qed

definition sample_cfg :: auth_config where
  "sample_cfg = \<lparr>cfg_idle_timeout_days = 30, cfg_absolute_timeout_days = 90, cfg_cookie_name = ''_sm_session'', cfg_cookie_secure = True, cfg_cookie_domain = [],
     cfg_magic_link_expiry_minutes = 15, cfg_public_base_url = ''https://status.example.org/''\<rparr>"

definition sample_crypto :: crypto where
  "sample_crypto = \<lparr>cookie_digest = (\<lambda>c. ''d'' @ c), token_hash = (\<lambda>t. Ok (''h'' @ t)),
     token_verify = (\<lambda>t h. h = ''h'' @ t)\<rparr>"

lemma session_lifetime_bounded_witness:
  "\<exists>row. lookup_session sample_cfg sample_crypto 5 ''c'' (snd (create_session_for sample_cfg sample_crypto 0 ''c'' 1 new_storage)) =
       SessionActive row \<and> ses_id_hash row = ''dc'' \<and> 5 \<le> ses_created_at row + days 90"
proof -
  let ?s = "snd (create_session_for sample_cfg sample_crypto 0 ''c'' 1 new_storage)"
  have run: "(session_step sample_cfg sample_crypto)\<^sup>*\<^sup>* new_storage ?s"
    by (rule r_into_rtranclp) (rule session_step.login)
  obtain row where row: "lookup_session sample_cfg sample_crypto 5 ''c'' ?s = SessionActive row"
    by (simp add: create_session_for_def create_session_def Let_def lookup_session_def store_lookup_session_def
        new_storage_def sample_cfg_def days_def hours_def minutes_def seconds_def nanos_per_sec_def)
  show ?thesis
    using session_lifetime_bounded [OF run row] row by (simp add: sample_cfg_def sample_crypto_def)
qed

section \<open>Magic links\<close>

definition links_ok :: "mem \<Rightarrow> bool" where
  "links_ok s \<longleftrightarrow> (\<forall>(k, l) \<in> set (m_magic_links s). ml_id l = k)"

text \<open>Every stored link that the token would verify against has been used.\<close>

definition spent :: "crypto \<Rightarrow> string \<Rightarrow> mem \<Rightarrow> bool" where
  "spent cr raw s \<longleftrightarrow> (\<forall>(k, l) \<in> set (m_magic_links s). token_verify cr raw (ml_token_hash l) \<longrightarrow> ml_used_at l \<noteq> None)"

inductive link_step :: "auth_config \<Rightarrow> crypto \<Rightarrow> string \<Rightarrow> mem \<Rightarrow> mem \<Rightarrow> bool" for cfg cr raw where
  request: "token_hash cr other = Ok h \<Longrightarrow> \<not> token_verify cr raw h \<Longrightarrow>
     link_step cfg cr raw s (snd (snd (request_magic_link cfg cr now new_id other email ip redirect s)))"
| verify: "link_step cfg cr raw s (snd (verify_magic_link cfg cr now new_user cookie_value other s))"
| purge: "link_step cfg cr raw s (snd (delete_expired_magic_links now s))"

lemma spent_insert:
  assumes "spent cr raw s" "m_magic_links s' = hm_insert k l (m_magic_links s)"
    and "token_verify cr raw (ml_token_hash l) \<Longrightarrow> ml_used_at l \<noteq> None"
  shows "spent cr raw s'"
  using assms hm_insert_entries [of k l "m_magic_links s"] unfolding spent_def by fastforce

lemma spent_subset: "spent cr raw s \<Longrightarrow> set (m_magic_links s') \<subseteq> set (m_magic_links s) \<Longrightarrow> spent cr raw s'"
  unfolding spent_def by blast

lemma m_magic_links_login [simp]: "m_magic_links (snd (login_by_email cfg cr now n c e s)) = m_magic_links s"
proof -
  have "m_magic_links (snd (create_user now n x s)) = m_magic_links s" for x
    by (simp add: create_user_def Let_def)
  moreover have "m_magic_links (snd (create_session_for cfg cr now c u t)) = m_magic_links t" for u t
    by (simp add: create_session_for_def create_session_def Let_def)
  ultimately show ?thesis
    by (auto simp: login_by_email_def split: option.split sum.split prod.split) (metis snd_conv)+
qed

lemma verify_magic_link_links:
  "m_magic_links (snd (verify_magic_link cfg cr now n c raw s)) = m_magic_links s \<or>
   (\<exists>k l. hm_get (m_magic_links s) k = Some l \<and> ml_used_at l = None \<and>
      m_magic_links (snd (verify_magic_link cfg cr now n c raw s)) =
        hm_insert k (l\<lparr>ml_used_at := Some now\<rparr>) (m_magic_links s))"
  by (auto simp: verify_magic_link_def consume_magic_link_def Let_def split_beta split: option.split)

lemma spent_step: "link_step cfg cr raw s s' \<Longrightarrow> spent cr raw s \<Longrightarrow> spent cr raw s'"
proof (induction rule: link_step.induct)
  case (request other h s now new_id email ip redirect)
  let ?s' = "snd (snd (request_magic_link cfg cr now new_id other email ip redirect s))"
  have "m_magic_links ?s' = m_magic_links s \<or>
      (\<exists>l. ml_token_hash l = h \<and> m_magic_links ?s' = hm_insert new_id l (m_magic_links s))"
  proof (cases "slice_prefix other DEFAULT_PREFIX_LEN")
    case None
    then show ?thesis by (simp add: request_magic_link_def)
  next
    case (Some p)
    let ?l = "\<lparr>ml_id = new_id, ml_email = normalize_email (normalize_email email), ml_token_hash = h, ml_token_prefix = p,
      ml_created_at = now, ml_expires_at = now + minutes (int (cfg_magic_link_expiry_minutes cfg)), ml_used_at = None,
      ml_ip_hash = ip, ml_redirect_after = redirect\<rparr>"
    have "m_magic_links ?s' \<in> {m_magic_links s, hm_insert new_id ?l (m_magic_links s)}"
      using request(1) Some by (simp add: request_magic_link_def create_magic_link_def Let_def)
    moreover have "ml_token_hash ?l = h" by simp
    ultimately show ?thesis by blast
  qed
  then show ?case
    using request(2,3) spent_subset [OF request(3)] spent_insert [OF request(3)] by (metis order_refl)
next
  case (verify s now new_user cookie_value other)
  then show ?case
    using verify_magic_link_links [of cfg cr now new_user cookie_value other s]
      spent_subset [OF verify] spent_insert [OF verify]
    by (elim disjE exE conjE) (force simp: spent_def)+
next
  case (purge s now)
  then show ?case
    by (rule spent_subset) (simp add: delete_expired_magic_links_def Let_def hm_retain_entries)
qed

lemma spent_verify_fails:
  assumes "spent cr raw s" "slice_prefix raw DEFAULT_PREFIX_LEN \<noteq> None"
  shows "verify_magic_link cfg cr now n c raw s = (Some (Ok None), s)"
proof -
  have "find (\<lambda>l. token_verify cr raw (ml_token_hash l)) (find_magic_links_by_prefix s p) = None" for p
    using assms(1) by (auto simp: find_None_iff find_magic_links_by_prefix_def spent_def hm_values_def)
  then show ?thesis using assms(2) by (auto simp: verify_magic_link_def split: option.split)
qed

interpretation link_runs: step_invariant "link_step cfg cr raw" "spent cr raw" for cfg cr raw
  by unfold_locales (rule spent_step)

text \<open>
  C6: A magic link logs in once.  When no two stored links verify against the
  same token, after a verification that opened a session and any number of
  further requests for other tokens, verifications and purges, the same token
  opens no session and changes nothing.
\<close>

theorem magic_link_single_use:
  assumes "hm_ok (m_magic_links s)" "links_ok s"
    and "\<And>k l k' l'. hm_get (m_magic_links s) k = Some l \<Longrightarrow> hm_get (m_magic_links s) k' = Some l' \<Longrightarrow>
           token_verify cr raw (ml_token_hash l) \<Longrightarrow> token_verify cr raw (ml_token_hash l') \<Longrightarrow> k = k'"
    and "verify_magic_link cfg cr now n c raw s = (Some (Ok (Some created)), s1)"
    and "(link_step cfg cr raw)\<^sup>*\<^sup>* s1 s2"
  shows "verify_magic_link cfg cr later n' c' raw s2 = (Some (Ok None), s2)"
proof -
  obtain p where p: "slice_prefix raw DEFAULT_PREFIX_LEN = Some p"
    using assms(4) by (auto simp: verify_magic_link_def split: option.splits)
  obtain l where l: "find (\<lambda>l. token_verify cr raw (ml_token_hash l)) (find_magic_links_by_prefix s p) = Some l"
    using assms(4) p by (auto simp: verify_magic_link_def split: option.splits)
  then have ver: "token_verify cr raw (ml_token_hash l)" and "l \<in> set (find_magic_links_by_prefix s p)"
    by (auto simp: find_Some_iff)
  then have "l \<in> set (hm_values (m_magic_links s))" "ml_used_at l = None"
    by (auto simp: find_magic_links_by_prefix_def)
  then have get: "hm_get (m_magic_links s) (ml_id l) = Some l"
    using assms(1,2) by (auto simp: links_ok_def hm_values_def hm_ok_def hm_get_def)
  have s1: "m_magic_links s1 = hm_insert (ml_id l) (l\<lparr>ml_used_at := Some now\<rparr>) (m_magic_links s)"
    using assms(4) p l get \<open>ml_used_at l = None\<close>
    by (auto simp: verify_magic_link_def consume_magic_link_def Let_def split_beta dest!: arg_cong [of _ _ snd])
  have ok1: "hm_ok (m_magic_links s1)" using assms(1) by (simp add: s1)
  have "ml_used_at x \<noteq> None" if kx: "(k, x) \<in> set (m_magic_links s1)" "token_verify cr raw (ml_token_hash x)" for k x
  proof -
    have "hm_get (m_magic_links s1) k = Some x" using kx(1) ok1 by (simp add: hm_get_def hm_ok_def)
    then show ?thesis
      using kx(2) assms(3) [OF _ get _ ver, of k x] by (auto simp: s1 split: if_splits)
  qed
  then have "spent cr raw s1" by (auto simp: spent_def)
  with assms(5) have "spent cr raw s2" by (rule link_runs.run_good)
  then show ?thesis using spent_verify_fails p by simp
qed

definition sample_user :: user where
  "sample_user = \<lparr>us_id = 1, us_email = ''a@b'', us_display_name = None, us_email_verified_at = None, us_last_seen_at = None,
     us_theme = ThemeDefault, us_time_format = Auto, us_created_at = 0, us_updated_at = 0, us_deleted_at = None\<rparr>"

definition sample_link :: "instant \<Rightarrow> magic_link_row" where
  "sample_link expires = \<lparr>ml_id = 2, ml_email = ''a@b'', ml_token_hash = ''htoken'', ml_token_prefix = ''token'', ml_created_at = 0,
     ml_expires_at = expires, ml_used_at = None, ml_ip_hash = None, ml_redirect_after = None\<rparr>"

definition link_store :: mem where
  "link_store = new_storage\<lparr>m_users := [(1, sample_user)], m_magic_links := [(2, sample_link 100)]\<rparr>"

lemma magic_link_single_use_witness:
  "let s1 = snd (verify_magic_link sample_cfg sample_crypto 50 9 ''c'' ''token'' link_store)
   in verify_magic_link sample_cfg sample_crypto 60 9 ''c2'' ''token'' s1 = (Some (Ok None), s1)"
proof -
  let ?v = "verify_magic_link sample_cfg sample_crypto 50 9 ''c'' ''token'' link_store"
  have ok: "hm_ok (m_magic_links link_store)" "links_ok link_store"
    by (simp_all add: link_store_def hm_ok_def links_ok_def sample_link_def)
  have one: "k = k'" if "hm_get (m_magic_links link_store) k = Some l" "hm_get (m_magic_links link_store) k' = Some l'"
    "token_verify sample_crypto ''token'' (ml_token_hash l)" "token_verify sample_crypto ''token'' (ml_token_hash l')" for k k' l l'
    using that by (auto simp: link_store_def hm_get_def split: if_splits)
  have "case fst ?v of Some (Inr (Some _)) \<Rightarrow> True | _ \<Rightarrow> False" by code_simp
  then obtain created where v: "?v = (Some (Ok (Some created)), snd ?v)"
    by (cases ?v) (auto split: option.splits sum.splits)
  show ?thesis
    unfolding Let_def
    by (rule magic_link_single_use [OF ok _ v rtranclp.rtrancl_refl]) (rule one)
qed

lemma normalize_email_idem: "normalize_email (normalize_email e) = normalize_email e"
  by (simp add: normalize_email_def trim_lowercase trim_idem) (simp add: to_lowercase_def lower_char_facts)

text \<open>
  A magic link logs its user in, however late.  When a link is requested
  for the address of a known user, the token that was mailed opens a session
  for that user at every later time: the expiry that is stored with the link
  is not looked at.  The token hash verifies what it was computed from, no
  other stored link verifies against the token, and the new cookie is unused.
\<close>

theorem magic_link_accepted_after_expiry:
  assumes "token_hash cr raw = Ok h" "token_verify cr raw h"
    and "slice_prefix raw DEFAULT_PREFIX_LEN = Some p"
    and "find_user_by_email s email = Some u"
    and "hm_get (m_magic_links s) new_id = None"
    and "\<And>l. l \<in> set (hm_values (m_magic_links s)) \<Longrightarrow> \<not> token_verify cr raw (ml_token_hash l)"
    and "hm_get (m_sessions s) (cookie_digest cr c) = None"
  shows "let (r, mails, s1) = request_magic_link cfg cr t0 new_id raw email ip redirect s;
             (r2, s2) = verify_magic_link cfg cr now n c raw s1
         in r = Some (Ok ()) \<and> length mails = 1 \<and>
            (\<exists>created. r2 = Some (Ok (Some created)) \<and> ses_user_id (cs_row created) = us_id u \<and>
               lookup_session cfg cr now c s2 = SessionActive (cs_row created))"
proof -
  let ?l = "\<lparr>ml_id = new_id, ml_email = normalize_email email, ml_token_hash = h, ml_token_prefix = p,
    ml_created_at = t0, ml_expires_at = t0 + minutes (int (cfg_magic_link_expiry_minutes cfg)), ml_used_at = None,
    ml_ip_hash = ip, ml_redirect_after = redirect\<rparr>"
  let ?s1 = "s\<lparr>m_magic_links := hm_insert new_id ?l (m_magic_links s)\<rparr>"
  have known: "find_user_by_email t (normalize_email email) = Some u" if "m_users t = m_users s" for t
    using assms(4) that by (simp add: find_user_by_email_def normalize_email_idem)
  obtain mails where req: "request_magic_link cfg cr t0 new_id raw email ip redirect s = (Some (Ok ()), mails, ?s1)"
      and "length mails = 1"
    using assms(1,3,5) known [of s]
    by (auto simp: request_magic_link_def create_magic_link_def Let_def normalize_email_idem)
  have vals: "hm_values (m_magic_links ?s1) = hm_values (m_magic_links s) @ [?l]"
    using values_insert_fresh [OF assms(5)] by simp
  have find: "find (\<lambda>l. token_verify cr raw (ml_token_hash l)) (find_magic_links_by_prefix ?s1 p) = Some ?l"
  proof (rule find_unique)
    show "?l \<in> set (find_magic_links_by_prefix ?s1 p)" unfolding find_magic_links_by_prefix_def vals by simp
    show "y = ?l" if "y \<in> set (find_magic_links_by_prefix ?s1 p)" "token_verify cr raw (ml_token_hash y)" for y
      using that assms(6) [of y] unfolding find_magic_links_by_prefix_def vals by auto
  qed (simp add: assms(2))
  let ?s2 = "?s1\<lparr>m_magic_links := hm_insert new_id (?l\<lparr>ml_used_at := Some now\<rparr>) (m_magic_links ?s1)\<rparr>"
  have ver: "verify_magic_link cfg cr now n c raw ?s1 =
      (let (r, s2) = login_by_email cfg cr now n c (normalize_email email) ?s2 in (Some r, s2))"
    using assms(3) find by (simp add: verify_magic_link_def consume_magic_link_def Let_def)
  let ?row = "\<lparr>ses_id_hash = cookie_digest cr c, ses_user_id = us_id u, ses_created_at = now, ses_last_used_at = now,
    ses_expires_at = now + days (int (cfg_absolute_timeout_days cfg)), ses_ip_hash = None, ses_user_agent_hash = None\<rparr>"
  have login: "login_by_email cfg cr now n c (normalize_email email) ?s2 =
      (Ok (Some \<lparr>cs_cookie_value = c, cs_row = ?row\<rparr>),
       ?s2\<lparr>m_sessions := hm_insert (cookie_digest cr c) ?row (m_sessions s)\<rparr>)"
    using known [of ?s2] assms(7) by (simp add: login_by_email_def create_session_for_def create_session_def Let_def)
  have "lookup_session cfg cr now c (?s2\<lparr>m_sessions := hm_insert (cookie_digest cr c) ?row (m_sessions s)\<rparr>) = SessionActive ?row"
    by (simp add: lookup_session_def store_lookup_session_def days_def hours_def minutes_def seconds_def nanos_per_sec_def)
  then show ?thesis
    unfolding Let_def req prod.case ver login using \<open>length mails = 1\<close> by simp
qed

lemma magic_link_accepted_after_expiry_witness:
  "\<exists>created. fst (verify_magic_link sample_cfg sample_crypto (days 1000) 9 ''c'' ''token''
      (snd (snd (request_magic_link sample_cfg sample_crypto 0 2 ''token'' ''a@b'' None None
        (new_storage\<lparr>m_users := [(1, sample_user)]\<rparr>))))) = Some (Ok (Some created))"
proof -
  let ?s = "new_storage\<lparr>m_users := [(1, sample_user)]\<rparr>"
  have user: "find_user_by_email ?s ''a@b'' = Some sample_user" by code_simp
  have prefix: "slice_prefix ''token'' DEFAULT_PREFIX_LEN = Some ''token''" by code_simp
  have "token_hash sample_crypto ''token'' = Ok ''htoken''" "token_verify sample_crypto ''token'' ''htoken''"
    by (simp_all add: sample_crypto_def)
  then show ?thesis
    using magic_link_accepted_after_expiry [of sample_crypto "''token''" "''htoken''" "''token''" ?s "''a@b''" sample_user 2
        "''c''" sample_cfg 0 None None "days 1000" 9] user prefix
    by (auto simp: new_storage_def hm_values_def split_beta Let_def)
qed

text \<open>
  A token of which the sixteenth byte falls inside a character makes the
  endpoint panic: the prefix is cut by bytes before anything is looked up.
\<close>

lemma magic_link_verify_panics:
  "verify_magic_link cfg cr now n c (replicate 15 CHR ''a'' @ [char_of (233 :: nat)]) s = (None, s)"
proof -
  have "slice_prefix (replicate 15 CHR ''a'' @ [char_of (233 :: nat)]) DEFAULT_PREFIX_LEN = None" by code_simp
  then show ?thesis by (simp add: verify_magic_link_def)
qed

section \<open>Users\<close>

text \<open>
  The calls of \<open>create_first_user\<close> by several callers at once.  A caller takes
  the lock, checks that no user exists, creates the user and releases the lock;
  a call that finds the lock taken is refused.
\<close>

datatype boot_pc = Called | Holding | Cleared | Written | Returned

record boot =
  b_lock :: bool
  b_pc :: "nat \<Rightarrow> boot_pc"
  b_store :: mem

inductive bootstrap_step :: "boot \<Rightarrow> boot \<Rightarrow> bool" where
  refused: "b_pc b i = Called \<Longrightarrow> b_lock b \<Longrightarrow> bootstrap_step b (b\<lparr>b_pc := (b_pc b)(i := Returned)\<rparr>)"
| acquire: "b_pc b i = Called \<Longrightarrow> \<not> b_lock b \<Longrightarrow> bootstrap_step b (b\<lparr>b_lock := True, b_pc := (b_pc b)(i := Holding)\<rparr>)"
| already_done: "b_pc b i = Holding \<Longrightarrow> \<not> bootstrap_needed (b_store b) \<Longrightarrow>
    bootstrap_step b (b\<lparr>b_lock := False, b_pc := (b_pc b)(i := Returned)\<rparr>)"
| cleared: "b_pc b i = Holding \<Longrightarrow> bootstrap_needed (b_store b) \<Longrightarrow> bootstrap_step b (b\<lparr>b_pc := (b_pc b)(i := Cleared)\<rparr>)"
| create: "b_pc b i = Cleared \<Longrightarrow>
    bootstrap_step b (b\<lparr>b_store := snd (create_user now new_id (first_user email name) (b_store b)), b_pc := (b_pc b)(i := Written)\<rparr>)"
| release: "b_pc b i = Written \<Longrightarrow> bootstrap_step b (b\<lparr>b_lock := False, b_pc := (b_pc b)(i := Returned)\<rparr>)"

lemma length_filter_insert:
  "length (filter P (hm_values (hm_insert k v m))) \<le> Suc (length (filter P (hm_values m)))"
  by (induction m) (auto simp: hm_insert_def hm_values_def)

lemma count_users_create: "count_users (snd (create_user now k n s)) \<le> Suc (count_users s)"
  by (simp add: create_user_def count_users_def Let_def length_filter_insert)

fun critical :: "boot_pc \<Rightarrow> bool" where
  "critical Called = False"
| "critical Returned = False"
| "critical _ = True"

definition boot_ok :: "boot \<Rightarrow> bool" where
  "boot_ok b \<longleftrightarrow> count_users (b_store b) \<le> 1 \<and>
     (\<forall>i. critical (b_pc b i) \<longrightarrow> b_lock b) \<and>
     (\<forall>i j. critical (b_pc b i) \<and> critical (b_pc b j) \<longrightarrow> i = j) \<and>
     (\<forall>i. b_pc b i = Cleared \<longrightarrow> count_users (b_store b) = 0)"

lemma boot_okD:
  assumes "boot_ok b"
  shows "count_users (b_store b) \<le> 1" "critical (b_pc b i) \<Longrightarrow> b_lock b"
    "critical (b_pc b i) \<Longrightarrow> critical (b_pc b j) \<Longrightarrow> i = j" "b_pc b i = Cleared \<Longrightarrow> count_users (b_store b) = 0"
  using assms unfolding boot_ok_def by blast+

lemma boot_ok_create:
  assumes "b_pc b i = Cleared" "boot_ok b"
  shows "boot_ok (b\<lparr>b_store := snd (create_user now new_id n (b_store b)), b_pc := (b_pc b)(i := Written)\<rparr>)"
proof -
  have crit: "critical (b_pc b i)" using assms(1) by simp
  have pcs: "critical (((b_pc b)(i := Written)) j) \<longleftrightarrow> j = i" for j
    using boot_okD(3) [OF assms(2) crit, of j] by auto
  have "((b_pc b)(i := Written)) j \<noteq> Cleared" for j
    using boot_okD(3) [OF assms(2) crit, of j] by auto
  then show ?thesis
    using count_users_create [of now new_id n "b_store b"] boot_okD(4) [OF assms(2,1)] boot_okD(2) [OF assms(2) crit]
    unfolding boot_ok_def by (simp add: pcs del: fun_upd_apply)
qed

lemma boot_ok_step: "bootstrap_step b b' \<Longrightarrow> boot_ok b \<Longrightarrow> boot_ok b'"
proof (induction rule: bootstrap_step.induct)
  case (create b i now new_id email name)
  then show ?case by (rule boot_ok_create)
next
  case (already_done b i)
  then have "j = i" if "critical (b_pc b j)" for j using boot_okD(3) [OF already_done(3) that, of i] by simp
  then show ?case using already_done boot_okD(1,4) [OF already_done(3)] by (auto simp: boot_ok_def)
next
  case (release b i)
  then have "j = i" if "critical (b_pc b j)" for j using boot_okD(3) [OF release(2) that, of i] by simp
  then show ?case using release boot_okD(1,4) [OF release(2)] by (auto simp: boot_ok_def)
next
  case (cleared b i)
  then have crit: "critical (b_pc b i)" by simp
  then have "j = i" if "critical (b_pc b j)" for j using boot_okD(3) [OF cleared(3) that] by simp
  then show ?case
    using cleared boot_okD(1) [OF cleared(3)] boot_okD(2) [OF cleared(3) crit] by (auto simp: boot_ok_def bootstrap_needed_def)
qed (auto simp: boot_ok_def split: if_splits)

interpretation boot_runs: step_invariant bootstrap_step boot_ok
  by unfold_locales (rule boot_ok_step)

text \<open>
  C14: Bootstrap creates at most one user.  From an empty store, whatever the
  number of concurrent bootstrap calls and however their steps interleave, at
  no time does the store hold more than one user.
\<close>

theorem bootstrap_creates_one_user:
  assumes "bootstrap_step\<^sup>*\<^sup>* \<lparr>b_lock = False, b_pc = (\<lambda>_. Called), b_store = s\<rparr> b" "count_users s = 0"
  shows "count_users (b_store b) \<le> 1"
proof -
  have "boot_ok \<lparr>b_lock = False, b_pc = (\<lambda>_. Called), b_store = s\<rparr>" using assms(2) by (simp add: boot_ok_def)
  with assms(1) have "boot_ok b" by (rule boot_runs.run_good)
  then show ?thesis by (simp add: boot_ok_def)
qed

definition emails_unique :: "mem \<Rightarrow> bool" where
  "emails_unique s \<longleftrightarrow> (\<forall>k l u v. live_user s k = Some u \<and> live_user s l = Some v \<and> us_email u = us_email v \<longrightarrow> k = l)"

inductive user_step :: "auth_config \<Rightarrow> crypto \<Rightarrow> mem \<Rightarrow> mem \<Rightarrow> bool" for cfg cr where
  create: "user_step cfg cr s (snd (create_user now new_id n s))"
| update: "user_step cfg cr s (snd (update_user now k up s))"
| touch: "user_step cfg cr s (snd (service_touch_user now u s))"
| login: "user_step cfg cr s (snd (login_by_email cfg cr now new_id cookie_value email s))"

lemma emails_unique_create:
  assumes "emails_unique s"
  shows "emails_unique (snd (create_user now new_id n s))"
proof (cases "list_ex (\<lambda>u. us_email u = normalize_email (nu_email n) \<and> us_deleted_at u = None) (hm_values (m_users s))")
  case True
  then show ?thesis using assms by (simp add: create_user_def Let_def)
next
  case False
  let ?s' = "snd (create_user now new_id n s)"
  have other: "us_email v \<noteq> normalize_email (nu_email n)" if "live_user s l = Some v" for l v
    using False that hm_get_in_values [of "m_users s" l v]
    by (auto simp: list_ex_iff live_user_def split: option.splits if_splits)
  obtain u where u: "us_email u = normalize_email (nu_email n)" "us_deleted_at u = None" "m_users ?s' = hm_insert new_id u (m_users s)"
    using False that [of "\<lparr>us_id = new_id, us_email = normalize_email (nu_email n), us_display_name = nu_display_name n,
      us_email_verified_at = (if nu_email_verified n then Some now else None), us_last_seen_at = None, us_theme = ThemeDefault,
      us_time_format = Auto, us_created_at = now, us_updated_at = now, us_deleted_at = None\<rparr>"]
    by (simp add: create_user_def Let_def)
  have live: "live_user ?s' l = (if l = new_id then Some u else live_user s l)" for l
    by (simp add: live_user_def u(2,3))
  show ?thesis
    using assms other u(1) unfolding emails_unique_def live by (metis option.inject)
qed

lemma emails_unique_change:
  assumes "emails_unique s" "live_user s k = Some u" "us_email u' = us_email u"
    and "m_users s' = hm_insert k u' (m_users s)"
  shows "emails_unique s'"
proof -
  have live: "live_user s' l = (if l = k then (if us_deleted_at u' = None then Some u' else None) else live_user s l)" for l
    by (simp add: live_user_def assms(4))
  show ?thesis
    using assms(1-3) unfolding emails_unique_def live by (auto split: if_splits)
qed

lemma emails_unique_cong: "m_users s' = m_users s \<Longrightarrow> emails_unique s' = emails_unique s"
  by (simp add: emails_unique_def live_user_def)

lemma emails_unique_touch: "emails_unique s \<Longrightarrow> emails_unique (snd (touch_user k now s))"
  using emails_unique_change [of s k _ _ "snd (touch_user k now s)"]
  by (auto simp: touch_user_def split: option.split)

lemma emails_unique_update:
  assumes "emails_unique s"
  shows "emails_unique (snd (update_user now k up s))"
proof (cases "live_user s k")
  case (Some u)
  let ?u = "(patch (uu_time_format up) (\<lambda>v u. u\<lparr>us_time_format := v\<rparr>)
     (patch (uu_theme up) (\<lambda>v u. u\<lparr>us_theme := v\<rparr>)
     (patch (uu_display_name up) (\<lambda>v u. u\<lparr>us_display_name := Some v\<rparr>) u)))\<lparr>us_updated_at := now\<rparr>"
  have "us_email ?u = us_email u"
    by (cases "uu_time_format up"; cases "uu_theme up"; cases "uu_display_name up") simp_all
  then show ?thesis
    by (rule emails_unique_change [OF assms Some]) (simp add: update_user_def Some Let_def)
qed (simp add: update_user_def assms)

lemma emails_unique_login:
  assumes "emails_unique s"
  shows "emails_unique (snd (login_by_email cfg cr now n c e s))"
proof -
  have users: "m_users (snd (create_session_for cfg cr now c u t)) = m_users t" for u t
    by (simp add: create_session_for_def create_session_def Let_def)
  let ?r = "case find_user_by_email s e of Some u \<Rightarrow> (Ok u, s)
    | None \<Rightarrow> create_user now n \<lparr>nu_email = e, nu_display_name = None, nu_email_verified = True\<rparr> s"
  obtain r s1 where r: "?r = (r, s1)" by (cases ?r)
  have "emails_unique (snd ?r)" using assms emails_unique_create by (simp split: option.split)
  then have "emails_unique s1" by (simp add: r)
  moreover have "m_users (snd (login_by_email cfg cr now n c e s)) = m_users s1"
    unfolding login_by_email_def r using users by (simp split: sum.split prod.split) (metis snd_conv)
  ultimately show ?thesis using emails_unique_cong by blast
qed

lemma emails_unique_step: "user_step cfg cr s s' \<Longrightarrow> emails_unique s \<Longrightarrow> emails_unique s'"
proof (induction rule: user_step.induct)
  case (touch s now u)
  then show ?case by (simp add: service_touch_user_def emails_unique_touch split: option.split)
qed (simp_all add: emails_unique_create emails_unique_update emails_unique_login)

interpretation user_runs: step_invariant "user_step cfg cr" emails_unique for cfg cr
  by unfold_locales (rule emails_unique_step)

text \<open>
  No two accounts share an address.  From a store where the users that are
  not deleted have different addresses, it stays so after any sequence of user
  creations, profile updates, touches and logins by magic link.
\<close>

theorem emails_stay_unique:
  assumes "(user_step cfg cr)\<^sup>*\<^sup>* s s'" "emails_unique s"
  shows "emails_unique s'"
  using assms by (rule user_runs.run_good)

lemma emails_stay_unique_witness:
  "emails_unique (snd (create_user 0 2 (first_user ''A@b'' None) (snd (create_user 0 1 (first_user ''a@b'' None) new_storage))))"
proof (rule emails_stay_unique)
  show "emails_unique new_storage" by (simp add: emails_unique_def live_user_def new_storage_def)
  show "(user_step sample_cfg sample_crypto)\<^sup>*\<^sup>* new_storage
      (snd (create_user 0 2 (first_user ''A@b'' None) (snd (create_user 0 1 (first_user ''a@b'' None) new_storage))))"
    by (meson user_step.create rtranclp.rtrancl_into_rtrancl rtranclp.rtrancl_refl)
qed

lemma bootstrap_creates_one_user_witness:
  "count_users (b_store \<lparr>b_lock = True, b_pc = (\<lambda>_. Called)(3 := Holding), b_store = new_storage\<rparr>) \<le> 1"
proof (rule bootstrap_creates_one_user)
  show "count_users new_storage = 0" by (simp add: count_users_def new_storage_def hm_values_def)
  let ?b = "\<lparr>b_lock = False, b_pc = (\<lambda>_. Called), b_store = new_storage\<rparr>"
  show "bootstrap_step\<^sup>*\<^sup>* ?b \<lparr>b_lock = True, b_pc = (\<lambda>_. Called)(3 := Holding), b_store = new_storage\<rparr>"
    using acquire [of ?b 3] by (simp add: r_into_rtranclp)
qed

section \<open>Identity and ownership\<close>

lemma lookup_candidates_active:
  "lookup_candidates cr now raw rows = TokenActive row \<Longrightarrow>
     row \<in> set rows \<and> token_verify cr raw (at_token_hash row) \<and> (\<forall>e. at_expires_at row = Some e \<longrightarrow> now \<le> e)"
  by (induction rows) (auto split: if_splits option.splits)

text \<open>
  C5: An authenticated request is backed by a stored credential.  When the
  middleware resolves a request to a user, that user is not deleted, and
  either the session cookie of the request is stored as a session of the user
  that is within both timeouts, or the bearer token verifies against a stored
  token of the user that has not expired.
\<close>

theorem identity_is_backed:
  assumes "resolve_identity cfg cr now h s = Some i" "identity_user i = Some u"
  shows "(\<exists>k. get_user s k = Ok u \<and>
      ((\<exists>c row. extract_session_cookie h (cfg_cookie_name cfg) = Some c \<and>
          hm_get (m_sessions s) (cookie_digest cr c) = Some row \<and> ses_user_id row = k \<and>
          now \<le> ses_expires_at row \<and> now \<le> ses_last_used_at row + days (int (cfg_idle_timeout_days cfg))) \<or>
       (\<exists>raw row. extract_bearer_token h = Some raw \<and> row \<in> set (hm_values (m_api_tokens s)) \<and>
          at_user_id row = k \<and> token_verify cr raw (at_token_hash row) \<and>
          (\<forall>e. at_expires_at row = Some e \<longrightarrow> now \<le> e))))"
proof (cases "session_identity cfg cr now h s")
  case (Some j)
  then have "j = i" using assms(1) by (simp add: resolve_identity_def)
  then obtain c row where c: "extract_session_cookie h (cfg_cookie_name cfg) = Some c"
      "lookup_session cfg cr now c s = SessionActive row" "get_user s (ses_user_id row) = Ok u"
    using Some assms(2) by (auto simp: session_identity_def split: option.splits session_lookup_outcome.splits sum.splits)
  then show ?thesis
    by (auto simp: lookup_session_def store_lookup_session_def split: option.splits if_splits)
next
  case None
  then have "token_identity cr now h s = Some i" using assms(1) by (simp add: resolve_identity_def)
  then obtain raw row where raw: "extract_bearer_token h = Some raw"
      "lookup_api_token cr now raw s = Some (TokenActive row)" "get_user s (at_user_id row) = Ok u"
    using assms(2)
    by (auto simp: token_identity_def split: option.splits api_token_lookup_outcome.splits sum.splits)
  then obtain p where "lookup_candidates cr now raw (find_api_tokens_by_prefix s p) = TokenActive row"
    by (auto simp: lookup_api_token_def split: if_splits option.splits)
  from lookup_candidates_active [OF this] have "row \<in> set (hm_values (m_api_tokens s))"
      "token_verify cr raw (at_token_hash row)" "\<forall>e. at_expires_at row = Some e \<longrightarrow> now \<le> e"
    by (auto simp: find_api_tokens_by_prefix_def)
  then show ?thesis using raw by blast
qed

definition sample_token :: api_token_row where
  "sample_token = \<lparr>at_id = 7, at_user_id = 2, at_name = ''ci'', at_token_hash = ''hsm_live_x'', at_token_prefix = ''sm_live_x'',
     at_scopes = full_access, at_created_at = 0, at_last_used_at = None, at_expires_at = None\<rparr>"

definition sample_session :: "string \<Rightarrow> uuid \<Rightarrow> session_row" where
  "sample_session h u = \<lparr>ses_id_hash = h, ses_user_id = u, ses_created_at = 0, ses_last_used_at = 0, ses_expires_at = 9,
     ses_ip_hash = None, ses_user_agent_hash = None\<rparr>"

definition account_store :: mem where
  "account_store = new_storage\<lparr>m_users := [(1, sample_user)], m_api_tokens := [(7, sample_token)],
     m_sessions := [(''dc'', sample_session ''dc'' 1), (''dz'', sample_session ''dz'' 2)]\<rparr>"

definition cookie_headers :: http_headers where
  "cookie_headers = \<lparr>hd_text = (\<lambda>n. if n = ''cookie'' then Some ''x=1; _sm_session=c'' else None), hd_has = (\<lambda>n. n = ''cookie'')\<rparr>"

lemma identity_is_backed_witness:
  "resolve_identity sample_cfg sample_crypto 5 cookie_headers account_store = Some (SessionIdentity sample_user ''c'') \<and>
   (\<exists>k. get_user account_store k = Ok sample_user)"
proof -
  have res: "resolve_identity sample_cfg sample_crypto 5 cookie_headers account_store = Some (SessionIdentity sample_user ''c'')"
    by code_simp
  then show ?thesis using identity_is_backed [OF res] by auto
qed

end
