(* ===== verification/Auth_Routes.thy ===== *)
theory Auth_Routes
  imports Auth_Service
begin

text \<open>
  The account endpoints of \<open>bin/status-server/src/auth/routes.rs\<close>: bootstrap,
  magic-link login, sessions, API tokens and the profile, with the cookies they
  set and the views they return.

  A handler is given what its extractors yield (the identity of
  \<open>RequireAuth\<close>, the user and cookie of \<open>RequireSession\<close>) and returns an
  application error or a reply, beside the new store.  A JSON object is the
  record of its fields.  A panic of the service below is the result \<open>None\<close>.
\<close>

section \<open>Views and cookies\<close>

fun app_theme_as_str :: "app_theme \<Rightarrow> string" where
  "app_theme_as_str ThemeDefault = ''default''"
| "app_theme_as_str ThemeTerminal = ''terminal''"
| "app_theme_as_str ThemeWinter = ''winter''"
| "app_theme_as_str ThemeDark = ''dark''"
| "app_theme_as_str ThemeNight = ''night''"
| "app_theme_as_str ThemeDim = ''dim''"
| "app_theme_as_str ThemeNord = ''nord''"
| "app_theme_as_str ThemeDracula = ''dracula''"
| "app_theme_as_str ThemeCorporate = ''corporate''"
| "app_theme_as_str ThemeLight = ''light''"
| "app_theme_as_str ThemeCupcake = ''cupcake''"
| "app_theme_as_str ThemeCyberpunk = ''cyberpunk''"
| "app_theme_as_str ThemeSynthwave = ''synthwave''"

definition app_theme_from_db :: "string \<Rightarrow> app_theme" where
  "app_theme_from_db s =
     (if s = ''default'' then ThemeDefault
      else if s = ''terminal'' then ThemeTerminal
      else if s = ''winter'' then ThemeWinter
      else if s = ''dark'' then ThemeDark
      else if s = ''night'' then ThemeNight
      else if s = ''dim'' then ThemeDim
      else if s = ''nord'' then ThemeNord
      else if s = ''dracula'' then ThemeDracula
      else if s = ''corporate'' then ThemeCorporate
      else if s = ''light'' then ThemeLight
      else if s = ''cupcake'' then ThemeCupcake
      else if s = ''cyberpunk'' then ThemeCyberpunk
      else if s = ''synthwave'' then ThemeSynthwave
      else ThemeDefault)"

fun time_format_as_str :: "time_format \<Rightarrow> string" where
  "time_format_as_str Auto = ''auto''"
| "time_format_as_str TwelveHour = ''12h''"
| "time_format_as_str TwentyFourHour = ''24h''"

definition time_format_from_db :: "string \<Rightarrow> time_format" where
  "time_format_from_db s =
     (if s = ''12h'' then TwelveHour else if s = ''24h'' then TwentyFourHour else Auto)"

record user_view =
  uv_id :: uuid
  uv_email :: string
  uv_display_name :: "string option"
  uv_email_verified_at :: "instant option"
  uv_last_seen_at :: "instant option"
  uv_theme :: string
  uv_time_format :: string
  uv_created_at :: instant
  uv_updated_at :: instant

definition public_user_view :: "user \<Rightarrow> user_view" where
  "public_user_view u =
     \<lparr>uv_id = us_id u, uv_email = us_email u, uv_display_name = us_display_name u,
      uv_email_verified_at = us_email_verified_at u, uv_last_seen_at = us_last_seen_at u,
      uv_theme = app_theme_as_str (us_theme u), uv_time_format = time_format_as_str (us_time_format u),
      uv_created_at = us_created_at u, uv_updated_at = us_updated_at u\<rparr>"

record session_view =
  sv_id_hash :: string
  sv_created_at :: instant
  sv_last_used_at :: instant
  sv_expires_at :: instant
  sv_is_current :: bool

definition session_view_of :: "session_row \<Rightarrow> bool \<Rightarrow> session_view" where
  "session_view_of row is_current =
     \<lparr>sv_id_hash = ses_id_hash row, sv_created_at = ses_created_at row, sv_last_used_at = ses_last_used_at row,
      sv_expires_at = ses_expires_at row, sv_is_current = is_current\<rparr>"

definition session_info_view :: "session_info \<Rightarrow> session_view" where
  "session_info_view x =
     \<lparr>sv_id_hash = si_id_hash x, sv_created_at = si_created_at x, sv_last_used_at = si_last_used_at x,
      sv_expires_at = si_expires_at x, sv_is_current = si_is_current x\<rparr>"

definition cookie_tail :: "auth_config \<Rightarrow> string" where
  "cookie_tail cfg =
     (if cfg_cookie_secure cfg then ''; Secure'' else []) @
     (if cfg_cookie_domain cfg \<noteq> [] then ''; Domain='' @ cfg_cookie_domain cfg else [])"

definition build_session_cookie :: "auth_config \<Rightarrow> string \<Rightarrow> string" where
  "build_session_cookie cfg cookie_value =
     cfg_cookie_name cfg @ ''='' @ cookie_value @ ''; Path=/; HttpOnly; SameSite=Lax; Max-Age=7776000'' @ cookie_tail cfg"

definition clear_session_cookie :: "auth_config \<Rightarrow> string" where
  "clear_session_cookie cfg =
     cfg_cookie_name cfg @ ''=; Path=/; HttpOnly; SameSite=Lax; Max-Age=0'' @ cookie_tail cfg"

definition client_ip :: "http_headers \<Rightarrow> string option" where
  "client_ip h =
     (case hd_text h ''x-forwarded-for'' of
        Some t \<Rightarrow> Some (trim (hd (split_char CHR '','' t)))
      | None \<Rightarrow> map_option trim (hd_text h ''x-real-ip''))"

section \<open>Handlers\<close>

record 'b reply =
  rp_status :: nat
  rp_cookie :: "string option"
  rp_body :: 'b

definition json_reply :: "'b \<Rightarrow> 'b reply" where
  "json_reply b = \<lparr>rp_status = 200, rp_cookie = None, rp_body = b\<rparr>"

definition api_error_of_rejection :: "rejection \<Rightarrow> app_error" where
  "api_error_of_rejection r =
     (case r of Reject status msg \<Rightarrow>
        if status = 401 then Unauthorized
        else if status = 403 then ForbiddenCoded ''FORBIDDEN'' [Lit msg]
        else Internal ''HTTP_MIDDLEWARE'' [Num (int status), Lit '': '', Lit msg])"

definition require_user :: "auth_identity \<Rightarrow> app_error + user" where
  "require_user identity =
     (case identity_user identity of
        Some u \<Rightarrow> Ok u
      | None \<Rightarrow> Err (Internal ''AUTH_INVARIANT'' [Lit ''RequireAuth resolved without an authenticated user'']))"

text \<open>The first two lines of every handler that a browser may call to change something.\<close>

definition csrf_then_user :: "auth_identity \<Rightarrow> http_headers \<Rightarrow> app_error + user" where
  "csrf_then_user identity h =
     (case csrf_guard identity h of
        Inl r \<Rightarrow> Err (api_error_of_rejection r)
      | Inr _ \<Rightarrow> require_user identity)"

definition bootstrap_status :: "mem \<Rightarrow> bool reply" where
  "bootstrap_status s = json_reply (bootstrap_needed s)"

type_synonym login_body = "user_view \<times> session_view"

definition login_reply :: "auth_config \<Rightarrow> nat \<Rightarrow> user \<Rightarrow> created_session \<Rightarrow> login_body reply" where
  "login_reply cfg status u created =
     \<lparr>rp_status = status, rp_cookie = Some (build_session_cookie cfg (cs_cookie_value created)),
      rp_body = (public_user_view u, session_view_of (cs_row created) True)\<rparr>"

definition bootstrap_create ::
  "auth_config \<Rightarrow> crypto \<Rightarrow> instant \<Rightarrow> uuid \<Rightarrow> string \<Rightarrow> string \<Rightarrow> string option \<Rightarrow> bool \<times> mem
     \<Rightarrow> (app_error + login_body reply) \<times> bool \<times> mem" where
  "bootstrap_create cfg cr now new_id cookie_value email display_name st =
     (case create_first_user now new_id email display_name st of
        (Inl e, st') \<Rightarrow> (Err e, st')
      | (Inr u, locked, s) \<Rightarrow>
         (case create_session_for cfg cr now cookie_value (us_id u) s of
            (Inl e, s') \<Rightarrow> (Err e, locked, s')
          | (Inr created, s') \<Rightarrow> (Ok (login_reply cfg 201 u created), locked, s')))"

definition magic_link_request ::
  "auth_config \<Rightarrow> crypto \<Rightarrow> instant \<Rightarrow> uuid \<Rightarrow> string \<Rightarrow> http_headers \<Rightarrow> string \<Rightarrow> string option \<Rightarrow> mem
     \<Rightarrow> (app_error + unit reply) option \<times> auth_email list \<times> mem" where
  "magic_link_request cfg cr now new_id raw_token h email redirect_after s =
     (case request_magic_link cfg cr now new_id raw_token email (client_ip h) redirect_after s of
        (None, mails, s') \<Rightarrow> (None, mails, s')
      | (Some (Inl e), mails, s') \<Rightarrow> (Some (Err e), mails, s')
      | (Some (Inr _), mails, s') \<Rightarrow> (Some (Ok \<lparr>rp_status = 202, rp_cookie = None, rp_body = ()\<rparr>), mails, s'))"

definition magic_link_invalid :: app_error where
  "magic_link_invalid =
     bad_request ''MAGIC_LINK_INVALID'' [Lit ''magic-link token is invalid, expired, or already used'']"

definition magic_link_verify ::
  "auth_config \<Rightarrow> crypto \<Rightarrow> instant \<Rightarrow> uuid \<Rightarrow> string \<Rightarrow> string \<Rightarrow> mem
     \<Rightarrow> (app_error + login_body reply) option \<times> mem" where
  "magic_link_verify cfg cr now new_user_id cookie_value token s =
     (case verify_magic_link cfg cr now new_user_id cookie_value token s of
        (None, s') \<Rightarrow> (None, s')
      | (Some (Inl e), s') \<Rightarrow> (Some (Err e), s')
      | (Some (Inr None), s') \<Rightarrow> (Some (Err magic_link_invalid), s')
      | (Some (Inr (Some created)), s') \<Rightarrow>
         (case get_user s' (ses_user_id (cs_row created)) of
            Inl e \<Rightarrow> (Some (Err e), s')
          | Inr u \<Rightarrow> (Some (Ok (login_reply cfg 200 u created)), s')))"

definition get_session :: "auth_identity \<Rightarrow> app_error + (user_view \<times> bool) reply" where
  "get_session identity =
     (case require_user identity of
        Inl e \<Rightarrow> Err e
      | Inr u \<Rightarrow> Ok (json_reply (public_user_view u, \<not> is_api_token identity)))"

definition destroy_session_endpoint ::
  "auth_config \<Rightarrow> crypto \<Rightarrow> user \<times> string \<Rightarrow> mem \<Rightarrow> unit reply \<times> mem" where
  "destroy_session_endpoint cfg cr session s =
     (\<lparr>rp_status = 204, rp_cookie = Some (clear_session_cookie cfg), rp_body = ()\<rparr>,
      snd (destroy_session cr (snd session) s))"

definition list_sessions_endpoint :: "crypto \<Rightarrow> user \<times> string \<Rightarrow> mem \<Rightarrow> session_view list reply" where
  "list_sessions_endpoint cr session s =
     json_reply (map session_info_view (list_sessions cr s (us_id (fst session)) (Some (snd session))))"

definition session_not_found :: app_error where
  "session_not_found = app_error.NotFound ''SESSION_NOT_FOUND''
     [Lit ''no active session with that id_hash for the current user'']"

definition revoke_session_endpoint :: "crypto \<Rightarrow> user \<times> string \<Rightarrow> string \<Rightarrow> (mem, unit) op" where
  "revoke_session_endpoint cr session id_hash s =
     (if \<not> list_ex (\<lambda>x. si_id_hash x = id_hash) (list_sessions cr s (us_id (fst session)) None)
      then (Err session_not_found, s)
      else revoke_session id_hash s)"

definition list_tokens :: "auth_identity \<Rightarrow> mem \<Rightarrow> app_error + api_token_info list" where
  "list_tokens identity s =
     (case require_user identity of Inl e \<Rightarrow> Err e | Inr u \<Rightarrow> Ok (list_api_tokens s (us_id u)))"

definition create_token ::
  "crypto \<Rightarrow> instant \<Rightarrow> uuid \<Rightarrow> string \<Rightarrow> auth_identity \<Rightarrow> http_headers \<Rightarrow> new_api_token \<Rightarrow> mem
     \<Rightarrow> (app_error + string \<times> api_token_info) option \<times> mem" where
  "create_token cr now new_id raw identity h n s =
     (case csrf_then_user identity h of
        Inl e \<Rightarrow> (Some (Err e), s)
      | Inr u \<Rightarrow> create_api_token cr now new_id raw (us_id u) n s)"

definition token_not_found :: app_error where
  "token_not_found = app_error.NotFound ''TOKEN_NOT_FOUND''
     [Lit ''no API token with that id for the current user'']"

definition get_token :: "auth_identity \<Rightarrow> uuid \<Rightarrow> mem \<Rightarrow> app_error + api_token_info" where
  "get_token identity k s =
     (case require_user identity of
        Inl e \<Rightarrow> Err e
      | Inr u \<Rightarrow> (case find (\<lambda>t. ati_id t = k) (list_api_tokens s (us_id u)) of
                   Some t \<Rightarrow> Ok t | None \<Rightarrow> Err token_not_found))"

definition rename_token :: "auth_identity \<Rightarrow> http_headers \<Rightarrow> uuid \<Rightarrow> string \<Rightarrow> (mem, api_token_info) op" where
  "rename_token identity h k new_name s =
     (case csrf_then_user identity h of
        Inl e \<Rightarrow> (Err e, s)
      | Inr u \<Rightarrow> rename_api_token (us_id u) k new_name s)"

definition delete_token :: "auth_identity \<Rightarrow> http_headers \<Rightarrow> uuid \<Rightarrow> (mem, unit) op" where
  "delete_token identity h k s =
     (case csrf_then_user identity h of
        Inl e \<Rightarrow> (Err e, s)
      | Inr u \<Rightarrow> delete_api_token (us_id u) k s)"

definition get_me :: "auth_identity \<Rightarrow> app_error + user_view" where
  "get_me identity = (case require_user identity of Inl e \<Rightarrow> Err e | Inr u \<Rightarrow> Ok (public_user_view u))"

definition update_me :: "instant \<Rightarrow> auth_identity \<Rightarrow> http_headers \<Rightarrow> user_update \<Rightarrow> (mem, user_view) op" where
  "update_me now identity h up s =
     (case csrf_then_user identity h of
        Inl e \<Rightarrow> (Err e, s)
      | Inr u \<Rightarrow>
         (case update_user now (us_id u) up s of
            (Inl e, s') \<Rightarrow> (Err e, s')
          | (Inr updated, s') \<Rightarrow> (Ok (public_user_view updated), s')))"

section \<open>Login and the cookie it sets\<close>

interpretation theme_codec: db_codec app_theme_as_str app_theme_from_db ThemeDefault
proof
  show "app_theme_from_db (app_theme_as_str x) = x" for x by (cases x) (simp_all add: app_theme_from_db_def)
qed (simp add: app_theme_from_db_def)

interpretation time_format_codec: db_codec time_format_as_str time_format_from_db Auto
proof
  show "time_format_from_db (time_format_as_str x) = x" for x by (cases x) (simp_all add: time_format_from_db_def)
qed (simp add: time_format_from_db_def)

text \<open>What a cookie name and a cookie value must be free of to come back from the browser.\<close>

definition cookie_text :: "string \<Rightarrow> bool" where
  "cookie_text s \<longleftrightarrow> list_all (\<lambda>c. \<not> is_whitespace c) s \<and> CHR '';'' \<notin> set s"

lemma cookie_text_append: "cookie_text (a @ b) \<longleftrightarrow> cookie_text a \<and> cookie_text b"
  by (auto simp: cookie_text_def simp del: char_class_defs)

lemma takeWhile_cookie_text: "cookie_text s \<Longrightarrow> takeWhile (\<lambda>c. c \<noteq> CHR '';'') (s @ CHR '';'' # r) = s"
  by (auto simp: cookie_text_def takeWhile_append takeWhile_eq_all_conv)

lemma split_once_first: "c \<notin> set a \<Longrightarrow> split_once c (a @ c # b) = Some (a, b)"
  by (auto simp: split_once_def takeWhile_append dropWhile_append takeWhile_eq_all_conv)

lemma sent_cookie_extracted:
  assumes "cookie_text (cfg_cookie_name cfg)" "CHR ''='' \<notin> set (cfg_cookie_name cfg)" "cookie_text cv"
    and "hd_text h ''cookie'' = Some (takeWhile (\<lambda>c. c \<noteq> CHR '';'') (build_session_cookie cfg cv))"
  shows "extract_session_cookie h (cfg_cookie_name cfg) = Some cv"
proof -
  let ?pair = "cfg_cookie_name cfg @ CHR ''='' # cv"
  have "cookie_text [CHR ''='']" by code_simp
  then have pair: "cookie_text ?pair"
    using assms(1,3) cookie_text_append [of "[CHR ''='']" cv] cookie_text_append [of "cfg_cookie_name cfg" "CHR ''='' # cv"] by simp
  have trims: "trim ?pair = ?pair" "trim (cfg_cookie_name cfg) = cfg_cookie_name cfg" "trim cv = cv"
    using pair assms(1,3) by (intro trim_no_space; simp add: cookie_text_def del: char_class_defs)+
  have "takeWhile (\<lambda>c. c \<noteq> CHR '';'') (build_session_cookie cfg cv) = ?pair"
    using takeWhile_cookie_text [OF pair] by (simp add: build_session_cookie_def)
  moreover have "split_char CHR '';'' ?pair = [?pair]"
    using pair by (intro split_char_free) (simp add: cookie_text_def del: char_class_defs)
  ultimately show ?thesis
    using assms(2,4) trims by (simp add: extract_session_cookie_def split_once_first)
qed

lemma fresh_session_active:
  assumes "create_session_for cfg cr now cv u s = (Ok created, s')" "now \<le> t"
    and "t \<le> now + days (int (cfg_absolute_timeout_days cfg))" "t \<le> now + days (int (cfg_idle_timeout_days cfg))"
  shows "lookup_session cfg cr t cv s' = SessionActive (cs_row created)" "ses_user_id (cs_row created) = u"
    "cs_cookie_value created = cv"
  using assms
  by (auto simp: create_session_for_def create_session_def lookup_session_def store_lookup_session_def Let_def split: if_splits)

lemma login_by_email_created:
  "login_by_email cfg cr now new_user cv email s = (Ok (Some created), s') \<Longrightarrow>
     \<exists>w s1. create_session_for cfg cr now cv w s1 = (Ok created, s')"
  by (auto simp: login_by_email_def split: sum.splits prod.splits)

lemma verify_created:
  "verify_magic_link cfg cr now new_user cv token s = (Some (Ok (Some created)), s') \<Longrightarrow>
     \<exists>w s1. create_session_for cfg cr now cv w s1 = (Ok created, s')"
  by (auto simp: verify_magic_link_def dest!: login_by_email_created split: option.splits sum.splits prod.splits)

text \<open>
  C21: Logging in by a magic link authenticates the requests that follow.  When
  the endpoint that verifies a link replies with a session, every later
  request within both timeouts that sends back the name and value of the
  cookie the reply sets is resolved to the user the reply shows.
\<close>

theorem login_cookie_authenticates:
  assumes "magic_link_verify cfg cr now new_user cv token s = (Some (Ok r), s')"
    and "rp_cookie r = Some set_cookie" "hd_text h ''cookie'' = Some (takeWhile (\<lambda>c. c \<noteq> CHR '';'') set_cookie)"
    and "cookie_text (cfg_cookie_name cfg)" "CHR ''='' \<notin> set (cfg_cookie_name cfg)" "cookie_text cv"
    and "now \<le> t" "t \<le> now + days (int (min (cfg_absolute_timeout_days cfg) (cfg_idle_timeout_days cfg)))"
  shows "\<exists>u. resolve_identity cfg cr t h s' = Some (SessionIdentity u cv) \<and> public_user_view u = fst (rp_body r)"
proof -
  obtain created u where v: "verify_magic_link cfg cr now new_user cv token s = (Some (Ok (Some created)), s')"
      and u: "get_user s' (ses_user_id (cs_row created)) = Ok u" and r: "r = login_reply cfg 200 u created"
    using assms(1) by (auto simp: magic_link_verify_def split: option.splits sum.splits prod.splits)
  have limits: "t \<le> now + days (int (cfg_absolute_timeout_days cfg))" "t \<le> now + days (int (cfg_idle_timeout_days cfg))"
    using assms(8) by (auto simp: days_def seconds_def nanos_per_sec_def min_def split: if_splits)
  obtain w s1 where c: "create_session_for cfg cr now cv w s1 = (Ok created, s')" using verify_created [OF v] by blast
  note active = fresh_session_active [OF c assms(7) limits]
  have "extract_session_cookie h (cfg_cookie_name cfg) = Some cv"
    using assms(2-6) r active(3) by (intro sent_cookie_extracted) (simp_all add: login_reply_def)
  then show ?thesis
    using active(1) u r by (simp add: resolve_identity_def session_identity_def login_reply_def)
qed

definition echoed_cookie :: http_headers where
  "echoed_cookie = \<lparr>hd_text = (\<lambda>n. if n = ''cookie'' then Some ''_sm_session=c'' else None), hd_has = (\<lambda>n. n = ''cookie'')\<rparr>"

lemma login_cookie_authenticates_witness:
  "\<exists>u. resolve_identity sample_cfg sample_crypto 60 echoed_cookie
         (snd (magic_link_verify sample_cfg sample_crypto 50 9 ''c'' ''token'' link_store)) = Some (SessionIdentity u ''c'')"
proof -
  let ?v = "magic_link_verify sample_cfg sample_crypto 50 9 ''c'' ''token'' link_store"
  have "(case fst ?v of Some (Inr _) \<Rightarrow> True | _ \<Rightarrow> False)" by code_simp
  then obtain r s' where r: "?v = (Some (Ok r), s')"
    by (cases ?v; cases "fst ?v"; cases "the (fst ?v)") auto
  have cookie: "rp_cookie r = Some (build_session_cookie sample_cfg ''c'')"
  proof -
    have "map_option (\<lambda>x. case x of Inr r \<Rightarrow> rp_cookie r | Inl _ \<Rightarrow> None) (fst ?v) = Some (Some (build_session_cookie sample_cfg ''c''))"
      by code_simp
    then show ?thesis by (simp add: r)
  qed
  have sent: "hd_text echoed_cookie ''cookie'' = Some (takeWhile (\<lambda>c. c \<noteq> CHR '';'') (build_session_cookie sample_cfg ''c''))"
      "cookie_text (cfg_cookie_name sample_cfg)" "CHR ''='' \<notin> set (cfg_cookie_name sample_cfg)" "cookie_text ''c''"
    by (code_simp, code_simp, code_simp, code_simp)
  have "(60::int) \<le> 50 + days (int (min (cfg_absolute_timeout_days sample_cfg) (cfg_idle_timeout_days sample_cfg)))"
    by (simp add: sample_cfg_def days_def seconds_def nanos_per_sec_def)
  then show ?thesis
    using login_cookie_authenticates [OF r cookie sent, of 60] by (auto simp: r)
qed

section \<open>Browser mutations and ownership\<close>

text \<open>
  A browser session cannot create, rename or delete a token nor change the
  profile without the marker header, and the refused call changes nothing.
  Bearer tokens need no marker.
\<close>

lemma browser_mutations_need_marker:
  assumes "\<not> hd_has h ''x-requested-with''"
  defines "refused \<equiv> ForbiddenCoded ''FORBIDDEN'' [Lit ''CSRF check failed: missing X-Requested-With header'']"
  shows "create_token cr now new_id raw (SessionIdentity u cv) h n s = (Some (Err refused), s)"
    "rename_token (SessionIdentity u cv) h k new_name s = (Err refused, s)"
    "delete_token (SessionIdentity u cv) h k s = (Err refused, s)"
    "update_me now (SessionIdentity u cv) h up s = (Err refused, s)"
    "csrf_then_user (TokenIdentity t u) h = Ok u"
  using assms
  by (simp_all add: csrf_then_user_def csrf_guard_def api_error_of_rejection_def create_token_def rename_token_def
      delete_token_def update_me_def require_user_def)

lemma own_session_listed:
  assumes "hm_get (m_sessions s) h = Some row" "ses_id_hash row = h"
  shows "list_ex (\<lambda>x. si_id_hash x = h) (list_sessions cr s (ses_user_id row) None)"
  using assms hm_get_in_values [OF assms(1)]
  by (auto simp: list_ex_iff list_sessions_def store_list_sessions_def intro!: bexI [of _ row])

text \<open>The current session can be revoked, although the endpoint is documented to refuse it.\<close>

lemma own_session_revocable:
  assumes "hm_get (m_sessions s) (cookie_digest cr cv) = Some row" "ses_id_hash row = cookie_digest cr cv"
    and "ses_user_id row = us_id u"
  shows "lookup_session cfg cr now cv (snd (revoke_session_endpoint cr (u, cv) (cookie_digest cr cv) s)) = SessionMissing"
  using own_session_listed [OF assms(1,2), of cr] assms(3)
  by (simp add: revoke_session_endpoint_def revoke_session_def delete_session_def lookup_session_def store_lookup_session_def)

text \<open>
  Sessions are protected by their owner, tokens are not.  The endpoint that
  revokes a session leaves every session of another user as it is; the token
  endpoints that rename and delete serve any caller that passes the request
  forgery check, although the one that reads a token refuses a caller who does
  not own it.
\<close>

theorem token_endpoints_ignore_owner:
  assumes "hm_get (m_api_tokens s) k = Some t" "hm_ok (m_api_tokens s)"
    and "\<And>k t. hm_get (m_api_tokens s) k = Some t \<Longrightarrow> at_id t = k"
    and "csrf_then_user i h = Ok caller" "at_user_id t \<noteq> us_id caller"
    and "hm_get (m_sessions s) sh = Some row" "ses_user_id row \<noteq> us_id caller"
    and "\<And>h r. (h, r) \<in> set (m_sessions s) \<Longrightarrow> ses_id_hash r = h" "hm_ok (m_sessions s)"
  shows "get_token i k s = Err token_not_found \<and>
    fst (rename_token i h k name s) = Ok (token_info (t\<lparr>at_name := name\<rparr>)) \<and>
    hm_get (m_api_tokens (snd (delete_token i h k s))) k = None \<and>
    hm_get (m_sessions (snd (revoke_session_endpoint cr (caller, cv) any_hash s))) sh = Some row"
proof -
  have caller: "require_user i = Ok caller" using assms(4) by (simp add: csrf_then_user_def split: sum.splits)
  have "x \<notin> set (store_list_api_tokens s (us_id caller))" if "at_id x = k" for x
    using that assms(1,3,5) hm_values_iff [OF assms(2)] by (auto simp: store_list_api_tokens_def)
  then have "find (\<lambda>t. ati_id t = k) (list_api_tokens s (us_id caller)) = None"
    by (auto simp: find_None_iff list_api_tokens_def token_info_def)
  then have read: "get_token i k s = Err token_not_found" by (simp add: get_token_def caller)
  have "any_hash \<noteq> sh" if own: "list_ex (\<lambda>x. si_id_hash x = any_hash) (list_sessions cr s (us_id caller) None)"
  proof -
    obtain r where r: "r \<in> set (hm_values (m_sessions s))" "ses_user_id r = us_id caller" "ses_id_hash r = any_hash"
      using own by (auto simp: list_ex_iff list_sessions_def store_list_sessions_def)
    then obtain h' where "(h', r) \<in> set (m_sessions s)" by (auto simp: hm_values_def)
    then have "hm_get (m_sessions s) any_hash = Some r"
      using assms(8,9) r(3) by (auto simp: hm_get_def hm_ok_def)
    then show ?thesis using assms(6,7) r(2) by auto
  qed
  then have "hm_get (m_sessions (snd (revoke_session_endpoint cr (caller, cv) any_hash s))) sh = Some row"
    using assms(6) by (auto simp: revoke_session_endpoint_def revoke_session_def delete_session_def)
  then show ?thesis
    using read assms(1,4)
    by (simp add: rename_token_def rename_api_token_def update_api_token_def delete_token_def
        delete_api_token_def store_delete_api_token_def Let_def)
qed

lemma token_endpoints_ignore_owner_witness:
  "get_token (TokenIdentity sample_token sample_user) 7 account_store = Err token_not_found \<and>
   hm_get (m_api_tokens (snd (delete_token (TokenIdentity sample_token sample_user) echoed_cookie 7 account_store))) 7 = None"
proof -
  have "hm_get (m_api_tokens account_store) 7 = Some sample_token" "hm_ok (m_api_tokens account_store)"
    "\<And>k t. hm_get (m_api_tokens account_store) k = Some t \<Longrightarrow> at_id t = k"
    "csrf_then_user (TokenIdentity sample_token sample_user) echoed_cookie = Ok sample_user"
    "at_user_id sample_token \<noteq> us_id sample_user"
    "hm_get (m_sessions account_store) ''dz'' = Some (sample_session ''dz'' 2)" "ses_user_id (sample_session ''dz'' 2) \<noteq> us_id sample_user"
    "\<And>h r. (h, r) \<in> set (m_sessions account_store) \<Longrightarrow> ses_id_hash r = h" "hm_ok (m_sessions account_store)"
    by (auto simp: account_store_def hm_get_def hm_ok_def sample_token_def sample_session_def sample_user_def
        browser_mutations_need_marker(5) echoed_cookie_def split: if_splits)
  from token_endpoints_ignore_owner [OF this, of "''n''" sample_crypto "''c''" "''dc''"] show ?thesis by simp
qed

end
