(* ===== verification/Glob.thy ===== *)
theory Glob
  imports Prelude
begin

text \<open>
  \<open>glob_match_bytes\<close> of \<open>crates/core/src/domain/condition_dsl.rs\<close>: the
  backtracking matcher with one remembered star, related to the declarative
  meaning of a pattern.  The matcher never accepts a text the pattern does not
  describe; it accepts every text it should when the text has no star byte.
\<close>

section \<open>The matcher\<close>

text \<open>
  One iteration of the \<open>while\<close> loop per call.  \<open>star_pi = usize::MAX\<close>, "no star
  seen", is \<open>None\<close>.  The loop ends for every state: a step that reads or
  records a star advances the pattern, a step back advances \<open>star_ti\<close>.
\<close>

function glob_loop :: "string \<Rightarrow> string \<Rightarrow> nat \<Rightarrow> nat \<Rightarrow> nat option \<Rightarrow> nat \<Rightarrow> nat option" where
  "glob_loop pattern text pi ti star_pi star_ti =
     (if ti < length text then
        if pi < length pattern \<and> (pattern ! pi = CHR ''?'' \<or> pattern ! pi = text ! ti) then
          glob_loop pattern text (pi + 1) (ti + 1) star_pi star_ti
        else if pi < length pattern \<and> pattern ! pi = CHR ''*'' then
          glob_loop pattern text (pi + 1) ti (Some pi) ti
        else
          (case star_pi of
             Some sp \<Rightarrow> glob_loop pattern text (sp + 1) (star_ti + 1) star_pi (star_ti + 1)
           | None \<Rightarrow> None)
      else Some pi)"
  by pat_completeness auto
termination
  by (relation "measures
       [\<lambda>(pattern, text, pi, ti, star_pi, star_ti). if star_ti \<le> ti then 0 else 1,
        \<lambda>(pattern, text, pi, ti, star_pi, star_ti). length text - star_ti,
        \<lambda>(pattern, text, pi, ti, star_pi, star_ti). length pattern - pi]") auto

declare glob_loop.simps [simp del]

text \<open>The second loop skips the stars left over in the pattern.\<close>

definition glob_match_bytes :: "string \<Rightarrow> string \<Rightarrow> bool" where
  "glob_match_bytes pattern text =
     (case glob_loop pattern text 0 0 None 0 of
        None \<Rightarrow> False
      | Some pi \<Rightarrow> pi + length (takeWhile (\<lambda>c. c = CHR ''*'') (drop pi pattern)) = length pattern)"

section \<open>What a pattern means\<close>

fun glob :: "string \<Rightarrow> string \<Rightarrow> bool" where
  "glob [] t = (t = [])"
| "glob (c # p) t =
     (if c = CHR ''*'' then (\<exists>k\<le>length t. glob p (drop k t))
      else t \<noteq> [] \<and> (c = CHR ''?'' \<or> c = hd t) \<and> glob p (tl t))"

lemma glob_star: "glob (CHR ''*'' # p) t \<longleftrightarrow> (\<exists>k\<le>length t. glob p (drop k t))"
  by simp

lemma glob_char: "c \<noteq> CHR ''*'' \<Longrightarrow> glob (c # p) t \<longleftrightarrow> t \<noteq> [] \<and> (c = CHR ''?'' \<or> c = hd t) \<and> glob p (tl t)"
  by simp

declare glob.simps(2) [simp del]

lemma glob_star_drop:
  assumes "glob (CHR ''*'' # p) (drop m t)"
  shows "\<exists>k. m \<le> k \<and> k \<le> max m (length t) \<and> glob p (drop k t)"
proof -
  from assms obtain k where "k \<le> length (drop m t)" "glob p (drop k (drop m t))"
    by (auto simp: glob_star)
  then show ?thesis by (intro exI [of _ "m + k"]) (auto simp: add.commute)
qed

lemma glob_star_intro: "m \<le> k \<Longrightarrow> k \<le> length t \<Longrightarrow> glob p (drop k t) \<Longrightarrow> glob (CHR ''*'' # p) (drop m t)"
  unfolding glob_star by (rule exI [of _ "k - m"]) simp

lemma glob_star_mono:
  assumes "m \<le> k" "k \<le> length t" "glob (CHR ''*'' # p) (drop k t)"
  shows "glob (CHR ''*'' # p) (drop m t)"
proof -
  obtain j where "k \<le> j" "j \<le> length t" "glob p (drop j t)"
    using glob_star_drop [OF assms(3)] assms(2) by auto
  then show ?thesis using assms(1) by (intro glob_star_intro [of m j]) auto
qed

lemma glob_segment:
  assumes "glob (seg @ p) t" "CHR ''*'' \<notin> set seg"
  shows "length seg \<le> length t \<and> glob p (drop (length seg) t)"
  using assms
proof (induction seg arbitrary: t)
  case (Cons c seg)
  then have "t \<noteq> []" "glob (seg @ p) (tl t)" by (auto simp: glob_char)
  with Cons show ?case by (cases t) auto
qed simp

lemma glob_only_stars: "glob p [] \<longleftrightarrow> length (takeWhile (\<lambda>c. c = CHR ''*'') p) = length p"
proof (induction p)
  case (Cons c p)
  then show ?case by (cases "c = CHR ''*''") (auto simp: glob_star glob_char)
qed simp

section \<open>The matcher against the meaning\<close>

definition accepts :: "string \<Rightarrow> nat option \<Rightarrow> bool" where
  "accepts pattern r =
     (case r of None \<Rightarrow> False | Some pi \<Rightarrow> pi \<le> length pattern \<and> glob (drop pi pattern) [])"

text \<open>
  The meaning of a loop state: the rest of the pattern matches the rest of the
  text, or the pattern after the remembered star matches from a later point.
\<close>

definition alternative :: "string \<Rightarrow> string \<Rightarrow> nat option \<Rightarrow> nat \<Rightarrow> bool" where
  "alternative pattern text star_pi star_ti =
     (\<exists>sp k. star_pi = Some sp \<and> star_ti < k \<and> k \<le> length text \<and> glob (drop (sp + 1) pattern) (drop k text))"

definition reads :: "string \<Rightarrow> string \<Rightarrow> nat \<Rightarrow> nat \<Rightarrow> bool" where
  "reads pattern text pi ti =
     (pi < length pattern \<and> (pattern ! pi = CHR ''?'' \<or> pattern ! pi = text ! ti))"

definition at_star :: "string \<Rightarrow> nat \<Rightarrow> bool" where
  "at_star pattern pi = (pi < length pattern \<and> pattern ! pi = CHR ''*'')"

lemma glob_loop_unfold:
  "glob_loop pattern text pi ti star_pi star_ti =
     (if \<not> ti < length text then Some pi
      else if reads pattern text pi ti then glob_loop pattern text (pi + 1) (ti + 1) star_pi star_ti
      else if at_star pattern pi then glob_loop pattern text (pi + 1) ti (Some pi) ti
      else (case star_pi of Some sp \<Rightarrow> glob_loop pattern text (sp + 1) (star_ti + 1) star_pi (star_ti + 1)
                          | None \<Rightarrow> None))"
  by (subst glob_loop.simps) (auto simp: reads_def at_star_def split: option.split)

lemma glob_loop_cases [case_names finish read star retry]:
  assumes "\<And>pi ti star_pi star_ti. \<not> ti < length text \<Longrightarrow> P pi ti star_pi star_ti"
    and "\<And>pi ti star_pi star_ti. ti < length text \<Longrightarrow> reads pattern text pi ti \<Longrightarrow>
          P (pi + 1) (ti + 1) star_pi star_ti \<Longrightarrow> P pi ti star_pi star_ti"
    and "\<And>pi ti star_pi star_ti. ti < length text \<Longrightarrow> \<not> reads pattern text pi ti \<Longrightarrow> at_star pattern pi \<Longrightarrow>
          P (pi + 1) ti (Some pi) ti \<Longrightarrow> P pi ti star_pi star_ti"
    and "\<And>pi ti star_pi star_ti. ti < length text \<Longrightarrow> \<not> reads pattern text pi ti \<Longrightarrow> \<not> at_star pattern pi \<Longrightarrow>
          (\<And>sp. star_pi = Some sp \<Longrightarrow> P (sp + 1) (star_ti + 1) star_pi (star_ti + 1)) \<Longrightarrow> P pi ti star_pi star_ti"
  shows "P pi ti star_pi star_ti"
proof -
  have "pat = pattern \<Longrightarrow> tx = text \<Longrightarrow> P pi ti star_pi star_ti" for pat tx
  proof (induction pat tx pi ti star_pi star_ti rule: glob_loop.induct)
    case (1 pat tx pi ti star_pi star_ti)
    note IH = "1.IH" [unfolded "1.prems"]
    consider "\<not> ti < length text" | "ti < length text" "reads pattern text pi ti"
      | "ti < length text" "\<not> reads pattern text pi ti" "at_star pattern pi"
      | "ti < length text" "\<not> reads pattern text pi ti" "\<not> at_star pattern pi"
      by blast
    then show ?case
    proof cases
      case 1
      then show ?thesis by (rule assms(1))
    next
      case 2
      then show ?thesis by (rule assms(2)) (rule IH(1), use 2 in \<open>auto simp: reads_def\<close>)
    next
      case 3
      then show ?thesis by (rule assms(3)) (rule IH(2), use 3 in \<open>auto simp: reads_def at_star_def\<close>)
    next
      case 4
      then show ?thesis by (rule assms(4)) (rule IH(3), use 4 in \<open>auto simp: reads_def at_star_def\<close>)
    qed
  qed
  then show ?thesis by simp
qed

lemma glob_read:
  assumes "reads pattern text pi ti" "ti < length text" "pattern ! pi \<noteq> CHR ''*''"
  shows "glob (drop pi pattern) (drop ti text) \<longleftrightarrow> glob (drop (pi + 1) pattern) (drop (ti + 1) text)"
proof -
  have "drop pi pattern = pattern ! pi # drop (pi + 1) pattern" "drop ti text = text ! ti # drop (ti + 1) text"
    using assms by (simp_all add: reads_def Cons_nth_drop_Suc)
  then show ?thesis using assms by (auto simp: glob_char reads_def)
qed

lemma glob_stuck:
  assumes "\<not> reads pattern text pi ti" "\<not> at_star pattern pi" "ti < length text"
  shows "\<not> glob (drop pi pattern) (drop ti text)"
proof (cases "pi < length pattern")
  case True
  then have "drop pi pattern = pattern ! pi # drop (pi + 1) pattern" by (simp add: Cons_nth_drop_Suc)
  moreover have "hd (drop ti text) = text ! ti" using assms(3) by (simp add: hd_drop_conv_nth)
  ultimately show ?thesis using assms True by (auto simp: glob_char reads_def at_star_def)
qed (use assms in auto)

lemma glob_at_star:
  "at_star pattern pi \<Longrightarrow> drop pi pattern = CHR ''*'' # drop (pi + 1) pattern"
  by (metis Cons_nth_drop_Suc Suc_eq_plus1 at_star_def)

lemma glob_loop_sound:
  assumes "accepts pattern (glob_loop pattern text pi ti star_pi star_ti)"
    and "ti \<le> length text" "star_ti \<le> ti"
  shows "glob (drop pi pattern) (drop ti text) \<or> alternative pattern text star_pi star_ti"
  using assms
proof (induction pi ti star_pi star_ti rule: glob_loop_cases [of "text" _ pattern])
  case (finish pi ti star_pi star_ti)
  then show ?case by (subst (asm) glob_loop_unfold) (auto simp: accepts_def)
next
  case (read pi ti star_pi star_ti)
  from read.prems(1) have "accepts pattern (glob_loop pattern text (pi + 1) (ti + 1) star_pi star_ti)"
    using read.hyps by (subst (asm) glob_loop_unfold) simp
  then have "glob (drop (pi + 1) pattern) (drop (ti + 1) text) \<or> alternative pattern text star_pi star_ti"
    using read by simp
  moreover have "glob (drop pi pattern) (drop ti text)" if *: "glob (drop (pi + 1) pattern) (drop (ti + 1) text)"
  proof (cases "pattern ! pi = CHR ''*''")
    case True
    then have "at_star pattern pi" using read.hyps by (simp add: at_star_def reads_def)
    then show ?thesis using glob_star_intro [OF _ _ *, of ti] read.hyps by (simp add: glob_at_star)
  qed (use glob_read read.hyps * in blast)
  ultimately show ?case by blast
next
  case (star pi ti star_pi star_ti)
  from star.prems(1) have "accepts pattern (glob_loop pattern text (pi + 1) ti (Some pi) ti)"
    using star.hyps by (subst (asm) glob_loop_unfold) simp
  then have "glob (drop (pi + 1) pattern) (drop ti text) \<or> alternative pattern text (Some pi) ti"
    using star by simp
  then obtain k where "ti \<le> k" "k \<le> length text" "glob (drop (pi + 1) pattern) (drop k text)"
    using star.hyps unfolding alternative_def by (metis nless_le option.inject order_refl)
  then show ?case using glob_star_intro glob_at_star [OF star.hyps(3)] by metis
next
  case (retry pi ti star_pi star_ti)
  from retry.prems(1) obtain sp where sp: "star_pi = Some sp"
    and "accepts pattern (glob_loop pattern text (sp + 1) (star_ti + 1) star_pi (star_ti + 1))"
    using retry.hyps by (subst (asm) glob_loop_unfold) (auto simp: accepts_def split: option.splits)
  then have "glob (drop (sp + 1) pattern) (drop (star_ti + 1) text) \<or> alternative pattern text star_pi (star_ti + 1)"
    using retry by simp
  then have "alternative pattern text star_pi star_ti"
    using sp retry.hyps retry.prems unfolding alternative_def by (metis Suc_eq_plus1 Suc_leI Suc_lessD le_less_trans lessI)
  then show ?case ..
qed

text \<open>
  Since the star was recorded the matcher has read one text byte per pattern
  byte, and none of those pattern bytes is a star.
\<close>

definition in_step :: "string \<Rightarrow> nat \<Rightarrow> nat \<Rightarrow> nat option \<Rightarrow> nat \<Rightarrow> bool" where
  "in_step pattern pi ti star_pi star_ti =
     (case star_pi of
        None \<Rightarrow> True
      | Some sp \<Rightarrow> (\<exists>seg. drop (sp + 1) pattern = seg @ drop pi pattern \<and> CHR ''*'' \<notin> set seg
                     \<and> ti = star_ti + length seg))"

lemma in_step_read:
  assumes "in_step pattern pi ti star_pi star_ti" "pi < length pattern" "pattern ! pi \<noteq> CHR ''*''"
  shows "in_step pattern (pi + 1) (ti + 1) star_pi star_ti"
proof (cases star_pi)
  case (Some sp)
  then obtain seg where "drop (sp + 1) pattern = seg @ drop pi pattern" "CHR ''*'' \<notin> set seg" "ti = star_ti + length seg"
    using assms(1) by (auto simp: in_step_def)
  moreover have "drop pi pattern = [pattern ! pi] @ drop (pi + 1) pattern"
    using assms(2) by (simp add: Cons_nth_drop_Suc)
  ultimately show ?thesis using assms(3) Some
    by (auto simp: in_step_def intro!: exI [of _ "seg @ [pattern ! pi]"])
qed (simp add: in_step_def)

lemma alternative_in_step:
  assumes "in_step pattern pi ti star_pi star_ti" "alternative pattern text star_pi star_ti"
  shows "\<exists>k>ti. k \<le> length text \<and> glob (drop pi pattern) (drop k text)"
proof -
  from assms(2) obtain sp k where k: "star_pi = Some sp" "star_ti < k" "k \<le> length text"
    "glob (drop (sp + 1) pattern) (drop k text)" by (auto simp: alternative_def)
  with assms(1) obtain seg where "glob (seg @ drop pi pattern) (drop k text)" "CHR ''*'' \<notin> set seg"
    and ti: "ti = star_ti + length seg" by (auto simp: in_step_def)
  then have "length seg \<le> length text - k \<and> glob (drop pi pattern) (drop (k + length seg) text)"
    using glob_segment [of seg "drop pi pattern" "drop k text"] by (simp add: add.commute)
  then show ?thesis using ti k(2,3) by (intro exI [of _ "k + length seg"]) auto
qed

lemma glob_loop_complete:
  assumes "glob (drop pi pattern) (drop ti text) \<or> alternative pattern text star_pi star_ti"
    and "in_step pattern pi ti star_pi star_ti" "pi \<le> length pattern" "ti \<le> length text"
    and "\<And>sp. star_pi = Some sp \<Longrightarrow> sp < length pattern" "star_ti \<le> ti" "CHR ''*'' \<notin> set text"
  shows "accepts pattern (glob_loop pattern text pi ti star_pi star_ti)"
  using assms
proof (induction pi ti star_pi star_ti rule: glob_loop_cases [of "text" _ pattern])
  case (finish pi ti star_pi star_ti)
  have "\<not> alternative pattern text star_pi star_ti"
    using alternative_in_step [OF finish.prems(2)] finish.hyps by fastforce
  then show ?case using finish by (subst glob_loop_unfold) (auto simp: accepts_def)
next
  case (read pi ti star_pi star_ti)
  have "text ! ti \<noteq> CHR ''*''" using read.hyps(1) read.prems(7) nth_mem by metis
  then have pi: "pi < length pattern" "pattern ! pi \<noteq> CHR ''*''"
    using read.hyps by (auto simp: reads_def)
  have "accepts pattern (glob_loop pattern text (pi + 1) (ti + 1) star_pi star_ti)"
    using read pi glob_read [OF read.hyps(2,1) pi(2)] by (intro read.IH in_step_read) auto
  then show ?case using read.hyps by (subst glob_loop_unfold) simp
next
  case (star pi ti star_pi star_ti)
  have "glob (drop pi pattern) (drop ti text)"
    using star.prems(1)
  proof
    assume "alternative pattern text star_pi star_ti"
    then obtain k where "ti < k" "k \<le> length text" "glob (drop pi pattern) (drop k text)"
      using alternative_in_step [OF star.prems(2)] by blast
    then show ?thesis
      using glob_star_mono [of ti k "text" "drop (pi + 1) pattern"] by (simp add: glob_at_star [OF star.hyps(3)])
  qed
  then obtain k where "ti \<le> k" "k \<le> length text" "glob (drop (pi + 1) pattern) (drop k text)"
    using glob_star_drop star.hyps(1) glob_at_star [OF star.hyps(3)] by (metis less_imp_le_nat max_absorb2)
  then have "glob (drop (pi + 1) pattern) (drop ti text) \<or> alternative pattern text (Some pi) ti"
    unfolding alternative_def by (metis nless_le)
  then have "accepts pattern (glob_loop pattern text (pi + 1) ti (Some pi) ti)"
    using star.prems star.hyps by (intro star.IH) (auto simp: in_step_def at_star_def)
  then show ?case using star.hyps by (subst glob_loop_unfold) simp
next
  case (retry pi ti star_pi star_ti)
  then have "alternative pattern text star_pi star_ti" using glob_stuck by blast
  then obtain sp k where sp: "star_pi = Some sp" and k: "star_ti < k" "k \<le> length text"
    "glob (drop (sp + 1) pattern) (drop k text)" by (auto simp: alternative_def)
  then have "glob (drop (sp + 1) pattern) (drop (star_ti + 1) text) \<or> alternative pattern text star_pi (star_ti + 1)"
    unfolding alternative_def by (metis Suc_eq_plus1 Suc_leI nless_le)
  then have "accepts pattern (glob_loop pattern text (sp + 1) (star_ti + 1) star_pi (star_ti + 1))"
    using retry sp by (intro retry.IH [OF sp]) (auto simp: in_step_def Suc_leI)
  then show ?case using retry.hyps sp by (subst glob_loop_unfold) simp
qed

lemma glob_match_accepts: "glob_match_bytes pattern t = accepts pattern (glob_loop pattern t 0 0 None 0)"
  by (auto simp: glob_match_bytes_def accepts_def glob_only_stars split: option.split)

lemma glob_match_sound: "glob_match_bytes pattern t \<Longrightarrow> glob pattern t"
  using glob_loop_sound [of pattern t 0 0 None 0] by (simp add: glob_match_accepts alternative_def)

text \<open>
  C39: The glob matcher of the condition language terminates on every input and
  decides its pattern language, \<open>*\<close> for any byte sequence and \<open>?\<close> for one byte,
  on every text without a \<open>*\<close> byte: the single remembered star with greedy
  retry loses no match.
\<close>

theorem glob_match_decides:
  assumes "CHR ''*'' \<notin> set t"
  shows "glob_match_bytes pattern t \<longleftrightarrow> glob pattern t"
proof
  assume "glob pattern t"
  then show "glob_match_bytes pattern t"
    using glob_loop_complete [of 0 pattern 0 t None 0] assms by (simp add: glob_match_accepts in_step_def)
qed (rule glob_match_sound)

lemma glob_match_decides_witness:
  "glob_match_bytes ''2*4?'' ''201449'' \<longleftrightarrow> glob ''2*4?'' ''201449''"
  using glob_match_decides [of "''201449''" "''2*4?''"] by simp

text \<open>
  On texts with a \<open>*\<close> byte the matcher is still sound but not complete: a
  pattern star that meets a literal star is read as that literal and never
  remembered, so \<open>*a\<close> fails on \<open>*ba\<close> although it describes it.
\<close>

theorem glob_match_literal_star:
  "(glob_match_bytes pattern t \<longrightarrow> glob pattern t) \<and>
   glob ''*a'' ''*ba'' \<and> \<not> glob_match_bytes ''*a'' ''*ba''"
proof (intro conjI impI)
  show "glob ''*a'' ''*ba''" by (auto simp: glob_star glob_char intro: exI [of _ 2])
  show "\<not> glob_match_bytes ''*a'' ''*ba''" by (simp add: glob_match_bytes_def glob_loop.simps)
qed (rule glob_match_sound)

lemma glob_match_literal_star_witness: "glob_match_bytes ''a*'' ''abc'' \<and> glob ''a*'' ''abc''"
proof -
  have "glob_match_bytes ''a*'' ''abc'' = True" by (simp add: glob_match_bytes_def glob_loop.simps)
  then show ?thesis using glob_match_literal_star [of "''a*''" "''abc''"] by simp
qed

end
