(* ===== verification/Condition_Dsl.thy ===== *)
theory Condition_Dsl
  imports Complex_Main Glob Store_Types
begin

text \<open>
  The condition language of \<open>crates/core/src/domain/condition_dsl.rs\<close>: the
  parser of conditions such as \<open>[STATUS] == 200\<close> and their evaluation against
  the outcome of a check.

  The text of a JSON value (\<open>Value::to_string\<close>, from a third-party crate) is
  the parameter \<open>json_text\<close>.  A parsed \<open>f64\<close> is an exact real, an infinity or
  not-a-number; the rounding of the decimal to the nearest double is not
  modelled.
\<close>

section \<open>Syntax\<close>

datatype (plugins only: code size) comparator = Equal | NotEqual | LessThan | GreaterThan | LessOrEqual | GreaterOrEqual

datatype (plugins only: code size) value_ref =
    Status
  | ResponseTime
  | Body "string option"
  | DnsRcode
  | Connected
  | CertExpiration
  | Ip
  | Literal string

datatype (plugins only: code size) condition_expr =
    Compare value_ref comparator value_ref
  | Length value_ref comparator nat
  | Has value_ref
  | Pattern value_ref string
  | AnyOf value_ref "string list"

record dsl_condition =
  raw_text :: string
  expr :: condition_expr

datatype condition_parse_error =
    Empty
  | UnknownPlaceholder string
  | UnbalancedBrackets string
  | InvalidSyntax string

section \<open>Parser\<close>

definition quote :: char where
  "quote = CHR 0x22"

definition parse_value_ref :: "string \<Rightarrow> value_ref" where
  "parse_value_ref input =
     (let s = trim_matches quote (trim input) in
      if s = ''[STATUS]'' then Status
      else if s = ''[RESPONSE_TIME]'' then ResponseTime
      else if s = ''[DNS_RCODE]'' then DnsRcode
      else if s = ''[CONNECTED]'' then Connected
      else if s = ''[CERTIFICATE_EXPIRATION]'' then CertExpiration
      else if s = ''[IP]'' then Ip
      else if s = ''[BODY]'' then Body None
      else (case strip_prefix s ''[BODY]'' of
          Some rest \<Rightarrow>
            (let path = trim_start_matches CHR ''.'' rest in if path = [] then Body None else Body (Some path))
        | None \<Rightarrow> Literal s))"

definition comparators :: "(string \<times> comparator) list" where
  "comparators = [(''=='', Equal), (''!='', NotEqual), (''<='', LessOrEqual), (''>='', GreaterOrEqual),
     (''<'', LessThan), (''>'', GreaterThan)]"

fun split_at_operator ::
  "(string \<times> comparator) list \<Rightarrow> string \<Rightarrow> condition_parse_error + string \<times> comparator \<times> string" where
  "split_at_operator [] input = Err (InvalidSyntax (''no comparison operator found in: '' @ input))"
| "split_at_operator ((op_str, cmp) # ops) input =
     (case find_str input op_str of
        None \<Rightarrow> split_at_operator ops input
      | Some pos \<Rightarrow>
         (let left = take pos input; right = drop (pos + length op_str) input in
          if op_str = ''<'' \<and> starts_with right ''='' then split_at_operator ops input
          else if op_str = ''>'' \<and> starts_with right ''='' then split_at_operator ops input
          else Ok (left, cmp, right)))"

definition split_comparison :: "string \<Rightarrow> condition_parse_error + string \<times> comparator \<times> string" where
  "split_comparison input = split_at_operator comparators input"

fun leading_operator :: "(string \<times> comparator) list \<Rightarrow> string \<Rightarrow> condition_parse_error + comparator \<times> string" where
  "leading_operator [] input = Err (InvalidSyntax (''expected comparator, got: '' @ input))"
| "leading_operator ((op_str, cmp) # ops) input =
     (case strip_prefix input op_str of
        Some rest \<Rightarrow> Ok (cmp, trim rest)
      | None \<Rightarrow> leading_operator ops input)"

definition parse_comparator_and_number :: "string \<Rightarrow> condition_parse_error + comparator \<times> string" where
  "parse_comparator_and_number input = leading_operator comparators (trim input)"

definition strip_func_call :: "string \<Rightarrow> string \<Rightarrow> string option" where
  "strip_func_call input func_name =
     (let prefix = func_name @ ''('' in
      if starts_with input prefix \<and> ends_with input '')''
      then Some (take (length input - 1 - length prefix) (drop (length prefix) input)) else None)"

definition strip_func_prefix :: "string \<Rightarrow> string \<Rightarrow> (string \<times> string) option" where
  "strip_func_prefix input func_name =
     (case strip_prefix input (func_name @ ''('') of
        None \<Rightarrow> None
      | Some rest \<Rightarrow>
         (case find_str rest '')'' of
            None \<Rightarrow> None
          | Some paren_pos \<Rightarrow> Some (take paren_pos rest, drop (paren_pos + 1) rest)))"

definition strip_two_arg_func :: "string \<Rightarrow> string \<Rightarrow> (string \<times> string) option" where
  "strip_two_arg_func input func_name =
     (case strip_prefix input (func_name @ ''('') of
        None \<Rightarrow> None
      | Some rest \<Rightarrow>
         (case strip_suffix rest '')'' of
            None \<Rightarrow> None
          | Some rest' \<Rightarrow>
             (case find_str rest' '','' of
                None \<Rightarrow> None
              | Some comma_pos \<Rightarrow> Some (trim (take comma_pos rest'), trim (drop (comma_pos + 1) rest')))))"

definition parse_length :: "string \<Rightarrow> string \<Rightarrow> condition_parse_error + condition_expr" where
  "parse_length func_arg rest =
     (case parse_comparator_and_number (trim rest) of
        Inl e \<Rightarrow> Err e
      | Inr (cmp, num_str) \<Rightarrow>
         (case parse_u64 num_str of
            None \<Rightarrow> Err (InvalidSyntax (''expected number, got '' @ [CHR 0x27] @ num_str @ [CHR 0x27]))
          | Some v \<Rightarrow> Ok (Length (parse_value_ref (trim func_arg)) cmp (nat v))))"

definition parse_any :: "string \<Rightarrow> condition_parse_error + condition_expr" where
  "parse_any args_str =
     (let parts = map trim (split_char CHR '','' args_str) in
      if length parts < 2 then Err (InvalidSyntax ''any() needs at least 2 args'')
      else Ok (AnyOf (parse_value_ref (parts ! 0)) (map (trim_matches quote) (tl parts))))"

definition parse_compare :: "string \<Rightarrow> condition_parse_error + condition_expr" where
  "parse_compare input =
     (case split_comparison input of
        Inl e \<Rightarrow> Err e
      | Inr (left_str, cmp, right_str) \<Rightarrow>
         Ok (Compare (parse_value_ref (trim left_str)) cmp (parse_value_ref (trim right_str))))"

definition parse_expr :: "string \<Rightarrow> condition_parse_error + condition_expr" where
  "parse_expr inp =
     (let input = trim inp in
      case strip_func_call input ''has'' of
        Some inner \<Rightarrow> Ok (Has (parse_value_ref (trim inner)))
      | None \<Rightarrow>
     (case strip_func_prefix input ''len'' of
        Some (func_arg, rest) \<Rightarrow> parse_length func_arg rest
      | None \<Rightarrow>
     (case strip_two_arg_func input ''pat'' of
        Some (arg1, arg2) \<Rightarrow> Ok (Pattern (parse_value_ref (trim arg1)) (trim_matches quote (trim arg2)))
      | None \<Rightarrow>
     (case strip_func_call input ''any'' of
        Some args_str \<Rightarrow> parse_any args_str
      | None \<Rightarrow> parse_compare input))))"

definition parse :: "string \<Rightarrow> condition_parse_error + dsl_condition" where
  "parse raw_input =
     (let raw = trim raw_input in
      if raw = [] then Err Empty
      else (case parse_expr raw of Inl e \<Rightarrow> Err e | Inr e \<Rightarrow> Ok \<lparr>raw_text = raw, expr = e\<rparr>))"

section \<open>Numbers\<close>

fun show_nat :: "nat \<Rightarrow> string" where
  "show_nat n = (if n < 10 then [char_of (48 + n)] else show_nat (n div 10) @ [char_of (48 + n mod 10)])"

declare show_nat.simps [simp del]

datatype (plugins only: code) f64 = Fin real | PosInf | NegInf | NaN

definition f64_neg :: "f64 \<Rightarrow> f64" where
  "f64_neg x = (case x of Fin r \<Rightarrow> Fin (- r) | PosInf \<Rightarrow> NegInf | NegInf \<Rightarrow> PosInf | NaN \<Rightarrow> NaN)"

text \<open>
  \<open>str::parse::<f64>\<close>: an optional sign, then \<open>inf\<close>, \<open>infinity\<close> or \<open>nan\<close> in any
  case, or digits with an optional point and at least one digit, followed by
  an optional exponent.
\<close>

definition parse_exponent :: "string \<Rightarrow> int option" where
  "parse_exponent s =
     (case s of
        [] \<Rightarrow> Some 0
      | e # r \<Rightarrow>
         if e = CHR ''e'' \<or> e = CHR ''E'' then
           (case r of
              c # ds \<Rightarrow> if c = CHR ''-'' then map_option uminus (parse_digits ds)
                        else if c = CHR ''+'' then parse_digits ds else parse_digits r
            | [] \<Rightarrow> None)
         else None)"

definition parse_decimal :: "string \<Rightarrow> real option" where
  "parse_decimal s =
     (let whole = takeWhile is_ascii_digit s;
          rest = dropWhile is_ascii_digit s;
          (frac, rest') = (case rest of
              c # r \<Rightarrow> if c = CHR ''.'' then (takeWhile is_ascii_digit r, dropWhile is_ascii_digit r) else ([], rest)
            | [] \<Rightarrow> ([], rest))
      in if whole @ frac = [] then None
         else (case parse_exponent rest' of
              None \<Rightarrow> None
            | Some e \<Rightarrow>
               Some (of_int (digits_value (whole @ frac)) * 10 powi (e - int (length frac)))))"

definition parse_unsigned_f64 :: "string \<Rightarrow> f64 option" where
  "parse_unsigned_f64 s =
     (if to_ascii_lowercase s = ''inf'' \<or> to_ascii_lowercase s = ''infinity'' then Some PosInf
      else if to_ascii_lowercase s = ''nan'' then Some NaN
      else map_option Fin (parse_decimal s))"

definition parse_f64 :: "string \<Rightarrow> f64 option" where
  "parse_f64 s =
     (case s of
        [] \<Rightarrow> None
      | c # r \<Rightarrow>
         if c = CHR ''-'' then map_option f64_neg (parse_unsigned_f64 r)
         else if c = CHR ''+'' then parse_unsigned_f64 r
         else parse_unsigned_f64 s)"

fun f64_less :: "f64 \<Rightarrow> f64 \<Rightarrow> bool" where
  "f64_less (Fin a) (Fin b) = (a < b)"
| "f64_less NegInf (Fin b) = True"
| "f64_less NegInf PosInf = True"
| "f64_less (Fin a) PosInf = True"
| "f64_less _ _ = False"

fun f64_le :: "f64 \<Rightarrow> f64 \<Rightarrow> bool" where
  "f64_le (Fin a) (Fin b) = (a \<le> b)"
| "f64_le NegInf (Fin b) = True"
| "f64_le NegInf NegInf = True"
| "f64_le NegInf PosInf = True"
| "f64_le (Fin a) PosInf = True"
| "f64_le PosInf PosInf = True"
| "f64_le _ _ = False"

text \<open>\<open>(left - right).abs()\<close>\<close>

fun f64_distance :: "f64 \<Rightarrow> f64 \<Rightarrow> f64" where
  "f64_distance (Fin a) (Fin b) = Fin \<bar>a - b\<bar>"
| "f64_distance NaN _ = NaN"
| "f64_distance _ NaN = NaN"
| "f64_distance PosInf PosInf = NaN"
| "f64_distance NegInf NegInf = NaN"
| "f64_distance _ _ = PosInf"

definition EPSILON :: f64 where
  "EPSILON = Fin (1 / 2 ^ 52)"

section \<open>Evaluation\<close>

record condition_context =
  ctx_status :: "nat option"
  ctx_response_time_ms :: "nat option"
  ctx_body :: "json option"
  ctx_dns_rcode :: "string option"
  ctx_connected :: "bool option"
  ctx_cert_expiration_ms :: "nat option"
  ctx_ip :: "string option"

fun json_get :: "json \<Rightarrow> string \<Rightarrow> json option" where
  "json_get (JObject kvs) key = map_of kvs key"
| "json_get _ _ = None"

fun json_walk :: "json \<Rightarrow> string list \<Rightarrow> json option" where
  "json_walk v [] = Some v"
| "json_walk v (segment # segments) =
     (case json_get v segment of None \<Rightarrow> None | Some v' \<Rightarrow> json_walk v' segments)"

definition resolve_json_path :: "json \<Rightarrow> string \<Rightarrow> json option" where
  "resolve_json_path v path = json_walk v (split_char CHR ''.'' path)"

definition show_bool :: "bool \<Rightarrow> string" where
  "show_bool b = (if b then ''true'' else ''false'')"

definition json_value_text :: "(json \<Rightarrow> string) \<Rightarrow> json \<Rightarrow> string option" where
  "json_value_text json_text v =
     (case v of
        JString s \<Rightarrow> Some s
      | JNumber n \<Rightarrow> Some (json_text v)
      | JBool b \<Rightarrow> Some (show_bool b)
      | JNull \<Rightarrow> None
      | _ \<Rightarrow> Some (json_text v))"

definition resolve_json_path_str :: "(json \<Rightarrow> string) \<Rightarrow> json \<Rightarrow> string \<Rightarrow> string option" where
  "resolve_json_path_str json_text v path =
     (case (case strip_prefix path ''len('' of None \<Rightarrow> None | Some r \<Rightarrow> strip_suffix r '')'') of
        Some inner \<Rightarrow>
          (case resolve_json_path v inner of
             Some (JArray xs) \<Rightarrow> Some (show_nat (length xs))
           | _ \<Rightarrow> None)
      | None \<Rightarrow>
          (case resolve_json_path v path of
             None \<Rightarrow> None
           | Some w \<Rightarrow> json_value_text json_text w))"

definition resolve_value :: "(json \<Rightarrow> string) \<Rightarrow> condition_context \<Rightarrow> value_ref \<Rightarrow> string option" where
  "resolve_value json_text ctx v =
     (case v of
        Status \<Rightarrow> map_option show_nat (ctx_status ctx)
      | ResponseTime \<Rightarrow> map_option show_nat (ctx_response_time_ms ctx)
      | Body path \<Rightarrow>
          (case ctx_body ctx of
             None \<Rightarrow> None
           | Some body \<Rightarrow>
              (case path of None \<Rightarrow> Some (json_text body) | Some p \<Rightarrow> resolve_json_path_str json_text body p))
      | DnsRcode \<Rightarrow> ctx_dns_rcode ctx
      | Connected \<Rightarrow> map_option show_bool (ctx_connected ctx)
      | CertExpiration \<Rightarrow> map_option show_nat (ctx_cert_expiration_ms ctx)
      | Ip \<Rightarrow> ctx_ip ctx
      | Literal s \<Rightarrow> Some s)"

fun compare_numbers :: "nat \<Rightarrow> comparator \<Rightarrow> nat \<Rightarrow> bool" where
  "compare_numbers l Equal r = (l = r)"
| "compare_numbers l NotEqual r = (l \<noteq> r)"
| "compare_numbers l LessThan r = (l < r)"
| "compare_numbers l GreaterThan r = (l > r)"
| "compare_numbers l LessOrEqual r = (l \<le> r)"
| "compare_numbers l GreaterOrEqual r = (l \<ge> r)"

fun compare_numbers_f64 :: "f64 \<Rightarrow> comparator \<Rightarrow> f64 \<Rightarrow> bool" where
  "compare_numbers_f64 l Equal r = f64_less (f64_distance l r) EPSILON"
| "compare_numbers_f64 l NotEqual r = f64_le EPSILON (f64_distance l r)"
| "compare_numbers_f64 l LessThan r = f64_less l r"
| "compare_numbers_f64 l GreaterThan r = f64_less r l"
| "compare_numbers_f64 l LessOrEqual r = f64_le l r"
| "compare_numbers_f64 l GreaterOrEqual r = f64_le r l"

text \<open>
  Strings are compared and matched by their UTF-8 bytes.  The order of the
  bytes is the order of the code points, so the comparison of strings is
  lexicographic in the code points.
\<close>

definition utf8_bytes :: "string \<Rightarrow> string" where
  "utf8_bytes s = concat (map (\<lambda>c. if code c < 128 then [c] else [char_of (192 + code c div 64), char_of (128 + code c mod 64)]) s)"

definition glob_match :: "string \<Rightarrow> string \<Rightarrow> bool" where
  "glob_match pattern text_value = glob_match_bytes (utf8_bytes pattern) (utf8_bytes text_value)"

fun str_less :: "string \<Rightarrow> string \<Rightarrow> bool" where
  "str_less [] [] = False"
| "str_less [] (_ # _) = True"
| "str_less (_ # _) [] = False"
| "str_less (a # as) (b # bs) = (code a < code b \<or> a = b \<and> str_less as bs)"

fun compare_texts :: "string \<Rightarrow> comparator \<Rightarrow> string \<Rightarrow> bool" where
  "compare_texts l Equal r = (l = r \<or> glob_match r l)"
| "compare_texts l NotEqual r = (l \<noteq> r)"
| "compare_texts l LessThan r = str_less l r"
| "compare_texts l GreaterThan r = str_less r l"
| "compare_texts l LessOrEqual r = (str_less l r \<or> l = r)"
| "compare_texts l GreaterOrEqual r = (str_less r l \<or> l = r)"

definition compare_values :: "string option \<Rightarrow> string option \<Rightarrow> comparator \<Rightarrow> bool" where
  "compare_values left right cmp =
     (case (left, right) of
        (None, None) \<Rightarrow> cmp = Equal
      | (None, Some _) \<Rightarrow> cmp = NotEqual
      | (Some _, None) \<Rightarrow> cmp = NotEqual
      | (Some l, Some r) \<Rightarrow>
         (case (parse_f64 l, parse_f64 r) of
            (Some l_num, Some r_num) \<Rightarrow> compare_numbers_f64 l_num cmp r_num
          | _ \<Rightarrow> compare_texts l cmp r))"

definition evaluate :: "(json \<Rightarrow> string) \<Rightarrow> condition_expr \<Rightarrow> condition_context \<Rightarrow> bool" where
  "evaluate json_text e ctx =
     (case e of
        Compare left cmp right \<Rightarrow>
          compare_values (resolve_value json_text ctx left) (resolve_value json_text ctx right) cmp
      | Length of_ref cmp v \<Rightarrow>
          (let len = (case resolve_value json_text ctx of_ref of None \<Rightarrow> 0 | Some s \<Rightarrow> utf8_len s)
           in compare_numbers len cmp v)
      | Has of_ref \<Rightarrow> resolve_value json_text ctx of_ref \<noteq> None
      | Pattern of_ref pattern \<Rightarrow>
          glob_match pattern (case resolve_value json_text ctx of_ref of None \<Rightarrow> [] | Some s \<Rightarrow> s)
      | AnyOf of_ref vals \<Rightarrow>
          (case resolve_value json_text ctx of_ref of None \<Rightarrow> [] | Some s \<Rightarrow> s) \<in> set vals)"

section \<open>Numbers in text\<close>

lemma show_nat_digits: "show_nat n \<noteq> [] \<and> list_all is_ascii_digit (show_nat n)"
proof (induction n rule: show_nat.induct)
  case (1 n)
  have digit: "is_ascii_digit (char_of (48 + m))" if "m < 10" for m :: nat
    using that by (simp add: of_char_of)
  show ?case using 1 by (subst (1 2) show_nat.simps) (auto simp: digit simp del: char_class_defs)
qed

lemma digits_value_snoc: "digits_value (s @ [c]) = digits_value s * 10 + (int (code c) - 48)"
  by (simp add: digits_value_def)

lemma digits_value_show_nat: "digits_value (show_nat n) = int n"
proof (induction n rule: show_nat.induct)
  case (1 n)
  have code: "int (code (char_of (48 + m :: nat))) - 48 = int m" if "m < 10" for m
    using that by (simp add: of_char_of)
  show ?case
  proof (cases "n < 10")
    case True
    then show ?thesis
      using code [of n] digits_value_snoc [of "[]"] by (subst show_nat.simps) (simp add: digits_value_def)
  next
    case False
    then have "digits_value (show_nat n) = int (n div 10) * 10 + int (n mod 10)"
      using 1 code [of "n mod 10"] by (subst show_nat.simps) (simp only: digits_value_snoc if_False, simp)
    then show ?thesis by (metis div_mult_mod_eq of_nat_add of_nat_mult of_nat_numeral)
  qed
qed


lemma digit_not_sign: "is_ascii_digit c \<Longrightarrow> c \<noteq> CHR ''+'' \<and> c \<noteq> CHR ''-''"
  by auto

lemma show_nat_Cons:
  obtains c r where "show_nat n = c # r" "is_ascii_digit c"
  using show_nat_digits [of n] by (cases "show_nat n") (auto simp del: char_class_defs)


lemma lowercase_digits: "list_all is_ascii_digit s \<Longrightarrow> to_ascii_lowercase s = s"
  unfolding to_ascii_lowercase_def by (induction s) (auto simp: to_ascii_lower_char_def)

lemma parse_f64_show_nat: "parse_f64 (show_nat n) = Some (Fin (real n))"
proof -
  obtain c r where c: "show_nat n = c # r" "is_ascii_digit c" by (rule show_nat_Cons)
  have all: "list_all is_ascii_digit (show_nat n)" "show_nat n \<noteq> []" using show_nat_digits by blast+
  have words: "show_nat n \<noteq> ''inf''" "show_nat n \<noteq> ''infinity''" "show_nat n \<noteq> ''nan''"
    using all(1) by auto
  have all_in: "\<forall>x \<in> set (show_nat n). is_ascii_digit x" using all(1) by (simp add: list_all_iff del: char_class_defs)
  have dec: "parse_decimal (show_nat n) = Some (real n)"
    using all_in all(2)
    by (simp add: parse_decimal_def takeWhile_eq_all_conv [THEN iffD2] dropWhile_eq_Nil_conv [THEN iffD2]
        parse_exponent_def digits_value_show_nat Let_def del: char_class_defs)
  have "parse_unsigned_f64 (show_nat n) = Some (Fin (real n))"
    using words dec by (simp add: parse_unsigned_f64_def lowercase_digits [OF all(1)] del: char_class_defs)
  then show ?thesis
    using c digit_not_sign [OF c(2)] unfolding parse_f64_def by simp
qed

lemma compare_f64_nat:
  "compare_numbers_f64 (Fin (real m)) cmp (Fin (real n)) = compare_numbers m cmp n"
proof -
  have far: "1 \<le> \<bar>real m - real n\<bar>" if "m \<noteq> n"
    using that by linarith
  have "\<bar>real m - real n\<bar> < 1 / 2 ^ 52 \<longleftrightarrow> m = n" using far by (cases "m = n") auto
  then show ?thesis by (cases cmp) (auto simp: EPSILON_def not_less)
qed

text \<open>
  A numeric condition compares the numbers.  For numbers that a double
  holds exactly, comparing the status, the response time or the certificate
  expiry of a check with a number compares the two numbers, for each of the
  six operators, although both sides go through decimal text and a tolerance.
\<close>

theorem numeric_conditions_compare_numbers:
  assumes "(v, field) \<in> {(Status, ctx_status), (ResponseTime, ctx_response_time_ms), (CertExpiration, ctx_cert_expiration_ms)}"
    and "field ctx = Some m" "m \<le> 2 ^ 53" "n \<le> 2 ^ 53"
  shows "evaluate json_text (Compare v cmp (Literal (show_nat n))) ctx = compare_numbers m cmp n"
proof -
  have "resolve_value json_text ctx v = Some (show_nat m)"
    using assms(1,2) by (auto simp: resolve_value_def)
  then show ?thesis
    by (simp add: evaluate_def compare_values_def resolve_value_def parse_f64_show_nat compare_f64_nat)
qed

definition sample_ctx :: condition_context where
  "sample_ctx = \<lparr>ctx_status = Some 503, ctx_response_time_ms = None, ctx_body = Some (JObject [(''items'', JArray [])]),
     ctx_dns_rcode = None, ctx_connected = None, ctx_cert_expiration_ms = None, ctx_ip = None\<rparr>"

lemma numeric_conditions_compare_numbers_witness:
  "evaluate (\<lambda>_. []) (Compare Status GreaterOrEqual (Literal (show_nat 500))) sample_ctx"
  using numeric_conditions_compare_numbers [of Status ctx_status sample_ctx 503 500 "\<lambda>_. []" GreaterOrEqual]
  by (simp add: sample_ctx_def)

text \<open>
  The length of a JSON array is not its number of elements.  The condition
  \<open>len([BODY].items) > 0\<close> of the documentation holds for an empty array too:
  the length is that of the text of the value, and the text of an array has
  its two brackets.
\<close>

theorem length_condition_counts_text:
  assumes "2 \<le> length (json_text (JArray []))"
  shows "\<exists>c. parse ''len([BODY].items) > 0'' = Ok c \<and> evaluate json_text (expr c) sample_ctx"
proof -
  have parsed: "parse ''len([BODY].items) > 0'' =
      Ok \<lparr>raw_text = ''len([BODY].items) > 0'', expr = Length (Body (Some ''items'')) GreaterThan 0\<rparr>"
    by code_simp
  have "resolve_value json_text sample_ctx (Body (Some ''items'')) = Some (json_text (JArray []))"
    by (simp add: resolve_value_def sample_ctx_def resolve_json_path_str_def strip_prefix_def starts_with_def
        resolve_json_path_def json_value_text_def)
  then show ?thesis
    using assms by (simp add: parsed evaluate_def utf8_len_def del: length_0_conv length_greater_0_conv)
qed

lemma length_condition_counts_text_witness:
  "\<exists>c. parse ''len([BODY].items) > 0'' = Ok c \<and> evaluate (\<lambda>_. ''[]'') (expr c) sample_ctx"
  by (rule length_condition_counts_text) simp

text \<open>
  Equality and inequality may both hold.  When the values are not both
  numbers, the left one differs from the right one and the right one read as a
  pattern matches it, both \<open>==\<close> and \<open>!=\<close> are true: only the first looks for
  wildcards.
\<close>

theorem equal_and_not_equal_overlap:
  assumes "parse_f64 l = None \<or> parse_f64 r = None" "l \<noteq> r" "glob_match r l"
  shows "compare_values (Some l) (Some r) Equal \<and> compare_values (Some l) (Some r) NotEqual"
  using assms by (auto simp: compare_values_def split: option.splits)

lemma equal_and_not_equal_overlap_witness:
  "compare_values (Some ''NOERROR'') (Some ''NO*'') Equal \<and> compare_values (Some ''NOERROR'') (Some ''NO*'') NotEqual"
proof (rule equal_and_not_equal_overlap)
  show "parse_f64 ''NOERROR'' = None \<or> parse_f64 ''NO*'' = None"
  proof -
    have "to_ascii_lowercase ''NOERROR'' = ''noerror''" by code_simp
    moreover have "parse_decimal ''NOERROR'' = None" by (simp add: parse_decimal_def)
    ultimately show ?thesis by (simp add: parse_f64_def parse_unsigned_f64_def)
  qed
  show "glob_match ''NO*'' ''NOERROR''"
    by code_simp
qed simp

section \<open>The documented forms\<close>


fun written_cmp :: "comparator \<Rightarrow> string" where
  "written_cmp Equal = ''==''"
| "written_cmp NotEqual = ''!=''"
| "written_cmp LessThan = ''<''"
| "written_cmp GreaterThan = ''>''"
| "written_cmp LessOrEqual = ''<=''"
| "written_cmp GreaterOrEqual = ''>=''"






































section \<open>What the documented conditions decide\<close>





definition operators :: "(string \<times> (nat \<Rightarrow> nat \<Rightarrow> bool)) set" where
  "operators = {(''=='', (=)), (''!='', (\<noteq>)), (''<'', (<)), (''>'', (>)), (''<='', (\<le>)), (''>='', (\<ge>))}"


lemma operator:
  assumes "(op, rel) \<in> operators"
  obtains cmp where "written_cmp cmp = op" "\<forall>m n. compare_numbers m cmp n = rel m n" "cmp = NotEqual \<longleftrightarrow> op = ''!=''"
  using assms that [of Equal] that [of NotEqual] that [of LessThan] that [of GreaterThan] that [of LessOrEqual]
    that [of GreaterOrEqual] unfolding operators_def by auto





end
