(* ===== verification/Ssrf.thy ===== *)
theory Ssrf
  imports Prelude
begin

unbundle bit_operations_syntax

text \<open>
  \<open>crates/common/src/security/ssrf.rs\<close>: the guard that keeps outbound requests
  away from internal addresses.  IPv4 addresses are four octets and IPv6
  addresses eight segments, at their widths; the predicates of
  \<open>std::net\<close> the code calls are written out as the library documents them.
\<close>

section \<open>Addresses\<close>

datatype ipv4 = Ipv4Addr "8 word" "8 word" "8 word" "8 word"

datatype ipv6 = Ipv6Addr "16 word" "16 word" "16 word" "16 word" "16 word" "16 word" "16 word" "16 word"

datatype ip_addr = V4 ipv4 | V6 ipv6

fun octets :: "ipv4 \<Rightarrow> 8 word \<times> 8 word \<times> 8 word \<times> 8 word" where
  "octets (Ipv4Addr a b c d) = (a, b, c, d)"

fun segments :: "ipv6 \<Rightarrow> 16 word list" where
  "segments (Ipv6Addr a b c d e f g h) = [a, b, c, d, e, f, g, h]"

fun v4_is_unspecified :: "ipv4 \<Rightarrow> bool" where
  "v4_is_unspecified (Ipv4Addr a b c d) = (a = 0 \<and> b = 0 \<and> c = 0 \<and> d = 0)"

fun v4_is_loopback :: "ipv4 \<Rightarrow> bool" where
  "v4_is_loopback (Ipv4Addr a b c d) = (a = 127)"

fun v4_is_private :: "ipv4 \<Rightarrow> bool" where
  "v4_is_private (Ipv4Addr a b c d) =
     (a = 10 \<or> (a = 172 \<and> 16 \<le> b \<and> b \<le> 31) \<or> (a = 192 \<and> b = 168))"

fun v4_is_link_local :: "ipv4 \<Rightarrow> bool" where
  "v4_is_link_local (Ipv4Addr a b c d) = (a = 169 \<and> b = 254)"

fun v4_is_broadcast :: "ipv4 \<Rightarrow> bool" where
  "v4_is_broadcast (Ipv4Addr a b c d) = (a = 255 \<and> b = 255 \<and> c = 255 \<and> d = 255)"

fun v4_is_multicast :: "ipv4 \<Rightarrow> bool" where
  "v4_is_multicast (Ipv4Addr a b c d) = (224 \<le> a \<and> a \<le> 239)"

fun v4_is_documentation :: "ipv4 \<Rightarrow> bool" where
  "v4_is_documentation (Ipv4Addr a b c d) =
     ((a = 192 \<and> b = 0 \<and> c = 2) \<or> (a = 198 \<and> b = 51 \<and> c = 100) \<or> (a = 203 \<and> b = 0 \<and> c = 113))"

section \<open>The guard\<close>

definition is_blocked_v4 :: "ipv4 \<Rightarrow> bool" where
  "is_blocked_v4 ip =
     (if v4_is_unspecified ip \<or> v4_is_loopback ip \<or> v4_is_private ip \<or> v4_is_link_local ip
         \<or> v4_is_broadcast ip \<or> v4_is_multicast ip \<or> v4_is_documentation ip then True
      else
        (case octets ip of (a, b, c, d) \<Rightarrow>
           if a = 100 \<and> 64 \<le> b \<and> b \<le> 127 then True
           else if a = 192 \<and> b = 0 \<and> c = 0 then True
           else if a = 198 \<and> (b = 18 \<or> b = 19) then True
           else if 240 \<le> a then True
           else False))"

definition octet_pair :: "16 word \<Rightarrow> 8 word \<times> 8 word" where
  "octet_pair s = (ucast (drop_bit 8 s), ucast (s AND 0xff))"

definition v4_of_segments :: "16 word \<Rightarrow> 16 word \<Rightarrow> ipv4" where
  "v4_of_segments x y =
     (case octet_pair x of (a, b) \<Rightarrow> case octet_pair y of (c, d) \<Rightarrow> Ipv4Addr a b c d)"

fun extract_6to4 :: "ipv6 \<Rightarrow> ipv4 option" where
  "extract_6to4 (Ipv6Addr s0 s1 s2 s3 s4 s5 s6 s7) =
     (if s0 = 0x2002 then Some (v4_of_segments s1 s2) else None)"

fun extract_nat64 :: "ipv6 \<Rightarrow> ipv4 option" where
  "extract_nat64 (Ipv6Addr s0 s1 s2 s3 s4 s5 s6 s7) =
     (if s0 = 0x0064 \<and> s1 = 0xff9b \<and> s2 = 0 \<and> s3 = 0 \<and> s4 = 0 \<and> s5 = 0
      then Some (v4_of_segments s6 s7) else None)"

fun to_ipv4_mapped :: "ipv6 \<Rightarrow> ipv4 option" where
  "to_ipv4_mapped (Ipv6Addr s0 s1 s2 s3 s4 s5 s6 s7) =
     (if s0 = 0 \<and> s1 = 0 \<and> s2 = 0 \<and> s3 = 0 \<and> s4 = 0 \<and> s5 = 0xffff
      then Some (v4_of_segments s6 s7) else None)"

fun v6_is_unspecified :: "ipv6 \<Rightarrow> bool" where
  "v6_is_unspecified ip = (segments ip = [0, 0, 0, 0, 0, 0, 0, 0])"

fun v6_is_loopback :: "ipv6 \<Rightarrow> bool" where
  "v6_is_loopback ip = (segments ip = [0, 0, 0, 0, 0, 0, 0, 1])"

definition v6_is_multicast :: "ipv6 \<Rightarrow> bool" where
  "v6_is_multicast ip = (segments ip ! 0 AND 0xff00 = 0xff00)"

definition v6_is_unique_local :: "ipv6 \<Rightarrow> bool" where
  "v6_is_unique_local ip = (segments ip ! 0 AND 0xfe00 = 0xfc00)"

definition v6_is_unicast_link_local :: "ipv6 \<Rightarrow> bool" where
  "v6_is_unicast_link_local ip = (segments ip ! 0 AND 0xffc0 = 0xfe80)"

definition is_blocked_v6 :: "ipv6 \<Rightarrow> bool" where
  "is_blocked_v6 ip =
     (if v6_is_unspecified ip \<or> v6_is_loopback ip \<or> v6_is_multicast ip \<or> v6_is_unique_local ip
         \<or> v6_is_unicast_link_local ip then True
      else
        (case to_ipv4_mapped ip of
           Some mapped \<Rightarrow> is_blocked_v4 mapped
         | None \<Rightarrow>
            (let seg = segments ip in
             if list_all (\<lambda>s. s = 0) (take 6 seg) then True
             else if seg ! 0 = 0x2001 \<and> seg ! 1 = 0xdb8 then True
             else if seg ! 0 = 0x0100 \<and> seg ! 1 = 0 \<and> seg ! 2 = 0 \<and> seg ! 3 = 0 then True
             else if seg ! 0 = 0x2001 \<and> seg ! 1 = 0 then True
             else if seg ! 2 = 0 \<and> seg ! 3 = 0 \<and> seg ! 4 = 0 \<and> seg ! 5 = 0x5efe then True
             else
               (case (case extract_6to4 ip of Some v \<Rightarrow> Some v | None \<Rightarrow> extract_nat64 ip) of
                  Some embedded \<Rightarrow> is_blocked_v4 embedded
                | None \<Rightarrow> False))))"

fun is_blocked_ip :: "ip_addr \<Rightarrow> bool" where
  "is_blocked_ip (V4 v4) = is_blocked_v4 v4"
| "is_blocked_ip (V6 v6) = is_blocked_v6 v6"

datatype ssrf_error = BlockedAddress ip_addr | AllBlocked string

record ssrf_guard =
  allow_private :: bool

definition strict :: ssrf_guard where
  "strict = \<lparr>allow_private = False\<rparr>"

definition allow :: "ssrf_guard \<Rightarrow> ip_addr \<Rightarrow> bool" where
  "allow g ip = (allow_private g \<or> \<not> is_blocked_ip ip)"

definition check :: "ssrf_guard \<Rightarrow> ip_addr \<Rightarrow> ssrf_error + unit" where
  "check g ip = (if \<not> allow g ip then Err (BlockedAddress ip) else Ok ())"

definition filter_addrs :: "ssrf_guard \<Rightarrow> string \<Rightarrow> ip_addr list \<Rightarrow> ssrf_error + ip_addr list" where
  "filter_addrs g host addrs =
     (if allow_private g then Ok addrs
      else
        (let kept = filter (\<lambda>ip. \<not> is_blocked_ip ip) addrs
         in if kept = [] then Err (AllBlocked host) else Ok kept))"

section \<open>IPv4: the blocked ranges\<close>

text \<open>An address as a number below \<open>2 ^ 32\<close>, and the CIDR block \<open>a.b.c.d/len\<close>.\<close>

fun v4_value :: "ipv4 \<Rightarrow> int" where
  "v4_value (Ipv4Addr a b c d) = uint a * 2 ^ 24 + uint b * 2 ^ 16 + uint c * 2 ^ 8 + uint d"

definition in_cidr :: "ipv4 \<Rightarrow> int \<times> int \<times> int \<times> int \<times> nat \<Rightarrow> bool" where
  "in_cidr ip block =
     (case block of (a, b, c, d, len) \<Rightarrow>
        let base = a * 2 ^ 24 + b * 2 ^ 16 + c * 2 ^ 8 + d
        in base \<le> v4_value ip \<and> v4_value ip < base + 2 ^ (32 - len))"

definition blocked_ranges :: "(int \<times> int \<times> int \<times> int \<times> nat) list" where
  "blocked_ranges =
     [(0, 0, 0, 0, 32), (10, 0, 0, 0, 8), (100, 64, 0, 0, 10), (127, 0, 0, 0, 8), (169, 254, 0, 0, 16),
      (172, 16, 0, 0, 12), (192, 0, 0, 0, 24), (192, 0, 2, 0, 24), (192, 168, 0, 0, 16),
      (198, 18, 0, 0, 15), (198, 51, 100, 0, 24), (203, 0, 113, 0, 24), (224, 0, 0, 0, 4), (240, 0, 0, 0, 4)]"

lemma octet_bounds: "0 \<le> uint (w :: 8 word)" "uint (w :: 8 word) < 256"
  using uint_lt2p [of w] by simp_all

text \<open>Aligned blocks of numbers in base 256, read off the digits.\<close>

lemma block_second:
  fixes A B C D n m k :: int
  assumes "0 \<le> B" "B < 256" "0 \<le> C" "C < 256" "0 \<le> D" "D < 256" "0 \<le> m" "m + k \<le> 256"
  shows "n * 2 ^ 24 + m * 2 ^ 16 \<le> A * 2 ^ 24 + B * 2 ^ 16 + C * 2 ^ 8 + D \<and>
         A * 2 ^ 24 + B * 2 ^ 16 + C * 2 ^ 8 + D < n * 2 ^ 24 + m * 2 ^ 16 + k * 2 ^ 16
         \<longleftrightarrow> A = n \<and> m \<le> B \<and> B < m + k" (is "?L \<longleftrightarrow> ?R")
proof
  assume L: ?L
  then have "A = n" using assms by simp
  with L show ?R using assms by auto
next
  assume ?R
  then show ?L using assms by auto
qed

lemma block_third:
  fixes A B C D n m r :: int
  assumes "0 \<le> B" "B < 256" "0 \<le> C" "C < 256" "0 \<le> D" "D < 256" "0 \<le> m" "m < 256" "0 \<le> r" "r < 256"
  shows "n * 2 ^ 24 + m * 2 ^ 16 + r * 2 ^ 8 \<le> A * 2 ^ 24 + B * 2 ^ 16 + C * 2 ^ 8 + D \<and>
         A * 2 ^ 24 + B * 2 ^ 16 + C * 2 ^ 8 + D < n * 2 ^ 24 + m * 2 ^ 16 + r * 2 ^ 8 + 2 ^ 8
         \<longleftrightarrow> A = n \<and> B = m \<and> C = r" (is "?L \<longleftrightarrow> ?R")
proof
  assume L: ?L
  then have "A = n" using assms by simp
  moreover have "B = m" using L \<open>A = n\<close> assms by simp
  moreover have "C = r" using L \<open>A = n\<close> \<open>B = m\<close> assms by simp
  ultimately show ?R by simp
next
  assume ?R
  then show ?L using assms by auto
qed

lemma block_first:
  fixes A B C D n k :: int
  assumes "0 \<le> B" "B < 256" "0 \<le> C" "C < 256" "0 \<le> D" "D < 256"
  shows "n * 2 ^ 24 \<le> A * 2 ^ 24 + B * 2 ^ 16 + C * 2 ^ 8 + D \<and>
         A * 2 ^ 24 + B * 2 ^ 16 + C * 2 ^ 8 + D < n * 2 ^ 24 + k * 2 ^ 24
         \<longleftrightarrow> n \<le> A \<and> A < n + k" (is "?L \<longleftrightarrow> ?R")
proof
  assume L: ?L
  have "n \<le> A" using L assms by simp
  moreover have "A < n + k" using L assms by simp
  ultimately show ?R ..
next
  assume ?R
  then show ?L using assms by auto
qed

lemma block_host:
  fixes A B C D :: int
  assumes "0 \<le> A" "0 \<le> B" "0 \<le> C" "0 \<le> D"
  shows "A * 2 ^ 24 + B * 2 ^ 16 + C * 2 ^ 8 + D < 1 \<longleftrightarrow> A = 0 \<and> B = 0 \<and> C = 0 \<and> D = 0"
  using assms by auto

lemma in_cidr_high: "in_cidr (Ipv4Addr a b c d) (n, 0, 0, 0, 4) \<longleftrightarrow> n \<le> uint a \<and> uint a < n + 16"
  using block_first [of "uint b" "uint c" "uint d" n "uint a" 16] octet_bounds by (simp add: in_cidr_def Let_def)

lemma in_cidr_first: "in_cidr (Ipv4Addr a b c d) (n, 0, 0, 0, 8) \<longleftrightarrow> uint a = n"
  using block_first [of "uint b" "uint c" "uint d" n "uint a" 1] octet_bounds by (simp add: in_cidr_def Let_def) auto

lemma in_cidr_second:
  assumes "0 \<le> m" "m + k \<le> 256" "k * 2 ^ 16 = 2 ^ (32 - len)"
  shows "in_cidr (Ipv4Addr a b c d) (n, m, 0, 0, len) \<longleftrightarrow> uint a = n \<and> m \<le> uint b \<and> uint b < m + k"
  using block_second [of "uint b" "uint c" "uint d" m k n "uint a"] assms octet_bounds
  by (simp add: in_cidr_def Let_def)

lemma in_cidr_third:
  assumes "0 \<le> m" "m < 256" "0 \<le> r" "r < 256"
  shows "in_cidr (Ipv4Addr a b c d) (n, m, r, 0, 24) \<longleftrightarrow> uint a = n \<and> uint b = m \<and> uint c = r"
  using block_third [of "uint b" "uint c" "uint d" m r n "uint a"] assms octet_bounds
  by (simp add: in_cidr_def Let_def)

lemma in_cidr_host:
  "in_cidr (Ipv4Addr a b c d) (0, 0, 0, 0, 32) \<longleftrightarrow> uint a = 0 \<and> uint b = 0 \<and> uint c = 0 \<and> uint d = 0"
  using block_host [of "uint a" "uint b" "uint c" "uint d"] octet_bounds by (simp add: in_cidr_def Let_def)

lemmas in_cidr_octets = in_cidr_first in_cidr_high in_cidr_third in_cidr_host
  in_cidr_second [where len = 10 and k = 64, simplified]
  in_cidr_second [where len = 12 and k = 16, simplified]
  in_cidr_second [where len = 15 and k = 2, simplified]
  in_cidr_second [where len = 16 and k = 1, simplified]

text \<open>
  The IPv4 guard blocks exactly fourteen CIDR ranges: the unspecified
  address, loopback, the RFC 1918 networks, link-local (with the cloud
  metadata address), carrier-grade NAT, protocol assignments, the three
  documentation networks, benchmarking, multicast and the reserved top range
  with broadcast; every other address is allowed.
\<close>

theorem is_blocked_v4_ranges: "is_blocked_v4 ip \<longleftrightarrow> list_ex (in_cidr ip) blocked_ranges"
proof (cases ip)
  case (Ipv4Addr a b c d)
  have oct: "w = v \<longleftrightarrow> uint w = uint v" "w \<le> v \<longleftrightarrow> uint w \<le> uint v" for w v :: "8 word"
    by (simp_all add: word_uint_eq_iff word_le_def)
  define A B C D where int_octets: "A = uint a" "B = uint b" "C = uint c" "D = uint d"
  have bounds: "0 \<le> A" "A < 256" "0 \<le> B" using octet_bounds by (simp_all add: int_octets)
  have l: "is_blocked_v4 ip \<longleftrightarrow>
      A = 0 \<and> B = 0 \<and> C = 0 \<and> D = 0 \<or> A = 127 \<or> A = 10 \<or> A = 172 \<and> 16 \<le> B \<and> B \<le> 31 \<or> A = 192 \<and> B = 168
      \<or> A = 169 \<and> B = 254 \<or> A = 255 \<and> B = 255 \<and> C = 255 \<and> D = 255 \<or> 224 \<le> A \<and> A \<le> 239
      \<or> A = 192 \<and> B = 0 \<and> C = 2 \<or> A = 198 \<and> B = 51 \<and> C = 100 \<or> A = 203 \<and> B = 0 \<and> C = 113
      \<or> A = 100 \<and> 64 \<le> B \<and> B \<le> 127 \<or> A = 192 \<and> B = 0 \<and> C = 0 \<or> A = 198 \<and> (B = 18 \<or> B = 19) \<or> 240 \<le> A"
    by (simp add: Ipv4Addr is_blocked_v4_def oct flip: int_octets)
  have r: "list_ex (in_cidr ip) blocked_ranges \<longleftrightarrow>
      A = 0 \<and> B = 0 \<and> C = 0 \<and> D = 0 \<or> A = 10 \<or> A = 100 \<and> 64 \<le> B \<and> B < 128 \<or> A = 127 \<or> A = 169 \<and> 254 \<le> B \<and> B \<le> 254
      \<or> A = 172 \<and> 16 \<le> B \<and> B < 32 \<or> A = 192 \<and> B = 0 \<and> C = 0 \<or> A = 192 \<and> B = 0 \<and> C = 2 \<or> A = 192 \<and> 168 \<le> B \<and> B \<le> 168
      \<or> A = 198 \<and> 18 \<le> B \<and> B < 20 \<or> A = 198 \<and> B = 51 \<and> C = 100 \<or> A = 203 \<and> B = 0 \<and> C = 113
      \<or> 224 \<le> A \<and> A < 240 \<or> 240 \<le> A \<and> A < 256"
    by (simp add: Ipv4Addr blocked_ranges_def in_cidr_octets flip: int_octets)
  have eqs: "254 \<le> B \<and> B \<le> 254 \<longleftrightarrow> B = 254" "168 \<le> B \<and> B \<le> 168 \<longleftrightarrow> B = 168"
    "18 \<le> B \<and> B < 20 \<longleftrightarrow> B = 18 \<or> B = 19" "B < 128 \<longleftrightarrow> B \<le> 127" "B < 32 \<longleftrightarrow> B \<le> 31" "A < 240 \<longleftrightarrow> A \<le> 239"
    by auto
  show ?thesis unfolding l r eqs using bounds(2) by (intro iffI; elim disjE; simp)
qed

section \<open>IPv4 addresses embedded in IPv6\<close>

definition join_octets :: "8 word \<Rightarrow> 8 word \<Rightarrow> 16 word" where
  "join_octets a b = push_bit 8 (ucast a) OR ucast b"

fun mapped_v6 :: "ipv4 \<Rightarrow> ipv6" where
  "mapped_v6 (Ipv4Addr a b c d) = Ipv6Addr 0 0 0 0 0 0xffff (join_octets a b) (join_octets c d)"

fun nat64_v6 :: "ipv4 \<Rightarrow> ipv6" where
  "nat64_v6 (Ipv4Addr a b c d) = Ipv6Addr 0x0064 0xff9b 0 0 0 0 (join_octets a b) (join_octets c d)"

fun sixtofour_v6 :: "ipv4 \<Rightarrow> 16 word \<Rightarrow> 16 word \<Rightarrow> 16 word \<Rightarrow> 16 word \<Rightarrow> 16 word \<Rightarrow> ipv6" where
  "sixtofour_v6 (Ipv4Addr a b c d) s3 s4 s5 s6 s7 =
     Ipv6Addr 0x2002 (join_octets a b) (join_octets c d) s3 s4 s5 s6 s7"

lemma octet_pair_join: "octet_pair (join_octets a b) = (a, b)"
proof -
  have "ucast (drop_bit 8 (join_octets a b)) = a"
    by (rule bit_word_eqI) (auto simp: join_octets_def bit_simps dest: bit_imp_le_length)
  moreover have "ucast (join_octets a b AND 0xff) = b"
  proof -
    have low: "(0xff :: 16 word) = mask 8" by (simp add: mask_eq_exp_minus_1)
    show ?thesis
      unfolding low by (rule bit_word_eqI) (auto simp: join_octets_def bit_simps dest: bit_imp_le_length)
  qed
  ultimately show ?thesis by (simp add: octet_pair_def)
qed

lemma v4_of_segments_join: "v4_of_segments (join_octets a b) (join_octets c d) = Ipv4Addr a b c d"
  by (simp add: v4_of_segments_def octet_pair_join)

text \<open>
  A blocked IPv4 address cannot be reached through an IPv6 address that
  carries it: the IPv4-mapped and NAT64 forms are blocked exactly when the
  embedded address is, and the 6to4 form of a blocked address is blocked
  whatever follows the embedded address.
\<close>

theorem embedded_v4_blocked:
  "is_blocked_v6 (mapped_v6 v) = is_blocked_v4 v \<and>
   is_blocked_v6 (nat64_v6 v) = is_blocked_v4 v \<and>
   (is_blocked_v4 v \<longrightarrow> is_blocked_v6 (sixtofour_v6 v s3 s4 s5 s6 s7))"
  by (cases v)
    (auto simp: is_blocked_v6_def v6_is_multicast_def v6_is_unique_local_def v6_is_unicast_link_local_def
      v4_of_segments_join Let_def)

lemma embedded_v4_blocked_witness:
  "is_blocked_v6 (sixtofour_v6 (Ipv4Addr 169 254 169 254) 0 0 0 0 1)"
proof -
  have "is_blocked_v4 (Ipv4Addr 169 254 169 254)" by (simp add: is_blocked_v4_def)
  then show ?thesis using embedded_v4_blocked [of "Ipv4Addr 169 254 169 254" 0 0 0 0 1] by simp
qed

text \<open>
  The ISATAP check only looks at addresses whose third and fourth segments
  are zero, so an ISATAP interface identifier under an ordinary /64 prefix is
  allowed whatever IPv4 address it embeds: \<open>2606:4700:1:2:0:5efe:a9fe:a9fe\<close>,
  which embeds the cloud metadata address, passes the strict guard.
\<close>

theorem isatap_subnet_prefix_allowed:
  "allow strict (V6 (Ipv6Addr 0x2606 0x4700 1 2 0 0x5efe x y)) \<and>
   v4_of_segments 0xa9fe 0xa9fe = Ipv4Addr 169 254 169 254 \<and> is_blocked_v4 (Ipv4Addr 169 254 169 254)"
  by (simp add: allow_def strict_def is_blocked_v6_def v6_is_multicast_def v6_is_unique_local_def
      v6_is_unicast_link_local_def Let_def v4_of_segments_def octet_pair_def is_blocked_v4_def)

text \<open>
  The strict guard never lets a blocked address through and keeps every
  other one: filtering the resolved addresses of a host returns exactly the
  unblocked ones in their order, and fails exactly when there are none, while
  \<open>check\<close> rejects exactly the blocked ones.
\<close>

theorem strict_guard_filters:
  "filter_addrs strict host addrs =
     (if list_all is_blocked_ip addrs then Err (AllBlocked host)
      else Ok (filter (\<lambda>ip. check strict ip = Ok ()) addrs))"
  by (auto simp: filter_addrs_def strict_def check_def allow_def list_all_iff filter_empty_conv Let_def)

end
