(* ===== verification/Probes.thy ===== *)
theory Probes
  imports Ssrf Condition_Dsl
begin

text \<open>
  The probes of \<open>bin/status-server/src/scheduler.rs\<close>: what each kind of check
  makes of the answers of the network, and the address guard in front of them.

  The network is the parameter \<open>net\<close>: name lookups, connections, reads and
  requests, each with the outcome the call had.  Text read from a connection
  is what the lossy decoding of the bytes gives; the JSON of a body is what
  the JSON library parses.  An error text is a list of pieces; how numbers,
  addresses and quoted text are printed is left to the libraries.  The model
  is that of the default build, without the \<open>agent\<close> feature.
\<close>

section \<open>The network\<close>

datatype piece = Txt string | Cnt nat | Whole int | Addr ip_addr | Quoted string

type_synonym outcome = "check_status \<times> nat option \<times> piece list option"

datatype 'a attempt = Done 'a | Broken string | TimedOut

record http_response =
  rs_code :: nat
  rs_text :: string
  rs_json :: "json option"
  rs_elapsed_ms :: nat

record net =
  nt_lookup :: "string \<Rightarrow> nat \<Rightarrow> string + ip_addr list"
  nt_lookup_again :: "string \<Rightarrow> string + ip_addr list"
  nt_port :: "url \<Rightarrow> nat option"
  nt_connect :: "string \<Rightarrow> nat \<Rightarrow> unit attempt"
  nt_read :: "string \<Rightarrow> nat \<Rightarrow> nat \<Rightarrow> string attempt"
  nt_request :: "http_check \<Rightarrow> string + http_response"
  nt_upgrade :: "url \<Rightarrow> (nat \<times> string) attempt"
  nt_get :: "url \<Rightarrow> unit attempt"
  nt_datagram :: "udp_check \<Rightarrow> string attempt"
  nt_icmp_client :: "string + unit"
  nt_echo :: "ip_addr \<Rightarrow> string + unit"

definition millis :: "duration \<Rightarrow> nat" where
  "millis d = nat (d div 1000000)"

section \<open>The address guard\<close>

definition ssrf_error_text :: "ssrf_error \<Rightarrow> piece list" where
  "ssrf_error_text e =
     (case e of
        BlockedAddress ip \<Rightarrow> [Txt ''target address '', Addr ip, Txt '' is in a blocked range'']
      | AllBlocked host \<Rightarrow> [Txt ''all resolved addresses for '', Quoted host, Txt '' are in blocked ranges''])"

definition ssrf_check_host :: "net \<Rightarrow> string \<Rightarrow> nat \<Rightarrow> ssrf_guard \<Rightarrow> piece list + unit" where
  "ssrf_check_host n host port g =
     (case nt_lookup n host port of
        Inl e \<Rightarrow> Err [Txt ''SSRF DNS resolve '', Quoted host, Txt '': '', Txt e]
      | Inr ips \<Rightarrow>
         if ips = [] then Err [Txt ''SSRF: no addresses resolved for '', Quoted host]
         else (case filter_addrs g host ips of
              Inl e \<Rightarrow> Err (Txt ''SSRF: '' # ssrf_error_text e)
            | Inr _ \<Rightarrow> Ok ()))"

definition ssrf_check_url :: "net \<Rightarrow> url \<Rightarrow> ssrf_guard \<Rightarrow> piece list + unit" where
  "ssrf_check_url n u g =
     (case url_host u of
        None \<Rightarrow> Err [Txt ''URL has no host'']
      | Some host \<Rightarrow>
         ssrf_check_host n host
           (case nt_port n u of Some p \<Rightarrow> p | None \<Rightarrow> if url_scheme u = ''https'' then 443 else 80) g)"

text \<open>A probe starts with the guard and is not sent when the guard refuses.\<close>

definition guarded :: "piece list + unit \<Rightarrow> outcome \<Rightarrow> outcome" where
  "guarded verdict probe = (case verdict of Inl reason \<Rightarrow> (check_status.Error, None, Some reason) | Inr _ \<Rightarrow> probe)"

section \<open>HTTP\<close>

fun status_matches :: "expected_status \<Rightarrow> nat \<Rightarrow> bool" where
  "status_matches (Exact c) resp_code = (c = resp_code)"
| "status_matches (Range lo hi) resp_code = (resp_code \<ge> lo \<and> resp_code \<le> hi)"
| "status_matches (OneOf codes) resp_code = (if codes = [] then 200 \<le> resp_code \<and> resp_code < 300 else resp_code \<in> set codes)"

definition merge_status :: "check_status \<Rightarrow> check_status \<Rightarrow> check_status" where
  "merge_status a b =
     (if a = Down \<or> b = Down then Down
      else if a = check_status.Degraded \<or> b = check_status.Degraded then check_status.Degraded
      else Up)"

definition parse_bool :: "string \<Rightarrow> bool option" where
  "parse_bool s = (if s = ''true'' then Some True else if s = ''false'' then Some False else None)"

definition value_matches :: "string \<Rightarrow> json \<Rightarrow> bool" where
  "value_matches expected v =
     (case (parse_f64 expected, v) of
        (Some exp_n, JNumber val_n) \<Rightarrow> f64_less (f64_distance (Fin val_n) exp_n) EPSILON
      | _ \<Rightarrow>
         (case (parse_bool expected, v) of
            (Some exp_b, JBool val_b) \<Rightarrow> val_b = exp_b
          | _ \<Rightarrow> (case v of JString s \<Rightarrow> s = expected \<or> contains_str s expected | _ \<Rightarrow> False)))"

definition length_matches :: "string \<Rightarrow> json option \<Rightarrow> bool \<Rightarrow> bool" where
  "length_matches expected v negate =
     (case v of
        Some (JArray xs) \<Rightarrow>
          (case parse_u64 expected of
             Some k \<Rightarrow> if int (length xs) = k then \<not> negate else negate
           | None \<Rightarrow> negate)
      | _ \<Rightarrow> negate)"

definition eval_body_condition :: "body_condition \<Rightarrow> json \<Rightarrow> bool" where
  "eval_body_condition c v =
     (if bc_exists c then resolve_json_path v (bc_path c) \<noteq> None
      else (case bc_value c of
         None \<Rightarrow> True
       | Some expected \<Rightarrow>
          if starts_with (bc_path c) ''len('' \<and> ends_with (bc_path c) '')'' then
            length_matches expected (resolve_json_path v (butlast (drop 4 (bc_path c)))) (bc_negate c)
          else (case resolve_json_path v (bc_path c) of
             None \<Rightarrow> False
           | Some w \<Rightarrow> if bc_negate c then \<not> value_matches expected w else value_matches expected w)))"

definition condition_error :: "body_condition \<Rightarrow> piece list" where
  "condition_error c =
     (let path = [CHR 0x27] @ bc_path c @ [CHR 0x27] in
      if bc_exists c then [Txt ''body: '', Txt path, Txt '' not found'']
      else [Txt ''body: '', Txt path, Txt '' != ''] @
        (case bc_value c of Some s \<Rightarrow> [Txt ''Some('', Quoted s, Txt '')''] | None \<Rightarrow> [Txt ''None'']))"

type_synonym verdict = "check_status \<times> piece list list"

definition check_status_code :: "http_check \<Rightarrow> nat \<Rightarrow> verdict" where
  "check_status_code h resp_code =
     (if \<not> status_matches (hc_expected_status h) resp_code then (Down, [[Txt ''HTTP '', Cnt resp_code]]) else (Up, []))"

definition check_body_text :: "http_check \<Rightarrow> string \<Rightarrow> verdict \<Rightarrow> verdict" where
  "check_body_text h body = (\<lambda>(status, errors).
     case hc_expected_body_contains h of
       None \<Rightarrow> (status, errors)
     | Some needle \<Rightarrow>
        if \<not> contains_str body needle
        then (merge_status status Down, errors @ [[Txt ''body missing '', Quoted needle]])
        else (status, errors))"

fun check_conditions :: "body_condition list \<Rightarrow> json \<Rightarrow> verdict \<Rightarrow> verdict" where
  "check_conditions [] v st = st"
| "check_conditions (c # cs) v (status, errors) =
     check_conditions cs v
       (if \<not> eval_body_condition c v then (merge_status status Down, errors @ [condition_error c]) else (status, errors))"

definition check_body_json :: "http_check \<Rightarrow> json option \<Rightarrow> verdict \<Rightarrow> verdict" where
  "check_body_json h v = (\<lambda>(status, errors).
     case hc_body_conditions h of
       None \<Rightarrow> (status, errors)
     | Some conditions \<Rightarrow>
        (case v of
           Some j \<Rightarrow> check_conditions conditions j (status, errors)
         | None \<Rightarrow>
            if conditions \<noteq> [] then (merge_status status Down, errors @ [[Txt ''body: not valid JSON'']])
            else (status, errors)))"

definition check_response_time :: "http_check \<Rightarrow> nat \<Rightarrow> verdict \<Rightarrow> verdict" where
  "check_response_time h elapsed_ms = (\<lambda>(status, errors).
     case hc_max_response_time_ms h of
       None \<Rightarrow> (status, errors)
     | Some max_ms \<Rightarrow>
        if max_ms > 0 \<and> elapsed_ms > max_ms
        then (merge_status status check_status.Degraded,
              errors @ [[Txt ''response time '', Cnt elapsed_ms, Txt ''ms > '', Cnt max_ms, Txt ''ms'']])
        else (status, errors))"

fun join_pieces :: "piece list list \<Rightarrow> piece list" where
  "join_pieces [] = []"
| "join_pieces [e] = e"
| "join_pieces (e # es) = e @ Txt ''; '' # join_pieces es"

definition judge_response :: "http_check \<Rightarrow> http_response \<Rightarrow> outcome" where
  "judge_response h r =
     (let (status, errors) =
            check_response_time h (rs_elapsed_ms r)
              (check_body_json h (rs_json r) (check_body_text h (rs_text r) (check_status_code h (rs_code r))))
      in (status, Some (rs_code r), if errors = [] then None else Some (join_pieces errors)))"

text \<open>
  The certificate test that precedes the request always fails in the default
  build and a failure is only logged, so nothing of it is left here.
\<close>

definition probe_http :: "net \<Rightarrow> http_check \<Rightarrow> outcome" where
  "probe_http n h =
     guarded (ssrf_check_url n (hc_url h) strict)
       (case nt_request n h of
          Inl e \<Rightarrow> (Down, None, Some [Txt ''request: '', Txt e])
        | Inr r \<Rightarrow> judge_response h r)"

section \<open>Other probes\<close>

definition probe_tcp :: "net \<Rightarrow> tcp_check \<Rightarrow> outcome" where
  "probe_tcp n t =
     guarded (ssrf_check_host n (tcp_host t) (tcp_port t) strict)
       (let addr = [Txt (tcp_host t), Txt '':'', Cnt (tcp_port t)] in
        case nt_connect n (tcp_host t) (tcp_port t) of
          Done _ \<Rightarrow> (Up, None, None)
        | Broken e \<Rightarrow> (Down, None, Some (Txt ''tcp connect '' # addr @ [Txt '': '', Txt e]))
        | TimedOut \<Rightarrow> (Down, None, Some (Txt ''tcp connect '' # addr @
            [Txt '': timeout after '', Cnt (millis (tcp_timeout t)), Txt '' ms''])))"

definition probe_ping :: "net \<Rightarrow> ping_check \<Rightarrow> outcome" where
  "probe_ping n p =
     guarded (ssrf_check_host n (png_host p) 0 strict)
       (case nt_lookup_again n (png_host p) of
          Inl e \<Rightarrow> (Down, None, Some [Txt ''ping dns '', Txt (png_host p), Txt '': '', Txt e])
        | Inr [] \<Rightarrow> (Down, None, Some [Txt ''ping dns '', Txt (png_host p), Txt '': no addresses''])
        | Inr (ip # _) \<Rightarrow>
           (case nt_icmp_client n of
              Inl e \<Rightarrow> (check_status.Error, None, Some [Txt ''ping icmp client: '', Txt e])
            | Inr _ \<Rightarrow>
               (case nt_echo n ip of
                  Inr _ \<Rightarrow> (Up, None, None)
                | Inl e \<Rightarrow> (Down, None, Some [Txt ''ping '', Txt (png_host p), Txt '' ('', Addr ip, Txt ''): '', Txt e]))))"

definition probe_websocket :: "net \<Rightarrow> websocket_check \<Rightarrow> outcome" where
  "probe_websocket n w =
     guarded (ssrf_check_url n (ws_url w) strict)
       (case nt_upgrade n (ws_url w) of
          Done (resp_code, shown) \<Rightarrow>
            if resp_code = 101 \<or> (200 \<le> resp_code \<and> resp_code < 300) then (Up, Some resp_code, None)
            else (Down, Some resp_code, Some [Txt ''ws upgrade: HTTP '', Txt shown])
        | Broken e \<Rightarrow> (Down, None, Some [Txt ''ws connect: '', Txt e])
        | TimedOut \<Rightarrow> (Down, None, Some [Txt ''ws connect: timeout after '', Cnt (millis (ws_timeout w)), Txt ''ms'']))"

definition probe_grpc :: "net \<Rightarrow> grpc_check \<Rightarrow> outcome" where
  "probe_grpc n g =
     guarded (ssrf_check_url n (gr_url g) strict)
       (case nt_get n (gr_url g) of
          Done _ \<Rightarrow> (Up, None, None)
        | Broken e \<Rightarrow> (Down, None, Some [Txt ''grpc: '', Txt e])
        | TimedOut \<Rightarrow> (Down, None, Some [Txt ''grpc: timeout after '', Cnt (millis (gr_timeout g)), Txt ''ms'']))"

definition probe_ssh :: "net \<Rightarrow> ssh_check \<Rightarrow> outcome" where
  "probe_ssh n c =
     guarded (ssrf_check_host n (ssh_host c) (ssh_port c) strict)
       (let addr = [Txt (ssh_host c), Txt '':'', Cnt (ssh_port c)] in
        case nt_connect n (ssh_host c) (ssh_port c) of
          Done _ \<Rightarrow>
            (case nt_read n (ssh_host c) (ssh_port c) 0 of
               Done banner \<Rightarrow>
                 if starts_with banner ''SSH-'' then (Up, None, None)
                 else (Down, None, Some [Txt ''ssh: no SSH banner received''])
             | Broken e \<Rightarrow> (Down, None, Some [Txt ''ssh banner read: '', Txt e])
             | TimedOut \<Rightarrow> (Down, None, Some [Txt ''ssh banner read: timeout'']))
        | Broken e \<Rightarrow> (Down, None, Some (Txt ''ssh connect '' # addr @ [Txt '': '', Txt e]))
        | TimedOut \<Rightarrow> (Down, None, Some (Txt ''ssh connect '' # addr @
            [Txt '': timeout after '', Cnt (millis (ssh_timeout c)), Txt ''ms''])))"

definition probe_udp :: "net \<Rightarrow> udp_check \<Rightarrow> outcome" where
  "probe_udp n u =
     guarded (ssrf_check_host n (udp_host u) (udp_port u) strict)
       (let addr = [Txt (udp_host u), Txt '':'', Cnt (udp_port u)] in
        case nt_datagram n u of
          Done data \<Rightarrow>
            (case udp_expected_response_contains u of
               Some expected \<Rightarrow>
                 if contains_str data expected then (Up, None, None)
                 else (Down, None, Some [Txt ''udp: response missing '', Quoted expected])
             | None \<Rightarrow> (Up, None, None))
        | Broken e \<Rightarrow> (Down, None, Some (Txt ''udp '' # addr @ [Txt '': '', Txt e]))
        | TimedOut \<Rightarrow> (Down, None, Some (Txt ''udp '' # addr @
            [Txt '': timeout after '', Cnt (millis (udp_timeout u)), Txt ''ms''])))"

text \<open>\<open>str::to_uppercase\<close> on the characters of the model.\<close>

definition to_uppercase :: "string \<Rightarrow> string" where
  "to_uppercase s = concat (map (\<lambda>c.
     if is_ascii_lowercase c \<or> (224 \<le> code c \<and> code c \<le> 254 \<and> code c \<noteq> 247) then [char_of (code c - 32)]
     else if code c = 223 then ''SS'' else [c]) s)"

definition probe_starttls :: "net \<Rightarrow> starttls_check \<Rightarrow> outcome" where
  "probe_starttls n c =
     guarded (ssrf_check_host n (st_host c) (st_port c) strict)
       (let addr = [Txt (st_host c), Txt '':'', Cnt (st_port c)] in
        case nt_connect n (st_host c) (st_port c) of
          Done _ \<Rightarrow>
            (case nt_read n (st_host c) (st_port c) 0 of
               Done banner \<Rightarrow>
                 if banner = [] then (Down, None, Some [Txt ''starttls: empty banner''])
                 else if starts_with banner ''220'' then
                   (case nt_read n (st_host c) (st_port c) 1 of
                      Done resp \<Rightarrow>
                        if contains_str (to_uppercase resp) ''STARTTLS'' then (Up, None, None)
                        else (check_status.Degraded, None, Some [Txt ''starttls: STARTTLS not advertised''])
                    | _ \<Rightarrow> (Down, None, Some [Txt ''starttls ehlo read: timeout'']))
                 else (Down, None, Some [Txt ''starttls: unexpected banner: '', Txt (trim banner)])
             | Broken e \<Rightarrow> (Down, None, Some [Txt ''starttls banner read: '', Txt e])
             | TimedOut \<Rightarrow> (Down, None, Some [Txt ''starttls banner read: timeout'']))
        | Broken e \<Rightarrow> (Down, None, Some (Txt ''starttls connect '' # addr @ [Txt '': '', Txt e]))
        | TimedOut \<Rightarrow> (Down, None, Some (Txt ''starttls connect '' # addr @ [Txt '': timeout''])))"

section \<open>The verdict on a response\<close>

definition hard_failure :: "http_check \<Rightarrow> http_response \<Rightarrow> bool" where
  "hard_failure h r \<longleftrightarrow>
     \<not> status_matches (hc_expected_status h) (rs_code r) \<or>
     (\<exists>needle. hc_expected_body_contains h = Some needle \<and> \<not> contains_str (rs_text r) needle) \<or>
     (\<exists>cs. hc_body_conditions h = Some cs \<and>
        (case rs_json r of Some j \<Rightarrow> \<exists>c \<in> set cs. \<not> eval_body_condition c j | None \<Rightarrow> cs \<noteq> []))"

definition slow :: "http_check \<Rightarrow> http_response \<Rightarrow> bool" where
  "slow h r \<longleftrightarrow> (\<exists>m. hc_max_response_time_ms h = Some m \<and> 0 < m \<and> m < rs_elapsed_ms r)"

text \<open>What the stages hand on: a status without an error text is up, and one with a text is not.\<close>

definition verdict_ok :: "bool \<Rightarrow> verdict \<Rightarrow> bool" where
  "verdict_ok failed v \<longleftrightarrow> fst v = (if failed then Down else Up) \<and> (snd v = [] \<longleftrightarrow> \<not> failed)"

lemma conditions_verdict:
  "verdict_ok failed v \<Longrightarrow> verdict_ok (failed \<or> (\<exists>c \<in> set cs. \<not> eval_body_condition c j)) (check_conditions cs j v)"
proof (induction cs arbitrary: failed v)
  case (Cons c cs)
  have "verdict_ok (failed \<or> \<not> eval_body_condition c j)
      (if \<not> eval_body_condition c j then (merge_status (fst v) Down, snd v @ [condition_error c]) else v)"
    using Cons.prems by (auto simp: verdict_ok_def merge_status_def)
  from Cons.IH [OF this] show ?case by (cases v) (simp split: if_splits)
qed simp

lemma body_verdict:
  "verdict_ok (hard_failure h r)
     (check_body_json h (rs_json r) (check_body_text h (rs_text r) (check_status_code h (rs_code r))))"
proof -
  let ?v = "check_body_text h (rs_text r) (check_status_code h (rs_code r))"
  let ?f = "\<not> status_matches (hc_expected_status h) (rs_code r) \<or>
     (\<exists>needle. hc_expected_body_contains h = Some needle \<and> \<not> contains_str (rs_text r) needle)"
  have v: "verdict_ok ?f ?v"
    by (auto simp: verdict_ok_def check_body_text_def check_status_code_def merge_status_def split: option.split)
  show ?thesis
  proof (cases "hc_body_conditions h")
    case None
    then show ?thesis using v by (simp add: check_body_json_def hard_failure_def split_beta)
  next
    case (Some cs)
    show ?thesis
    proof (cases "rs_json r")
      case None
      then show ?thesis
        using v Some by (auto simp: check_body_json_def hard_failure_def verdict_ok_def merge_status_def split_beta)
    next
      case (Some j)
      then show ?thesis
        using conditions_verdict [OF v, of cs j] \<open>hc_body_conditions h = Some cs\<close>
        by (simp add: check_body_json_def hard_failure_def disj_assoc split_beta)
    qed
  qed
qed

text \<open>
  C18: The worst finding decides an HTTP check.  The probe is down when the
  status code is not the expected one, the expected text is missing, a body
  condition fails or the body is not JSON although there are conditions;
  otherwise degraded when the answer took too long; otherwise up.  The code is
  always reported, and there is an error text exactly when it is not up.
\<close>

theorem http_probe_verdict:
  "judge_response h r = (s, code_seen, err) \<Longrightarrow>
     s = (if hard_failure h r then Down else if slow h r then check_status.Degraded else Up) \<and>
     code_seen = Some (rs_code r) \<and> (err = None \<longleftrightarrow> s = Up)"
  using body_verdict [of h r]
  by (auto simp: judge_response_def verdict_ok_def check_response_time_def merge_status_def slow_def split_beta
      split: option.splits if_splits)

definition sample_http :: http_check where
  "sample_http = \<lparr>hc_url = \<lparr>url_scheme = ''https'', url_host = Some ''a'', url_path = ''/'', url_query = None,
       url_fragment = None, url_username = [], url_password = None\<rparr>,
     hc_method = Get, hc_timeout = 0, hc_follow_redirects = False, hc_max_redirects = 0, hc_expected_status = OneOf [],
     hc_expected_body_contains = Some ''ok'', hc_headers = [], hc_body = None, hc_verify_tls = True,
     hc_basic_auth = None, hc_bearer_token = None, hc_body_conditions = None, hc_max_response_time_ms = Some 100,
     hc_cert_expiry_warn_days = None\<rparr>"

lemma http_probe_verdict_witness:
  "\<exists>code_seen err. judge_response sample_http \<lparr>rs_code = 200, rs_text = ''ok'', rs_json = None, rs_elapsed_ms = 300\<rparr> =
     (check_status.Degraded, code_seen, err) \<and> code_seen = Some 200 \<and> err \<noteq> None"
proof -
  let ?r = "\<lparr>rs_code = 200, rs_text = ''ok'', rs_json = None, rs_elapsed_ms = 300\<rparr>"
  obtain s c e where j: "judge_response sample_http ?r = (s, c, e)" by (cases "judge_response sample_http ?r")
  have "\<not> hard_failure sample_http ?r" "slow sample_http ?r"
    by (auto simp: hard_failure_def slow_def sample_http_def contains_str_def starts_with_def)
  then show ?thesis using http_probe_verdict [OF j] j by (cases e) auto
qed

section \<open>Which hosts are contacted\<close>

lemma guard_refuses:
  "nt_lookup n host port = Inr ips \<Longrightarrow> list_all is_blocked_ip ips \<Longrightarrow> \<exists>reason. ssrf_check_host n host port strict = Err reason"
  by (cases ips) (auto simp: ssrf_check_host_def filter_addrs_def strict_def list_all_iff filter_empty_conv Let_def)

lemma guard_passes:
  "nt_lookup n host port = Inr ips \<Longrightarrow> a \<in> set ips \<Longrightarrow> \<not> is_blocked_ip a \<Longrightarrow> ssrf_check_host n host port strict = Ok ()"
  by (auto simp: ssrf_check_host_def filter_addrs_def strict_def filter_empty_conv Let_def split: sum.split)

text \<open>
  A host with one public address among internal ones passes the guard, and a
  ping goes to the first address of the lookup, whichever it is.
\<close>

theorem ping_contacts_first_address:
  assumes "nt_lookup n (png_host p) 0 = Inr (a # rest)" "nt_lookup_again n (png_host p) = Inr (a # rest)"
    and "is_blocked_ip a" "b \<in> set rest" "\<not> is_blocked_ip b" "nt_icmp_client n = Inr ()" "nt_echo n a = Inr ()"
  shows "probe_ping n p = (Up, None, None)"
  using guard_passes [of n "png_host p" 0 "a # rest" b] assms by (simp add: probe_ping_def guarded_def)

end
