(* ===== verification/Scheduler.thy ===== *)
theory Scheduler
  imports Probes Incident_Writer
begin

text \<open>
  The probe scheduler of \<open>bin/status-server/src/scheduler.rs\<close> and the heartbeat
  endpoint of \<open>api/heartbeat.rs\<close>: the dispatch of a check to its probe, the map
  of due probe_times, the refresh of the target list and the sweep that probes what
  is due, records the result and lets the coalescer look at it.

  The start and the end of a probe, the outcome of the connectivity test and
  the random delay of a new target are arguments.  The timers of \<open>run\<close> are not
  modelled: a run is a sequence of refreshes and sweeps.
\<close>

section \<open>One target\<close>

text \<open>The longest \<open>chrono::Duration\<close>, to which a deadline that is out of its range is clipped.\<close>

definition MAX_DURATION :: duration where
  "MAX_DURATION = (2 ^ 63 - 1) * 1000000"

definition heartbeat_deadline :: "heartbeat_check \<Rightarrow> duration" where
  "heartbeat_deadline hb = (let d = hb_period hb + hb_grace hb in if d \<le> MAX_DURATION then d else MAX_DURATION)"

definition probe_heartbeat :: "mem \<Rightarrow> instant \<Rightarrow> uuid \<Rightarrow> heartbeat_check \<Rightarrow> outcome" where
  "probe_heartbeat s now target_id hb =
     (case get_last_heartbeat_ping s target_id of
        None \<Rightarrow> (Up, None, None)
      | Some last_ping \<Rightarrow>
         (let elapsed = now - last_ping in
          if elapsed > heartbeat_deadline hb
          then (Down, None, Some [Txt ''heartbeat stale: last ping '', Whole (num_seconds elapsed), Txt ''s ago, deadline '',
                  Cnt (millis (hb_period hb + hb_grace hb)), Txt ''ms''])
          else (Up, None, None)))"

definition control_plane_refusal :: "check_spec_error \<Rightarrow> piece list" where
  "control_plane_refusal e =
     (case e of NotSupportedOnControlPlane k \<Rightarrow>
        [Txt ''not supported on control plane: '', Txt ''check kind '', Quoted k,
         Txt '' is not supported on the control plane; it requires an agent''])"

definition probe_spec :: "net \<Rightarrow> mem \<Rightarrow> instant \<Rightarrow> uuid \<Rightarrow> check_spec \<Rightarrow> outcome" where
  "probe_spec n s now target_id c =
     (case c of
        Http h \<Rightarrow> probe_http n h
      | Tcp t \<Rightarrow> probe_tcp n t
      | Ping p \<Rightarrow> probe_ping n p
      | Heartbeat hb \<Rightarrow> probe_heartbeat s now target_id hb
      | WebSocket w \<Rightarrow> probe_websocket n w
      | Grpc g \<Rightarrow> probe_grpc n g
      | Ssh x \<Rightarrow> probe_ssh n x
      | Udp u \<Rightarrow> probe_udp n u
      | Starttls x \<Rightarrow> probe_starttls n x
      | Suite _ \<Rightarrow> (check_status.Error, None, Some [Txt ''suite checks require an agent''])
      | Dns _ \<Rightarrow> (check_status.Error, None, Some [Txt (''dns/tls_cert probes require the '' @ [CHR 0x27] @ ''agent'' @ [CHR 0x27] @ '' feature'')])
      | TlsCert _ \<Rightarrow> (check_status.Error, None, Some [Txt (''dns/tls_cert probes require the '' @ [CHR 0x27] @ ''agent'' @ [CHR 0x27] @ '' feature'')])
      | other \<Rightarrow> (check_status.Error, None, Some [Txt ''check kind '', Txt (check_kind other), Txt '' not supported by in-process scheduler'']))"

definition duration_ms :: "instant \<Rightarrow> instant \<Rightarrow> nat" where
  "duration_ms started finished = nat (min (max ((finished - started) div 1000000) 0) (2 ^ 32 - 1))"

definition probe_target ::
  "(piece list \<Rightarrow> string) \<Rightarrow> net \<Rightarrow> instant \<times> instant \<Rightarrow> mem \<Rightarrow> target \<Rightarrow> check_result" where
  "probe_target render n probe_times s t =
     (case require_control_plane_support (tg_check t) of
        Inl e \<Rightarrow> error_with_elapsed (tg_id t) nil_uuid (fst probe_times) 0 (render (control_plane_refusal e))
      | Inr _ \<Rightarrow>
         (let (status, response_code, error) = probe_spec n s (snd probe_times) (tg_id t) (tg_check t)
          in \<lparr>cr_target_id = tg_id t, cr_org_id = nil_uuid, cr_timestamp = fst probe_times, cr_status = status,
              cr_duration_ms = duration_ms (fst probe_times) (snd probe_times), cr_dns_ms = None, cr_connect_ms = None,
              cr_tls_ms = None, cr_ttfb_ms = None, cr_response_code = response_code, cr_response_size = None,
              cr_error = map_option render error\<rparr>))"

definition not_heartbeat :: app_error where
  "not_heartbeat = BadRequest ''NOT_HEARTBEAT_TARGET'' [Lit ''target check kind is not heartbeat''] None"

definition heartbeat_ping_endpoint :: "instant \<Rightarrow> uuid \<Rightarrow> (mem, unit) op" where
  "heartbeat_ping_endpoint now target_id s =
     (case get_target s target_id of
        Inl e \<Rightarrow> (Err e, s)
      | Inr t \<Rightarrow>
         (case tg_check t of
            Heartbeat _ \<Rightarrow> record_heartbeat_ping now target_id s
          | _ \<Rightarrow> (Err not_heartbeat, s)))"

section \<open>The schedule\<close>

record schedule =
  next_due :: "(uuid \<times> instant) list"
  known_targets :: "(uuid \<times> target) list"

fun schedule_targets :: "instant \<Rightarrow> (uuid \<Rightarrow> nat) \<Rightarrow> target list \<Rightarrow> schedule \<Rightarrow> schedule" where
  "schedule_targets now jitter [] sc = sc"
| "schedule_targets now jitter (t # ts) sc =
     schedule_targets now jitter ts
       (let due = (if \<not> hm_contains (known_targets sc) (tg_id t)
                   then hm_insert (tg_id t) (now + seconds (int (jitter (tg_id t)))) (next_due sc)
                   else next_due sc)
        in \<lparr>next_due = due, known_targets = hm_insert (tg_id t) t (known_targets sc)\<rparr>)"

definition refresh_targets :: "instant \<Rightarrow> (uuid \<Rightarrow> nat) \<Rightarrow> mem \<Rightarrow> schedule \<Rightarrow> schedule" where
  "refresh_targets now jitter s sc =
     (let targets = list_targets s; live_ids = set (map tg_id targets)
      in schedule_targets now jitter targets
           \<lparr>next_due = hm_retain (\<lambda>k _. k \<in> live_ids) (next_due sc),
            known_targets = hm_retain (\<lambda>k _. k \<in> live_ids) (known_targets sc)\<rparr>)"

record sweep_env =
  sw_render :: "piece list \<Rightarrow> string"
  sw_net :: net
  sw_times :: "uuid \<Rightarrow> instant \<times> instant"
  sw_writer :: writer_env
  sw_online :: bool

fun probe_each ::
  "sweep_env \<Rightarrow> schedule \<Rightarrow> uuid list \<Rightarrow> mem \<Rightarrow> uuid list \<times> channel_alert list \<times> mem" where
  "probe_each env sc [] s = ([], [], s)"
| "probe_each env sc (k # ks) s =
     (case hm_get (known_targets sc) k of
        None \<Rightarrow> probe_each env sc ks s
      | Some t \<Rightarrow>
         if \<not> tg_enabled t then probe_each env sc ks s
         else
           (let result = probe_target (sw_render env) (sw_net env) (sw_times env k) s t;
                s1 = snd (record_result result s);
                (_, alerts, s2) = evaluate_target (sw_writer env) (snd (sw_times env k)) (tg_id t) s1;
                (probed, more, s3) = probe_each env sc ks s2
            in (k # probed, alerts @ more, s3)))"

definition due_ids :: "instant \<Rightarrow> schedule \<Rightarrow> uuid list" where
  "due_ids now sc = map fst (filter (\<lambda>(_, due). due \<le> now) (next_due sc))"

definition probe_due_targets ::
  "sweep_env \<Rightarrow> instant \<Rightarrow> schedule \<Rightarrow> mem \<Rightarrow> uuid list \<times> channel_alert list \<times> mem" where
  "probe_due_targets env now sc s =
     (if due_ids now sc = [] then ([], [], s)
      else if \<not> sw_online env then ([], [], s)
      else probe_each env sc (due_ids now sc) s)"

section \<open>Heartbeats\<close>

text \<open>
  A heartbeat monitor is down when the last ping is too old.  After a ping
  accepted at one time, a probe at another reports down exactly when more than
  the period and the grace have passed, as long as those fit a duration; a
  monitor that was never pinged is up; the endpoint accepts a ping only for a
  stored target of the heartbeat kind and changes nothing otherwise.
\<close>

theorem heartbeat_down_iff_stale:
  assumes "hb_period hb + hb_grace hb \<le> MAX_DURATION" "get_target s k = Ok t" "tg_check t = Heartbeat hb"
  shows "fst (heartbeat_ping_endpoint t0 k s) = Ok () \<and>
    (fst (probe_heartbeat (snd (heartbeat_ping_endpoint t0 k s)) now k hb) = Down \<longleftrightarrow>
       now > t0 + hb_period hb + hb_grace hb) \<and>
    (get_last_heartbeat_ping s k = None \<longrightarrow> fst (probe_heartbeat s now k hb) = Up)"
  using assms
  by (auto simp: heartbeat_ping_endpoint_def probe_heartbeat_def record_heartbeat_ping_def get_last_heartbeat_ping_def
      heartbeat_deadline_def Let_def)

lemma heartbeat_refused:
  "get_target s k = Ok t \<Longrightarrow> \<nexists>hb. tg_check t = Heartbeat hb \<Longrightarrow> heartbeat_ping_endpoint now k s = (Err not_heartbeat, s)"
  by (cases "tg_check t") (simp_all add: heartbeat_ping_endpoint_def)

text \<open>A deadline beyond the range is clipped to the longest duration, so no elapsed time exceeds it.\<close>

lemma huge_deadline_never_stale:
  "MAX_DURATION < hb_period hb + hb_grace hb \<Longrightarrow> now - t0 \<le> MAX_DURATION \<Longrightarrow>
     hm_get (m_heartbeat_pings s) k = Some t0 \<Longrightarrow> fst (probe_heartbeat s now k hb) = Up"
  by (simp add: probe_heartbeat_def get_last_heartbeat_ping_def heartbeat_deadline_def Let_def)

section \<open>Sweeps are runs of the coalescer\<close>

lemma probe_each_run: "coalescer_step\<^sup>*\<^sup>* s (snd (snd (probe_each env sc ks s)))"
proof (induction ks arbitrary: s)
  case (Cons k ks)
  have "coalescer_step\<^sup>*\<^sup>* s (snd (snd (probe_each env sc ks
      (snd (snd (evaluate_target w now j (snd (record_result r s))))))))" for w now j r
    using coalescer_step.result [of s r] coalescer_step.evaluate [of "snd (record_result r s)" w now j] Cons
    by (meson converse_rtranclp_into_rtranclp)
  then show ?case using Cons by (simp add: Let_def split_beta split: option.split)
qed simp

text \<open>
  Probing keeps incidents unique.  A sweep of the scheduler is a run of the
  coalescer, one recorded result and one evaluation per probed target, so that
  from a store with at most one open incident per target any sweep, whatever
  the network answers, leaves such a store.
\<close>

theorem sweep_keeps_one_open_incident:
  assumes "single_open s"
  shows "coalescer_step\<^sup>*\<^sup>* s (snd (snd (probe_due_targets env now sc s))) \<and>
    single_open (snd (snd (probe_due_targets env now sc s)))"
  using probe_each_run [of s env sc] coalescer_runs.run_good [OF probe_each_run assms]
  by (simp add: probe_due_targets_def assms)

section \<open>What the schedule holds\<close>

definition schedule_ok :: "schedule \<Rightarrow> bool" where
  "schedule_ok sc \<longleftrightarrow> hm_ok (next_due sc) \<and> hm_ok (known_targets sc) \<and>
     (\<forall>k. hm_get (known_targets sc) k = None \<longleftrightarrow> hm_get (next_due sc) k = None)"

definition stored_ok :: "mem \<Rightarrow> bool" where
  "stored_ok s \<longleftrightarrow> hm_ok (m_targets s) \<and> (\<forall>(k, t) \<in> set (m_targets s). tg_id t = k)"

lemma schedule_targets_due:
  "hm_get (next_due (schedule_targets now jitter ts sc)) k =
     (if k \<in> tg_id ` set ts \<and> hm_get (known_targets sc) k = None then Some (now + seconds (int (jitter k)))
      else hm_get (next_due sc) k)"
  by (induction ts arbitrary: sc) (auto simp: Let_def)

lemma schedule_targets_known:
  "distinct (map tg_id ts) \<Longrightarrow> hm_get (known_targets (schedule_targets now jitter ts sc)) k =
     (case map_of (map (\<lambda>t. (tg_id t, t)) ts) k of Some t \<Rightarrow> Some t | None \<Rightarrow> hm_get (known_targets sc) k)"
proof (induction ts arbitrary: sc)
  case (Cons t ts)
  have "map_of (map (\<lambda>t. (tg_id t, t)) ts) (tg_id t) = None"
    using Cons.prems by (auto simp: map_of_eq_None_iff)
  then show ?case using Cons by (simp add: Let_def split: option.split)
qed simp

lemma schedule_targets_ok:
  "hm_ok (next_due sc) \<and> hm_ok (known_targets sc) \<Longrightarrow>
     hm_ok (next_due (schedule_targets now jitter ts sc)) \<and> hm_ok (known_targets (schedule_targets now jitter ts sc))"
  by (induction ts arbitrary: sc) (auto simp: Let_def)

lemma stored_rows:
  assumes "stored_ok s"
  shows "map_of (map (\<lambda>t. (tg_id t, t)) (list_targets s)) k = hm_get (m_targets s) k"
    "distinct (map tg_id (list_targets s))" "k \<in> tg_id ` set (list_targets s) \<longleftrightarrow> hm_get (m_targets s) k \<noteq> None"
proof -
  have ids: "map tg_id (hm_values (m_targets s)) = map fst (m_targets s)"
    using assms by (auto simp: stored_ok_def hm_values_def)
  then have "distinct (map tg_id (hm_values (m_targets s)))" using assms by (simp add: stored_ok_def hm_ok_def)
  then have "inj_on tg_id (set (list_targets s))" "distinct (list_targets s)"
    by (auto simp: distinct_map list_targets_def)
  then show d: "distinct (map tg_id (list_targets s))" by (simp add: distinct_map)
  have rows: "t \<in> set (list_targets s) \<and> tg_id t = k \<longleftrightarrow> hm_get (m_targets s) k = Some t" for t
  proof
    assume t: "t \<in> set (list_targets s) \<and> tg_id t = k"
    then obtain j where "(j, t) \<in> set (m_targets s)" by (auto simp: list_targets_def hm_values_def)
    then show "hm_get (m_targets s) k = Some t" using assms t by (auto simp: stored_ok_def hm_ok_def hm_get_def)
  next
    assume "hm_get (m_targets s) k = Some t"
    then show "t \<in> set (list_targets s) \<and> tg_id t = k"
      using assms hm_get_in_values hm_get_entry by (fastforce simp: stored_ok_def list_targets_def)
  qed
  show "k \<in> tg_id ` set (list_targets s) \<longleftrightarrow> hm_get (m_targets s) k \<noteq> None"
    using rows by (metis (no_types, lifting) image_iff not_None_eq)
  show "map_of (map (\<lambda>t. (tg_id t, t)) (list_targets s)) k = hm_get (m_targets s) k"
  proof (cases "hm_get (m_targets s) k")
    case None
    then have "k \<notin> tg_id ` set (list_targets s)" using rows by (metis (no_types, lifting) image_iff not_None_eq)
    then show ?thesis using None by (simp add: map_of_eq_None_iff image_image)
  next
    case (Some t)
    then have "t \<in> set (list_targets s)" "tg_id t = k" using rows by blast+
    then have "(k, t) \<in> set (map (\<lambda>t. (tg_id t, t)) (list_targets s))" by force
    then show ?thesis using d Some by (simp add: comp_def)
  qed
qed

text \<open>
  A refresh brings the schedule in line with the store.  Afterwards the
  scheduler knows exactly the stored targets, with their current rows; a
  target it knew keeps its due time, a new one is due within the random delay,
  a removed one is gone, and every known target has a due time.
\<close>

theorem refresh_follows_store:
  assumes "schedule_ok sc" "stored_ok s"
  shows "schedule_ok (refresh_targets now jitter s sc) \<and>
    hm_get (known_targets (refresh_targets now jitter s sc)) k = hm_get (m_targets s) k \<and>
    hm_get (next_due (refresh_targets now jitter s sc)) k =
      (if hm_get (m_targets s) k = None then None
       else if hm_get (known_targets sc) k = None then Some (now + seconds (int (jitter k)))
       else hm_get (next_due sc) k)"
proof -
  note rows = stored_rows [OF assms(2)]
  let ?live = "\<lambda>k (_ :: target). k \<in> tg_id ` set (list_targets s)" and ?live' = "\<lambda>k (_ :: instant). k \<in> tg_id ` set (list_targets s)"
  have ok: "hm_ok (next_due sc)" "hm_ok (known_targets sc)"
    and same: "\<And>k. hm_get (known_targets sc) k = None \<longleftrightarrow> hm_get (next_due sc) k = None"
    using assms(1) by (simp_all add: schedule_ok_def)
  have known: "hm_get (known_targets (refresh_targets now jitter s sc)) k = hm_get (m_targets s) k" for k
    using rows ok by (simp add: refresh_targets_def Let_def schedule_targets_known hm_get_retain split: option.split)
  have due: "hm_get (next_due (refresh_targets now jitter s sc)) k =
      (if hm_get (m_targets s) k = None then None
       else if hm_get (known_targets sc) k = None then Some (now + seconds (int (jitter k)))
       else hm_get (next_due sc) k)" for k
    using rows(3) ok
    by (auto simp: refresh_targets_def Let_def schedule_targets_due hm_get_retain split: option.split)
  have "hm_ok (next_due (refresh_targets now jitter s sc))" "hm_ok (known_targets (refresh_targets now jitter s sc))"
    using schedule_targets_ok ok by (simp_all add: refresh_targets_def Let_def)
  then show ?thesis using known due same by (auto simp: schedule_ok_def)
qed

definition monitored :: target where
  "monitored = (sample_target 4 [] None)\<lparr>tg_check := Tcp \<lparr>tcp_host = ''h'', tcp_port = 25, tcp_timeout = 0\<rparr>, tg_enabled := True\<rparr>"

definition monitored_store :: mem where
  "monitored_store = new_storage\<lparr>m_targets := [(tg_id monitored, monitored)]\<rparr>"

lemma refresh_follows_store_witness:
  "hm_get (next_due (refresh_targets 100 (\<lambda>_. 3) monitored_store \<lparr>next_due = [], known_targets = []\<rparr>)) (tg_id monitored) =
     Some (100 + seconds 3)"
proof -
  have "schedule_ok \<lparr>next_due = [], known_targets = []\<rparr>" "stored_ok monitored_store"
    by (simp_all add: schedule_ok_def stored_ok_def monitored_store_def hm_ok_def)
  from refresh_follows_store [OF this, of 100 "\<lambda>_. 3" "tg_id monitored"] show ?thesis
    by (simp add: monitored_store_def hm_get_def)
qed

section \<open>What a sweep probes\<close>

fun run_sweeps :: "schedule \<Rightarrow> (sweep_env \<times> instant) list \<Rightarrow> mem \<Rightarrow> uuid list list" where
  "run_sweeps sc [] s = []"
| "run_sweeps sc ((env, now) # sweeps) s =
     (let (probed, _, s') = probe_due_targets env now sc s in probed # run_sweeps sc sweeps s')"

lemma probe_each_probed:
  "fst (probe_each env sc ks s) = filter (\<lambda>k. case hm_get (known_targets sc) k of Some t \<Rightarrow> tg_enabled t | None \<Rightarrow> False) ks"
  by (induction ks arbitrary: s) (simp_all add: Let_def split_beta split: option.split)

lemma count_list_distinct: "distinct xs \<Longrightarrow> count_list xs x = (if x \<in> set xs then 1 else 0)"
  by (induction xs) auto

lemma count_list_filter: "count_list (filter P xs) x = (if P x then count_list xs x else 0)"
  by (induction xs) auto

lemma due_once:
  assumes "hm_ok (next_due sc)" "hm_get (next_due sc) k = Some d" "d \<le> now"
  shows "count_list (due_ids now sc) k = 1"
proof -
  have "distinct (due_ids now sc)"
    using assms(1) by (simp add: due_ids_def hm_ok_def distinct_map_filter)
  moreover have "k \<in> set (due_ids now sc)"
    using hm_get_entry [OF assms(2)] assms(3) by (force simp: due_ids_def)
  ultimately show ?thesis by (simp add: count_list_distinct)
qed

text \<open>
  C16: A target that is due is probed by every sweep.  Once the due time of a
  known, enabled target has passed, each later sweep with a working
  connection probes it exactly once: a probe does not move the due time, and
  the interval of the target plays no part.
\<close>

theorem due_target_probed_every_sweep:
  assumes "schedule_ok sc" "hm_get (next_due sc) k = Some d" "hm_get (known_targets sc) k = Some t" "tg_enabled t"
    and "\<And>env now. (env, now) \<in> set sweeps \<Longrightarrow> sw_online env \<and> d \<le> now"
  shows "map (\<lambda>probed. count_list probed k) (run_sweeps sc sweeps s) = replicate (length sweeps) 1"
  using assms(5)
proof (induction sweeps arbitrary: s)
  case (Cons sweep sweeps)
  obtain env now where sweep: "sweep = (env, now)" by (cases sweep)
  then have env: "sw_online env" "d \<le> now" using Cons.prems by auto
  have once: "count_list (due_ids now sc) k = 1"
    using due_once [OF _ assms(2) env(2)] assms(1) by (simp add: schedule_ok_def)
  then have "fst (probe_due_targets env now sc s) = fst (probe_each env sc (due_ids now sc) s)"
    using env(1) by (auto simp: probe_due_targets_def)
  then have "count_list (fst (probe_due_targets env now sc s)) k = 1"
    using once assms(3,4) by (simp add: probe_each_probed count_list_filter)
  moreover have "map (\<lambda>probed. count_list probed k) (run_sweeps sc sweeps s') = replicate (length sweeps) 1" for s'
    using Cons.prems by (intro Cons.IH) auto
  ultimately show ?case by (simp add: sweep Let_def split_beta)
qed simp

definition sample_net :: net where
  "sample_net = \<lparr>nt_lookup = (\<lambda>_ _. Inr [V4 (Ipv4Addr 10 0 0 1)]), nt_lookup_again = (\<lambda>_. Inr []), nt_port = (\<lambda>_. None),
     nt_connect = (\<lambda>_ _. Done ()), nt_read = (\<lambda>_ _ _. TimedOut), nt_request = (\<lambda>_. Inl []), nt_upgrade = (\<lambda>_. TimedOut),
     nt_get = (\<lambda>_. TimedOut), nt_datagram = (\<lambda>_. TimedOut), nt_icmp_client = Inr (), nt_echo = (\<lambda>_. Inr ())\<rparr>"

definition sample_sweep :: sweep_env where
  "sample_sweep = \<lparr>sw_render = (\<lambda>_. []), sw_net = sample_net, sw_times = (\<lambda>_. (5, 6)), sw_writer = writer_sample_env, sw_online = True\<rparr>"

lemma due_target_probed_every_sweep_witness:
  "map (\<lambda>probed. count_list probed (tg_id monitored))
     (run_sweeps \<lparr>next_due = [(tg_id monitored, 1)], known_targets = [(tg_id monitored, monitored)]\<rparr>
        [(sample_sweep, 5), (sample_sweep, 10)] monitored_store) = [1, 1]"
proof -
  let ?sc = "\<lparr>next_due = [(tg_id monitored, 1)], known_targets = [(tg_id monitored, monitored)]\<rparr>"
  have "schedule_ok ?sc" "hm_get (next_due ?sc) (tg_id monitored) = Some 1"
      "hm_get (known_targets ?sc) (tg_id monitored) = Some monitored" "tg_enabled monitored"
    by (auto simp: schedule_ok_def hm_ok_def hm_get_def monitored_def)
  moreover have "sw_online env \<and> 1 \<le> now" if "(env, now) \<in> set [(sample_sweep, 5 :: instant), (sample_sweep, 10)]" for env now
    using that by (auto simp: sample_sweep_def)
  ultimately have "map (\<lambda>probed. count_list probed (tg_id monitored))
      (run_sweeps ?sc [(sample_sweep, 5), (sample_sweep, 10)] monitored_store) = replicate (length [(sample_sweep, 5 :: instant), (sample_sweep, 10)]) 1"
    by (rule due_target_probed_every_sweep)
  then show ?thesis by (simp only: list.size replicate.simps add_0 add_Suc One_nat_def)
qed

section \<open>Hosts that are not contacted\<close>

fun url_endpoint :: "net \<Rightarrow> url \<Rightarrow> (string \<times> nat) option" where
  "url_endpoint n u = map_option (\<lambda>host. (host,
     case nt_port n u of Some p \<Rightarrow> p | None \<Rightarrow> if url_scheme u = ''https'' then 443 else 80)) (url_host u)"

text \<open>The host and port a check is about.\<close>

fun endpoint :: "net \<Rightarrow> check_spec \<Rightarrow> (string \<times> nat) option" where
  "endpoint n (Http h) = url_endpoint n (hc_url h)"
| "endpoint n (Tcp t) = Some (tcp_host t, tcp_port t)"
| "endpoint n (Ping p) = Some (png_host p, 0)"
| "endpoint n (WebSocket w) = url_endpoint n (ws_url w)"
| "endpoint n (Grpc g) = url_endpoint n (gr_url g)"
| "endpoint n (Ssh c) = Some (ssh_host c, ssh_port c)"
| "endpoint n (Udp u) = Some (udp_host u, udp_port u)"
| "endpoint n (Starttls c) = Some (st_host c, st_port c)"
| "endpoint n _ = None"

lemma guard_url_endpoint:
  "url_endpoint n u = Some (host, port) \<Longrightarrow> ssrf_check_url n u g = ssrf_check_host n host port g"
  by (auto simp: ssrf_check_url_def)

lemma probe_spec_refused:
  assumes "endpoint n c = Some (host, port)" "ssrf_check_host n host port strict = Err reason"
  shows "probe_spec n s now k c = (check_status.Error, None, Some reason)"
  using assms
  by (cases c) (auto simp: probe_spec_def probe_http_def probe_tcp_def probe_ping_def probe_websocket_def probe_grpc_def
      probe_ssh_def probe_udp_def probe_starttls_def guarded_def guard_url_endpoint simp del: url_endpoint.simps)

text \<open>
  C17: A host whose addresses are all internal is never contacted.  Whatever the
  kind of the check, when the lookup of its host gives only blocked addresses
  the probe ends in an error with the reason of the guard, and its result does
  not depend on anything else the network would have answered.
\<close>

theorem internal_hosts_not_contacted:
  assumes "endpoint n c = Some (host, port)" "nt_lookup n host port = Inr ips" "list_all is_blocked_ip ips"
    and "nt_lookup n' = nt_lookup n" "nt_port n' = nt_port n"
  shows "fst (probe_spec n s now k c) = check_status.Error \<and> probe_spec n' s now k c = probe_spec n s now k c"
proof -
  obtain reason where r: "ssrf_check_host n host port strict = Err reason"
    using guard_refuses [OF assms(2,3)] by blast
  then have "ssrf_check_host n' host port strict = Err reason" using assms(4) by (simp add: ssrf_check_host_def)
  moreover have "endpoint n' c = Some (host, port)" using assms(1,5) by (cases c) auto
  ultimately show ?thesis using probe_spec_refused [OF assms(1) r] probe_spec_refused [of n' c host port reason] by simp
qed

lemma internal_hosts_not_contacted_witness:
  "fst (probe_spec sample_net monitored_store 0 4 (tg_check monitored)) = check_status.Error"
proof -
  have "endpoint sample_net (tg_check monitored) = Some (''h'', 25)" by (simp add: monitored_def)
  moreover have "nt_lookup sample_net ''h'' 25 = Inr [V4 (Ipv4Addr 10 0 0 1)]" by (simp add: sample_net_def)
  moreover have "list_all is_blocked_ip [V4 (Ipv4Addr 10 0 0 1)]" by (simp add: is_blocked_v4_def)
  ultimately show ?thesis using internal_hosts_not_contacted [of sample_net _ _ _ _ sample_net] by blast
qed

lemma sweep_keeps_one_open_incident_witness:
  "single_open (snd (snd (probe_due_targets sample_sweep 5 \<lparr>next_due = [(4, 1)], known_targets = [(4, monitored)]\<rparr> new_storage)))"
  using sweep_keeps_one_open_incident [OF single_open_new] by blast

end
