(* ===== verification/Ip_Text.thy ===== *)
theory Ip_Text
  imports Ssrf Text_Util
begin

text \<open>
  The textual form of an address as \<open>IpAddr::from_str\<close> of the standard library
  reads it: four decimal octets without leading zeros, or eight groups of at
  most four hexadecimal digits of which one run of zeros may be left out, the
  last two possibly written as an IPv4 address.
\<close>

definition hex_value :: "char \<Rightarrow> nat option" where
  "hex_value c =
     (if is_ascii_digit c then Some (code c - 48)
      else if 97 \<le> code c \<and> code c \<le> 102 then Some (code c - 87)
      else if 65 \<le> code c \<and> code c \<le> 70 then Some (code c - 55)
      else None)"

definition digit_of :: "nat \<Rightarrow> char \<Rightarrow> nat option" where
  "digit_of radix c = (case hex_value c of Some v \<Rightarrow> if v < radix then Some v else None | None \<Rightarrow> None)"

definition number_of :: "nat \<Rightarrow> string \<Rightarrow> nat" where
  "number_of radix ds = foldl (\<lambda>n c. n * radix + the (digit_of radix c)) 0 ds"

definition read_number :: "nat \<Rightarrow> nat \<Rightarrow> bool \<Rightarrow> nat \<Rightarrow> string \<Rightarrow> (nat \<times> string) option" where
  "read_number radix max_digits allow_zero_prefix bound s =
     (let ds = takeWhile (\<lambda>c. digit_of radix c \<noteq> None) s in
      if ds = [] \<or> length ds > max_digits \<or> number_of radix ds > bound then None
      else if \<not> allow_zero_prefix \<and> hd ds = CHR ''0'' \<and> length ds > 1 then None
      else Some (number_of radix ds, drop (length ds) s))"

definition read_separator ::
  "char \<Rightarrow> bool \<Rightarrow> (string \<Rightarrow> ('a \<times> string) option) \<Rightarrow> string \<Rightarrow> ('a \<times> string) option" where
  "read_separator sep first inner s =
     (if first then inner s
      else (case s of c # r \<Rightarrow> if c = sep then inner r else None | [] \<Rightarrow> None))"

definition read_octet :: "bool \<Rightarrow> string \<Rightarrow> (nat \<times> string) option" where
  "read_octet first = read_separator CHR ''.'' first (read_number 10 3 False 255)"

definition read_ipv4 :: "string \<Rightarrow> (ipv4 \<times> string) option" where
  "read_ipv4 s =
     (case read_octet True s of None \<Rightarrow> None | Some (a, s) \<Rightarrow>
     (case read_octet False s of None \<Rightarrow> None | Some (b, s) \<Rightarrow>
     (case read_octet False s of None \<Rightarrow> None | Some (c, s) \<Rightarrow>
     (case read_octet False s of None \<Rightarrow> None | Some (d, s) \<Rightarrow>
        Some (Ipv4Addr (of_nat a) (of_nat b) (of_nat c) (of_nat d), s)))))"

definition v4_groups :: "ipv4 \<Rightarrow> nat list" where
  "v4_groups ip =
     (case octets ip of (a, b, c, d) \<Rightarrow> [unat a * 256 + unat b, unat c * 256 + unat d])"

fun read_groups :: "nat \<Rightarrow> bool \<Rightarrow> string \<Rightarrow> nat list \<times> bool \<times> string" where
  "read_groups 0 first s = ([], False, s)"
| "read_groups (Suc n) first s =
     (case (if n > 0 then read_separator CHR '':'' first read_ipv4 s else None) of
        Some (v4, r) \<Rightarrow> (v4_groups v4, True, r)
      | None \<Rightarrow>
         (case read_separator CHR '':'' first (read_number 16 4 True 65535) s of
            None \<Rightarrow> ([], False, s)
          | Some (g, r) \<Rightarrow> (let (gs, v4, r') = read_groups n False r in (g # gs, v4, r'))))"

fun ipv6_of_groups :: "nat list \<Rightarrow> ipv6" where
  "ipv6_of_groups gs =
     Ipv6Addr (of_nat (gs ! 0)) (of_nat (gs ! 1)) (of_nat (gs ! 2)) (of_nat (gs ! 3))
       (of_nat (gs ! 4)) (of_nat (gs ! 5)) (of_nat (gs ! 6)) (of_nat (gs ! 7))"

definition read_ipv6 :: "string \<Rightarrow> (ipv6 \<times> string) option" where
  "read_ipv6 s =
     (let (head, head_v4, r) = read_groups 8 True s in
      if length head = 8 then Some (ipv6_of_groups head, r)
      else if head_v4 then None
      else (case r of
         c # d # r' \<Rightarrow>
           if c = CHR '':'' \<and> d = CHR '':'' then
             (let (tail, _, r'') = read_groups (8 - (length head + 1)) True r'
              in Some (ipv6_of_groups (head @ replicate (8 - length head - length tail) 0 @ tail), r''))
           else None
       | _ \<Rightarrow> None))"

definition parse_ip :: "string \<Rightarrow> ip_addr option" where
  "parse_ip s =
     (case (case read_ipv4 s of
              Some (a, r) \<Rightarrow> Some (V4 a, r)
            | None \<Rightarrow> (case read_ipv6 s of Some (a, r) \<Rightarrow> Some (V6 a, r) | None \<Rightarrow> None)) of
        Some (ip, []) \<Rightarrow> Some ip
      | _ \<Rightarrow> None)"

end
