(* ===== verification/Rate_Limit.thy ===== *)
theory Rate_Limit
  imports Complex_Main Ip_Text Tables
begin

text \<open>
  The per-address rate limiter of \<open>bin/status-server/src/rate_limit.rs\<close>: a token
  bucket per client address, the choice of that address from the connection
  and the forwarding headers, and the three middlewares that use it.

  Token counts are reals (an \<open>f64\<close> in the code) and the monotonic clock counts
  nanoseconds.  The map of trusted networks is third-party code and the
  predicate \<open>is_trusted_proxy\<close>; a header is its text when present and printable.
\<close>

section \<open>Buckets\<close>

record bucket =
  bk_tokens :: real
  bk_last_refill :: instant

record limiter_config =
  lc_refill_per_sec :: real
  lc_capacity :: real

definition config_from_per_minute :: "nat \<Rightarrow> limiter_config" where
  "config_from_per_minute per_minute =
     \<lparr>lc_refill_per_sec = real per_minute / 60, lc_capacity = max (real per_minute) 1 * 2\<rparr>"

record ip_rate_limiter =
  rl_buckets :: "(ip_addr \<times> bucket) list"
  rl_cfg :: limiter_config

datatype check_outcome = Allow | Deny nat

definition limiter_from_per_minute :: "nat \<Rightarrow> ip_rate_limiter option" where
  "limiter_from_per_minute per_minute =
     (if per_minute = 0 then None
      else Some \<lparr>rl_buckets = [], rl_cfg = config_from_per_minute per_minute\<rparr>)"

text \<open>\<open>Instant::duration_since\<close> is zero when the clock reads earlier than the argument.\<close>

definition elapsed_secs :: "instant \<Rightarrow> instant \<Rightarrow> real" where
  "elapsed_secs now since = real_of_int (max 0 (now - since)) / real_of_int nanos_per_sec"

definition refill :: "limiter_config \<Rightarrow> instant \<Rightarrow> bucket \<Rightarrow> bucket" where
  "refill cfg now b =
     \<lparr>bk_tokens = min (elapsed_secs now (bk_last_refill b) * lc_refill_per_sec cfg + bk_tokens b) (lc_capacity cfg),
      bk_last_refill = now\<rparr>"

definition check :: "instant \<Rightarrow> ip_addr \<Rightarrow> ip_rate_limiter \<Rightarrow> check_outcome \<times> ip_rate_limiter" where
  "check now ip l =
     (let cfg = rl_cfg l;
          entry = (case hm_get (rl_buckets l) ip of
                     Some b \<Rightarrow> b
                   | None \<Rightarrow> \<lparr>bk_tokens = lc_capacity cfg, bk_last_refill = now\<rparr>);
          b = refill cfg now entry
      in if bk_tokens b \<ge> 1
         then (Allow, l\<lparr>rl_buckets := hm_insert ip (b\<lparr>bk_tokens := bk_tokens b - 1\<rparr>) (rl_buckets l)\<rparr>)
         else (Deny (max (nat \<lceil>(1 - bk_tokens b) / lc_refill_per_sec cfg\<rceil>) 1),
               l\<lparr>rl_buckets := hm_insert ip b (rl_buckets l)\<rparr>))"

definition evict_idle :: "instant \<Rightarrow> duration \<Rightarrow> ip_rate_limiter \<Rightarrow> nat \<times> ip_rate_limiter" where
  "evict_idle now idle_threshold l =
     (let kept = hm_retain (\<lambda>_ b. max 0 (now - bk_last_refill b) < idle_threshold) (rl_buckets l)
      in (length (rl_buckets l) - length kept, l\<lparr>rl_buckets := kept\<rparr>))"

section \<open>The client address\<close>

type_synonym headers = "string \<Rightarrow> string option"

fun forwarded_in :: "string list \<Rightarrow> ip_addr option" where
  "forwarded_in [] = None"
| "forwarded_in (p # ps) =
     (case strip_prefix (trim p) ''for='' of
        None \<Rightarrow> forwarded_in ps
      | Some rest \<Rightarrow>
         (case parse_ip (trim_matches (CHR 0x22) rest) of
            Some ip \<Rightarrow> Some ip
          | None \<Rightarrow> forwarded_in ps))"

definition parse_forwarded_for :: "string \<Rightarrow> ip_addr option" where
  "parse_forwarded_for s = forwarded_in (split_char CHR '';'' s)"

definition forwarded_client :: "headers \<Rightarrow> ip_addr option" where
  "forwarded_client h =
     (case (case h ''forwarded'' of Some s \<Rightarrow> parse_forwarded_for s | None \<Rightarrow> None) of
        Some ip \<Rightarrow> Some ip
      | None \<Rightarrow>
         (case h ''x-forwarded-for'' of
            Some s \<Rightarrow> parse_ip (trim (hd (split_char CHR '','' s)))
          | None \<Rightarrow> None))"

definition client_ip :: "headers \<Rightarrow> ip_addr option \<Rightarrow> (ip_addr \<Rightarrow> bool) \<Rightarrow> ip_addr option" where
  "client_ip h peer is_trusted_proxy =
     (case peer of
        Some peer_ip \<Rightarrow>
          (case (if is_trusted_proxy peer_ip then forwarded_client h else None) of
             Some ip \<Rightarrow> Some ip
           | None \<Rightarrow> Some peer_ip)
      | None \<Rightarrow> None)"

section \<open>The middlewares\<close>

datatype limited_body = CheckFailed | LimitedJson ip_addr nat | LimitedText ip_addr nat

text \<open>Either the request goes on to its handler, or it is answered with status 429.\<close>

datatype guard_reply = Next | TooMany "nat option" limited_body

definition guard_with ::
  "(ip_addr \<Rightarrow> nat \<Rightarrow> limited_body) \<Rightarrow> instant \<Rightarrow> (ip_addr \<Rightarrow> bool) \<Rightarrow> headers \<Rightarrow> ip_addr option
     \<Rightarrow> ip_rate_limiter option \<Rightarrow> guard_reply \<times> ip_rate_limiter option" where
  "guard_with body now trusted h peer limiter =
     (case limiter of
        None \<Rightarrow> (Next, None)
      | Some l \<Rightarrow>
         (case client_ip h peer trusted of
            None \<Rightarrow> (TooMany None CheckFailed, Some l)
          | Some ip \<Rightarrow>
             (case check now ip l of
                (Allow, l') \<Rightarrow> (Next, Some l')
              | (Deny retry_after, l') \<Rightarrow>
                 (let retry_after_secs = max retry_after 1
                  in (TooMany (Some retry_after_secs) (body ip retry_after_secs), Some l')))))"

record app_limiters =
  auth_rate_limiter :: "ip_rate_limiter option"
  public_rate_limiter :: "ip_rate_limiter option"
  heartbeat_rate_limiter :: "ip_rate_limiter option"

definition guard ::
  "instant \<Rightarrow> (ip_addr \<Rightarrow> bool) \<Rightarrow> headers \<Rightarrow> ip_addr option \<Rightarrow> app_limiters \<Rightarrow> guard_reply \<times> app_limiters" where
  "guard now trusted h peer s =
     (let (r, l) = guard_with LimitedJson now trusted h peer (auth_rate_limiter s) in (r, s\<lparr>auth_rate_limiter := l\<rparr>))"

definition public_guard ::
  "instant \<Rightarrow> (ip_addr \<Rightarrow> bool) \<Rightarrow> headers \<Rightarrow> ip_addr option \<Rightarrow> app_limiters \<Rightarrow> guard_reply \<times> app_limiters" where
  "public_guard now trusted h peer s =
     (let (r, l) = guard_with LimitedJson now trusted h peer (public_rate_limiter s) in (r, s\<lparr>public_rate_limiter := l\<rparr>))"

definition heartbeat_guard ::
  "instant \<Rightarrow> (ip_addr \<Rightarrow> bool) \<Rightarrow> headers \<Rightarrow> ip_addr option \<Rightarrow> app_limiters \<Rightarrow> guard_reply \<times> app_limiters" where
  "heartbeat_guard now trusted h peer s =
     (let (r, l) = guard_with LimitedText now trusted h peer (heartbeat_rate_limiter s)
      in (r, s\<lparr>heartbeat_rate_limiter := l\<rparr>))"

section \<open>What a bucket is worth\<close>

text \<open>The tokens an address could draw on at a time: those of its bucket with the refill, or a full bucket.\<close>

definition potential :: "ip_addr \<Rightarrow> instant \<Rightarrow> ip_rate_limiter \<Rightarrow> real" where
  "potential ip t l =
     (case hm_get (rl_buckets l) ip of
        None \<Rightarrow> lc_capacity (rl_cfg l)
      | Some b \<Rightarrow> bk_tokens (refill (rl_cfg l) t b))"

definition limiter_ok :: "instant \<Rightarrow> ip_rate_limiter \<Rightarrow> bool" where
  "limiter_ok t l \<longleftrightarrow>
     hm_ok (rl_buckets l) \<and> 0 < lc_refill_per_sec (rl_cfg l) \<and> 1 \<le> lc_capacity (rl_cfg l) \<and>
     (\<forall>(a, b) \<in> set (rl_buckets l). 0 \<le> bk_tokens b \<and> bk_tokens b \<le> lc_capacity (rl_cfg l) \<and> bk_last_refill b \<le> t)"

lemma elapsed_nonneg: "0 \<le> elapsed_secs t s"
  by (simp add: elapsed_secs_def nanos_per_sec_def)

lemma elapsed_self [simp]: "elapsed_secs t t = 0"
  by (simp add: elapsed_secs_def)

lemma elapsed_split: "s \<le> t \<Longrightarrow> t \<le> u \<Longrightarrow> elapsed_secs u s = elapsed_secs u t + elapsed_secs t s"
  by (simp add: elapsed_secs_def diff_divide_distrib)

lemma limiter_okD:
  assumes "limiter_ok t l" "hm_get (rl_buckets l) a = Some b"
  shows "0 \<le> bk_tokens b" "bk_tokens b \<le> lc_capacity (rl_cfg l)" "bk_last_refill b \<le> t"
  using assms(1) hm_get_entry [OF assms(2)] by (auto simp: limiter_ok_def)

lemma refill_bounds:
  assumes "limiter_ok t l" "hm_get (rl_buckets l) a = Some b"
  shows "0 \<le> bk_tokens (refill (rl_cfg l) u b)" "bk_tokens (refill (rl_cfg l) u b) \<le> lc_capacity (rl_cfg l)"
  using limiter_okD [OF assms] assms(1) elapsed_nonneg by (auto simp: refill_def limiter_ok_def)

lemma refill_at_last: "bk_tokens b \<le> lc_capacity cfg \<Longrightarrow> bk_last_refill b = t \<Longrightarrow> bk_tokens (refill cfg t b) = bk_tokens b"
  by (simp add: refill_def)

lemma potential_grows:
  assumes "limiter_ok t l" "t \<le> u"
  shows "potential ip u l \<le> potential ip t l + lc_refill_per_sec (rl_cfg l) * elapsed_secs u t"
proof -
  let ?r = "lc_refill_per_sec (rl_cfg l)"
  have pos: "0 \<le> ?r * elapsed_secs u t" using assms(1) elapsed_nonneg by (simp add: limiter_ok_def)
  have "bk_tokens (refill (rl_cfg l) u b) \<le> bk_tokens (refill (rl_cfg l) t b) + ?r * elapsed_secs u t"
    if "hm_get (rl_buckets l) ip = Some b" for b
  proof -
    have "elapsed_secs u (bk_last_refill b) * ?r = ?r * elapsed_secs u t + elapsed_secs t (bk_last_refill b) * ?r"
      using elapsed_split [OF limiter_okD(3) [OF assms(1) that] assms(2)] by (simp add: algebra_simps)
    then show ?thesis using pos by (simp add: refill_def min_def)
  qed
  then show ?thesis using pos by (simp add: potential_def split: option.split)
qed

lemma limiter_ok_insert:
  assumes "limiter_ok t l" "t \<le> u" "0 \<le> bk_tokens b" "bk_tokens b \<le> lc_capacity (rl_cfg l)" "bk_last_refill b \<le> u"
  shows "limiter_ok u (l\<lparr>rl_buckets := hm_insert ip b (rl_buckets l)\<rparr>)"
  using assms hm_insert_entries [of ip b "rl_buckets l"] by (fastforce simp: limiter_ok_def)

lemma potential_insert:
  "bk_last_refill b = u \<Longrightarrow> bk_tokens b \<le> lc_capacity (rl_cfg l) \<Longrightarrow>
     potential ip u (l\<lparr>rl_buckets := hm_insert a b (rl_buckets l)\<rparr>) = (if ip = a then bk_tokens b else potential ip u l)"
  by (simp add: potential_def refill_at_last split: option.split)

text \<open>What one request does to the account of every address.\<close>

lemma check_effect:
  assumes "limiter_ok t l" "t \<le> u"
  shows "limiter_ok u (snd (check u a l))" "rl_cfg (snd (check u a l)) = rl_cfg l"
    "potential ip u (snd (check u a l)) = potential ip u l - (if a = ip \<and> fst (check u a l) = Allow then 1 else 0)"
    "fst (check u a l) = Allow \<longleftrightarrow> 1 \<le> potential a u l"
proof -
  let ?entry = "case hm_get (rl_buckets l) a of Some b \<Rightarrow> b | None \<Rightarrow> \<lparr>bk_tokens = lc_capacity (rl_cfg l), bk_last_refill = u\<rparr>"
  define b where "b = refill (rl_cfg l) u ?entry"
  have p: "potential a u l = bk_tokens b"
    by (simp add: potential_def refill_def b_def split: option.split)
  have bounds: "0 \<le> bk_tokens b" "bk_tokens b \<le> lc_capacity (rl_cfg l)"
    using refill_bounds [OF assms(1)] assms(1) by (auto simp: b_def refill_def limiter_ok_def split: option.split)
  have last_u: "bk_last_refill b = u" by (simp add: b_def refill_def)
  have step: "check u a l =
      (if 1 \<le> bk_tokens b then (Allow, l\<lparr>rl_buckets := hm_insert a (b\<lparr>bk_tokens := bk_tokens b - 1\<rparr>) (rl_buckets l)\<rparr>)
       else (Deny (max (nat \<lceil>(1 - bk_tokens b) / lc_refill_per_sec (rl_cfg l)\<rceil>) 1),
             l\<lparr>rl_buckets := hm_insert a b (rl_buckets l)\<rparr>))"
    by (simp add: check_def Let_def b_def)
  show "fst (check u a l) = Allow \<longleftrightarrow> 1 \<le> potential a u l" by (simp add: step p)
  show "rl_cfg (snd (check u a l)) = rl_cfg l" by (simp add: step)
  show "limiter_ok u (snd (check u a l))"
    using bounds last_u by (simp add: step limiter_ok_insert [OF assms])
  show "potential ip u (snd (check u a l)) = potential ip u l - (if a = ip \<and> fst (check u a l) = Allow then 1 else 0)"
    using bounds last_u p by (simp add: step potential_insert)
qed

lemma evict_effect:
  assumes "limiter_ok t l" "t \<le> u" "lc_capacity (rl_cfg l) \<le> lc_refill_per_sec (rl_cfg l) * elapsed_secs idle 0"
  shows "limiter_ok u (snd (evict_idle u idle l))" "rl_cfg (snd (evict_idle u idle l)) = rl_cfg l"
    "potential ip u (snd (evict_idle u idle l)) = potential ip u l"
proof -
  show "rl_cfg (snd (evict_idle u idle l)) = rl_cfg l" by (simp add: evict_idle_def Let_def)
  show "limiter_ok u (snd (evict_idle u idle l))"
    using assms(1,2) hm_retain_entries [of "\<lambda>_ b. max 0 (u - bk_last_refill b) < idle" "rl_buckets l"]
    by (fastforce simp: limiter_ok_def evict_idle_def Let_def)
  have full: "bk_tokens (refill (rl_cfg l) u b) = lc_capacity (rl_cfg l)"
    if "hm_get (rl_buckets l) ip = Some b" "idle \<le> max 0 (u - bk_last_refill b)" for b
  proof -
    have "elapsed_secs idle 0 \<le> elapsed_secs u (bk_last_refill b)"
      using that(2) by (auto simp: elapsed_secs_def nanos_per_sec_def divide_right_mono)
    then have "lc_refill_per_sec (rl_cfg l) * elapsed_secs idle 0 \<le> elapsed_secs u (bk_last_refill b) * lc_refill_per_sec (rl_cfg l)"
      using assms(1) by (simp add: limiter_ok_def mult.commute)
    then show ?thesis using assms(3) limiter_okD(1) [OF assms(1) that(1)] by (simp add: refill_def)
  qed
  show "potential ip u (snd (evict_idle u idle l)) = potential ip u l"
    using full assms(1)
    by (auto simp: potential_def evict_idle_def Let_def hm_get_retain limiter_ok_def not_less split: option.split)
qed

section \<open>Runs of the limiter\<close>

text \<open>Requests from any address and sweeps of the janitor with its idle threshold, in the order of the clock.\<close>

datatype limiter_event = Request instant ip_addr | Sweep instant duration

fun event_time :: "limiter_event \<Rightarrow> instant" where
  "event_time (Request t _) = t"
| "event_time (Sweep t _) = t"

fun limiter_step :: "limiter_event \<Rightarrow> ip_rate_limiter \<Rightarrow> ip_rate_limiter" where
  "limiter_step (Request t a) l = snd (check t a l)"
| "limiter_step (Sweep t idle) l = snd (evict_idle t idle l)"

fun run_limiter :: "limiter_event list \<Rightarrow> ip_rate_limiter \<Rightarrow> ip_rate_limiter" where
  "run_limiter [] l = l"
| "run_limiter (e # es) l = run_limiter es (limiter_step e l)"

fun allows :: "ip_addr \<Rightarrow> limiter_event \<Rightarrow> ip_rate_limiter \<Rightarrow> nat" where
  "allows ip (Request t a) l = (if a = ip \<and> fst (check t a l) = Allow then 1 else 0)"
| "allows ip (Sweep t idle) l = 0"

fun allowed :: "ip_addr \<Rightarrow> limiter_event list \<Rightarrow> ip_rate_limiter \<Rightarrow> nat" where
  "allowed ip [] l = 0"
| "allowed ip (e # es) l = allows ip e l + allowed ip es (limiter_step e l)"

fun in_order :: "instant \<Rightarrow> limiter_event list \<Rightarrow> bool" where
  "in_order t [] = True"
| "in_order t (e # es) = (t \<le> event_time e \<and> in_order (event_time e) es)"

fun end_time :: "instant \<Rightarrow> limiter_event list \<Rightarrow> instant" where
  "end_time t [] = t"
| "end_time t (e # es) = end_time (event_time e) es"

definition patient :: "duration \<Rightarrow> limiter_event list \<Rightarrow> bool" where
  "patient d es \<longleftrightarrow> (\<forall>t idle. Sweep t idle \<in> set es \<longrightarrow> d \<le> idle)"

definition refills_within :: "duration \<Rightarrow> ip_rate_limiter \<Rightarrow> bool" where
  "refills_within d l \<longleftrightarrow> lc_capacity (rl_cfg l) \<le> lc_refill_per_sec (rl_cfg l) * elapsed_secs d 0"

lemma limiter_step_effect:
  assumes "limiter_ok t l" "t \<le> event_time e" "refills_within d l" "patient d [e]"
  shows "limiter_ok (event_time e) (limiter_step e l)" "rl_cfg (limiter_step e l) = rl_cfg l"
    "potential ip (event_time e) (limiter_step e l) = potential ip (event_time e) l - real (allows ip e l)"
proof -
  have idle: "lc_capacity (rl_cfg l) \<le> lc_refill_per_sec (rl_cfg l) * elapsed_secs i 0" if "d \<le> i" for i
  proof -
    have "elapsed_secs d 0 \<le> elapsed_secs i 0"
      using that by (simp add: elapsed_secs_def nanos_per_sec_def divide_right_mono)
    then have "lc_refill_per_sec (rl_cfg l) * elapsed_secs d 0 \<le> lc_refill_per_sec (rl_cfg l) * elapsed_secs i 0"
      using assms(1) by (simp add: limiter_ok_def)
    then show ?thesis using assms(3) by (simp add: refills_within_def)
  qed
  have "limiter_ok (event_time e) (limiter_step e l) \<and> rl_cfg (limiter_step e l) = rl_cfg l \<and>
      potential ip (event_time e) (limiter_step e l) = potential ip (event_time e) l - real (allows ip e l)"
  proof (cases e)
    case (Request u a)
    then show ?thesis using check_effect(1,2) [OF assms(1), of u a] check_effect(3) [OF assms(1), of u ip a] assms(2) by (cases "a = ip") simp_all
  next
    case (Sweep u i)
    then show ?thesis using evict_effect [OF assms(1) _ idle, of u i] assms(2,4) by (simp add: patient_def)
  qed
  then show "limiter_ok (event_time e) (limiter_step e l)" "rl_cfg (limiter_step e l) = rl_cfg l"
    "potential ip (event_time e) (limiter_step e l) = potential ip (event_time e) l - real (allows ip e l)"
    by simp_all
qed

lemma run_effect:
  "limiter_ok t l \<Longrightarrow> in_order t es \<Longrightarrow> refills_within d l \<Longrightarrow> patient d es \<Longrightarrow>
     limiter_ok (end_time t es) (run_limiter es l) \<and> rl_cfg (run_limiter es l) = rl_cfg l \<and> t \<le> end_time t es \<and>
     real (allowed ip es l) + potential ip (end_time t es) (run_limiter es l)
       \<le> potential ip t l + lc_refill_per_sec (rl_cfg l) * elapsed_secs (end_time t es) t"
proof (induction es arbitrary: t l)
  case (Cons e es)
  let ?u = "event_time e" and ?l = "limiter_step e l"
  have order: "t \<le> ?u" "in_order ?u es" and pat: "patient d [e]" "patient d es"
    using Cons.prems by (auto simp: patient_def)
  note step = limiter_step_effect [OF Cons.prems(1) order(1) Cons.prems(3) pat(1)]
  have "refills_within d ?l" using Cons.prems(3) step(2) by (simp add: refills_within_def)
  note rest = Cons.IH [OF step(1) order(2) this pat(2)]
  have "elapsed_secs (end_time ?u es) t = elapsed_secs (end_time ?u es) ?u + elapsed_secs ?u t"
    using rest order(1) by (intro elapsed_split) simp_all
  then show ?case
    using rest step(2,3) order(1) potential_grows [OF Cons.prems(1) order(1), of ip] by (simp add: algebra_simps)
qed simp

lemma fresh_limiter:
  assumes "limiter_from_per_minute n = Some l"
  shows "limiter_ok t l" "refills_within (minutes 2) l" "potential ip t l = 2 * real n"
    "lc_refill_per_sec (rl_cfg l) = real n / 60"
  using assms
  by (auto simp: limiter_from_per_minute_def limiter_ok_def potential_def config_from_per_minute_def refills_within_def
      elapsed_secs_def minutes_def seconds_def nanos_per_sec_def split: if_splits)

text \<open>
  C19: The limiter bounds every address.  Over any run of requests from any
  addresses and sweeps of the janitor, however they are spaced, the number of
  requests of one address that are let through is at most twice the quota per
  minute plus the quota for the time that passed.  Removing idle buckets does
  not loosen the bound as long as the idle threshold is two minutes or more.
\<close>

theorem allowed_requests_bounded:
  assumes "limiter_from_per_minute n = Some l" "in_order t es" "patient (minutes 2) es"
  shows "real (allowed ip es l) \<le> 2 * real n + real n / 60 * elapsed_secs (end_time t es) t"
proof -
  have ok: "limiter_ok t l" "refills_within (minutes 2) l" using fresh_limiter [OF assms(1)] by simp_all
  note run = run_effect [OF ok(1) assms(2) ok(2) assms(3), of ip]
  have "0 \<le> potential ip (end_time t es) (run_limiter es l)"
    using run refill_bounds(1) by (fastforce simp: potential_def limiter_ok_def split: option.split)
  then show ?thesis using run fresh_limiter(3,4) [OF assms(1)] by (simp add: algebra_simps)
qed

lemma allowed_requests_bounded_witness:
  "real (allowed (V4 (Ipv4Addr 1 2 3 4)) [Request 0 (V4 (Ipv4Addr 1 2 3 4)), Sweep 5 (seconds 86400)]
       \<lparr>rl_buckets = [], rl_cfg = config_from_per_minute 10\<rparr>) \<le> 20 + 10 / 60 * elapsed_secs 5 0"
  using allowed_requests_bounded [of 10 "\<lparr>rl_buckets = [], rl_cfg = config_from_per_minute 10\<rparr>" 0
      "[Request 0 (V4 (Ipv4Addr 1 2 3 4)), Sweep 5 (seconds 86400)]" "V4 (Ipv4Addr 1 2 3 4)"]
  by (simp add: limiter_from_per_minute_def patient_def minutes_def seconds_def nanos_per_sec_def)

lemma refill_last: "bk_last_refill (refill cfg now b) = now"
  by (simp add: refill_def)

lemma potential_after_check:
  assumes "limiter_ok t l" "t \<le> now"
  shows "potential ip u (snd (check now ip l)) =
    min (elapsed_secs u now * lc_refill_per_sec (rl_cfg l) + potential ip now (snd (check now ip l))) (lc_capacity (rl_cfg l))"
proof -
  have "\<exists>b. hm_get (rl_buckets (snd (check now ip l))) ip = Some b \<and> bk_last_refill b = now"
    by (simp add: check_def Let_def refill_last)
  then obtain b where b: "hm_get (rl_buckets (snd (check now ip l))) ip = Some b" "bk_last_refill b = now" by blast
  have "bk_tokens b \<le> lc_capacity (rl_cfg l)"
    using limiter_okD(2) [OF check_effect(1) [OF assms] b(1)] check_effect(2) [OF assms] by simp
  then show ?thesis using b check_effect(2) [OF assms] by (simp add: potential_def refill_def)
qed

lemma denied_delay:
  assumes "limiter_ok t l" "t \<le> now" "check now ip l = (Deny r, l')"
  shows "r = nat \<lceil>(1 - potential ip now l) / lc_refill_per_sec (rl_cfg l)\<rceil>" "potential ip now l < 1"
proof -
  have pos: "0 < lc_refill_per_sec (rl_cfg l)" using assms(1) by (simp add: limiter_ok_def)
  have p: "potential ip now l < 1" using check_effect(4) [OF assms(1,2), of ip] assms(3) by simp
  then have "0 < (1 - potential ip now l) / lc_refill_per_sec (rl_cfg l)" using pos by simp
  then have "1 \<le> nat \<lceil>(1 - potential ip now l) / lc_refill_per_sec (rl_cfg l)\<rceil>" by linarith
  moreover have "r = max (nat \<lceil>(1 - potential ip now l) / lc_refill_per_sec (rl_cfg l)\<rceil>) 1"
    using assms(3) by (auto simp: check_def Let_def potential_def refill_def split: if_splits option.splits)
  ultimately show "r = nat \<lceil>(1 - potential ip now l) / lc_refill_per_sec (rl_cfg l)\<rceil>" by simp
  show "potential ip now l < 1" by (rule p)
qed

lemma denied_until:
  assumes "limiter_ok t l" "t \<le> now" "check now ip l = (Deny r, l')" "now \<le> u"
  shows "now + seconds (int r) \<le> u \<Longrightarrow> fst (check u ip l') = Allow"
    "u \<le> now + seconds (int r - 1) \<Longrightarrow> fst (check u ip l') \<noteq> Allow"
proof -
  let ?r = "lc_refill_per_sec (rl_cfg l)" and ?p = "potential ip now l"
  let ?x = "(1 - ?p) / ?r"
  have l': "l' = snd (check now ip l)" using assms(3) by simp
  have pos: "0 < ?r" "1 \<le> lc_capacity (rl_cfg l)" using assms(1) by (simp_all add: limiter_ok_def)
  note d = denied_delay [OF assms(1-3)]
  have x: "real r - 1 < ?x" "?x \<le> real r" "0 < ?x" using d pos by (simp_all add: d(1)) linarith
  have same: "potential ip now l' = ?p" using check_effect(3) [OF assms(1,2), of ip ip] assms(3) by simp
  have "fst (check u ip l') = Allow \<longleftrightarrow> 1 \<le> potential ip u l'"
    using check_effect(4) [OF check_effect(1) [OF assms(1,2), of ip] assms(4)] l' by simp
  also have "\<dots> \<longleftrightarrow> 1 \<le> elapsed_secs u now * ?r + ?p"
    using potential_after_check [OF assms(1,2), of ip u] pos(2) same l' by simp
  also have "\<dots> \<longleftrightarrow> ?x \<le> elapsed_secs u now" using pos(1) by (simp add: pos_divide_le_eq algebra_simps)
  finally have key: "fst (check u ip l') = Allow \<longleftrightarrow> ?x \<le> elapsed_secs u now" .
  have secs: "elapsed_secs u now = real_of_int (u - now) / 1000000000"
    using assms(4) by (simp add: elapsed_secs_def nanos_per_sec_def)
  show "fst (check u ip l') = Allow" if "now + seconds (int r) \<le> u"
  proof -
    have "real r \<le> elapsed_secs u now" unfolding secs using that by (simp add: seconds_def nanos_per_sec_def pos_le_divide_eq)
    then show ?thesis using key x(2) by simp
  qed
  show "fst (check u ip l') \<noteq> Allow" if "u \<le> now + seconds (int r - 1)"
  proof -
    have "elapsed_secs u now \<le> real r - 1" unfolding secs using that by (simp add: seconds_def nanos_per_sec_def pos_divide_le_eq)
    then show ?thesis using key x(1) by simp
  qed
qed

text \<open>
  The delay a refused client is told is the right one.  When a request is
  refused with a number of seconds after any run of the limiter, the next
  request of that address is let through if it comes after those seconds, and
  refused again if it comes a whole second earlier.
\<close>

theorem retry_after_is_exact:
  assumes "limiter_from_per_minute n = Some l0" "in_order t es" "patient (minutes 2) es" "end_time t es \<le> now"
    and "check now ip (run_limiter es l0) = (Deny r, l')" "now \<le> u"
  shows "1 \<le> r \<and> (now + seconds (int r) \<le> u \<longrightarrow> fst (check u ip l') = Allow) \<and>
    (u \<le> now + seconds (int r - 1) \<longrightarrow> fst (check u ip l') \<noteq> Allow)"
proof -
  have "limiter_ok t l0" "refills_within (minutes 2) l0" using fresh_limiter [OF assms(1)] by simp_all
  then have ok: "limiter_ok (end_time t es) (run_limiter es l0)" using run_effect assms(2,3) by blast
  have "r \<noteq> 0" using assms(5) by (auto simp: check_def Let_def split: if_splits)
  then show ?thesis using denied_until [OF ok assms(4,5,6)] by simp
qed

lemma retry_after_is_exact_witness:
  "let ip = V4 (Ipv4Addr 1 2 3 4); l0 = \<lparr>rl_buckets = [], rl_cfg = config_from_per_minute 1\<rparr>;
       l' = snd (check 0 ip (run_limiter [Request 0 ip, Request 0 ip] l0))
   in fst (check (seconds 60) ip l') = Allow \<and> fst (check (seconds 59) ip l') \<noteq> Allow"
proof -
  let ?ip = "V4 (Ipv4Addr 1 2 3 4)" and ?l0 = "\<lparr>rl_buckets = [], rl_cfg = config_from_per_minute 1\<rparr>"
  let ?run = "[Request 0 ?ip, Request 0 ?ip]"
  have denied: "check 0 ?ip (run_limiter ?run ?l0) = (Deny 60, snd (check 0 ?ip (run_limiter ?run ?l0)))"
    by (simp add: check_def refill_def config_from_per_minute_def Let_def)
  have fresh: "limiter_from_per_minute 1 = Some ?l0" by (simp add: limiter_from_per_minute_def)
  have "patient (minutes 2) ?run" by (simp add: patient_def)
  note exact = retry_after_is_exact [OF fresh _ this _ denied, of 0]
  show ?thesis using exact [of "seconds 60"] exact [of "seconds 59"] by (simp add: Let_def seconds_def nanos_per_sec_def)
qed

section \<open>Forwarding headers\<close>

text \<open>
  A client that is not a trusted proxy cannot choose its address: whatever
  headers it sends, its bucket is that of its connection; and a request whose
  connection has no address never passes an enabled limiter.
\<close>

lemma forged_headers_ignored:
  "\<not> is_trusted_proxy peer \<Longrightarrow> client_ip h (Some peer) is_trusted_proxy = Some peer"
  "fst (guard_with body now trusted h None (Some l)) \<noteq> Next"
  by (simp_all add: client_ip_def guard_with_def)

text \<open>The buckets of the other addresses do not notice a request.\<close>

lemma check_isolated: "a \<noteq> b \<Longrightarrow> hm_get (rl_buckets (snd (check now a l))) b = hm_get (rl_buckets l) b"
  by (simp add: check_def Let_def)

end
