(* ===== verification/Public_Status.thy ===== *)
theory Public_Status
  imports Memory_Analytics Memory_Oncall "HOL-Library.Multiset"
begin

text \<open>
  The snapshot a public status page shows (\<open>compute_status_snapshot\<close> and its
  helpers in \<open>bin/status-server/src/api/public_api.rs\<close>, the wire types of
  \<open>crates/core/src/domain/public.rs\<close>): the state of every component from
  maintenance windows, open incidents and the latest result, the overall
  state, the groups, the incidents and the maintenance lists.

  The reads of one snapshot share one clock reading.  In the in-memory store
  only the read of the page itself can fail.
\<close>

section \<open>Wire types\<close>

datatype (plugins only: code) overall_state =
  Operational | Maintenance | MinorDisruption | PartialOutage | MajorOutage

datatype (plugins only: code) public_component_status =
  Operational | Degraded | PartialOutage | MajorOutage | Maintenance

record overall_status =
  os_state :: overall_state
  os_label :: string

record public_component =
  pcp_id :: uuid
  pcp_name :: string
  pcp_description :: "string option"
  pcp_current_status :: public_component_status
  pcp_history :: "day_state list"

record public_component_group =
  pcg_name :: "string option"
  pcg_components :: "public_component list"

record public_action_item =
  pai_text :: string
  pai_done :: bool

record public_postmortem =
  pp_summary :: "string option"
  pp_root_cause :: "string option"
  pp_impact :: "string option"
  pp_action_items :: "public_action_item list"
  pp_published_at :: instant

record public_incident =
  pi_id :: uuid
  pi_component_id :: uuid
  pi_component_name :: string
  pi_title :: string
  pi_started_at :: instant
  pi_ended_at :: "instant option"
  pi_severity :: incident_severity
  pi_status_phase :: incident_status_phase
  pi_updates :: "public_incident_update list"
  pi_postmortem :: "public_postmortem option"

record public_maintenance =
  pmt_id :: uuid
  pmt_title :: string
  pmt_description :: "string option"
  pmt_starts_at :: instant
  pmt_ends_at :: instant
  pmt_affected_component_names :: "string list"

record public_maintenance_list =
  pml_active :: "public_maintenance list"
  pml_upcoming :: "public_maintenance list"

record public_status_page =
  psp_overall :: overall_status
  psp_generated_at :: instant
  psp_site_name :: string
  psp_groups :: "public_component_group list"
  psp_active_incidents :: "public_incident list"
  psp_recent_incidents :: "public_incident list"
  psp_recent_incidents_has_more :: bool
  psp_active_maintenance :: "public_maintenance list"
  psp_upcoming_maintenance :: "public_maintenance list"
  psp_logo_hash :: "string option"

section \<open>Severities\<close>

fun component_severity_rank :: "public_component_status \<Rightarrow> nat" where
  "component_severity_rank public_component_status.Operational = 0"
| "component_severity_rank public_component_status.Maintenance = 1"
| "component_severity_rank public_component_status.Degraded = 2"
| "component_severity_rank public_component_status.PartialOutage = 3"
| "component_severity_rank public_component_status.MajorOutage = 4"

fun overall_from_component :: "public_component_status \<Rightarrow> overall_state" where
  "overall_from_component public_component_status.Operational = overall_state.Operational"
| "overall_from_component public_component_status.Degraded = overall_state.PartialOutage"
| "overall_from_component public_component_status.PartialOutage = overall_state.PartialOutage"
| "overall_from_component public_component_status.MajorOutage = overall_state.MajorOutage"
| "overall_from_component public_component_status.Maintenance = overall_state.Maintenance"

fun overall_severity_rank :: "overall_state \<Rightarrow> nat" where
  "overall_severity_rank overall_state.Operational = 0"
| "overall_severity_rank overall_state.Maintenance = 1"
| "overall_severity_rank overall_state.MinorDisruption = 2"
| "overall_severity_rank overall_state.PartialOutage = 3"
| "overall_severity_rank overall_state.MajorOutage = 4"

fun overall_label :: "overall_state \<Rightarrow> string" where
  "overall_label overall_state.Operational = ''All Systems Operational''"
| "overall_label overall_state.Maintenance = ''Under Maintenance''"
| "overall_label overall_state.MinorDisruption = ''Minor Disruption''"
| "overall_label overall_state.PartialOutage = ''Partial Outage''"
| "overall_label overall_state.MajorOutage = ''Major Outage''"

fun component_status_from_result :: "check_status \<Rightarrow> public_component_status" where
  "component_status_from_result Up = public_component_status.Operational"
| "component_status_from_result check_status.Degraded = public_component_status.Degraded"
| "component_status_from_result Down = public_component_status.MajorOutage"
| "component_status_from_result Error = public_component_status.PartialOutage"

fun incident_component_status :: "incident_severity \<Rightarrow> public_component_status" where
  "incident_component_status Critical = public_component_status.MajorOutage"
| "incident_component_status Major = public_component_status.MajorOutage"
| "incident_component_status Minor = public_component_status.PartialOutage"

fun worst_incident_loop :: "incident list \<Rightarrow> public_component_status option \<Rightarrow> public_component_status option" where
  "worst_incident_loop [] worst = worst"
| "worst_incident_loop (inc # incs) worst =
     (let s = incident_component_status (inc_severity inc) in
      worst_incident_loop incs
        (if (case worst of None \<Rightarrow> True | Some w \<Rightarrow> component_severity_rank s > component_severity_rank w)
         then Some s else worst))"

definition worst_incident_status :: "incident list \<Rightarrow> public_component_status option" where
  "worst_incident_status incs = worst_incident_loop incs None"

text \<open>One more component in the running worst state.\<close>

definition worse_overall :: "overall_state \<Rightarrow> overall_state \<Rightarrow> overall_state" where
  "worse_overall st worst = (if overall_severity_rank st > overall_severity_rank worst then st else worst)"

section \<open>Public views\<close>

definition public_postmortem_of :: "incident_postmortem \<Rightarrow> public_postmortem option" where
  "public_postmortem_of pm =
     (case pm_published_at pm of
        None \<Rightarrow> None
      | Some published_at \<Rightarrow>
          Some \<lparr>pp_summary = pm_summary pm, pp_root_cause = pm_root_cause pm, pp_impact = pm_impact pm,
                pp_action_items = map (\<lambda>a. \<lparr>pai_text = ai_text a, pai_done = ai_done a\<rparr>) (pm_action_items pm),
                pp_published_at = published_at\<rparr>)"

definition to_public_incident :: "incident \<Rightarrow> incident_postmortem option \<Rightarrow> public_incident option" where
  "to_public_incident inc pm =
     (case inc_public_title inc of
        None \<Rightarrow> None
      | Some title \<Rightarrow>
          Some \<lparr>pi_id = inc_id inc, pi_component_id = inc_target_id inc, pi_component_name = [],
                pi_title = title, pi_started_at = inc_started_at inc, pi_ended_at = inc_ended_at inc,
                pi_severity = inc_severity inc,
                pi_status_phase = (if inc_updates inc = [] then Investigating else piu_phase (last (inc_updates inc))),
                pi_updates = inc_updates inc,
                pi_postmortem = (case pm of None \<Rightarrow> None | Some p \<Rightarrow> public_postmortem_of p)\<rparr>)"

text \<open>The loops that load the postmortem of each incident and keep the public ones.\<close>

fun public_incidents :: "mem \<Rightarrow> incident list \<Rightarrow> public_incident list" where
  "public_incidents s [] = []"
| "public_incidents s (inc # incs) =
     (case to_public_incident inc (get_postmortem s (inc_id inc)) of
        Some p \<Rightarrow> p # public_incidents s incs
      | None \<Rightarrow> public_incidents s incs)"

fun component_names :: "mem \<Rightarrow> uuid list \<Rightarrow> string list" where
  "component_names s [] = []"
| "component_names s (cid # cids) =
     (case get_target s cid of Inr t \<Rightarrow> tg_name t # component_names s cids | Inl _ \<Rightarrow> component_names s cids)"

definition to_public_maintenance_list :: "mem \<Rightarrow> maintenance_window list \<Rightarrow> public_maintenance list" where
  "to_public_maintenance_list s ws =
     map (\<lambda>w. \<lparr>pmt_id = mw_id w, pmt_title = mw_title w, pmt_description = mw_description w,
               pmt_starts_at = mw_starts_at w, pmt_ends_at = mw_ends_at w,
               pmt_affected_component_names = component_names s (mw_component_ids w)\<rparr>) ws"

definition public_maintenance :: "mem \<Rightarrow> instant \<Rightarrow> public_maintenance_list" where
  "public_maintenance s now =
     \<lparr>pml_active = to_public_maintenance_list s (list_maintenance_windows s now maintenance_filter.Active),
      pml_upcoming = to_public_maintenance_list s (list_maintenance_windows s now maintenance_filter.Upcoming)\<rparr>"

fun push_into_named :: "public_component \<Rightarrow> string \<Rightarrow> public_component_group list \<Rightarrow> public_component_group list" where
  "push_into_named c g [] = [\<lparr>pcg_name = Some g, pcg_components = [c]\<rparr>]"
| "push_into_named c g (x # xs) =
     (if pcg_name x = Some g then x\<lparr>pcg_components := pcg_components x @ [c]\<rparr> # xs
      else x # push_into_named c g xs)"

definition push_into_group ::
  "public_component_group list \<Rightarrow> public_component \<Rightarrow> string option \<Rightarrow> public_component_group list" where
  "push_into_group groups c public_group =
     (case public_group of
        Some g \<Rightarrow> push_into_named c g groups
      | None \<Rightarrow> groups @ [\<lparr>pcg_name = None, pcg_components = [c]\<rparr>])"

section \<open>The snapshot\<close>

definition maintenance_targets :: "mem \<Rightarrow> instant \<Rightarrow> uuid set" where
  "maintenance_targets s now = set (concat (map mw_component_ids (list_maintenance_windows s now maintenance_filter.Active)))"

definition open_incidents_of :: "uuid \<Rightarrow> incident list \<Rightarrow> incident list" where
  "open_incidents_of target_id incs = filter (\<lambda>i. inc_target_id i = target_id \<and> inc_ended_at i = None) incs"

definition component_status :: "mem \<Rightarrow> uuid set \<Rightarrow> incident list \<Rightarrow> uuid \<Rightarrow> public_component_status" where
  "component_status s mts all_incidents target_id =
     (let in_maintenance = target_id \<in> mts;
          open_incs = (if in_maintenance then [] else open_incidents_of target_id all_incidents)
      in if in_maintenance then public_component_status.Maintenance
         else case worst_incident_status open_incs of
                Some w \<Rightarrow> w
              | None \<Rightarrow> (case list_results s target_id 1 of
                           [] \<Rightarrow> public_component_status.Operational
                         | r # _ \<Rightarrow> component_status_from_result (cr_status r)))"

definition component_history :: "mem \<Rightarrow> instant \<Rightarrow> uuid \<Rightarrow> day_state list" where
  "component_history s now target_id = map cdh_state (component_day_history_of s target_id (now - days 90) now)"

definition public_component_of ::
  "mem \<Rightarrow> instant \<Rightarrow> uuid set \<Rightarrow> incident list \<Rightarrow> status_page_component \<Rightarrow> public_component" where
  "public_component_of s now mts all_incidents c =
     \<lparr>pcp_id = spc_target_id c,
      pcp_name = (case spc_public_name c of Some n \<Rightarrow> n | None \<Rightarrow> spc_monitor_name c),
      pcp_description = spc_public_description c,
      pcp_current_status = component_status s mts all_incidents (spc_target_id c),
      pcp_history = component_history s now (spc_target_id c)\<rparr>"

fun component_loop ::
  "mem \<Rightarrow> instant \<Rightarrow> uuid set \<Rightarrow> incident list \<Rightarrow> status_page_component list \<Rightarrow>
   public_component_group list \<Rightarrow> overall_state \<Rightarrow> public_component_group list \<times> overall_state" where
  "component_loop s now mts incs [] groups worst = (groups, worst)"
| "component_loop s now mts incs (c # cs) groups worst =
     (let pc = public_component_of s now mts incs c
      in component_loop s now mts incs cs (push_into_group groups pc (spc_public_group c))
           (worse_overall (overall_from_component (pcp_current_status pc)) worst))"

definition on_page :: "status_page_component list \<Rightarrow> incident \<Rightarrow> bool" where
  "on_page components i \<longleftrightarrow> list_ex (\<lambda>c. spc_target_id c = inc_target_id i) components"

definition compute_status_snapshot :: "instant \<Rightarrow> uuid \<Rightarrow> mem \<Rightarrow> app_error + public_status_page" where
  "compute_status_snapshot now page_id s =
     (case get_status_page s page_id of
        Inl e \<Rightarrow> Err e
      | Inr page \<Rightarrow>
         (let components = list_status_page_components s (sp_id page);
              mts = maintenance_targets s now;
              all_incidents = list_incidents s;
              (groups, worst) = component_loop s now mts all_incidents components [] overall_state.Operational;
              active_incidents = public_incidents s
                (filter (\<lambda>i. inc_ended_at i = None \<and> inc_target_id i \<notin> mts \<and> on_page components i) all_incidents);
              recent = sort_key (\<lambda>p. - pi_started_at p) (public_incidents s
                (filter (\<lambda>i. inc_ended_at i \<noteq> None \<and> inc_started_at i \<ge> now - days 90 \<and> on_page components i)
                   all_incidents));
              maintenance = public_maintenance s now
          in Ok \<lparr>psp_overall = \<lparr>os_state = worst, os_label = overall_label worst\<rparr>,
                 psp_generated_at = now, psp_site_name = sp_name page, psp_groups = groups,
                 psp_active_incidents = active_incidents, psp_recent_incidents = take 25 recent,
                 psp_recent_incidents_has_more = length recent > 25,
                 psp_active_maintenance = pml_active maintenance,
                 psp_upcoming_maintenance = pml_upcoming maintenance,
                 psp_logo_hash = map_option pa_hash (get_page_asset s (sp_id page) Logo)\<rparr>))"

section \<open>Severities of a component\<close>

lemma worst_incident_loop_status:
  "worst_incident_loop incs worst =
     (if (\<exists>i \<in> set incs. inc_severity i \<noteq> Minor) \<or> worst = Some public_component_status.MajorOutage
      then Some public_component_status.MajorOutage
      else if incs = [] then worst else Some public_component_status.PartialOutage)"
  if "worst \<in> {None, Some public_component_status.MajorOutage, Some public_component_status.PartialOutage}"
  using that
proof (induction incs arbitrary: worst)
  case (Cons i incs)
  let ?w = "Some (if inc_severity i \<noteq> Minor \<or> worst = Some public_component_status.MajorOutage
                  then public_component_status.MajorOutage else public_component_status.PartialOutage)"
  have "worst_incident_loop (i # incs) worst = worst_incident_loop incs ?w"
    using Cons.prems by (cases "inc_severity i") (elim insertE; simp)+
  also note Cons.IH [of ?w]
  finally show ?case by simp
qed simp

lemma worst_incident_status_cases:
  "worst_incident_status incs =
     (if incs = [] then None
      else if \<exists>i \<in> set incs. inc_severity i \<noteq> Minor then Some public_component_status.MajorOutage
      else Some public_component_status.PartialOutage)"
  by (auto simp: worst_incident_status_def worst_incident_loop_status)

lemma worst_incident_status_None [simp]: "worst_incident_status incs = None \<longleftrightarrow> incs = []"
  by (simp add: worst_incident_status_cases)

lemma worse_overall_rank [simp]:
  "overall_severity_rank (worse_overall st worst) = max (overall_severity_rank st) (overall_severity_rank worst)"
  by (simp add: worse_overall_def)

section \<open>Groups\<close>

abbreviation grouped :: "public_component_group list \<Rightarrow> public_component list" where
  "grouped groups \<equiv> concat (map pcg_components groups)"

definition group_members :: "string \<Rightarrow> public_component_group list \<Rightarrow> public_component list" where
  "group_members g groups = concat (map pcg_components (filter (\<lambda>x. pcg_name x = Some g) groups))"

definition named_once :: "public_component_group list \<Rightarrow> bool" where
  "named_once groups \<longleftrightarrow> distinct (filter (\<lambda>n. n \<noteq> None) (map pcg_name groups))"

lemma push_into_named_names:
  "map pcg_name (push_into_named c g groups) =
     map pcg_name groups @ (if Some g \<in> pcg_name ` set groups then [] else [Some g])"
  by (induction groups) auto

lemma push_into_named_members:
  assumes "named_once groups"
  shows "group_members h (push_into_named c g groups) = group_members h groups @ (if h = g then [c] else [])"
  using assms
proof (induction groups)
  case (Cons x xs)
  show ?case
  proof (cases "pcg_name x = Some g")
    case True
    then have "filter (\<lambda>y. pcg_name y = Some g) xs = []"
      using Cons.prems by (force simp: named_once_def filter_empty_conv)
    with True show ?thesis by (auto simp: group_members_def)
  next
    case False
    with Cons show ?thesis by (auto simp: group_members_def named_once_def split: if_splits)
  qed
qed (auto simp: group_members_def)

lemma push_into_named_mset: "mset (grouped (push_into_named c g groups)) = mset (grouped groups) + {#c#}"
  by (induction groups) auto

lemma push_into_group_mset [simp]: "mset (grouped (push_into_group groups c o')) = mset (grouped groups) + {#c#}"
  by (auto simp: push_into_group_def push_into_named_mset split: option.splits)

lemma push_into_group_members [simp]:
  "named_once groups \<Longrightarrow>
   group_members h (push_into_group groups c o') = group_members h groups @ (if o' = Some h then [c] else [])"
  by (cases o') (simp_all add: push_into_group_def push_into_named_members, simp add: group_members_def)

lemma push_into_group_named [simp, intro]: "named_once groups \<Longrightarrow> named_once (push_into_group groups c o')"
  by (auto simp: push_into_group_def named_once_def push_into_named_names split: option.splits)

lemma component_loop_groups:
  assumes "component_loop s now mts incs cs groups worst = (groups', worst')" "named_once groups"
  shows "named_once groups' \<and>
     mset (grouped groups') = mset (grouped groups) + mset (map (public_component_of s now mts incs) cs) \<and>
     (\<forall>g. group_members g groups' = group_members g groups @
        map (public_component_of s now mts incs) (filter (\<lambda>c. spc_public_group c = Some g) cs))"
  using assms
proof (induction cs arbitrary: groups worst)
  case (Cons c cs)
  let ?g = "push_into_group groups (public_component_of s now mts incs c) (spc_public_group c)"
  have "component_loop s now mts incs cs ?g
      (worse_overall (overall_from_component (pcp_current_status (public_component_of s now mts incs c))) worst) =
      (groups', worst')"
    using Cons.prems(1) by (simp add: Let_def)
  from Cons.IH [OF this] Cons.prems(2) show ?case by auto
qed auto

lemma component_loop_worst:
  "component_loop s now mts incs cs groups worst = (groups', worst') \<Longrightarrow>
   overall_severity_rank worst' =
     Max (insert (overall_severity_rank worst)
       ((\<lambda>c. overall_severity_rank (overall_from_component (component_status s mts incs (spc_target_id c)))) ` set cs)) \<and>
   worst' \<in> insert worst ((\<lambda>c. overall_from_component (component_status s mts incs (spc_target_id c))) ` set cs)"
proof (induction cs arbitrary: groups worst)
  case (Cons c cs)
  let ?f = "\<lambda>c. overall_from_component (component_status s mts incs (spc_target_id c))"
  let ?w = "worse_overall (?f c) worst"
  let ?A = "(\<lambda>c. overall_severity_rank (?f c)) ` set cs"
  have "overall_severity_rank worst' = Max (insert (overall_severity_rank ?w) ?A) \<and> worst' \<in> insert ?w (?f ` set cs)"
    using Cons.prems by (intro Cons.IH) (simp add: Let_def public_component_of_def)
  moreover have "Max (insert (max a b) ?A) = Max (insert b (insert a ?A))" for a b :: nat
    by (cases "?A = {}") (simp_all add: max.assoc max.left_commute max.commute)
  moreover have "?w \<in> {?f c, worst}" by (simp add: worse_overall_def)
  ultimately show ?case unfolding worse_overall_rank by (simp del: Max_insert) blast
qed simp

text \<open>Everything a successful computation reports, field by field.\<close>

lemma compute_status_snapshot_Ok:
  assumes "compute_status_snapshot now k s = Ok p"
  obtains page groups worst where
    "get_status_page s k = Ok page"
    "component_loop s now (maintenance_targets s now) (list_incidents s)
       (list_status_page_components s (sp_id page)) [] overall_state.Operational = (groups, worst)"
    "psp_groups p = groups" "psp_overall p = \<lparr>os_state = worst, os_label = overall_label worst\<rparr>"
  using assms
  by (auto simp: compute_status_snapshot_def Let_def split: sum.splits prod.splits)

text \<open>
  C10: The page shows every component once and reports the worst.  A computed
  snapshot has exactly the components of the page, each in one place; each
  named group is one bucket that lists its members in the order of the page;
  the overall state is that of some component, or operational, no component
  is in a worse one, and the label is the label of that state.
\<close>

theorem snapshot_shows_every_component:
  assumes "compute_status_snapshot now k s = Ok p"
  defines "comps \<equiv> list_status_page_components s (sp_id (projr (get_status_page s k)))"
    and "view \<equiv> public_component_of s now (maintenance_targets s now) (list_incidents s)"
  shows "mset (concat (map pcg_components (psp_groups p))) = mset (map view comps) \<and>
    named_once (psp_groups p) \<and>
    (\<forall>g. group_members g (psp_groups p) = map view (filter (\<lambda>c. spc_public_group c = Some g) comps)) \<and>
    overall_severity_rank (os_state (psp_overall p)) =
      Max (insert 0 ((\<lambda>c. overall_severity_rank (overall_from_component (pcp_current_status (view c)))) ` set comps)) \<and>
    os_state (psp_overall p) \<in>
      insert overall_state.Operational ((\<lambda>c. overall_from_component (pcp_current_status (view c))) ` set comps) \<and>
    os_label (psp_overall p) = overall_label (os_state (psp_overall p))"
proof -
  from assms(1) obtain page groups worst where p:
    "get_status_page s k = Ok page"
    "component_loop s now (maintenance_targets s now) (list_incidents s)
       (list_status_page_components s (sp_id page)) [] overall_state.Operational = (groups, worst)"
    "psp_groups p = groups" "psp_overall p = \<lparr>os_state = worst, os_label = overall_label worst\<rparr>"
    by (rule compute_status_snapshot_Ok)
  then show ?thesis
    using component_loop_groups [OF p(2)] component_loop_worst [OF p(2)]
    by (auto simp: comps_def view_def named_once_def group_members_def public_component_of_def)
qed

definition public_sample :: mem where
  "public_sample = new_storage\<lparr>
     m_status_pages := [(1, \<lparr>sp_id = 1, sp_org_id = 0, sp_slug = ''main'', sp_name = ''Main'', sp_enabled = False,
        sp_branding = \<lparr>br_display_name = None, br_about = None, br_brand_color = None, br_logo_hash = None,
          br_show_powered_by = None, br_style = StyleDefault\<rparr>,
        sp_write_source = Ui, sp_created_at = 0, sp_updated_at = 0\<rparr>)],
     m_status_page_components := [((1, 9), \<lparr>spc_target_id = 9, spc_monitor_name = ''web'', spc_public_name = None,
        spc_public_description = None, spc_public_group = Some ''api'', spc_sort_order = 0\<rparr>)],
     m_incidents := [(5, sample_incident 5 0)]\<rparr>"

lemma public_sample_computes: "\<exists>p. compute_status_snapshot 10 1 public_sample = Ok p"
  by (simp add: compute_status_snapshot_def public_sample_def get_status_page_def hm_get_def Let_def split: prod.split)

lemma snapshot_shows_every_component_witness:
  "\<exists>p. compute_status_snapshot 10 1 public_sample = Ok p \<and>
     os_label (psp_overall p) = overall_label (os_state (psp_overall p)) \<and>
     length (group_members ''api'' (psp_groups p)) = 1"
proof -
  obtain p where p: "compute_status_snapshot 10 1 public_sample = Ok p"
    using public_sample_computes by blast
  have "list_status_page_components public_sample (sp_id (projr (get_status_page public_sample 1))) =
      [\<lparr>spc_target_id = 9, spc_monitor_name = ''web'', spc_public_name = None,
        spc_public_description = None, spc_public_group = Some ''api'', spc_sort_order = 0\<rparr>]"
    by (simp add: list_status_page_components_def get_status_page_def public_sample_def hm_get_def)
  with p show ?thesis using snapshot_shows_every_component [OF p] by simp
qed

section \<open>Where a component's state comes from\<close>

lemma maintenance_targets_iff:
  "t \<in> maintenance_targets s now \<longleftrightarrow>
     (\<exists>w \<in> set (hm_values (m_maintenance_windows s)).
        mw_starts_at w \<le> now \<and> now < mw_ends_at w \<and> t \<in> set (mw_component_ids w))"
  by (auto simp: maintenance_targets_def list_maintenance_windows_def)

lemma set_list_incidents: "length (m_incidents s) \<le> 200 \<Longrightarrow> set (list_incidents s) = set (hm_values (m_incidents s))"
  by (simp add: list_incidents_def hm_values_def)

definition open_on :: "mem \<Rightarrow> uuid \<Rightarrow> incident \<Rightarrow> bool" where
  "open_on s t i \<longleftrightarrow> i \<in> set (hm_values (m_incidents s)) \<and> inc_target_id i = t \<and> inc_ended_at i = None"

text \<open>
  Which fact decides the state of a component.  As long as the store holds
  at most 200 incidents, a target inside an active maintenance window shows
  maintenance; otherwise an open incident shows a major outage unless every
  open one is minor, when it shows a partial outage; and only a target with
  no open incident shows the state of its latest result, or operational when
  it has none.
\<close>

theorem component_state_precedence:
  assumes "length (m_incidents s) \<le> 200"
  shows "component_status s (maintenance_targets s now) (list_incidents s) t =
    (if \<exists>w \<in> set (hm_values (m_maintenance_windows s)).
          mw_starts_at w \<le> now \<and> now < mw_ends_at w \<and> t \<in> set (mw_component_ids w)
     then public_component_status.Maintenance
     else if \<exists>i. open_on s t i \<and> inc_severity i \<noteq> Minor then public_component_status.MajorOutage
     else if \<exists>i. open_on s t i then public_component_status.PartialOutage
     else case list_results s t 1 of [] \<Rightarrow> public_component_status.Operational
          | r # _ \<Rightarrow> component_status_from_result (cr_status r))"
proof -
  have "set (open_incidents_of t (list_incidents s)) = {i. open_on s t i}"
    by (auto simp: open_incidents_of_def open_on_def set_list_incidents [OF assms])
  then have "(open_incidents_of t (list_incidents s) = []) = (\<nexists>i. open_on s t i)"
    "(\<exists>i \<in> set (open_incidents_of t (list_incidents s)). inc_severity i \<noteq> Minor) =
      (\<exists>i. open_on s t i \<and> inc_severity i \<noteq> Minor)"
    by (auto simp: set_empty [symmetric] simp del: set_empty)
  then show ?thesis
    unfolding component_status_def Let_def maintenance_targets_iff [symmetric]
    by (auto simp: worst_incident_status_cases)
qed

lemma component_state_precedence_witness:
  "component_status public_sample (maintenance_targets public_sample 10) (list_incidents public_sample) 9 =
     public_component_status.MajorOutage"
proof -
  have "open_on public_sample 9 (sample_incident 5 0)" "inc_severity (sample_incident 5 0) \<noteq> Minor"
    by (simp_all add: open_on_def public_sample_def hm_values_def sample_incident_def new_incident_def)
  then have "\<exists>i. open_on public_sample 9 i \<and> inc_severity i \<noteq> Minor" by blast
  moreover have "hm_values (m_maintenance_windows public_sample) = []"
    by (simp add: public_sample_def new_storage_def hm_values_def)
  moreover have "length (m_incidents public_sample) \<le> 200" by (simp add: public_sample_def)
  ultimately show ?thesis using component_state_precedence [of public_sample 10 9] by simp
qed

lemma sort_key_take_newer:
  fixes f :: "'a \<Rightarrow> 'b::linorder"
  assumes "n \<le> length (filter (\<lambda>y. f y < f x) xs)"
  shows "x \<notin> set (take n (sort_key f xs))"
proof
  assume "x \<in> set (take n (sort_key f xs))"
  then obtain j where j: "j < n" "j < length xs" "sort_key f xs ! j = x"
    by (auto simp: in_set_conv_nth)
  have "filter (\<lambda>y. f y < f x) (sort_key f xs) = filter (\<lambda>y. f y < f x) (take j (sort_key f xs))"
  proof -
    have "f x \<le> f y" if "y \<in> set (drop j (sort_key f xs))" for y
    proof -
      obtain k where k: "k < length xs - j" "y = sort_key f xs ! (j + k)"
        using \<open>y \<in> set (drop j (sort_key f xs))\<close> j(2) by (auto simp: in_set_conv_nth)
      then show ?thesis
        using sorted_sort_key [of f xs] j sorted_nth_mono [of "map f (sort_key f xs)" j "j + k"] by simp
    qed
    then have "filter (\<lambda>y. f y < f x) (drop j (sort_key f xs)) = []" by (force simp: filter_empty_conv)
    then show ?thesis
      by (metis append_Nil2 append_take_drop_id filter_append)
  qed
  moreover have "length (filter (\<lambda>y. f y < f x) (sort_key f xs)) = length (filter (\<lambda>y. f y < f x) xs)"
    by (metis mset_filter mset_sort size_mset)
  moreover have "length (filter (\<lambda>y. f y < f x) (take j (sort_key f xs))) \<le> j"
    using length_filter_le [of "\<lambda>y. f y < f x" "take j (sort_key f xs)"] by simp
  ultimately show False using assms j(1) by simp
qed

text \<open>
  An old outage disappears from the page.  The listing the page reads is
  cut at the 200 newest incidents, so an incident that is still open but has
  200 newer ones anywhere in the store is not listed; when it is the only open
  one of its target, and the target is not under maintenance, the component
  shows the state of its latest result as if there were no incident.
\<close>

theorem old_open_incident_unseen:
  assumes "200 \<le> length (filter (\<lambda>j. inc_started_at i < inc_started_at j) (hm_values (m_incidents s)))"
    and "open_on s t i" "\<forall>j. open_on s t j \<longrightarrow> j = i" "t \<notin> maintenance_targets s now"
  shows "i \<notin> set (list_incidents s) \<and>
    component_status s (maintenance_targets s now) (list_incidents s) t =
      (case list_results s t 1 of [] \<Rightarrow> public_component_status.Operational
       | r # _ \<Rightarrow> component_status_from_result (cr_status r))"
proof -
  have unlisted: "i \<notin> set (list_incidents s)"
    using sort_key_take_newer [of 200 "\<lambda>i. - inc_started_at i" i "hm_values (m_incidents s)"] assms(1)
    by (simp add: list_incidents_def)
  have "set (open_incidents_of t (list_incidents s)) = {}"
  proof (rule equals0I)
    fix j
    assume "j \<in> set (open_incidents_of t (list_incidents s))"
    then have "open_on s t j" "j \<in> set (list_incidents s)"
      by (auto simp: open_incidents_of_def open_on_def list_incidents_def dest: in_set_takeD)
    with unlisted assms(3) show False by metis
  qed
  then have "open_incidents_of t (list_incidents s) = []" by simp
  then show ?thesis using unlisted assms(4) by (simp add: component_status_def worst_incident_status_cases)
qed

definition busy_ids :: "nat list" where
  "busy_ids = [2..<202]"

lemma busy_ids_facts: "length busy_ids = 200" "filter ((<) 0) busy_ids = busy_ids"
  unfolding busy_ids_def filter_id_conv by simp_all

definition busy_store :: mem where
  "busy_store = new_storage\<lparr>m_incidents :=
     (1, sample_incident 1 0) # map (\<lambda>n. (word_of_nat n, (sample_incident (word_of_nat n) (int n))\<lparr>inc_target_id := 8\<rparr>)) busy_ids\<rparr>"

lemma old_open_incident_unseen_witness:
  "sample_incident 1 0 \<notin> set (list_incidents busy_store) \<and> open_on busy_store 9 (sample_incident 1 0) \<and>
   component_status busy_store (maintenance_targets busy_store 10) (list_incidents busy_store) 9 =
     public_component_status.Operational"
proof -
  have vals: "hm_values (m_incidents busy_store) = sample_incident 1 0 #
      map (\<lambda>n. (sample_incident (word_of_nat n) (int n))\<lparr>inc_target_id := 8\<rparr>) busy_ids"
    by (simp add: busy_store_def hm_values_def comp_def)
  have fields: "inc_started_at (sample_incident k a) = a" "inc_target_id (sample_incident k a) = 9"
    "inc_ended_at (sample_incident k a) = None" for k a
    by (simp_all add: sample_incident_def new_incident_def)
  have newer: "200 \<le> length (filter (\<lambda>j. inc_started_at (sample_incident 1 0) < inc_started_at j)
      (hm_values (m_incidents busy_store)))"
    by (simp add: vals fields filter_map comp_def busy_ids_facts)
  have only: "open_on busy_store 9 (sample_incident 1 0)" "\<forall>j. open_on busy_store 9 j \<longrightarrow> j = sample_incident 1 0"
    unfolding open_on_def vals by (auto simp: fields)
  have "9 \<notin> maintenance_targets busy_store 10" "list_results busy_store 9 1 = []"
    by (simp_all add: maintenance_targets_iff busy_store_def new_storage_def hm_values_def list_results_def newest_first_def)
  with old_open_incident_unseen [OF newer only] only(1) show ?thesis by simp
qed

section \<open>What stays private\<close>

lemma postmortem_frame [simp]:
  "list_results (s\<lparr>m_postmortems := x\<rparr>) = list_results s"
  "list_incidents (s\<lparr>m_postmortems := x\<rparr>) = list_incidents s"
  "get_target (s\<lparr>m_postmortems := x\<rparr>) = get_target s"
  "get_status_page (s\<lparr>m_postmortems := x\<rparr>) = get_status_page s"
  "list_status_page_components (s\<lparr>m_postmortems := x\<rparr>) = list_status_page_components s"
  "list_maintenance_windows (s\<lparr>m_postmortems := x\<rparr>) = list_maintenance_windows s"
  "component_day_history_of (s\<lparr>m_postmortems := x\<rparr>) = component_day_history_of s"
  "get_page_asset (s\<lparr>m_postmortems := x\<rparr>) = get_page_asset s"
  by (auto intro!: ext simp: list_results_def list_incidents_def get_target_def get_status_page_def
      list_status_page_components_def list_maintenance_windows_def component_day_history_of_def get_page_asset_def)

lemma postmortem_frame_views [simp]:
  "component_names (s\<lparr>m_postmortems := x\<rparr>) cids = component_names s cids"
  "component_status (s\<lparr>m_postmortems := x\<rparr>) = component_status s"
  "public_component_of (s\<lparr>m_postmortems := x\<rparr>) = public_component_of s"
  "maintenance_targets (s\<lparr>m_postmortems := x\<rparr>) = maintenance_targets s"
  "public_maintenance (s\<lparr>m_postmortems := x\<rparr>) = public_maintenance s"
  "component_loop (s\<lparr>m_postmortems := x\<rparr>) now mts incs cs = component_loop s now mts incs cs"
proof -
  show names: "component_names (s\<lparr>m_postmortems := x\<rparr>) cids = component_names s cids" for cids
    by (induction cids) (auto split: sum.splits)
  show "component_status (s\<lparr>m_postmortems := x\<rparr>) = component_status s"
    by (intro ext) (simp add: component_status_def Let_def worst_incident_status_cases)
  then show view: "public_component_of (s\<lparr>m_postmortems := x\<rparr>) = public_component_of s"
    by (intro ext) (simp add: public_component_of_def component_history_def)
  show "maintenance_targets (s\<lparr>m_postmortems := x\<rparr>) = maintenance_targets s"
    by (intro ext) (simp add: maintenance_targets_def)
  show "public_maintenance (s\<lparr>m_postmortems := x\<rparr>) = public_maintenance s"
    by (intro ext) (simp add: public_maintenance_def to_public_maintenance_list_def names)
  show "component_loop (s\<lparr>m_postmortems := x\<rparr>) now mts incs cs = component_loop s now mts incs cs"
    by (induction cs) (auto intro!: ext simp: Let_def view)
qed

lemma to_public_incident_postmortem:
  "to_public_incident inc pm =
     map_option (\<lambda>p. p\<lparr>pi_postmortem := Option.bind pm public_postmortem_of\<rparr>) (to_public_incident inc None)"
  by (cases pm) (auto simp: to_public_incident_def split: option.splits)

lemma public_incidents_unpublished:
  assumes "\<And>i. i \<in> set incs \<Longrightarrow>
    Option.bind (get_postmortem s (inc_id i)) public_postmortem_of =
    Option.bind (get_postmortem s' (inc_id i)) public_postmortem_of"
  shows "public_incidents s incs = public_incidents s' incs"
  using assms
  by (induction incs) (auto simp: to_public_incident_postmortem [of _ "get_postmortem _ _"] split: option.splits)

lemma public_incidents_titled:
  "set (public_incidents s incs) \<subseteq>
     {p. \<exists>i \<in> set incs. inc_id i = pi_id p \<and> inc_public_title i = Some (pi_title p) \<and> inc_ended_at i = pi_ended_at p \<and>
         inc_started_at i = pi_started_at p}"
  by (induction incs) (auto simp: to_public_incident_def split: option.splits)

text \<open>
  A draft postmortem does not leak.  Writing, changing or removing a
  postmortem that is not published, whatever it says, changes no snapshot;
  and every incident a snapshot lists has a public title in the store.
\<close>

theorem drafts_stay_private:
  assumes "pm_published_at pm = None"
  shows "compute_status_snapshot now k (s\<lparr>m_postmortems := hm_insert inc pm (m_postmortems s)\<rparr>) =
         compute_status_snapshot now k (s\<lparr>m_postmortems := hm_remove inc (m_postmortems s)\<rparr>) \<and>
    (\<forall>p. compute_status_snapshot now k s = Ok p \<longrightarrow>
       (\<forall>q \<in> set (psp_active_incidents p) \<union> set (psp_recent_incidents p).
          \<exists>i \<in> set (hm_values (m_incidents s)). inc_id i = pi_id q \<and> inc_public_title i = Some (pi_title q)))"
proof (rule conjI)
  let ?a = "s\<lparr>m_postmortems := hm_insert inc pm (m_postmortems s)\<rparr>"
  let ?b = "s\<lparr>m_postmortems := hm_remove inc (m_postmortems s)\<rparr>"
  have pub: "public_incidents ?a incs = public_incidents ?b incs" for incs
    by (rule public_incidents_unpublished)
      (use assms in \<open>auto simp: get_postmortem_def public_postmortem_of_def split: option.splits\<close>)
  show "compute_status_snapshot now k ?a = compute_status_snapshot now k ?b"
    unfolding compute_status_snapshot_def by (cases "get_status_page s k") (simp_all add: pub Let_def)
next
  show "\<forall>p. compute_status_snapshot now k s = Ok p \<longrightarrow>
       (\<forall>q \<in> set (psp_active_incidents p) \<union> set (psp_recent_incidents p).
          \<exists>i \<in> set (hm_values (m_incidents s)). inc_id i = pi_id q \<and> inc_public_title i = Some (pi_title q))"
    using public_incidents_titled [of s]
    by (fastforce simp: compute_status_snapshot_def Let_def list_incidents_def
        split: sum.splits prod.splits dest!: in_set_takeD)
qed

definition draft_postmortem :: incident_postmortem where
  "draft_postmortem = \<lparr>pm_incident_id = 5, pm_summary = Some ''draft'', pm_root_cause = None, pm_impact = None,
     pm_action_items = [], pm_author_id = None, pm_created_at = 0, pm_updated_at = 0, pm_published_at = None\<rparr>"

lemma drafts_stay_private_witness:
  "compute_status_snapshot 10 1 (public_sample\<lparr>m_postmortems := hm_insert 5 draft_postmortem (m_postmortems public_sample)\<rparr>) =
   compute_status_snapshot 10 1 (public_sample\<lparr>m_postmortems := hm_remove 5 (m_postmortems public_sample)\<rparr>) \<and>
   pm_published_at draft_postmortem = None"
  using drafts_stay_private [where pm = draft_postmortem and now = 10 and k = 1 and s = public_sample and inc = 5] by (simp add: draft_postmortem_def)

lemma recent_incidents_bounded:
  assumes "compute_status_snapshot now k s = Ok p"
  shows "length (psp_recent_incidents p) \<le> 25 \<and>
    sorted_wrt (\<lambda>a b. pi_started_at b \<le> pi_started_at a) (psp_recent_incidents p) \<and>
    (psp_recent_incidents_has_more p \<longrightarrow> length (psp_recent_incidents p) = 25) \<and>
    (\<forall>q \<in> set (psp_recent_incidents p). pi_ended_at q \<noteq> None \<and> now - days 90 \<le> pi_started_at q)"
proof -
  from assms obtain page where p: "get_status_page s k = Ok page" "compute_status_snapshot now k s = Ok p"
    by (auto simp: compute_status_snapshot_def split: sum.splits)
  define recent where "recent = sort_key (\<lambda>p. - pi_started_at p) (public_incidents s
    (filter (\<lambda>i. inc_ended_at i \<noteq> None \<and> inc_started_at i \<ge> now - days 90 \<and>
       on_page (list_status_page_components s (sp_id page)) i) (list_incidents s)))"
  have fields: "psp_recent_incidents p = take 25 recent" "psp_recent_incidents_has_more p = (length recent > 25)"
    using p by (auto simp: compute_status_snapshot_def recent_def Let_def split: prod.splits)
  have "sorted (map (\<lambda>p. - pi_started_at p) recent)" by (simp add: recent_def)
  then have "sorted_wrt (\<lambda>a b. pi_started_at b \<le> pi_started_at a) (take 25 recent)"
    unfolding sorted_map by (intro sorted_wrt_take) simp
  moreover have "pi_ended_at q \<noteq> None \<and> now - days 90 \<le> pi_started_at q" if "q \<in> set recent" for q
    using that public_incidents_titled by (fastforce simp: recent_def)
  ultimately show ?thesis by (auto simp: fields dest: in_set_takeD)
qed

end
