(* ===== verification/Page_Cache.thy ===== *)
theory Page_Cache
  imports Public_Status
begin

text \<open>
  The cache in front of the public status page
  (\<open>bin/status-server/src/public_status_cache.rs\<close>): a hot layer with a time to
  live and the last good snapshot of every page, served when a computation
  fails.

  The hot layer is the \<open>moka\<close> library; its operations are a record of
  functions, an argument of the definitions, and \<open>cache_laws\<close> states what its
  documentation promises: a read returns the value last written for the key
  or nothing (an entry may be evicted at any time), never one older than the
  time to live and never one that was invalidated.  \<open>try_get_with\<close> runs one
  computation per key at a time, so requests for a page are steps one after
  the other.
\<close>

section \<open>The library cache\<close>

record ('c, 'k, 'v) cache_ops =
  co_get :: "'c \<Rightarrow> instant \<Rightarrow> 'k \<Rightarrow> 'v option"
  co_insert :: "instant \<Rightarrow> 'k \<Rightarrow> 'v \<Rightarrow> 'c \<Rightarrow> 'c"
  co_invalidate :: "'k \<Rightarrow> 'c \<Rightarrow> 'c"
  co_invalidate_all :: "'c \<Rightarrow> 'c"

definition cache_laws :: "duration \<Rightarrow> ('c, 'k, 'v) cache_ops \<Rightarrow> bool" where
  "cache_laws ttl ops \<longleftrightarrow>
     (\<forall>c t k v t' w. co_get ops (co_insert ops t k v c) t' k = Some w \<longrightarrow> w = v \<and> t' < t + ttl) \<and>
     (\<forall>c t k v t' k' w. k' \<noteq> k \<longrightarrow> co_get ops (co_insert ops t k v c) t' k' = Some w \<longrightarrow> co_get ops c t' k' = Some w) \<and>
     (\<forall>c t k. co_get ops (co_invalidate ops k c) t k = None) \<and>
     (\<forall>c t k k' w. co_get ops (co_invalidate ops k c) t k' = Some w \<longrightarrow> co_get ops c t k' = Some w) \<and>
     (\<forall>c t k. co_get ops (co_invalidate_all ops c) t k = None)"

lemma cache_lawsD:
  assumes "cache_laws ttl ops"
  shows cache_hit: "co_get ops (co_insert ops t k v c) t' k = Some w \<Longrightarrow> w = v \<and> t' < t + ttl"
    and cache_other: "k' \<noteq> k \<Longrightarrow> co_get ops (co_insert ops t k v c) t' k' = Some w \<Longrightarrow> co_get ops c t' k' = Some w"
    and cache_invalidated: "co_get ops (co_invalidate ops k c) t k = None"
    and cache_kept: "co_get ops (co_invalidate ops k c) t k' = Some w \<Longrightarrow> co_get ops c t k' = Some w"
    and cache_cleared: "co_get ops (co_invalidate_all ops c) t k = None"
  using assms unfolding cache_laws_def by (metis, metis, metis, metis, metis)

text \<open>A cache that keeps every entry for its time to live: an instance of the laws.\<close>

definition ttl_ops :: "duration \<Rightarrow> (('k \<times> (instant \<times> 'v)) list, 'k, 'v) cache_ops" where
  "ttl_ops ttl =
     \<lparr>co_get = (\<lambda>c now k. case hm_get c k of Some (t, v) \<Rightarrow> if now < t + ttl then Some v else None | None \<Rightarrow> None),
      co_insert = (\<lambda>t k v c. hm_insert k (t, v) c),
      co_invalidate = hm_remove,
      co_invalidate_all = (\<lambda>c. [])\<rparr>"

lemma ttl_ops_laws: "cache_laws ttl (ttl_ops ttl)"
  by (auto simp: cache_laws_def ttl_ops_def split: option.splits if_splits)

section \<open>The page cache\<close>

definition DEFAULT_TTL :: duration where
  "DEFAULT_TTL = seconds 30"

datatype cache_lookup = Fresh public_status_page | Stale public_status_page

record 'c public_cache =
  pc_inner :: 'c
  pc_last_good :: "(uuid \<times> public_status_page) list"

fun into_inner :: "cache_lookup \<Rightarrow> public_status_page" where
  "into_inner (Fresh p) = p"
| "into_inner (Stale p) = p"

definition public_status_empty :: app_error where
  "public_status_empty =
     app_error.Internal ''PUBLIC_STATUS_EMPTY'' [Lit ''no cached status page snapshot available after compute failure'']"

definition get_or_compute ::
  "('c, uuid, public_status_page) cache_ops \<Rightarrow> instant \<Rightarrow> uuid \<Rightarrow> (uuid \<Rightarrow> app_error + public_status_page) \<Rightarrow>
   'c public_cache \<Rightarrow> (app_error + cache_lookup) \<times> 'c public_cache" where
  "get_or_compute ops now page_id compute_fn pc =
     (let stale_snapshot = hm_get (pc_last_good pc) page_id in
      case co_get ops (pc_inner pc) now page_id of
        Some p \<Rightarrow> (Ok (Fresh p), pc)
      | None \<Rightarrow>
         (case compute_fn page_id of
            Inr page \<Rightarrow>
              (Ok (Fresh page), \<lparr>pc_inner = co_insert ops now page_id page (pc_inner pc),
                                 pc_last_good = hm_insert page_id page (pc_last_good pc)\<rparr>)
          | Inl e \<Rightarrow>
             (case stale_snapshot of
                Some p \<Rightarrow> (Ok (Stale p), pc)
              | None \<Rightarrow> (Err public_status_empty, pc))))"

definition invalidate_page :: "('c, uuid, public_status_page) cache_ops \<Rightarrow> uuid \<Rightarrow> 'c public_cache \<Rightarrow> 'c public_cache" where
  "invalidate_page ops page_id pc = pc\<lparr>pc_inner := co_invalidate ops page_id (pc_inner pc)\<rparr>"

definition invalidate_all :: "('c, uuid, public_status_page) cache_ops \<Rightarrow> 'c public_cache \<Rightarrow> 'c public_cache" where
  "invalidate_all ops pc = \<lparr>pc_inner = co_invalidate_all ops (pc_inner pc), pc_last_good = []\<rparr>"

section \<open>What a visitor is shown\<close>

text \<open>The calls on a cache, in order; a request carries what its computation returns.\<close>

datatype cache_event =
    Requested instant uuid "app_error + public_status_page"
  | Invalidated uuid
  | Cleared

fun cache_step :: "('c, uuid, public_status_page) cache_ops \<Rightarrow> cache_event \<Rightarrow> 'c public_cache \<Rightarrow> 'c public_cache" where
  "cache_step ops (Requested t k r) pc = snd (get_or_compute ops t k (\<lambda>_. r) pc)"
| "cache_step ops (Invalidated k) pc = invalidate_page ops k pc"
| "cache_step ops Cleared pc = invalidate_all ops pc"

definition computed_before :: "uuid \<Rightarrow> instant \<Rightarrow> public_status_page \<Rightarrow> cache_event set \<Rightarrow> cache_event list \<Rightarrow> bool" where
  "computed_before k t0 p barred es \<longleftrightarrow>
     (\<exists>es1 es2. es = es1 @ Requested t0 k (Ok p) # es2 \<and> set es2 \<inter> barred = {})"

lemma computed_before_snoc:
  assumes "computed_before k t0 p B es" "e \<notin> B"
  shows "computed_before k t0 p B (es @ [e])"
proof -
  obtain es1 es2 where "es = es1 @ Requested t0 k (Ok p) # es2" "set es2 \<inter> B = {}"
    using assms(1) by (auto simp: computed_before_def)
  then have "es @ [e] = es1 @ Requested t0 k (Ok p) # (es2 @ [e])" "set (es2 @ [e]) \<inter> B = {}"
    using assms(2) by auto
  then show ?thesis unfolding computed_before_def by blast
qed

lemma computed_now: "computed_before k t0 p B (es @ [Requested t0 k (Ok p)])"
  unfolding computed_before_def by (rule exI [of _ es], rule exI [of _ "[]"]) simp

lemma get_or_compute_cases:
  "get_or_compute ops t k (\<lambda>_. r) pc =
     (case co_get ops (pc_inner pc) t k of
        Some p \<Rightarrow> (Ok (Fresh p), pc)
      | None \<Rightarrow> (case r of
          Inr p \<Rightarrow> (Ok (Fresh p), \<lparr>pc_inner = co_insert ops t k p (pc_inner pc), pc_last_good = hm_insert k p (pc_last_good pc)\<rparr>)
        | Inl e \<Rightarrow> (case hm_get (pc_last_good pc) k of Some p \<Rightarrow> (Ok (Stale p), pc) | None \<Rightarrow> (Err public_status_empty, pc))))"
  by (simp add: get_or_compute_def Let_def)

lemma cache_step_last_good:
  "hm_get (pc_last_good (cache_step ops e pc)) k = Some p \<Longrightarrow>
   (hm_get (pc_last_good pc) k = Some p \<and> e \<noteq> Cleared) \<or> (\<exists>t. e = Requested t k (Ok p))"
  by (cases e) (auto simp: get_or_compute_cases invalidate_page_def invalidate_all_def
      split: option.splits sum.splits if_splits)

lemma cache_step_hot:
  assumes "cache_laws ttl ops"
    and "co_get ops (pc_inner (cache_step ops e pc)) t k = Some p"
  shows "(co_get ops (pc_inner pc) t k = Some p \<and> e \<notin> {Cleared, Invalidated k}) \<or>
    (\<exists>t0. e = Requested t0 k (Ok p) \<and> t < t0 + ttl)"
proof (cases e)
  case (Requested t0 k' r)
  show ?thesis
  proof (cases "co_get ops (pc_inner pc) t0 k' = None \<and> (\<exists>q. r = Ok q)")
    case True
    then obtain q where "r = Ok q" "pc_inner (cache_step ops e pc) = co_insert ops t0 k' q (pc_inner pc)"
      by (auto simp: Requested get_or_compute_cases)
    then show ?thesis
      using assms(2) cache_hit [OF assms(1), of t0 k q "pc_inner pc" t p]
        cache_other [OF assms(1), of k k' t0 q "pc_inner pc" t p] Requested
      by (cases "k' = k") auto
  next
    case False
    then have "cache_step ops e pc = pc"
      by (auto simp: Requested get_or_compute_cases split: option.splits sum.splits)
    then show ?thesis using assms(2) Requested by simp
  qed
next
  case (Invalidated k')
  then show ?thesis
    using assms(2) cache_invalidated [OF assms(1), of k "pc_inner pc" t]
      cache_kept [OF assms(1), of k' "pc_inner pc" t k p]
    by (cases "k' = k") (auto simp: invalidate_page_def)
next
  case Cleared
  then show ?thesis using assms(2) cache_cleared [OF assms(1)] by (simp add: invalidate_all_def)
qed

abbreviation empty_cache :: "'c \<Rightarrow> 'c public_cache" where
  "empty_cache c0 \<equiv> \<lparr>pc_inner = c0, pc_last_good = []\<rparr>"

lemma cache_run_provenance:
  assumes laws: "cache_laws ttl ops" and empty: "\<And>t k. co_get ops c0 t k = None"
  shows "(co_get ops (pc_inner (fold (cache_step ops) es (empty_cache c0))) t k = Some p \<longrightarrow>
      (\<exists>t0. computed_before k t0 p {Cleared, Invalidated k} es \<and> t < t0 + ttl)) \<and>
    (hm_get (pc_last_good (fold (cache_step ops) es (empty_cache c0))) k = Some p \<longrightarrow>
      (\<exists>t0. computed_before k t0 p {Cleared} es))"
proof (induction es rule: rev_induct)
  case Nil
  then show ?case by (simp add: empty)
next
  case (snoc e es)
  let ?pc = "fold (cache_step ops) es (empty_cache c0)"
  have "co_get ops (pc_inner (cache_step ops e ?pc)) t k = Some p \<Longrightarrow>
      \<exists>t0. computed_before k t0 p {Cleared, Invalidated k} (es @ [e]) \<and> t < t0 + ttl"
    using snoc cache_step_hot [OF laws, of e ?pc t k p] by (metis computed_before_snoc computed_now)
  moreover have "hm_get (pc_last_good (cache_step ops e ?pc)) k = Some p \<Longrightarrow> \<exists>t0. computed_before k t0 p {Cleared} (es @ [e])"
    using snoc cache_step_last_good [of ops e ?pc k p] by (metis computed_before_snoc computed_now singletonD)
  ultimately show ?case by simp
qed

text \<open>
  The page a visitor of \<open>k\<close> was last shown as fresh, since the last full
  invalidation: what the replies to the requests were, not what the cache holds.
\<close>

fun last_shown ::
  "('c, uuid, public_status_page) cache_ops \<Rightarrow> uuid \<Rightarrow> cache_event list \<Rightarrow> 'c public_cache \<Rightarrow> public_status_page option \<Rightarrow>
   public_status_page option" where
  "last_shown ops k [] pc shown = shown"
| "last_shown ops k (e # es) pc shown =
     last_shown ops k es (cache_step ops e pc)
       (case e of
          Cleared \<Rightarrow> None
        | Invalidated _ \<Rightarrow> shown
        | Requested t k' r \<Rightarrow>
            if k' \<noteq> k then shown
            else (case fst (get_or_compute ops t k (\<lambda>_. r) pc) of Inr (Fresh p) \<Rightarrow> Some p | _ \<Rightarrow> shown))"

text \<open>The fallback of a page is what was last shown, and so is whatever the hot layer still holds.\<close>

definition agrees :: "('c, uuid, public_status_page) cache_ops \<Rightarrow> uuid \<Rightarrow> 'c public_cache \<Rightarrow> public_status_page option \<Rightarrow> bool" where
  "agrees ops k pc shown \<longleftrightarrow> hm_get (pc_last_good pc) k = shown \<and> (\<forall>t p. co_get ops (pc_inner pc) t k = Some p \<longrightarrow> shown = Some p)"

lemma agrees_step:
  assumes laws: "cache_laws ttl ops" and agr: "agrees ops k pc shown"
  shows "agrees ops k (cache_step ops e pc)
    (case e of
       Cleared \<Rightarrow> None
     | Invalidated _ \<Rightarrow> shown
     | Requested t k' r \<Rightarrow>
         if k' \<noteq> k then shown
         else (case fst (get_or_compute ops t k (\<lambda>_. r) pc) of Inr (Fresh p) \<Rightarrow> Some p | _ \<Rightarrow> shown))"
proof (cases e)
  case (Requested t0 k' r)
  show ?thesis
  proof (cases "co_get ops (pc_inner pc) t0 k'")
    case None
    show ?thesis
    proof (cases r)
      case (Inl err)
      then have "cache_step ops e pc = pc" by (simp add: Requested get_or_compute_cases None split: option.split)
      moreover have "k' = k \<Longrightarrow> (case fst (get_or_compute ops t0 k (\<lambda>_. r) pc) of Inr (Fresh p) \<Rightarrow> Some p | _ \<Rightarrow> shown) = shown"
        using None Inl by (simp add: get_or_compute_cases split: option.split)
      ultimately show ?thesis using agr Requested by (cases "k' = k") simp_all
    next
      case (Inr q)
      have step: "cache_step ops e pc = \<lparr>pc_inner = co_insert ops t0 k' q (pc_inner pc), pc_last_good = hm_insert k' q (pc_last_good pc)\<rparr>"
        by (simp add: Requested get_or_compute_cases None Inr)
      show ?thesis
      proof (cases "k' = k")
        case True
        then show ?thesis
          using cache_hit [OF laws, of t0 k q "pc_inner pc"] None Inr Requested
          unfolding step by (auto simp: agrees_def get_or_compute_cases)
      next
        case False
        then show ?thesis
          using cache_other [OF laws, of k k' t0 q "pc_inner pc"] agr Requested
          unfolding step by (auto simp: agrees_def)
      qed
    qed
  next
    case (Some q)
    then have "cache_step ops e pc = pc" by (simp add: Requested get_or_compute_cases)
    moreover have "k' = k \<Longrightarrow> shown = Some q" using Some agr by (auto simp: agrees_def)
    ultimately show ?thesis using Some agr Requested by (cases "k' = k") (simp_all add: get_or_compute_cases)
  qed
next
  case (Invalidated k')
  then show ?thesis
    using agr unfolding agrees_def by (auto simp: invalidate_page_def dest!: cache_kept [OF laws])
next
  case Cleared
  then show ?thesis using cache_cleared [OF laws] by (simp add: agrees_def invalidate_all_def)
qed

lemma agrees_run:
  "cache_laws ttl ops \<Longrightarrow> agrees ops k pc shown \<Longrightarrow> agrees ops k (fold (cache_step ops) es pc) (last_shown ops k es pc shown)"
proof (induction es arbitrary: pc shown)
  case (Cons e es)
  from Cons.IH [OF Cons.prems(1) agrees_step [OF Cons.prems]] show ?case by simp
qed simp

text \<open>
  C8: Where a served page comes from.  After any sequence of requests and
  invalidations of an initially empty cache, a page served as fresh is the
  result of the computation of this very request, or it is the page this
  visitor's page was last shown with, computed by a request that is younger
  than the time to live and was followed by no invalidation of the page.  A
  page is served as stale only when the computation fails, and it is then the
  one last shown as fresh since the last full invalidation, however old that
  is; the request fails exactly when the computation fails and there is none.
\<close>

theorem served_page_provenance:
  assumes "cache_laws ttl ops" and "\<And>t k. co_get ops c0 t k = None"
    and "get_or_compute ops t k compute_fn (fold (cache_step ops) es (empty_cache c0)) = (reply, pc')"
  shows "case reply of
      Inr (Fresh p) \<Rightarrow> compute_fn k = Ok p \<or>
        (last_shown ops k es (empty_cache c0) None = Some p \<and>
         (\<exists>t0. computed_before k t0 p {Cleared, Invalidated k} es \<and> t < t0 + ttl))
    | Inr (Stale p) \<Rightarrow> \<not> is_ok (compute_fn k) \<and> last_shown ops k es (empty_cache c0) None = Some p
    | Inl err \<Rightarrow> \<not> is_ok (compute_fn k) \<and> last_shown ops k es (empty_cache c0) None = None"
proof -
  have "agrees ops k (empty_cache c0) None" by (simp add: agrees_def assms(2))
  from agrees_run [OF assms(1) this, of es] assms(3)
    cache_run_provenance [OF assms(1,2), where es = es and t = t and k = k]
  show ?thesis
    by (auto simp: get_or_compute_def agrees_def Let_def split: option.splits sum.splits)
qed

definition blank_page :: "string \<Rightarrow> public_status_page" where
  "blank_page name =
     \<lparr>psp_overall = \<lparr>os_state = overall_state.Operational, os_label = overall_label overall_state.Operational\<rparr>,
      psp_generated_at = 0, psp_site_name = name, psp_groups = [], psp_active_incidents = [],
      psp_recent_incidents = [], psp_recent_incidents_has_more = False, psp_active_maintenance = [],
      psp_upcoming_maintenance = [], psp_logo_hash = None\<rparr>"

lemma served_page_provenance_witness:
  "\<exists>pc'. get_or_compute (ttl_ops DEFAULT_TTL) (seconds 90) 1 (\<lambda>_. Err Unauthorized)
      (fold (cache_step (ttl_ops DEFAULT_TTL)) [Requested 0 1 (Ok (blank_page ''a'')), Requested (seconds 40) 1 (Ok (blank_page ''b''))]
        \<lparr>pc_inner = [], pc_last_good = []\<rparr>) = (Ok (Stale (blank_page ''b'')), pc') \<and>
    last_shown (ttl_ops DEFAULT_TTL) 1 [Requested 0 1 (Ok (blank_page ''a'')), Requested (seconds 40) 1 (Ok (blank_page ''b''))]
      \<lparr>pc_inner = [], pc_last_good = []\<rparr> None = Some (blank_page ''b'')"
proof -
  have run: "\<exists>pc'. get_or_compute (ttl_ops DEFAULT_TTL) (seconds 90) 1 (\<lambda>_. Err Unauthorized)
      (fold (cache_step (ttl_ops DEFAULT_TTL)) [Requested 0 1 (Ok (blank_page ''a'')), Requested (seconds 40) 1 (Ok (blank_page ''b''))]
        \<lparr>pc_inner = [], pc_last_good = []\<rparr>) = (Ok (Stale (blank_page ''b'')), pc')"
    by (simp add: get_or_compute_def ttl_ops_def DEFAULT_TTL_def instant_simps Let_def)
  moreover have "co_get (ttl_ops DEFAULT_TTL) [] t k = None" for t and k :: uuid
    by (simp add: ttl_ops_def)
  ultimately show ?thesis
    using served_page_provenance [OF ttl_ops_laws, where ?c0.0 = "[]"
        and es = "[Requested 0 1 (Ok (blank_page ''a'')), Requested (seconds 40) 1 (Ok (blank_page ''b''))]"
        and ttl = DEFAULT_TTL and t = "seconds 90" and k = 1 and compute_fn = "\<lambda>_. Err Unauthorized"]
    by fastforce
qed

end
