(* ===== verification/App_State.thy ===== *)
theory App_State
  imports Page_Cache Auth_Routes
begin

text \<open>
  The shared state of the request handlers (\<open>AppState\<close> in
  \<open>bin/status-server/src/app.rs\<close>) as far as the handlers change it: the store,
  the cache of public pages and the idempotency cache; and the idempotency
  cache itself (\<open>bin/status-server/src/idempotency.rs\<close>).

  A handler is an operation on this state.  Its result is an error or the
  status code and the body of the response.  The library caches, the digest
  of a request body and the fields of the configuration are arguments.
\<close>

section \<open>State and handlers\<close>

record cached_response =
  crp_status :: nat
  crp_content_type :: string
  crp_body :: "8 word list"

record ('pc, 'ic) app_state =
  ap_storage :: mem
  ap_public_cache :: "'pc public_cache"
  ap_idempotency :: 'ic

record ('pc, 'ic) libs =
  lib_pages :: "('pc, uuid, public_status_page) cache_ops"
  lib_responses :: "('ic, string, cached_response) cache_ops"
  lib_sha256_hex :: "8 word list \<Rightarrow> string"

type_synonym ('pc, 'ic, 'b) handler = "(('pc, 'ic) app_state, nat \<times> 'b) op"

text \<open>A storage call inside a handler, and what the handler does after it has succeeded.\<close>

definition with_store :: "(mem, 'a) op \<Rightarrow> (('pc, 'ic) app_state, 'a) op" where
  "with_store f a = (case f (ap_storage a) of (r, s') \<Rightarrow> (r, a\<lparr>ap_storage := s'\<rparr>))"

definition reading :: "(mem \<Rightarrow> app_error + 'a) \<Rightarrow> (('pc, 'ic) app_state, 'a) op" where
  "reading f a = (f (ap_storage a), a)"

definition and_then :: "('s, 'a) op \<Rightarrow> ('a \<Rightarrow> ('s, 'b) op) \<Rightarrow> ('s, 'b) op" where
  "and_then f g s = (case f s of (Inl e, s') \<Rightarrow> (Err e, s') | (Inr x, s') \<Rightarrow> g x s')"

definition respond :: "nat \<Rightarrow> 'b \<Rightarrow> ('s, nat \<times> 'b) op" where
  "respond status body s = (Ok (status, body), s)"

definition refuse :: "app_error \<Rightarrow> ('s, 'b) op" where
  "refuse e s = (Err e, s)"

definition invalidate_all_pages :: "('pc, 'ic) libs \<Rightarrow> (('pc, 'ic) app_state, unit) op" where
  "invalidate_all_pages L a = (Ok (), a\<lparr>ap_public_cache := invalidate_all (lib_pages L) (ap_public_cache a)\<rparr>)"

definition invalidate_one_page :: "('pc, 'ic) libs \<Rightarrow> uuid \<Rightarrow> (('pc, 'ic) app_state, unit) op" where
  "invalidate_one_page L k a = (Ok (), a\<lparr>ap_public_cache := invalidate_page (lib_pages L) k (ap_public_cache a)\<rparr>)"

named_theorems handler_simps \<open>the combinators the handlers are written with\<close>

lemmas handler_defs [handler_simps] =
  with_store_def reading_def and_then_def respond_def refuse_def invalidate_all_pages_def invalidate_one_page_def

lemma app_state_updates [simp]:
  "ap_storage (snd (with_store f a)) = snd (f (ap_storage a))"
  "fst (with_store f a) = fst (f (ap_storage a))"
  "ap_public_cache (snd (with_store f a)) = ap_public_cache a"
  "ap_idempotency (snd (with_store f a)) = ap_idempotency a"
  "snd (reading g a) = a" "fst (reading g a) = g (ap_storage a)"
  by (simp_all add: handler_simps split: prod.split)

section \<open>Idempotency keys\<close>

definition IDEMPOTENCY_TTL :: duration where
  "IDEMPOTENCY_TTL = hours 24"

definition MAX_CACHED_BODY :: nat where
  "MAX_CACHED_BODY = 64 * 1024"

definition make_key :: "('pc, 'ic) libs \<Rightarrow> string \<Rightarrow> 8 word list \<Rightarrow> string" where
  "make_key L idempotency_key body = idempotency_key @ '':'' @ lib_sha256_hex L body"

definition header_key :: "('pc, 'ic) libs \<Rightarrow> http_headers \<Rightarrow> 8 word list \<Rightarrow> string option" where
  "header_key L h body =
     (case hd_text h ''idempotency-key'' of
        None \<Rightarrow> None
      | Some raw \<Rightarrow> (let key = trim raw in if key = [] then None else Some (make_key L key body)))"

definition idempotency_lookup ::
  "('pc, 'ic) libs \<Rightarrow> instant \<Rightarrow> http_headers \<Rightarrow> 8 word list \<Rightarrow> ('pc, 'ic) app_state \<Rightarrow> cached_response option" where
  "idempotency_lookup L now h body a =
     (case header_key L h body of
        None \<Rightarrow> None
      | Some key \<Rightarrow> co_get (lib_responses L) (ap_idempotency a) now key)"

definition idempotency_store ::
  "('pc, 'ic) libs \<Rightarrow> instant \<Rightarrow> http_headers \<Rightarrow> 8 word list \<Rightarrow> nat \<Rightarrow> string \<Rightarrow> 8 word list \<Rightarrow>
   ('pc, 'ic) app_state \<Rightarrow> ('pc, 'ic) app_state" where
  "idempotency_store L now h body status content_type response_body a =
     (case header_key L h body of
        None \<Rightarrow> a
      | Some key \<Rightarrow>
         if length response_body > MAX_CACHED_BODY then a
         else a\<lparr>ap_idempotency := co_insert (lib_responses L) now key
            \<lparr>crp_status = status, crp_content_type = content_type, crp_body = response_body\<rparr> (ap_idempotency a)\<rparr>)"

text \<open>
  The key is the trimmed header, a colon and the digest of the body.  Since a
  digest contains no colon, two requests have the same key only with the same
  header text and the same digest.
\<close>

lemma make_key_inject:
  assumes "CHR '':'' \<notin> set (lib_sha256_hex L b)" "CHR '':'' \<notin> set (lib_sha256_hex L b')"
    and "make_key L k b = make_key L k' b'"
  shows "k = k' \<and> lib_sha256_hex L b = lib_sha256_hex L b'"
proof -
  let ?P = "\<lambda>c. c \<noteq> CHR '':''"
  have key: "rev (make_key L x d) = rev (lib_sha256_hex L d) @ CHR '':'' # rev x" for x d
    by (simp add: make_key_def)
  have "takeWhile ?P (rev (make_key L x d)) = rev (lib_sha256_hex L d) \<and>
        dropWhile ?P (rev (make_key L x d)) = CHR '':'' # rev x"
    if "CHR '':'' \<notin> set (lib_sha256_hex L d)" for x d
    unfolding key using that by (subst takeWhile_append2 dropWhile_append2; auto)+
  from this [OF assms(1), of k] this [OF assms(2), of k'] assms(3) show ?thesis by simp
qed

end
