(* ===== verification/Target_Api.thy ===== *)
theory Target_Api
  imports App_State Scheduler
begin

text \<open>
  The target endpoints (\<open>bin/status-server/src/api/targets.rs\<close>): filtered
  listing, create, read, update, delete, results, the immediate check and the
  dry run of a check.
\<close>

section \<open>Requests\<close>

record new_target =
  nt_name :: string
  nt_check :: check_spec
  nt_interval :: duration
  nt_enabled :: bool
  nt_tags :: "string list"
  nt_alerts :: "uuid list"
  nt_alert_confirmations :: nat
  nt_notify_recovery :: bool
  nt_renotify_interval_secs :: nat
  nt_region_policy :: "region_incident_policy option"
  nt_group_name :: "string option"
  nt_owner_user_id :: "uuid option"
  nt_escalation_policy_id :: "uuid option"

record targets_query =
  tq_tag :: "string option"
  tq_group :: "string option"
  tq_enabled :: "bool option"
  tq_status :: "string option"

text \<open>The row both create endpoints build from a request.\<close>

definition target_of :: "instant \<Rightarrow> uuid \<Rightarrow> new_target \<Rightarrow> target" where
  "target_of now k n =
     \<lparr>tg_id = k, tg_name = nt_name n, tg_check = nt_check n, tg_interval = nt_interval n, tg_enabled = nt_enabled n,
      tg_tags = nt_tags n, tg_alerts = nt_alerts n, tg_alert_confirmations = nt_alert_confirmations n,
      tg_notify_recovery = nt_notify_recovery n, tg_renotify_interval_secs = nt_renotify_interval_secs n,
      tg_region_policy = (case nt_region_policy n of Some p \<Rightarrow> p | None \<Rightarrow> region_incident_policy.Majority),
      tg_group_name = nt_group_name n, tg_owner_user_id = nt_owner_user_id n,
      tg_escalation_policy_id = nt_escalation_policy_id n, tg_created_at = now, tg_updated_at = now,
      tg_write_source = Ui\<rparr>"

section \<open>Listing\<close>

definition tag_matches :: "string \<Rightarrow> target \<Rightarrow> bool" where
  "tag_matches tag t \<longleftrightarrow> list_ex (\<lambda>g. contains_str (to_lowercase g) (to_lowercase tag)) (tg_tags t)"

definition group_matches :: "string \<Rightarrow> target \<Rightarrow> bool" where
  "group_matches g t \<longleftrightarrow> (if g = [] then tg_group_name t = None else tg_group_name t = Some g)"

definition wanted_status :: "string \<Rightarrow> app_error + check_status" where
  "wanted_status s =
     (let l = to_lowercase s in
      if l = ''up'' then Ok Up else if l = ''down'' then Ok Down
      else if l = ''degraded'' then Ok check_status.Degraded else if l = ''error'' then Ok check_status.Error
      else Err (bad_request ''INVALID_STATUS''
        [Lit ''unknown status `'', Lit s, Lit ''`; expected one of: up, down, degraded, error'']))"

fun retain_status :: "check_status \<Rightarrow> (uuid \<times> check_status) list \<Rightarrow> target list \<Rightarrow> target list" where
  "retain_status want by_id [] = []"
| "retain_status want by_id (t # ts) =
     (let rest = retain_status want (hm_remove (tg_id t) by_id) ts
      in if hm_get by_id (tg_id t) = Some want then t # rest else rest)"

definition status_by_id :: "dashboard_row list \<Rightarrow> (uuid \<times> check_status) list" where
  "status_by_id rollup = fold (\<lambda>r. hm_insert (dr_target_id r) (dr_current_status r)) rollup []"

definition list_targets_endpoint :: "instant \<Rightarrow> targets_query \<Rightarrow> mem \<Rightarrow> app_error + target list" where
  "list_targets_endpoint now q s =
     (let t0 = list_targets s;
          t1 = (case tq_tag q of None \<Rightarrow> t0 | Some tag \<Rightarrow> filter (tag_matches tag) t0);
          t2 = (case tq_group q of None \<Rightarrow> t1 | Some g \<Rightarrow> filter (group_matches g) t1);
          t3 = (case tq_enabled q of None \<Rightarrow> t2 | Some b \<Rightarrow> filter (\<lambda>t. tg_enabled t = b) t2)
      in case tq_status q of
           None \<Rightarrow> Ok t3
         | Some st \<Rightarrow>
            (case wanted_status st of
               Inl e \<Rightarrow> Err e
             | Inr want \<Rightarrow> Ok (retain_status want (status_by_id (dashboard_rollup s now)) t3)))"

section \<open>Create, read, update, delete\<close>

definition create_target_endpoint ::
  "('pc, 'ic) libs \<Rightarrow> instant \<Rightarrow> uuid \<Rightarrow> new_target \<Rightarrow> ('pc, 'ic, target) handler" where
  "create_target_endpoint L now fresh n =
     and_then (with_store (create_target (target_of now fresh n))) (\<lambda>created.
     and_then (invalidate_all_pages L) (\<lambda>_. respond 201 created))"

definition get_target_endpoint :: "uuid \<Rightarrow> ('pc, 'ic, target) handler" where
  "get_target_endpoint k = and_then (reading (\<lambda>s. get_target s k)) (respond 200)"

definition update_target_endpoint ::
  "('pc, 'ic) libs \<Rightarrow> instant \<Rightarrow> uuid \<Rightarrow> target_update \<Rightarrow> ('pc, 'ic, target) handler" where
  "update_target_endpoint L now k u =
     and_then (reading (\<lambda>s. get_target s k)) (\<lambda>t.
     and_then (with_store (update_target ((target_apply_to u t)\<lparr>tg_updated_at := now\<rparr>))) (\<lambda>updated.
     and_then (invalidate_all_pages L) (\<lambda>_. respond 200 updated)))"

definition delete_target_endpoint :: "('pc, 'ic) libs \<Rightarrow> uuid \<Rightarrow> ('pc, 'ic, unit) handler" where
  "delete_target_endpoint L k =
     and_then (with_store (delete_target k)) (\<lambda>_.
     and_then (invalidate_all_pages L) (\<lambda>_. respond 204 ()))"

definition list_target_results :: "mem \<Rightarrow> uuid \<Rightarrow> nat option \<Rightarrow> check_result list" where
  "list_target_results s k limit = list_results s k (min (case limit of Some n \<Rightarrow> n | None \<Rightarrow> 100) 1000)"

section \<open>Checks on request\<close>

definition target_disabled :: app_error where
  "target_disabled = bad_request ''TARGET_DISABLED'' [Lit ''target is disabled; enable it before triggering a check'']"

text \<open>The body carries the alerts the evaluation spawns.\<close>

definition check_target_now ::
  "('pc, 'ic) libs \<Rightarrow> sweep_env \<Rightarrow> uuid \<Rightarrow> ('pc, 'ic, check_result \<times> channel_alert list) handler" where
  "check_target_now L env k a =
     (case get_target (ap_storage a) k of
        Inl e \<Rightarrow> (Err e, a)
      | Inr t \<Rightarrow>
         if \<not> tg_enabled t then (Err target_disabled, a)
         else
           (let result = probe_target (sw_render env) (sw_net env) (sw_times env k) (ap_storage a) t
            in case record_result result (ap_storage a) of
                 (Inl e, s1) \<Rightarrow>
                   (Err (app_error.Internal ''RECORD_RESULT'' [Lit ''failed to record check result'']), a\<lparr>ap_storage := s1\<rparr>)
               | (Inr _, s1) \<Rightarrow>
                  (let (_, alerts, s2) = evaluate_target (sw_writer env) (snd (sw_times env k)) k s1
                   in and_then (invalidate_all_pages L) (\<lambda>_. respond 200 (result, alerts)) (a\<lparr>ap_storage := s2\<rparr>))))"

definition not_testable :: app_error where
  "not_testable = bad_request ''NOT_TESTABLE''
     [Lit ''heartbeat and domain_expiry checks require a persisted target; create the target and use POST /targets/{id}/check-now instead'']"

definition ephemeral_target :: "instant \<Rightarrow> check_spec \<Rightarrow> target" where
  "ephemeral_target now c =
     \<lparr>tg_id = nil_uuid, tg_name = ''__test__'', tg_check = c, tg_interval = minutes 1, tg_enabled = True, tg_tags = [],
      tg_alerts = [], tg_alert_confirmations = 1, tg_notify_recovery = False, tg_renotify_interval_secs = 0,
      tg_region_policy = region_incident_policy.Majority, tg_group_name = None, tg_owner_user_id = None,
      tg_escalation_policy_id = None, tg_created_at = now, tg_updated_at = now, tg_write_source = Ui\<rparr>"

definition test_target_spec :: "sweep_env \<Rightarrow> instant \<Rightarrow> check_spec \<Rightarrow> mem \<Rightarrow> app_error + check_result" where
  "test_target_spec env now c s =
     (case c of
        Heartbeat _ \<Rightarrow> Err not_testable
      | DomainExpiry _ \<Rightarrow> Err not_testable
      | _ \<Rightarrow> Ok (probe_target (sw_render env) (sw_net env) (sw_times env nil_uuid) s (ephemeral_target now c)))"

section \<open>Properties\<close>

lemma retain_status_filter:
  "distinct (map tg_id ts) \<Longrightarrow> retain_status want m ts = filter (\<lambda>t. hm_get m (tg_id t) = Some want) ts"
proof (induction ts arbitrary: m)
  case (Cons t ts)
  have "filter (\<lambda>u. hm_get (hm_remove (tg_id t) m) (tg_id u) = Some want) ts =
        filter (\<lambda>u. hm_get m (tg_id u) = Some want) ts"
    using Cons.prems by (intro filter_cong) (auto simp: image_iff)
  with Cons show ?case by (simp add: Let_def)
qed simp

lemma status_by_id_get:
  assumes "distinct (map dr_target_id rows)" "r \<in> set rows"
  shows "hm_get (status_by_id rows) (dr_target_id r) = Some (dr_current_status r)"
proof -
  have "hm_get (fold (\<lambda>r. hm_insert (dr_target_id r) (dr_current_status r)) rows m) k =
      (case find (\<lambda>r. dr_target_id r = k) rows of Some r \<Rightarrow> Some (dr_current_status r) | None \<Rightarrow> hm_get m k)"
    if "distinct (map dr_target_id rows)" for m k
    using that
  proof (induction rows arbitrary: m)
    case (Cons x xs)
    have "find (\<lambda>r. dr_target_id r = dr_target_id x) xs = None"
      using Cons.prems unfolding find_None_iff by (auto simp: image_iff)
    with Cons show ?case by (auto split: option.splits)
  qed simp
  moreover have "find (\<lambda>x. dr_target_id x = dr_target_id r) rows = Some r"
    using assms by (intro find_unique) (auto simp: distinct_map dest: inj_onD)
  ultimately show ?thesis using assms(1) by (simp add: status_by_id_def)
qed

definition targets_keyed :: "mem \<Rightarrow> bool" where
  "targets_keyed s \<longleftrightarrow> hm_ok (m_targets s) \<and> (\<forall>(k, t) \<in> set (m_targets s). tg_id t = k)"

lemma targets_keyed_ids: "targets_keyed s \<Longrightarrow> map tg_id (hm_values (m_targets s)) = map fst (m_targets s)"
  unfolding targets_keyed_def hm_values_def by (induction "m_targets s" arbitrary: s) force+

definition latest_status :: "mem \<Rightarrow> uuid \<Rightarrow> check_status option" where
  "latest_status s k = map_option cr_status (max_by_timestamp (filter (\<lambda>r. cr_target_id r = k) (m_results s)))"

text \<open>
  What a filtered listing returns.  With a known status name the listing
  has, in creation order, exactly the stored targets that match every filter
  given and whose latest result has that status, where a target that was
  never checked counts as up: asking for the targets that are up also returns
  those without any result.
\<close>

theorem filtered_listing:
  assumes "targets_keyed s" and "tq_status q = Some st" "wanted_status st = Ok want"
  shows "list_targets_endpoint now q s = Ok (filter
    (\<lambda>t. (\<forall>tag. tq_tag q = Some tag \<longrightarrow> tag_matches tag t) \<and>
         (\<forall>g. tq_group q = Some g \<longrightarrow> group_matches g t) \<and>
         (\<forall>b. tq_enabled q = Some b \<longrightarrow> tg_enabled t = b) \<and>
         (case latest_status s (tg_id t) of Some x \<Rightarrow> x | None \<Rightarrow> Up) = want) (list_targets s))"
proof -
  define rows where "rows = dashboard_rollup s now"
  have dist: "distinct (map tg_id (hm_values (m_targets s)))"
    using assms(1) targets_keyed_ids by (simp add: targets_keyed_def hm_ok_def)
  have "mset (map dr_target_id rows) = mset (map tg_id (hm_values (m_targets s)))"
    unfolding rows_def dashboard_rollup_def mset_map mset_sort
    by (simp add: image_mset.compositionality comp_def dashboard_row_of_def Let_def)
  then have rows: "distinct (map dr_target_id rows)" using dist mset_eq_imp_distinct_iff by blast
  have status: "hm_get (status_by_id rows) (tg_id t) = Some (case latest_status s (tg_id t) of Some x \<Rightarrow> x | None \<Rightarrow> Up)"
    if "t \<in> set (list_targets s)" for t
  proof -
    have "dashboard_row_of s now t \<in> set rows" using that by (simp add: rows_def dashboard_rollup_def list_targets_def)
    from status_by_id_get [OF rows this] show ?thesis
      by (auto simp: dashboard_row_of_def Let_def latest_status_def split: option.splits)
  qed
  have listed: "distinct (map tg_id (list_targets s))"
    using dist by (simp add: list_targets_def distinct_map)
  have "retain_status want (status_by_id rows) (filter P (list_targets s)) =
      filter (\<lambda>t. P t \<and> (case latest_status s (tg_id t) of Some x \<Rightarrow> x | None \<Rightarrow> Up) = want) (list_targets s)" for P
    using listed status by (auto simp: retain_status_filter distinct_map_filter filter_filter intro!: filter_cong)
  note this [of "\<lambda>t. (\<forall>tag. tq_tag q = Some tag \<longrightarrow> tag_matches tag t) \<and> (\<forall>g. tq_group q = Some g \<longrightarrow> group_matches g t) \<and>
     (\<forall>b. tq_enabled q = Some b \<longrightarrow> tg_enabled t = b)"]
  moreover have "(case tq_enabled q of None \<Rightarrow> (case tq_group q of None \<Rightarrow> t1 | Some g \<Rightarrow> filter (group_matches g) t1)
      | Some b \<Rightarrow> filter (\<lambda>t. tg_enabled t = b) (case tq_group q of None \<Rightarrow> t1 | Some g \<Rightarrow> filter (group_matches g) t1)) =
      filter (\<lambda>t. (\<forall>g. tq_group q = Some g \<longrightarrow> group_matches g t) \<and> (\<forall>b. tq_enabled q = Some b \<longrightarrow> tg_enabled t = b)) t1" for t1
    by (cases "tq_enabled q"; cases "tq_group q") auto
  moreover have "(case tq_tag q of None \<Rightarrow> t0 | Some tag \<Rightarrow> filter (tag_matches tag) t0) =
     filter (\<lambda>t. \<forall>tag. tq_tag q = Some tag \<longrightarrow> tag_matches tag t) t0" for t0
    by (cases "tq_tag q") auto
  ultimately show ?thesis
    using assms(2,3) by (simp add: list_targets_endpoint_def Let_def rows_def conj_assoc conj_ac)
qed

definition unchecked_store :: mem where
  "unchecked_store = new_storage\<lparr>m_targets := [(9, sample_target 9 [] None)]\<rparr>"

lemma filtered_listing_witness:
  "list_targets_endpoint 0 \<lparr>tq_tag = None, tq_group = None, tq_enabled = None, tq_status = Some ''UP''\<rparr> unchecked_store =
     Ok [sample_target 9 [] None] \<and> m_results unchecked_store = []"
proof -
  have keyed: "targets_keyed unchecked_store"
    by (simp add: targets_keyed_def unchecked_store_def hm_ok_def sample_target_def)
  have want: "wanted_status ''UP'' = Ok Up" by code_simp
  have "list_targets unchecked_store = [sample_target 9 [] None]" "latest_status unchecked_store 9 = None"
    "m_results unchecked_store = []"
    by (simp_all add: list_targets_def unchecked_store_def hm_values_def latest_status_def new_storage_def)
  moreover have "tg_id (sample_target 9 [] None) = 9" by (simp add: sample_target_def)
  ultimately show ?thesis
    using filtered_listing [OF keyed _ want, of "\<lparr>tq_tag = None, tq_group = None, tq_enabled = None, tq_status = Some ''UP''\<rparr>" 0]
    by simp
qed

text \<open>A check on request does what a sweep of the scheduler does for one due target.\<close>

lemma check_now_is_one_probe:
  assumes "get_target (ap_storage a) k = Ok t" "tg_enabled t" "tg_id t = k"
  shows "\<exists>result alerts. check_target_now L env k a =
      (Ok (200, result, alerts), a\<lparr>ap_storage := snd (snd (probe_each env \<lparr>next_due = [], known_targets = [(k, t)]\<rparr> [k] (ap_storage a))),
         ap_public_cache := invalidate_all (lib_pages L) (ap_public_cache a)\<rparr>) \<and>
      alerts = fst (snd (probe_each env \<lparr>next_due = [], known_targets = [(k, t)]\<rparr> [k] (ap_storage a)))"
  using assms
  by (auto simp: check_target_now_def handler_simps record_result_def Let_def hm_get_def split: prod.splits)

end
