(* ===== verification/Bulk_Api.thy ===== *)
theory Bulk_Api
  imports Target_Api
begin

text \<open>
  The bulk endpoints on targets (\<open>bin/status-server/src/api/bulk.rs\<close>) with
  their idempotency keys.  The request body is parsed and the response is
  printed by the JSON library, both arguments.  A panic-free fragment of
  \<open>AppError\<close> is printed by \<open>app_error_text\<close> (\<open>thiserror\<close> attributes of
  \<open>core/src/error.rs\<close>).

  The handlers are written twice: as one step, for a request that runs alone,
  and as the steps between two awaits, for concurrent requests with the same
  key, which the in-flight lock of the key serialises.
\<close>

section \<open>Bulk create\<close>

record bulk_create_error =
  bce_index :: nat
  bce_code :: string
  bce_message :: message

record bulk_create_result =
  bcr_created :: "target list"
  bcr_errors :: "bulk_create_error list"

fun app_error_text :: "app_error \<Rightarrow> message" where
  "app_error_text (Config e) = Lit ''configuration error: '' # e"
| "app_error_text (Io e) = Lit ''io error: '' # e"
| "app_error_text (BindAddr addr source) = [Lit ''invalid bind address '', Lit addr, Lit '': ''] @ source"
| "app_error_text (app_error.NotFound _ msg) = msg"
| "app_error_text (BadRequest _ msg _) = msg"
| "app_error_text (PayloadTooLarge _ msg) = msg"
| "app_error_text (app_error.Conflict _ msg) = msg"
| "app_error_text (Unprocessable _ msg) = msg"
| "app_error_text (UnprocessableDetails _ msg _) = msg"
| "app_error_text (Gone _ msg) = msg"
| "app_error_text (ServiceUnavailable _ msg) = msg"
| "app_error_text (QuotaExceeded _ msg _ _ _ _) = msg"
| "app_error_text (RateLimited scope _) = [Lit ''rate limited on '', Lit scope]"
| "app_error_text Unauthorized = [Lit ''authentication required'']"
| "app_error_text SessionRequired = [Lit ''browser session required'']"
| "app_error_text Forbidden = [Lit ''access denied'']"
| "app_error_text (ForbiddenCoded _ msg) = msg"
| "app_error_text (app_error.Internal _ _) = [Lit ''internal error'']"
| "app_error_text (Other e) = e"

fun bulk_error_of :: "nat \<Rightarrow> app_error \<Rightarrow> bulk_create_error" where
  "bulk_error_of i (app_error.Conflict cd msg) = \<lparr>bce_index = i, bce_code = cd, bce_message = msg\<rparr>"
| "bulk_error_of i (BadRequest cd msg _) = \<lparr>bce_index = i, bce_code = cd, bce_message = msg\<rparr>"
| "bulk_error_of i (Unprocessable cd msg) = \<lparr>bce_index = i, bce_code = cd, bce_message = msg\<rparr>"
| "bulk_error_of i e = \<lparr>bce_index = i, bce_code = ''STORAGE_ERROR'', bce_message = app_error_text e\<rparr>"

fun bulk_create_loop ::
  "instant \<Rightarrow> (nat \<Rightarrow> uuid) \<Rightarrow> nat \<Rightarrow> new_target list \<Rightarrow> bulk_create_result \<Rightarrow> mem \<Rightarrow> bulk_create_result \<times> mem" where
  "bulk_create_loop now fresh i [] acc s = (acc, s)"
| "bulk_create_loop now fresh i (spec # specs) acc s =
     (case create_target (target_of now (fresh i) spec) s of
        (Inr t, s') \<Rightarrow> bulk_create_loop now fresh (Suc i) specs (acc\<lparr>bcr_created := bcr_created acc @ [t]\<rparr>) s'
      | (Inl e, s') \<Rightarrow>
          bulk_create_loop now fresh (Suc i) specs (acc\<lparr>bcr_errors := bcr_errors acc @ [bulk_error_of i e]\<rparr>) s')"

definition bulk_create_targets_impl ::
  "('pc, 'ic) libs \<Rightarrow> instant \<Rightarrow> (nat \<Rightarrow> uuid) \<Rightarrow> new_target list \<Rightarrow> ('pc, 'ic, bulk_create_result) handler" where
  "bulk_create_targets_impl L now fresh specs a =
     (if specs = [] then (Err (bad_request ''EMPTY_BATCH'' [Lit ''bulk create requires at least one target spec'']), a)
      else if length specs > 200
      then (Err (bad_request ''BATCH_TOO_LARGE'' [Lit ''bulk create accepts at most 200 targets per request'']), a)
      else
        (let (result, s') = bulk_create_loop now fresh 0 specs \<lparr>bcr_created = [], bcr_errors = []\<rparr> (ap_storage a);
             a' = a\<lparr>ap_storage := s'\<rparr>
         in (Ok (200, result), if bcr_created result \<noteq> [] then snd (invalidate_all_pages L a') else a')))"

section \<open>Bulk actions\<close>

datatype bulk_action_kind = Enable | Disable | Delete

record bulk_action_body =
  bab_ids :: "uuid list"
  bab_action :: bulk_action_kind

record bulk_action_result =
  bar_id :: uuid
  bar_status :: string
  bar_message :: message

fun is_app_not_found :: "app_error \<Rightarrow> bool" where
  "is_app_not_found (app_error.NotFound _ _) = True"
| "is_app_not_found _ = False"

definition bulk_failure :: "app_error \<Rightarrow> string \<times> message" where
  "bulk_failure e =
     (if is_app_not_found e then (''not_found'', [Lit ''target not found'']) else (''storage_error'', app_error_text e))"

definition bulk_action_one ::
  "instant \<Rightarrow> bulk_action_kind \<Rightarrow> uuid \<Rightarrow> mem \<Rightarrow> (string \<times> message) \<times> bool \<times> mem" where
  "bulk_action_one now action k s =
     (case action of
        bulk_action_kind.Delete \<Rightarrow>
          (case delete_target k s of
             (Inr _, s') \<Rightarrow> ((''ok'', []), True, s')
           | (Inl e, s') \<Rightarrow> (bulk_failure e, False, s'))
      | _ \<Rightarrow>
         (let enable = (action = Enable) in
          case get_target s k of
            Inl e \<Rightarrow> (bulk_failure e, False, s)
          | Inr t \<Rightarrow>
             if tg_enabled t = enable then ((''ok'', []), False, s)
             else (case update_target (t\<lparr>tg_enabled := enable, tg_updated_at := now\<rparr>) s of
                     (Inr _, s') \<Rightarrow> ((''ok'', []), True, s')
                   | (Inl e, s') \<Rightarrow> ((''storage_error'', app_error_text e), False, s'))))"

fun bulk_action_loop ::
  "instant \<Rightarrow> bulk_action_kind \<Rightarrow> uuid list \<Rightarrow> bulk_action_result list \<Rightarrow> bool \<Rightarrow> mem \<Rightarrow> bulk_action_result list \<times> bool \<times> mem" where
  "bulk_action_loop now action [] acc any_mutation s = (acc, any_mutation, s)"
| "bulk_action_loop now action (k # ks) acc any_mutation s =
     (let ((status, msg), changed, s') = bulk_action_one now action k s
      in bulk_action_loop now action ks (acc @ [\<lparr>bar_id = k, bar_status = status, bar_message = msg\<rparr>])
           (any_mutation \<or> changed) s')"

text \<open>\<open>filter(|id| seen.insert(*id))\<close>: the first occurrence of each id.\<close>

fun first_seen :: "uuid set \<Rightarrow> uuid list \<Rightarrow> uuid list" where
  "first_seen seen [] = []"
| "first_seen seen (k # ks) = (if k \<in> seen then first_seen seen ks else k # first_seen (insert k seen) ks)"

definition bulk_action_targets_impl ::
  "('pc, 'ic) libs \<Rightarrow> instant \<Rightarrow> bulk_action_body \<Rightarrow> ('pc, 'ic, bulk_action_result list) handler" where
  "bulk_action_targets_impl L now body a =
     (if bab_ids body = [] then (Err (bad_request ''EMPTY_BATCH'' [Lit ''bulk action requires at least one target id'']), a)
      else if length (bab_ids body) > 500
      then (Err (bad_request ''BATCH_TOO_LARGE'' [Lit ''bulk action accepts at most 500 target ids per request'']), a)
      else
        (let (results, any_mutation, s') =
               bulk_action_loop now (bab_action body) (first_seen {} (bab_ids body)) [] False (ap_storage a);
             a' = a\<lparr>ap_storage := s'\<rparr>
         in (Ok (200, results), if any_mutation then snd (invalidate_all_pages L a') else a')))"

section \<open>The handlers with their keys\<close>

type_synonym raw_response = "nat \<times> string \<times> 8 word list"

text \<open>\<open>HeaderValue::from_str\<close> accepts the printable content types that were stored.\<close>

definition idempotent_response :: "cached_response \<Rightarrow> raw_response" where
  "idempotent_response c = (crp_status c, crp_content_type c, crp_body c)"

definition null_bytes :: "8 word list" where
  "null_bytes = [0x6E, 0x75, 0x6C, 0x6C]"

definition response_to_parts :: "('b \<Rightarrow> 8 word list option) \<Rightarrow> nat \<times> 'b \<Rightarrow> nat \<times> 8 word list" where
  "response_to_parts to_json resp =
     (fst resp, case to_json (snd resp) of Some bytes \<Rightarrow> bytes | None \<Rightarrow> null_bytes)"

text \<open>Everything after the second lookup: parse, run, store the response under the key.\<close>

definition execute_and_store ::
  "('pc, 'ic) libs \<Rightarrow> instant \<Rightarrow> http_headers \<Rightarrow> 8 word list \<Rightarrow> string \<Rightarrow> (8 word list \<Rightarrow> message + 'r) \<Rightarrow>
   ('b \<Rightarrow> 8 word list option) \<Rightarrow> ('r \<Rightarrow> ('pc, 'ic, 'b) handler) \<Rightarrow> (('pc, 'ic) app_state, raw_response) op" where
  "execute_and_store L now h body what from_json to_json impl a =
     (case from_json body of
        Inl e \<Rightarrow> (Err (bad_request ''INVALID_JSON'' ([Lit ''failed to parse '', Lit what, Lit '' body: ''] @ e)), a)
      | Inr parsed \<Rightarrow>
         (case impl parsed a of
            (Inl e, a') \<Rightarrow> (Err e, a')
          | (Inr resp, a') \<Rightarrow>
             (let (status, bytes) = response_to_parts to_json resp
              in (Ok (status, ''application/json'', bytes),
                  idempotency_store L now h body status ''application/json'' bytes a'))))"

definition idempotent_handler ::
  "('pc, 'ic) libs \<Rightarrow> instant \<Rightarrow> http_headers \<Rightarrow> 8 word list \<Rightarrow> string \<Rightarrow> (8 word list \<Rightarrow> message + 'r) \<Rightarrow>
   ('b \<Rightarrow> 8 word list option) \<Rightarrow> ('r \<Rightarrow> ('pc, 'ic, 'b) handler) \<Rightarrow> (('pc, 'ic) app_state, raw_response) op" where
  "idempotent_handler L now h body what from_json to_json impl a =
     (case idempotency_lookup L now h body a of
        Some c \<Rightarrow> (Ok (idempotent_response c), a)
      | None \<Rightarrow>
         (case idempotency_lookup L now h body a of
            Some c \<Rightarrow> (Ok (idempotent_response c), a)
          | None \<Rightarrow> execute_and_store L now h body what from_json to_json impl a))"

definition bulk_create_targets ::
  "('pc, 'ic) libs \<Rightarrow> instant \<Rightarrow> (nat \<Rightarrow> uuid) \<Rightarrow> (8 word list \<Rightarrow> message + new_target list) \<Rightarrow>
   (bulk_create_result \<Rightarrow> 8 word list option) \<Rightarrow> http_headers \<Rightarrow> 8 word list \<Rightarrow> (('pc, 'ic) app_state, raw_response) op" where
  "bulk_create_targets L now fresh from_json to_json h body =
     idempotent_handler L now h body ''bulk create'' from_json to_json (bulk_create_targets_impl L now fresh)"

definition bulk_action_targets ::
  "('pc, 'ic) libs \<Rightarrow> instant \<Rightarrow> (8 word list \<Rightarrow> message + bulk_action_body) \<Rightarrow>
   (bulk_action_result list \<Rightarrow> 8 word list option) \<Rightarrow> http_headers \<Rightarrow> 8 word list \<Rightarrow> (('pc, 'ic) app_state, raw_response) op" where
  "bulk_action_targets L now from_json to_json h body =
     idempotent_handler L now h body ''bulk action'' from_json to_json (bulk_action_targets_impl L now)"

section \<open>What the batches do\<close>

lemma first_seen_set: "set (first_seen seen ks) = set ks - seen \<and> distinct (first_seen seen ks)"
  by (induction ks arbitrary: seen) auto

lemma bulk_create_loop_outcome:
  assumes "bulk_create_loop now fresh i specs acc s = (out, s')"
  shows "\<exists>made fails. bcr_created out = bcr_created acc @ made \<and> bcr_errors out = bcr_errors acc @ fails \<and>
      length made + length fails = length specs \<and>
      (\<forall>t \<in> set made. hm_get (m_targets s') (tg_id t) = Some t \<and> hm_get (m_targets s) (tg_id t) = None) \<and>
      (\<forall>k. hm_get (m_targets s) k \<noteq> None \<longrightarrow> hm_get (m_targets s') k = hm_get (m_targets s) k) \<and>
      (\<forall>k. hm_get (m_targets s) k = None \<longrightarrow> hm_get (m_targets s') k \<noteq> None \<longrightarrow> k \<in> tg_id ` set made) \<and>
      s' = s\<lparr>m_targets := m_targets s'\<rparr>"
  using assms
proof (induction specs arbitrary: i acc s)
  case (Cons spec specs)
  let ?t = "target_of now (fresh i) spec"
  show ?case
  proof (cases "hm_get (m_targets s) (tg_id ?t)")
    case None
    let ?s = "s\<lparr>m_targets := hm_insert (tg_id ?t) ?t (m_targets s)\<rparr>"
    have "bulk_create_loop now fresh (Suc i) specs (acc\<lparr>bcr_created := bcr_created acc @ [?t]\<rparr>) ?s = (out, s')"
      using Cons.prems None by (simp add: create_target_def)
    from Cons.IH [OF this] obtain made fails where IH:
      "bcr_created out = bcr_created acc @ [?t] @ made" "bcr_errors out = bcr_errors acc @ fails"
      "length made + length fails = length specs"
      "\<forall>t \<in> set made. hm_get (m_targets s') (tg_id t) = Some t \<and> hm_get (m_targets ?s) (tg_id t) = None"
      "\<forall>k. hm_get (m_targets ?s) k \<noteq> None \<longrightarrow> hm_get (m_targets s') k = hm_get (m_targets ?s) k"
      "\<forall>k. hm_get (m_targets ?s) k = None \<longrightarrow> hm_get (m_targets s') k \<noteq> None \<longrightarrow> k \<in> tg_id ` set made"
      "s' = ?s\<lparr>m_targets := m_targets s'\<rparr>"
      by auto
    show ?thesis
      by (rule exI [of _ "?t # made"], rule exI [of _ fails]) (use IH None in \<open>auto split: if_splits\<close>)
  next
    case (Some u)
    then have "bulk_create_loop now fresh (Suc i) specs
        (acc\<lparr>bcr_errors := bcr_errors acc @ [bulk_error_of i (target_exists (tg_id ?t))]\<rparr>) s = (out, s')"
      using Cons.prems by (simp add: create_target_def)
    from Cons.IH [OF this] obtain made fails where
      "bcr_created out = bcr_created acc @ made"
      "bcr_errors out = bcr_errors acc @ (bulk_error_of i (target_exists (tg_id ?t)) # fails)"
      "length made + length fails = length specs"
      "\<forall>t \<in> set made. hm_get (m_targets s') (tg_id t) = Some t \<and> hm_get (m_targets s) (tg_id t) = None"
      "\<forall>k. hm_get (m_targets s) k \<noteq> None \<longrightarrow> hm_get (m_targets s') k = hm_get (m_targets s) k"
      "\<forall>k. hm_get (m_targets s) k = None \<longrightarrow> hm_get (m_targets s') k \<noteq> None \<longrightarrow> k \<in> tg_id ` set made"
      "s' = s\<lparr>m_targets := m_targets s'\<rparr>"
      by auto
    then show ?thesis
      by (intro exI [of _ made] exI [of _ "bulk_error_of i (target_exists (tg_id ?t)) # fails"]) auto
  qed
qed auto

text \<open>
  A bulk create accounts for every item.  When the batch is accepted every
  item is either created or reported, each created target is stored as it is
  returned under an id that was free, no existing target is changed or
  removed, no other target appears and no other part of the store changes.
\<close>

theorem bulk_create_accounts:
  assumes "bulk_create_targets_impl L now fresh specs a = (Ok (status, out), a')"
  shows "status = 200 \<and> length (bcr_created out) + length (bcr_errors out) = length specs \<and>
    (\<forall>t \<in> set (bcr_created out). get_target (ap_storage a') (tg_id t) = Ok t \<and> \<not> is_ok (get_target (ap_storage a) (tg_id t))) \<and>
    (\<forall>k. is_ok (get_target (ap_storage a) k) \<longrightarrow> get_target (ap_storage a') k = get_target (ap_storage a) k) \<and>
    (\<forall>k. is_ok (get_target (ap_storage a') k) \<longrightarrow> is_ok (get_target (ap_storage a) k) \<or> k \<in> tg_id ` set (bcr_created out)) \<and>
    ap_storage a' = (ap_storage a)\<lparr>m_targets := m_targets (ap_storage a')\<rparr>"
proof -
  obtain s' where loop: "bulk_create_loop now fresh 0 specs \<lparr>bcr_created = [], bcr_errors = []\<rparr> (ap_storage a) = (out, s')"
    and a': "ap_storage a' = s'" "status = 200"
    using assms by (auto simp: bulk_create_targets_impl_def Let_def handler_simps split: if_splits prod.splits)
  have get: "is_ok (get_target s k) \<longleftrightarrow> hm_get (m_targets s) k \<noteq> None" "get_target s k = Ok t \<longleftrightarrow> hm_get (m_targets s) k = Some t"
    for s k t by (auto simp: get_target_def split: option.splits)
  have same: "hm_get (m_targets s') k = hm_get (m_targets s) k \<Longrightarrow> get_target s' k = get_target s k" for s k
    by (simp add: get_target_def)
  from bulk_create_loop_outcome [OF loop] show ?thesis
    unfolding a' get by (auto intro: same)
qed

definition plain_target :: new_target where
  "plain_target = \<lparr>nt_name = ''web'', nt_check = Heartbeat \<lparr>hb_period = 60, hb_grace = 60\<rparr>, nt_interval = 60,
     nt_enabled = True, nt_tags = [], nt_alerts = [], nt_alert_confirmations = 2, nt_notify_recovery = True,
     nt_renotify_interval_secs = 0, nt_region_policy = None, nt_group_name = None, nt_owner_user_id = None,
     nt_escalation_policy_id = None\<rparr>"

definition plain_libs ::
  "((uuid \<times> (instant \<times> public_status_page)) list, (string \<times> (instant \<times> cached_response)) list) libs" where
  "plain_libs = \<lparr>lib_pages = ttl_ops DEFAULT_TTL, lib_responses = ttl_ops IDEMPOTENCY_TTL, lib_sha256_hex = (\<lambda>_. ''00'')\<rparr>"

definition plain_app ::
  "mem \<Rightarrow> ((uuid \<times> (instant \<times> public_status_page)) list, (string \<times> (instant \<times> cached_response)) list) app_state" where
  "plain_app s = \<lparr>ap_storage = s, ap_public_cache = \<lparr>pc_inner = [], pc_last_good = []\<rparr>, ap_idempotency = []\<rparr>"

lemma bulk_create_accounts_witness:
  "\<exists>out a'. bulk_create_targets_impl plain_libs 0 (\<lambda>n. word_of_nat n) [plain_target, plain_target] (plain_app new_storage) = (Ok (200, out), a') \<and>
     length (bcr_created out) + length (bcr_errors out) = 2"
proof -
  obtain out a' where run: "bulk_create_targets_impl plain_libs 0 (\<lambda>n. word_of_nat n) [plain_target, plain_target]
      (plain_app new_storage) = (Ok (200, out), a')"
    by (cases "bulk_create_loop 0 (\<lambda>n. word_of_nat n) 0 [plain_target, plain_target] \<lparr>bcr_created = [], bcr_errors = []\<rparr>
          (ap_storage (plain_app new_storage))")
      (simp add: bulk_create_targets_impl_def Let_def del: bulk_create_loop.simps)
  from bulk_create_accounts [OF this] run show ?thesis by auto
qed

definition acted :: "instant \<Rightarrow> bulk_action_kind \<Rightarrow> target \<Rightarrow> target option" where
  "acted now action t =
     (if action = bulk_action_kind.Delete then None
      else if tg_enabled t = (action = Enable) then Some t
      else Some (t\<lparr>tg_enabled := (action = Enable), tg_updated_at := now\<rparr>))"

lemma targets_keyedD: "targets_keyed s \<Longrightarrow> hm_get (m_targets s) k = Some t \<Longrightarrow> tg_id t = k"
  unfolding targets_keyed_def by (auto dest: hm_get_entry)

lemma targets_keyed_insert: "targets_keyed s \<Longrightarrow> tg_id t = k \<Longrightarrow> targets_keyed (s\<lparr>m_targets := hm_insert k t (m_targets s)\<rparr>)"
  unfolding targets_keyed_def using hm_insert_entries [of k t "m_targets s"] by (auto split: prod.splits)

lemma targets_keyed_remove: "targets_keyed s \<Longrightarrow> targets_keyed (s\<lparr>m_targets := hm_remove k (m_targets s)\<rparr>)"
  unfolding targets_keyed_def using hm_remove_entries [of k "m_targets s"] by (auto split: prod.splits)

lemma bulk_action_one_effect:
  assumes "bulk_action_one now action k s = ((st, msg), ch, s')" "targets_keyed s"
  shows "targets_keyed s' \<and> s' = s\<lparr>m_targets := m_targets s'\<rparr> \<and>
    (st = ''ok'' \<longleftrightarrow> hm_get (m_targets s) k \<noteq> None) \<and>
    hm_get (m_targets s') = (hm_get (m_targets s))(k := Option.bind (hm_get (m_targets s) k) (acted now action))"
proof (cases "hm_get (m_targets s) k")
  case None
  then show ?thesis
    using assms targets_keyed_remove [OF assms(2), of k]
    by (cases action) (auto simp: bulk_action_one_def delete_target_def get_target_def bulk_failure_def target_missing_def
        storage_not_found_def Let_def fun_eq_iff)
next
  case (Some t)
  have id: "tg_id t = k" using targets_keyedD [OF assms(2) Some] .
  consider (delete) "action = bulk_action_kind.Delete"
    | (same) "action \<noteq> bulk_action_kind.Delete" "tg_enabled t = (action = Enable)"
    | (flip) "action \<noteq> bulk_action_kind.Delete" "tg_enabled t \<noteq> (action = Enable)" by blast
  then show ?thesis
  proof cases
    case delete
    then have "st = ''ok''" "s' = s\<lparr>m_targets := hm_remove k (m_targets s)\<rparr>"
      using assms(1) Some by (simp_all add: bulk_action_one_def delete_target_def)
    then show ?thesis
      using targets_keyed_remove [OF assms(2)] Some delete by (simp add: fun_eq_iff acted_def)
  next
    case same
    then have "st = ''ok''" "s' = s"
      using assms(1) Some by (cases action; simp add: bulk_action_one_def get_target_def)+
    then show ?thesis using assms(2) Some same by (simp add: fun_eq_iff acted_def)
  next
    case flip
    let ?t = "t\<lparr>tg_enabled := (action = Enable), tg_updated_at := now\<rparr>"
    from flip have "st = ''ok''" "s' = s\<lparr>m_targets := hm_insert k ?t (m_targets s)\<rparr>"
      using assms(1) Some id by (cases action; simp add: bulk_action_one_def get_target_def update_target_def)+
    then show ?thesis
      using targets_keyed_insert [OF assms(2), of ?t k] Some flip id by (simp add: fun_eq_iff acted_def)
  qed
qed

lemma bulk_action_loop_outcome:
  assumes "bulk_action_loop now action ks acc b s = (out, b', s')" "distinct ks" "targets_keyed s"
  shows "\<exists>new. out = acc @ new \<and> map bar_id new = ks \<and>
    (\<forall>r \<in> set new. bar_status r = ''ok'' \<longleftrightarrow> hm_get (m_targets s) (bar_id r) \<noteq> None) \<and>
    (\<forall>k. hm_get (m_targets s') k =
       (if k \<in> set ks then Option.bind (hm_get (m_targets s) k) (acted now action) else hm_get (m_targets s) k)) \<and>
    s' = s\<lparr>m_targets := m_targets s'\<rparr>"
  using assms
proof (induction ks arbitrary: acc b s)
  case (Cons k ks)
  obtain st msg ch s1 where one: "bulk_action_one now action k s = ((st, msg), ch, s1)"
    by (metis surj_pair)
  note e = bulk_action_one_effect [OF one Cons.prems(3)]
  let ?r = "\<lparr>bar_id = k, bar_status = st, bar_message = msg\<rparr>"
  have loop: "bulk_action_loop now action ks (acc @ [?r]) (b \<or> ch) s1 = (out, b', s')"
    using Cons.prems(1) one by simp
  obtain new where new: "out = (acc @ [?r]) @ new" "map bar_id new = ks"
    "\<forall>r \<in> set new. bar_status r = ''ok'' \<longleftrightarrow> hm_get (m_targets s1) (bar_id r) \<noteq> None"
    "\<forall>j. hm_get (m_targets s') j =
       (if j \<in> set ks then Option.bind (hm_get (m_targets s1) j) (acted now action) else hm_get (m_targets s1) j)"
    "s' = s1\<lparr>m_targets := m_targets s'\<rparr>"
    using Cons.IH [OF loop] Cons.prems(2) e by auto
  have ids: "bar_id r \<noteq> k" if "r \<in> set new" for r
    using that new(2) Cons.prems(2) by force
  have "s' = s\<lparr>m_targets := m_targets s'\<rparr>" using new(5) e by (metis memory_storage.update_convs(1) memory_storage.surjective)
  then show ?case
    using new e Cons.prems(2) ids by (intro exI [of _ "?r # new"]) auto
qed auto

text \<open>
  A bulk action touches exactly the named targets.  When the batch is
  accepted there is one result per distinct id in order of first mention, it
  says ok exactly for the targets that exist, deleted targets are gone,
  enabled or disabled ones have the flag (their update time only changes with
  the flag), every other target and every other part of the store is as
  before.
\<close>

theorem bulk_action_touches_named:
  assumes "bulk_action_targets_impl L now body a = (Ok (status, out), a')" "targets_keyed (ap_storage a)"
  shows "status = 200 \<and> set (map bar_id out) = set (bab_ids body) \<and> distinct (map bar_id out) \<and>
    (\<forall>r \<in> set out. bar_status r = ''ok'' \<longleftrightarrow> is_ok (get_target (ap_storage a) (bar_id r))) \<and>
    (\<forall>k. hm_get (m_targets (ap_storage a')) k =
       (if k \<in> set (bab_ids body) then Option.bind (hm_get (m_targets (ap_storage a)) k) (acted now (bab_action body))
        else hm_get (m_targets (ap_storage a)) k)) \<and>
    ap_storage a' = (ap_storage a)\<lparr>m_targets := m_targets (ap_storage a')\<rparr>"
proof -
  obtain b s' where loop: "bulk_action_loop now (bab_action body) (first_seen {} (bab_ids body)) [] False (ap_storage a) = (out, b, s')"
    and a': "ap_storage a' = s'" "status = 200"
    using assms(1) by (auto simp: bulk_action_targets_impl_def Let_def handler_simps split: if_splits prod.splits)
  have "is_ok (get_target (ap_storage a) k) \<longleftrightarrow> hm_get (m_targets (ap_storage a)) k \<noteq> None" for k
    by (auto simp: get_target_def split: option.splits)
  then show ?thesis
    using bulk_action_loop_outcome [OF loop _ assms(2)] first_seen_set [of "{}" "bab_ids body"] a' by auto
qed

lemma bulk_action_touches_named_witness:
  "let body = \<lparr>bab_ids = [9, 7, 9], bab_action = Disable\<rparr>; a = plain_app unchecked_store in
   \<exists>out a'. bulk_action_targets_impl plain_libs 5 body a = (Ok (200, out), a') \<and>
     set (map bar_id out) = {7, 9} \<and> hm_get (m_targets (ap_storage a')) 9 =
       Some ((sample_target 9 [] None)\<lparr>tg_enabled := False, tg_updated_at := 5\<rparr>)"
proof -
  let ?body = "\<lparr>bab_ids = [9, 7, 9], bab_action = Disable\<rparr>" and ?a = "plain_app unchecked_store"
  have keyed: "targets_keyed (ap_storage ?a)"
    by (simp add: plain_app_def targets_keyed_def unchecked_store_def hm_ok_def sample_target_def)
  obtain out a' where run: "bulk_action_targets_impl plain_libs 5 ?body ?a = (Ok (200, out), a')"
    by (cases "bulk_action_loop 5 Disable (first_seen {} [9, 7, 9]) [] False (ap_storage ?a)")
      (simp add: bulk_action_targets_impl_def Let_def split: prod.splits del: bulk_action_loop.simps first_seen.simps)
  have "hm_get (m_targets (ap_storage ?a)) 9 = Some (sample_target 9 [] None)"
    by (simp add: plain_app_def unchecked_store_def hm_get_def)
  then show ?thesis
    using bulk_action_touches_named [OF run keyed] run by (auto simp: Let_def acted_def sample_target_def)
qed

section \<open>Requests with the same key\<close>

lemma impl_keeps_idempotency:
  "ap_idempotency (snd (bulk_create_targets_impl L now fresh specs a)) = ap_idempotency a"
  "ap_idempotency (snd (bulk_action_targets_impl L now body a)) = ap_idempotency a"
  by (simp_all add: bulk_create_targets_impl_def bulk_action_targets_impl_def Let_def handler_simps split: prod.split)

text \<open>
  Any number of requests with one key, each between two awaits: it has
  arrived, it missed the cache and waits for the lock of the key, it holds the
  lock, it has returned.  Other requests may change the store, the pages and
  the entries of other keys at any time, and the cache may drop the entry of
  the key at any time.  \<open>bk_runs\<close> are the responses of the executions that
  produced one, \<open>bk_lost\<close> counts the times a response was not kept: it was too
  large to be stored or the cache dropped it.
\<close>

record ('pc, 'ic, 'r, 'b) bulk_request =
  rq_libs :: "('pc, 'ic) libs"
  rq_headers :: http_headers
  rq_body :: "8 word list"
  rq_what :: string
  rq_from_json :: "8 word list \<Rightarrow> message + 'r"
  rq_to_json :: "'b \<Rightarrow> 8 word list option"
  rq_impl :: "instant \<Rightarrow> 'r \<Rightarrow> ('pc, 'ic, 'b) handler"

datatype bulk_pc = Arrived | Waiting | Holding | Returned "app_error + raw_response"

record ('pc, 'ic) bulk_run =
  bk_app :: "('pc, 'ic) app_state"
  bk_lock :: "nat option"
  bk_pc :: "nat \<Rightarrow> bulk_pc"
  bk_runs :: "raw_response list"
  bk_lost :: nat

definition produced :: "app_error + raw_response \<Rightarrow> raw_response list" where
  "produced r = (case r of Inl _ \<Rightarrow> [] | Inr resp \<Rightarrow> [resp])"

definition oversized :: "raw_response \<Rightarrow> bool" where
  "oversized resp \<longleftrightarrow> length (snd (snd resp)) > MAX_CACHED_BODY"

inductive bulk_step ::
  "('pc, 'ic, 'r, 'b) bulk_request \<Rightarrow> string \<Rightarrow> (instant \<Rightarrow> bool) \<Rightarrow> ('pc, 'ic) bulk_run \<Rightarrow> ('pc, 'ic) bulk_run \<Rightarrow> bool"
  for q :: "('pc, 'ic, 'r, 'b) bulk_request" and key :: string and during :: "instant \<Rightarrow> bool" where
  hit: "bk_pc b i = Arrived \<Longrightarrow> during now \<Longrightarrow>
    idempotency_lookup (rq_libs q) now (rq_headers q) (rq_body q) (bk_app b) = Some c \<Longrightarrow>
    bulk_step q key during b (b\<lparr>bk_pc := (bk_pc b)(i := Returned (Ok (idempotent_response c)))\<rparr>)"
| missed: "bk_pc b i = Arrived \<Longrightarrow> during now \<Longrightarrow>
    idempotency_lookup (rq_libs q) now (rq_headers q) (rq_body q) (bk_app b) = None \<Longrightarrow>
    bulk_step q key during b (b\<lparr>bk_pc := (bk_pc b)(i := Waiting)\<rparr>)"
| acquired: "bk_pc b i = Waiting \<Longrightarrow> bk_lock b = None \<Longrightarrow>
    bulk_step q key during b (b\<lparr>bk_lock := Some i, bk_pc := (bk_pc b)(i := Holding)\<rparr>)"
| replayed: "bk_pc b i = Holding \<Longrightarrow> during now \<Longrightarrow>
    idempotency_lookup (rq_libs q) now (rq_headers q) (rq_body q) (bk_app b) = Some c \<Longrightarrow>
    bulk_step q key during b (b\<lparr>bk_lock := None, bk_pc := (bk_pc b)(i := Returned (Ok (idempotent_response c)))\<rparr>)"
| executed: "bk_pc b i = Holding \<Longrightarrow> during now \<Longrightarrow>
    idempotency_lookup (rq_libs q) now (rq_headers q) (rq_body q) (bk_app b) = None \<Longrightarrow>
    execute_and_store (rq_libs q) now (rq_headers q) (rq_body q) (rq_what q) (rq_from_json q) (rq_to_json q)
      (rq_impl q now) (bk_app b) = (r, a') \<Longrightarrow>
    bulk_step q key during b (b\<lparr>bk_app := a', bk_lock := None, bk_pc := (bk_pc b)(i := Returned r),
      bk_runs := bk_runs b @ produced r, bk_lost := bk_lost b + length (filter oversized (produced r))\<rparr>)"
| dropped: "(\<forall>t. co_get (lib_responses (rq_libs q)) c' t key = None) \<Longrightarrow>
    bulk_step q key during b (b\<lparr>bk_app := (bk_app b)\<lparr>ap_idempotency := c'\<rparr>, bk_lost := bk_lost b + 1\<rparr>)"
| others: "(\<forall>t. co_get (lib_responses (rq_libs q)) (ap_idempotency a') t key =
      co_get (lib_responses (rq_libs q)) (ap_idempotency (bk_app b)) t key) \<Longrightarrow>
    bulk_step q key during b (b\<lparr>bk_app := a'\<rparr>)"

text \<open>
  What the guarantee needs: a key is given, the handler leaves the
  idempotency cache alone, and the requests come within the time to live of an
  entry, which the cache keeps for that long unless it drops it, a step above.
\<close>

definition keyed_request :: "('pc, 'ic, 'r, 'b) bulk_request \<Rightarrow> (instant \<Rightarrow> bool) \<Rightarrow> string \<Rightarrow> bool" where
  "keyed_request q during key \<longleftrightarrow>
     header_key (rq_libs q) (rq_headers q) (rq_body q) = Some key \<and>
     (\<forall>now p a. ap_idempotency (snd (rq_impl q now p a)) = ap_idempotency a) \<and>
     (\<forall>t t'. during t \<longrightarrow> during t' \<longrightarrow> t' < t + IDEMPOTENCY_TTL) \<and>
     (\<forall>t t' k v c. t' < t + IDEMPOTENCY_TTL \<longrightarrow>
        co_get (lib_responses (rq_libs q)) (co_insert (lib_responses (rq_libs q)) t k v c) t' k = Some v)"

definition answered :: "('pc, 'ic, 'r, 'b) bulk_request \<Rightarrow> (instant \<Rightarrow> bool) \<Rightarrow> string \<Rightarrow> ('pc, 'ic) app_state \<Rightarrow> cached_response option \<Rightarrow> bool" where
  "answered q during key a c \<longleftrightarrow>
     (\<forall>t. during t \<longrightarrow> co_get (lib_responses (rq_libs q)) (ap_idempotency a) t key = c)"

definition locked :: "('pc, 'ic) bulk_run \<Rightarrow> bool" where
  "locked b \<longleftrightarrow> (\<forall>i. bk_pc b i = Holding \<longleftrightarrow> bk_lock b = Some i)"

definition agreed :: "raw_response option \<Rightarrow> ('pc, 'ic) bulk_run \<Rightarrow> bool" where
  "agreed r b \<longleftrightarrow> length (bk_runs b) \<le> bk_lost b + (if r = None then 0 else 1) \<and> (\<forall>x. r = Some x \<longrightarrow> x \<in> set (bk_runs b)) \<and>
     (\<forall>i x. bk_pc b i = Returned (Ok x) \<longrightarrow> x \<in> set (bk_runs b))"

definition bulk_ok :: "('pc, 'ic, 'r, 'b) bulk_request \<Rightarrow> (instant \<Rightarrow> bool) \<Rightarrow> string \<Rightarrow> ('pc, 'ic) bulk_run \<Rightarrow> bool" where
  "bulk_ok q during key b \<longleftrightarrow> (keyed_request q during key \<longrightarrow> locked b \<and>
     (\<exists>c. answered q during key (bk_app b) c \<and> agreed (map_option idempotent_response c) b))"

lemma locked_step:
  assumes "locked b"
  shows "bk_pc b i \<noteq> Holding \<Longrightarrow> pc \<noteq> Holding \<Longrightarrow> locked (b\<lparr>bk_pc := (bk_pc b)(i := pc)\<rparr>)"
    and "bk_lock b = None \<Longrightarrow> locked (b\<lparr>bk_lock := Some i, bk_pc := (bk_pc b)(i := Holding)\<rparr>)"
    and "bk_pc b i = Holding \<Longrightarrow> pc \<noteq> Holding \<Longrightarrow> locked (b\<lparr>bk_lock := None, bk_pc := (bk_pc b)(i := pc)\<rparr>)"
  using assms unfolding locked_def by auto

lemma locked_fields [simp]: "locked (b\<lparr>bk_app := a\<rparr>) = locked b" "locked (b\<lparr>bk_runs := n\<rparr>) = locked b"
  "locked (b\<lparr>bk_lost := m\<rparr>) = locked b"
  by (simp_all add: locked_def)

lemma agreed_step:
  assumes "agreed r b"
  shows "\<forall>x. pc = Returned (Ok x) \<longrightarrow> r = Some x \<Longrightarrow> agreed r (b\<lparr>bk_pc := (bk_pc b)(i := pc)\<rparr>)"
    and "agreed r (b\<lparr>bk_lock := l\<rparr>)" "agreed r (b\<lparr>bk_app := a\<rparr>)" "agreed None (b\<lparr>bk_app := a, bk_lost := bk_lost b + 1\<rparr>)"
  using assms unfolding agreed_def by (auto split: if_splits)

lemma keyed_lookup:
  assumes "keyed_request q during key" "answered q during key a c" "during now"
  shows "idempotency_lookup (rq_libs q) now (rq_headers q) (rq_body q) a = c"
  using assms by (simp add: keyed_request_def answered_def idempotency_lookup_def)

lemma execute_and_store_answered:
  assumes "keyed_request q during key" "answered q during key a None" "during now"
    and "execute_and_store (rq_libs q) now (rq_headers q) (rq_body q) w (rq_from_json q) (rq_to_json q) (rq_impl q now) a = (r, a')"
  shows "case r of Inl _ \<Rightarrow> answered q during key a' None
    | Inr resp \<Rightarrow> if oversized resp then answered q during key a' None
        else \<exists>x. answered q during key a' (Some x) \<and> resp = idempotent_response x"
proof (cases "rq_from_json q (rq_body q)")
  case (Inl e)
  then show ?thesis using assms(2,4) by (auto simp: execute_and_store_def)
next
  case (Inr parsed)
  obtain out a1 where run: "rq_impl q now parsed a = (out, a1)" by fastforce
  then have idem: "ap_idempotency a1 = ap_idempotency a"
    using assms(1) unfolding keyed_request_def by (metis snd_conv)
  show ?thesis
  proof (cases out)
    case (Inl e)
    then show ?thesis
      using assms(2,4) Inr run idem by (auto simp: execute_and_store_def answered_def)
  next
    case out: (Inr resp)
    obtain status bytes where parts: "response_to_parts (rq_to_json q) resp = (status, bytes)" by fastforce
    let ?v = "\<lparr>crp_status = status, crp_content_type = ''application/json'', crp_body = bytes\<rparr>"
    have r: "r = Ok (status, ''application/json'', bytes)" and a': "a' = (if length bytes > MAX_CACHED_BODY then a1
        else a1\<lparr>ap_idempotency := co_insert (lib_responses (rq_libs q)) now key ?v (ap_idempotency a1)\<rparr>)"
      using assms(1,4) Inr run out parts by (auto simp: execute_and_store_def idempotency_store_def keyed_request_def)
    have "answered q during key a' (if length bytes > MAX_CACHED_BODY then None else Some ?v)"
      using assms(1-3) idem by (simp add: answered_def a' keyed_request_def)
    then show ?thesis unfolding r by (auto simp: idempotent_response_def oversized_def)
  qed
qed

lemma bulk_ok_step: "bulk_step q key during b b' \<Longrightarrow> bulk_ok q during key b \<Longrightarrow> bulk_ok q during key b'"
proof (unfold bulk_ok_def, intro impI)
  assume step: "bulk_step q key during b b'" and key: "keyed_request q during key"
    and ok: "keyed_request q during key \<longrightarrow> locked b \<and>
      (\<exists>c. answered q during key (bk_app b) c \<and> agreed (map_option idempotent_response c) b)"
  from ok key obtain c where lock: "locked b" and ans: "answered q during key (bk_app b) c"
    and agr: "agreed (map_option idempotent_response c) b" by blast
  note looked = keyed_lookup [OF key ans]
  from step show "locked b' \<and> (\<exists>c. answered q during key (bk_app b') c \<and> agreed (map_option idempotent_response c) b')"
  proof cases
    case (hit i now x)
    then show ?thesis
      using locked_step(1) [OF lock] agreed_step(1) [OF agr] ans looked [of now] by (intro conjI exI [of _ c]) simp_all
  next
    case (missed i now)
    then show ?thesis
      using locked_step(1) [OF lock] agreed_step(1) [OF agr] ans by (intro conjI exI [of _ c]) simp_all
  next
    case (acquired i)
    then show ?thesis
      using locked_step(2) [OF lock] agreed_step(1) [OF agreed_step(2) [OF agr]] ans
      by (intro conjI exI [of _ c]) simp_all
  next
    case (replayed i now x)
    then show ?thesis
      using locked_step(3) [OF lock] agreed_step(1) [OF agreed_step(2) [OF agr]] ans looked [of now]
      by (intro conjI exI [of _ c]) simp_all
  next
    case (executed i now r a')
    have none: "c = None" using looked [of now] executed by simp
    have after: "case r of Inl _ \<Rightarrow> answered q during key a' None
        | Inr resp \<Rightarrow> if oversized resp then answered q during key a' None
            else \<exists>x. answered q during key a' (Some x) \<and> resp = idempotent_response x"
      using execute_and_store_answered [OF key _ executed(3,5)] ans none by simp
    have "locked b'" using locked_step(3) [OF lock executed(2), of "Returned r"] executed(1) by (simp add: locked_def)
    then show ?thesis
      using after executed(1) agr none by (cases r) (auto simp: agreed_def produced_def split: if_splits)
  next
    case (dropped c')
    then show ?thesis
      using lock agreed_step(4) [OF agr]
      by (intro conjI exI [of _ None]) (simp_all add: answered_def)
  next
    case (others a')
    then show ?thesis
      using lock ans agreed_step(3) [OF agr] by (intro conjI exI [of _ c]) (simp_all add: answered_def)
  qed
qed

interpretation bulk_runs: step_invariant "bulk_step q key during" "bulk_ok q during key" for q during key
  by unfold_locales (rule bulk_ok_step)

text \<open>
  C11: Retries with one key run once.  Take any number of concurrent requests
  that carry the same idempotency key and body, arriving within the 24 hours
  the cache keeps an entry and started when it has none for the key, and let
  their steps interleave in any way with each other, with other requests and
  with the cache dropping entries.  Every request that is answered gets the
  response of an execution of the batch, and there is at most one more such
  execution than responses that were not kept, because they exceed 64 KiB or
  the cache dropped them.  If every response was kept, the batch is executed
  with a response at most once and all answers are that one response.
\<close>

theorem same_key_runs_once:
  assumes "keyed_request q during key"
    and "\<forall>t. during t \<longrightarrow> co_get (lib_responses (rq_libs q)) (ap_idempotency a) t key = None"
    and "(bulk_step q key during)\<^sup>*\<^sup>* \<lparr>bk_app = a, bk_lock = None, bk_pc = (\<lambda>_. Arrived), bk_runs = [], bk_lost = 0\<rparr> b"
  shows "(\<forall>i x. bk_pc b i = Returned (Ok x) \<longrightarrow> x \<in> set (bk_runs b)) \<and> length (bk_runs b) \<le> bk_lost b + 1 \<and>
    (bk_lost b = 0 \<longrightarrow> bk_runs b = [] \<or> (\<exists>x. bk_runs b = [x] \<and> (\<forall>i y. bk_pc b i = Returned (Ok y) \<longrightarrow> y = x)))"
proof -
  have "bulk_ok q during key \<lparr>bk_app = a, bk_lock = None, bk_pc = (\<lambda>_. Arrived), bk_runs = [], bk_lost = 0\<rparr>"
    using assms(2) by (auto simp: bulk_ok_def answered_def locked_def agreed_def)
  with assms(3) have "bulk_ok q during key b" by (rule bulk_runs.run_good)
  then obtain c where "agreed c b" using assms(1) unfolding bulk_ok_def by blast
  then have ans: "\<forall>i x. bk_pc b i = Returned (Ok x) \<longrightarrow> x \<in> set (bk_runs b)" and len: "length (bk_runs b) \<le> bk_lost b + 1"
    by (auto simp: agreed_def split: if_splits)
  have "bk_runs b = [] \<or> (\<exists>x. bk_runs b = [x])" if "bk_lost b = 0"
    using len that by (cases "bk_runs b") auto
  with ans len show ?thesis by fastforce
qed

definition keyed_headers :: http_headers where
  "keyed_headers = \<lparr>hd_text = (\<lambda>n. if n = ''idempotency-key'' then Some ''k1'' else None), hd_has = (\<lambda>n. n = ''idempotency-key'')\<rparr>"

definition sample_request where
  "sample_request = \<lparr>rq_libs = plain_libs, rq_headers = keyed_headers, rq_body = [1, 2], rq_what = ''bulk create'',
     rq_from_json = (\<lambda>body. Ok (map (\<lambda>_. plain_target) body)),
     rq_to_json = (\<lambda>out. Some (map (\<lambda>_. 46) (bcr_created out) @ map (\<lambda>_. 33) (bcr_errors out))),
     rq_impl = (\<lambda>now. bulk_create_targets_impl plain_libs now (\<lambda>n. word_of_nat n))\<rparr>"

abbreviation first_day :: "instant \<Rightarrow> bool" where
  "first_day t \<equiv> 0 \<le> t \<and> t < IDEMPOTENCY_TTL"

lemma sample_request_keyed: "keyed_request sample_request first_day ''k1:00''"
proof -
  have "header_key plain_libs keyed_headers [1, 2] = Some ''k1:00''" by code_simp
  then show ?thesis
    by (simp add: keyed_request_def sample_request_def impl_keeps_idempotency plain_libs_def ttl_ops_def)
qed

text \<open>
  Two requests create two targets: both miss the cache, the first executes
  the batch under the lock, the second gets its response from the cache.
\<close>

lemma sample_run:
  "\<exists>b x. (bulk_step sample_request ''k1:00'' first_day)\<^sup>*\<^sup>*
     \<lparr>bk_app = plain_app new_storage, bk_lock = None, bk_pc = (\<lambda>_. Arrived), bk_runs = [], bk_lost = 0\<rparr> b \<and>
     bk_pc b 0 = Returned (Ok x) \<and> bk_pc b 1 = Returned (Ok x) \<and> bk_runs b = [x] \<and> bk_lost b = 0"
proof -
  let ?q = sample_request and ?d = first_day and ?k = "''k1:00''" and ?a = "plain_app new_storage"
  let ?b0 = "\<lparr>bk_app = ?a, bk_lock = None, bk_pc = (\<lambda>_. Arrived), bk_runs = [], bk_lost = 0\<rparr>"
  let ?b1 = "?b0\<lparr>bk_pc := (bk_pc ?b0)(0 := Waiting)\<rparr>"
  let ?b2 = "?b1\<lparr>bk_pc := (bk_pc ?b1)(1 := Waiting)\<rparr>"
  let ?b3 = "?b2\<lparr>bk_lock := Some 0, bk_pc := (bk_pc ?b2)(0 := Holding)\<rparr>"
  have now: "first_day 0" by (simp add: IDEMPOTENCY_TTL_def instant_simps)
  have empty: "answered ?q ?d ?k ?a None"
    by (simp add: answered_def plain_app_def sample_request_def plain_libs_def ttl_ops_def)
  note none = keyed_lookup [OF sample_request_keyed this now]
  let ?specs = "map (\<lambda>_. plain_target) (rq_body ?q)"
  obtain out s' where loop: "bulk_create_loop 0 (\<lambda>n. word_of_nat n) 0 ?specs \<lparr>bcr_created = [], bcr_errors = []\<rparr>
      (ap_storage ?a) = (out, s')" by fastforce
  then obtain a1 where impl: "rq_impl ?q 0 ?specs ?a = (Ok (200, out), a1)"
    by (simp add: sample_request_def bulk_create_targets_impl_def Let_def del: bulk_create_loop.simps)
  let ?bytes = "map (\<lambda>_. 46 :: 8 word) (bcr_created out) @ map (\<lambda>_. 33) (bcr_errors out)"
  let ?x = "(200 :: nat, ''application/json'', ?bytes)"
  have small: "\<not> oversized ?x"
    using bulk_create_loop_outcome [OF loop] by (auto simp: oversized_def MAX_CACHED_BODY_def sample_request_def)
  have "rq_from_json ?q (rq_body ?q) = Ok ?specs" "rq_to_json ?q out = Some ?bytes"
    by (simp_all add: sample_request_def)
  with impl obtain a' where run: "execute_and_store (rq_libs ?q) 0 (rq_headers ?q) (rq_body ?q) (rq_what ?q)
      (rq_from_json ?q) (rq_to_json ?q) (rq_impl ?q 0) ?a = (Ok ?x, a')"
    by (simp add: execute_and_store_def response_to_parts_def)
  then obtain c where c: "answered ?q ?d ?k a' (Some c)" "?x = idempotent_response c"
    using execute_and_store_answered [OF sample_request_keyed empty now run] small by auto
  let ?b4 = "?b3\<lparr>bk_app := a', bk_lock := None, bk_pc := (bk_pc ?b3)(0 := Returned (Ok ?x)), bk_runs := [?x], bk_lost := 0\<rparr>"
  let ?b5 = "?b4\<lparr>bk_lock := Some 1, bk_pc := (bk_pc ?b4)(1 := Holding)\<rparr>"
  let ?b6 = "?b5\<lparr>bk_lock := None, bk_pc := (bk_pc ?b5)(1 := Returned (Ok (idempotent_response c)))\<rparr>"
  have "bulk_step ?q ?k ?d ?b0 ?b1" by (rule bulk_step.missed [where now = 0]) (simp_all add: none now)
  moreover have "bulk_step ?q ?k ?d ?b1 ?b2" by (rule bulk_step.missed [where now = 0]) (simp_all add: none now)
  moreover have "bulk_step ?q ?k ?d ?b2 ?b3" by (rule bulk_step.acquired) simp_all
  moreover have "bulk_step ?q ?k ?d ?b3 ?b4"
    using bulk_step.executed [of ?b3 0 ?d 0 ?q "Ok ?x" a' ?k] small by (simp add: none now run produced_def)
  moreover have "bulk_step ?q ?k ?d ?b4 ?b5" by (rule bulk_step.acquired) simp_all
  moreover have "bulk_step ?q ?k ?d ?b5 ?b6"
    by (rule bulk_step.replayed [where now = 0]) (simp_all add: keyed_lookup [OF sample_request_keyed c(1) now] now)
  ultimately have "(bulk_step ?q ?k ?d)\<^sup>*\<^sup>* ?b0 ?b6"
    by (meson converse_rtranclp_into_rtranclp r_into_rtranclp)
  then show ?thesis using c(2) by (intro exI [of _ ?b6] exI [of _ ?x]) simp
qed

lemma same_key_runs_once_witness:
  "\<exists>b x. (bulk_step sample_request ''k1:00'' first_day)\<^sup>*\<^sup>*
     \<lparr>bk_app = plain_app new_storage, bk_lock = None, bk_pc = (\<lambda>_. Arrived), bk_runs = [], bk_lost = 0\<rparr> b \<and>
     bk_pc b 0 = Returned (Ok x) \<and> bk_pc b 1 = Returned (Ok x) \<and> bk_runs b = [x] \<and>
     (\<forall>i y. bk_pc b i = Returned (Ok y) \<longrightarrow> y = x)"
proof -
  obtain b x where run: "(bulk_step sample_request ''k1:00'' first_day)\<^sup>*\<^sup>*
      \<lparr>bk_app = plain_app new_storage, bk_lock = None, bk_pc = (\<lambda>_. Arrived), bk_runs = [], bk_lost = 0\<rparr> b"
      "bk_pc b 0 = Returned (Ok x)" "bk_pc b 1 = Returned (Ok x)" "bk_runs b = [x]" "bk_lost b = 0"
    using sample_run by blast
  have "\<forall>t. first_day t \<longrightarrow> co_get (lib_responses (rq_libs sample_request)) (ap_idempotency (plain_app new_storage)) t ''k1:00'' = None"
    by (simp add: sample_request_def plain_libs_def ttl_ops_def plain_app_def)
  from same_key_runs_once [OF sample_request_keyed this run(1)] run
  have "\<forall>i y. bk_pc b i = Returned (Ok y) \<longrightarrow> y = x" by (metis list.distinct(1) list.inject)
  with run show ?thesis by blast
qed

end
