(* ===== verification/Page_Api.thy ===== *)
theory Page_Api
  imports Bulk_Api
begin

text \<open>
  The endpoints that manage status pages: pages, components, assets,
  subscribers and maintenance windows
  (\<open>bin/status-server/src/api/status_pages.rs\<close>, \<open>components.rs\<close>,
  \<open>page_assets.rs\<close>, \<open>subscribers.rs\<close>, \<open>maintenance.rs\<close>).
\<close>

section \<open>Status pages\<close>

record new_status_page =
  nsp_slug :: string
  nsp_name :: string
  nsp_enabled :: bool

definition default_branding :: public_org_branding where
  "default_branding = \<lparr>br_display_name = None, br_about = None, br_brand_color = None, br_logo_hash = None,
     br_show_powered_by = None, br_style = StyleDefault\<rparr>"

definition list_status_pages_endpoint :: "('pc, 'ic, status_page list) handler" where
  "list_status_pages_endpoint = and_then (reading (\<lambda>s. Ok (list_status_pages s))) (respond 200)"

definition create_status_page_endpoint ::
  "('pc, 'ic) libs \<Rightarrow> instant \<Rightarrow> uuid \<Rightarrow> new_status_page \<Rightarrow> ('pc, 'ic, status_page) handler" where
  "create_status_page_endpoint L now fresh n =
     and_then (with_store (create_status_page
       \<lparr>sp_id = fresh, sp_org_id = nil_uuid, sp_slug = nsp_slug n, sp_name = nsp_name n, sp_enabled = nsp_enabled n,
        sp_branding = default_branding, sp_write_source = Ui, sp_created_at = now, sp_updated_at = now\<rparr>)) (\<lambda>created.
     and_then (invalidate_one_page L fresh) (\<lambda>_. respond 201 created))"

definition get_status_page_endpoint :: "uuid \<Rightarrow> ('pc, 'ic, status_page) handler" where
  "get_status_page_endpoint k = and_then (reading (\<lambda>s. get_status_page s k)) (respond 200)"

definition update_status_page_endpoint ::
  "('pc, 'ic) libs \<Rightarrow> instant \<Rightarrow> uuid \<Rightarrow> status_page_update \<Rightarrow> ('pc, 'ic, status_page) handler" where
  "update_status_page_endpoint L now k u =
     and_then (reading (\<lambda>s. get_status_page s k)) (\<lambda>page.
     and_then (with_store (update_status_page ((status_page_apply_to u page)\<lparr>sp_updated_at := now\<rparr>))) (\<lambda>updated.
     and_then (invalidate_one_page L k) (\<lambda>_. respond 200 updated)))"

definition delete_status_page_endpoint :: "('pc, 'ic) libs \<Rightarrow> uuid \<Rightarrow> ('pc, 'ic, unit) handler" where
  "delete_status_page_endpoint L k =
     and_then (with_store (delete_status_page k)) (\<lambda>_.
     and_then (invalidate_one_page L k) (\<lambda>_. respond 204 ()))"

text \<open>The points carry the instants; printing them in RFC 3339 is the library's.\<close>

definition get_status_page_history :: "uuid \<Rightarrow> ('pc, 'ic, (instant \<times> real) list) handler" where
  "get_status_page_history k =
     and_then (reading (\<lambda>s. get_status_page s k)) (\<lambda>_.
     and_then (reading (\<lambda>s. Ok (list_recent_results s 100))) (\<lambda>results.
     respond 200 (rev (map (\<lambda>r. (cr_timestamp r, real (cr_duration_ms r))) results))))"

section \<open>Components\<close>

record new_status_page_component =
  nspc_target_id :: uuid
  nspc_public_name :: "string option"
  nspc_public_description :: "string option"
  nspc_public_group :: "string option"
  nspc_sort_order :: int

record status_page_component_update =
  spcu_public_name :: "string option option"
  spcu_public_description :: "string option option"
  spcu_public_group :: "string option option"
  spcu_sort_order :: "int option"

definition list_components :: "uuid \<Rightarrow> ('pc, 'ic, status_page_component list) handler" where
  "list_components page_id =
     and_then (reading (\<lambda>s. get_status_page s page_id)) (\<lambda>_.
     and_then (reading (\<lambda>s. Ok (list_status_page_components s page_id))) (respond 200))"

definition add_component ::
  "('pc, 'ic) libs \<Rightarrow> uuid \<Rightarrow> new_status_page_component \<Rightarrow> ('pc, 'ic, status_page_component) handler" where
  "add_component L page_id n =
     and_then (reading (\<lambda>s. get_status_page s page_id)) (\<lambda>page.
     and_then (reading (\<lambda>s. get_target s (nspc_target_id n))) (\<lambda>t.
     let component = \<lparr>spc_target_id = nspc_target_id n, spc_monitor_name = tg_name t, spc_public_name = nspc_public_name n,
           spc_public_description = nspc_public_description n, spc_public_group = nspc_public_group n,
           spc_sort_order = nspc_sort_order n\<rparr>
     in and_then (with_store (set_status_page_component (sp_id page) component)) (\<lambda>_.
        and_then (invalidate_all_pages L) (\<lambda>_. respond 201 component))))"

definition component_patched :: "status_page_component_update \<Rightarrow> status_page_component \<Rightarrow> status_page_component" where
  "component_patched u c =
     patch (spcu_sort_order u) (\<lambda>v c. c\<lparr>spc_sort_order := v\<rparr>)
    (patch (spcu_public_group u) (\<lambda>v c. c\<lparr>spc_public_group := v\<rparr>)
    (patch (spcu_public_description u) (\<lambda>v c. c\<lparr>spc_public_description := v\<rparr>)
    (patch (spcu_public_name u) (\<lambda>v c. c\<lparr>spc_public_name := v\<rparr>) c)))"

definition component_not_found :: "uuid \<Rightarrow> uuid \<Rightarrow> app_error" where
  "component_not_found target_id page_id = app_error.NotFound ''COMPONENT_NOT_FOUND''
     [Lit ''component '', Id target_id, Lit '' not found on page '', Id page_id]"

definition update_component ::
  "('pc, 'ic) libs \<Rightarrow> uuid \<Rightarrow> uuid \<Rightarrow> status_page_component_update \<Rightarrow> ('pc, 'ic, status_page_component) handler" where
  "update_component L page_id target_id u =
     and_then (reading (\<lambda>s. case find (\<lambda>c. spc_target_id c = target_id) (list_status_page_components s page_id) of
         Some c \<Rightarrow> Ok (component_patched u c)
       | None \<Rightarrow> Err (component_not_found target_id page_id))) (\<lambda>component.
     and_then (with_store (set_status_page_component page_id component)) (\<lambda>_.
     and_then (invalidate_all_pages L) (\<lambda>_. respond 200 component)))"

definition remove_component :: "('pc, 'ic) libs \<Rightarrow> uuid \<Rightarrow> uuid \<Rightarrow> ('pc, 'ic, unit) handler" where
  "remove_component L page_id target_id =
     and_then (with_store (delete_status_page_component page_id target_id)) (\<lambda>_.
     and_then (invalidate_all_pages L) (\<lambda>_. respond 204 ()))"

definition reorder_components ::
  "('pc, 'ic) libs \<Rightarrow> uuid \<Rightarrow> uuid list \<Rightarrow> ('pc, 'ic, status_page_component list) handler" where
  "reorder_components L page_id target_ids =
     (if target_ids = [] then refuse (bad_request ''EMPTY_REORDER'' [Lit ''reorder requires at least one target id''])
      else if length target_ids > 500
      then refuse (bad_request ''REORDER_TOO_LARGE'' [Lit ''reorder accepts at most 500 target ids per request''])
      else
        and_then (reading (\<lambda>s. get_status_page s page_id)) (\<lambda>_.
        and_then (with_store (reorder_status_page_components page_id target_ids)) (\<lambda>_.
        and_then (invalidate_all_pages L) (\<lambda>_.
        and_then (reading (\<lambda>s. Ok (list_status_page_components s page_id))) (respond 200)))))"

section \<open>Assets\<close>

definition parse_slot :: "string \<Rightarrow> app_error + asset_slot" where
  "parse_slot slot =
     (case slot_parse slot of
        Some x \<Rightarrow> Ok x
      | None \<Rightarrow> Err (bad_request ''UNKNOWN_ASSET_SLOT''
          [Lit ''unknown asset slot `'', Lit slot, Lit ''`; supported slots: logo'']))"

definition content_type_from_headers :: "http_headers \<Rightarrow> app_error + string" where
  "content_type_from_headers h =
     (if \<not> hd_has h ''content-type''
      then Err (bad_request ''MISSING_CONTENT_TYPE'' [Lit ''asset upload requires a Content-Type header''])
      else case hd_text h ''content-type'' of
          None \<Rightarrow> Err (bad_request ''INVALID_CONTENT_TYPE'' [Lit ''Content-Type header is not valid UTF-8''])
        | Some raw \<Rightarrow>
           (let mime = trim (hd (split_char CHR '';'' raw))
            in if mime = [] then Err (bad_request ''INVALID_CONTENT_TYPE'' [Lit ''Content-Type header is empty''])
               else Ok mime))"

record asset_meta =
  am_slot :: string
  am_content_type :: string
  am_hash :: string
  am_data :: "string option"
  am_created_at :: instant
  am_updated_at :: instant

definition asset_meta_of :: "(8 word list \<Rightarrow> string) \<Rightarrow> page_asset \<Rightarrow> asset_meta" where
  "asset_meta_of b64 asset =
     \<lparr>am_slot = slot_as_str (pa_slot asset), am_content_type = pa_content_type asset, am_hash = pa_hash asset,
      am_data = Some (b64 (pa_data asset)), am_created_at = pa_created_at asset, am_updated_at = pa_updated_at asset\<rparr>"

definition asset_allowed :: "asset_slot \<Rightarrow> string \<Rightarrow> 8 word list \<Rightarrow> app_error + unit" where
  "asset_allowed slot ct body =
     (let policy = slot_policy_of slot in
      if ct \<notin> set (pol_allowed_content_types policy)
      then Err (bad_request ''UNSUPPORTED_ASSET_MIME''
        ([Lit ''slot `'', Lit (slot_as_str slot), Lit ''` does not accept `'', Lit ct, Lit ''`; allowed: ''] @
         map Lit (pol_allowed_content_types policy)))
      else if length body > pol_max_byte_size policy
      then Err (PayloadTooLarge ''ASSET_TOO_LARGE''
        [Lit ''slot `'', Lit (slot_as_str slot), Lit ''` accepts at most '', Num (int (pol_max_byte_size policy)),
         Lit '' bytes; got '', Num (int (length body))])
      else Ok ())"

definition upload_asset ::
  "('pc, 'ic) libs \<Rightarrow> (8 word list \<Rightarrow> string) \<Rightarrow> instant \<Rightarrow> uuid \<Rightarrow> string \<Rightarrow> http_headers \<Rightarrow> 8 word list \<Rightarrow>
   ('pc, 'ic, asset_meta) handler" where
  "upload_asset L b64 now page_id slot_text h body =
     and_then (reading (\<lambda>_. parse_slot slot_text)) (\<lambda>slot.
     and_then (reading (\<lambda>s. get_status_page s page_id)) (\<lambda>page.
     and_then (reading (\<lambda>_. content_type_from_headers h)) (\<lambda>ct.
     and_then (reading (\<lambda>_. asset_allowed slot ct body)) (\<lambda>_.
     and_then (with_store (upload_page_asset (lib_sha256_hex L) now (sp_id page) slot ct body)) (\<lambda>asset.
     and_then (invalidate_one_page L (sp_id page)) (\<lambda>_. respond 201 (asset_meta_of b64 asset)))))))"

definition asset_not_found :: "string \<Rightarrow> uuid \<Rightarrow> app_error" where
  "asset_not_found slot_text page_id = app_error.NotFound ''ASSET_NOT_FOUND''
     [Lit ''no asset in slot `'', Lit slot_text, Lit ''` for page '', Id page_id]"

definition get_asset :: "uuid \<Rightarrow> string \<Rightarrow> ('pc, 'ic, string \<times> 8 word list) handler" where
  "get_asset page_id slot_text =
     and_then (reading (\<lambda>_. parse_slot slot_text)) (\<lambda>slot.
     and_then (reading (\<lambda>s. get_status_page s page_id)) (\<lambda>_.
     and_then (reading (\<lambda>s. case get_page_asset s page_id slot of
         Some asset \<Rightarrow> Ok asset | None \<Rightarrow> Err (asset_not_found slot_text page_id))) (\<lambda>asset.
     respond 200 (pa_content_type asset, pa_data asset))))"

definition delete_asset :: "('pc, 'ic) libs \<Rightarrow> uuid \<Rightarrow> string \<Rightarrow> ('pc, 'ic, unit) handler" where
  "delete_asset L page_id slot_text =
     and_then (reading (\<lambda>_. parse_slot slot_text)) (\<lambda>slot.
     and_then (reading (\<lambda>s. get_status_page s page_id)) (\<lambda>_.
     and_then (with_store (delete_page_asset page_id slot)) (\<lambda>_.
     and_then (invalidate_one_page L page_id) (\<lambda>_. respond 204 ()))))"

definition list_assets :: "(8 word list \<Rightarrow> string) \<Rightarrow> uuid \<Rightarrow> ('pc, 'ic, asset_meta list) handler" where
  "list_assets b64 page_id =
     and_then (reading (\<lambda>s. get_status_page s page_id)) (\<lambda>_.
     and_then (reading (\<lambda>s. Ok (map (\<lambda>a. (asset_meta_of b64 a)\<lparr>am_data := None\<rparr>) (list_page_assets s page_id)))) (respond 200))"

section \<open>Subscribers\<close>

record new_subscriber_body =
  nsb_channel :: subscriber_channel
  nsb_target :: string
  nsb_config :: json

definition list_subscribers_endpoint :: "uuid \<Rightarrow> ('pc, 'ic, subscriber list) handler" where
  "list_subscribers_endpoint page_id =
     and_then (reading (\<lambda>s. get_status_page s page_id)) (\<lambda>_.
     and_then (reading (\<lambda>s. Ok (list_subscribers s page_id))) (respond 200))"

definition create_subscriber_endpoint ::
  "instant \<Rightarrow> uuid \<Rightarrow> uuid \<Rightarrow> new_subscriber_body \<Rightarrow> ('pc, 'ic, subscriber) handler" where
  "create_subscriber_endpoint now fresh page_id b =
     and_then (reading (\<lambda>s. get_status_page s page_id)) (\<lambda>page.
     and_then (with_store (create_subscriber
       \<lparr>sub_id = fresh, sub_status_page_id = sp_id page, sub_org_id = sp_org_id page, sub_channel = nsb_channel b,
        sub_target = nsb_target b, sub_config = nsb_config b, sub_verified_at = None, sub_created_at = now,
        sub_updated_at = now\<rparr>)) (respond 201))"

definition delete_subscriber_endpoint :: "uuid \<Rightarrow> uuid \<Rightarrow> ('pc, 'ic, unit) handler" where
  "delete_subscriber_endpoint page_id subscriber_id =
     and_then (with_store (delete_subscriber subscriber_id)) (\<lambda>_. respond 204 ())"

definition verify_subscriber_endpoint :: "instant \<Rightarrow> uuid \<Rightarrow> uuid \<Rightarrow> ('pc, 'ic, subscriber) handler" where
  "verify_subscriber_endpoint now page_id subscriber_id =
     and_then (reading (\<lambda>s. case find (\<lambda>x. sub_id x = subscriber_id) (list_subscribers s page_id) of
         Some x \<Rightarrow> Ok x
       | None \<Rightarrow> Err (app_error.NotFound ''SUBSCRIBER_NOT_FOUND''
           [Lit ''subscriber '', Id subscriber_id, Lit '' not found on page '', Id page_id]))) (\<lambda>x.
     if is_verified x then respond 200 x
     else and_then (with_store (verify_subscriber now subscriber_id)) (respond 200))"

section \<open>Maintenance windows\<close>

record new_maintenance_window =
  nmw_title :: string
  nmw_description :: "string option"
  nmw_starts_at :: instant
  nmw_ends_at :: instant
  nmw_component_ids :: "uuid list"

record maintenance_window_update =
  mwu_title :: "string option"
  mwu_description :: "string option"
  mwu_starts_at :: "instant option"
  mwu_ends_at :: "instant option"
  mwu_component_ids :: "uuid list option"

definition invalid_window :: app_error where
  "invalid_window = BadRequest ''INVALID_WINDOW'' [Lit ''ends_at must be after starts_at''] None"

definition list_maintenance_windows_endpoint :: "instant \<Rightarrow> maintenance_filter \<Rightarrow> ('pc, 'ic, maintenance_window list) handler" where
  "list_maintenance_windows_endpoint now f = and_then (reading (\<lambda>s. Ok (list_maintenance_windows s now f))) (respond 200)"

definition create_maintenance_window_endpoint ::
  "('pc, 'ic) libs \<Rightarrow> instant \<Rightarrow> uuid \<Rightarrow> new_maintenance_window \<Rightarrow> ('pc, 'ic, maintenance_window) handler" where
  "create_maintenance_window_endpoint L now fresh n =
     (if nmw_ends_at n \<le> nmw_starts_at n then refuse invalid_window
      else
        and_then (with_store (create_maintenance_window
          \<lparr>mw_id = fresh, mw_title = nmw_title n, mw_description = nmw_description n, mw_starts_at = nmw_starts_at n,
           mw_ends_at = nmw_ends_at n, mw_component_ids = nmw_component_ids n, mw_created_at = now, mw_updated_at = now,
           mw_write_source = Ui\<rparr>)) (\<lambda>created.
        and_then (invalidate_all_pages L) (\<lambda>_. respond 201 created)))"

definition window_patched :: "maintenance_window_update \<Rightarrow> maintenance_window \<Rightarrow> maintenance_window" where
  "window_patched u w =
     patch (mwu_component_ids u) (\<lambda>v w. w\<lparr>mw_component_ids := v\<rparr>)
    (patch (mwu_ends_at u) (\<lambda>v w. w\<lparr>mw_ends_at := v\<rparr>)
    (patch (mwu_starts_at u) (\<lambda>v w. w\<lparr>mw_starts_at := v\<rparr>)
    (patch (mwu_description u) (\<lambda>v w. w\<lparr>mw_description := Some v\<rparr>)
    (patch (mwu_title u) (\<lambda>v w. w\<lparr>mw_title := v\<rparr>) w))))"

definition get_maintenance_window_endpoint :: "uuid \<Rightarrow> ('pc, 'ic, maintenance_window) handler" where
  "get_maintenance_window_endpoint k = and_then (reading (\<lambda>s. get_maintenance_window s k)) (respond 200)"

definition update_maintenance_window_endpoint ::
  "('pc, 'ic) libs \<Rightarrow> instant \<Rightarrow> uuid \<Rightarrow> maintenance_window_update \<Rightarrow> ('pc, 'ic, maintenance_window) handler" where
  "update_maintenance_window_endpoint L now k u =
     and_then (reading (\<lambda>s. get_maintenance_window s k)) (\<lambda>w0.
     let w = window_patched u w0 in
     if mw_ends_at w \<le> mw_starts_at w then refuse invalid_window
     else and_then (with_store (update_maintenance_window (w\<lparr>mw_updated_at := now\<rparr>))) (\<lambda>updated.
          and_then (invalidate_all_pages L) (\<lambda>_. respond 200 updated)))"

definition delete_maintenance_window_endpoint :: "('pc, 'ic) libs \<Rightarrow> uuid \<Rightarrow> ('pc, 'ic, unit) handler" where
  "delete_maintenance_window_endpoint L k =
     and_then (with_store (delete_maintenance_window k)) (\<lambda>_.
     and_then (invalidate_all_pages L) (\<lambda>_. respond 204 ()))"

section \<open>Reordering the components of a page\<close>

definition components_keyed :: "mem \<Rightarrow> bool" where
  "components_keyed s \<longleftrightarrow> hm_ok (m_status_page_components s) \<and>
     (\<forall>((p, k), c) \<in> set (m_status_page_components s). spc_target_id c = k)"

definition bound_targets :: "mem \<Rightarrow> uuid \<Rightarrow> uuid set" where
  "bound_targets s page = {k. hm_get (m_status_page_components s) (page, k) \<noteq> None}"

lemma wrap_i32_small: "i < 2 ^ 31 \<Longrightarrow> wrap_i32 (int i) = int i"
  by (simp add: wrap_i32_def)

lemma reorder_loop_other:
  "p' \<noteq> p \<or> k \<notin> set ids \<Longrightarrow> hm_get (reorder_loop p i ids m) (p', k) = hm_get m (p', k)"
  by (induction ids arbitrary: i m) (auto split: option.split)

lemma reorder_loop_nth:
  "distinct ids \<Longrightarrow> j < length ids \<Longrightarrow> hm_get (reorder_loop p i ids m) (p, ids ! j) =
     map_option (\<lambda>c. c\<lparr>spc_sort_order := wrap_i32 (int (i + j))\<rparr>) (hm_get m (p, ids ! j))"
proof (induction ids arbitrary: i j m)
  case (Cons t ids)
  show ?case
  proof (cases j)
    case 0
    then show ?thesis using Cons.prems by (auto simp: reorder_loop_other split: option.split)
  next
    case (Suc j')
    then have "ids ! j' \<noteq> t" using Cons.prems by auto
    then show ?thesis using Suc Cons.prems Cons.IH [of j' "Suc i"] by (auto split: option.split)
  qed
qed simp

lemma reorder_loop_ok: "hm_ok m \<Longrightarrow> hm_ok (reorder_loop p i ids m)"
  by (induction ids arbitrary: i m) (auto split: option.split)

lemma sorted_by_position:
  fixes pos :: "'a \<Rightarrow> nat"
  assumes "distinct (map pos xs)" "set (map pos xs) = {..<n}"
    and "sorted (map pos xs)"
  shows "map pos xs = [0..<n]"
  using assms by (intro sorted_distinct_set_unique) auto

lemma page_rows:
  assumes "hm_ok m" "\<And>k c. hm_get m (page, k) = Some c \<Longrightarrow> tid c = k"
  defines "rows \<equiv> map snd (filter (\<lambda>((sp, _), _). sp = page) m)"
  shows "set rows = {c. \<exists>k. hm_get m (page, k) = Some c}" "distinct (map tid rows)"
proof -
  have get: "((p, k), c) \<in> set m \<longleftrightarrow> hm_get m (p, k) = Some c" for p k c
    using assms(1) by (simp add: hm_ok_def hm_get_def)
  then show "set rows = {c. \<exists>k. hm_get m (page, k) = Some c}" by (force simp: rows_def)
  have "map tid rows = map (snd \<circ> fst) (filter (\<lambda>((sp, _), _). sp = page) m)"
    using assms(2) get by (auto simp: rows_def)
  moreover have "distinct (map (snd \<circ> fst) (filter (\<lambda>((sp, _), _). sp = page) m))"
    using assms(1) unfolding hm_ok_def by (induction m) (auto simp: image_iff)
  ultimately show "distinct (map tid rows)" by simp
qed

lemma listed_in_requested_order:
  assumes "components_keyed s" "distinct ids" "set ids = bound_targets s page" "length ids \<le> 500"
    and "s' = snd (reorder_status_page_components page ids s)"
  shows "map spc_target_id (list_status_page_components s' page) = ids"
proof -
  define m where "m = m_status_page_components s"
  define m' where "m' = reorder_loop page 0 ids m"
  have tid: "hm_get m (page, k) = Some c \<Longrightarrow> spc_target_id c = k" for k c
    using assms(1) by (auto simp: components_keyed_def m_def dest: hm_get_entry)
  have row: "\<exists>j < length ids. ids ! j = k \<and> spc_target_id c = k \<and> spc_sort_order c = int j"
    if "hm_get m' (page, k) = Some c" for k c
  proof -
    have "k \<in> set ids"
      using that reorder_loop_other [of page page k ids 0 m] assms(3) by (auto simp: m'_def bound_targets_def m_def)
    then obtain j where "j < length ids" "k = ids ! j" by (auto simp: in_set_conv_nth)
    then show ?thesis
      using that reorder_loop_nth [of ids j page 0 m] assms(2,4) tid [of k] wrap_i32_small [of j] by (auto simp: m'_def)
  qed
  have present: "hm_get m' (page, ids ! j) \<noteq> None" if "j < length ids" for j
    using that nth_mem [OF that] reorder_loop_nth [OF assms(2) that] assms(3) by (auto simp: m'_def m_def bound_targets_def)
  define cs where "cs = list_status_page_components s' page"
  define rows where "rows = map snd (filter (\<lambda>((sp, _), _). sp = page) m')"
  have cs: "cs = sort_key (\<lambda>c. (spc_sort_order c, spc_monitor_name c)) rows"
    by (simp add: cs_def rows_def assms(5) list_status_page_components_def reorder_status_page_components_def m'_def m_def)
  have ok: "hm_ok m'" using assms(1) by (simp add: m'_def m_def components_keyed_def reorder_loop_ok)
  have rows: "set rows = {c. \<exists>k. hm_get m' (page, k) = Some c}" "distinct (map spc_target_id rows)"
    using page_rows [OF ok, of page spc_target_id] row by (auto simp: rows_def)
  define pos where "pos c = nat (spc_sort_order c)" for c :: status_page_component
  have nth: "pos c < length ids \<and> ids ! pos c = spc_target_id c \<and> 0 \<le> spc_sort_order c" if "c \<in> set cs" for c
    using that rows row by (fastforce simp: cs pos_def)
  have "map spc_target_id cs = map (\<lambda>i. ids ! i) (map pos cs)" using nth by simp
  moreover have "map pos cs = [0..<length ids]"
  proof (rule sorted_by_position)
    have "distinct (map spc_target_id cs)"
      using rows(2) by (simp add: cs distinct_map)
    then show "distinct (map pos cs)"
      using nth by (auto simp: distinct_map inj_on_def) metis
    show "set (map pos cs) = {..<length ids}"
    proof
      show "set (map pos cs) \<subseteq> {..<length ids}" using nth by auto
      show "{..<length ids} \<subseteq> set (map pos cs)"
      proof
        fix j assume j: "j \<in> {..<length ids}"
        then obtain c where c: "hm_get m' (page, ids ! j) = Some c" using present [of j] by auto
        then have "c \<in> set cs" using rows(1) by (auto simp: cs)
        moreover have "pos c = j" using row [OF c] j assms(2) by (auto simp: pos_def nth_eq_iff_index_eq)
        ultimately show "j \<in> set (map pos cs)" by force
      qed
    qed
    have "sorted (map (\<lambda>c. (spc_sort_order c, spc_monitor_name c)) cs)" by (simp add: cs)
    then have "sorted (map spc_sort_order cs)"
      by (auto simp: sorted_map less_eq_prod_def elim!: sorted_wrt_mono_rel [rotated])
    then show "sorted (map pos cs)" using nth by (auto simp: sorted_map pos_def elim!: sorted_wrt_mono_rel [rotated] intro: nat_mono)
  qed
  ultimately show ?thesis by (simp only: cs_def map_nth)
qed

text \<open>
  Reordering a page.  A request that names every component of an existing
  page once, at most 500 of them, is answered with the components in exactly
  the requested order, and a later listing of the page gives the same answer.
\<close>

theorem reorder_gives_requested_order:
  assumes "components_keyed (ap_storage a)" "get_status_page (ap_storage a) page_id = Ok page"
    and "distinct ids" "set ids = bound_targets (ap_storage a) page_id" "ids \<noteq> []" "length ids \<le> 500"
  shows "\<exists>cs a'. reorder_components L page_id ids a = (Ok (200, cs), a') \<and> map spc_target_id cs = ids \<and>
    fst (list_components page_id a') = Ok (200, cs)"
  using assms listed_in_requested_order [OF assms(1,3,4,6) refl]
  by (auto simp: reorder_components_def list_components_def handler_simps get_status_page_def
      reorder_status_page_components_def list_status_page_components_def)

definition two_component_store :: mem where
  "two_component_store = new_storage\<lparr>
     m_status_pages := [(1, \<lparr>sp_id = 1, sp_org_id = nil_uuid, sp_slug = ''main'', sp_name = ''Main'', sp_enabled = True,
        sp_branding = default_branding, sp_write_source = Ui, sp_created_at = 0, sp_updated_at = 0\<rparr>)],
     m_status_page_components := map (\<lambda>k. ((1, k), \<lparr>spc_target_id = k, spc_monitor_name = ''m'', spc_public_name = None,
        spc_public_description = None, spc_public_group = None, spc_sort_order = 0\<rparr>)) [4, 5]\<rparr>"

lemma reorder_gives_requested_order_witness:
  "\<exists>cs a'. reorder_components plain_libs 1 [5, 4] (plain_app two_component_store) = (Ok (200, cs), a') \<and>
     map spc_target_id cs = [5, 4]"
proof -
  have "components_keyed two_component_store" "set [5, 4] = bound_targets two_component_store 1"
    by (auto simp: components_keyed_def bound_targets_def two_component_store_def hm_ok_def hm_get_def)
  moreover obtain page where "get_status_page two_component_store 1 = Ok page"
    by (simp add: get_status_page_def two_component_store_def hm_get_def)
  ultimately show ?thesis
    using reorder_gives_requested_order [of "plain_app two_component_store" 1 page "[5, 4]" plain_libs]
    by (auto simp: plain_app_def)
qed

section \<open>Assets: what is accepted is served back\<close>

definition asset_acceptable :: "mem \<Rightarrow> uuid \<Rightarrow> string \<Rightarrow> http_headers \<Rightarrow> 8 word list \<Rightarrow> bool" where
  "asset_acceptable s page_id slot_text h body \<longleftrightarrow>
     slot_text = ''logo'' \<and> is_ok (get_status_page s page_id) \<and> hd_has h ''content-type'' \<and>
     (case hd_text h ''content-type'' of
        None \<Rightarrow> False
      | Some raw \<Rightarrow> trim (hd (split_char CHR '';'' raw)) \<in> {''image/png'', ''image/jpeg'', ''image/webp''}) \<and>
     length body \<le> 1048576"

text \<open>
  Page assets.  An upload is accepted exactly when the slot is the logo,
  the page exists, the content type (its parameters cut off) is one of the
  three image types and the body has at most one mebibyte; otherwise nothing
  is stored.  After an accepted upload the asset endpoint serves the uploaded
  bytes under that content type.
\<close>

theorem uploaded_asset_served:
  assumes "\<And>k p. get_status_page (ap_storage a) k = Ok p \<Longrightarrow> sp_id p = k"
    and "upload_asset L b64 now page_id slot_text h body a = (r, a')"
  shows "(is_ok r \<longleftrightarrow> asset_acceptable (ap_storage a) page_id slot_text h body) \<and>
    (if is_ok r
     then fst (get_asset page_id slot_text a') =
       Ok (200, trim (hd (split_char CHR '';'' (the (hd_text h ''content-type'')))), body)
     else a' = a)"
proof -
  note defs = upload_asset_def get_asset_def parse_slot_def slot_parse_def content_type_from_headers_def asset_allowed_def
    handler_simps Let_def upload_page_asset_def get_page_asset_def asset_acceptable_def get_status_page_def bad_request_def
  show ?thesis
  proof (cases "asset_acceptable (ap_storage a) page_id slot_text h body")
    case True
    then obtain p where page: "get_status_page (ap_storage a) page_id = Ok p" "sp_id p = page_id"
      using assms(1) [of page_id] by (cases "get_status_page (ap_storage a) page_id") (auto simp: asset_acceptable_def)
    then show ?thesis
      using True assms(2) by (auto simp: defs split: option.splits if_splits)
  next
    case False
    then show ?thesis
      using assms(2) by (auto simp: defs split: option.splits if_splits)
  qed
qed

definition png_headers :: http_headers where
  "png_headers = \<lparr>hd_text = (\<lambda>n. if n = ''content-type'' then Some ''image/png'' else None), hd_has = (\<lambda>n. n = ''content-type'')\<rparr>"

lemma uploaded_asset_served_witness:
  "let a = plain_app two_component_store; out = upload_asset plain_libs (\<lambda>_. []) 3 1 ''logo'' png_headers [7, 8] a in
     is_ok (fst out) \<and> fst (get_asset 1 ''logo'' (snd out)) = Ok (200, ''image/png'', [7, 8])"
proof -
  let ?a = "plain_app two_component_store"
  have "\<And>k p. get_status_page (ap_storage ?a) k = Ok p \<Longrightarrow> sp_id p = k"
    by (auto simp: get_status_page_def plain_app_def two_component_store_def hm_get_def split: if_splits)
  moreover have mime: "trim (hd (split_char CHR '';'' (the (hd_text png_headers ''content-type'')))) = ''image/png''"
    by code_simp
  moreover have "asset_acceptable (ap_storage ?a) 1 ''logo'' png_headers [7, 8]"
    using mime by (simp add: asset_acceptable_def get_status_page_def plain_app_def two_component_store_def hm_get_def
        png_headers_def)
  ultimately show ?thesis
    using uploaded_asset_served [of ?a plain_libs "\<lambda>_. []" 3 1 "''logo''" png_headers "[7, 8]"
        "fst (upload_asset plain_libs (\<lambda>_. []) 3 1 ''logo'' png_headers [7, 8] ?a)"
        "snd (upload_asset plain_libs (\<lambda>_. []) 3 1 ''logo'' png_headers [7, 8] ?a)"]
    by (simp only: Let_def surjective_pairing [symmetric] if_True simp_thms)
qed

section \<open>Maintenance windows stay ordered\<close>

text \<open>The requests that write maintenance windows, each with its clock reading and fresh id.\<close>

datatype window_request =
    CreateWindow instant uuid new_maintenance_window
  | UpdateWindow instant uuid maintenance_window_update
  | DeleteWindow uuid

fun window_step :: "('pc, 'ic) libs \<Rightarrow> window_request \<Rightarrow> ('pc, 'ic) app_state \<Rightarrow> ('pc, 'ic) app_state" where
  "window_step L (CreateWindow now fresh n) a = snd (create_maintenance_window_endpoint L now fresh n a)"
| "window_step L (UpdateWindow now k u) a = snd (update_maintenance_window_endpoint L now k u a)"
| "window_step L (DeleteWindow k) a = snd (delete_maintenance_window_endpoint L k a)"

definition windows_ordered :: "('pc, 'ic) app_state \<Rightarrow> bool" where
  "windows_ordered a \<longleftrightarrow> (\<forall>(k, w) \<in> set (m_maintenance_windows (ap_storage a)). mw_starts_at w < mw_ends_at w)"

lemma window_step_ordered: "windows_ordered a \<Longrightarrow> windows_ordered (window_step L r a)"
proof (cases r)
  case (CreateWindow now fresh n)
  assume "windows_ordered a"
  with CreateWindow show ?thesis
    using hm_insert_entries by (fastforce simp: create_maintenance_window_endpoint_def handler_simps
      create_maintenance_window_def windows_ordered_def)
next
  case (UpdateWindow now k u)
  assume "windows_ordered a"
  with UpdateWindow show ?thesis
    using hm_insert_entries by (fastforce simp: update_maintenance_window_endpoint_def handler_simps Let_def
      update_maintenance_window_def windows_ordered_def split: sum.split)
next
  case (DeleteWindow k)
  assume "windows_ordered a"
  with DeleteWindow show ?thesis
    using hm_remove_entries by (fastforce simp: delete_maintenance_window_endpoint_def handler_simps Let_def
      delete_maintenance_window_def windows_ordered_def split: option.split)
qed

interpretation window_runs: step_invariant "\<lambda>a a'. \<exists>r. a' = window_step L r a" windows_ordered for L
  by unfold_locales (auto intro: window_step_ordered)

lemma lists_partition:
  "\<forall>w \<in> set ws. mw_starts_at w < mw_ends_at w \<Longrightarrow>
   mset (filter (maintenance_selected maintenance_filter.Active now) ws) +
   mset (filter (maintenance_selected maintenance_filter.Upcoming now) ws) +
   mset (filter (maintenance_selected maintenance_filter.Past now) ws) = mset ws"
  by (induction ws) auto

lemma window_run_steps: "(\<lambda>a a'. \<exists>r. a' = window_step L r a)\<^sup>*\<^sup>* a (fold (window_step L) rs a)"
  by (induction rs arbitrary: a) (auto intro: converse_rtranclp_into_rtranclp)

text \<open>
  Maintenance windows.  Whatever sequence of create, update and delete
  requests the endpoints are sent, every stored window ends after it starts;
  so at any time the active, the upcoming and the past listing together show
  every window exactly once.
\<close>

theorem windows_listed_once:
  assumes "m_maintenance_windows (ap_storage a) = []"
  shows "let s = ap_storage (fold (window_step L) rs a) in
    (\<forall>w \<in> set (list_maintenance_windows s now maintenance_filter.All). mw_starts_at w < mw_ends_at w) \<and>
    mset (list_maintenance_windows s now maintenance_filter.Active) +
    mset (list_maintenance_windows s now maintenance_filter.Upcoming) +
    mset (list_maintenance_windows s now maintenance_filter.Past) =
    mset (list_maintenance_windows s now maintenance_filter.All)"
proof -
  have "windows_ordered (fold (window_step L) rs a)"
    by (rule window_runs.run_good [OF window_run_steps]) (simp add: windows_ordered_def assms)
  then have "\<forall>w \<in> set (hm_values (m_maintenance_windows (ap_storage (fold (window_step L) rs a)))). mw_starts_at w < mw_ends_at w"
    by (auto simp: windows_ordered_def hm_values_def)
  from this lists_partition [OF this] show ?thesis
    by (auto simp: Let_def list_maintenance_windows_def)
qed

lemma windows_listed_once_witness:
  "m_maintenance_windows new_storage = [] \<and>
   (let s = ap_storage (fold (window_step plain_libs) [CreateWindow 0 1 \<lparr>nmw_title = ''db'', nmw_description = None,
        nmw_starts_at = 5, nmw_ends_at = 9, nmw_component_ids = []\<rparr>] (plain_app new_storage)) in
    length (list_maintenance_windows s 6 maintenance_filter.Active) = 1 \<and>
    length (list_maintenance_windows s 6 maintenance_filter.Upcoming) + length (list_maintenance_windows s 6 maintenance_filter.Past) = 0)"
proof -
  let ?rs = "[CreateWindow 0 1 \<lparr>nmw_title = ''db'', nmw_description = None,
        nmw_starts_at = 5, nmw_ends_at = 9, nmw_component_ids = []\<rparr>]"
  let ?s = "ap_storage (fold (window_step plain_libs) ?rs (plain_app new_storage))"
  have s: "m_maintenance_windows ?s = [(1, \<lparr>mw_id = 1, mw_title = ''db'', mw_description = None, mw_starts_at = 5, mw_ends_at = 9,
        mw_component_ids = [], mw_created_at = 0, mw_updated_at = 0, mw_write_source = Ui\<rparr>)]"
    by (simp add: create_maintenance_window_endpoint_def handler_simps create_maintenance_window_def plain_app_def
        new_storage_def hm_get_def hm_insert_def)
  have "m_maintenance_windows (ap_storage (plain_app new_storage)) = []"
    by (simp add: plain_app_def new_storage_def)
  from windows_listed_once [OF this, of plain_libs ?rs 6, unfolded Let_def, THEN conjunct2, THEN arg_cong [where f = size]]
  show ?thesis
    using s by (simp add: Let_def list_maintenance_windows_def hm_values_def new_storage_def)
qed

end
