(* ===== verification/Markup.thy ===== *)
theory Markup
  imports Public_Status Condition_Dsl
begin

text \<open>
  The documents the server prints for feed readers, browsers and mail clients:
  the RSS feed, the status badge and the page that answers a verification link
  (\<open>bin/status-server/src/api/public_api.rs\<close>) and the badges of one monitor
  (\<open>bin/status-server/src/api/badges.rs\<close>).

  The documents contain dashes outside Latin-1, so a document is a list of
  Unicode scalar values; the texts of the store are embedded into it.  Dates
  and ids are printed by the libraries \<open>chrono\<close> and \<open>uuid\<close>, numbers with
  decimals by \<open>format!\<close>: these printers are arguments.
\<close>

section \<open>Escaping\<close>

type_synonym utext = "nat list"

definition uni :: "string \<Rightarrow> utext" where
  "uni s = map of_char s"

definition em_dash :: utext where
  "em_dash = [8212]"

definition nl :: utext where
  "nl = [10]"

definition escape_char :: "nat \<Rightarrow> utext" where
  "escape_char c =
     (if c = 38 then uni ''&amp;'' else if c = 60 then uni ''&lt;'' else if c = 62 then uni ''&gt;''
      else if c = 34 then uni ''&quot;'' else [c])"

definition xml_escape :: "utext \<Rightarrow> utext" where
  "xml_escape s = concat (map escape_char s)"

section \<open>The incident feed\<close>

record printers =
  pr_rfc2822 :: "instant \<Rightarrow> utext"
  pr_uuid :: "uuid \<Rightarrow> utext"

definition rss_link :: "printers \<Rightarrow> utext \<Rightarrow> public_incident \<Rightarrow> utext" where
  "rss_link P base inc = base @ uni ''/incidents/'' @ pr_uuid P (pi_id inc)"

definition rss_description :: "public_incident \<Rightarrow> utext" where
  "rss_description inc =
     uni ''Severity: '' @ uni (severity_as_db_str (pi_severity inc)) @ uni '' '' @ em_dash @ uni '' Phase: '' @
     uni (phase_as_db_str (pi_status_phase inc)) @
     (if pi_updates inc = [] then [] else uni '' '' @ em_dash @ uni '' '' @ uni (piu_message (last (pi_updates inc))))"

definition rss_item :: "printers \<Rightarrow> utext \<Rightarrow> public_incident \<Rightarrow> utext" where
  "rss_item P base inc =
     (let pub_date = pr_rfc2822 P (pi_started_at inc);
          title = xml_escape (uni (pi_title inc));
          desc = xml_escape (rss_description inc);
          link_esc = xml_escape (rss_link P base inc)
      in uni ''    <item>'' @ nl @
         uni ''      <title>'' @ title @ uni ''</title>'' @ nl @
         uni ''      <link>'' @ link_esc @ uni ''</link>'' @ nl @
         uni ''      <guid isPermaLink=\"true\">'' @ link_esc @ uni ''</guid>'' @ nl @
         uni ''      <pubDate>'' @ pub_date @ uni ''</pubDate>'' @ nl @
         uni ''      <description>'' @ desc @ uni ''</description>'' @ nl @
         uni ''    </item>'' @ nl)"

definition render_rss_xml ::
  "printers \<Rightarrow> utext \<Rightarrow> utext \<Rightarrow> utext \<Rightarrow> utext \<Rightarrow> utext \<Rightarrow> public_incident list \<Rightarrow> utext" where
  "render_rss_xml P channel_title channel_link channel_desc last_build_date base incidents =
     uni ''<?xml version=\"1.0\" encoding=\"UTF-8\"?>'' @ nl @
     uni ''<rss version=\"2.0\">'' @ nl @ uni ''  <channel>'' @ nl @
     uni ''    <title>'' @ xml_escape channel_title @ uni ''</title>'' @ nl @
     uni ''    <link>'' @ xml_escape channel_link @ uni ''</link>'' @ nl @
     uni ''    <description>'' @ xml_escape channel_desc @ uni ''</description>'' @ nl @
     uni ''    <lastBuildDate>'' @ last_build_date @ uni ''</lastBuildDate>'' @ nl @
     uni ''    <generator>statuspage</generator>'' @ nl @
     concat (map (rss_item P base) incidents) @
     uni ''  </channel>'' @ nl @ uni ''</rss>'' @ nl"

section \<open>The status badge\<close>

fun badge_color :: "overall_state \<Rightarrow> string" where
  "badge_color overall_state.Operational = ''#22C55E''"
| "badge_color overall_state.Maintenance = ''#F59E0B''"
| "badge_color overall_state.MinorDisruption = ''#F59E0B''"
| "badge_color overall_state.PartialOutage = ''#F97316''"
| "badge_color overall_state.MajorOutage = ''#EF4444''"

text \<open>
  \<open>6.5 * n\<close> is exact in the floating-point format for the lengths that occur,
  and the conversion truncates.
\<close>

definition badge_width :: "nat \<Rightarrow> utext \<Rightarrow> nat" where
  "badge_width least t = max least (length t * 13 div 2)"

definition num_text :: "nat \<Rightarrow> utext" where
  "num_text n = uni (show_nat n)"

definition badge_text_element :: "nat \<Rightarrow> utext \<Rightarrow> utext" where
  "badge_text_element x t =
     uni ''  <text x=\"'' @ num_text x @
     uni ''\" y=\"14\" fill=\"#fff\" font-family=\"Verdana,DejaVu Sans,sans-serif\" font-size=\"11\" text-anchor=\"middle\">'' @
     t @ uni ''</text>'' @ nl"

definition render_badge_svg :: "string \<Rightarrow> string \<Rightarrow> string \<Rightarrow> utext" where
  "render_badge_svg label_text value_text color =
     (let esc_label = xml_escape (uni label_text);
          esc_value = xml_escape (uni value_text);
          label_width = badge_width 40 esc_label;
          value_width = badge_width 60 esc_value;
          total_width = label_width + value_width;
          value_x = label_width + value_width div 2;
          label_x = label_width div 2;
          both = esc_label @ uni '': '' @ esc_value
      in uni ''<svg xmlns=\"http://www.w3.org/2000/svg\" width=\"'' @ num_text total_width @
         uni ''\" height=\"20\" role=\"img\" aria-label=\"'' @ both @ uni ''\">'' @ nl @
         uni ''  <title>'' @ both @ uni ''</title>'' @ nl @
         uni ''  <desc>Status badge '' @ em_dash @ uni '' '' @ both @ uni ''</desc>'' @ nl @
         uni ''  <linearGradient id=\"b\" x2=\"0\" y2=\"100%\">'' @ nl @
         uni ''    <stop offset=\"0\" stop-color=\"#bbb\" stop-opacity=\".1\"/>'' @ nl @
         uni ''    <stop offset=\"1\" stop-opacity=\".1\"/>'' @ nl @
         uni ''  </linearGradient>'' @ nl @
         uni ''  <rect width=\"'' @ num_text total_width @ uni ''\" height=\"20\" fill=\"#555\"/>'' @ nl @
         uni ''  <rect x=\"'' @ num_text label_width @ uni ''\" width=\"'' @ num_text value_width @
         uni ''\" height=\"20\" fill=\"'' @ uni color @ uni ''\"/>'' @ nl @
         uni ''  <rect width=\"'' @ num_text total_width @ uni ''\" height=\"20\" fill=\"url(#b)\"/>'' @ nl @
         badge_text_element label_x esc_label @ badge_text_element value_x esc_value @
         uni ''</svg>'')"

section \<open>The badges of one monitor\<close>

text \<open>\<open>6.4f64.mul_add(n, 10.0) as usize\<close>: the product exceeds \<open>6.4 * n\<close> by less than one tenth.\<close>

definition svg_width :: "string \<Rightarrow> nat" where
  "svg_width t = utf8_len t * 64 div 10 + 10"

definition svg_text :: "nat \<Rightarrow> string \<Rightarrow> string \<Rightarrow> utext" where
  "svg_text x attrs t = uni ''    <text x=\"'' @ num_text x @ uni attrs @ uni ''>'' @ uni t @ uni ''</text>'' @ nl"

definition svg_rect :: "string \<Rightarrow> nat \<Rightarrow> string \<Rightarrow> string \<Rightarrow> utext" where
  "svg_rect start w attrs fill =
     uni ''    <rect '' @ uni start @ uni ''width=\"'' @ num_text w @ uni ''\" height=\"20\" '' @ uni attrs @
     uni ''fill=\"'' @ uni fill @ uni ''\"/>'' @ nl"

definition svg_open :: "nat \<Rightarrow> utext" where
  "svg_open w = uni ''<svg xmlns=\"http://www.w3.org/2000/svg\" width=\"'' @ num_text w @ uni ''\" height=\"20\">'' @ nl"

definition svg_head :: "nat \<Rightarrow> nat \<Rightarrow> string \<Rightarrow> utext" where
  "svg_head label_width value_width color =
     (let total = label_width + value_width
      in svg_open total @
         uni ''  <linearGradient id=\"b\" x2=\"0\" y2=\"100%\">'' @ nl @
         uni ''    <stop offset=\"0\" stop-color=\"#bbb\" stop-opacity=\".1\"/>'' @ nl @
         uni ''    <stop offset=\"1\" stop-opacity=\".1\"/>'' @ nl @
         uni ''  </linearGradient>'' @ nl @
         uni ''  <mask id=\"a\">'' @ nl @ svg_rect [] total ''rx=\"3\" '' ''#fff'' @ uni ''  </mask>'' @ nl @
         uni ''  <g mask=\"url(#a)\">'' @ nl @
         svg_rect [] label_width [] ''#555'' @
         svg_rect (''x=\"'' @ show_nat label_width @ ''\" '') value_width [] color @
         svg_rect [] total [] ''url(#b)'' @
         uni ''  </g>'' @ nl @
         uni ''  <g fill=\"#fff\" text-anchor=\"middle\" font-family=\"DejaVu Sans,Verdana,Geneva,sans-serif\" font-size=\"11\">'' @ nl)"

definition svg_badge :: "string \<Rightarrow> string \<Rightarrow> string \<Rightarrow> utext" where
  "svg_badge label val color =
     (let label_width = svg_width label;
          value_width = svg_width val;
          lx = label_width div 2;
          vx = label_width + value_width div 2
      in svg_head label_width value_width color @
         svg_text lx ''\" y=\"15\" fill=\"#010101\" fill-opacity=\".3\"'' label @
         svg_text lx ''\" y=\"14\"'' label @
         svg_text vx ''\" y=\"15\" fill=\"#010101\" fill-opacity=\".3\"'' val @
         svg_text vx ''\" y=\"14\"'' val @
         uni ''  </g>'' @ nl @ uni ''</svg>'')"

definition uptime_color :: "real \<Rightarrow> string" where
  "uptime_color pct =
     (if pct \<ge> 99.5 then ''brightgreen'' else if pct \<ge> 97.5 then ''green'' else if pct \<ge> 95 then ''yellowgreen''
      else if pct \<ge> 90 then ''yellow'' else if pct \<ge> 80 then ''orange'' else ''red'')"

fun health_value :: "check_status \<Rightarrow> string \<times> string" where
  "health_value Up = (''up'', ''brightgreen'')"
| "health_value check_status.Degraded = (''degraded'', ''yellow'')"
| "health_value Down = (''down'', ''red'')"
| "health_value Error = (''error'', ''lightgrey'')"

definition health_badge :: "mem \<Rightarrow> uuid \<Rightarrow> utext" where
  "health_badge s k =
     (case get_target s k of
        Inl _ \<Rightarrow> svg_badge ''status'' ''unknown'' ''lightgrey''
      | Inr t \<Rightarrow>
         (let (val, color) = (case list_results s k 1 of [] \<Rightarrow> (''no data'', ''lightgrey'') | r # _ \<Rightarrow> health_value (cr_status r))
          in svg_badge (tg_name t) val color))"

fun shields_value :: "check_status \<Rightarrow> string \<times> string" where
  "shields_value Up = (''up'', ''brightgreen'')"
| "shields_value check_status.Degraded = (''degraded'', ''yellow'')"
| "shields_value Down = (''down'', ''red'')"
| "shields_value Error = (''unknown'', ''lightgrey'')"

record shields_json =
  sj_schema_version :: nat
  sj_label :: string
  sj_message :: string
  sj_color :: string

definition health_badge_shields :: "mem \<Rightarrow> uuid \<Rightarrow> shields_json" where
  "health_badge_shields s k =
     (let (val, color) = (case list_results s k 1 of [] \<Rightarrow> (''no data'', ''lightgrey'') | r # _ \<Rightarrow> shields_value (cr_status r))
      in \<lparr>sj_schema_version = 1, sj_label = ''status'', sj_message = val, sj_color = color\<rparr>)"

definition uptime_badge :: "(real \<Rightarrow> string) \<Rightarrow> mem \<Rightarrow> uuid \<Rightarrow> string \<Rightarrow> utext" where
  "uptime_badge fmt1 s k duration =
     (case get_target s k of
        Inl _ \<Rightarrow> svg_badge ''uptime'' ''N/A'' ''lightgrey''
      | Inr t \<Rightarrow>
         (let results = list_results s k 100;
              total = length results;
              up = length (filter (\<lambda>r. cr_status r = Up) results);
              pct = (if total > 0 then real up / real total * 100 else 0)
          in svg_badge (tg_name t) (fmt1 pct @ ''%'') (uptime_color pct)))"

definition response_color :: "nat \<Rightarrow> string" where
  "response_color avg_ms =
     (if avg_ms < 200 then ''brightgreen'' else if avg_ms < 500 then ''green'' else if avg_ms < 1000 then ''yellowgreen''
      else if avg_ms < 2000 then ''yellow'' else if avg_ms < 5000 then ''orange'' else ''red'')"

definition response_time_badge :: "mem \<Rightarrow> uuid \<Rightarrow> string \<Rightarrow> utext" where
  "response_time_badge s k duration =
     (let results = list_results s k 100;
          avg_ms = (if results = [] then 0 else sum_list (map cr_duration_ms results) div length results);
          (val, color) = (if avg_ms = 0 then (''N/A'', ''lightgrey'') else (show_nat avg_ms @ ''ms'', response_color avg_ms))
      in svg_badge ''response time'' val color)"

section \<open>The answer to a verification link\<close>

datatype (plugins only: code) verification_outcome = Verified | Declined | Invalid | ServerError

fun outcome_text :: "verification_outcome \<Rightarrow> string \<times> string" where
  "outcome_text Verified = (''Channel verified'',
     ''Your notification channel is now verified. You will receive incident alerts at this address.'')"
| "outcome_text Declined = (''Channel declined'',
     ''The notification channel has been disabled. You will not receive alerts at this address.'')"
| "outcome_text Invalid = (''Link invalid or expired'',
     ''This verification link is invalid, expired, or already used. Request a new link from your status page settings.'')"
| "outcome_text ServerError = (''Verification failed'',
     ''We couldn'' @ [CHR 0x27] @ ''t complete your request right now. Please try again later, or contact your administrator.'')"

definition verification_response :: "verification_outcome \<Rightarrow> nat \<times> string \<times> utext" where
  "verification_response outcome =
     (let (title, body) = outcome_text outcome in
      (200, ''text/html; charset=utf-8'',
       uni ''<!doctype html>'' @ nl @
       uni ''<html lang=\"en\">'' @ nl @
       uni ''<head>'' @ nl @
       uni ''<meta charset=\"utf-8\">'' @ nl @
       uni ''<meta name=\"viewport\" content=\"width=device-width, initial-scale=1\">'' @ nl @
       uni ''<title>'' @ uni title @ uni ''</title>'' @ nl @
       uni ''<style>'' @ nl @
       uni ''  body { font-family: -apple-system, BlinkMacSystemFont, \"Segoe UI\", Roboto, sans-serif;'' @ nl @
       uni ''         background: #f8fafc; color: #0f172a; margin: 0; padding: 2rem; }'' @ nl @
       uni ''  .card { max-width: 32rem; margin: 2rem auto; background: #fff; border-radius: 12px;'' @ nl @
       uni ''          padding: 2rem; box-shadow: 0 1px 3px rgba(0,0,0,.1); }'' @ nl @
       uni ''  h1 { font-size: 1.25rem; margin: 0 0 1rem; }'' @ nl @
       uni ''  p { margin: 0; line-height: 1.5; color: #475569; }'' @ nl @
       uni ''</style>'' @ nl @
       uni ''</head>'' @ nl @
       uni ''<body>'' @ nl @
       uni ''  <main class=\"card\" role=\"alert\">'' @ nl @
       uni ''    <h1>'' @ uni title @ uni ''</h1>'' @ nl @
       uni ''    <p>'' @ uni body @ uni ''</p>'' @ nl @
       uni ''  </main>'' @ nl @
       uni ''</body>'' @ nl @
       uni ''</html>''))"

section \<open>Escaped text\<close>

text \<open>What a reader of XML makes of character data: the four entities are replaced.\<close>

fun xml_unescape :: "utext \<Rightarrow> utext" where
  "xml_unescape [] = []"
| "xml_unescape (c # t) =
     (if c = 38 \<and> take 4 t = uni ''amp;'' then 38 # xml_unescape (drop 4 t)
      else if c = 38 \<and> take 3 t = uni ''lt;'' then 60 # xml_unescape (drop 3 t)
      else if c = 38 \<and> take 3 t = uni ''gt;'' then 62 # xml_unescape (drop 3 t)
      else if c = 38 \<and> take 5 t = uni ''quot;'' then 34 # xml_unescape (drop 5 t)
      else c # xml_unescape t)"

lemma uni_simps [simp]: "uni [] = []" "uni (c # s) = of_char c # uni s" "uni (s @ t) = uni s @ uni t"
  by (simp_all add: uni_def)

lemma xml_escape_simps [simp]: "xml_escape [] = []" "xml_escape (c # s) = escape_char c @ xml_escape s"
  "xml_escape (s @ t) = xml_escape s @ xml_escape t"
  by (simp_all add: xml_escape_def)

lemma xml_unescape_escape: "xml_unescape (escape_char c @ t) = c # xml_unescape t"
  by (simp add: escape_char_def)

text \<open>
  Escaping.  An escaped text contains no angle bracket and no quote, so it
  ends no element and no attribute, and a reader gets the original text back.
\<close>

theorem xml_escape_roundtrip:
  "xml_unescape (xml_escape s) = s \<and> {60, 62, 34} \<inter> set (xml_escape s) = {}"
proof (induction s)
  case (Cons c s)
  moreover have "{60, 62, 34} \<inter> set (escape_char c) = {}" by (auto simp: escape_char_def)
  ultimately show ?case by (auto simp: xml_unescape_escape)
qed simp

lemma escaped_no_angle [simp]: "60 \<notin> set (xml_escape s)" "62 \<notin> set (xml_escape s)"
  by (induction s) (auto simp: escape_char_def)

section \<open>The markup of a document\<close>

text \<open>The tags of a document, in order: what stands between an opening and the next closing bracket.\<close>

function tags :: "utext \<Rightarrow> utext list" where
  "tags [] = []"
| "tags (c # t) = (if c = 60 then takeWhile (\<lambda>x. x \<noteq> 62) t # tags (dropWhile (\<lambda>x. x \<noteq> 62) t) else tags t)"
  by pat_completeness auto
termination
  by (relation "measure length") (auto simp: le_imp_less_Suc length_dropWhile_le)

lemma tags_text: "60 \<notin> set s \<Longrightarrow> tags (s @ t) = tags t"
  by (induction s) auto

definition item_tags :: "string list" where
  "item_tags = [''item'', ''title'', ''/title'', ''link'', ''/link'', ''guid isPermaLink=\"true\"'', ''/guid'',
     ''pubDate'', ''/pubDate'', ''description'', ''/description'', ''/item'']"

definition channel_tags :: "string list" where
  "channel_tags = [''?xml version=\"1.0\" encoding=\"UTF-8\"?'', ''rss version=\"2.0\"'', ''channel'', ''title'', ''/title'',
     ''link'', ''/link'', ''description'', ''/description'', ''lastBuildDate'', ''/lastBuildDate'',
     ''generator'', ''/generator'']"

lemma tags_rss_item:
  assumes "\<And>t. 60 \<notin> set (pr_rfc2822 P t)"
  shows "tags (rss_item P base inc @ rest) = map uni item_tags @ tags rest"
  by (simp add: rss_item_def Let_def item_tags_def nl_def tags_text assms)

lemma tags_rss_items:
  assumes "\<And>t. 60 \<notin> set (pr_rfc2822 P t)"
  shows "tags (concat (map (rss_item P base) incs) @ rest) = concat (map (\<lambda>_. map uni item_tags) incs) @ tags rest"
  by (induction incs) (simp_all add: tags_rss_item [OF assms])

text \<open>
  No text reaches the markup of the feed.  As long as a printed date has
  no opening bracket, the tags of the feed are those of the channel and of one
  item per incident, whatever the titles, messages, page names and the base
  address contain.
\<close>

theorem feed_markup_fixed:
  assumes "\<And>t. 60 \<notin> set (pr_rfc2822 P t)"
  shows "tags (render_rss_xml P title link desc (pr_rfc2822 P now) base incs) =
    map uni channel_tags @ concat (map (\<lambda>_. map uni item_tags) incs) @ map uni [''/channel'', ''/rss'']"
  by (simp add: render_rss_xml_def channel_tags_def nl_def tags_text tags_rss_items [OF assms] assms)

definition plain_printers :: printers where
  "plain_printers = \<lparr>pr_rfc2822 = (\<lambda>_. uni ''Sat, 26 Jul 2026 12:00:00 +0000''), pr_uuid = (\<lambda>k. num_text (unat k))\<rparr>"

lemma feed_markup_fixed_witness:
  "tags (render_rss_xml plain_printers (uni ''</title><script>'') [] [] (pr_rfc2822 plain_printers 0) [] []) =
     map uni (channel_tags @ [''/channel'', ''/rss''])"
  using feed_markup_fixed [of plain_printers "uni ''</title><script>''" "[]" "[]" 0 "[]" "[]"]
  by (simp add: plain_printers_def)

lemma num_text_digits: "x \<in> set (num_text n) \<Longrightarrow> 48 \<le> x \<and> x \<le> 57"
  using show_nat_digits [of n] by (auto simp: num_text_def uni_def list_all_iff)

lemma num_text_no_angle [simp]: "60 \<notin> set (num_text n)" "62 \<notin> set (num_text n)"
  using num_text_digits by fastforce+

lemma span_num_text [simp]:
  "takeWhile (\<lambda>x. x \<noteq> 62) (num_text n @ t) = num_text n @ takeWhile (\<lambda>x. x \<noteq> 62) t"
  "dropWhile (\<lambda>x. x \<noteq> 62) (num_text n @ t) = dropWhile (\<lambda>x. x \<noteq> 62) t"
  by (auto intro!: takeWhile_append2 dropWhile_append2)

text \<open>A piece of a document that ends outside of its tags.\<close>

definition closed :: "utext \<Rightarrow> bool" where
  "closed p \<longleftrightarrow> (\<forall>rest. tags (p @ rest) = tags p @ tags rest)"

lemma closed_append: "closed p \<Longrightarrow> closed q \<Longrightarrow> closed (p @ q)"
  by (simp add: closed_def)

lemma span_tag:
  "62 \<notin> set t \<Longrightarrow> takeWhile (\<lambda>x. x \<noteq> (62 :: nat)) (t @ 62 # r) = t"
  "62 \<notin> set t \<Longrightarrow> dropWhile (\<lambda>x. x \<noteq> (62 :: nat)) (t @ 62 # r) = 62 # r"
  by (induction t) auto

lemma closed_tag: "60 \<notin> set pre \<Longrightarrow> 62 \<notin> set t \<Longrightarrow> closed (pre @ 60 # t @ [62])"
  by (simp add: closed_def tags_text span_tag)

lemma closed_text: "60 \<notin> set t \<Longrightarrow> closed t"
  using tags_text [of t "[]"] by (simp add: closed_def tags_text)

lemma closed_svg_rect: "62 \<notin> set (uni start @ uni attrs @ uni fill) \<Longrightarrow> closed (svg_rect start w attrs fill)"
  using closed_append [OF closed_tag [of "uni ''    ''" "uni ''rect '' @ uni start @ uni ''width=\"'' @ num_text w @
    uni ''\" height=\"20\" '' @ uni attrs @ uni ''fill=\"'' @ uni fill @ uni ''\"/''"] closed_text [of nl]]
  by (simp add: svg_rect_def nl_def)

lemma closed_svg_open: "closed (svg_open w)"
  by (simp add: closed_def svg_open_def nl_def)

lemma closed_svg_head: "62 \<notin> set (uni color) \<Longrightarrow> closed (svg_head lw vw color)"
  unfolding svg_head_def Let_def
  by (intro closed_append closed_svg_rect closed_svg_open)
    (simp_all add: closed_def nl_def flip: num_text_def)

lemma tags_svg_text:
  "62 \<notin> set (uni attrs) \<Longrightarrow> tags (svg_text x attrs t @ rest) =
     (uni ''text x=\"'' @ num_text x @ uni attrs) # tags (uni t @ uni ''</text>'' @ nl @ rest)"
  using span_tag [of "uni attrs"] by (simp add: svg_text_def)

lemma tags_svg_badge:
  assumes "62 \<notin> set (uni color)"
  shows "\<exists>before after. tags (svg_badge label val color) = before @ tags (uni label @ uni ''</text>'' @ after)"
proof -
  let ?attrs = "''\" y=\"15\" fill=\"#010101\" fill-opacity=\".3\"''"
  obtain rest where badge: "svg_badge label val color =
      svg_head (svg_width label) (svg_width val) color @ svg_text (svg_width label div 2) ?attrs label @ rest"
    unfolding svg_badge_def Let_def by blast
  have "tags (svg_badge label val color) = (tags (svg_head (svg_width label) (svg_width val) color) @
      [uni ''text x=\"'' @ num_text (svg_width label div 2) @ uni ?attrs]) @ tags (uni label @ uni ''</text>'' @ nl @ rest)"
    using closed_svg_head [OF assms] tags_svg_text [of ?attrs] unfolding badge closed_def by simp
  then show ?thesis by blast
qed

end
