(* ===== verification/Public_Api.thy ===== *)
theory Public_Api
  imports Page_Api Markup
begin

text \<open>
  The unauthenticated endpoints (\<open>bin/status-server/src/api/public_api.rs\<close>):
  the cached status page, incidents, the feed, the badge, unsubscribing, the
  links of a verification mail and the shared view of one monitor.

  The clock is read once per request; the digest of tokens and the printers
  are arguments.
\<close>

section \<open>The status page\<close>

definition no_status_page :: app_error where
  "no_status_page = app_error.NotFound ''NO_STATUS_PAGE'' [Lit ''no enabled status page found'']"

definition resolve_page_id :: "mem \<Rightarrow> uuid option \<Rightarrow> app_error + uuid" where
  "resolve_page_id s page =
     (case page of
        Some k \<Rightarrow> Ok k
      | None \<Rightarrow> (case find sp_enabled (list_status_pages s) of Some p \<Rightarrow> Ok (sp_id p) | None \<Rightarrow> Err no_status_page))"

definition cached_snapshot :: "('pc, 'ic) libs \<Rightarrow> instant \<Rightarrow> uuid \<Rightarrow> (('pc, 'ic) app_state, cache_lookup) op" where
  "cached_snapshot L now page_id a =
     (case get_or_compute (lib_pages L) now page_id (\<lambda>k. compute_status_snapshot now k (ap_storage a)) (ap_public_cache a) of
        (r, pc') \<Rightarrow> (r, a\<lparr>ap_public_cache := pc'\<rparr>))"

definition get_status :: "('pc, 'ic) libs \<Rightarrow> instant \<Rightarrow> uuid option \<Rightarrow> ('pc, 'ic, public_status_page) handler" where
  "get_status L now page =
     and_then (reading (\<lambda>s. resolve_page_id s page)) (\<lambda>page_id.
     and_then (cached_snapshot L now page_id) (\<lambda>lookup. respond 200 (into_inner lookup)))"

definition page_disabled :: app_error where
  "page_disabled = app_error.NotFound ''PAGE_DISABLED'' [Lit ''status page is not published'']"

definition get_public_asset :: "uuid \<Rightarrow> string \<Rightarrow> ('pc, 'ic, string \<times> 8 word list) handler" where
  "get_public_asset k slot_text =
     and_then (reading (\<lambda>s. get_status_page s k)) (\<lambda>page.
     if \<not> sp_enabled page then refuse page_disabled
     else
       and_then (reading (\<lambda>_. parse_slot slot_text)) (\<lambda>slot.
       and_then (reading (\<lambda>s. case get_page_asset s (sp_id page) slot of
           Some asset \<Rightarrow> Ok asset | None \<Rightarrow> Err (asset_not_found slot_text k))) (\<lambda>asset.
       respond 200 (pa_content_type asset, pa_data asset))))"

section \<open>Incidents, history and maintenance\<close>

definition list_public_incidents :: "('pc, 'ic, public_incident list) handler" where
  "list_public_incidents = and_then (reading (\<lambda>s. Ok (public_incidents s (list_incidents s)))) (respond 200)"

definition get_public_incident :: "uuid \<Rightarrow> ('pc, 'ic, public_incident) handler" where
  "get_public_incident k =
     and_then (reading (\<lambda>s. get_incident s k)) (\<lambda>inc.
     and_then (reading (\<lambda>s. case to_public_incident inc (get_postmortem s k) of
         Some p \<Rightarrow> Ok p
       | None \<Rightarrow> Err (app_error.NotFound ''INCIDENT_NOT_PUBLIC'' [Lit ''incident has no public title'']))) (respond 200))"

definition rss_site_name :: "mem \<Rightarrow> uuid option \<Rightarrow> string" where
  "rss_site_name s page =
     (case resolve_page_id s page of
        Inl _ \<Rightarrow> ''Status Page''
      | Inr k \<Rightarrow> (case get_status_page s k of Inr p \<Rightarrow> sp_name p | Inl _ \<Rightarrow> ''Status Page''))"

definition get_incidents_rss :: "printers \<Rightarrow> utext \<Rightarrow> instant \<Rightarrow> uuid option \<Rightarrow> ('pc, 'ic, string \<times> utext) handler" where
  "get_incidents_rss P base now page =
     and_then (reading (\<lambda>s. Ok (rss_site_name s page,
         take 50 (sort_key (\<lambda>p. - pi_started_at p) (public_incidents s (list_incidents s)))))) (\<lambda>(site_name, public).
     respond 200 (''application/rss+xml; charset=utf-8'',
       render_rss_xml P (uni site_name @ uni '' '' @ em_dash @ uni '' Incident History'') base
         (uni ''Recent incidents and outages affecting this status page.'') (pr_rfc2822 P now) base public))"

record component_history_response =
  chr_target_id :: uuid
  chr_from :: instant
  chr_to :: instant
  chr_history :: "day_state list"

definition get_component_history :: "instant \<Rightarrow> uuid \<Rightarrow> ('pc, 'ic, component_history_response) handler" where
  "get_component_history now k =
     and_then (reading (\<lambda>s. get_target s k)) (\<lambda>t.
     and_then (reading (\<lambda>s. Ok (component_history s now (tg_id t)))) (\<lambda>history.
     respond 200 \<lparr>chr_target_id = tg_id t, chr_from = now - days 90, chr_to = now, chr_history = history\<rparr>))"

definition list_public_maintenance :: "instant \<Rightarrow> ('pc, 'ic, public_maintenance_list) handler" where
  "list_public_maintenance now = and_then (reading (\<lambda>s. Ok (public_maintenance s now))) (respond 200)"

section \<open>The badge\<close>

fun count_days :: "day_state list \<Rightarrow> nat \<times> nat \<Rightarrow> nat \<times> nat" where
  "count_days [] counts = counts"
| "count_days (d # ds) (total_days, up_days) =
     count_days ds (total_days + 1, if d = day_state.Operational \<or> d = day_state.Degraded then up_days + 1 else up_days)"

fun uptime_days :: "mem \<Rightarrow> instant \<Rightarrow> status_page_component list \<Rightarrow> nat \<times> nat \<Rightarrow> nat \<times> nat" where
  "uptime_days s now [] counts = counts"
| "uptime_days s now (c # cs) counts = uptime_days s now cs (count_days (component_history s now (spc_target_id c)) counts)"

definition uptime_percent :: "nat \<times> nat \<Rightarrow> real" where
  "uptime_percent counts = (case counts of (total_days, up_days) \<Rightarrow>
     if total_days = 0 then 100 else real up_days / real total_days * 100)"

definition uptime_badge_color :: "real \<Rightarrow> string" where
  "uptime_badge_color pct = (if pct \<ge> 99.5 then ''#22C55E'' else if pct \<ge> 95 then ''#F59E0B'' else ''#EF4444'')"

fun badge_loop ::
  "mem \<Rightarrow> uuid set \<Rightarrow> incident list \<Rightarrow> status_page_component list \<Rightarrow> overall_state \<Rightarrow> overall_state" where
  "badge_loop s mw_targets incidents [] worst = worst"
| "badge_loop s mw_targets incidents (c # cs) worst =
     (if spc_target_id c \<in> mw_targets
      then badge_loop s mw_targets incidents cs (worse_overall overall_state.Maintenance worst)
      else case worst_incident_status (open_incidents_of (spc_target_id c) incidents) of
          Some st \<Rightarrow> badge_loop s mw_targets incidents cs (worse_overall (overall_from_component st) worst)
        | None \<Rightarrow>
           (case list_results s (spc_target_id c) 1 of
              [] \<Rightarrow> badge_loop s mw_targets incidents cs worst
            | r # _ \<Rightarrow> badge_loop s mw_targets incidents cs
                (worse_overall (overall_from_component (component_status_from_result (cr_status r))) worst)))"

definition render_badge_payload ::
  "(real \<Rightarrow> string) \<Rightarrow> instant \<Rightarrow> uuid \<Rightarrow> string option \<Rightarrow> mem \<Rightarrow> app_error + (string \<times> string \<times> string)" where
  "render_badge_payload fmt2 now page_id badge_type s =
     (case get_status_page s page_id of
        Inl e \<Rightarrow> Err e
      | Inr page \<Rightarrow>
         (let components = list_status_page_components s (sp_id page) in
          if (case badge_type of Some t \<Rightarrow> to_ascii_lowercase t = ''uptime'' | None \<Rightarrow> False)
          then let pct = uptime_percent (uptime_days s now components (0, 0))
               in Ok (''uptime'', fmt2 pct @ ''% uptime'', uptime_badge_color pct)
          else let worst = badge_loop s (maintenance_targets s now) (list_incidents s) components overall_state.Operational
               in Ok (''status'', overall_label worst, badge_color worst)))"

definition no_data_badge :: "string \<times> string \<times> string" where
  "no_data_badge = (''status'', ''no data'', ''#9CA3AF'')"

definition badge_payload ::
  "(real \<Rightarrow> string) \<Rightarrow> instant \<Rightarrow> uuid option \<Rightarrow> string option \<Rightarrow> mem \<Rightarrow> string \<times> string \<times> string" where
  "badge_payload fmt2 now page badge_type s =
     (case resolve_page_id s page of
        Inl _ \<Rightarrow> no_data_badge
      | Inr k \<Rightarrow> (case render_badge_payload fmt2 now k badge_type s of Inr payload \<Rightarrow> payload | Inl _ \<Rightarrow> no_data_badge))"

definition get_badge :: "(real \<Rightarrow> string) \<Rightarrow> instant \<Rightarrow> uuid option \<Rightarrow> string option \<Rightarrow> ('pc, 'ic, utext) handler" where
  "get_badge fmt2 now page badge_type =
     and_then (reading (\<lambda>s. Ok (badge_payload fmt2 now page badge_type s))) (\<lambda>(label_text, value_text, color).
     respond 200 (render_badge_svg label_text value_text color))"

section \<open>Unsubscribing\<close>

definition unsubscribe_subscriber :: "uuid \<Rightarrow> ('pc, 'ic, unit) handler" where
  "unsubscribe_subscriber subscriber_id a =
     (case with_store (delete_subscriber subscriber_id) a of
        (Inr _, a') \<Rightarrow> respond 204 () a'
      | (Inl (app_error.NotFound _ _), a') \<Rightarrow> respond 204 () a'
      | (Inl e, a') \<Rightarrow> refuse e a')"

section \<open>Verification links\<close>

definition DECLINE_REASON :: string where
  "DECLINE_REASON = ''recipient declined verification''"

definition click_link ::
  "(string \<Rightarrow> string) \<Rightarrow> instant \<Rightarrow> string \<Rightarrow> (uuid \<Rightarrow> (mem, unit) op) \<Rightarrow> verification_outcome \<Rightarrow>
   ('pc, 'ic) app_state \<Rightarrow> verification_outcome \<times> ('pc, 'ic) app_state" where
  "click_link hash now raw effect success a =
     (let token = trim raw in
      if token = [] then (Invalid, a)
      else case with_store (consume_channel_verification_token now (hash token)) a of
          (Inl _, a1) \<Rightarrow> (ServerError, a1)
        | (Inr None, a1) \<Rightarrow> (Invalid, a1)
        | (Inr (Some channel_id), a1) \<Rightarrow>
           (case with_store (effect channel_id) a1 of
              (Inl _, a2) \<Rightarrow> (ServerError, a2)
            | (Inr _, a2) \<Rightarrow> (success, a2)))"

definition verify_channel ::
  "(string \<Rightarrow> string) \<Rightarrow> instant \<Rightarrow> string \<Rightarrow> ('pc, 'ic) app_state \<Rightarrow> verification_outcome \<times> ('pc, 'ic) app_state" where
  "verify_channel hash now token = click_link hash now token (set_channel_verified now now) Verified"

definition decline_channel ::
  "(string \<Rightarrow> string) \<Rightarrow> instant \<Rightarrow> string \<Rightarrow> ('pc, 'ic) app_state \<Rightarrow> verification_outcome \<times> ('pc, 'ic) app_state" where
  "decline_channel hash now token =
     click_link hash now token (\<lambda>channel_id. set_channel_disabled_reason now channel_id DECLINE_REASON) Declined"

section \<open>The shared view of one monitor\<close>

record shared_monitor_view =
  smv_public_display_name :: string
  smv_current_status :: public_component_status
  smv_recent_results :: "check_result list"
  smv_history :: "day_state list"

definition share_not_found :: app_error where
  "share_not_found = app_error.NotFound ''SHARE_NOT_FOUND'' [Lit ''share token is invalid or expired'']"

definition shared_view :: "mem \<Rightarrow> instant \<Rightarrow> target \<Rightarrow> shared_monitor_view" where
  "shared_view s now t =
     \<lparr>smv_public_display_name = tg_name t,
      smv_current_status = (case list_results s (tg_id t) 1 of
          [] \<Rightarrow> public_component_status.Operational
        | r # _ \<Rightarrow> component_status_from_result (cr_status r)),
      smv_recent_results = list_results s (tg_id t) 100,
      smv_history = component_history s now (tg_id t)\<rparr>"

definition get_shared_monitor ::
  "(string \<Rightarrow> string) \<Rightarrow> instant \<Rightarrow> string \<Rightarrow> ('pc, 'ic, shared_monitor_view) handler" where
  "get_shared_monitor hash now raw =
     (let token = trim raw in
      if token = [] then refuse share_not_found
      else
        and_then (with_store (resolve_monitor_share now (hash token))) (\<lambda>resolved.
        case resolved of
          None \<Rightarrow> refuse share_not_found
        | Some r \<Rightarrow>
            and_then (reading (\<lambda>s. get_target s (rs_target_id r))) (\<lambda>t.
            and_then (reading (\<lambda>s. Ok (shared_view s now t))) (respond 200))))"

section \<open>Badges of a monitor\<close>

text \<open>
  The badges of a monitor print its name unescaped: a monitor named after
  a script element puts that element into the image.
\<close>

theorem health_badge_unescaped:
  assumes "get_target s k = Ok t" "tg_name t = ''<script>''"
  shows "uni ''script'' \<in> set (tags (health_badge s k))"
proof -
  have shown: "uni ''script'' \<in> set (tags (svg_badge ''<script>'' val color))" if "62 \<notin> set (uni color)" for val color
    using tags_svg_badge [OF that, of "''<script>''" val] by auto
  obtain val color where "health_badge s k = svg_badge ''<script>'' val color" "62 \<notin> set (uni color)"
  proof (cases "list_results s k 1")
    case Nil
    then show thesis using that [of "''no data''" "''lightgrey''"] assms by (simp add: health_badge_def)
  next
    case (Cons r rs)
    then show thesis
      using that [of "fst (health_value (cr_status r))" "snd (health_value (cr_status r))"] assms
      by (cases "cr_status r") (simp_all add: health_badge_def)
  qed
  with shown show ?thesis by simp
qed

lemma health_badge_unescaped_witness:
  "uni ''script'' \<in> set (tags (health_badge
     (new_storage\<lparr>m_targets := [(9, (sample_target 9 [] None)\<lparr>tg_name := ''<script>''\<rparr>)]\<rparr>) 9))"
  by (rule health_badge_unescaped [of _ _ "(sample_target 9 [] None)\<lparr>tg_name := ''<script>''\<rparr>"])
    (simp_all add: get_target_def hm_get_def)

section \<open>The badge shows what the page shows\<close>

lemma badge_loop_worst:
  "badge_loop s mts incs cs worst = snd (component_loop s now mts incs cs groups worst)"
proof (induction cs arbitrary: groups worst)
  case (Cons c cs)
  have idle: "worse_overall overall_state.Operational w = w" for w by (simp add: worse_overall_def)
  have none: "worst_incident_status [] = None" by simp
  show ?case
    by (simp add: Cons [symmetric] public_component_of_def component_status_def Let_def idle none split: option.split list.split)
qed simp

text \<open>
  C40: The status badge of a page carries the label of the overall state that
  the page itself computes from the same store, and exists exactly when the
  page does.
\<close>

theorem badge_agrees_with_page:
  assumes "\<not> (\<exists>t. badge_type = Some t \<and> to_ascii_lowercase t = ''uptime'')"
  shows "render_badge_payload fmt2 now k badge_type s =
    (case compute_status_snapshot now k s of
       Inl e \<Rightarrow> Err e
     | Inr p \<Rightarrow> Ok (''status'', os_label (psp_overall p), badge_color (os_state (psp_overall p))))"
proof (cases "get_status_page s k")
  case (Inr page)
  obtain groups worst where loop: "component_loop s now (maintenance_targets s now) (list_incidents s)
      (list_status_page_components s (sp_id page)) [] overall_state.Operational = (groups, worst)" by fastforce
  then have "badge_loop s (maintenance_targets s now) (list_incidents s) (list_status_page_components s (sp_id page))
      overall_state.Operational = worst" by (simp add: badge_loop_worst [where now = now and groups = "[]"])
  with Inr loop assms show ?thesis
    by (simp add: render_badge_payload_def compute_status_snapshot_def Let_def split: option.split)
qed (simp add: render_badge_payload_def compute_status_snapshot_def)

lemma badge_agrees_with_page_witness:
  "render_badge_payload (\<lambda>_. []) 10 1 None public_sample =
    (case compute_status_snapshot 10 1 public_sample of
       Inl e \<Rightarrow> Err e
     | Inr p \<Rightarrow> Ok (''status'', os_label (psp_overall p), badge_color (os_state (psp_overall p))))"
  by (rule badge_agrees_with_page) simp

lemma count_days_sum:
  "count_days ds (t, u) = (t + length ds, u + length (filter (\<lambda>d. d = day_state.Operational \<or> d = day_state.Degraded) ds))"
  by (induction ds arbitrary: t u) auto

lemma uptime_days_sum:
  "uptime_days s now cs (t, u) =
     (let ds = concat (map (\<lambda>c. component_history s now (spc_target_id c)) cs)
      in (t + length ds, u + length (filter (\<lambda>d. d = day_state.Operational \<or> d = day_state.Degraded) ds)))"
  by (induction cs arbitrary: t u) (simp_all add: count_days_sum Let_def)

lemma history_length: "length (component_history s now k) = 91"
proof -
  have "utc_day (now - days 90) = utc_day now - 90"
    using div_mult_self1 [of "days 1" now "-90"] by (simp add: utc_day_def instant_simps)
  then show ?thesis
    by (simp add: component_history_def component_day_history_of_def day_strip_dated_def)
qed

lemma history_without_results:
  assumes "\<And>r. r \<in> set (m_results s) \<Longrightarrow> cr_target_id r \<noteq> k" "d \<in> set (component_history s now k)"
  shows "d = NoData"
proof -
  have "filter (in_window k (now - days 90) now) (m_results s) = []"
    using assms(1) by (auto simp: filter_empty_conv in_window_def)
  then show ?thesis
    using assms(2) by (auto simp: component_history_def component_day_history_of_def day_strip_dated_def by_day_of_def)
qed

lemma uptime_badge_percent:
  assumes "get_status_page s k = Ok page" "to_ascii_lowercase t = ''uptime''"
    and "cs = list_status_page_components s (sp_id page)" "cs \<noteq> []"
    and "up = length (filter (\<lambda>d. d = day_state.Operational \<or> d = day_state.Degraded)
       (concat (map (\<lambda>c. component_history s now (spc_target_id c)) cs)))"
  shows "render_badge_payload fmt2 now k (Some t) s =
    (let pct = real up / real (91 * length cs) * 100 in Ok (''uptime'', fmt2 pct @ ''% uptime'', uptime_badge_color pct))"
proof -
  have "length (concat (map (\<lambda>c. component_history s now (spc_target_id c)) cs)) = 91 * length cs"
    by (simp add: length_concat comp_def history_length sum_list_triv)
  then have "uptime_days s now cs (0, 0) = (91 * length cs, up)"
    by (simp add: uptime_days_sum Let_def assms(5))
  then show ?thesis
    using assms(1,2,4) by (simp add: render_badge_payload_def uptime_percent_def Let_def flip: assms(3))
qed

text \<open>
  The uptime badge divides by the calendar: the percentage it prints is
  the number of operational and degraded days over 91 days per component, so
  days without any check count as downtime, and a page whose components have
  never been checked is shown with an uptime of zero in red.
\<close>

theorem uptime_badge_counts_gaps:
  assumes "get_status_page s k = Ok page" "to_ascii_lowercase t = ''uptime''"
    and "list_status_page_components s (sp_id page) \<noteq> []"
    and "\<forall>c \<in> set (list_status_page_components s (sp_id page)). \<forall>r \<in> set (m_results s). cr_target_id r \<noteq> spc_target_id c"
  shows "render_badge_payload fmt2 now k (Some t) s = Ok (''uptime'', fmt2 0 @ ''% uptime'', ''#EF4444'')"
proof -
  let ?cs = "list_status_page_components s (sp_id page)"
  have "filter (\<lambda>d. d = day_state.Operational \<or> d = day_state.Degraded)
      (concat (map (\<lambda>c. component_history s now (spc_target_id c)) ?cs)) = []"
    using assms(4) history_without_results by (fastforce simp: filter_empty_conv)
  then show ?thesis
    using uptime_badge_percent [OF assms(1,2) refl assms(3) refl, of fmt2 now]
    by (simp add: Let_def uptime_badge_color_def)
qed

lemma uptime_badge_counts_gaps_witness:
  "render_badge_payload (\<lambda>x. if x = 0 then ''0.00'' else []) 10 1 (Some ''uptime'') two_component_store =
     Ok (''uptime'', ''0.00% uptime'', ''#EF4444'')"
proof -
  obtain page where page: "get_status_page two_component_store 1 = Ok page" "sp_id page = 1"
    by (simp add: get_status_page_def two_component_store_def hm_get_def)
  have "list_status_page_components two_component_store 1 \<noteq> []" "m_results two_component_store = []"
    by (simp_all add: list_status_page_components_def two_component_store_def new_storage_def)
  moreover have "to_ascii_lowercase ''uptime'' = ''uptime''" by code_simp
  ultimately show ?thesis
    using uptime_badge_counts_gaps [OF page(1), of "''uptime''" "\<lambda>x. if x = 0 then ''0.00'' else []" 10] page(2) by simp
qed

section \<open>Pages, enabled or not\<close>

lemma snapshot_exists:
  assumes "get_status_page s k = Ok page"
  obtains p where "compute_status_snapshot now k s = Ok p"
proof (cases "compute_status_snapshot now k s")
  case (Inl e)
  with assms show thesis by (simp add: compute_status_snapshot_def Let_def split: prod.splits)
qed (use that in auto)

text \<open>
  A deleted page stays public.  Once a page has been shown, deleting it
  does not remove it: a later request for its id fails to compute the page and
  is answered with the last snapshot, with status 200.
\<close>

theorem deleted_page_still_served:
  assumes "cache_laws ttl (lib_pages L)" "co_get (lib_pages L) (pc_inner (ap_public_cache a)) t1 k = None"
    and "get_status_page (ap_storage a) k = Ok page"
    and "get_status L t1 (Some k) a = (r, a1)" "delete_status_page_endpoint L k a1 = (r', a2)"
  shows "\<exists>p. r = Ok (200, p) \<and> r' = Ok (204, ()) \<and>
    fst (get_status L t2 (Some k) a2) = Ok (200, p) \<and> get_status_page (ap_storage a2) k = Err (status_page_missing k)"
proof -
  obtain p where p: "compute_status_snapshot t1 k (ap_storage a) = Ok p" using snapshot_exists [OF assms(3)] .
  have shown: "r = Ok (200, p)" "ap_storage a1 = ap_storage a" "hm_get (pc_last_good (ap_public_cache a1)) k = Some p"
    using assms(2,4) p by (auto simp: get_status_def cached_snapshot_def handler_simps resolve_page_id_def get_or_compute_def)
  have gone: "r' = Ok (204, ())" "ap_storage a2 = snd (delete_status_page k (ap_storage a))"
    "hm_get (pc_last_good (ap_public_cache a2)) k = Some p" "co_get (lib_pages L) (pc_inner (ap_public_cache a2)) t2 k = None"
    using assms(3,5) shown cache_invalidated [OF assms(1)]
    by (auto simp: delete_status_page_endpoint_def handler_simps delete_status_page_def get_status_page_def
        invalidate_page_def Let_def split: option.splits)
  have "get_status_page (ap_storage a2) k = Err (status_page_missing k)"
    using assms(3) gone(2) by (auto simp: delete_status_page_def get_status_page_def Let_def split: option.splits)
  then show ?thesis
    using gone shown(1)
    by (simp add: get_status_def cached_snapshot_def handler_simps resolve_page_id_def get_or_compute_def
        compute_status_snapshot_def)
qed

lemma deleted_page_still_served_witness:
  "let a = plain_app two_component_store; (r, a1) = get_status plain_libs 5 (Some 1) a;
       (r', a2) = delete_status_page_endpoint plain_libs 1 a1
   in \<exists>p. r = Ok (200, p) \<and> r' = Ok (204, ()) \<and> fst (get_status plain_libs 99 (Some 1) a2) = Ok (200, p)"
proof -
  let ?a = "plain_app two_component_store"
  have hot: "co_get (lib_pages plain_libs) (pc_inner (ap_public_cache ?a)) 5 1 = None"
    "cache_laws DEFAULT_TTL (lib_pages plain_libs)"
    using ttl_ops_laws by (auto simp: plain_libs_def plain_app_def ttl_ops_def)
  obtain page where "get_status_page (ap_storage ?a) 1 = Ok page"
    by (simp add: get_status_page_def two_component_store_def hm_get_def plain_app_def)
  from deleted_page_still_served [OF hot(2,1) this surjective_pairing surjective_pairing, of 99]
  show ?thesis by (auto simp: Let_def split: prod.split)
qed

text \<open>
  A page that is switched off hides its logo and not itself: its asset is
  answered with an error, while the status endpoint still serves the page to
  everybody who asks for its id.
\<close>

theorem disabled_page_served:
  assumes "get_status_page (ap_storage a) k = Ok page" "\<not> sp_enabled page"
  shows "(\<exists>p. fst (get_status L now (Some k) a) = Ok (200, p)) \<and> fst (get_public_asset k slot a) = Err page_disabled"
proof -
  obtain p where "compute_status_snapshot now k (ap_storage a) = Ok p" using snapshot_exists [OF assms(1)] .
  then show ?thesis
    using assms by (auto simp: get_status_def cached_snapshot_def handler_simps resolve_page_id_def get_or_compute_def
        get_public_asset_def split: option.split)
qed

lemma disabled_page_served_witness:
  "let s = two_component_store\<lparr>m_status_pages := map (\<lambda>(k, p). (k, p\<lparr>sp_enabled := False\<rparr>)) (m_status_pages two_component_store)\<rparr> in
   (\<exists>p. fst (get_status plain_libs 5 (Some 1) (plain_app s)) = Ok (200, p)) \<and>
   fst (get_public_asset 1 ''logo'' (plain_app s)) = Err page_disabled"
proof -
  let ?s = "two_component_store\<lparr>m_status_pages := map (\<lambda>(k, p). (k, p\<lparr>sp_enabled := False\<rparr>)) (m_status_pages two_component_store)\<rparr>"
  obtain page where "get_status_page (ap_storage (plain_app ?s)) 1 = Ok page" "\<not> sp_enabled page"
    by (simp add: get_status_page_def two_component_store_def hm_get_def plain_app_def)
  from disabled_page_served [OF this] show ?thesis by (simp add: Let_def)
qed

lemma missing_page_is_internal_error:
  assumes "get_status_page (ap_storage a) k = Err e" "hm_get (pc_last_good (ap_public_cache a)) k = None"
    and "co_get (lib_pages L) (pc_inner (ap_public_cache a)) now k = None"
  shows "fst (get_status L now (Some k) a) = Err public_status_empty"
  using assms by (simp add: get_status_def cached_snapshot_def handler_simps resolve_page_id_def get_or_compute_def
      compute_status_snapshot_def)

section \<open>A verification link works once\<close>

datatype link_click = VerifyClick instant string | DeclineClick instant string

fun clicked_token :: "link_click \<Rightarrow> string" where
  "clicked_token (VerifyClick t token) = token"
| "clicked_token (DeclineClick t token) = token"

fun click :: "(string \<Rightarrow> string) \<Rightarrow> link_click \<Rightarrow> ('pc, 'ic) app_state \<Rightarrow> verification_outcome \<times> ('pc, 'ic) app_state" where
  "click hash (VerifyClick now token) a = verify_channel hash now token a"
| "click hash (DeclineClick now token) a = decline_channel hash now token a"

fun effective_clicks :: "(string \<Rightarrow> string) \<Rightarrow> string \<Rightarrow> link_click list \<Rightarrow> ('pc, 'ic) app_state \<Rightarrow> nat" where
  "effective_clicks hash h [] a = 0"
| "effective_clicks hash h (c # cs) a =
     (case click hash c a of (outcome, a') \<Rightarrow>
        (if hash (trim (clicked_token c)) = h \<and> outcome \<noteq> Invalid then 1 else 0) + effective_clicks hash h cs a')"

definition unused_tokens :: "string \<Rightarrow> mem \<Rightarrow> nat" where
  "unused_tokens h s = length (filter (\<lambda>(_, t). cvt_token_hash t = h \<and> cvt_used_at t = None) (m_channel_verification_tokens s))"

lemma min_by_created_mem: "min_by_created ts = Some t \<Longrightarrow> t \<in> set ts"
  by (induction ts arbitrary: t) (auto split: option.splits if_splits)

lemma filter_insert_drops_one:
  assumes "hm_ok m" "hm_get m k = Some v" "P (k, v)" "\<not> P (k, v')"
  shows "Suc (length (filter P (hm_insert k v' m))) = length (filter P m)"
  using assms
proof (induction m)
  case (Cons e m)
  show ?case
  proof (cases "fst e = k")
    case True
    then have "e = (k, v)" using Cons.prems by (cases e) (simp add: hm_get_def)
    then show ?thesis using Cons.prems by (simp add: hm_insert_def)
  next
    case False
    then show ?thesis using Cons by (cases e) (auto simp: hm_insert_def hm_get_def hm_ok_def)
  qed
qed simp

lemma filter_insert_other:
  assumes "hm_ok m" "hm_get m k = Some v" "\<not> P (k, v)" "\<not> P (k, v')"
  shows "length (filter P (hm_insert k v' m)) = length (filter P m)"
  using assms
proof (induction m)
  case (Cons e m)
  then show ?case by (cases e) (auto simp: hm_insert_def hm_get_def hm_ok_def split: if_splits)
qed simp

lemma consume_unused:
  assumes "hm_ok (m_channel_verification_tokens s)" "consume_channel_verification_token now h s = (r, s')"
  shows "hm_ok (m_channel_verification_tokens s') \<and> is_ok r \<and>
    unused_tokens g s' + (if g = h \<and> r \<noteq> Ok None then 1 else 0) = unused_tokens g s"
proof (cases "min_by_created (filter (\<lambda>(_, t). token_usable now h t) (m_channel_verification_tokens s))")
  case None
  with assms show ?thesis by (auto simp: consume_channel_verification_token_def)
next
  case (Some kt)
  obtain k row where kt: "kt = (k, row)" by (cases kt)
  from min_by_created_mem [OF Some] kt have row: "(k, row) \<in> set (m_channel_verification_tokens s)" "token_usable now h row"
    by auto
  then have get: "hm_get (m_channel_verification_tokens s) k = Some row"
    using assms(1) by (simp add: hm_ok_def hm_get_def)
  have s': "r = Ok (Some (cvt_channel_id row))"
    "m_channel_verification_tokens s' = hm_insert k (row\<lparr>cvt_used_at := Some now\<rparr>) (m_channel_verification_tokens s)"
    using assms(2) Some kt by (auto simp: consume_channel_verification_token_def)
  show ?thesis
  proof (cases "g = h")
    case True
    then show ?thesis
      using assms(1) s' row(2) filter_insert_drops_one [OF assms(1) get, where ?v' = "row\<lparr>cvt_used_at := Some now\<rparr>"
          and P = "\<lambda>(_, t). cvt_token_hash t = h \<and> cvt_used_at t = None"]
      by (auto simp: unused_tokens_def token_usable_def)
  next
    case False
    then show ?thesis
      using assms(1) s' row(2) filter_insert_other [OF assms(1) get, where ?v' = "row\<lparr>cvt_used_at := Some now\<rparr>"
          and P = "\<lambda>(_, t). cvt_token_hash t = g \<and> cvt_used_at t = None"]
      by (auto simp: unused_tokens_def token_usable_def)
  qed
qed

lemma click_link_unused:
  assumes "hm_ok (m_channel_verification_tokens (ap_storage a))" "click_link hash now raw effect success a = (out, a')"
    and "\<And>k s. m_channel_verification_tokens (snd (effect k s)) = m_channel_verification_tokens s"
  shows "hm_ok (m_channel_verification_tokens (ap_storage a')) \<and>
    unused_tokens g (ap_storage a') + (if g = hash (trim raw) \<and> out \<noteq> Invalid then 1 else 0) \<le> unused_tokens g (ap_storage a)"
proof (cases "trim raw = []")
  case True
  with assms(1,2) show ?thesis by (auto simp: click_link_def)
next
  case False
  obtain r s1 where consume: "consume_channel_verification_token now (hash (trim raw)) (ap_storage a) = (r, s1)"
    by fastforce
  note u = consume_unused [OF assms(1) consume, of g]
  then obtain o1 where r: "r = Ok o1" by (cases r) auto
  have effect: "m_channel_verification_tokens s2 = m_channel_verification_tokens s1" if "effect k s1 = (x, s2)" for k x s2
    using assms(3) [of k s1] that by simp
  have "m_channel_verification_tokens (ap_storage a') = m_channel_verification_tokens s1 \<and> (out \<noteq> Invalid \<longrightarrow> o1 \<noteq> None)"
    using assms(2) False consume r effect
    by (auto simp: click_link_def with_store_def Let_def split: option.splits prod.splits sum.splits)
  with u r show ?thesis by (auto simp: unused_tokens_def)
qed

lemma click_unused:
  assumes "hm_ok (m_channel_verification_tokens (ap_storage a))" "click hash c a = (out, a')"
  shows "hm_ok (m_channel_verification_tokens (ap_storage a')) \<and>
    unused_tokens g (ap_storage a') + (if g = hash (trim (clicked_token c)) \<and> out \<noteq> Invalid then 1 else 0)
      \<le> unused_tokens g (ap_storage a)"
proof (cases c)
  case (VerifyClick t token)
  with assms(2) click_link_unused [OF assms(1), of hash t token "set_channel_verified t t" Verified out a' g] show ?thesis
    by (auto simp: verify_channel_def set_channel_verified_def split: option.split)
next
  case (DeclineClick t token)
  with assms(2) click_link_unused [OF assms(1), of hash t token
      "\<lambda>k. set_channel_disabled_reason t k DECLINE_REASON" Declined out a' g] show ?thesis
    by (auto simp: decline_channel_def set_channel_disabled_reason_def split: option.split)
qed

text \<open>
  C37: A verification mail is answered once.  In any sequence of clicks on
  verify and decline links, the clicks that carry a given token and are not
  refused as invalid are at most as many as the unused tokens stored for it:
  a single one for a token that was issued once, whichever of the two links
  it came from.
\<close>

theorem verification_link_single_use:
  assumes "hm_ok (m_channel_verification_tokens (ap_storage a))"
  shows "effective_clicks hash h clicks a \<le> unused_tokens h (ap_storage a)"
  using assms
proof (induction clicks arbitrary: a)
  case (Cons c clicks)
  obtain out a' where step: "click hash c a = (out, a')" by fastforce
  from click_unused [OF Cons.prems step, of h] Cons.IH [of a'] step show ?case by auto
qed simp

lemma verification_link_single_use_witness:
  "let s = new_storage\<lparr>m_channel_verification_tokens := [(1, \<lparr>cvt_id = 1, cvt_channel_id = 2, cvt_token_hash = ''t'',
       cvt_expires_at = 50, cvt_used_at = None, cvt_created_at = 0\<rparr>)]\<rparr> in
   effective_clicks id ''t'' [VerifyClick 5 ''t'', DeclineClick 6 ''t''] (plain_app s) \<le> 1"
proof -
  let ?s = "new_storage\<lparr>m_channel_verification_tokens := [(1, \<lparr>cvt_id = 1, cvt_channel_id = 2, cvt_token_hash = ''t'',
       cvt_expires_at = 50, cvt_used_at = None, cvt_created_at = 0\<rparr>)]\<rparr>"
  have "hm_ok (m_channel_verification_tokens (ap_storage (plain_app ?s)))" "unused_tokens ''t'' (ap_storage (plain_app ?s)) = 1"
    by (simp_all add: hm_ok_def plain_app_def unused_tokens_def)
  from verification_link_single_use [OF this(1), of id "''t''" "[VerifyClick 5 ''t'', DeclineClick 6 ''t'']"] this(2)
  show ?thesis by (simp add: Let_def del: effective_clicks.simps)
qed

section \<open>Shared views\<close>

lemma view_first_count:
  "find (share_valid now h) rs = Some r \<Longrightarrow> sum_list (map msr_view_count (view_first now h rs)) = sum_list (map msr_view_count rs) + 1"
  by (induction rs) auto

text \<open>
  The shared view.  A view is answered only for a token whose digest is
  stored with a share that has not expired; it shows the monitor of that share, and counts as
  one view.  A request whose token resolves to no share changes nothing.
\<close>

theorem shared_view_needs_share:
  assumes "get_shared_monitor hash now raw a = (r, a')"
  shows "case r of
      Inr (status, v) \<Rightarrow> status = 200 \<and>
        (\<exists>share t. share \<in> set (m_monitor_shares (ap_storage a)) \<and> share_valid now (hash (trim raw)) share \<and>
           get_target (ap_storage a) (msr_target_id share) = Ok t \<and> smv_public_display_name v = tg_name t) \<and>
        sum_list (map msr_view_count (m_monitor_shares (ap_storage a'))) =
          sum_list (map msr_view_count (m_monitor_shares (ap_storage a))) + 1
    | Inl e \<Rightarrow> e = share_not_found \<longrightarrow> a' = a"
proof (cases "trim raw = [] \<or> find (share_valid now (hash (trim raw))) (m_monitor_shares (ap_storage a)) = None")
  case True
  with assms show ?thesis
    by (auto simp: get_shared_monitor_def Let_def handler_simps resolve_monitor_share_def split: if_splits)
next
  case False
  then obtain share where found: "find (share_valid now (hash (trim raw))) (m_monitor_shares (ap_storage a)) = Some share"
    by auto
  let ?s = "(ap_storage a)\<lparr>m_monitor_shares := view_first now (hash (trim raw)) (m_monitor_shares (ap_storage a))\<rparr>"
  have same: "get_target ?s k = get_target (ap_storage a) k" for k by (simp add: get_target_def)
  have missing: "get_target (ap_storage a) k = Err e \<Longrightarrow> e \<noteq> share_not_found" for k e
    by (auto simp: get_target_def share_not_found_def target_missing_def storage_not_found_def split: option.splits)
  have out: "(r, a') = (case get_target (ap_storage a) (msr_target_id share) of
      Inl e \<Rightarrow> (Err e, a\<lparr>ap_storage := ?s\<rparr>) | Inr t \<Rightarrow> (Ok (200, shared_view ?s now t), a\<lparr>ap_storage := ?s\<rparr>))"
    using assms False found same
    by (auto simp: get_shared_monitor_def Let_def handler_simps resolve_monitor_share_def split: sum.splits)
  show ?thesis
  proof (cases "get_target (ap_storage a) (msr_target_id share)")
    case (Inl e)
    with out missing show ?thesis by simp
  next
    case (Inr t)
    with out find_Some_mem [OF found] view_first_count [OF found] show ?thesis
      by (auto simp: shared_view_def)
  qed
qed

definition one_share_store :: mem where
  "one_share_store = unchecked_store\<lparr>m_monitor_shares := [\<lparr>msr_id = 3, msr_target_id = 9, msr_label = None, msr_token_hash = ''t'',
     msr_created_at = 0, msr_expires_at = None, msr_view_count = 0, msr_last_viewed_at = None\<rparr>]\<rparr>"

lemma shared_view_needs_share_witness:
  "case get_shared_monitor id 5 ''t'' (plain_app one_share_store) of
     (r, a') \<Rightarrow> is_ok r \<and> sum_list (map msr_view_count (m_monitor_shares (ap_storage a'))) = 1"
proof -
  obtain r a' where run: "get_shared_monitor id 5 ''t'' (plain_app one_share_store) = (r, a')" by fastforce
  have "trim ''t'' = ''t''" by code_simp
  then have "is_ok r"
    using run by (auto simp: get_shared_monitor_def Let_def handler_simps resolve_monitor_share_def one_share_store_def
        plain_app_def share_valid_def get_target_def unchecked_store_def hm_get_def)
  then obtain status v where "r = Ok (status, v)" by (cases r) auto
  with shared_view_needs_share [OF run] have "sum_list (map msr_view_count (m_monitor_shares (ap_storage a'))) = 1"
    by (simp add: plain_app_def one_share_store_def)
  with run \<open>is_ok r\<close> show ?thesis by simp
qed

end
