(* ===== verification/Incident_Api.thy ===== *)
theory Incident_Api
  imports Public_Api Escalation_Engine
begin

text \<open>
  The endpoints for incidents, their lifecycle, postmortems and share links
  (\<open>bin/status-server/src/api/incidents.rs\<close>, \<open>incident_ops.rs\<close>,
  \<open>postmortems.rs\<close>, \<open>share_links.rs\<close>).

  The message a created incident is announced with is handed to a background
  task; it is part of the result of the handler.  Handlers behind
  \<open>RequireAuth\<close> take the authenticated identity and the request headers.
\<close>

section \<open>Incidents\<close>

definition list_incidents_endpoint :: "('pc, 'ic, incident list) handler" where
  "list_incidents_endpoint = and_then (reading (\<lambda>s. Ok (list_incidents s))) (respond 200)"

record new_incident_body =
  nib_target_id :: "uuid option"
  nib_severity :: incident_severity
  nib_public_title :: "string option"
  nib_public_description :: "string option"

definition incident_of_body :: "instant \<Rightarrow> uuid \<Rightarrow> new_incident_body \<Rightarrow> incident" where
  "incident_of_body now fresh b =
     \<lparr>inc_id = fresh, inc_target_id = (case nib_target_id b of Some k \<Rightarrow> k | None \<Rightarrow> nil_uuid), inc_started_at = now,
      inc_ended_at = None, inc_status = Down, inc_duration_secs = None, inc_check_count = 0, inc_error_sample = None,
      inc_severity = nib_severity b, inc_public_title = nib_public_title b,
      inc_public_description = nib_public_description b, inc_created_at = Some now, inc_updated_at = Some now,
      inc_updates = [], inc_regions_down = [], inc_regions_up = []\<rparr>"

definition opened_message :: "incident \<Rightarrow> message" where
  "opened_message i =
     [Lit ''incident '', Id (inc_id i), Lit '' opened: severity='', Lit (severity_as_db_str (inc_severity i)),
      Lit '' target='', Id (inc_target_id i), Lit '' title='',
      Lit (case inc_public_title i of Some t \<Rightarrow> t | None \<Rightarrow> ''(none)'')]"

definition create_incident_endpoint ::
  "('pc, 'ic) libs \<Rightarrow> instant \<Rightarrow> uuid \<Rightarrow> new_incident_body \<Rightarrow> ('pc, 'ic, incident \<times> message) handler" where
  "create_incident_endpoint L now fresh b =
     and_then (with_store (create_incident (incident_of_body now fresh b))) (\<lambda>created.
     and_then (invalidate_all_pages L) (\<lambda>_. respond 201 (created, opened_message created)))"

definition get_incident_endpoint :: "uuid \<Rightarrow> ('pc, 'ic, incident) handler" where
  "get_incident_endpoint k = and_then (reading (\<lambda>s. get_incident s k)) (respond 200)"

record incident_update_body =
  iub_severity :: "incident_severity option"
  iub_status :: "check_status option"
  iub_ended_at :: "instant option"
  iub_public_title :: "string option"
  iub_public_description :: "string option"

definition incident_body_apply_to :: "incident_update_body \<Rightarrow> incident \<Rightarrow> incident" where
  "incident_body_apply_to b i =
     patch (iub_public_description b) (\<lambda>v i. i\<lparr>inc_public_description := Some v\<rparr>)
    (patch (iub_public_title b) (\<lambda>v i. i\<lparr>inc_public_title := Some v\<rparr>)
    (patch (iub_ended_at b) (\<lambda>v i. i\<lparr>inc_ended_at := Some v\<rparr>)
    (patch (iub_status b) (\<lambda>v i. i\<lparr>inc_status := v\<rparr>)
    (patch (iub_severity b) (\<lambda>v i. i\<lparr>inc_severity := v\<rparr>) i))))"

definition update_incident_endpoint ::
  "('pc, 'ic) libs \<Rightarrow> instant \<Rightarrow> uuid \<Rightarrow> incident_update_body \<Rightarrow> ('pc, 'ic, incident) handler" where
  "update_incident_endpoint L now k b =
     and_then (reading (\<lambda>s. get_incident s k)) (\<lambda>i.
     and_then (with_store (update_incident ((incident_body_apply_to b i)\<lparr>inc_updated_at := Some now\<rparr>))) (\<lambda>updated.
     and_then (invalidate_all_pages L) (\<lambda>_. respond 200 updated)))"

record new_incident_update_body =
  niub_phase :: incident_status_phase
  niub_message :: string
  niub_posted_at :: "instant option"

definition add_incident_update_endpoint ::
  "('pc, 'ic) libs \<Rightarrow> instant \<Rightarrow> uuid \<Rightarrow> new_incident_update_body \<Rightarrow> ('pc, 'ic, incident) handler" where
  "add_incident_update_endpoint L now k b =
     and_then (with_store (add_incident_update k
       \<lparr>piu_posted_at = (case niub_posted_at b of Some t \<Rightarrow> t | None \<Rightarrow> now), piu_phase = niub_phase b,
        piu_message = niub_message b\<rparr>)) (\<lambda>i.
     and_then (invalidate_all_pages L) (\<lambda>_. respond 200 i))"

section \<open>Lifecycle\<close>

definition lifecycle_endpoint :: "('pc, 'ic) libs \<Rightarrow> (mem, incident) op \<Rightarrow> ('pc, 'ic, incident) handler" where
  "lifecycle_endpoint L operation =
     and_then (with_store operation) (\<lambda>i. and_then (invalidate_all_pages L) (\<lambda>_. respond 200 i))"

definition acknowledge_incident_endpoint :: "('pc, 'ic) libs \<Rightarrow> instant \<Rightarrow> uuid \<Rightarrow> ('pc, 'ic, incident) handler" where
  "acknowledge_incident_endpoint L now k = lifecycle_endpoint L (acknowledge_incident now k)"

definition resolve_incident_endpoint :: "('pc, 'ic) libs \<Rightarrow> instant \<Rightarrow> uuid \<Rightarrow> ('pc, 'ic, incident) handler" where
  "resolve_incident_endpoint L now k = lifecycle_endpoint L (resolve_incident now k)"

definition reopen_incident_endpoint :: "('pc, 'ic) libs \<Rightarrow> instant \<Rightarrow> uuid \<Rightarrow> ('pc, 'ic, incident) handler" where
  "reopen_incident_endpoint L now k = lifecycle_endpoint L (reopen_incident now k)"

definition incident_ops_endpoint ::
  "('pc, 'ic) libs \<Rightarrow> instant \<Rightarrow> uuid \<Rightarrow> incident_ops_patch \<Rightarrow> ('pc, 'ic, incident) handler" where
  "incident_ops_endpoint L now k p = lifecycle_endpoint L (patch_incident_ops now k p)"

definition incident_metrics_endpoint :: "instant \<Rightarrow> nat \<Rightarrow> ('pc, 'ic, incident_metrics_rollup) handler" where
  "incident_metrics_endpoint now ds = and_then (reading (\<lambda>s. Ok (incident_metrics s now (min ds 365)))) (respond 200)"

section \<open>Postmortems\<close>

definition csrf_checked :: "auth_identity \<Rightarrow> http_headers \<Rightarrow> ('s, 'a) op \<Rightarrow> ('s, 'a) op" where
  "csrf_checked identity h f =
     (case csrf_guard identity h of Inl e \<Rightarrow> refuse (api_error_of_rejection e) | Inr _ \<Rightarrow> f)"

definition get_postmortem_endpoint :: "uuid \<Rightarrow> ('pc, 'ic, incident_postmortem) handler" where
  "get_postmortem_endpoint k =
     and_then (reading (\<lambda>s. case get_postmortem s k of
         Some pm \<Rightarrow> Ok pm
       | None \<Rightarrow> Err (app_error.NotFound ''POSTMORTEM_NOT_FOUND'' [Lit ''no postmortem for incident '', Id k]))) (respond 200)"

definition upsert_postmortem_endpoint ::
  "('pc, 'ic) libs \<Rightarrow> instant \<Rightarrow> http_headers \<Rightarrow> auth_identity \<Rightarrow> uuid \<Rightarrow> postmortem_upsert \<Rightarrow>
   ('pc, 'ic, incident_postmortem) handler" where
  "upsert_postmortem_endpoint L now h identity k body =
     csrf_checked identity h
       (and_then (with_store (upsert_postmortem now k (map_option us_id (identity_user identity)) body)) (\<lambda>pm.
        and_then (invalidate_all_pages L) (\<lambda>_. respond 200 pm)))"

definition publish_postmortem_endpoint ::
  "('pc, 'ic) libs \<Rightarrow> instant \<Rightarrow> http_headers \<Rightarrow> auth_identity \<Rightarrow> uuid \<Rightarrow> ('pc, 'ic, incident_postmortem) handler" where
  "publish_postmortem_endpoint L now h identity k =
     csrf_checked identity h
       (and_then (with_store (publish_postmortem now k)) (\<lambda>pm.
        and_then (invalidate_all_pages L) (\<lambda>_. respond 200 pm)))"

definition unpublish_postmortem_endpoint ::
  "('pc, 'ic) libs \<Rightarrow> instant \<Rightarrow> http_headers \<Rightarrow> auth_identity \<Rightarrow> uuid \<Rightarrow> ('pc, 'ic, incident_postmortem) handler" where
  "unpublish_postmortem_endpoint L now h identity k =
     csrf_checked identity h
       (and_then (with_store (unpublish_postmortem now k)) (\<lambda>pm.
        and_then (invalidate_all_pages L) (\<lambda>_. respond 200 pm)))"

definition delete_postmortem_endpoint ::
  "('pc, 'ic) libs \<Rightarrow> http_headers \<Rightarrow> auth_identity \<Rightarrow> uuid \<Rightarrow> ('pc, 'ic, unit) handler" where
  "delete_postmortem_endpoint L h identity k =
     csrf_checked identity h
       (and_then (with_store (delete_postmortem k)) (\<lambda>_.
        and_then (invalidate_all_pages L) (\<lambda>_. respond 204 ())))"

section \<open>Share links\<close>

definition list_shares :: "uuid \<Rightarrow> ('pc, 'ic, monitor_share list) handler" where
  "list_shares target_id =
     and_then (reading (\<lambda>s. get_target s target_id)) (\<lambda>_.
     and_then (reading (\<lambda>s. Ok (list_monitor_shares s target_id))) (respond 200))"

definition create_share ::
  "string \<Rightarrow> (string \<Rightarrow> string) \<Rightarrow> instant \<Rightarrow> uuid \<Rightarrow> http_headers \<Rightarrow> auth_identity \<Rightarrow> uuid \<Rightarrow> string option \<Rightarrow> instant option \<Rightarrow>
   ('pc, 'ic, monitor_share \<times> string) handler" where
  "create_share raw_token hash now fresh h identity target_id label expires_at =
     csrf_checked identity h
       (and_then (reading (\<lambda>s. get_target s target_id)) (\<lambda>_.
        and_then (with_store (create_monitor_share raw_token hash now fresh target_id label expires_at)) (respond 201)))"

definition delete_share :: "http_headers \<Rightarrow> auth_identity \<Rightarrow> uuid \<Rightarrow> uuid \<Rightarrow> ('pc, 'ic, unit) handler" where
  "delete_share h identity target_id share_id =
     csrf_checked identity h (and_then (with_store (delete_monitor_share share_id)) (\<lambda>_. respond 204 ()))"

section \<open>Writes are seen at once\<close>

text \<open>No page is held, neither in the hot layer nor as a last good snapshot.\<close>

definition cleared :: "('pc, 'ic) libs \<Rightarrow> ('pc, 'ic) app_state \<Rightarrow> bool" where
  "cleared L a \<longleftrightarrow> pc_last_good (ap_public_cache a) = [] \<and>
     (\<forall>t k. co_get (lib_pages L) (pc_inner (ap_public_cache a)) t k = None)"

definition leaves_clear :: "('pc, 'ic) libs \<Rightarrow> (('pc, 'ic) app_state, 'b) op \<Rightarrow> bool" where
  "leaves_clear L f \<longleftrightarrow> (\<forall>a x a'. f a = (Ok x, a') \<longrightarrow> cleared L a')"

definition keeps_clear :: "('pc, 'ic) libs \<Rightarrow> (('pc, 'ic) app_state, 'b) op \<Rightarrow> bool" where
  "keeps_clear L f \<longleftrightarrow> (\<forall>a x a'. f a = (Ok x, a') \<longrightarrow> cleared L a \<longrightarrow> cleared L a')"

named_theorems clear_intros \<open>rules for handlers that clear the page cache\<close>

lemma leaves_clear_then [clear_intros]: "(\<And>x. leaves_clear L (g x)) \<Longrightarrow> leaves_clear L (and_then f g)"
  unfolding leaves_clear_def and_then_def by (force split: prod.splits sum.splits)

lemma leaves_clear_refuse [clear_intros]: "leaves_clear L (refuse e)"
  by (simp add: leaves_clear_def refuse_def)

lemma leaves_clear_if [clear_intros]: "leaves_clear L f \<Longrightarrow> leaves_clear L g \<Longrightarrow> leaves_clear L (if c then f else g)"
  by simp

lemma leaves_clear_csrf [clear_intros]: "leaves_clear L f \<Longrightarrow> leaves_clear L (csrf_checked identity h f)"
  by (simp add: csrf_checked_def leaves_clear_refuse split: sum.split)

lemma keeps_clear_respond [clear_intros]: "keeps_clear L (respond n b)"
  by (simp add: keeps_clear_def respond_def)

lemma keeps_clear_reading [clear_intros]: "(\<And>x. keeps_clear L (g x)) \<Longrightarrow> keeps_clear L (and_then (reading f) g)"
  unfolding keeps_clear_def and_then_def reading_def by (force split: sum.splits)

lemma leaves_clear_invalidate:
  assumes "cache_laws ttl (lib_pages L)" "\<And>x. keeps_clear L (g x)"
  shows "leaves_clear L (and_then (invalidate_all_pages L) g)"
  using assms(2) cache_cleared [OF assms(1)]
  by (auto simp: leaves_clear_def keeps_clear_def and_then_def invalidate_all_pages_def cleared_def invalidate_all_def)

lemma cleared_serves_current:
  assumes "cleared L a"
  shows "fst (get_status L t (Some k) a) =
    (case compute_status_snapshot t k (ap_storage a) of Inr p \<Rightarrow> Ok (200, p) | Inl _ \<Rightarrow> Err public_status_empty)"
  using assms by (auto simp: cleared_def get_status_def cached_snapshot_def handler_simps resolve_page_id_def get_or_compute_def
      split: sum.split)

text \<open>A handler after whose success the status endpoint serves the page of the current store.\<close>

definition seen_at_once :: "('pc, 'ic) libs \<Rightarrow> ('pc, 'ic, 'b) handler \<Rightarrow> bool" where
  "seen_at_once L f \<longleftrightarrow>
     (\<forall>a x a' t k. f a = (Ok x, a') \<longrightarrow>
        fst (get_status L t (Some k) a') =
          (case compute_status_snapshot t k (ap_storage a') of Inr p \<Rightarrow> Ok (200, p) | Inl _ \<Rightarrow> Err public_status_empty))"

lemma leaves_clear_seen: "leaves_clear L f \<Longrightarrow> seen_at_once L f"
  unfolding leaves_clear_def seen_at_once_def using cleared_serves_current by blast

lemma lifecycle_seen: "cache_laws ttl (lib_pages L) \<Longrightarrow> seen_at_once L (lifecycle_endpoint L f)"
  unfolding lifecycle_endpoint_def by (intro leaves_clear_seen leaves_clear_invalidate clear_intros)

lemma check_now_seen: "cache_laws ttl (lib_pages L) \<Longrightarrow> seen_at_once L (check_target_now L env k)"
proof (rule leaves_clear_seen)
  assume laws: "cache_laws ttl (lib_pages L)"
  show "leaves_clear L (check_target_now L env k)"
    unfolding leaves_clear_def check_target_now_def
    by (auto simp: handler_simps cleared_def invalidate_all_def cache_cleared [OF laws] Let_def
        split: sum.splits if_splits prod.splits)
qed

text \<open>A batch that changed the store is seen at once; one that changed nothing leaves the cache alone.\<close>

definition seen_if_changed :: "('pc, 'ic) libs \<Rightarrow> ('pc, 'ic, 'b) handler \<Rightarrow> bool" where
  "seen_if_changed L f \<longleftrightarrow>
     (\<forall>a x a' t k. f a = (Ok x, a') \<longrightarrow> ap_storage a' \<noteq> ap_storage a \<longrightarrow>
        fst (get_status L t (Some k) a') =
          (case compute_status_snapshot t k (ap_storage a') of Inr p \<Rightarrow> Ok (200, p) | Inl _ \<Rightarrow> Err public_status_empty))"

lemma bulk_create_unchanged:
  "bulk_create_loop now fresh i specs acc s = (res, s') \<Longrightarrow> bcr_created res = [] \<Longrightarrow> bcr_created acc = [] \<and> s' = s"
proof (induction specs arbitrary: i acc s)
  case (Cons spec specs)
  then show ?case by (fastforce simp: create_target_def split: if_splits)
qed simp

lemma bulk_action_unchanged:
  "bulk_action_loop now act ks acc m s = (res, m', s') \<Longrightarrow> \<not> m' \<Longrightarrow> \<not> m \<and> s' = s"
proof (induction ks arbitrary: acc m s)
  case (Cons k ks)
  obtain st msg ch s1 where one: "bulk_action_one now act k s = ((st, msg), ch, s1)" by (metis prod.exhaust)
  have "\<not> ch \<Longrightarrow> s1 = s"
    using one by (auto simp: bulk_action_one_def delete_target_def update_target_def Let_def hm_remove_missing
        split: option.splits bulk_action_kind.splits sum.splits if_splits prod.splits)
  moreover have "\<not> (m \<or> ch) \<and> s' = s1" using Cons.IH Cons.prems one by (fastforce simp: Let_def)
  ultimately show ?case by simp
qed simp

lemma bulk_seen:
  assumes laws: "cache_laws ttl (lib_pages L)"
  shows "seen_if_changed L (bulk_create_targets_impl L now fresh specs)" "seen_if_changed L (bulk_action_targets_impl L now body)"
proof -
  have clear: "cleared L (snd (invalidate_all_pages L a))" for a
    by (simp add: cleared_def invalidate_all_pages_def invalidate_all_def cache_cleared [OF laws])
  show "seen_if_changed L (bulk_create_targets_impl L now fresh specs)"
    unfolding seen_if_changed_def
  proof (intro allI impI)
    fix a x a' t k
    assume run: "bulk_create_targets_impl L now fresh specs a = (Ok x, a')" and ch: "ap_storage a' \<noteq> ap_storage a"
    then have "a' = snd (invalidate_all_pages L (a\<lparr>ap_storage := ap_storage a'\<rparr>))"
      by (auto simp: bulk_create_targets_impl_def invalidate_all_pages_def Let_def split: if_splits prod.splits
          dest: bulk_create_unchanged)
    with clear have "cleared L a'" by metis
    then show "fst (get_status L t (Some k) a') =
        (case compute_status_snapshot t k (ap_storage a') of Inr p \<Rightarrow> Ok (200, p) | Inl _ \<Rightarrow> Err public_status_empty)"
      by (rule cleared_serves_current)
  qed
  show "seen_if_changed L (bulk_action_targets_impl L now body)"
    unfolding seen_if_changed_def
  proof (intro allI impI)
    fix a x a' t k
    assume run: "bulk_action_targets_impl L now body a = (Ok x, a')" and ch: "ap_storage a' \<noteq> ap_storage a"
    then have "a' = snd (invalidate_all_pages L (a\<lparr>ap_storage := ap_storage a'\<rparr>))"
      by (auto simp: bulk_action_targets_impl_def invalidate_all_pages_def Let_def split: if_splits prod.splits
          dest: bulk_action_unchanged)
    with clear have "cleared L a'" by metis
    then show "fst (get_status L t (Some k) a') =
        (case compute_status_snapshot t k (ap_storage a') of Inr p \<Rightarrow> Ok (200, p) | Inl _ \<Rightarrow> Err public_status_empty)"
      by (rule cleared_serves_current)
  qed
qed

text \<open>
  A handler after whose success the status endpoint serves one page as the
  current store gives it, whenever it can be computed; the rows of the pages
  are stored under their identifiers.
\<close>

definition page_refreshed :: "('pc, 'ic) libs \<Rightarrow> uuid \<Rightarrow> ('pc, 'ic, 'b) handler \<Rightarrow> bool" where
  "page_refreshed L k f \<longleftrightarrow>
     (\<forall>a x a' t p. f a = (Ok x, a') \<longrightarrow> (\<forall>j q. get_status_page (ap_storage a) j = Ok q \<longrightarrow> sp_id q = j) \<longrightarrow>
        compute_status_snapshot t k (ap_storage a') = Ok p \<longrightarrow> fst (get_status L t (Some k) a') = Ok (200, p))"

lemma dropped_refreshes:
  assumes "\<And>t. co_get (lib_pages L) (pc_inner (ap_public_cache a)) t k = None"
    and "compute_status_snapshot t k (ap_storage a) = Ok p"
  shows "fst (get_status L t (Some k) a) = Ok (200, p)"
  using assms by (simp add: get_status_def cached_snapshot_def handler_simps resolve_page_id_def get_or_compute_def)

lemma page_writes_refreshed:
  assumes laws: "cache_laws ttl (lib_pages L)"
  shows "page_refreshed L fresh (create_status_page_endpoint L now fresh np)"
    "page_refreshed L k (update_status_page_endpoint L now k pu)"
    "page_refreshed L k (upload_asset L b64 now k slot h bytes)" "page_refreshed L k (delete_asset L k slot)"
  unfolding page_refreshed_def
  by (auto intro!: dropped_refreshes simp: create_status_page_endpoint_def update_status_page_endpoint_def upload_asset_def
      delete_asset_def handler_simps invalidate_page_def cache_invalidated [OF laws] split: sum.splits prod.splits)

text \<open>
  C7: What a write through the management API does to the public page.  After
  a target has been created, updated, deleted or checked on request, an
  incident created, updated, narrated, acknowledged, resolved, reopened or
  patched, a postmortem written, published, withdrawn or deleted, a
  maintenance window created, updated or deleted, or a component added,
  updated, removed or reordered, and after a batch of targets that changed the
  store, the status endpoint answers every page as computed from the store as
  it now is.  After a page was created or updated or an asset of it uploaded or
  deleted, it answers that page so whenever it can be computed.
\<close>

theorem writes_seen_at_once:
  assumes "cache_laws ttl (lib_pages L)"
  shows "(seen_at_once L (create_target_endpoint L now fresh nt) \<and> seen_at_once L (update_target_endpoint L now k tu) \<and>
    seen_at_once L (delete_target_endpoint L k) \<and> seen_at_once L (check_target_now L env k) \<and>
    seen_at_once L (create_incident_endpoint L now fresh ib) \<and> seen_at_once L (update_incident_endpoint L now k iu) \<and>
    seen_at_once L (add_incident_update_endpoint L now k nu) \<and>
    seen_at_once L (acknowledge_incident_endpoint L now k) \<and> seen_at_once L (resolve_incident_endpoint L now k) \<and>
    seen_at_once L (reopen_incident_endpoint L now k) \<and> seen_at_once L (incident_ops_endpoint L now k p) \<and>
    seen_at_once L (upsert_postmortem_endpoint L now h i k pu) \<and> seen_at_once L (publish_postmortem_endpoint L now h i k) \<and>
    seen_at_once L (unpublish_postmortem_endpoint L now h i k) \<and> seen_at_once L (delete_postmortem_endpoint L h i k) \<and>
    seen_at_once L (create_maintenance_window_endpoint L now fresh nw) \<and>
    seen_at_once L (update_maintenance_window_endpoint L now k wu) \<and> seen_at_once L (delete_maintenance_window_endpoint L k) \<and>
    seen_at_once L (add_component L k nc) \<and> seen_at_once L (update_component L k k' cu) \<and>
    seen_at_once L (remove_component L k k') \<and> seen_at_once L (reorder_components L k ids)) \<and>
    (seen_if_changed L (bulk_create_targets_impl L now ids' specs) \<and> seen_if_changed L (bulk_action_targets_impl L now body)) \<and>
    (page_refreshed L fresh (create_status_page_endpoint L now fresh np) \<and>
    page_refreshed L k (update_status_page_endpoint L now k su) \<and>
    page_refreshed L k (upload_asset L b64 now k slot h bytes) \<and> page_refreshed L k (delete_asset L k slot))"
proof (intro conjI bulk_seen [OF assms] page_writes_refreshed [OF assms] check_now_seen [OF assms])
qed (unfold create_target_endpoint_def update_target_endpoint_def delete_target_endpoint_def create_incident_endpoint_def
    update_incident_endpoint_def add_incident_update_endpoint_def acknowledge_incident_endpoint_def
    resolve_incident_endpoint_def reopen_incident_endpoint_def incident_ops_endpoint_def upsert_postmortem_endpoint_def
    publish_postmortem_endpoint_def unpublish_postmortem_endpoint_def delete_postmortem_endpoint_def
    create_maintenance_window_endpoint_def update_maintenance_window_endpoint_def delete_maintenance_window_endpoint_def
    add_component_def update_component_def remove_component_def reorder_components_def Let_def,
    (intro lifecycle_seen [OF assms] leaves_clear_seen leaves_clear_invalidate [OF assms] clear_intros)+)

lemma writes_seen_at_once_witness:
  "seen_at_once plain_libs (create_incident_endpoint plain_libs 3 7 \<lparr>nib_target_id = Some 9, nib_severity = Major,
     nib_public_title = Some ''down'', nib_public_description = None\<rparr>) \<and>
   seen_if_changed plain_libs (bulk_action_targets_impl plain_libs 3 \<lparr>bab_ids = [9], bab_action = Disable\<rparr>) \<and>
   page_refreshed plain_libs 1 (delete_asset plain_libs 1 ''logo'')"
proof -
  have "cache_laws DEFAULT_TTL (lib_pages plain_libs)" using ttl_ops_laws by (simp add: plain_libs_def)
  note seen = writes_seen_at_once [OF this]
  show ?thesis by (intro conjI; (rule seen [THEN conjunct1, THEN conjunct2, THEN conjunct2, THEN conjunct2, THEN conjunct2,
        THEN conjunct1] | rule seen [THEN conjunct2, THEN conjunct1, THEN conjunct2]
      | rule seen [THEN conjunct2, THEN conjunct2, THEN conjunct2, THEN conjunct2, THEN conjunct2]))
qed

section \<open>A share link from creation to revocation\<close>

lemma find_append: "find P (xs @ ys) = (case find P xs of None \<Rightarrow> find P ys | Some x \<Rightarrow> Some x)"
  by (induction xs) auto

lemma created_share_found:
  assumes "create_monitor_share raw hash now fresh k label expires s = (Ok (share, token), s')"
  shows "if case expires of None \<Rightarrow> True | Some e \<Rightarrow> now' < e
      then \<exists>row. find (share_valid now' (hash raw)) (m_monitor_shares s') = Some row \<and> msr_target_id row = k
      else find (share_valid now' (hash raw)) (m_monitor_shares s') = None"
    and "\<forall>r \<in> set (m_monitor_shares s'). msr_token_hash r = hash raw \<longrightarrow> msr_id r = ms_id share"
    and "token = raw" "m_targets s' = m_targets s"
proof -
  let ?row = "\<lparr>msr_id = fresh, msr_target_id = k, msr_label = label, msr_token_hash = hash raw, msr_created_at = now,
     msr_expires_at = expires, msr_view_count = 0, msr_last_viewed_at = None\<rparr>"
  have new: "\<forall>r \<in> set (m_monitor_shares s). msr_token_hash r \<noteq> hash raw" "share = share_view ?row" "token = raw"
    "s' = s\<lparr>m_monitor_shares := m_monitor_shares s @ [?row]\<rparr>"
    using assms(1) by (auto simp: create_monitor_share_def Let_def list_ex_iff split: if_splits)
  then have "find (share_valid now' (hash raw)) (m_monitor_shares s) = None"
    unfolding find_None_iff by (auto simp: share_valid_def)
  then show "if case expires of None \<Rightarrow> True | Some e \<Rightarrow> now' < e
      then \<exists>row. find (share_valid now' (hash raw)) (m_monitor_shares s') = Some row \<and> msr_target_id row = k
      else find (share_valid now' (hash raw)) (m_monitor_shares s') = None"
    using new(4) by (auto simp: find_append share_valid_def split: option.splits)
  show "\<forall>r \<in> set (m_monitor_shares s'). msr_token_hash r = hash raw \<longrightarrow> msr_id r = ms_id share"
    using new by (auto simp: share_view_def)
  show "token = raw" "m_targets s' = m_targets s" using new by simp_all
qed

lemma csrf_checked_Ok:
  assumes "csrf_checked identity h f a = (Ok x, a')"
  shows "f a = (Ok x, a') \<and> csrf_guard identity h = Ok ()"
  using assms by (auto simp: csrf_checked_def refuse_def split: sum.splits)

text \<open>
  C38: A share link shows its monitor exactly until it expires or is revoked.
  A link created for a monitor, with a token that is not blank and surrounded
  by no white space, opens the view of that monitor at every time before its
  expiry, and is answered as not found from its expiry on; once it is deleted,
  the same token is answered as not found at any time.
\<close>

theorem share_link_lifecycle:
  assumes "create_share raw hash now fresh h identity k label expires a = (Ok (status, share, token), a1)"
    and "raw \<noteq> []" "trim raw = raw"
  shows "token = raw \<and>
    (if case expires of None \<Rightarrow> True | Some e \<Rightarrow> now' < e
     then \<exists>t v a2. get_target (ap_storage a) k = Ok t \<and> get_shared_monitor hash now' token a1 = (Ok (200, v), a2) \<and>
       smv_public_display_name v = tg_name t
     else fst (get_shared_monitor hash now' token a1) = Err share_not_found) \<and>
    fst (get_shared_monitor hash now'' token (snd (delete_share h identity k (ms_id share) a1))) = Err share_not_found"
proof -
  obtain t s1 where t: "get_target (ap_storage a) k = Ok t"
    and create: "create_monitor_share raw hash now fresh k label expires (ap_storage a) = (Ok (share, token), s1)"
    and a1: "a1 = a\<lparr>ap_storage := s1\<rparr>"
    using csrf_checked_Ok [OF assms(1) [unfolded create_share_def]]
    by (auto simp: handler_simps split: sum.splits prod.splits)
  note c = created_share_found [OF create]
  have gone: "fst (get_shared_monitor hash at_time token a') = Err share_not_found"
    if "find (share_valid at_time (hash raw)) (m_monitor_shares (ap_storage a')) = None" for at_time a'
    using that assms(2,3) c(3) by (simp add: get_shared_monitor_def Let_def handler_simps resolve_monitor_share_def)
  have view: "if case expires of None \<Rightarrow> True | Some e \<Rightarrow> now' < e
    then \<exists>t v a2. get_target (ap_storage a) k = Ok t \<and> get_shared_monitor hash now' token a1 = (Ok (200, v), a2) \<and>
       smv_public_display_name v = tg_name t
    else fst (get_shared_monitor hash now' token a1) = Err share_not_found"
  proof (cases "case expires of None \<Rightarrow> True | Some e \<Rightarrow> now' < e")
    case True
    obtain row where row: "find (share_valid now' (hash raw)) (m_monitor_shares s1) = Some row" "msr_target_id row = k"
      using c(1) [of now'] True by auto
    have "get_target (s1\<lparr>m_monitor_shares := x\<rparr>) k = Ok t" for x using t c(4) by (simp add: get_target_def)
    then show ?thesis
      using assms(2,3) row c(3) a1 t True
      by (simp add: get_shared_monitor_def Let_def handler_simps resolve_monitor_share_def shared_view_def)
  next
    case False
    then show ?thesis using gone [of now' a1] c(1) [of now'] a1 by simp
  qed
  have "csrf_guard identity h = Ok ()" using csrf_checked_Ok [OF assms(1) [unfolded create_share_def]] by simp
  then have "m_monitor_shares (ap_storage (snd (delete_share h identity k (ms_id share) a1))) =
      filter (\<lambda>r. msr_id r \<noteq> ms_id share) (m_monitor_shares s1)"
    by (simp add: delete_share_def csrf_checked_def handler_simps delete_monitor_share_def a1)
  then have "find (share_valid now'' (hash raw)) (m_monitor_shares (ap_storage (snd (delete_share h identity k (ms_id share) a1)))) = None"
    using c(2) unfolding find_None_iff by (auto simp: share_valid_def)
  with gone view c(3) show ?thesis by blast
qed

definition token_caller :: auth_identity where
  "token_caller = TokenIdentity sample_token sample_user"

lemma token_caller_csrf [simp]: "csrf_guard token_caller h = Ok ()"
  by (simp add: token_caller_def csrf_guard_def)

lemma share_link_lifecycle_witness:
  "\<exists>share a1. create_share ''tok'' id 3 8 png_headers token_caller 9 None (Some 7) (plain_app unchecked_store) = (Ok (201, share, ''tok''), a1) \<and>
     is_ok (fst (get_shared_monitor id 6 ''tok'' a1)) \<and> fst (get_shared_monitor id 7 ''tok'' a1) = Err share_not_found \<and>
     fst (get_shared_monitor id 5 ''tok'' (snd (delete_share png_headers token_caller 9 (ms_id share) a1))) = Err share_not_found"
proof -
  have trim: "trim ''tok'' = ''tok''" by code_simp
  obtain share a1 where run: "create_share ''tok'' id 3 8 png_headers token_caller 9 None (Some 7) (plain_app unchecked_store) =
      (Ok (201, share, ''tok''), a1)"
    by (simp add: create_share_def csrf_checked_def handler_simps create_monitor_share_def Let_def
        plain_app_def unchecked_store_def get_target_def hm_get_def new_storage_def)
  from share_link_lifecycle [OF this _ trim, of 6 5] share_link_lifecycle [OF this _ trim, of 7 5] run show ?thesis by fastforce
qed

section \<open>Postmortems on the public incident\<close>

text \<open>
  A postmortem is public exactly from its publication to its withdrawal.
  After a successful publication, the public view of an incident with a public
  title carries the postmortem with its summary and without author and owners;
  after a successful withdrawal it carries none.
\<close>

theorem postmortem_visibility:
  assumes "get_incident (ap_storage a) k = Ok i" "inc_public_title i = Some title" "inc_id i = k"
  shows "(publish_postmortem_endpoint L now h identity k a = (Ok (200, pm), a1) \<longrightarrow>
      (\<exists>v. fst (get_public_incident k a1) = Ok (200, v) \<and> pi_title v = title \<and>
         map_option pp_summary (pi_postmortem v) = Some (pm_summary pm) \<and> pm_published_at pm = Some now)) \<and>
    (unpublish_postmortem_endpoint L now h identity k a = (Ok (200, pm), a1) \<longrightarrow>
      (\<exists>v. fst (get_public_incident k a1) = Ok (200, v) \<and> pi_title v = title \<and> pi_postmortem v = None))"
proof (intro conjI impI)
  assume "publish_postmortem_endpoint L now h identity k a = (Ok (200, pm), a1)"
  from csrf_checked_Ok [OF this [unfolded publish_postmortem_endpoint_def]] assms
  show "\<exists>v. fst (get_public_incident k a1) = Ok (200, v) \<and> pi_title v = title \<and>
      map_option pp_summary (pi_postmortem v) = Some (pm_summary pm) \<and> pm_published_at pm = Some now"
    by (auto simp: handler_simps publish_postmortem_def Let_def get_public_incident_def get_incident_def get_postmortem_def
        to_public_incident_def public_postmortem_of_def split: option.splits)
next
  assume "unpublish_postmortem_endpoint L now h identity k a = (Ok (200, pm), a1)"
  from csrf_checked_Ok [OF this [unfolded unpublish_postmortem_endpoint_def]] assms
  show "\<exists>v. fst (get_public_incident k a1) = Ok (200, v) \<and> pi_title v = title \<and> pi_postmortem v = None"
    by (auto simp: handler_simps unpublish_postmortem_def Let_def get_public_incident_def get_incident_def get_postmortem_def
        to_public_incident_def public_postmortem_of_def split: option.splits)
qed

lemma postmortem_visibility_witness:
  "let s = public_sample\<lparr>m_incidents := [(5, (sample_incident 5 0)\<lparr>inc_public_title := Some ''db''\<rparr>)],
         m_postmortems := [(5, draft_postmortem)]\<rparr>;
       (r, a1) = publish_postmortem_endpoint plain_libs 7 png_headers token_caller 5 (plain_app s) in
   is_ok r \<and> (\<exists>v. fst (get_public_incident 5 a1) = Ok (200, v) \<and> map_option pp_summary (pi_postmortem v) = Some (Some ''draft''))"
proof -
  let ?i = "(sample_incident 5 0)\<lparr>inc_public_title := Some ''db''\<rparr>"
  let ?a = "plain_app (public_sample\<lparr>m_incidents := [(5, ?i)], m_postmortems := [(5, draft_postmortem)]\<rparr>)"
  have i: "get_incident (ap_storage ?a) 5 = Ok ?i" "inc_public_title ?i = Some ''db''" "inc_id ?i = 5"
    by (simp_all add: get_incident_def plain_app_def hm_get_def sample_incident_def new_incident_def)
  obtain pm a1 where run: "publish_postmortem_endpoint plain_libs 7 png_headers token_caller 5 ?a = (Ok (200, pm), a1)"
    and "pm_summary pm = Some ''draft''"
    by (simp add: publish_postmortem_endpoint_def csrf_checked_def handler_simps publish_postmortem_def Let_def plain_app_def
        hm_get_def draft_postmortem_def)
  with postmortem_visibility [OF i, of plain_libs 7 png_headers token_caller pm a1] show ?thesis by (auto simp: Let_def)
qed

end
