(* ===== verification/Config_Api.thy ===== *)
theory Config_Api
  imports Incident_Api Memory_Delivery
begin

text \<open>
  The endpoints that configure alerting: silence rules, variables,
  notification channels, on-call schedules and escalation policies, and the
  read-only endpoints of the dashboard, the account export and the metrics
  (\<open>bin/status-server/src/api/silence_rules.rs\<close>, \<open>variables.rs\<close>,
  \<open>notification_channels.rs\<close>, \<open>on_call_schedules.rs\<close>,
  \<open>escalation_policies.rs\<close>, \<open>dashboard.rs\<close>, \<open>exports.rs\<close>, \<open>metrics.rs\<close>).

  URL parsing, the time-zone names, fresh ids and tokens, and what the
  notification and mail transports answer are arguments.
\<close>

section \<open>Silence rules\<close>

definition list_silence_rules_endpoint :: "instant \<Rightarrow> silence_filter \<Rightarrow> ('pc, 'ic, silence_rule list) handler" where
  "list_silence_rules_endpoint now f = and_then (reading (\<lambda>s. Ok (list_silence_rules s now f))) (respond 200)"

definition global_silence_refused :: app_error where
  "global_silence_refused = app_error.ForbiddenCoded ''GLOBAL_SILENCE_REQUIRES_SESSION''
     [Lit ''global silence rules require a browser session (API tokens are not permitted)'']"

fun is_session :: "auth_identity \<Rightarrow> bool" where
  "is_session (SessionIdentity _ _) = True"
| "is_session _ = False"

definition create_silence_rule_endpoint ::
  "instant \<Rightarrow> uuid \<Rightarrow> auth_identity \<Rightarrow> new_silence_rule \<Rightarrow> ('pc, 'ic, silence_rule) handler" where
  "create_silence_rule_endpoint now fresh identity n =
     (if nsr_ends_at n \<le> nsr_starts_at n then refuse invalid_window
      else if nsr_target_id n = None \<and> \<not> is_session identity then refuse global_silence_refused
      else and_then (with_store (create_silence_rule now fresh n)) (respond 201))"

definition get_silence_rule_endpoint :: "uuid \<Rightarrow> ('pc, 'ic, silence_rule) handler" where
  "get_silence_rule_endpoint k = and_then (reading (\<lambda>s. get_silence_rule s k)) (respond 200)"

definition update_silence_rule_endpoint ::
  "instant \<Rightarrow> uuid \<Rightarrow> silence_rule_update \<Rightarrow> ('pc, 'ic, silence_rule) handler" where
  "update_silence_rule_endpoint now k u = and_then (with_store (update_silence_rule now k u)) (respond 200)"

definition delete_silence_rule_endpoint :: "uuid \<Rightarrow> ('pc, 'ic, unit) handler" where
  "delete_silence_rule_endpoint k = and_then (with_store (delete_silence_rule k)) (\<lambda>_. respond 204 ())"

section \<open>Variables\<close>

fun var_key_error_text :: "var_key_error \<Rightarrow> string" where
  "var_key_error_text var_key_error.Empty = ''variable key must not be empty''"
| "var_key_error_text KeyTooLong = ''variable key must be at most 63 characters''"
| "var_key_error_text LeadingNonAlpha = ''variable key must start with a lowercase letter''"
| "var_key_error_text KeyInvalidChar = ''variable key may only contain lowercase letters, digits, and underscores''"

definition list_variables_endpoint :: "('pc, 'ic, variable list) handler" where
  "list_variables_endpoint = and_then (reading (\<lambda>s. Ok (list_variables s))) (respond 200)"

record create_variable_body =
  cvb_key :: string
  cvb_is_secret :: bool
  cvb_value :: string

definition variable_of_body :: "instant \<Rightarrow> uuid \<Rightarrow> create_variable_body \<Rightarrow> variable" where
  "variable_of_body now fresh b =
     \<lparr>var_id = fresh, var_org_id = nil_uuid, var_key = cvb_key b, var_is_secret = cvb_is_secret b,
      var_value = (if cvb_is_secret b then None else Some (cvb_value b)), var_updated_at = now, var_updated_by = None\<rparr>"

definition create_variable_endpoint ::
  "instant \<Rightarrow> uuid \<Rightarrow> create_variable_body \<Rightarrow> ('pc, 'ic, variable) handler" where
  "create_variable_endpoint now fresh b =
     (case validate_var_key (cvb_key b) of
        Inl e \<Rightarrow> refuse (BadRequest ''INVALID_VAR_KEY'' [Lit (var_key_error_text e)] None)
      | Inr _ \<Rightarrow> and_then (with_store (create_variable (variable_of_body now fresh b))) (respond 201))"

definition find_variable :: "mem \<Rightarrow> uuid \<Rightarrow> app_error + variable" where
  "find_variable s k =
     (case find (\<lambda>v. var_id v = k) (list_variables s) of
        Some v \<Rightarrow> Ok v
      | None \<Rightarrow> Err (app_error.NotFound ''VARIABLE_NOT_FOUND'' [Lit ''variable '', Id k, Lit '' not found'']))"

definition get_variable :: "uuid \<Rightarrow> ('pc, 'ic, variable) handler" where
  "get_variable k = and_then (reading (\<lambda>s. find_variable s k)) (respond 200)"

definition update_variable_endpoint :: "instant \<Rightarrow> uuid \<Rightarrow> string option \<Rightarrow> ('pc, 'ic, variable) handler" where
  "update_variable_endpoint now k new_value =
     and_then (reading (\<lambda>s. find_variable s k)) (\<lambda>v.
     and_then (with_store (update_variable
       ((patch new_value (\<lambda>x v. if \<not> var_is_secret v then v\<lparr>var_value := Some x\<rparr> else v) v)\<lparr>var_updated_at := now\<rparr>)))
       (respond 200))"

definition delete_variable_endpoint :: "uuid \<Rightarrow> ('pc, 'ic, unit) handler" where
  "delete_variable_endpoint k = and_then (with_store (delete_variable k)) (\<lambda>_. respond 204 ())"

section \<open>Notification channels\<close>

definition VERIFICATION_TOKEN_HOURS :: nat where
  "VERIFICATION_TOKEN_HOURS = 24"

definition redacted_channel :: "notification_channel \<Rightarrow> notification_channel" where
  "redacted_channel c = c\<lparr>nc_config := redact_in_place (nc_config c)\<rparr>"

definition list_channels :: "('pc, 'ic, notification_channel list) handler" where
  "list_channels = and_then (reading (\<lambda>s. Ok (map redacted_channel (list_notification_channels s)))) (respond 200)"

definition valid_channel_name :: "string \<Rightarrow> app_error + unit" where
  "valid_channel_name name =
     (case validate_channel_name name of
        Inl reason \<Rightarrow> Err (bad_request ''INVALID_CHANNEL_NAME'' [Lit reason]) | Inr _ \<Rightarrow> Ok ())"

definition valid_channel_config :: "(string \<Rightarrow> url option) \<Rightarrow> channel_config \<Rightarrow> app_error + unit" where
  "valid_channel_config parse_url c =
     (case validate parse_url c of
        Inl reason \<Rightarrow> Err (bad_request ''INVALID_CHANNEL_CONFIG'' [Lit reason]) | Inr _ \<Rightarrow> Ok ())"

definition create_channel ::
  "(string \<Rightarrow> url option) \<Rightarrow> instant \<Rightarrow> uuid \<Rightarrow> new_notification_channel \<Rightarrow> ('pc, 'ic, notification_channel) handler" where
  "create_channel parse_url now fresh n =
     and_then (reading (\<lambda>_. valid_channel_name (nnc_name n))) (\<lambda>_.
     and_then (reading (\<lambda>_. valid_channel_config parse_url (nnc_config n))) (\<lambda>_.
     and_then (with_store (create_notification_channel now fresh n)) (\<lambda>created.
     respond 201 (redacted_channel created))))"

definition get_channel :: "uuid \<Rightarrow> ('pc, 'ic, notification_channel) handler" where
  "get_channel k = and_then (reading (\<lambda>s. get_notification_channel s k)) (\<lambda>c. respond 200 (redacted_channel c))"

definition update_channel ::
  "(string \<Rightarrow> url option) \<Rightarrow> instant \<Rightarrow> uuid \<Rightarrow> notification_channel_update \<Rightarrow> ('pc, 'ic, notification_channel) handler" where
  "update_channel parse_url now k u =
     and_then (reading (\<lambda>_. case ncu_name u of Some n \<Rightarrow> valid_channel_name n | None \<Rightarrow> Ok ())) (\<lambda>_.
     and_then (reading (\<lambda>_. case ncu_config u of Some c \<Rightarrow> valid_channel_config parse_url c | None \<Rightarrow> Ok ())) (\<lambda>_.
     and_then (with_store (update_notification_channel now k u)) (\<lambda>updated.
     respond 200 (redacted_channel updated))))"

definition delete_channel :: "uuid \<Rightarrow> ('pc, 'ic, unit) handler" where
  "delete_channel k =
     and_then (with_store (unbind_channel_everywhere k)) (\<lambda>_.
     and_then (with_store (delete_notification_channel k)) (\<lambda>_. respond 204 ()))"

text \<open>\<open>send\<close> is what building the transport of a configuration and delivering the message answer.\<close>

datatype send_failure = BuildFailed string | SendFailed string

fun send_error :: "send_failure \<Rightarrow> app_error" where
  "send_error (BuildFailed e) = app_error.Internal ''NOTIFIER_BUILD'' [Lit e]"
| "send_error (SendFailed e) = app_error.Internal ''NOTIFIER_SEND'' [Lit e]"

definition test_message :: "notification_channel \<Rightarrow> message" where
  "test_message c = [Lit ''Test notification from channel '', Lit (nc_name c), Lit '' ('', Lit (kind_as_db_str (nc_kind c)), Lit '')'']"

definition test_channel ::
  "(channel_config \<Rightarrow> message \<Rightarrow> send_failure + unit) \<Rightarrow> uuid \<Rightarrow> ('pc, 'ic, string) handler" where
  "test_channel send k =
     and_then (reading (\<lambda>s. get_notification_channel s k)) (\<lambda>c.
     if \<not> nc_enabled c
     then refuse (bad_request ''CHANNEL_DISABLED'' [Lit ''channel is disabled; enable it before testing''])
     else and_then (reading (\<lambda>_. case send (nc_config c) (test_message c) of Inl e \<Rightarrow> Err (send_error e) | Inr _ \<Rightarrow> Ok ()))
            (\<lambda>_. respond 200 ''sent''))"

record verification_mail =
  vm_to :: string
  vm_channel_name :: string
  vm_verify_url :: string
  vm_expires_hours :: nat
  vm_decline_url :: string

definition verification_mail_of :: "string \<Rightarrow> string \<Rightarrow> string \<Rightarrow> notification_channel \<Rightarrow> verification_mail" where
  "verification_mail_of base raw_token to c =
     (let b = trim_end_matches CHR ''/'' base
      in \<lparr>vm_to = to, vm_channel_name = nc_name c,
          vm_verify_url = b @ ''/api/public/v1/notification-channels/verify?token='' @ raw_token,
          vm_expires_hours = VERIFICATION_TOKEN_HOURS,
          vm_decline_url = b @ ''/api/public/v1/notification-channels/decline?token='' @ raw_token\<rparr>)"

definition verifiable :: "notification_channel \<Rightarrow> app_error + string" where
  "verifiable c =
     (if nc_kind c \<noteq> channel_kind.Email
      then Err (app_error.Conflict ''CHANNEL_NOT_EMAIL'' [Lit ''only email channels require verification''])
      else if nc_verified_at c \<noteq> None
      then Err (app_error.Conflict ''CHANNEL_ALREADY_VERIFIED'' [Lit ''channel is already verified''])
      else if \<not> nc_enabled c
      then Err (app_error.Conflict ''CHANNEL_DISABLED'' [Lit ''channel is disabled; re-enable before requesting verification''])
      else case nc_config c of
          channel_config.Email to \<Rightarrow> Ok to
        | _ \<Rightarrow> Err (app_error.Internal ''CHANNEL_CONFIG_MISMATCH'' [Lit ''channel kind is email but config is not EmailConfig'']))"

text \<open>The mail is part of the result; \<open>deliver\<close> is what the mail sender answers.\<close>

definition request_verification ::
  "(verification_mail \<Rightarrow> string + unit) \<Rightarrow> (string \<Rightarrow> string) \<Rightarrow> string \<Rightarrow> string \<Rightarrow> instant \<Rightarrow> uuid \<Rightarrow> uuid \<Rightarrow>
   ('pc, 'ic, verification_mail) handler" where
  "request_verification deliver hash base raw_token now fresh k =
     and_then (reading (\<lambda>s. get_notification_channel s k)) (\<lambda>c.
     and_then (reading (\<lambda>_. verifiable c)) (\<lambda>to.
     and_then (with_store (create_channel_verification_token now fresh (nc_id c) (hash raw_token)
         (now + hours (int VERIFICATION_TOKEN_HOURS)))) (\<lambda>_.
     and_then (reading (\<lambda>_. case deliver (verification_mail_of base raw_token to c) of
         Inl e \<Rightarrow> Err (app_error.Internal ''VERIFICATION_EMAIL_SEND'' [Lit e]) | Inr _ \<Rightarrow> Ok ())) (\<lambda>_.
     respond 204 (verification_mail_of base raw_token to c)))))"

section \<open>On-call schedules\<close>

record new_on_call_participant =
  nop_user_id :: uuid

record new_on_call_layer =
  nol_name :: "string option"
  nol_rotation_type :: rotation_type
  nol_rotation_length_secs :: int
  nol_handoff_at :: instant
  nol_layer_order :: int
  nol_participants :: "new_on_call_participant list"

record new_on_call_schedule =
  nos_name :: string
  nos_timezone :: string
  nos_layers :: "new_on_call_layer list"

record new_on_call_override =
  noo_user_id :: uuid
  noo_starts_at :: instant
  noo_ends_at :: instant

fun validate_layers :: "nat \<Rightarrow> new_on_call_layer list \<Rightarrow> app_error + unit" where
  "validate_layers i [] = Ok ()"
| "validate_layers i (l # ls) =
     (if nol_rotation_length_secs l \<le> 0
      then Err (bad_request ''INVALID_ROTATION_LENGTH''
        [Lit ''layer at index '', Num (int i), Lit '' has non-positive rotation_length_secs '', Num (nol_rotation_length_secs l)])
      else if nol_participants l = []
      then Err (bad_request ''EMPTY_PARTICIPANTS''
        [Lit ''layer at index '', Num (int i), Lit '' must have at least one participant''])
      else validate_layers (i + 1) ls)"

definition validate_new_schedule :: "(string \<Rightarrow> zone option) \<Rightarrow> new_on_call_schedule \<Rightarrow> app_error + unit" where
  "validate_new_schedule parse_tz n =
     (if trim (nos_name n) = [] then Err (bad_request ''INVALID_SCHEDULE_NAME'' [Lit ''name is required''])
      else if parse_tz (nos_timezone n) = None
      then Err (bad_request ''INVALID_TIMEZONE''
        [Lit ''timezone '', Lit (nos_timezone n), Lit '' is not a valid IANA zone''])
      else validate_layers 0 (nos_layers n))"

text \<open>The ids minted for the layers and the participants are the supplies \<open>lid\<close> and \<open>pid\<close>.\<close>

definition build_layer :: "instant \<Rightarrow> (nat \<Rightarrow> uuid) \<Rightarrow> (nat \<Rightarrow> nat \<Rightarrow> uuid) \<Rightarrow> nat \<Rightarrow> new_on_call_layer \<Rightarrow> on_call_layer" where
  "build_layer now lid pid i l =
     \<lparr>ocl_id = lid i, ocl_name = nol_name l, ocl_rotation_type = nol_rotation_type l,
      ocl_rotation_length_secs = nol_rotation_length_secs l, ocl_handoff_at = nol_handoff_at l,
      ocl_layer_order = nol_layer_order l, ocl_created_at = now,
      ocl_participants = map (\<lambda>(j, p). \<lparr>ocp_id = pid i j, ocp_user_id = nop_user_id p, ocp_position = wrap_i32 (int j)\<rparr>)
        (enumerate 0 (nol_participants l))\<rparr>"

definition build_schedule_detail ::
  "instant \<Rightarrow> (nat \<Rightarrow> uuid) \<Rightarrow> (nat \<Rightarrow> nat \<Rightarrow> uuid) \<Rightarrow> uuid \<Rightarrow> new_on_call_schedule \<Rightarrow> on_call_schedule_detail" where
  "build_schedule_detail now lid pid k n =
     \<lparr>ocd_schedule = \<lparr>ocs_id = k, ocs_name = nos_name n, ocs_timezone = nos_timezone n, ocs_created_at = now, ocs_updated_at = now\<rparr>,
      ocd_layers = map (\<lambda>(i, l). build_layer now lid pid i l) (enumerate 0 (nos_layers n)),
      ocd_overrides = []\<rparr>"

definition list_schedules :: "('pc, 'ic, on_call_schedule_summary list) handler" where
  "list_schedules = and_then (reading (\<lambda>s. Ok (list_on_call_schedules s))) (respond 200)"

definition put_schedule ::
  "(string \<Rightarrow> zone option) \<Rightarrow> nat \<Rightarrow> instant \<Rightarrow> (nat \<Rightarrow> uuid) \<Rightarrow> (nat \<Rightarrow> nat \<Rightarrow> uuid) \<Rightarrow> uuid \<Rightarrow> new_on_call_schedule \<Rightarrow>
   ('pc, 'ic, on_call_schedule) handler" where
  "put_schedule parse_tz status now lid pid k n =
     and_then (reading (\<lambda>_. validate_new_schedule parse_tz n)) (\<lambda>_.
     and_then (with_store (upsert_on_call_schedule (build_schedule_detail now lid pid k n))) (respond status))"

definition create_schedule where
  "create_schedule parse_tz now lid pid fresh n = put_schedule parse_tz 201 now lid pid fresh n"

definition update_schedule where
  "update_schedule parse_tz now lid pid k n = put_schedule parse_tz 200 now lid pid k n"

definition get_schedule :: "uuid \<Rightarrow> ('pc, 'ic, on_call_schedule_detail) handler" where
  "get_schedule k = and_then (reading (\<lambda>s. get_on_call_schedule s k)) (respond 200)"

definition delete_schedule :: "uuid \<Rightarrow> ('pc, 'ic, unit) handler" where
  "delete_schedule k = and_then (with_store (delete_on_call_schedule k)) (\<lambda>_. respond 204 ())"

definition list_overrides :: "uuid \<Rightarrow> ('pc, 'ic, on_call_override list) handler" where
  "list_overrides k =
     and_then (reading (\<lambda>s. get_on_call_schedule s k)) (\<lambda>_.
     and_then (reading (\<lambda>s. Ok (list_on_call_overrides s k))) (respond 200))"

definition create_override :: "instant \<Rightarrow> uuid \<Rightarrow> uuid \<Rightarrow> new_on_call_override \<Rightarrow> ('pc, 'ic, on_call_override) handler" where
  "create_override now fresh k n =
     and_then (reading (\<lambda>s. get_on_call_schedule s k)) (\<lambda>_.
     if noo_ends_at n \<le> noo_starts_at n
     then refuse (bad_request ''INVALID_OVERRIDE_WINDOW'' [Lit ''ends_at must be strictly after starts_at''])
     else and_then (with_store (create_on_call_override k
       \<lparr>oco_id = fresh, oco_user_id = noo_user_id n, oco_starts_at = noo_starts_at n, oco_ends_at = noo_ends_at n,
        oco_created_by = None, oco_created_at = now\<rparr>)) (respond 201))"

definition delete_override :: "uuid \<Rightarrow> uuid \<Rightarrow> ('pc, 'ic, unit) handler" where
  "delete_override k override_id = and_then (with_store (delete_on_call_override override_id)) (\<lambda>_. respond 204 ())"

section \<open>Escalation policies\<close>

definition list_policies :: "('pc, 'ic, escalation_policy_summary list) handler" where
  "list_policies = and_then (reading (\<lambda>s. Ok (list_escalation_policies s))) (respond 200)"

definition put_policy ::
  "nat \<Rightarrow> instant \<Rightarrow> (nat \<Rightarrow> uuid) \<Rightarrow> (nat \<Rightarrow> nat \<Rightarrow> uuid) \<Rightarrow> uuid \<Rightarrow> new_escalation_policy \<Rightarrow>
   ('pc, 'ic, escalation_policy) handler" where
  "put_policy status now sid tid k n =
     and_then (reading (\<lambda>_. validate_new_policy n)) (\<lambda>_.
     and_then (with_store (upsert_escalation_policy (build_policy now sid tid k n))) (respond status))"

definition create_policy where
  "create_policy now sid tid fresh n = put_policy 201 now sid tid fresh n"

definition update_policy where
  "update_policy now sid tid k n = put_policy 200 now sid tid k n"

definition get_policy :: "uuid \<Rightarrow> ('pc, 'ic, escalation_policy) handler" where
  "get_policy k = and_then (reading (\<lambda>s. get_escalation_policy s k)) (respond 200)"

definition delete_policy :: "uuid \<Rightarrow> ('pc, 'ic, unit) handler" where
  "delete_policy k = and_then (with_store (delete_escalation_policy k)) (\<lambda>_. respond 204 ())"

section \<open>Dashboard, export and metrics\<close>

definition get_dashboard :: "instant \<Rightarrow> ('pc, 'ic, dashboard_row list) handler" where
  "get_dashboard now = and_then (reading (\<lambda>s. Ok (dashboard_rollup s now))) (respond 200)"

definition get_dashboard_summary :: "('pc, 'ic, dashboard_summary) handler" where
  "get_dashboard_summary = and_then (reading (\<lambda>s. Ok (dashboard_summary_of s))) (respond 200)"

definition get_target_latency :: "uuid \<Rightarrow> instant \<Rightarrow> instant \<Rightarrow> nat \<Rightarrow> ('pc, 'ic, latency_bucket list) handler" where
  "get_target_latency k from_at to_at buckets =
     and_then (reading (\<lambda>s. get_target s k)) (\<lambda>_.
     and_then (reading (\<lambda>s. Ok (latency_buckets s k from_at to_at (min buckets 1000)))) (respond 200))"

definition get_target_uptime :: "uuid \<Rightarrow> instant \<Rightarrow> instant \<Rightarrow> ('pc, 'ic, uptime_result option) handler" where
  "get_target_uptime k from_at to_at =
     and_then (reading (\<lambda>s. get_target s k)) (\<lambda>_.
     and_then (reading (\<lambda>s. Ok (Memory_Analytics.uptime s k from_at to_at))) (respond 200))"

record account_export =
  ae_exported_at :: instant
  ae_version :: nat
  ae_targets :: "target list"
  ae_status_pages :: "status_page list"
  ae_components :: "status_page_component list"
  ae_incidents :: "incident list"
  ae_maintenance_windows :: "maintenance_window list"
  ae_notification_channels :: "notification_channel list"
  ae_silence_rules :: "silence_rule list"

definition export_account :: "instant \<Rightarrow> mem \<Rightarrow> account_export" where
  "export_account now s =
     \<lparr>ae_exported_at = now, ae_version = 1, ae_targets = list_targets s, ae_status_pages = list_status_pages s,
      ae_components = concat (map (\<lambda>p. list_status_page_components s (sp_id p)) (list_status_pages s)),
      ae_incidents = list_incidents s, ae_maintenance_windows = list_maintenance_windows s now maintenance_filter.All,
      ae_notification_channels = list_notification_channels s,
      ae_silence_rules = list_silence_rules s now silence_filter.All\<rparr>"

definition metrics_text :: "mem \<Rightarrow> utext" where
  "metrics_text s =
     uni ''# HELP statuspage_targets_total Total number of configured targets.'' @ nl @
     uni ''# TYPE statuspage_targets_total gauge'' @ nl @
     uni ''statuspage_targets_total '' @ num_text (length (list_targets s)) @ nl @
     uni ''# HELP statuspage_incidents_total Total number of incidents.'' @ nl @
     uni ''# TYPE statuspage_incidents_total gauge'' @ nl @
     uni ''statuspage_incidents_total '' @ num_text (length (list_incidents s)) @ nl"

definition custom_css :: "string option \<Rightarrow> nat \<times> string \<times> string" where
  "custom_css configured =
     (200, ''text/css; charset=utf-8'', case configured of Some css \<Rightarrow> css | None \<Rightarrow> [])"

section \<open>The router\<close>

text \<open>
  The layers a request under \<open>/api/v1\<close> passes before its handler: the forgery
  check, then the identity, resolved from the cookie or the bearer token of the
  request against the store.  The touches that resolving spawns are made before
  the handler runs.  The management API can be switched off.  The result is
  \<open>None\<close> when resolving the identity panics.
\<close>

definition management_request ::
  "bool \<Rightarrow> auth_config \<Rightarrow> crypto \<Rightarrow> instant \<Rightarrow> string \<Rightarrow> http_headers \<Rightarrow>
   (auth_identity \<Rightarrow> (('pc, 'ic) app_state, nat \<times> 'b) op) \<Rightarrow>
   ('pc, 'ic) app_state \<Rightarrow> (rejection + (app_error + nat \<times> 'b)) option \<times> ('pc, 'ic) app_state" where
  "management_request enabled cfg cr now http_method h handle a =
     (if \<not> enabled then (Some (Err (Reject 404 ''management API disabled'')), a)
      else case csrf_guard_middleware http_method h of
          Inl e \<Rightarrow> (Some (Err e), a)
        | Inr _ \<Rightarrow>
           (let a' = a\<lparr>ap_storage := spawned_touches cfg cr now h (ap_storage a)\<rparr> in
            case resolve_identity cfg cr now h (ap_storage a) of
              None \<Rightarrow> (None, a')
            | Some identity \<Rightarrow>
               (case require_auth_middleware identity of
                  Inl e \<Rightarrow> (Some (Err e), a')
                | Inr _ \<Rightarrow> (case handle identity a' of (r, a'') \<Rightarrow> (Some (Ok r), a'')))))"

definition readyz :: "mem \<Rightarrow> nat \<times> message" where
  "readyz s = (case ping s of Inr _ \<Rightarrow> (200, [Lit ''ready'']) | Inl e \<Rightarrow> (503, Lit ''not ready: '' # app_error_text e))"

section \<open>Guards of the management API\<close>

text \<open>
  What a stored credential of a request is: a session named by its cookie and
  within both timeouts, or an unexpired API token its bearer token verifies
  against, of a user that exists.
\<close>

definition live_session :: "auth_config \<Rightarrow> crypto \<Rightarrow> instant \<Rightarrow> http_headers \<Rightarrow> mem \<Rightarrow> user \<Rightarrow> string \<Rightarrow> bool" where
  "live_session cfg cr now h s u c \<longleftrightarrow> extract_session_cookie h (cfg_cookie_name cfg) = Some c \<and>
     (case hm_get (m_sessions s) (cookie_digest cr c) of
        None \<Rightarrow> False
      | Some row \<Rightarrow> get_user s (ses_user_id row) = Ok u \<and> now \<le> ses_expires_at row \<and>
          now \<le> ses_last_used_at row + days (int (cfg_idle_timeout_days cfg)))"

definition live_token :: "crypto \<Rightarrow> instant \<Rightarrow> http_headers \<Rightarrow> mem \<Rightarrow> user \<Rightarrow> bool" where
  "live_token cr now h s u \<longleftrightarrow>
     (case extract_bearer_token h of
        None \<Rightarrow> False
      | Some raw \<Rightarrow> list_ex (\<lambda>row. get_user s (at_user_id row) = Ok u \<and> token_verify cr raw (at_token_hash row) \<and>
          (case at_expires_at row of None \<Rightarrow> True | Some e \<Rightarrow> now \<le> e)) (hm_values (m_api_tokens s)))"

lemma session_identity_live:
  "session_identity cfg cr now h s = Some i \<longleftrightarrow> (\<exists>u c. i = SessionIdentity u c \<and> live_session cfg cr now h s u c)"
  by (auto simp: session_identity_def live_session_def lookup_session_def store_lookup_session_def
      split: option.splits sum.splits if_splits)

lemma token_identity_live:
  assumes "token_identity cr now h s = Some i"
  shows "i = Anonymous \<or> (\<exists>row u. i = TokenIdentity row u \<and> live_token cr now h s u)"
proof (cases i)
  case (TokenIdentity row u)
  with assms obtain raw p where raw: "extract_bearer_token h = Some raw" "get_user s (at_user_id row) = Ok u"
      "lookup_candidates cr now raw (find_api_tokens_by_prefix s p) = TokenActive row"
    by (auto simp: token_identity_def lookup_api_token_def split: option.splits api_token_lookup_outcome.splits sum.splits if_splits)
  from lookup_candidates_active [OF raw(3)] raw show ?thesis
    using TokenIdentity by (auto simp: live_token_def list_ex_iff find_api_tokens_by_prefix_def split: option.splits)
qed (use assms in \<open>auto simp: token_identity_def split: option.splits api_token_lookup_outcome.splits sum.splits\<close>)

lemma resolved_live:
  assumes "resolve_identity cfg cr now h s = Some i" "is_authenticated i"
  shows "\<exists>u. identity_user i = Some u \<and> ((\<exists>c. live_session cfg cr now h s u c) \<or> live_token cr now h s u)"
proof (cases "session_identity cfg cr now h s")
  case None
  then show ?thesis using assms token_identity_live by (fastforce simp: resolve_identity_def)
next
  case (Some j)
  then have "j = i" "\<exists>u c. j = SessionIdentity u c \<and> live_session cfg cr now h s u c"
    using assms(1) session_identity_live [of cfg cr now h s j] Some by (simp_all add: resolve_identity_def)
  then show ?thesis by auto
qed

abbreviation writing :: "string \<Rightarrow> bool" where
  "writing http_method \<equiv> http_method \<in> {''POST'', ''PATCH'', ''DELETE'', ''PUT''}"

text \<open>
  C12: The guards of the management API.  A request reaches its handler only
  if the API is enabled and the cookie or the bearer token of the request is
  the credential of a stored user, a session within both timeouts or an
  unexpired token, and the handler is given that user.  A request that writes
  and has neither the custom header nor an authorization header, which is all
  a foreign site can make a browser send, is refused with 403 whatever cookies
  it carries, and the application is as before; so is, with 404, every request
  when the API is disabled.  A request refused for lack of a credential changes
  no more than what resolving it spawned.  A request with a live session that
  passes the forgery check is served as the user of the session.
\<close>

theorem management_requests_guarded:
  assumes "management_request enabled cfg cr now http_method h handle a = (out, a')"
  defines "a1 \<equiv> a\<lparr>ap_storage := spawned_touches cfg cr now h (ap_storage a)\<rparr>"
  shows "(\<forall>r. out = Some (Ok r) \<longrightarrow> enabled \<and>
      (writing http_method \<longrightarrow> hd_has h ''x-requested-with'' \<or> hd_has h ''authorization'') \<and>
      (\<exists>i u. identity_user i = Some u \<and> (r, a') = handle i a1 \<and>
        ((\<exists>c. live_session cfg cr now h (ap_storage a) u c) \<or> live_token cr now h (ap_storage a) u))) \<and>
    (\<not> enabled \<longrightarrow> out = Some (Err (Reject 404 ''management API disabled'')) \<and> a' = a) \<and>
    (enabled \<and> writing http_method \<and> \<not> hd_has h ''x-requested-with'' \<and> \<not> hd_has h ''authorization'' \<longrightarrow>
      out = Some (Err (Reject 403 ''CSRF check failed'')) \<and> a' = a) \<and>
    ((\<nexists>r. out = Some (Ok r)) \<longrightarrow> a' = a \<or> a' = a1) \<and>
    (\<forall>u c. enabled \<and> (writing http_method \<longrightarrow> hd_has h ''x-requested-with'' \<or> hd_has h ''authorization'') \<and>
      live_session cfg cr now h (ap_storage a) u c \<longrightarrow>
      (out, a') = map_prod (\<lambda>r. Some (Ok r)) id (handle (SessionIdentity u c) a1))"
proof (cases "enabled \<and> csrf_guard_middleware http_method h = Ok ()")
  case False
  then show ?thesis
    using assms(1) by (auto simp: management_request_def csrf_guard_middleware_def split: if_splits)
next
  case True
  then have head: "writing http_method \<longrightarrow> hd_has h ''x-requested-with'' \<or> hd_has h ''authorization''"
    by (auto simp: csrf_guard_middleware_def split: if_splits)
  have live: "resolve_identity cfg cr now h (ap_storage a) = Some (SessionIdentity u c)"
    if "live_session cfg cr now h (ap_storage a) u c" for u c
    using that session_identity_live [of cfg cr now h "ap_storage a" "SessionIdentity u c"] by (auto simp: resolve_identity_def)
  show ?thesis
  proof (cases "resolve_identity cfg cr now h (ap_storage a)")
    case None
    then show ?thesis using assms True head live by (auto simp: management_request_def Let_def)
  next
    case (Some i)
    obtain r b where run: "handle i a1 = (r, b)" by fastforce
    have res: "(out, a') = (if is_authenticated i then (Some (Ok r), b) else (Some (Err (Reject 401 ''authentication required'')), a1))"
      using assms True Some run by (auto simp: management_request_def Let_def require_auth_middleware_def)
    have same: "i = SessionIdentity u c" if "live_session cfg cr now h (ap_storage a) u c" for u c
      using live [OF that] Some by simp
    show ?thesis
    proof (cases "is_authenticated i")
      case False
      then have "\<nexists>u c. live_session cfg cr now h (ap_storage a) u c" using same by fastforce
      then show ?thesis using False res head True by auto
    next
      case auth: True
      have served: "map_prod (\<lambda>r. Some (Ok r)) id (handle i a1) = (out, a')" "out = Some (Ok r)" "(r, a') = handle i a1"
        using res auth run by simp_all
      with resolved_live [OF Some auth] have "\<exists>i u. identity_user i = Some u \<and> (r, a') = handle i a1 \<and>
          ((\<exists>c. live_session cfg cr now h (ap_storage a) u c) \<or> live_token cr now h (ap_storage a) u)" by blast
      with served(1,2) same head True show ?thesis
        by (intro conjI allI impI) (simp_all only: option.inject sum.inject simp_thms, metis+)
    qed
  qed
qed

section \<open>Secrets of channels\<close>

text \<open>
  C35: The channel endpoints never show a secret: in every channel they return
  each secret value of the configuration is replaced by the mask, whatever is
  stored.  The account export does not mask: it returns the stored channels.
\<close>

theorem channel_responses_masked:
  "(\<forall>r. fst (get_channel k a) = Ok r \<longrightarrow> set (secrets (nc_config (snd r))) \<subseteq> {MASK}) \<and>
   (\<forall>r. fst (list_channels a) = Ok r \<longrightarrow> (\<forall>c \<in> set (snd r). set (secrets (nc_config c)) \<subseteq> {MASK})) \<and>
   (\<forall>r. fst (create_channel parse_url now fresh n a) = Ok r \<longrightarrow> set (secrets (nc_config (snd r))) \<subseteq> {MASK}) \<and>
   (\<forall>r. fst (update_channel parse_url now k u a) = Ok r \<longrightarrow> set (secrets (nc_config (snd r))) \<subseteq> {MASK}) \<and>
   ae_notification_channels (export_account now (ap_storage a)) = list_notification_channels (ap_storage a)"
proof -
  have masked: "set (secrets (nc_config (redacted_channel c))) \<subseteq> {MASK}" for c
    by (auto simp: redacted_channel_def secrets_redact)
  then show ?thesis
    by (auto simp: get_channel_def list_channels_def create_channel_def update_channel_def export_account_def handler_simps
        split: sum.splits prod.splits)
qed

text \<open>
  Sending a channel back the way it was shown destroys its secret.  For a
  transport whose key may be any text, the masked configuration passes the
  validation of the update endpoint and replaces the stored one.
\<close>

theorem masked_patch_overwrites_secret:
  assumes "get_notification_channel (ap_storage a) k = Ok c" "nc_config c = channel_config.Ilert key"
    and "fst (get_channel k a) = Ok (200, shown)"
  shows "\<exists>r a' c'. update_channel parse_url now k \<lparr>ncu_name = None, ncu_config = Some (nc_config shown), ncu_enabled = None\<rparr> a =
      (Ok (200, r), a') \<and>
    get_notification_channel (ap_storage a') k = Ok c' \<and> nc_config c' = channel_config.Ilert MASK"
proof -
  have shown: "nc_config shown = channel_config.Ilert MASK"
    using assms by (auto simp: get_channel_def handler_simps redacted_channel_def redact_in_place_def ilert_impl_def)
  have "trim MASK \<noteq> []" by code_simp
  then have "valid_channel_config parse_url (channel_config.Ilert MASK) = Ok ()"
    by (simp add: valid_channel_config_def validate_def ilert_impl_def reject_def)
  with shown assms(1) show ?thesis
    by (simp add: update_channel_def handler_simps update_notification_channel_def channel_patched_def Let_def
        get_notification_channel_def split: option.splits)
qed

definition ilert_store :: mem where
  "ilert_store = new_storage\<lparr>m_notification_channels := [(4, \<lparr>nc_id = 4, nc_name = ''ops'', nc_kind = channel_kind.Ilert,
     nc_config = channel_config.Ilert ''key'', nc_enabled = True, nc_disabled_reason = None, nc_verified_at = None,
     nc_created_at = 0, nc_updated_at = 0, nc_write_source = Ui\<rparr>)]\<rparr>"

lemma masked_patch_overwrites_secret_witness:
  "let a = plain_app ilert_store in
   \<exists>shown r a' c'. fst (get_channel 4 a) = Ok (200, shown) \<and>
     update_channel (\<lambda>_. None) 5 4 \<lparr>ncu_name = None, ncu_config = Some (nc_config shown), ncu_enabled = None\<rparr> a = (Ok (200, r), a') \<and>
     get_notification_channel (ap_storage a') 4 = Ok c' \<and> nc_config c' = channel_config.Ilert MASK"
proof -
  let ?a = "plain_app ilert_store"
  obtain c where c: "get_notification_channel (ap_storage ?a) 4 = Ok c" "nc_config c = channel_config.Ilert ''key''"
    by (simp add: get_notification_channel_def plain_app_def ilert_store_def hm_get_def)
  then have "fst (get_channel 4 ?a) = Ok (200, redacted_channel c)" by (simp add: get_channel_def handler_simps)
  from masked_patch_overwrites_secret [OF c this] this show ?thesis by (fastforce simp: Let_def)
qed

section \<open>Verification mails\<close>

lemma filter_only_inserted:
  "(\<And>e. e \<in> set m \<Longrightarrow> \<not> P e) \<Longrightarrow> P (k, v) \<Longrightarrow> filter P (hm_insert k v m) = [(k, v)]"
  by (induction m) (auto simp: hm_insert_def filter_empty_conv)

text \<open>
  The link of a verification mail works.  If a mail is requested for a
  channel and its token is opened within a day, the channel is verified and
  keeps its configuration; the hash function has to keep the token apart from
  the tokens already stored.
\<close>

theorem verification_mail_verifies:
  assumes "request_verification deliver hash base raw now fresh k a = (Ok (204, mail), a1)"
    and "get_notification_channel (ap_storage a) k = Ok c" "nc_id c = k"
    and "\<forall>(_, t) \<in> set (m_channel_verification_tokens (ap_storage a)). cvt_token_hash t \<noteq> hash raw"
    and "raw \<noteq> []" "trim raw = raw" "now' < now + hours 24"
  shows "\<exists>a2 c'. verify_channel hash now' raw a1 = (Verified, a2) \<and> get_notification_channel (ap_storage a2) k = Ok c' \<and>
    nc_verified_at c' = Some now' \<and> nc_config c' = nc_config c"
proof -
  let ?row = "\<lparr>cvt_id = fresh, cvt_channel_id = k, cvt_token_hash = hash raw,
                 cvt_expires_at = now + hours 24, cvt_used_at = None, cvt_created_at = now\<rparr>"
  let ?ts = "m_channel_verification_tokens (ap_storage a)"
  have tokens: "m_channel_verification_tokens (ap_storage a1) = hm_insert fresh ?row ?ts"
    and same: "m_notification_channels (ap_storage a1) = m_notification_channels (ap_storage a)"
    using assms(1-3) by (auto simp: request_verification_def handler_simps create_channel_verification_token_def Let_def
        VERIFICATION_TOKEN_HOURS_def split: sum.splits)
  have one: "filter (\<lambda>(_, t). token_usable now' (hash raw) t) (hm_insert fresh ?row ?ts) = [(fresh, ?row)]"
    using assms(4,7) by (intro filter_only_inserted) (auto simp: token_usable_def)
  let ?s2 = "(ap_storage a1)\<lparr>m_channel_verification_tokens :=
      hm_insert fresh (?row\<lparr>cvt_used_at := Some now'\<rparr>) (hm_insert fresh ?row ?ts)\<rparr>"
  have consume: "consume_channel_verification_token now' (hash raw) (ap_storage a1) = (Ok (Some k), ?s2)"
    by (simp add: consume_channel_verification_token_def tokens one)
  have c: "hm_get (m_notification_channels ?s2) k = Some c"
    using assms(2) same by (auto simp: get_notification_channel_def split: option.splits)
  then have "verify_channel hash now' raw a1 = (Verified, a1\<lparr>ap_storage := ?s2\<lparr>m_notification_channels :=
      hm_insert k (c\<lparr>nc_verified_at := Some now', nc_updated_at := now'\<rparr>) (m_notification_channels ?s2)\<rparr>\<rparr>)"
    using assms(5,6) consume by (simp add: verify_channel_def click_link_def Let_def with_store_def set_channel_verified_def)
  then show ?thesis by (simp add: get_notification_channel_def)
qed

definition mail_store :: mem where
  "mail_store = new_storage\<lparr>m_notification_channels := [(4, \<lparr>nc_id = 4, nc_name = ''ops'', nc_kind = channel_kind.Email,
     nc_config = channel_config.Email ''a@b.c'', nc_enabled = True, nc_disabled_reason = None, nc_verified_at = None,
     nc_created_at = 0, nc_updated_at = 0, nc_write_source = Ui\<rparr>)]\<rparr>"

lemma verification_mail_verifies_witness:
  "\<exists>mail a1 a2. request_verification (\<lambda>_. Ok ()) id ''http://h'' ''tok'' 0 7 4 (plain_app mail_store) = (Ok (204, mail), a1) \<and>
     verify_channel id 5 ''tok'' a1 = (Verified, a2)"
proof -
  let ?a = "plain_app mail_store"
  obtain c where c: "get_notification_channel (ap_storage ?a) 4 = Ok c" "nc_id c = 4"
    by (simp add: get_notification_channel_def plain_app_def mail_store_def hm_get_def)
  obtain mail a1 where run: "request_verification (\<lambda>_. Ok ()) id ''http://h'' ''tok'' 0 7 4 ?a = (Ok (204, mail), a1)"
    by (simp add: request_verification_def handler_simps get_notification_channel_def plain_app_def mail_store_def hm_get_def
        verifiable_def create_channel_verification_token_def Let_def)
  have "\<forall>(_, t) \<in> set (m_channel_verification_tokens (ap_storage ?a)). cvt_token_hash t \<noteq> id ''tok''"
    by (simp add: plain_app_def mail_store_def new_storage_def)
  moreover have "trim ''tok'' = ''tok''" by code_simp
  ultimately show ?thesis
    using verification_mail_verifies [OF run c, of 5] run by (fastforce simp: instant_simps)
qed

section \<open>Silence rules and variables\<close>

lemma create_silence_rule_stored:
  "create_silence_rule now k n s = (Ok r, s') \<Longrightarrow>
     hm_get (m_silence_rules s') k = Some r \<and> sr_starts_at r = nsr_starts_at n \<and> sr_ends_at r = nsr_ends_at n"
  by (auto simp: create_silence_rule_def Let_def split: if_splits)

text \<open>
  Who can silence everything.  A rule without a target can be created in a
  browser session only, but the update endpoint asks for no identity: any
  caller turns a rule for one target into a rule for all of them.
\<close>

theorem global_silence_by_update:
  assumes "\<not> is_session identity"
    and "create_silence_rule_endpoint now fresh identity n a = (Ok (201, r), a1)"
  shows "nsr_target_id n \<noteq> None \<and>
    (\<exists>r' a2. update_silence_rule_endpoint now' fresh \<lparr>sru_title = None, sru_description = None, sru_target_id = Some None,
        sru_channel_id = None, sru_reasons = None, sru_starts_at = None, sru_ends_at = None\<rparr> a1 = (Ok (200, r'), a2) \<and>
       sr_target_id r' = None \<and>
       (sr_starts_at r' \<le> t \<longrightarrow> t < sr_ends_at r' \<longrightarrow> r' \<in> set (list_active_silences_for_target (ap_storage a2) t k)))"
proof -
  have target: "nsr_target_id n \<noteq> None" and window: "nsr_starts_at n < nsr_ends_at n"
    using assms by (auto simp: create_silence_rule_endpoint_def refuse_def split: if_splits)
  then have "create_silence_rule now fresh n (ap_storage a) = (Ok r, ap_storage a1)"
    using assms by (auto simp: create_silence_rule_endpoint_def handler_simps split: sum.splits prod.splits if_splits)
  from create_silence_rule_stored [OF this] window
  have stored: "hm_get (m_silence_rules (ap_storage a1)) fresh = Some r" "sr_starts_at r < sr_ends_at r" by simp_all
  let ?r = "r\<lparr>sr_target_id := None, sr_updated_at := now'\<rparr>"
  have "?r \<in> set (list_active_silences_for_target (s\<lparr>m_silence_rules := hm_insert fresh ?r m\<rparr>) t k)"
    if "sr_starts_at r \<le> t" "t < sr_ends_at r" for s m
    using that hm_get_in_values [of "hm_insert fresh ?r m" fresh ?r]
    by (simp add: list_active_silences_for_target_def is_active_at_def)
  then show ?thesis
    using target stored by (simp add: update_silence_rule_endpoint_def handler_simps update_silence_rule_def Let_def silence_patched_def)
qed

definition silence_body :: new_silence_rule where
  "silence_body = \<lparr>nsr_title = ''deploy'', nsr_description = None, nsr_target_id = Some 9, nsr_channel_id = None,
     nsr_reasons = [], nsr_starts_at = 0, nsr_ends_at = 50\<rparr>"

lemma global_silence_by_update_witness:
  "\<exists>r a1 r' a2. create_silence_rule_endpoint 0 3 token_caller silence_body (plain_app new_storage) = (Ok (201, r), a1) \<and>
     update_silence_rule_endpoint 1 3 \<lparr>sru_title = None, sru_description = None, sru_target_id = Some None,
        sru_channel_id = None, sru_reasons = None, sru_starts_at = None, sru_ends_at = None\<rparr> a1 = (Ok (200, r'), a2) \<and>
     sr_target_id r' = None"
proof -
  have "\<not> is_session token_caller" by (simp add: token_caller_def)
  moreover obtain r a1 where run: "create_silence_rule_endpoint 0 3 token_caller silence_body (plain_app new_storage) = (Ok (201, r), a1)"
    by (simp add: create_silence_rule_endpoint_def silence_body_def handler_simps create_silence_rule_def Let_def plain_app_def
        new_storage_def)
  ultimately show ?thesis using global_silence_by_update [of token_caller 0 3 silence_body "plain_app new_storage" r a1 1 5 9] by blast
qed

datatype variable_request =
    CreateVariable instant uuid create_variable_body
  | UpdateVariable instant uuid "string option"
  | DeleteVariable uuid

fun variable_step :: "variable_request \<Rightarrow> ('pc, 'ic) app_state \<Rightarrow> ('pc, 'ic) app_state" where
  "variable_step (CreateVariable now fresh b) a = snd (create_variable_endpoint now fresh b a)"
| "variable_step (UpdateVariable now k v) a = snd (update_variable_endpoint now k v a)"
| "variable_step (DeleteVariable k) a = snd (delete_variable_endpoint k a)"

definition secrets_unset :: "('pc, 'ic) app_state \<Rightarrow> bool" where
  "secrets_unset a \<longleftrightarrow> (\<forall>(k, v) \<in> set (m_variables (ap_storage a)). var_is_secret v \<longrightarrow> var_value v = None)"

lemma secrets_unset_insert:
  "secrets_unset a \<Longrightarrow> (var_is_secret v \<Longrightarrow> var_value v = None) \<Longrightarrow>
   secrets_unset (a\<lparr>ap_storage := s\<lparr>m_variables := hm_insert k v (m_variables (ap_storage a))\<rparr>\<rparr>)"
  using hm_insert_entries [of k v "m_variables (ap_storage a)"] by (fastforce simp: secrets_unset_def)

lemma found_variable_redacted: "find_variable s k = Ok v \<Longrightarrow> var_is_secret v \<Longrightarrow> var_value v = None"
  using find_Some_mem [of "\<lambda>v. var_id v = k" "list_variables s" v]
  by (auto simp: find_variable_def list_variables_def redacted_variable_def split: option.splits if_splits)

lemma variable_step_secrets: "secrets_unset a \<Longrightarrow> secrets_unset (variable_step r a)"
proof (cases r)
  case (CreateVariable now fresh b)
  assume "secrets_unset a"
  with CreateVariable secrets_unset_insert [of a "variable_of_body now fresh b"] show ?thesis
    by (simp add: create_variable_endpoint_def handler_simps create_variable_def variable_of_body_def split: sum.split)
next
  case (UpdateVariable now k new_value)
  assume a: "secrets_unset a"
  show ?thesis
  proof (cases "find_variable (ap_storage a) k")
    case (Inr v)
    let ?w = "(patch new_value (\<lambda>x v. if \<not> var_is_secret v then v\<lparr>var_value := Some x\<rparr> else v) v)\<lparr>var_updated_at := now\<rparr>"
    have "var_is_secret ?w \<Longrightarrow> var_value ?w = None"
      using found_variable_redacted [OF Inr] by (cases new_value) (auto split: if_splits)
    with UpdateVariable Inr a secrets_unset_insert [OF a, of ?w] show ?thesis
      by (simp add: update_variable_endpoint_def handler_simps update_variable_def)
  qed (use UpdateVariable a in \<open>simp add: update_variable_endpoint_def handler_simps\<close>)
next
  case (DeleteVariable k)
  assume "secrets_unset a"
  with DeleteVariable hm_remove_entries [of k "m_variables (ap_storage a)"] show ?thesis
    by (fastforce simp: delete_variable_endpoint_def handler_simps delete_variable_def secrets_unset_def Let_def split: option.split)
qed

interpretation variable_runs: step_invariant "\<lambda>a a'. \<exists>r. a' = variable_step r a" secrets_unset
  by unfold_locales (auto intro: variable_step_secrets)

lemma variable_run_steps: "(\<lambda>a a'. \<exists>r. a' = variable_step r a)\<^sup>*\<^sup>* a (fold variable_step rs a)"
  by (induction rs arbitrary: a) (auto intro: converse_rtranclp_into_rtranclp)

text \<open>
  The value of a secret variable is never stored.  Whatever requests the
  variable endpoints are sent, no variable marked as secret has a value in the
  store, so a placeholder that names it cannot be filled in.
\<close>

theorem secret_variables_have_no_value:
  assumes "m_variables (ap_storage a) = []"
  shows "\<forall>v \<in> set (hm_values (m_variables (ap_storage (fold variable_step rs a)))). var_is_secret v \<longrightarrow> var_value v = None"
proof -
  have "secrets_unset (fold variable_step rs a)"
    by (rule variable_runs.run_good [OF variable_run_steps]) (simp add: secrets_unset_def assms)
  then show ?thesis by (auto simp: secrets_unset_def hm_values_def)
qed

lemma secret_variables_have_no_value_witness:
  "let a = fold variable_step [CreateVariable 0 1 \<lparr>cvb_key = ''k'', cvb_is_secret = True, cvb_value = ''s3cret''\<rparr>] (plain_app new_storage)
   in length (m_variables (ap_storage a)) = 1 \<and> (\<forall>v \<in> set (hm_values (m_variables (ap_storage a))). var_value v = None)"
proof -
  let ?r = "CreateVariable 0 1 \<lparr>cvb_key = ''k'', cvb_is_secret = True, cvb_value = ''s3cret''\<rparr>"
  have "validate_var_key ''k'' = Ok ()" by code_simp
  then have "m_variables (ap_storage (fold variable_step [?r] (plain_app new_storage))) =
      [(1, variable_of_body 0 1 \<lparr>cvb_key = ''k'', cvb_is_secret = True, cvb_value = ''s3cret''\<rparr>)]"
    by (simp add: create_variable_endpoint_def handler_simps create_variable_def variable_of_body_def plain_app_def
        new_storage_def hm_values_def hm_insert_def)
  moreover have "m_variables (ap_storage (plain_app new_storage)) = []" by (simp add: plain_app_def new_storage_def)
  ultimately show ?thesis
    using secret_variables_have_no_value [of "plain_app new_storage" "[?r]"]
    by (simp add: Let_def hm_values_def variable_of_body_def)
qed

section \<open>Schedules and policies\<close>

lemma validate_layers_Ok:
  "validate_layers i ls = Ok () \<longleftrightarrow> (\<forall>l \<in> set ls. 0 < nol_rotation_length_secs l \<and> nol_participants l \<noteq> [])"
  by (induction ls arbitrary: i) auto

lemma built_layer_users:
  "map ocp_user_id (ocl_participants (build_layer now lid pid i l)) = map nop_user_id (nol_participants l)"
proof -
  have "map (\<lambda>e. nop_user_id (snd e)) (enumerate 0 xs) = map nop_user_id xs" for xs
    using map_map [of nop_user_id snd "enumerate 0 xs"] by (simp add: comp_def)
  then show ?thesis by (simp add: build_layer_def comp_def case_prod_unfold)
qed

text \<open>
  C36: Somebody is on call.  A schedule with at least one layer that the API
  accepts has a person on call at every instant, whatever overrides exist for
  it: the covering overrides, or else exactly one of the participants named in
  the request.
\<close>

theorem accepted_schedule_always_staffed:
  assumes "create_schedule parse_tz now lid pid fresh n a = (Ok (201, sched), a1)" "nos_layers n \<noteq> []"
  shows "\<exists>d. get_on_call_schedule (ap_storage a1) fresh = Ok d \<and>
    resolve_on_call parse_tz (ocd_schedule d) (ocd_layers d) overrides t \<noteq> [] \<and>
    ((\<forall>ov \<in> set overrides. \<not> covers t ov) \<longrightarrow>
      (\<exists>l \<in> set (nos_layers n). \<exists>p \<in> set (nol_participants l).
         resolve_on_call parse_tz (ocd_schedule d) (ocd_layers d) overrides t = [nop_user_id p]))"
proof -
  let ?d = "build_schedule_detail now lid pid fresh n"
  have valid: "validate_layers 0 (nos_layers n) = Ok ()"
    and store: "get_on_call_schedule (ap_storage a1) fresh =
      Ok (?d\<lparr>ocd_overrides := overrides_for_schedule (ap_storage a1) fresh\<rparr>)"
    using assms(1) by (auto simp: create_schedule_def put_schedule_def handler_simps validate_new_schedule_def
        upsert_on_call_schedule_def get_on_call_schedule_def build_schedule_detail_def split: sum.splits if_splits)
  have staffed: "\<exists>l \<in> set (ocd_layers ?d). ocl_participants l \<noteq> []"
  proof -
    obtain l0 where l0: "nos_layers n ! 0 = l0" "l0 \<in> set (nos_layers n)" using assms(2) by (cases "nos_layers n") auto
    then have "build_layer now lid pid 0 l0 \<in> set (ocd_layers ?d)"
      using assms(2) by (cases "nos_layers n") (auto simp: build_schedule_detail_def)
    moreover have "ocl_participants (build_layer now lid pid 0 l0) \<noteq> []"
      using built_layer_users [of now lid pid 0 l0] l0(2) valid by (auto simp: validate_layers_Ok)
    ultimately show ?thesis by blast
  qed
  have named: "\<exists>l0 \<in> set (nos_layers n). \<exists>p0 \<in> set (nol_participants l0). ocp_user_id p = nop_user_id p0"
    if l: "l \<in> set (ocd_layers ?d)" and p: "p \<in> set (ocl_participants l)" for l p
  proof -
    from l obtain i l0 where l0: "l = build_layer now lid pid i l0" "l0 \<in> set (nos_layers n)"
      by (auto simp: build_schedule_detail_def in_set_enumerate_eq)
    then have "ocp_user_id ` set (ocl_participants l) = nop_user_id ` set (nol_participants l0)"
      using arg_cong [OF built_layer_users [of now lid pid i l0], of set] by simp
    with p have "ocp_user_id p \<in> nop_user_id ` set (nol_participants l0)" by blast
    with l0(2) show ?thesis by blast
  qed
  show ?thesis
  proof (cases "\<forall>ov \<in> set overrides. \<not> covers t ov")
    case True
    from top_layer_decides [OF this, of "ocd_layers ?d" parse_tz "ocd_schedule ?d"] staffed
    obtain l p where "l \<in> set (ocd_layers ?d)" "p \<in> set (ocl_participants l)"
      "resolve_on_call parse_tz (ocd_schedule ?d) (ocd_layers ?d) overrides t = [ocp_user_id p]" by auto
    with named store show ?thesis by fastforce
  next
    case False
    then have "filter (covers t) overrides \<noteq> []" by (auto simp: filter_empty_conv)
    then have "resolve_on_call parse_tz (ocd_schedule ?d) (ocd_layers ?d) overrides t \<noteq> []"
      using push_new_users_set [of "sort_key oco_starts_at (filter (covers t) overrides)" "[]"]
      by (auto simp: resolve_on_call_def Let_def)
    with False store show ?thesis by auto
  qed
qed

definition one_layer_schedule :: new_on_call_schedule where
  "one_layer_schedule = \<lparr>nos_name = ''ops'', nos_timezone = ''UTC'', nos_layers = [\<lparr>nol_name = None, nol_rotation_type = Daily,
     nol_rotation_length_secs = 1, nol_handoff_at = 0, nol_layer_order = 0, nol_participants = [\<lparr>nop_user_id = 6\<rparr>]\<rparr>]\<rparr>"

lemma accepted_schedule_always_staffed_witness:
  "\<exists>sched a1 d. create_schedule (\<lambda>_. Some UTC) 0 (\<lambda>i. 1) (\<lambda>i j. 2) 3 one_layer_schedule (plain_app new_storage) = (Ok (201, sched), a1) \<and>
     get_on_call_schedule (ap_storage a1) 3 = Ok d \<and>
     resolve_on_call (\<lambda>_. Some UTC) (ocd_schedule d) (ocd_layers d) [] 77 = [6]"
proof -
  have "trim ''ops'' = ''ops''" by code_simp
  then obtain sched a1 where "create_schedule (\<lambda>_. Some UTC) 0 (\<lambda>i. 1) (\<lambda>i j. 2) 3 one_layer_schedule (plain_app new_storage) =
      (Ok (201, sched), a1)"
    by (simp add: create_schedule_def put_schedule_def handler_simps validate_new_schedule_def one_layer_schedule_def
        upsert_on_call_schedule_def)
  moreover from this have "\<exists>d. get_on_call_schedule (ap_storage a1) 3 = Ok d \<and>
      resolve_on_call (\<lambda>_. Some UTC) (ocd_schedule d) (ocd_layers d) [] 77 = [6]"
    using accepted_schedule_always_staffed [of "\<lambda>_. Some UTC" 0 "\<lambda>i. 1" "\<lambda>i j. 2" 3 one_layer_schedule "plain_app new_storage" sched a1 "[]" 77]
    by (auto simp: one_layer_schedule_def)
  ultimately show ?thesis by blast
qed

text \<open>
  Replacing a policy or a schedule is an upsert.  The endpoint that
  replaces a policy accepts an id that does not exist and creates it, and for
  an existing one it overwrites the time of creation, which orders the list of
  policies.
\<close>

theorem replace_policy_upserts:
  assumes "validate_new_policy n = Ok ()"
  shows "\<exists>p a'. update_policy now sid tid k n a = (Ok (200, p), a') \<and> get_escalation_policy (ap_storage a') k = Ok p \<and>
    ep_created_at p = now"
  using assms by (simp add: update_policy_def put_policy_def handler_simps upsert_escalation_policy_def get_escalation_policy_def
      build_policy_def)

lemma replace_policy_upserts_witness:
  "\<exists>p a'. update_policy 5 (\<lambda>_. 1) (\<lambda>_ _. 2) 3 \<lparr>nep_name = ''ops'', nep_description = None, nep_repeat_count = 0, nep_steps = []\<rparr>
     (plain_app new_storage) = (Ok (200, p), a') \<and> ep_created_at p = 5"
proof -
  have "validate_new_policy \<lparr>nep_name = ''ops'', nep_description = None, nep_repeat_count = 0, nep_steps = []\<rparr> = Ok ()"
    by code_simp
  from replace_policy_upserts [OF this] show ?thesis by blast
qed

definition fetch_headers :: http_headers where
  "fetch_headers = cookie_headers\<lparr>hd_has := (\<lambda>n. n = ''cookie'' \<or> n = ''x-requested-with'')\<rparr>"

text \<open>A write with the cookie of a live session, as a foreign site and as the frontend sends it.\<close>

lemma management_requests_guarded_witness:
  "let handle = (\<lambda>_. create_target_endpoint plain_libs 5 9 plain_target); a = plain_app account_store in
   management_request True sample_cfg sample_crypto 5 ''POST'' cookie_headers handle a =
     (Some (Err (Reject 403 ''CSRF check failed'')), a) \<and>
   (\<exists>r a'. management_request True sample_cfg sample_crypto 5 ''POST'' fetch_headers handle a = (Some (Ok r), a'))"
proof -
  let ?handle = "\<lambda>_. create_target_endpoint plain_libs 5 9 plain_target" and ?a = "plain_app account_store"
  obtain out a' out' a'' where
      forged: "management_request True sample_cfg sample_crypto 5 ''POST'' cookie_headers ?handle ?a = (out, a')" and
      own: "management_request True sample_cfg sample_crypto 5 ''POST'' fetch_headers ?handle ?a = (out', a'')"
    by (metis surj_pair)
  have no: "\<not> hd_has cookie_headers ''x-requested-with''" "\<not> hd_has cookie_headers ''authorization''"
    and yes: "hd_has fetch_headers ''x-requested-with''" by code_simp+
  have live: "live_session sample_cfg sample_crypto 5 fetch_headers account_store sample_user ''c''" by code_simp
  then have live': "live_session sample_cfg sample_crypto 5 fetch_headers (ap_storage ?a) sample_user ''c''"
    by (simp add: plain_app_def)
  have "out = Some (Err (Reject 403 ''CSRF check failed'')) \<and> a' = ?a"
    using management_requests_guarded [OF forged] no by simp
  moreover have "\<exists>r. out' = Some (Ok r)"
    using management_requests_guarded [OF own] yes live' by (metis (no_types, lifting) map_prod_simp prod.inject surj_pair)
  ultimately show ?thesis using forged own by (auto simp: Let_def)
qed

lemma channel_responses_masked_witness:
  "\<exists>c. fst (get_channel 4 (plain_app ilert_store)) = Ok (200, c) \<and> set (secrets (nc_config c)) \<subseteq> {MASK}"
proof -
  obtain c where "fst (get_channel 4 (plain_app ilert_store)) = Ok (200, c)"
    by (simp add: get_channel_def handler_simps get_notification_channel_def plain_app_def ilert_store_def hm_get_def)
  with channel_responses_masked [of 4 "plain_app ilert_store"] show ?thesis by fastforce
qed

end
