(* ===== verification/Notifiers.thy ===== *)
theory Notifiers
  imports Incident_Writer Condition_Dsl
begin

text \<open>
  The notifiers (\<open>crates/common/src/notifier\<close>): how a message or an incident
  is handed to each of the forty transports.  A notifier struct is a value of
  \<open>notifier\<close> with the fields the struct keeps beside the HTTP client; for each
  transport \<open>x_new\<close> is its constructor \<open>new_with_client\<close> and \<open>x_send\<close> its
  method \<open>send\<close>, and \<open>build_notifier\<close> is the dispatch on the configuration.

  Sending returns the requests that were made and the result.  The network is
  the argument \<open>net\<close>: what the client library answers to a request.  The text
  of a JSON value, the transaction id of Matrix, the percent-encoder of the
  crate \<open>url\<close> and the printers of dates and ids are arguments too.
  Serialising a JSON value cannot fail.  The SMTP notifier of \<open>email.rs\<close> is
  built by nothing in the repository and is left out.
\<close>

section \<open>Requests\<close>

datatype http_auth = BasicAuth string string | BearerAuth string

datatype http_payload = JsonPayload json | FormPayload "(string \<times> string) list" | TextPayload string

record outbound_request =
  or_method :: string
  or_url :: string
  or_headers :: "(string \<times> string) list"
  or_auth :: "http_auth option"
  or_payload :: http_payload

text \<open>A reply is a status code, the printed status and the text of the body.\<close>

datatype net_reply = NoReply message | Reply nat string string

type_synonym wire = "outbound_request \<Rightarrow> net_reply"

type_synonym sent = "outbound_request list \<times> (app_error + unit)"

definition is_success :: "nat \<Rightarrow> bool" where
  "is_success status \<longleftrightarrow> 200 \<le> status \<and> status < 300"

definition request ::
  "string \<Rightarrow> string \<Rightarrow> (string \<times> string) list \<Rightarrow> http_auth option \<Rightarrow> http_payload \<Rightarrow> outbound_request" where
  "request http_method url headers auth payload =
     \<lparr>or_method = http_method, or_url = url, or_headers = headers, or_auth = auth, or_payload = payload\<rparr>"

definition json_header :: "(string \<times> string) list" where
  "json_header = [(''content-type'', ''application/json'')]"

definition checked :: "wire \<Rightarrow> message \<Rightarrow> message \<Rightarrow> outbound_request \<Rightarrow> sent" where
  "checked net failure label r =
     ([r], case net r of
        NoReply e \<Rightarrow> Err (Other (failure @ e))
      | Reply status shown text \<Rightarrow>
         if is_success status then Ok ()
         else Err (Other (label @ [Lit '' returned '', Lit shown, Lit '': '', Lit text])))"

definition post_json :: "wire \<Rightarrow> string \<Rightarrow> json \<Rightarrow> sent" where
  "post_json net url body =
     checked net [Lit ''webhook request failed: ''] [Lit ''webhook endpoint'']
       (request ''POST'' url json_header None (JsonPayload body))"

section \<open>The notifiers\<close>

datatype sms_notifier_inner =
    TwilioSms string string string string
  | Unsupported string

datatype (plugins only: code) notifier =
    LogNotifier
  | WebhookNotifier string
  | SlackNotifier string
  | DiscordNotifier string
  | GoogleChatNotifier string
  | MattermostNotifier string
  | RocketchatNotifier string
  | WebexNotifier string
  | SquadcastNotifier string
  | SIGNL4Notifier string
  | ClickUpNotifier string
  | ZapierNotifier string
  | N8nNotifier string
  | HomeAssistantNotifier string
  | MsTeamsNotifier string
  | TelegramNotifier string string
  | PagerDutyNotifier string
  | NtfyNotifier string "string option"
  | PushoverNotifier string string "string option" bool
  | WhatsAppNotifier string string string string string
  | OpsgenieNotifier string
  | GotifyNotifier string string
  | MatrixNotifier string string string
  | ZulipNotifier string string string string string
  | GitHubNotifier string string string
  | GitLabNotifier string string string
  | GiteaNotifier string string string
  | IlertNotifier string
  | IncidentioNotifier string
  | DatadogNotifier string string
  | NewRelicNotifier string string
  | SplunkNotifier string string
  | LineNotifier string
  | SignalNotifier string string
  | IFTTTNotifier string
  | AwsSesNotifier string string
  | SendGridNotifier string string
  | SmsNotifier sms_notifier_inner

section \<open>Constructors\<close>

definition webhook_new :: "string \<Rightarrow> notifier" where
  "webhook_new url = WebhookNotifier url"

definition slack_new :: "string \<Rightarrow> notifier" where
  "slack_new webhook_url = SlackNotifier webhook_url"

definition discord_new :: "string \<Rightarrow> notifier" where
  "discord_new webhook_url = DiscordNotifier webhook_url"

definition google_chat_new :: "string \<Rightarrow> notifier" where
  "google_chat_new webhook_url = GoogleChatNotifier webhook_url"

definition mattermost_new :: "string \<Rightarrow> notifier" where
  "mattermost_new webhook_url = MattermostNotifier webhook_url"

definition rocketchat_new :: "string \<Rightarrow> notifier" where
  "rocketchat_new webhook_url = RocketchatNotifier webhook_url"

definition webex_new :: "string \<Rightarrow> notifier" where
  "webex_new webhook_url = WebexNotifier webhook_url"

definition squadcast_new :: "string \<Rightarrow> notifier" where
  "squadcast_new webhook_url = SquadcastNotifier webhook_url"

definition signl4_new :: "string \<Rightarrow> notifier" where
  "signl4_new webhook_url = SIGNL4Notifier webhook_url"

definition clickup_new :: "string \<Rightarrow> notifier" where
  "clickup_new webhook_url = ClickUpNotifier webhook_url"

definition zapier_new :: "string \<Rightarrow> notifier" where
  "zapier_new webhook_url = ZapierNotifier webhook_url"

definition n8n_new :: "string \<Rightarrow> notifier" where
  "n8n_new webhook_url = N8nNotifier webhook_url"

definition homeassistant_new :: "string \<Rightarrow> notifier" where
  "homeassistant_new webhook_url = HomeAssistantNotifier webhook_url"

definition msteams_new :: "string \<Rightarrow> notifier" where
  "msteams_new webhook_url = MsTeamsNotifier webhook_url"

definition telegram_new :: "string \<Rightarrow> string \<Rightarrow> notifier" where
  "telegram_new bot_token chat_id = TelegramNotifier (''https://api.telegram.org/bot'' @ bot_token @ ''/sendMessage'') chat_id"

definition pagerduty_new :: "string \<Rightarrow> notifier" where
  "pagerduty_new routing_key = PagerDutyNotifier routing_key"

definition ntfy_new :: "string \<Rightarrow> string \<Rightarrow> string option \<Rightarrow> notifier" where
  "ntfy_new server_url topic access_token = NtfyNotifier (trim_end_matches CHR ''/'' server_url @ ''/'' @ topic) access_token"

definition pushover_new :: "string \<Rightarrow> string \<Rightarrow> string option \<Rightarrow> bool \<Rightarrow> notifier" where
  "pushover_new token user device emergency = PushoverNotifier token user device emergency"

definition whatsapp_new :: "string \<Rightarrow> string \<Rightarrow> string \<Rightarrow> string \<Rightarrow> string option \<Rightarrow> notifier" where
  "whatsapp_new access_token phone_number_id to template_name language_code = WhatsAppNotifier (''https://graph.facebook.com/v18.0/'' @ phone_number_id @ ''/messages'') access_token to template_name (case language_code of Some l \<Rightarrow> l | None \<Rightarrow> ''en'')"

definition opsgenie_new :: "string \<Rightarrow> notifier" where
  "opsgenie_new api_key = OpsgenieNotifier api_key"

definition gotify_new :: "string \<Rightarrow> string \<Rightarrow> notifier" where
  "gotify_new server_url app_token = GotifyNotifier (trim_end_matches CHR ''/'' server_url @ ''/message'') app_token"

definition matrix_new :: "string \<Rightarrow> string \<Rightarrow> string \<Rightarrow> notifier" where
  "matrix_new homeserver_url access_token room_id = MatrixNotifier (trim_end_matches CHR ''/'' homeserver_url) access_token room_id"

definition zulip_new :: "string \<Rightarrow> string \<Rightarrow> string \<Rightarrow> string \<Rightarrow> string \<Rightarrow> notifier" where
  "zulip_new server_url email api_key stream topic = ZulipNotifier (trim_end_matches CHR ''/'' server_url) email api_key stream topic"

definition github_new :: "string \<Rightarrow> string \<Rightarrow> string \<Rightarrow> notifier" where
  "github_new repo token api_url = GitHubNotifier (trim_end_matches CHR ''/'' api_url) repo token"

definition gitlab_new :: "string \<Rightarrow> string \<Rightarrow> string \<Rightarrow> notifier" where
  "gitlab_new repo token api_url = GitLabNotifier (trim_end_matches CHR ''/'' api_url) repo token"

definition gitea_new :: "string \<Rightarrow> string \<Rightarrow> string \<Rightarrow> notifier" where
  "gitea_new repo token api_url = GiteaNotifier (trim_end_matches CHR ''/'' api_url) repo token"

definition ilert_new :: "string \<Rightarrow> notifier" where
  "ilert_new api_key = IlertNotifier api_key"

definition incidentio_new :: "string \<Rightarrow> notifier" where
  "incidentio_new api_key = IncidentioNotifier api_key"

definition datadog_new :: "string \<Rightarrow> string \<Rightarrow> notifier" where
  "datadog_new api_key app_key = DatadogNotifier api_key app_key"

definition newrelic_new :: "string \<Rightarrow> string \<Rightarrow> notifier" where
  "newrelic_new api_key account_id = NewRelicNotifier api_key account_id"

definition splunk_new :: "string \<Rightarrow> string \<Rightarrow> notifier" where
  "splunk_new hec_url hec_token = SplunkNotifier (trim_end_matches CHR ''/'' hec_url) hec_token"

definition line_new :: "string \<Rightarrow> notifier" where
  "line_new channel_access_token = LineNotifier channel_access_token"

definition signal_new :: "string \<Rightarrow> string \<Rightarrow> notifier" where
  "signal_new phone_number api_url = SignalNotifier (trim_end_matches CHR ''/'' api_url) phone_number"

definition ifttt_new :: "string \<Rightarrow> string \<Rightarrow> notifier" where
  "ifttt_new webhook_key event_name = IFTTTNotifier (''https://maker.ifttt.com/trigger/'' @ event_name @ ''/with/key/'' @ webhook_key)"

definition awsses_new :: "string \<Rightarrow> string \<Rightarrow> notifier" where
  "awsses_new region from_address = AwsSesNotifier region from_address"

definition sendgrid_new :: "string \<Rightarrow> string \<Rightarrow> notifier" where
  "sendgrid_new api_key from_address = SendGridNotifier api_key from_address"

fun sms_new :: "sms_config \<Rightarrow> notifier" where
  "sms_new (Twilio to from_id account_sid auth_token) = SmsNotifier (TwilioSms to from_id account_sid auth_token)"
| "sms_new (Telnyx _ _ _ _) = SmsNotifier (Unsupported ''telnyx'')"
| "sms_new (Vonage _ _ _ _) = SmsNotifier (Unsupported ''vonage'')"
| "sms_new (Plivo _ _ _ _) = SmsNotifier (Unsupported ''plivo'')"
| "sms_new (Sinch _ _ _ _ _) = SmsNotifier (Unsupported ''sinch'')"

fun build_notifier :: "channel_config \<Rightarrow> notifier" where
  "build_notifier (channel_config.Webhook url _ _) = webhook_new url"
| "build_notifier (channel_config.Slack webhook_url) = slack_new webhook_url"
| "build_notifier (channel_config.Discord webhook_url) = discord_new webhook_url"
| "build_notifier (channel_config.GoogleChat webhook_url) = google_chat_new webhook_url"
| "build_notifier (channel_config.Mattermost webhook_url) = mattermost_new webhook_url"
| "build_notifier (channel_config.Rocketchat webhook_url) = rocketchat_new webhook_url"
| "build_notifier (channel_config.Webex webhook_url) = webex_new webhook_url"
| "build_notifier (channel_config.Squadcast webhook_url) = squadcast_new webhook_url"
| "build_notifier (channel_config.SIGNL4 webhook_url _) = signl4_new webhook_url"
| "build_notifier (channel_config.ClickUp webhook_url) = clickup_new webhook_url"
| "build_notifier (channel_config.Zapier webhook_url) = zapier_new webhook_url"
| "build_notifier (channel_config.N8n webhook_url) = n8n_new webhook_url"
| "build_notifier (channel_config.HomeAssistant webhook_url) = homeassistant_new webhook_url"
| "build_notifier (channel_config.MsTeams webhook_url) = msteams_new webhook_url"
| "build_notifier (channel_config.Telegram bot_token chat_id) = telegram_new bot_token chat_id"
| "build_notifier (channel_config.PagerDuty routing_key) = pagerduty_new routing_key"
| "build_notifier (channel_config.Ntfy server_url topic access_token) = ntfy_new server_url topic access_token"
| "build_notifier (channel_config.Pushover token user device emergency) = pushover_new token user device emergency"
| "build_notifier (channel_config.WhatsApp access_token phone_number_id to template_name language_code) = whatsapp_new access_token phone_number_id to template_name language_code"
| "build_notifier (channel_config.Opsgenie api_key _) = opsgenie_new api_key"
| "build_notifier (channel_config.Gotify server_url app_token) = gotify_new server_url app_token"
| "build_notifier (channel_config.Matrix homeserver_url access_token room_id) = matrix_new homeserver_url access_token room_id"
| "build_notifier (channel_config.Zulip server_url email api_key stream topic) = zulip_new server_url email api_key stream topic"
| "build_notifier (channel_config.GitHub repo token api_url) = github_new repo token api_url"
| "build_notifier (channel_config.GitLab repo token api_url) = gitlab_new repo token api_url"
| "build_notifier (channel_config.Gitea repo token api_url) = gitea_new repo token api_url"
| "build_notifier (channel_config.Ilert api_key) = ilert_new api_key"
| "build_notifier (channel_config.Incidentio api_key) = incidentio_new api_key"
| "build_notifier (channel_config.Datadog api_key app_key) = datadog_new api_key app_key"
| "build_notifier (channel_config.NewRelic api_key account_id) = newrelic_new api_key account_id"
| "build_notifier (channel_config.Splunk hec_url hec_token) = splunk_new hec_url hec_token"
| "build_notifier (channel_config.Line channel_access_token) = line_new channel_access_token"
| "build_notifier (channel_config.Signal phone_number api_url) = signal_new phone_number api_url"
| "build_notifier (channel_config.Ifttt webhook_key event_name) = ifttt_new webhook_key event_name"
| "build_notifier (channel_config.AwsSes region from_address) = awsses_new region from_address"
| "build_notifier (channel_config.SendGrid api_key from_address) = sendgrid_new api_key from_address"
| "build_notifier (channel_config.Sms config) = sms_new config"
| "build_notifier (channel_config.TelegramApp _ _) = LogNotifier"
| "build_notifier (channel_config.WhatsAppApp _ _) = LogNotifier"
| "build_notifier (channel_config.Email _) = LogNotifier"

section \<open>Sending\<close>

definition log_send :: "string \<Rightarrow> sent" where
  "log_send message = ([], Ok ())"

definition pagerduty_enqueue :: "wire \<Rightarrow> string \<Rightarrow> string \<Rightarrow> string \<Rightarrow> string \<Rightarrow> string \<Rightarrow> sent" where
  "pagerduty_enqueue net routing_key event_action dedup_key summary severity =
     checked net [] [Lit ''pagerduty notifier: endpoint'']
       (request ''POST'' ''https://events.pagerduty.com/v2/enqueue'' json_header None
         (JsonPayload (JObject [(''routing_key'', JString routing_key), (''event_action'', JString event_action),
            (''dedup_key'', JString dedup_key), (''payload'', JObject [(''summary'', JString summary),
            (''severity'', JString severity), (''source'', JString ''statuspage'')])])))"

text \<open>The body of a Zulip request is formatted by hand.\<close>

definition zulip_form :: "string \<Rightarrow> string \<Rightarrow> string \<Rightarrow> string" where
  "zulip_form stream topic message = ''type=stream&to='' @ stream @ ''&topic='' @ topic @ ''&content='' @ message"

definition webhook_send :: "wire \<Rightarrow> string \<Rightarrow> string \<Rightarrow> sent" where
  "webhook_send net webhook message =
     post_json net webhook (JObject [(''text'', JString message)])"

definition slack_send :: "wire \<Rightarrow> string \<Rightarrow> string \<Rightarrow> sent" where
  "slack_send net webhook message =
     post_json net webhook (JObject [(''text'', JString message)])"

definition discord_send :: "wire \<Rightarrow> string \<Rightarrow> string \<Rightarrow> sent" where
  "discord_send net webhook message =
     post_json net webhook (JObject [(''text'', JString message)])"

definition google_chat_send :: "wire \<Rightarrow> string \<Rightarrow> string \<Rightarrow> sent" where
  "google_chat_send net webhook message =
     post_json net webhook (JObject [(''text'', JString message)])"

definition mattermost_send :: "wire \<Rightarrow> string \<Rightarrow> string \<Rightarrow> sent" where
  "mattermost_send net webhook message =
     post_json net webhook (JObject [(''text'', JString message)])"

definition rocketchat_send :: "wire \<Rightarrow> string \<Rightarrow> string \<Rightarrow> sent" where
  "rocketchat_send net webhook message =
     post_json net webhook (JObject [(''text'', JString message)])"

definition webex_send :: "wire \<Rightarrow> string \<Rightarrow> string \<Rightarrow> sent" where
  "webex_send net webhook message =
     post_json net webhook (JObject [(''text'', JString message)])"

definition squadcast_send :: "wire \<Rightarrow> string \<Rightarrow> string \<Rightarrow> sent" where
  "squadcast_send net webhook message =
     post_json net webhook (JObject [(''text'', JString message)])"

definition signl4_send :: "wire \<Rightarrow> string \<Rightarrow> string \<Rightarrow> sent" where
  "signl4_send net webhook message =
     post_json net webhook (JObject [(''text'', JString message)])"

definition clickup_send :: "wire \<Rightarrow> string \<Rightarrow> string \<Rightarrow> sent" where
  "clickup_send net webhook message =
     post_json net webhook (JObject [(''text'', JString message)])"

definition zapier_send :: "wire \<Rightarrow> string \<Rightarrow> string \<Rightarrow> sent" where
  "zapier_send net webhook message =
     post_json net webhook (JObject [(''text'', JString message)])"

definition n8n_send :: "wire \<Rightarrow> string \<Rightarrow> string \<Rightarrow> sent" where
  "n8n_send net webhook message =
     post_json net webhook (JObject [(''text'', JString message)])"

definition homeassistant_send :: "wire \<Rightarrow> string \<Rightarrow> string \<Rightarrow> sent" where
  "homeassistant_send net webhook message =
     post_json net webhook (JObject [(''text'', JString message)])"

definition msteams_send :: "wire \<Rightarrow> string \<Rightarrow> string \<Rightarrow> sent" where
  "msteams_send net webhook message =
     post_json net webhook
       (JObject [(''type'', JString ''message''), (''attachments'', JArray [JObject [(''contentType'', JString ''application/vnd.microsoft.card.adaptive''), (''content'', JObject [(''body'', JArray [JObject [(''type'', JString ''TextBlock''), (''text'', JString message)]])])]])])"

definition telegram_send :: "wire \<Rightarrow> string \<Rightarrow> string \<Rightarrow> string \<Rightarrow> sent" where
  "telegram_send net url chat_id message =
     checked net [] [Lit ''telegram notifier: endpoint'']
       (request ''POST'' url (json_header) (None) (JsonPayload (JObject [(''chat_id'', JString chat_id), (''text'', JString message)])))"

definition pagerduty_send :: "wire \<Rightarrow> string \<Rightarrow> string \<Rightarrow> sent" where
  "pagerduty_send net routing_key message =
     pagerduty_enqueue net routing_key ''trigger'' (take 255 message) message ''error''"

definition ntfy_send :: "wire \<Rightarrow> string \<Rightarrow> string option \<Rightarrow> string \<Rightarrow> sent" where
  "ntfy_send net url access_token message =
     checked net [] [Lit ''ntfy notifier: endpoint'']
       (request ''POST'' url ((''content-type'', ''text/plain'') #
          (case access_token of Some token \<Rightarrow> [(''authorization'', ''Bearer '' @ token)] | None \<Rightarrow> [])) None (TextPayload message))"

definition pushover_send :: "wire \<Rightarrow> string \<Rightarrow> string \<Rightarrow> string option \<Rightarrow> bool \<Rightarrow> string \<Rightarrow> sent" where
  "pushover_send net token user device emergency message =
     checked net [] [Lit ''pushover notifier: endpoint'']
       (request ''POST'' ''https://api.pushover.net/1/messages.json'' [] None
         (FormPayload ([(''token'', token), (''user'', user), (''message'', message)] @
            (case device of Some d \<Rightarrow> [(''device'', d)] | None \<Rightarrow> []) @
            (if emergency then [(''priority'', ''2''), (''expire'', ''10800''), (''retry'', ''60'')] else [(''priority'', ''0'')]))))"

definition whatsapp_send :: "wire \<Rightarrow> string \<Rightarrow> string \<Rightarrow> string \<Rightarrow> string \<Rightarrow> string \<Rightarrow> string \<Rightarrow> sent" where
  "whatsapp_send net url access_token to template_name language_code message =
     checked net [] [Lit ''whatsapp notifier: endpoint'']
       (request ''POST'' url (json_header) (Some (BearerAuth access_token)) (JsonPayload (JObject [(''messaging_product'', JString ''whatsapp''), (''recipient_type'', JString ''individual''), (''to'', JString to), (''type'', JString ''template''), (''template'', JObject [(''name'', JString template_name), (''language'', JObject [(''code'', JString language_code)]), (''components'', JArray [JObject [(''type'', JString ''body''), (''parameters'', JArray [JObject [(''type'', JString ''text''), (''text'', JString message)]])]])])])))"

definition opsgenie_send :: "wire \<Rightarrow> string \<Rightarrow> string \<Rightarrow> sent" where
  "opsgenie_send net api_key message =
     checked net [] [Lit ''opsgenie notifier: endpoint'']
       (request ''POST'' ''https://api.opsgenie.com/v2/alerts'' (json_header @ [(''authorization'', ''GenieKey '' @ api_key)]) (None) (JsonPayload (JObject [(''message'', JString message)])))"

definition gotify_send :: "wire \<Rightarrow> string \<Rightarrow> string \<Rightarrow> string \<Rightarrow> sent" where
  "gotify_send net url app_token message =
     checked net [] [Lit ''gotify notifier: endpoint'']
       (request ''POST'' url (json_header @ [(''x-gotify-key'', app_token)]) (None) (JsonPayload (JObject [(''message'', JString message), (''title'', JString ''Statuspage Alert'')])))"

definition matrix_send :: "wire \<Rightarrow> string \<Rightarrow> string \<Rightarrow> string \<Rightarrow> string \<Rightarrow> string \<Rightarrow> sent" where
  "matrix_send net txn_id homeserver_url access_token room_id message =
     checked net [] [Lit ''matrix notifier: endpoint'']
       (request ''PUT'' (homeserver_url @ ''/_matrix/client/v3/rooms/'' @ room_id @ ''/send/m.room.message/'' @ txn_id) (json_header @ [(''authorization'', ''Bearer '' @ access_token)]) (None) (JsonPayload (JObject [(''msgtype'', JString ''m.text''), (''body'', JString message)])))"

definition zulip_send :: "wire \<Rightarrow> string \<Rightarrow> string \<Rightarrow> string \<Rightarrow> string \<Rightarrow> string \<Rightarrow> string \<Rightarrow> sent" where
  "zulip_send net server_url email api_key stream topic message =
     checked net [] [Lit ''zulip notifier: endpoint'']
       (request ''POST'' (server_url @ ''/api/v1/messages'') [(''content-type'', ''application/x-www-form-urlencoded'')]
         (Some (BasicAuth email api_key)) (TextPayload (zulip_form stream topic message)))"

definition github_send :: "wire \<Rightarrow> string \<Rightarrow> string \<Rightarrow> string \<Rightarrow> string \<Rightarrow> sent" where
  "github_send net api_url repo token message =
     checked net [] [Lit ''github notifier: endpoint'']
       (request ''POST'' (api_url @ ''/repos/'' @ repo @ ''/issues'') (json_header @ [(''authorization'', ''Bearer '' @ token), (''accept'', ''application/vnd.github+json'')]) (None) (JsonPayload (JObject [(''title'', JString ''Statuspage Alert''), (''body'', JString message)])))"

definition gitlab_send :: "wire \<Rightarrow> (string \<Rightarrow> string) \<Rightarrow> string \<Rightarrow> string \<Rightarrow> string \<Rightarrow> string \<Rightarrow> sent" where
  "gitlab_send net byte_serialize api_url repo token message =
     checked net [] [Lit ''gitlab notifier: endpoint'']
       (request ''POST'' (api_url @ ''/projects/'' @ byte_serialize repo @ ''/issues'') (json_header @ [(''authorization'', ''Bearer '' @ token)]) (None) (JsonPayload (JObject [(''title'', JString ''Statuspage Alert''), (''description'', JString message)])))"

definition gitea_send :: "wire \<Rightarrow> string \<Rightarrow> string \<Rightarrow> string \<Rightarrow> string \<Rightarrow> sent" where
  "gitea_send net api_url repo token message =
     checked net [] [Lit ''gitea notifier: endpoint'']
       (request ''POST'' (api_url @ ''/repos/'' @ repo @ ''/issues'') (json_header @ [(''authorization'', ''token '' @ token)]) (None) (JsonPayload (JObject [(''title'', JString ''Statuspage Alert''), (''body'', JString message)])))"

definition ilert_send :: "wire \<Rightarrow> string \<Rightarrow> string \<Rightarrow> sent" where
  "ilert_send net api_key message =
     checked net [] [Lit ''ilert notifier: endpoint'']
       (request ''POST'' ''https://api.ilert.com/api/v1/events'' (json_header @ [(''authorization'', ''APIKey '' @ api_key)]) (None) (JsonPayload (JObject [(''summary'', JString message), (''eventType'', JString ''ALERT''), (''alertSource'', JString ''statuspage'')])))"

definition incidentio_send :: "wire \<Rightarrow> string \<Rightarrow> string \<Rightarrow> sent" where
  "incidentio_send net api_key message =
     checked net [] [Lit ''incidentio notifier: endpoint'']
       (request ''POST'' ''https://api.incident.io/v2/alerts'' (json_header @ [(''authorization'', ''Bearer '' @ api_key)]) (None) (JsonPayload (JObject [(''alert_source'', JString ''statuspage''), (''title'', JString ''Statuspage Alert''), (''description'', JString message), (''status'', JString ''firing'')])))"

definition datadog_send :: "wire \<Rightarrow> string \<Rightarrow> string \<Rightarrow> string \<Rightarrow> sent" where
  "datadog_send net api_key app_key message =
     checked net [] [Lit ''datadog notifier: endpoint'']
       (request ''POST'' ''https://api.datadoghq.com/api/v1/events'' (json_header @ [(''dd-api-key'', api_key), (''dd-application-key'', app_key)]) (None) (JsonPayload (JObject [(''title'', JString ''Statuspage Alert''), (''text'', JString message), (''alert_type'', JString ''warning''), (''source'', JString ''statuspage'')])))"

definition newrelic_send :: "wire \<Rightarrow> string \<Rightarrow> string \<Rightarrow> string \<Rightarrow> sent" where
  "newrelic_send net api_key account_id message =
     checked net [] [Lit ''newrelic notifier: endpoint'']
       (request ''POST'' (''https://insights-collector.newrelic.com/v1/accounts/'' @ account_id @ ''/events'') (json_header @ [(''x-insert-key'', api_key)]) (None) (JsonPayload (JObject [(''eventType'', JString ''StatuspageAlert''), (''message'', JString message), (''source'', JString ''statuspage'')])))"

definition splunk_send :: "wire \<Rightarrow> string \<Rightarrow> string \<Rightarrow> string \<Rightarrow> sent" where
  "splunk_send net hec_url hec_token message =
     checked net [] [Lit ''splunk notifier: endpoint'']
       (request ''POST'' hec_url (json_header @ [(''authorization'', ''Splunk '' @ hec_token)]) (None) (JsonPayload (JObject [(''event'', JObject [(''message'', JString message), (''source'', JString ''statuspage'')])])))"

definition line_send :: "wire \<Rightarrow> string \<Rightarrow> string \<Rightarrow> sent" where
  "line_send net channel_access_token message =
     checked net [] [Lit ''line notifier: endpoint'']
       (request ''POST'' ''https://api.line.me/v2/bot/message/broadcast'' (json_header @ [(''authorization'', ''Bearer '' @ channel_access_token)]) (None) (JsonPayload (JObject [(''messages'', JArray [JObject [(''type'', JString ''text''), (''text'', JString message)]])])))"

definition signal_send :: "wire \<Rightarrow> string \<Rightarrow> string \<Rightarrow> string \<Rightarrow> sent" where
  "signal_send net api_url phone_number message =
     checked net [] [Lit ''signal notifier: endpoint'']
       (request ''POST'' (api_url @ ''/v2/send'') (json_header) (None) (JsonPayload (JObject [(''message'', JString message), (''number'', JString phone_number)])))"

definition ifttt_send :: "wire \<Rightarrow> string \<Rightarrow> string \<Rightarrow> sent" where
  "ifttt_send net url message =
     checked net [] [Lit ''ifttt notifier: endpoint'']
       (request ''POST'' url (json_header) (None) (JsonPayload (JObject [(''value1'', JString message)])))"

definition awsses_send :: "wire \<Rightarrow> string \<Rightarrow> string \<Rightarrow> string \<Rightarrow> sent" where
  "awsses_send net region from_address message =
     ([], Err (Other [Lit ''AWS SES delivery requires AWS SDK integration (aws-sdk-ses)'']))"

definition sendgrid_send :: "wire \<Rightarrow> string \<Rightarrow> string \<Rightarrow> string \<Rightarrow> sent" where
  "sendgrid_send net api_key from_address message =
     checked net [] [Lit ''sendgrid notifier: endpoint'']
       (request ''POST'' ''https://api.sendgrid.com/v3/mail/send'' (json_header @ [(''authorization'', ''Bearer '' @ api_key)]) (None) (JsonPayload (JObject [(''personalizations'', JArray [JObject [(''to'', JArray [JObject [(''email'', JString from_address)]])]]), (''from'', JObject [(''email'', JString from_address)]), (''subject'', JString ''Statuspage Alert''), (''content'', JArray [JObject [(''type'', JString ''text/plain''), (''value'', JString message)]])])))"

fun sms_send :: "wire \<Rightarrow> sms_notifier_inner \<Rightarrow> string \<Rightarrow> sent" where
  "sms_send net (TwilioSms to from_id account_sid auth_token) message =
     checked net [] [Lit ''sms notifier (twilio): endpoint'']
       (request ''POST'' (''https://api.twilio.com/2010-04-01/Accounts/'' @ account_sid @ ''/Messages.json'') []
         (Some (BasicAuth account_sid auth_token))
         (FormPayload [(''To'', to), (''From'', from_id), (''Body'', message)]))"
| "sms_send net (Unsupported _) message = ([], Ok ())"

record send_env =
  se_net :: wire
  se_txn_id :: string
  se_byte_serialize :: "string \<Rightarrow> string"
  se_time :: "instant \<Rightarrow> string"
  se_uuid :: "uuid \<Rightarrow> string"

fun send :: "send_env \<Rightarrow> notifier \<Rightarrow> string \<Rightarrow> sent" where
  "send E LogNotifier message = log_send message"
| "send E (WebhookNotifier webhook) message = webhook_send (se_net E) webhook message"
| "send E (SlackNotifier webhook) message = slack_send (se_net E) webhook message"
| "send E (DiscordNotifier webhook) message = discord_send (se_net E) webhook message"
| "send E (GoogleChatNotifier webhook) message = google_chat_send (se_net E) webhook message"
| "send E (MattermostNotifier webhook) message = mattermost_send (se_net E) webhook message"
| "send E (RocketchatNotifier webhook) message = rocketchat_send (se_net E) webhook message"
| "send E (WebexNotifier webhook) message = webex_send (se_net E) webhook message"
| "send E (SquadcastNotifier webhook) message = squadcast_send (se_net E) webhook message"
| "send E (SIGNL4Notifier webhook) message = signl4_send (se_net E) webhook message"
| "send E (ClickUpNotifier webhook) message = clickup_send (se_net E) webhook message"
| "send E (ZapierNotifier webhook) message = zapier_send (se_net E) webhook message"
| "send E (N8nNotifier webhook) message = n8n_send (se_net E) webhook message"
| "send E (HomeAssistantNotifier webhook) message = homeassistant_send (se_net E) webhook message"
| "send E (MsTeamsNotifier webhook) message = msteams_send (se_net E) webhook message"
| "send E (TelegramNotifier url chat_id) message = telegram_send (se_net E) url chat_id message"
| "send E (PagerDutyNotifier routing_key) message = pagerduty_send (se_net E) routing_key message"
| "send E (NtfyNotifier url access_token) message = ntfy_send (se_net E) url access_token message"
| "send E (PushoverNotifier token user device emergency) message = pushover_send (se_net E) token user device emergency message"
| "send E (WhatsAppNotifier url access_token to template_name language_code) message = whatsapp_send (se_net E) url access_token to template_name language_code message"
| "send E (OpsgenieNotifier api_key) message = opsgenie_send (se_net E) api_key message"
| "send E (GotifyNotifier url app_token) message = gotify_send (se_net E) url app_token message"
| "send E (MatrixNotifier homeserver_url access_token room_id) message = matrix_send (se_net E) (se_txn_id E) homeserver_url access_token room_id message"
| "send E (ZulipNotifier server_url email api_key stream topic) message = zulip_send (se_net E) server_url email api_key stream topic message"
| "send E (GitHubNotifier api_url repo token) message = github_send (se_net E) api_url repo token message"
| "send E (GitLabNotifier api_url repo token) message = gitlab_send (se_net E) (se_byte_serialize E) api_url repo token message"
| "send E (GiteaNotifier api_url repo token) message = gitea_send (se_net E) api_url repo token message"
| "send E (IlertNotifier api_key) message = ilert_send (se_net E) api_key message"
| "send E (IncidentioNotifier api_key) message = incidentio_send (se_net E) api_key message"
| "send E (DatadogNotifier api_key app_key) message = datadog_send (se_net E) api_key app_key message"
| "send E (NewRelicNotifier api_key account_id) message = newrelic_send (se_net E) api_key account_id message"
| "send E (SplunkNotifier hec_url hec_token) message = splunk_send (se_net E) hec_url hec_token message"
| "send E (LineNotifier channel_access_token) message = line_send (se_net E) channel_access_token message"
| "send E (SignalNotifier api_url phone_number) message = signal_send (se_net E) api_url phone_number message"
| "send E (IFTTTNotifier url) message = ifttt_send (se_net E) url message"
| "send E (AwsSesNotifier region from_address) message = awsses_send (se_net E) region from_address message"
| "send E (SendGridNotifier api_key from_address) message = sendgrid_send (se_net E) api_key from_address message"
| "send E (SmsNotifier inner) message = sms_send (se_net E) inner message"

section \<open>Incident notices\<close>

record incident_notice =
  in_incident :: incident
  in_reason :: notice_reason
  in_component_name :: "string option"

definition line :: "string \<Rightarrow> string" where
  "line s = s @ [CHR 0x0A]"

definition format_notice_message :: "send_env \<Rightarrow> incident_notice \<Rightarrow> string" where
  "format_notice_message E notice =
     (let inc = in_incident notice in
      line (''['' @ severity_label (inc_severity inc) @ ''] incident '' @ notice_reason_as_str (in_reason notice)) @
      (case in_component_name notice of Some name \<Rightarrow> line (''Component: '' @ name) | None \<Rightarrow> []) @
      (case inc_public_title inc of Some title \<Rightarrow> line (''Title: '' @ title) | None \<Rightarrow> []) @
      (case inc_public_description inc of Some desc \<Rightarrow> line (''Description: '' @ desc) | None \<Rightarrow> []) @
      line (''Started: '' @ se_time E (inc_started_at inc)) @
      (case inc_ended_at inc of Some ended \<Rightarrow> line (''Ended: '' @ se_time E ended) | None \<Rightarrow> line ''Status: ongoing'') @
      (case inc_duration_secs inc of Some dur \<Rightarrow> line (''Duration: '' @ show_nat dur @ ''s'') | None \<Rightarrow> []))"

fun severity_for :: "incident_severity \<Rightarrow> string" where
  "severity_for Critical = ''critical''"
| "severity_for Major = ''error''"
| "severity_for Minor = ''warning''"

definition pagerduty_notify_incident :: "send_env \<Rightarrow> string \<Rightarrow> incident_notice \<Rightarrow> sent" where
  "pagerduty_notify_incident E routing_key notice =
     (let inc = in_incident notice;
          event_action = (case in_reason notice of notice_reason.Resolved \<Rightarrow> ''resolve'' | _ \<Rightarrow> ''trigger'')
      in pagerduty_enqueue (se_net E) routing_key event_action (se_uuid E (inc_id inc)) (format_notice_message E notice)
           (severity_for (inc_severity inc)))"

text \<open>PagerDuty overrides the method, every other notifier inherits it.\<close>

fun notify_incident :: "send_env \<Rightarrow> notifier \<Rightarrow> incident_notice \<Rightarrow> sent" where
  "notify_incident E (PagerDutyNotifier routing_key) notice = pagerduty_notify_incident E routing_key notice"
| "notify_incident E n notice = send E n (format_notice_message E notice)"


section \<open>Where an alert goes\<close>

lemmas notifier_news =
  webhook_new_def slack_new_def discord_new_def google_chat_new_def mattermost_new_def rocketchat_new_def
  webex_new_def squadcast_new_def signl4_new_def clickup_new_def zapier_new_def n8n_new_def
  homeassistant_new_def msteams_new_def telegram_new_def pagerduty_new_def ntfy_new_def pushover_new_def
  whatsapp_new_def opsgenie_new_def gotify_new_def matrix_new_def zulip_new_def github_new_def
  gitlab_new_def gitea_new_def ilert_new_def incidentio_new_def datadog_new_def newrelic_new_def
  splunk_new_def line_new_def signal_new_def ifttt_new_def awsses_new_def sendgrid_new_def

lemmas notifier_sends =
  webhook_send_def slack_send_def discord_send_def google_chat_send_def mattermost_send_def rocketchat_send_def
  webex_send_def squadcast_send_def signl4_send_def clickup_send_def zapier_send_def n8n_send_def
  homeassistant_send_def msteams_send_def telegram_send_def pagerduty_send_def ntfy_send_def pushover_send_def
  whatsapp_send_def opsgenie_send_def gotify_send_def matrix_send_def zulip_send_def github_send_def
  gitlab_send_def gitea_send_def ilert_send_def incidentio_send_def datadog_send_def newrelic_send_def
  splunk_send_def line_send_def signal_send_def ifttt_send_def awsses_send_def sendgrid_send_def
  log_send_def pagerduty_enqueue_def post_json_def

definition PROVIDERS :: "string list" where
  "PROVIDERS =
     [''https://api.telegram.org/bot'', ''https://events.pagerduty.com/v2/enqueue'', ''https://api.pushover.net/1/messages.json'',
      ''https://graph.facebook.com/v18.0/'', ''https://api.opsgenie.com/v2/alerts'', ''https://api.ilert.com/api/v1/events'',
      ''https://api.incident.io/v2/alerts'', ''https://api.datadoghq.com/api/v1/events'',
      ''https://insights-collector.newrelic.com/v1/accounts/'', ''https://api.line.me/v2/bot/message/broadcast'',
      ''https://maker.ifttt.com/trigger/'', ''https://api.sendgrid.com/v3/mail/send'',
      ''https://api.twilio.com/2010-04-01/Accounts/'']"

text \<open>
  A URL that stays on the server of the configured one: the URL itself, or the
  URL without its trailing slashes, followed by nothing or by a path.
\<close>

definition under_url :: "string \<Rightarrow> string \<Rightarrow> bool" where
  "under_url base u \<longleftrightarrow>
     u = base \<or> (\<exists>path. u = trim_end_matches CHR ''/'' base @ path \<and> (path = [] \<or> hd path = CHR ''/''))"

primrec json_texts :: "json \<Rightarrow> string set" where
  "json_texts JNull = {}"
| "json_texts (JBool _) = {}"
| "json_texts (JNumber _) = {}"
| "json_texts (JString s) = {s}"
| "json_texts (JArray xs) = \<Union> (set (map json_texts xs))"
| "json_texts (JObject kvs) = \<Union> (set (map snd (map (map_prod id json_texts) kvs)))"

fun carries :: "string \<Rightarrow> http_payload \<Rightarrow> bool" where
  "carries m (JsonPayload j) \<longleftrightarrow> m \<in> json_texts j"
| "carries m (FormPayload entries) \<longleftrightarrow> m \<in> snd ` set entries"
| "carries m (TextPayload t) \<longleftrightarrow> (\<exists>before. t = before @ m)"

lemma fst_checked [simp]: "fst (checked net failure label r) = [r]"
  by (simp add: checked_def)

lemma checked_Ok:
  "snd (checked net failure label r) = Ok () \<longleftrightarrow> (\<exists>status shown text. net r = Reply status shown text \<and> is_success status)"
  by (auto simp: checked_def split: net_reply.split)

lemma request_fields [simp]:
  "or_url (request http_method u headers auth payload) = u" "or_payload (request http_method u headers auth payload) = payload"
  by (simp_all add: request_def)

lemma under_url_simps:
  "under_url u u" "under_url u (trim_end_matches CHR ''/'' u)" "under_url u (trim_end_matches CHR ''/'' u @ CHR ''/'' # p)"
  by (auto simp: under_url_def)

text \<open>
  C22: An alert goes where its channel says and says what it should.  Sending
  through a channel makes at most one request.  For a transport with a
  configured address the request stays on the server of that address; for
  every other one it goes to the fixed https address of the provider, which no
  field of the configuration can change.  The request carries the whole
  message unchanged.
\<close>

theorem alert_goes_to_configured_service:
  "length (fst (send E (build_notifier c) m)) \<le> 1 \<and>
   (\<forall>r \<in> set (fst (send E (build_notifier c) m)).
      (case abuse_url c of Some u \<Rightarrow> under_url u (or_url r) | None \<Rightarrow> list_ex (starts_with (or_url r)) PROVIDERS) \<and>
      carries m (or_payload r))"
proof (cases c)
  case (Sms config)
  then show ?thesis by (cases config) (simp_all add: abuse_url_def transport_impls PROVIDERS_def starts_with_append)
next
  case (Pushover token user device emergency)
  then show ?thesis by (simp add: notifier_news notifier_sends abuse_url_def transport_impls PROVIDERS_def starts_with_append)
next
  case (Zulip server_url email api_key stream topic)
  then show ?thesis
    by (simp add: notifier_news notifier_sends abuse_url_def transport_impls under_url_simps zulip_form_def)
qed (simp_all add: notifier_news notifier_sends abuse_url_def transport_impls PROVIDERS_def under_url_simps starts_with_append)

definition quiet_env :: send_env where
  "quiet_env = \<lparr>se_net = (\<lambda>_. Reply 200 ''200 OK'' []), se_txn_id = ''t1'', se_byte_serialize = id, se_time = (\<lambda>_. ''now''),
     se_uuid = (\<lambda>_. ''id'')\<rparr>"

lemma alert_goes_to_configured_service_witness:
  "\<exists>r. fst (send quiet_env (build_notifier (channel_config.Gotify ''https://push.example/'' ''k'')) ''down'') = [r] \<and>
     under_url ''https://push.example/'' (or_url r) \<and> carries ''down'' (or_payload r)"
  using alert_goes_to_configured_service [of quiet_env "channel_config.Gotify ''https://push.example/'' ''k''" "''down''"]
  by (simp add: gotify_new_def gotify_send_def abuse_url_def transport_impls)

fun sends_nothing :: "channel_config \<Rightarrow> bool" where
  "sends_nothing (channel_config.Email _) = True"
| "sends_nothing (channel_config.TelegramApp _ _) = True"
| "sends_nothing (channel_config.WhatsAppApp _ _) = True"
| "sends_nothing (channel_config.Sms (Twilio _ _ _ _)) = False"
| "sends_nothing (channel_config.Sms _) = True"
| "sends_nothing _ = False"

text \<open>
  C23: What success means.  A send is reported as successful exactly when its
  request was answered with a status from 200 to 299, or when the channel is one
  that sends nothing at all: an email channel, one of the two transports run by
  the operator, or a text message over a gateway other than Twilio.  A channel
  for AWS SES fails every time.
\<close>

theorem send_succeeds_iff:
  "snd (send E (build_notifier c) m) = Ok () \<longleftrightarrow>
     sends_nothing c \<or>
     (\<exists>r status shown text. fst (send E (build_notifier c) m) = [r] \<and> se_net E r = Reply status shown text \<and> is_success status)"
proof (cases c)
  case (Sms config)
  then show ?thesis by (cases config) (simp_all add: checked_Ok)
qed (simp_all add: notifier_news notifier_sends checked_Ok)

section \<open>PagerDuty\<close>

fun json_get :: "string \<Rightarrow> json \<Rightarrow> json option" where
  "json_get k (JObject kvs) = map_of kvs k"
| "json_get _ _ = None"

definition event_key :: "outbound_request \<Rightarrow> json option" where
  "event_key r = (case or_payload r of JsonPayload j \<Rightarrow> json_get ''dedup_key'' j | _ \<Rightarrow> None)"

definition event_action :: "outbound_request \<Rightarrow> json option" where
  "event_action r = (case or_payload r of JsonPayload j \<Rightarrow> json_get ''event_action'' j | _ \<Rightarrow> None)"

text \<open>
  A resolution closes the page it belongs to.  The notices of one incident
  carry the same deduplication key, notices of different incidents carry
  different ones as long as ids print differently; exactly the notice of a
  resolution asks PagerDuty to resolve, every other one triggers.
\<close>

theorem pagerduty_pairs_notices:
  assumes "inj (se_uuid E)"
  shows "\<exists>r r'. fst (notify_incident E (build_notifier (channel_config.PagerDuty k)) n) = [r] \<and>
           fst (notify_incident E (build_notifier (channel_config.PagerDuty k)) n') = [r'] \<and>
           (event_key r = event_key r' \<longleftrightarrow> inc_id (in_incident n) = inc_id (in_incident n')) \<and>
           (event_action r = Some (JString ''resolve'') \<longleftrightarrow> in_reason n = notice_reason.Resolved) \<and>
           (event_action r = Some (JString ''trigger'') \<longleftrightarrow> in_reason n \<noteq> notice_reason.Resolved)"
  using assms
  by (simp add: pagerduty_new_def pagerduty_notify_incident_def pagerduty_enqueue_def event_key_def event_action_def Let_def
      inj_eq split: notice_reason.split)

definition sample_notice :: "notice_reason \<Rightarrow> incident_notice" where
  "sample_notice reason =
     \<lparr>in_incident = new_incident 3 4 0 Down None, in_reason = reason, in_component_name = None\<rparr>"

lemma pagerduty_pairs_notices_witness:
  "\<exists>r r'. fst (notify_incident (quiet_env\<lparr>se_uuid := \<lambda>u. replicate (unat u) CHR ''x''\<rparr>)
              (build_notifier (channel_config.PagerDuty ''key'')) (sample_notice notice_reason.Resolved)) = [r] \<and>
     fst (notify_incident (quiet_env\<lparr>se_uuid := \<lambda>u. replicate (unat u) CHR ''x''\<rparr>)
              (build_notifier (channel_config.PagerDuty ''key'')) (sample_notice Opened)) = [r'] \<and>
     event_key r = event_key r' \<and> event_action r = Some (JString ''resolve'')"
proof -
  have "inj (se_uuid (quiet_env\<lparr>se_uuid := \<lambda>u. replicate (unat u) CHR ''x''\<rparr>))"
    by (rule injI) (simp add: replicate_eq_replicate unsigned_word_eqI)
  from pagerduty_pairs_notices [OF this, of "''key''" "sample_notice notice_reason.Resolved" "sample_notice Opened"]
  show ?thesis by (auto simp: sample_notice_def)
qed

section \<open>Zulip\<close>

text \<open>How a server reads a form: fields between ampersands, each a key and a value around the first equals sign.\<close>

definition form_field :: "string \<Rightarrow> string \<times> string" where
  "form_field p = (case split_once CHR ''='' p of Some kv \<Rightarrow> kv | None \<Rightarrow> (p, []))"

definition form_fields :: "string \<Rightarrow> (string \<times> string) list" where
  "form_fields s = map form_field (split_char CHR ''&'' s)"

lemma split_char_not_Nil: "split_char c t \<noteq> []"
  by (induction t) (auto split: list.split)

lemma split_char_first: "c \<notin> set s \<Longrightarrow> split_char c (s @ c # t) = s # split_char c t"
proof (induction s)
  case Nil
  show ?case using split_char_not_Nil [of c t] by (cases "split_char c t") auto
qed auto

lemma split_once_key: "c \<notin> set k \<Longrightarrow> split_once c (k @ c # v) = Some (k, v)"
  by (induction k) (auto simp: split_once_def)

lemma form_fields_first:
  "CHR ''&'' \<notin> set k \<Longrightarrow> CHR ''='' \<notin> set k \<Longrightarrow> CHR ''&'' \<notin> set v \<Longrightarrow>
   form_fields (k @ CHR ''='' # v @ CHR ''&'' # t) = (k, v) # form_fields t"
  using split_char_first [of "CHR ''&''" "k @ CHR ''='' # v" t] split_once_key [of "CHR ''=''" k v]
  by (simp add: form_fields_def form_field_def)

text \<open>
  A message with an ampersand is cut.  The body of a Zulip request is not
  encoded: for a message with an ampersand the server reads only the part
  before it as the content, and the rest as further form fields, so the rest
  can even name another stream or topic.
\<close>

theorem zulip_message_cut:
  assumes "CHR ''&'' \<notin> set stream" "CHR ''&'' \<notin> set topic" "CHR ''&'' \<notin> set m"
  shows "form_fields (zulip_form stream topic (m @ CHR ''&'' # rest)) =
           [(''type'', ''stream''), (''to'', stream), (''topic'', topic), (''content'', m)] @ form_fields rest"
proof -
  note step = form_fields_first [where ?k = "''type''"] form_fields_first [where ?k = "''to''"]
    form_fields_first [where ?k = "''topic''"] form_fields_first [where ?k = "''content''"]
  show ?thesis
    using step(1) [of "''stream''" "''to='' @ stream @ ''&topic='' @ topic @ ''&content='' @ m @ CHR ''&'' # rest"]
      step(2) [of stream "''topic='' @ topic @ ''&content='' @ m @ CHR ''&'' # rest"]
      step(3) [of topic "''content='' @ m @ CHR ''&'' # rest"] step(4) [of m rest] assms
    by (simp add: zulip_form_def)
qed

lemma zulip_message_cut_witness:
  "form_fields (zulip_form ''ops'' ''alerts'' ''Search & Index is down'') =
     [(''type'', ''stream''), (''to'', ''ops''), (''topic'', ''alerts''), (''content'', ''Search ''), ('' Index is down'', [])]"
  using zulip_message_cut [of "''ops''" "''alerts''" "''Search ''" "'' Index is down''"]
  by (simp add: form_fields_def form_field_def split_once_def)

section \<open>Options without effect\<close>

text \<open>
  Three settings a channel is configured with play no part in what is sent:
  the headers and the signing key of a webhook, the secret of SIGNL4 and the
  region of Opsgenie.
\<close>

theorem configured_options_ignored:
  "build_notifier (channel_config.Webhook url headers secret) = build_notifier (channel_config.Webhook url headers' secret')"
  "build_notifier (channel_config.SIGNL4 url key) = build_notifier (channel_config.SIGNL4 url key')"
  "build_notifier (channel_config.Opsgenie api_key region) = build_notifier (channel_config.Opsgenie api_key region')"
  by (simp_all add: notifier_news)

end
