(* ===== verification/Cached_Storage.thy ===== *)
theory Cached_Storage
  imports Page_Cache Incident_Writer
begin

text \<open>
  The write-through cache of targets in front of a store
  (\<open>crates/storage/src/cached.rs\<close>).  Reads of a target are answered from the
  cache when it has an entry; creating and updating a target pass through and
  put the stored row into the cache, deleting removes the entry first; every
  other method is handed to the inner store.  The library cache is an argument
  with the laws of its documentation.
\<close>

section \<open>The wrapper\<close>

record 'c cached_storage =
  cs_inner :: mem
  cs_target_cache :: 'c

definition TARGET_TTL :: duration where
  "TARGET_TTL = minutes 1"

type_synonym 'c target_ops = "('c, uuid, target) cache_ops"

definition delegate :: "(mem, 'a) op \<Rightarrow> ('c cached_storage, 'a) op" where
  "delegate f cs = (case f (cs_inner cs) of (r, s') \<Rightarrow> (r, cs\<lparr>cs_inner := s'\<rparr>))"

definition remember :: "'c target_ops \<Rightarrow> instant \<Rightarrow> target \<Rightarrow> 'c cached_storage \<Rightarrow> 'c cached_storage" where
  "remember ops now t cs = cs\<lparr>cs_target_cache := co_insert ops now (tg_id t) t (cs_target_cache cs)\<rparr>"

definition cached_get_target :: "'c target_ops \<Rightarrow> instant \<Rightarrow> uuid \<Rightarrow> ('c cached_storage, target) op" where
  "cached_get_target ops now k cs =
     (case co_get ops (cs_target_cache cs) now k of
        Some t \<Rightarrow> (Ok t, cs)
      | None \<Rightarrow>
         (case get_target (cs_inner cs) k of
            Inl e \<Rightarrow> (Err e, cs)
          | Inr t \<Rightarrow> (Ok t, cs\<lparr>cs_target_cache := co_insert ops now k t (cs_target_cache cs)\<rparr>)))"

definition write_through :: "'c target_ops \<Rightarrow> instant \<Rightarrow> (mem, target) op \<Rightarrow> ('c cached_storage, target) op" where
  "write_through ops now f cs =
     (case delegate f cs of
        (Inl e, cs') \<Rightarrow> (Err e, cs')
      | (Inr t, cs') \<Rightarrow> (Ok t, remember ops now t cs'))"

definition cached_create_target :: "'c target_ops \<Rightarrow> instant \<Rightarrow> target \<Rightarrow> ('c cached_storage, target) op" where
  "cached_create_target ops now t = write_through ops now (create_target t)"

definition cached_update_target :: "'c target_ops \<Rightarrow> instant \<Rightarrow> target \<Rightarrow> ('c cached_storage, target) op" where
  "cached_update_target ops now t = write_through ops now (update_target t)"

definition cached_delete_target :: "'c target_ops \<Rightarrow> uuid \<Rightarrow> ('c cached_storage, unit) op" where
  "cached_delete_target ops k cs =
     delegate (delete_target k) (cs\<lparr>cs_target_cache := co_invalidate ops k (cs_target_cache cs)\<rparr>)"

section \<open>What a cache needs of its store\<close>

text \<open>
  A store of rows under keys, as the cache relies on it: a successful write
  makes the returned row readable and leaves the other rows, a failed one
  leaves every row, and deleting leaves the other rows.
\<close>

locale row_store =
  fixes read :: "'s \<Rightarrow> 'k \<Rightarrow> app_error + 'v" and key_of :: "'v \<Rightarrow> 'k"
    and is_write :: "('s, 'v) op \<Rightarrow> bool" and drop_row :: "'k \<Rightarrow> ('s, unit) op"
  assumes write_ok: "is_write f \<Longrightarrow> f s = (Inr v, s') \<Longrightarrow> read s' k = (if k = key_of v then Inr v else read s k)"
    and write_failed: "is_write f \<Longrightarrow> f s = (Inl e, s') \<Longrightarrow> read s' k = read s k"
    and drop_other: "k' \<noteq> k \<Longrightarrow> read (snd (drop_row k s)) k' = read s k'"
begin

definition agrees :: "('c, 'k, 'v) cache_ops \<Rightarrow> 'c \<Rightarrow> 's \<Rightarrow> bool" where
  "agrees ops c s \<longleftrightarrow> (\<forall>now k v. co_get ops c now k = Some v \<longrightarrow> read s k = Inr v)"

lemma agrees_hit: "agrees ops c s \<Longrightarrow> co_get ops c now k = Some v \<Longrightarrow> read s k = Inr v"
  by (simp add: agrees_def)

lemma agrees_insert_read:
  assumes "cache_laws ttl ops" "agrees ops c s" "read s k = Inr v"
  shows "agrees ops (co_insert ops now k v c) s"
  unfolding agrees_def
proof (intro allI impI)
  fix t k' w assume hit: "co_get ops (co_insert ops now k v c) t k' = Some w"
  show "read s k' = Inr w"
  proof (cases "k' = k")
    case True
    with cache_hit [OF assms(1)] hit assms(3) show ?thesis by blast
  next
    case False
    with cache_other [OF assms(1)] hit assms(2) show ?thesis by (blast dest: agrees_hit)
  qed
qed

lemma agrees_write:
  assumes "cache_laws ttl ops" "agrees ops c s" "is_write f" "f s = (Inr v, s')"
  shows "agrees ops (co_insert ops now (key_of v) v c) s'"
  unfolding agrees_def
proof (intro allI impI)
  fix t k w assume hit: "co_get ops (co_insert ops now (key_of v) v c) t k = Some w"
  show "read s' k = Inr w"
  proof (cases "k = key_of v")
    case True
    with cache_hit [OF assms(1)] hit write_ok [OF assms(3,4)] show ?thesis by force
  next
    case False
    with cache_other [OF assms(1)] hit have "co_get ops c t k = Some w" by blast
    with agrees_hit [OF assms(2)] write_ok [OF assms(3,4)] False show ?thesis by simp
  qed
qed

lemma agrees_failed_write: "agrees ops c s \<Longrightarrow> is_write f \<Longrightarrow> f s = (Inl e, s') \<Longrightarrow> agrees ops c s'"
  by (simp add: agrees_def write_failed)

lemma agrees_drop:
  assumes "cache_laws ttl ops" "agrees ops c s"
  shows "agrees ops (co_invalidate ops k c) (snd (drop_row k s))"
  unfolding agrees_def
proof (intro allI impI)
  fix t k' w assume hit: "co_get ops (co_invalidate ops k c) t k' = Some w"
  then have "k' \<noteq> k" using cache_invalidated [OF assms(1)] by (cases "k' = k") auto
  then show "read (snd (drop_row k s)) k' = Inr w"
    using cache_kept [OF assms(1) hit] agrees_hit [OF assms(2)] drop_other by fastforce
qed

end

definition target_write :: "(mem, target) op \<Rightarrow> bool" where
  "target_write f \<longleftrightarrow> (\<exists>t. f = create_target t \<or> f = update_target t)"

interpretation targets: row_store get_target tg_id target_write delete_target
proof
  fix f :: "(mem, target) op" and s v s' k e
  assume "target_write f"
  then show "f s = (Inr v, s') \<Longrightarrow> get_target s' k = (if k = tg_id v then Inr v else get_target s k)"
    and "f s = (Inl e, s') \<Longrightarrow> get_target s' k = get_target s k"
    by (auto simp: target_write_def create_target_def update_target_def get_target_def split: if_splits)
next
  fix k' k :: uuid and s
  assume "k' \<noteq> k"
  then show "get_target (snd (delete_target k s)) k' = get_target s k'"
    by (simp add: delete_target_def get_target_def Let_def split: option.split)
qed

section \<open>The cache is invisible\<close>

text \<open>The calls of a client of the store; any call that is not about single targets is \<open>OtherCall\<close>.\<close>

datatype store_call =
    GetTarget instant uuid
  | CreateTarget instant target
  | UpdateTarget instant target
  | DeleteTarget uuid
  | ListTargets
  | OtherCall "mem \<Rightarrow> mem"

datatype store_answer = Row "app_error + target" | Rows "target list" | Done "app_error + unit" | Nothing

fun plain_call :: "store_call \<Rightarrow> mem \<Rightarrow> store_answer \<times> mem" where
  "plain_call (GetTarget _ k) s = (Row (get_target s k), s)"
| "plain_call (CreateTarget _ t) s = map_prod Row id (create_target t s)"
| "plain_call (UpdateTarget _ t) s = map_prod Row id (update_target t s)"
| "plain_call (DeleteTarget k) s = map_prod Done id (delete_target k s)"
| "plain_call ListTargets s = (Rows (list_targets s), s)"
| "plain_call (OtherCall f) s = (Nothing, f s)"

fun cached_call :: "'c target_ops \<Rightarrow> store_call \<Rightarrow> 'c cached_storage \<Rightarrow> store_answer \<times> 'c cached_storage" where
  "cached_call ops (GetTarget now k) cs = map_prod Row id (cached_get_target ops now k cs)"
| "cached_call ops (CreateTarget now t) cs = map_prod Row id (cached_create_target ops now t cs)"
| "cached_call ops (UpdateTarget now t) cs = map_prod Row id (cached_update_target ops now t cs)"
| "cached_call ops (DeleteTarget k) cs = map_prod Done id (cached_delete_target ops k cs)"
| "cached_call ops ListTargets cs = map_prod Rows id (list_targets (cs_inner cs), cs)"
| "cached_call ops (OtherCall f) cs = (Nothing, cs\<lparr>cs_inner := f (cs_inner cs)\<rparr>)"

fun run_calls :: "('q \<Rightarrow> 's \<Rightarrow> 'a \<times> 's) \<Rightarrow> 'q list \<Rightarrow> 's \<Rightarrow> 'a list \<times> 's" where
  "run_calls step [] s = ([], s)"
| "run_calls step (q # qs) s = (case step q s of (a, s') \<Rightarrow> (case run_calls step qs s' of (as, s'') \<Rightarrow> (a # as, s'')))"

fun leaves_targets :: "store_call \<Rightarrow> bool" where
  "leaves_targets (OtherCall f) \<longleftrightarrow> (\<forall>s. m_targets (f s) = m_targets s)"
| "leaves_targets _ \<longleftrightarrow> True"

lemma target_writes: "target_write (create_target t)" "target_write (update_target t)"
  by (auto simp: target_write_def)

lemma write_through_step:
  assumes laws: "cache_laws ttl ops" and agr: "targets.agrees ops (cs_target_cache cs) (cs_inner cs)" and f: "target_write f"
    and run: "write_through ops now f cs = (r, cs')"
  shows "f (cs_inner cs) = (r, cs_inner cs') \<and> targets.agrees ops (cs_target_cache cs') (cs_inner cs')"
  using run targets.agrees_write [OF laws agr f] targets.agrees_failed_write [OF agr f]
  by (auto simp: write_through_def delegate_def remember_def split: prod.splits sum.splits)

lemma cached_call_step:
  assumes laws: "cache_laws ttl ops" and agr: "targets.agrees ops (cs_target_cache cs) (cs_inner cs)"
    and "leaves_targets q" and run: "cached_call ops q cs = (a, cs')"
  shows "plain_call q (cs_inner cs) = (a, cs_inner cs') \<and> targets.agrees ops (cs_target_cache cs') (cs_inner cs')"
proof (cases q)
  case (GetTarget now k)
  then show ?thesis
    using run agr targets.agrees_hit [OF agr] targets.agrees_insert_read [OF laws agr]
    by (auto simp: cached_get_target_def split: option.splits sum.splits)
next
  case (CreateTarget now t)
  then show ?thesis
    using run write_through_step [OF laws agr target_writes(1), of now t] 
    by (cases "write_through ops now (create_target t) cs") (auto simp: cached_create_target_def)
next
  case (UpdateTarget now t)
  then show ?thesis
    using run write_through_step [OF laws agr target_writes(2), of now t] 
    by (cases "write_through ops now (update_target t) cs") (auto simp: cached_update_target_def)
next
  case (DeleteTarget k)
  then show ?thesis
    using run targets.agrees_drop [OF laws agr, of k]
    by (cases "delete_target k (cs_inner cs)") (auto simp: cached_delete_target_def delegate_def)
next
  case ListTargets
  then show ?thesis using run agr by auto
next
  case (OtherCall f)
  then show ?thesis using run agr assms(3) by (auto simp: targets.agrees_def get_target_def)
qed

text \<open>
  C9: The cache cannot be noticed.  Any sequence of calls, one after the other,
  gets the same answers from the cached store as from the store alone and
  leaves the same rows in it, whenever entries expire or are evicted; the
  cache only has to agree with the store at the start, as an empty one does.
\<close>

theorem cached_storage_refines_store:
  assumes "cache_laws ttl ops"
    and "\<forall>now k t. co_get ops (cs_target_cache cs) now k = Some t \<longrightarrow> get_target (cs_inner cs) k = Inr t"
    and "\<forall>q \<in> set qs. leaves_targets q"
  shows "run_calls plain_call qs (cs_inner cs) = map_prod id cs_inner (run_calls (cached_call ops) qs cs)"
  using assms(2,3) unfolding targets.agrees_def [symmetric]
proof (induction qs arbitrary: cs)
  case (Cons q qs)
  obtain a cs1 where step: "cached_call ops q cs = (a, cs1)" by force
  from cached_call_step [OF assms(1) Cons.prems(1) _ step] Cons.prems(2)
  have "plain_call q (cs_inner cs) = (a, cs_inner cs1)" "targets.agrees ops (cs_target_cache cs1) (cs_inner cs1)" by auto
  with step Cons.IH [of cs1] Cons.prems(2) show ?case by (auto split: prod.split)
qed simp

theorem cached_storage_refines_store_witness:
  "run_calls plain_call [CreateTarget 0 (sample_target 9 [] None), GetTarget 1 9, OtherCall (\<lambda>s. snd (delete_status_page 4 s)),
      DeleteTarget 9, GetTarget 2 9] new_storage =
   map_prod id cs_inner (run_calls (cached_call (ttl_ops TARGET_TTL))
      [CreateTarget 0 (sample_target 9 [] None), GetTarget 1 9, OtherCall (\<lambda>s. snd (delete_status_page 4 s)),
       DeleteTarget 9, GetTarget 2 9] \<lparr>cs_inner = new_storage, cs_target_cache = []\<rparr>)"
  using cached_storage_refines_store [OF ttl_ops_laws [of TARGET_TTL], of "\<lparr>cs_inner = new_storage, cs_target_cache = []\<rparr>"
      "[CreateTarget 0 (sample_target 9 [] None), GetTarget 1 9, OtherCall (\<lambda>s. snd (delete_status_page 4 s)),
        DeleteTarget 9, GetTarget 2 9]"]
  by (simp add: ttl_ops_def delete_status_page_def Let_def split: option.split)

section \<open>Interleaved calls\<close>

text \<open>
  A read that misses is two steps: it reads the row, and inserts it later.  A
  write of the same target may come between, and then the old row is put over
  the new one and is served until it expires.
\<close>

definition finish_read :: "'c target_ops \<Rightarrow> instant \<Rightarrow> uuid \<Rightarrow> app_error + target \<Rightarrow> 'c cached_storage \<Rightarrow> 'c cached_storage" where
  "finish_read ops now k r cs =
     (case r of Inl _ \<Rightarrow> cs | Inr t \<Rightarrow> cs\<lparr>cs_target_cache := co_insert ops now k t (cs_target_cache cs)\<rparr>)"

lemma cached_get_target_two_steps:
  "co_get ops (cs_target_cache cs) now k = None \<Longrightarrow>
   cached_get_target ops now k cs = (get_target (cs_inner cs) k, finish_read ops now k (get_target (cs_inner cs) k) cs)"
  by (simp add: cached_get_target_def finish_read_def split: sum.split)

lemma get_target_race_serves_old_row:
  fixes now :: instant
  assumes old: "get_target (cs_inner cs) k = Inr t" and new: "tg_id t' = k"
    and later: "0 \<le> d" "d < TARGET_TTL"
  defines "cs1 \<equiv> snd (cached_update_target (ttl_ops TARGET_TTL) now t' cs)"
  defines "cs2 \<equiv> finish_read (ttl_ops TARGET_TTL) now k (get_target (cs_inner cs) k) cs1"
  shows "get_target (cs_inner cs2) k = Inr t'" "fst (cached_get_target (ttl_ops TARGET_TTL) (now + d) k cs2) = Inr t"
  using assms
  by (auto simp: cached_update_target_def write_through_def delegate_def remember_def update_target_def get_target_def
      finish_read_def cached_get_target_def ttl_ops_def hm_contains_def split: option.splits)

end
