(* ===== verification/Cleanup.thy ===== *)
theory Cleanup
  imports Auth_Service Memory_Delivery Public_Status Rate_Limit
begin

text \<open>
  The cleanup worker (\<open>bin/status-server/src/cleanup.rs\<close>): one sweep over the
  store and one round of the rate-limit janitor.  A failed delete is logged and
  the sweep goes on, so a sweep keeps the state of every call and drops its
  result.  The timer loops around them are not modelled.
\<close>

section \<open>A sweep\<close>

record retention_config =
  rt_check_results_days :: nat
  rt_api_tokens_post_expiry_days :: nat
  rt_export_enabled :: bool

definition default_retention :: retention_config where
  "default_retention = \<lparr>rt_check_results_days = 30, rt_api_tokens_post_expiry_days = 30, rt_export_enabled = False\<rparr>"

definition DELIVERY_RETENTION_DAYS :: int where
  "DELIVERY_RETENTION_DAYS = 30"

definition UNVERIFIED_SUBSCRIBER_GRACE_DAYS :: int where
  "UNVERIFIED_SUBSCRIBER_GRACE_DAYS = 7"

definition logged :: "(mem, nat) op \<Rightarrow> mem \<Rightarrow> mem" where
  "logged f s = snd (f s)"

definition cleanup_sweep :: "instant \<Rightarrow> retention_config \<Rightarrow> (mem, unit) op" where
  "cleanup_sweep now retention s =
     (let s1 = logged (delete_old_deliveries (now - days DELIVERY_RETENTION_DAYS)) s;
          s2 = logged (delete_unverified_subscribers (now - days UNVERIFIED_SUBSCRIBER_GRACE_DAYS)) s1;
          s3 = logged (delete_expired_sessions now) s2;
          s4 = logged (delete_expired_magic_links now) s3;
          s5 = logged (delete_old_check_results (now - days (int (rt_check_results_days retention)))) s4;
          s6 = logged (delete_expired_api_tokens (now - days (int (rt_api_tokens_post_expiry_days retention)))) s5
      in (Ok (), s6))"

text \<open>One tick of the janitor: buckets idle for a day are dropped.\<close>

definition janitor_round :: "instant \<Rightarrow> ip_rate_limiter option \<Rightarrow> ip_rate_limiter option" where
  "janitor_round now limiter = map_option (\<lambda>l. snd (evict_idle now (hours 24) l)) limiter"

text \<open>The fields a sweep writes, each as one filter; no other field changes.\<close>

lemma cleanup_sweep_fields:
  "snd (cleanup_sweep now rt s) =
     s\<lparr>m_subscriber_deliveries := filter (\<lambda>d. \<not> ((sd_status d = Sent \<or> sd_status d = DeadLetter) \<and>
           (case sd_sent_at d of Some t \<Rightarrow> t | None \<Rightarrow> sd_created_at d) < now - days 30)) (m_subscriber_deliveries s),
       m_subscribers := hm_retain (\<lambda>_ x. \<not> (sub_verified_at x = None \<and> sub_created_at x < now - days 7)) (m_subscribers s),
       m_sessions := hm_retain (\<lambda>_ r. ses_expires_at r \<ge> now) (m_sessions s),
       m_magic_links := hm_retain (\<lambda>_ l. \<not> (ml_expires_at l < now \<and> ml_used_at l = None)) (m_magic_links s),
       m_results := filter (\<lambda>r. cr_timestamp r \<ge> now - days (int (rt_check_results_days rt))) (m_results s),
       m_api_tokens := hm_retain (\<lambda>_ t. case at_expires_at t of None \<Rightarrow> True
           | Some e \<Rightarrow> e \<ge> now - days (int (rt_api_tokens_post_expiry_days rt))) (m_api_tokens s)\<rparr>"
  by (simp add: cleanup_sweep_def logged_def delete_old_deliveries_def delete_unverified_subscribers_def
      delete_expired_sessions_def delete_expired_magic_links_def delete_old_check_results_def delete_expired_api_tokens_def
      DELIVERY_RETENTION_DAYS_def UNVERIFIED_SUBSCRIBER_GRACE_DAYS_def Let_def)

section \<open>Nobody is logged out\<close>

lemma lookup_candidates_skips_expired:
  assumes "\<forall>row \<in> set rows. \<not> P row \<longrightarrow> (\<exists>e. at_expires_at row = Some e \<and> now > e)"
  shows "lookup_candidates cr now raw (filter P rows) = lookup_candidates cr now raw rows"
  using assms by (induction rows) auto

lemma hm_values_retain_values: "hm_values (hm_retain (\<lambda>_. P) m) = filter P (hm_values m)"
  by (induction m) (auto simp: hm_values_def hm_retain_def)

lemma find_api_tokens_swept:
  "find_api_tokens_by_prefix (s\<lparr>m_api_tokens := hm_retain (\<lambda>_. P) (m_api_tokens s)\<rparr>) prefix =
   filter P (find_api_tokens_by_prefix s prefix)"
  by (simp add: find_api_tokens_by_prefix_def hm_values_retain_values filter_sort conj_commute)

lemma lookup_candidates_swept:
  assumes "now \<le> later"
  shows "lookup_candidates cr later raw (find_api_tokens_by_prefix (snd (cleanup_sweep now rt s)) prefix) =
    lookup_candidates cr later raw (find_api_tokens_by_prefix s prefix)"
proof -
  let ?P = "\<lambda>t. case at_expires_at t of None \<Rightarrow> True | Some e \<Rightarrow> e \<ge> now - days (int (rt_api_tokens_post_expiry_days rt))"
  have "find_api_tokens_by_prefix (snd (cleanup_sweep now rt s)) prefix = filter ?P (find_api_tokens_by_prefix s prefix)"
    using find_api_tokens_swept [of ?P s prefix] by (simp add: cleanup_sweep_fields find_api_tokens_by_prefix_def)
  moreover have "\<exists>e. at_expires_at t = Some e \<and> later > e" if "\<not> ?P t" for t
    using that assms by (auto simp: instant_simps split: option.splits)
  ultimately show ?thesis using lookup_candidates_skips_expired [of "find_api_tokens_by_prefix s prefix" ?P later cr raw] by metis
qed

lemma get_user_swept: "get_user (snd (cleanup_sweep now rt s)) u = get_user s u"
  by (simp add: cleanup_sweep_fields get_user_def live_user_def)

lemma session_identity_swept:
  assumes "hm_ok (m_sessions s)" "now \<le> later"
  shows "session_identity cfg cr later h (snd (cleanup_sweep now rt s)) = session_identity cfg cr later h s"
proof -
  have "store_lookup_session (snd (cleanup_sweep now rt s)) d =
      (case store_lookup_session s d of Some r \<Rightarrow> if ses_expires_at r \<ge> now then Some r else None | None \<Rightarrow> None)" for d
    using assms(1) by (simp add: store_lookup_session_def cleanup_sweep_fields hm_get_retain)
  with assms(2) show ?thesis
    by (auto simp: session_identity_def lookup_session_def get_user_swept split: option.split)
qed

text \<open>
  C30: A sweep logs nobody out and lets nobody in.  Whatever the retention
  settings, a request at the time of the sweep or later resolves to the same
  identity after the sweep as before: the sessions and tokens a sweep removes
  are ones that no request is accepted with any more.
\<close>

theorem sweep_keeps_identities:
  assumes "hm_ok (m_sessions s)" "now \<le> later"
  shows "resolve_identity cfg cr later h (snd (cleanup_sweep now rt s)) = resolve_identity cfg cr later h s"
  by (simp only: resolve_identity_def token_identity_def lookup_api_token_def get_user_swept
      session_identity_swept [OF assms] lookup_candidates_swept [OF assms(2)])

theorem sweep_keeps_identities_witness:
  "resolve_identity sample_cfg sample_crypto 5 cookie_headers (snd (cleanup_sweep 3 default_retention account_store)) =
     Some (SessionIdentity sample_user ''c'')"
proof -
  have "resolve_identity sample_cfg sample_crypto 5 cookie_headers account_store = Some (SessionIdentity sample_user ''c'')"
    by code_simp
  moreover have "hm_ok (m_sessions account_store)" by (simp add: account_store_def hm_ok_def)
  ultimately show ?thesis using sweep_keeps_identities [of account_store 3 5] by simp
qed

section \<open>The day strip after a sweep\<close>

lemma utc_day_minus_days: "utc_day (t - days n) = utc_day t - n"
  using div_mult_self1 [of "days 1" t "- n"] by (simp add: utc_day_def instant_simps algebra_simps)

lemma utc_day_mono: "a \<le> b \<Longrightarrow> utc_day a \<le> utc_day b"
  by (simp add: utc_day_def instant_simps zdiv_mono1)

lemma strip_day_without_results:
  assumes "\<forall>r \<in> set rs. utc_day (cr_timestamp r) \<noteq> d"
  shows "hm_get (by_day_of rs) d = None"
  using assms by (auto simp: by_day_worst day_states_def filter_empty_conv)

text \<open>
  A sweep blanks the days of the public strip that lie before the retention
  of check results.  With a retention of n days, the first 90 - n of the 91
  days that a status page shows of a component have no data after the sweep,
  whatever was recorded; with the default retention these are the first sixty.
\<close>

theorem sweep_blanks_old_days:
  "take (90 - rt_check_results_days rt) (component_history (snd (cleanup_sweep now rt s)) now target_id) =
   replicate (90 - rt_check_results_days rt) NoData"
proof -
  let ?n = "rt_check_results_days rt" and ?D = "utc_day now"
  let ?rs = "filter (in_window target_id (now - days 90) now) (m_results (snd (cleanup_sweep now rt s)))"
  have blank: "hm_get (by_day_of ?rs) d = None" if "d < ?D - int ?n" for d
  proof (rule strip_day_without_results, rule ballI)
    fix r assume "r \<in> set ?rs"
    then have "now - days (int ?n) \<le> cr_timestamp r" by (simp add: cleanup_sweep_fields)
    from utc_day_mono [OF this] that show "utc_day (cr_timestamp r) \<noteq> d" by (simp add: utc_day_minus_days)
  qed
  have "component_history (snd (cleanup_sweep now rt s)) now target_id =
      map (\<lambda>d. case hm_get (by_day_of ?rs) d of Some st \<Rightarrow> st | None \<Rightarrow> NoData) [?D - 90..?D]"
    by (simp add: component_history_def component_day_history_of_def day_strip_dated_def utc_day_minus_days comp_def)
  then show ?thesis
    by (auto intro!: nth_equalityI simp: nth_upto blank take_map)
qed

end
