(* ===== verification/Mail.thy ===== *)
theory Mail
  imports Markup
begin

text \<open>
  Transactional mail (\<open>crates/common/src/email/\<close>): the templates, the links they
  carry and the three senders.  Texts are lists of Unicode scalar values.  The
  printed form of a date, the upper case of a letter, fresh identifiers, the
  decoding of bytes and JSON and the answer of the mail provider are arguments.
\<close>

section \<open>Templates\<close>

record mail_lib =
  el_minute :: "instant \<Rightarrow> utext"
  el_upper :: "nat \<Rightarrow> utext"

datatype email_template =
    Invitation (iv_org_name: utext) (iv_inviter: utext) (iv_accept_url: utext) (iv_decline_url: utext) (iv_expires_at: instant)
  | MagicLink (mk_url: utext) (mk_minutes: nat) (mk_ip_hint: "utext option")
  | AccountDeletion (ad_purge_at: instant)
  | ChannelVerification (cv_channel_name: utext) (cv_verify_url: utext) (cv_expires_hours: nat)
      (cv_org_name: "utext option") (cv_decline_url: "utext option")
  | IncidentAlert (ia_body: utext) (ia_org_name: "utext option") (ia_stop_url: "utext option")
  | SubscriberConfirm (sc_page_name: utext) (sc_confirm_url: utext) (sc_expires_hours: nat) (sc_unsubscribe_url: utext)
  | SubscriberIncident (si_page_name: utext) (si_title: utext) (si_phase: utext) (si_message: utext) (si_url: utext)
      (si_unsubscribe_url: utext)
  | SubscriberMaintenance (sm_page_name: utext) (sm_title: utext) (sm_description: "utext option") (sm_phase: utext)
      (sm_starts_at: instant) (sm_ends_at: instant) (sm_page_url: utext) (sm_unsubscribe_url: utext)

record rendered_email =
  re_subject :: utext
  re_text_body :: utext
  re_html_body :: utext

definition html_escape_char :: "nat \<Rightarrow> utext" where
  "html_escape_char c =
     (if c = 38 then uni ''&amp;'' else if c = 60 then uni ''&lt;'' else if c = 62 then uni ''&gt;''
      else if c = 34 then uni ''&quot;'' else if c = 39 then uni ''&#39;'' else [c])"

definition html_escape :: "utext \<Rightarrow> utext" where
  "html_escape s = concat (map html_escape_char s)"

definition attr_escape :: "utext \<Rightarrow> utext" where
  "attr_escape s = html_escape s"

definition if_some :: "('a \<Rightarrow> utext) \<Rightarrow> 'a option \<Rightarrow> utext" where
  "if_some f x = (case x of None \<Rightarrow> [] | Some v \<Rightarrow> f v)"

text \<open>The head every template starts with, and the button every linking template has.\<close>

definition html_open :: "utext \<Rightarrow> utext" where
  "html_open subject_esc =
     uni ''<!doctype html>'' @ nl @
     uni ''<html><head><meta charset=\"utf-8\"><title>'' @ subject_esc @ uni ''</title></head>'' @ nl @
     uni ''<body style=\"font-family:system-ui,sans-serif;max-width:560px;margin:2rem auto;color:#222;\">'' @ nl"

definition html_close :: utext where
  "html_close = uni ''</body></html>'' @ nl"

definition html_button :: "utext \<Rightarrow> string \<Rightarrow> utext" where
  "html_button url_attr label =
     uni ''<p style=\"margin:1.5rem 0;\">'' @ nl @
     uni ''<a href=\"'' @ url_attr @
     uni ''\" style=\"background:#0b66e4;color:#fff;padding:10px 16px;border-radius:6px;text-decoration:none;\">'' @
     uni label @ uni ''</a>'' @ nl @
     uni ''</p>'' @ nl"

definition footer_open :: utext where
  "footer_open = uni ''<p style=\"font-size:0.8em;color:#888;border-top:1px solid #eee;padding-top:1rem;\">''"

definition render_invitation :: "mail_lib \<Rightarrow> utext \<Rightarrow> utext \<Rightarrow> utext \<Rightarrow> utext \<Rightarrow> utext \<Rightarrow> instant \<Rightarrow> rendered_email" where
  "render_invitation L site_name org_name inviter accept_url decline_url expires_at =
     (let expires_human = el_minute L expires_at;
          subject = inviter @ uni '' invited you to '' @ org_name
      in \<lparr>re_subject = subject,
          re_text_body =
            inviter @ uni '' invited you to join '' @ org_name @ uni '' on '' @ site_name @ uni ''.'' @ nl @ nl @
            uni ''Accept the invitation:'' @ nl @ uni ''  '' @ accept_url @ nl @ nl @
            uni ''Or decline:'' @ nl @ uni ''  '' @ decline_url @ nl @ nl @
            uni ''This link expires at '' @ expires_human @ uni ''.'' @ nl @ nl @
            uni ''If you weren't expecting this, you can ignore the message '' @ em_dash @ uni '' no'' @ nl @
            uni ''account is created and the invitation will be cleaned up after it'' @ nl @
            uni ''expires.'' @ nl,
          re_html_body =
            html_open (html_escape subject) @
            uni ''<h2 style=\"margin-top:0;\">You're invited to '' @ html_escape org_name @ uni ''</h2>'' @ nl @
            uni ''<p>'' @ html_escape inviter @ uni '' invited you to join <strong>'' @ html_escape org_name @
            uni ''</strong> on '' @ html_escape site_name @ uni ''.</p>'' @ nl @
            html_button (attr_escape accept_url) ''Accept invitation'' @
            uni ''<p style=\"font-size:0.9em;color:#555;\">Or <a href=\"'' @ attr_escape decline_url @
            uni ''\">decline</a>. This link expires at <strong>'' @ html_escape expires_human @ uni ''</strong>.</p>'' @ nl @
            footer_open @ uni ''If you weren't expecting this, you can ignore the message '' @ em_dash @
            uni '' no account is created.</p>'' @ nl @
            html_close\<rparr>)"

definition render_magic_link :: "utext \<Rightarrow> utext \<Rightarrow> nat \<Rightarrow> utext option \<Rightarrow> rendered_email" where
  "render_magic_link site_name url expires_in_minutes ip_hint =
     (let subject = uni ''Sign in to '' @ site_name
      in \<lparr>re_subject = subject,
          re_text_body =
            uni ''Click the link below to sign in to '' @ site_name @ uni '':'' @ nl @
            nl @ uni ''  '' @ url @ nl @ nl @
            uni ''This link expires in '' @ num_text expires_in_minutes @ uni '' minutes and can only be used once.'' @ nl @
            if_some (\<lambda>ip. nl @ uni ''Sign-in requested from '' @ ip @ uni ''.'' @ nl) ip_hint @
            uni ''If you didn't request this, you can ignore the message.'' @ nl,
          re_html_body =
            html_open (html_escape subject) @
            uni ''<h2 style=\"margin-top:0;\">Sign in to '' @ html_escape site_name @ uni ''</h2>'' @ nl @
            html_button (html_escape url) ''Sign in'' @
            uni ''<p style=\"font-size:0.9em;color:#555;\">This link expires in <strong>'' @ num_text expires_in_minutes @
            uni ''</strong> minutes and can only be used once.</p>'' @ nl @
            if_some (\<lambda>ip. uni ''<p style=\"font-size:0.85em;color:#555;\">Sign-in requested from <code>'' @ html_escape ip @
              uni ''</code>.</p>'') ip_hint @
            footer_open @ uni ''If you didn't request this, you can ignore the message.</p>'' @ nl @
            html_close\<rparr>)"

definition render_account_deletion :: "mail_lib \<Rightarrow> utext \<Rightarrow> instant \<Rightarrow> rendered_email" where
  "render_account_deletion L site_name scheduled_purge_at =
     (let purge_human = el_minute L scheduled_purge_at;
          subject = uni ''Your '' @ site_name @ uni '' account is scheduled for deletion''
      in \<lparr>re_subject = subject,
          re_text_body =
            uni ''Your '' @ site_name @ uni '' account has been deactivated and is scheduled for'' @ nl @
            uni ''permanent deletion on '' @ purge_human @ uni ''.'' @ nl @ nl @
            uni ''Changed your mind? Sign in again before '' @ purge_human @ uni '' to restore your'' @ nl @
            uni ''account and any organisations you solely own.'' @ nl @ nl @
            uni ''After that the account and all associated data are permanently erased'' @ nl @
            uni ''and cannot be recovered.'' @ nl @ nl @
            uni ''If you requested this deletion, no further action is needed.'' @ nl,
          re_html_body =
            html_open (html_escape subject) @
            uni ''<h2 style=\"margin-top:0;\">Account scheduled for deletion</h2>'' @ nl @
            uni ''<p>Your '' @ html_escape site_name @
            uni '' account has been deactivated and is scheduled for permanent deletion on <strong>'' @ html_escape purge_human @
            uni ''</strong>.</p>'' @ nl @
            uni ''<p style=\"margin:1.5rem 0;\">Changed your mind? <strong>Sign in again before '' @ html_escape purge_human @
            uni ''</strong> to restore your account and any organisations you solely own.</p>'' @ nl @
            uni ''<p style=\"font-size:0.9em;color:#555;\">After that the account and all associated data are permanently erased and cannot be recovered.</p>'' @ nl @
            footer_open @ uni ''If you requested this deletion, no further action is needed.</p>'' @ nl @
            html_close\<rparr>)"

definition render_channel_verification ::
  "utext \<Rightarrow> utext \<Rightarrow> utext \<Rightarrow> nat \<Rightarrow> utext option \<Rightarrow> utext option \<Rightarrow> rendered_email" where
  "render_channel_verification site_name channel_name verify_url expires_hours org_name decline_url =
     (let subject = uni ''Verify this address for '' @ site_name @ uni '' alerts''
      in \<lparr>re_subject = subject,
          re_text_body =
            uni ''This address was added as the alert channel \"'' @ channel_name @ uni ''\"'' @
            if_some (\<lambda>o'. uni '' by '' @ o') org_name @ uni '' on '' @ site_name @ uni ''.'' @ nl @ nl @
            uni ''Confirm it to start receiving alerts:'' @ nl @
            nl @ uni ''  '' @ verify_url @ nl @ nl @
            uni ''This link expires in '' @ num_text expires_hours @ uni '' hours and can only be used once.'' @ nl @
            uni ''If you didn't expect this, ignore this message'' @
            if_some (\<lambda>u. uni '', or block this address: '' @ u) decline_url @
            uni '' '' @ em_dash @ uni '' no alerts are sent until it is confirmed.'' @ nl,
          re_html_body =
            html_open (html_escape subject) @
            uni ''<h2 style=\"margin-top:0;\">Verify this address for '' @ html_escape site_name @ uni '' alerts</h2>'' @ nl @
            uni ''<p>This address was added as the alert channel <strong>'' @ html_escape channel_name @ uni ''</strong>'' @
            if_some (\<lambda>o'. uni '' by <strong>'' @ html_escape o' @ uni ''</strong>'') org_name @ uni ''.</p>'' @ nl @
            html_button (html_escape verify_url) ''Verify address'' @
            uni ''<p style=\"font-size:0.9em;color:#555;\">This link expires in <strong>'' @ num_text expires_hours @
            uni ''</strong> hours and can only be used once.</p>'' @ nl @
            footer_open @ uni ''No alerts are sent until this address is confirmed.'' @
            if_some (\<lambda>u. uni '' Didn't expect this? <a href=\"'' @ html_escape u @ uni ''\">Block this address</a>.'') decline_url @
            uni ''</p>'' @ nl @
            html_close\<rparr>)"

text \<open>\<open>body.lines().next()\<close>: the text before the first line feed, without a carriage return right before it.\<close>

definition first_line :: "utext \<Rightarrow> utext option" where
  "first_line body =
     (if body = [] then None
      else let l = takeWhile (\<lambda>c. c \<noteq> 10) body in
        Some (if l \<noteq> body \<and> l \<noteq> [] \<and> last l = 13 then butlast l else l))"

definition render_incident_alert :: "utext \<Rightarrow> utext \<Rightarrow> utext option \<Rightarrow> utext option \<Rightarrow> rendered_email" where
  "render_incident_alert site_name body org_name stop_url =
     (let subject = (case first_line body of Some l \<Rightarrow> l | None \<Rightarrow> uni ''incident alert'');
          attribution =
            if_some (\<lambda>org. nl @ uni ''You're receiving this because '' @ org @
              uni '' added this address as an alert channel on '' @ site_name @ uni ''.'') org_name @
            if_some (\<lambda>url. nl @ uni ''Stop delivery to this address: '' @ url) stop_url
      in \<lparr>re_subject = subject,
          re_text_body = body @ nl @ attribution @ nl @ nl @ em_dash @ uni '' '' @ site_name @ uni '' alerts'' @ nl,
          re_html_body =
            html_open (html_escape subject) @
            uni ''<pre style=\"font-family:ui-monospace,monospace;white-space:pre-wrap;\">'' @ html_escape body @ uni ''</pre>'' @ nl @
            footer_open @
            if_some (\<lambda>org. uni ''You're receiving this because <strong>'' @ html_escape org @
              uni ''</strong> added this address as an alert channel on '' @ html_escape site_name @ uni ''.'') org_name @
            if_some (\<lambda>url. uni '' <a href=\"'' @ html_escape url @ uni ''\">Stop delivery to this address</a>.'') stop_url @
            uni ''</p>'' @ nl @
            uni ''<p style=\"font-size:0.8em;color:#888;\">'' @ em_dash @ uni '' '' @ html_escape site_name @ uni '' alerts</p>'' @ nl @
            html_close\<rparr>)"

definition render_subscriber_confirm :: "utext \<Rightarrow> utext \<Rightarrow> utext \<Rightarrow> nat \<Rightarrow> utext \<Rightarrow> rendered_email" where
  "render_subscriber_confirm site_name page_name confirm_url expires_hours unsubscribe_url =
     (let subject = uni ''Confirm your subscription to '' @ page_name
      in \<lparr>re_subject = subject,
          re_text_body =
            uni ''You asked to receive status updates for '' @ page_name @ uni '' on '' @ site_name @ uni ''.'' @ nl @ nl @
            uni ''Confirm this address to start receiving notifications:'' @ nl @
            nl @ uni ''  '' @ confirm_url @ nl @ nl @
            uni ''This link expires in '' @ num_text expires_hours @ uni '' hours and can only be used once.'' @ nl @
            uni ''If you didn't request this, you can remove this address in one click:'' @ nl @
            nl @ uni ''  '' @ unsubscribe_url @ nl,
          re_html_body =
            html_open (html_escape subject) @
            uni ''<h2 style=\"margin-top:0;\">Confirm your subscription to '' @ html_escape page_name @ uni ''</h2>'' @ nl @
            uni ''<p>You asked to receive status updates for <strong>'' @ html_escape page_name @ uni ''</strong>.</p>'' @ nl @
            html_button (html_escape confirm_url) ''Confirm subscription'' @
            uni ''<p style=\"font-size:0.9em;color:#555;\">This link expires in <strong>'' @ num_text expires_hours @
            uni ''</strong> hours and can only be used once.</p>'' @ nl @
            footer_open @ uni ''If you didn't request this, <a href=\"'' @ html_escape unsubscribe_url @
            uni ''\" style=\"color:#888;\">remove this address</a> and no updates will be sent to it.</p>'' @ nl @
            html_close\<rparr>)"

fun phase_label :: "mail_lib \<Rightarrow> utext \<Rightarrow> utext" where
  "phase_label L [] = []"
| "phase_label L (c # cs) = el_upper L c @ cs"

definition unsubscribe_footer :: "utext \<Rightarrow> utext \<Rightarrow> utext" where
  "unsubscribe_footer page_name unsubscribe_url =
     footer_open @ uni ''You're receiving this because you subscribed to '' @ html_escape page_name @
     uni ''. <a href=\"'' @ html_escape unsubscribe_url @ uni ''\">Unsubscribe</a>.</p>'' @ nl"

definition render_subscriber_incident ::
  "mail_lib \<Rightarrow> utext \<Rightarrow> utext \<Rightarrow> utext \<Rightarrow> utext \<Rightarrow> utext \<Rightarrow> utext \<Rightarrow> rendered_email" where
  "render_subscriber_incident L page_name incident_title phase message incident_url unsubscribe_url =
     (let label = phase_label L phase;
          subject = uni ''['' @ page_name @ uni ''] '' @ incident_title @ uni '' '' @ em_dash @ uni '' '' @ label
      in \<lparr>re_subject = subject,
          re_text_body =
            incident_title @ nl @ uni ''Status: '' @ label @ nl @ nl @ message @ nl @ nl @
            uni ''View the status page:'' @ nl @ uni ''  '' @ incident_url @ nl @ nl @
            uni ''Unsubscribe:'' @ nl @ uni ''  '' @ unsubscribe_url @ nl,
          re_html_body =
            html_open (html_escape subject) @
            uni ''<h2 style=\"margin-top:0;\">'' @ html_escape incident_title @ uni ''</h2>'' @ nl @
            uni ''<p style=\"color:#555;\">Status: <strong>'' @ html_escape label @ uni ''</strong></p>'' @ nl @
            uni ''<p style=\"white-space:pre-wrap;\">'' @ html_escape message @ uni ''</p>'' @ nl @
            html_button (html_escape incident_url) ''View status page'' @
            unsubscribe_footer page_name unsubscribe_url @
            html_close\<rparr>)"

definition render_subscriber_maintenance ::
  "mail_lib \<Rightarrow> utext \<Rightarrow> utext \<Rightarrow> utext option \<Rightarrow> utext \<Rightarrow> instant \<Rightarrow> instant \<Rightarrow> utext \<Rightarrow> utext \<Rightarrow> rendered_email" where
  "render_subscriber_maintenance L page_name title description phase starts_at ends_at page_url unsubscribe_url =
     (let heading = (if phase = uni ''completed'' then ''Maintenance completed'' else ''Scheduled maintenance'');
          subject = uni ''['' @ page_name @ uni ''] '' @ uni heading @ uni '': '' @ title;
          window = el_minute L starts_at @ uni '' '' @ em_dash @ uni '' '' @ el_minute L ends_at
      in \<lparr>re_subject = subject,
          re_text_body =
            title @ nl @ uni heading @ nl @ uni ''When: '' @ window @ nl @
            if_some (\<lambda>d. nl @ d @ nl) description @ nl @
            uni ''View the status page:'' @ nl @ uni ''  '' @ page_url @ nl @ nl @
            uni ''Unsubscribe:'' @ nl @ uni ''  '' @ unsubscribe_url @ nl,
          re_html_body =
            html_open (html_escape subject) @
            uni ''<h2 style=\"margin-top:0;\">'' @ html_escape title @ uni ''</h2>'' @ nl @
            uni ''<p style=\"color:#555;\">'' @ uni heading @ uni '' '' @ [183] @ uni '' <strong>'' @ html_escape window @
            uni ''</strong></p>'' @ nl @
            if_some (\<lambda>d. uni ''<p style=\"white-space:pre-wrap;\">'' @ html_escape d @ uni ''</p>'') description @ nl @
            html_button (html_escape page_url) ''View status page'' @
            unsubscribe_footer page_name unsubscribe_url @
            html_close\<rparr>)"

fun render_mail :: "mail_lib \<Rightarrow> utext \<Rightarrow> email_template \<Rightarrow> rendered_email" where
  "render_mail L site (Invitation org inviter accept decline expires) = render_invitation L site org inviter accept decline expires"
| "render_mail L site (MagicLink url mins ip) = render_magic_link site url mins ip"
| "render_mail L site (AccountDeletion purge) = render_account_deletion L site purge"
| "render_mail L site (ChannelVerification channel verify hrs org decline) =
     render_channel_verification site channel verify hrs org decline"
| "render_mail L site (IncidentAlert body org stop) = render_incident_alert site body org stop"
| "render_mail L site (SubscriberConfirm page confirm hrs unsub) = render_subscriber_confirm site page confirm hrs unsub"
| "render_mail L site (SubscriberIncident page title phase message url unsub) =
     render_subscriber_incident L page title phase message url unsub"
| "render_mail L site (SubscriberMaintenance page title desc phase starts ends url unsub) =
     render_subscriber_maintenance L page title desc phase starts ends url unsub"

fun primary_url :: "email_template \<Rightarrow> utext option" where
  "primary_url (Invitation _ _ accept _ _) = Some accept"
| "primary_url (MagicLink url _ _) = Some url"
| "primary_url (AccountDeletion _) = None"
| "primary_url (ChannelVerification _ verify _ _ _) = Some verify"
| "primary_url (IncidentAlert _ _ _) = None"
| "primary_url (SubscriberConfirm _ confirm _ _) = Some confirm"
| "primary_url (SubscriberIncident _ _ _ _ url _) = Some url"
| "primary_url (SubscriberMaintenance _ _ _ _ _ _ url _) = Some url"

fun list_unsubscribe_url :: "email_template \<Rightarrow> utext option" where
  "list_unsubscribe_url (SubscriberIncident _ _ _ _ _ unsub) = Some unsub"
| "list_unsubscribe_url (SubscriberMaintenance _ _ _ _ _ _ _ unsub) = Some unsub"
| "list_unsubscribe_url (SubscriberConfirm _ _ _ unsub) = Some unsub"
| "list_unsubscribe_url (ChannelVerification _ _ _ _ decline) = decline"
| "list_unsubscribe_url _ = None"

end
