(* ===== verification/Mail_Senders.thy ===== *)
theory Mail_Senders
  imports Mail "HOL-Library.Monad_Syntax"
begin

text \<open>
  The senders of transactional mail: the development sender that only logs,
  with the redaction of links (\<open>email/log_only.rs\<close>), the in-memory sender
  (\<open>email/memory.rs\<close>), the sender over the HTTP API of a provider
  (\<open>email/resend.rs\<close>) and the choice between them (\<open>email/mod.rs\<close>).
\<close>

section \<open>Redaction of links\<close>

definition SENSITIVE_PARAMS :: "utext list" where
  "SENSITIVE_PARAMS = [uni ''token'', uni ''state'', uni ''recovery'', uni ''code'']"

text \<open>\<open>char::is_whitespace\<close>: the code points with the property \<open>White_Space\<close>.\<close>

definition is_white :: "nat \<Rightarrow> bool" where
  "is_white c \<longleftrightarrow> (9 \<le> c \<and> c \<le> 13) \<or> (8192 \<le> c \<and> c \<le> 8202) \<or>
     c \<in> {32, 133, 160, 5760, 8232, 8233, 8239, 8287, 12288}"

definition utf8_width :: "nat \<Rightarrow> nat" where
  "utf8_width c = (if c < 128 then 1 else if c < 2048 then 2 else if c < 65536 then 3 else 4)"

definition byte_len :: "utext \<Rightarrow> nat" where
  "byte_len s = sum_list (map utf8_width s)"

fun find_text :: "utext \<Rightarrow> utext \<Rightarrow> nat option" where
  "find_text key [] = (if key = [] then Some 0 else None)"
| "find_text key (c # s) = (if take (length key) (c # s) = key then Some 0 else map_option Suc (find_text key s))"

definition in_value :: "nat \<Rightarrow> bool" where
  "in_value c \<longleftrightarrow> \<not> (c = 38 \<or> is_white c)"

partial_function (option) redact_loop :: "utext \<Rightarrow> utext \<Rightarrow> nat \<Rightarrow> utext option" where [code]:
  "redact_loop key out from =
     (case find_text key (drop from out) of
        None \<Rightarrow> Some out
      | Some rel \<Rightarrow>
         (let k = from + rel;
              pre_ok = (k = 0 \<or> out ! (k - 1) = 63 \<or> out ! (k - 1) = 38);
              eq = k + length key
          in if pre_ok \<and> eq < length out \<and> out ! eq = 61 then
               (let vstart = eq + 1;
                    value = takeWhile in_value (drop vstart out)
                in if byte_len value > 6 then
                     (let replaced = take 6 value @ [8230]
                      in redact_loop key (take vstart out @ replaced @ drop (vstart + length value) out) (vstart + length replaced))
                   else redact_loop key out (k + length key))
             else redact_loop key out (k + length key)))"

fun redact_keys :: "utext list \<Rightarrow> utext \<Rightarrow> utext option" where
  "redact_keys [] out = Some out"
| "redact_keys (key # keys) out = (case redact_loop key out 0 of None \<Rightarrow> None | Some out' \<Rightarrow> redact_keys keys out')"

definition redact_sensitive_params :: "utext \<Rightarrow> utext option" where
  "redact_sensitive_params url = redact_keys SENSITIVE_PARAMS url"

definition mask_email :: "utext \<Rightarrow> utext" where
  "mask_email addr =
     (if 64 \<in> set addr
      then (let local_part = takeWhile (\<lambda>c. c \<noteq> 64) addr; domain = tl (dropWhile (\<lambda>c. c \<noteq> 64) addr)
            in (if local_part = [] then [42] else [hd local_part]) @ uni ''***@'' @ domain)
      else uni ''***'')"

section \<open>Senders\<close>

record email_address =
  ea_address :: utext
  ea_name :: utext

record transactional_email =
  te_to :: email_address
  te_from :: email_address
  te_template :: email_template

datatype email_error = ProviderRejected utext | MailTransport utext | MailConfig utext

datatype log_line = MailNotSent (ll_to: utext) (ll_subject: utext) | ActionUrl (ll_url: utext)

definition log_only_send ::
  "mail_lib \<Rightarrow> utext \<Rightarrow> utext \<Rightarrow> transactional_email \<Rightarrow> (log_line list \<times> (email_error + utext)) option" where
  "log_only_send L site_name fresh_id email =
     (let rendered = render_mail L site_name (te_template email);
          line = MailNotSent (mask_email (ea_address (te_to email))) (re_subject rendered);
          answer = Ok (uni ''log-only-'' @ fresh_id)
      in case primary_url (te_template email) of
           None \<Rightarrow> Some ([line], answer)
         | Some url \<Rightarrow>
            (case redact_sensitive_params url of
               None \<Rightarrow> None
             | Some safe \<Rightarrow> Some ([line, ActionUrl safe], answer)))"

definition memory_send :: "transactional_email \<Rightarrow> transactional_email list \<Rightarrow> (email_error + utext) \<times> transactional_email list" where
  "memory_send email q = (Ok (uni ''memory-'' @ num_text (length q)), q @ [email])"

record resend_request =
  rr_authorization :: utext
  rr_from :: utext
  rr_to :: "utext list"
  rr_subject :: utext
  rr_text :: utext
  rr_html :: utext
  rr_headers :: "(string \<times> utext) list option"

record resend_reply =
  rp_success :: bool
  rp_status_text :: utext
  rp_body :: "utext + 8 word list"

record resend_lib =
  rs_net :: "resend_request \<Rightarrow> utext + resend_reply"
  rs_lossy :: "8 word list \<Rightarrow> utext"
  rs_message_id :: "8 word list \<Rightarrow> utext + utext"

definition resend_request_of :: "mail_lib \<Rightarrow> utext \<Rightarrow> utext \<Rightarrow> transactional_email \<Rightarrow> resend_request" where
  "resend_request_of L api_key site_name email =
     (let rendered = render_mail L site_name (te_template email);
          sender = te_from email
      in \<lparr>rr_authorization = uni ''Bearer '' @ api_key,
          rr_from = (if ea_name sender = [] then ea_address sender
                     else ea_name sender @ uni '' <'' @ ea_address sender @ uni ''>''),
          rr_to = [ea_address (te_to email)],
          rr_subject = re_subject rendered,
          rr_text = re_text_body rendered,
          rr_html = re_html_body rendered,
          rr_headers = map_option (\<lambda>url. [(''List-Unsubscribe'', uni ''<'' @ url @ uni ''>''),
            (''List-Unsubscribe-Post'', uni ''List-Unsubscribe=One-Click'')]) (list_unsubscribe_url (te_template email))\<rparr>)"

definition resend_send ::
  "mail_lib \<Rightarrow> resend_lib \<Rightarrow> utext \<Rightarrow> utext \<Rightarrow> transactional_email \<Rightarrow> resend_request \<times> (email_error + utext)" where
  "resend_send L R api_key site_name email =
     (let req = resend_request_of L api_key site_name email
      in (req,
        case rs_net R req of
          Inl e \<Rightarrow> Err (MailTransport e)
        | Inr reply \<Rightarrow>
           (case rp_body reply of
              Inl e \<Rightarrow> Err (MailTransport (uni ''read body: '' @ e))
            | Inr body \<Rightarrow>
               if \<not> rp_success reply then Err (ProviderRejected (rp_status_text reply @ uni '': '' @ rs_lossy R body))
               else (case rs_message_id R body of
                       Inl e \<Rightarrow> Err (MailTransport (uni ''parse body: '' @ e))
                     | Inr k \<Rightarrow> Ok k))))"

record transactional_email_config =
  tc_provider :: utext
  tc_from_name :: utext
  tc_from_address :: utext
  tc_resend_api_key :: utext

definition default_email_config :: transactional_email_config where
  "default_email_config = \<lparr>tc_provider = uni ''log'', tc_from_name = uni ''Statuspage'',
     tc_from_address = uni ''no-reply@example.invalid'', tc_resend_api_key = []\<rparr>"

datatype email_sender = ResendSender utext utext | LogOnlySender utext | InMemorySender

definition build_email_sender :: "transactional_email_config \<Rightarrow> email_error + email_sender" where
  "build_email_sender cfg =
     (if tc_provider cfg = uni ''resend'' then
        (if list_all is_white (tc_resend_api_key cfg)
         then Err (MailConfig (uni ''email.resend.api_key is required when provider = \"resend\"''))
         else Ok (ResendSender (tc_resend_api_key cfg) (tc_from_name cfg)))
      else if tc_provider cfg = uni ''log'' then Ok (LogOnlySender (tc_from_name cfg))
      else if tc_provider cfg = uni ''memory'' then Ok InMemorySender
      else Err (MailConfig (uni ''unknown email provider: '' @ tc_provider cfg)))"

section \<open>The markup of a mail\<close>

text \<open>
  The markup of a document: its tags with the text between them and the values
  of quoted attributes left out.
\<close>

datatype html_state = InText | InTag | InQuote

fun html_step :: "html_state \<Rightarrow> nat \<Rightarrow> html_state" where
  "html_step InText c = (if c = 60 then InTag else InText)"
| "html_step InTag c = (if c = 62 then InText else if c = 34 then InQuote else InTag)"
| "html_step InQuote c = (if c = 34 then InTag else InQuote)"

fun html_emit :: "html_state \<Rightarrow> nat \<Rightarrow> utext" where
  "html_emit InText c = (if c = 60 then [c] else [])"
| "html_emit InTag c = [c]"
| "html_emit InQuote c = (if c = 34 then [c] else [])"

fun scan :: "html_state \<Rightarrow> utext \<Rightarrow> utext" where
  "scan st [] = []"
| "scan st (c # s) = html_emit st c @ scan (html_step st c) s"

definition skeleton :: "utext \<Rightarrow> utext" where
  "skeleton doc = scan InText doc"

lemma html_escape_simps: "html_escape [] = []" "html_escape (c # s) = html_escape_char c @ html_escape s"
  by (simp_all add: html_escape_def)

lemma scan_inert:
  assumes "60 \<notin> set s" "34 \<notin> set s"
  shows "scan InText (s @ t) = scan InText t" "scan InQuote (s @ t) = scan InQuote t"
  using assms by (induction s) auto

lemma html_escape_inert: "60 \<notin> set (html_escape s)" "34 \<notin> set (html_escape s)"
  by (induction s) (auto simp: html_escape_simps html_escape_char_def)

lemma num_text_inert: "60 \<notin> set (num_text n)" "34 \<notin> set (num_text n)"
  by (auto dest: num_text_digits)

lemmas scan_holes = scan_inert [OF html_escape_inert] scan_inert [OF num_text_inert]

definition blank :: "email_template \<Rightarrow> email_template" where
  "blank t =
     (case t of
        Invitation _ _ _ _ _ \<Rightarrow> Invitation [] [] [] [] 0
      | MagicLink _ _ ip \<Rightarrow> MagicLink [] 0 (map_option (\<lambda>_. []) ip)
      | AccountDeletion _ \<Rightarrow> AccountDeletion 0
      | ChannelVerification _ _ _ org decline \<Rightarrow> ChannelVerification [] [] 0 (map_option (\<lambda>_. []) org) (map_option (\<lambda>_. []) decline)
      | IncidentAlert _ org stop \<Rightarrow> IncidentAlert [] (map_option (\<lambda>_. []) org) (map_option (\<lambda>_. []) stop)
      | SubscriberConfirm _ _ _ _ \<Rightarrow> SubscriberConfirm [] [] 0 []
      | SubscriberIncident _ _ _ _ _ _ \<Rightarrow> SubscriberIncident [] [] [] [] [] []
      | SubscriberMaintenance _ _ desc _ _ _ _ _ \<Rightarrow> SubscriberMaintenance [] [] (map_option (\<lambda>_. []) desc) [] 0 0 [] [])"

lemmas render_defs = render_invitation_def render_magic_link_def render_account_deletion_def render_channel_verification_def
  render_incident_alert_def render_subscriber_confirm_def render_subscriber_incident_def render_subscriber_maintenance_def
  html_open_def html_close_def html_button_def footer_open_def unsubscribe_footer_def attr_escape_def nl_def em_dash_def

text \<open>
  C26: No text reaches the markup of a mail.  Whatever the names, titles,
  messages and links in a template are, the tags of the HTML body, with the
  values of their attributes left out, are those of the same template with
  every text empty.
\<close>

theorem mail_markup_fixed:
  "skeleton (re_html_body (render_mail L site t)) = skeleton (re_html_body (render_mail L [] (blank t)))"
  by (cases t) (simp_all add: blank_def skeleton_def render_defs Let_def if_some_def scan_holes split: option.split)

section \<open>The redaction ends\<close>

lemma find_text_Some:
  "find_text key s = Some r \<Longrightarrow> r + length key \<le> length s \<and> take (length key) (drop r s) = key"
proof (induction s arbitrary: r)
  case (Cons c s)
  then show ?case by (cases "take (length key) (c # s) = key") (auto dest: arg_cong [of _ _ length])
qed (simp split: if_splits)

lemma find_text_occurs: "find_text key (u @ key @ t) \<noteq> None \<and> the (find_text key (u @ key @ t)) \<le> length u"
proof (induction u)
  case Nil
  then show ?case by (cases "key @ t") (auto dest: arg_cong [of _ _ "take (length key)"])
qed auto

lemma find_text_first: "find_text key s = Some r \<Longrightarrow> s = u @ key @ t \<Longrightarrow> r \<le> length u"
  using find_text_occurs [of key u t] by simp

lemma find_text_None: "find_text key s = None \<Longrightarrow> s \<noteq> u @ key @ t"
  using find_text_occurs [of key u t] by auto

text \<open>One round of the loop: the next text and position, or nothing when no further key is found.\<close>

definition redact_step :: "utext \<Rightarrow> utext \<Rightarrow> nat \<Rightarrow> (utext \<times> nat) option" where
  "redact_step key out from =
     (case find_text key (drop from out) of
        None \<Rightarrow> None
      | Some rel \<Rightarrow>
         (let k = from + rel; vstart = k + length key + 1; value = takeWhile in_value (drop vstart out)
          in Some (if (k = 0 \<or> out ! (k - 1) = 63 \<or> out ! (k - 1) = 38) \<and> k + length key < length out \<and>
                      out ! (k + length key) = 61 \<and> byte_len value > 6
                   then (take vstart out @ (take 6 value @ [8230]) @ drop (vstart + length value) out,
                         vstart + length (take 6 value @ [8230]))
                   else (out, k + length key))))"

lemma redact_loop_step:
  "redact_loop key out from = (case redact_step key out from of None \<Rightarrow> Some out | Some (o', f') \<Rightarrow> redact_loop key o' f')"
  by (subst redact_loop.simps) (auto simp: redact_step_def Let_def split: option.split)

lemma redact_step_progress:
  assumes "key \<noteq> []" "redact_step key out from = Some (o', f')"
  shows "length o' - f' < length out - from"
proof -
  obtain rel where find: "find_text key (drop from out) = Some rel"
    using assms(2) by (auto simp: redact_step_def split: option.splits)
  obtain n where n: "length key = Suc n" using assms(1) by (cases key) auto
  moreover have "rel + length key \<le> length out - from" using find_text_Some [OF find] by simp
  ultimately have fits: "from + rel + length key \<le> length out" by linarith
  let ?v = "takeWhile in_value (drop (from + rel + length key + 1) out)"
  have "length ?v \<le> length out - (from + rel + length key + 1)"
    using length_takeWhile_le [of in_value "drop (from + rel + length key + 1) out"] by simp
  with n fits assms(2) find show ?thesis
    by (auto simp: redact_step_def Let_def split: if_splits)
qed

lemma redact_loop_invariant:
  assumes key: "key \<noteq> []" and start: "I out pos"
    and step: "\<And>o1 f1 o2 f2. I o1 f1 \<Longrightarrow> redact_step key o1 f1 = Some (o2, f2) \<Longrightarrow> I o2 f2"
  shows "\<exists>res f. redact_loop key out pos = Some res \<and> I res f \<and> redact_step key res f = None"
  using start
proof (induction "length out - pos" arbitrary: out pos rule: less_induct)
  case less
  show ?case
  proof (cases "redact_step key out pos")
    case None
    then show ?thesis using less.prems by (auto simp: redact_loop_step [of key out pos])
  next
    case (Some st)
    obtain o' f' where st: "st = (o', f')" by force
    from less.hyps [OF redact_step_progress [OF key Some [unfolded st]] step [OF less.prems Some [unfolded st]]]
    show ?thesis by (simp add: redact_loop_step [of key out pos] Some st)
  qed
qed

lemma redact_keys_total: "[] \<notin> set keys \<Longrightarrow> \<exists>out. redact_keys keys url = Some out"
proof (induction keys arbitrary: url)
  case (Cons key keys)
  then obtain res where "redact_loop key url 0 = Some res"
    using redact_loop_invariant [of key "\<lambda>_ _. True" url 0] by auto
  with Cons show ?case by simp
qed simp

text \<open>
  The redaction of a link ends.  The loop over the occurrences of a key may
  make the text longer, when a value of few letters has many bytes, but it
  never looks at a replaced part again, so the redaction returns for every
  text.
\<close>

theorem redaction_terminates: "\<exists>out. redact_sensitive_params url = Some out"
  using redact_keys_total [of SENSITIVE_PARAMS url] by (simp add: redact_sensitive_params_def SENSITIVE_PARAMS_def)

section \<open>No credential is logged\<close>

definition query_key :: "utext \<Rightarrow> utext \<Rightarrow> utext \<Rightarrow> utext \<Rightarrow> bool" where
  "query_key key out a b \<longleftrightarrow> out = a @ key @ 61 # b \<and> (a = [] \<or> last a = 63 \<or> last a = 38)"

definition plain_key :: "utext \<Rightarrow> bool" where
  "plain_key key \<longleftrightarrow> 4 \<le> length key \<and> set key \<inter> {38, 61, 63, 8230} = {}"

lemma sensitive_plain: "key \<in> set SENSITIVE_PARAMS \<Longrightarrow> plain_key key"
  by (auto simp: SENSITIVE_PARAMS_def plain_key_def)

lemma byte_len_bounds: "length s \<le> byte_len s" "byte_len s \<le> 4 * length s"
  by (induction s) (auto simp: byte_len_def utf8_width_def)

lemma takeWhile_stopped:
  "\<forall>x \<in> set v. P x \<Longrightarrow> q = [] \<or> \<not> P (hd q) \<Longrightarrow> takeWhile P (v @ q) = v"
  by (cases q) (auto simp: takeWhile_append2)

lemma append_overlap:
  assumes "x @ y = z @ t"
  obtains (behind) us where "x = z @ us" "t = us @ y" | (ahead) us where "z = x @ us" "y = us @ t" "us \<noteq> []"
  using assms by (fastforce simp: append_eq_append_conv2)

lemma between_keys:
  assumes key2: "plain_key key2" and pre: "p = [] \<or> last p = 63 \<or> last p = 38"
    and eq: "p @ key2 @ [61] = (a @ key1 @ [61]) @ us" and us: "us \<noteq> []"
  shows "\<exists>us'. p = (a @ key1 @ [61]) @ us' \<and> us = us' @ key2 @ [61] \<and> us' \<noteq> []"
proof -
  obtain us0 where us0: "us = us0 @ [61]" using us eq by (cases us rule: rev_cases) auto
  with eq have eq': "p @ key2 = (a @ key1 @ [61]) @ us0" by simp
  from eq' show ?thesis
  proof (cases rule: append_overlap)
    case (behind us')
    then have "us' \<noteq> []" using pre by (cases us' rule: rev_cases) auto
    with behind us0 show ?thesis by simp
  next
    case (ahead c)
    then have "last c = 61" by (metis last_append last_snoc append.assoc)
    then have "61 \<in> set key2" using ahead by (metis UnCI last_in_set set_append)
    then show ?thesis using key2 by (simp add: plain_key_def)
  qed
qed

lemma after_dots:
  assumes key1: "plain_key key1" and a: "a = [] \<or> last a = 63 \<or> last a = 38"
    and eq: "a @ key1 @ [61] = (X @ [8230]) @ us2"
  shows "\<exists>us3. a = (X @ [8230]) @ us3 \<and> us2 = us3 @ key1 @ [61] \<and> us3 \<noteq> []"
proof -
  from eq show ?thesis
  proof (cases rule: append_overlap)
    case (behind us3)
    then have "us3 \<noteq> []" using a by (cases us3 rule: rev_cases) auto
    with behind show ?thesis by blast
  next
    case (ahead c)
    then have "last c = 8230" by (metis last_append last_snoc)
    then have "8230 \<in> set (key1 @ [61])" using ahead by (metis UnCI last_in_set set_append)
    then show ?thesis using key1 by (simp add: plain_key_def)
  qed
qed

text \<open>
  Replacing one value makes no other value long: every occurrence of a key in
  the new text has a short value or comes from one in the old text.
\<close>

lemma replaced_value_occurrences:
  assumes key1: "plain_key key1" and key2: "plain_key key2"
    and pre: "p = [] \<or> last p = 63 \<or> last p = 38"
    and v: "\<forall>x \<in> set v. in_value x" "6 < byte_len v" and q: "q = [] \<or> \<not> in_value (hd q)"
    and occ: "query_key key1 (p @ key2 @ 61 # (take 6 v @ [8230]) @ q) a b"
  shows "length (takeWhile in_value b) \<le> 7 \<or>
    (\<exists>a0 b0. query_key key1 (p @ key2 @ 61 # v @ q) a0 b0 \<and>
      (length (takeWhile in_value b0) \<le> 7 \<longrightarrow> length (takeWhile in_value b) \<le> 7) \<and>
      (a0 = a \<and> length a < length p \<or> length p + length key2 + 1 + length (take 6 v @ [8230]) \<le> length a))"
proof -
  let ?w = "take 6 v @ [8230]" and ?X = "p @ key2 @ [61]" and ?Y = "a @ key1 @ [61]"
  have eq: "?X @ ?w @ q = ?Y @ b" and a: "a = [] \<or> last a = 63 \<or> last a = 38"
    using occ by (simp_all add: query_key_def)
  have "2 \<le> length v" using v(2) byte_len_bounds(2) [of v] by linarith
  have w: "length ?w \<le> 7" "\<forall>x \<in> set ?w. in_value x"
    using v(1) by (auto simp: in_value_def is_white_def dest: in_set_takeD)
  from eq show ?thesis
  proof (cases rule: append_overlap)
    case (behind us)
    note 1 = this
    have old: "query_key key1 (p @ key2 @ 61 # v @ q) a (us @ v @ q)"
      using 1(1) a by (auto simp: query_key_def dest: arg_cong [of _ _ "\<lambda>x. x @ v @ q"])
    show ?thesis
    proof (cases "us = []")
      case True
      then have "takeWhile in_value b = ?w" using takeWhile_stopped [OF w(2) q] 1(2) by simp
      then show ?thesis using w(1) by simp
    next
      case False
      obtain us' where us: "p = ?Y @ us'" "us = us' @ key2 @ [61]" "us' \<noteq> []"
        using between_keys [OF key2 pre 1(1) False] by blast
      then have "6 \<le> length us" "length a < length p"
        using key2 by (cases us'; simp add: plain_key_def)+
      have "length (takeWhile in_value b) \<le> 7" if short: "length (takeWhile in_value (us @ v @ q)) \<le> 7"
      proof (cases "\<forall>x \<in> set us. in_value x")
        case True
        then have "takeWhile in_value (us @ v @ q) = us @ v" "takeWhile in_value b = us @ ?w"
          using takeWhile_stopped [of "us @ v" in_value q] takeWhile_stopped [of "us @ ?w" in_value q] v(1) w(2) q 1(2) by auto
        with short \<open>6 \<le> length us\<close> \<open>2 \<le> length v\<close> show ?thesis by simp
      next
        case False
        then show ?thesis using short 1(2) by (auto simp: takeWhile_append1)
      qed
      with old \<open>length a < length p\<close> show ?thesis by blast
    qed
  next
    case (ahead us)
    from ahead(2) show ?thesis
    proof (cases rule: append_overlap)
      case (behind ws)
      note 1 = this
      then have "takeWhile in_value b = ws" using takeWhile_stopped [of ws in_value q] w(2) q by simp
      moreover have "length ws \<le> 7" using 1(1) w(1) by (metis length_append le_add2 le_trans)
      ultimately show ?thesis by simp
    next
      case (ahead us2)
      note 2 = this
      obtain us3 where us3: "a = (?X @ ?w) @ us3" "us2 = us3 @ key1 @ [61]" "us3 \<noteq> []"
        using after_dots [of key1 a "?X @ take 6 v" us2] key1 a 2(1) \<open>?Y = ?X @ us\<close> by auto
      then have "query_key key1 (p @ key2 @ 61 # v @ q) (?X @ v @ us3) b"
        using a 2(2) by (simp add: query_key_def)
      moreover have "length p + length key2 + 1 + length ?w \<le> length a" using us3(1) by simp
      ultimately show ?thesis by blast
    qed
  qed
qed

lemma inside_key:
  assumes "out = p @ key @ t" "query_key key out a b" "length p \<le> length a" "length a < length p + length key"
  shows "a = p \<or> (\<exists>c. a = p @ c \<and> c \<noteq> [] \<and> set c \<subseteq> set key)"
proof -
  have "take (length a) (p @ key @ t) = a" using assms(1,2) by (simp add: query_key_def)
  then have "a = p @ take (length a - length p) key" using assms(3,4) by simp
  then show ?thesis by (metis append_Nil2 set_take_subset)
qed

lemma redact_step_cases:
  assumes step: "redact_step key out pos = Some (o', f')" and key: "plain_key key"
  obtains (cut) p v q where "out = p @ key @ 61 # v @ q" "p = [] \<or> last p = 63 \<or> last p = 38"
      "\<forall>x \<in> set v. in_value x" "q = [] \<or> \<not> in_value (hd q)" "6 < byte_len v"
      "o' = p @ key @ 61 # (take 6 v @ [8230]) @ q" "f' = length p + length key + 1 + length (take 6 v @ [8230])"
      "\<forall>a b. query_key key out a b \<longrightarrow> pos \<le> length a \<longrightarrow> length p \<le> length a"
  | (keep) p t where "out = p @ key @ t" "o' = out" "f' = length p + length key"
      "\<forall>b. query_key key out p b \<longrightarrow> byte_len (takeWhile in_value b) \<le> 6"
      "\<forall>a b. query_key key out a b \<longrightarrow> pos \<le> length a \<longrightarrow> length p \<le> length a"
proof -
  obtain rel where find: "find_text key (drop pos out) = Some rel"
    using step by (auto simp: redact_step_def split: option.splits)
  define k where "k = pos + rel"
  define p t where "p = take k out" and "t = drop (k + length key) out"
  have "0 < length key" "rel + length key \<le> length out - pos" and found: "take (length key) (drop k out) = key"
    using find_text_Some [OF find] key by (auto simp: k_def plain_key_def add.commute)
  then have "k \<le> length out" unfolding k_def by linarith
  then have p: "length p = k" "out = p @ key @ t"
    unfolding p_def t_def by (simp, metis append_take_drop_id drop_drop add.commute found)
  then have p: "out = p @ key @ t" "length p = k" by simp_all
  have first: "length p \<le> length a" if "query_key key out a b" "pos \<le> length a" for a b
    using find_text_first [OF find, of "drop pos a" "61 # b"] that by (simp add: query_key_def p(2) k_def)
  define v q where "v = takeWhile in_value (tl t)" and "q = dropWhile in_value (tl t)"
  have pre: "(k = 0 \<or> out ! (k - 1) = 63 \<or> out ! (k - 1) = 38) \<longleftrightarrow> (p = [] \<or> last p = 63 \<or> last p = 38)"
    using p by (cases p rule: rev_cases) (auto simp: nth_append)
  have eq: "k + length key < length out \<and> out ! (k + length key) = 61 \<longleftrightarrow> (\<exists>b. t = 61 # b)"
    using p by (cases t) (auto simp: nth_append)
  have val: "takeWhile in_value (drop (k + length key + 1) out) = v"
    using p by (simp add: v_def drop_Suc flip: tl_drop)
  have cond: "((k = 0 \<or> out ! (k - 1) = 63 \<or> out ! (k - 1) = 38) \<and> k + length key < length out \<and> out ! (k + length key) = 61 \<and>
      byte_len v > 6) = ((p = [] \<or> last p = 63 \<or> last p = 38) \<and> (\<exists>b. t = 61 # b) \<and> byte_len v > 6)"
    using pre eq by blast
  have res: "(if (p = [] \<or> last p = 63 \<or> last p = 38) \<and> (\<exists>b. t = 61 # b) \<and> byte_len v > 6
      then (take (k + length key + 1) out @ (take 6 v @ [8230]) @ drop (k + length key + 1 + length v) out,
            k + length key + 1 + length (take 6 v @ [8230]))
      else (out, k + length key)) = (o', f')"
    using step unfolding redact_step_def find option.case Let_def k_def [symmetric] val cond option.inject .
  show thesis
  proof (cases "(p = [] \<or> last p = 63 \<or> last p = 38) \<and> (\<exists>b. t = 61 # b) \<and> byte_len v > 6")
    case True
    then have t: "t = 61 # v @ q" by (auto simp: v_def q_def)
    have "o' = take (k + length key + 1) out @ (take 6 v @ [8230]) @ drop (k + length key + 1 + length v) out"
      "f' = k + length key + 1 + length (take 6 v @ [8230])"
      using res unfolding if_P [OF True] by blast+
    moreover have "q = [] \<or> \<not> in_value (hd q)" by (metis q_def hd_dropWhile)
    moreover have "\<forall>x \<in> set v. in_value x" by (auto simp: v_def dest: set_takeWhileD)
    ultimately show thesis using cut [of p v q] p t True first by auto
  next
    case False
    then have "o' = out \<and> f' = k + length key"
      using res unfolding if_not_P [OF False] by blast
    moreover have "byte_len (takeWhile in_value b) \<le> 6" if "query_key key out p b" for b
      using that False p by (auto simp: query_key_def v_def)
    ultimately show thesis using keep [of p t] p first by auto
  qed
qed

definition short_before :: "utext \<Rightarrow> utext \<Rightarrow> nat \<Rightarrow> bool" where
  "short_before key out n \<longleftrightarrow> (\<forall>a b. query_key key out a b \<longrightarrow> length a < n \<longrightarrow> length (takeWhile in_value b) \<le> 7)"

definition short_values :: "utext \<Rightarrow> utext \<Rightarrow> bool" where
  "short_values key out \<longleftrightarrow> (\<forall>a b. query_key key out a b \<longrightarrow> length (takeWhile in_value b) \<le> 7)"

lemma redact_step_advances:
  assumes key: "plain_key key" and before: "short_before key out pos" and step: "redact_step key out pos = Some (o', f')"
  shows "short_before key o' f'"
  using step key
proof (cases rule: redact_step_cases)
  case (cut p v q)
  show ?thesis
    unfolding short_before_def
  proof (intro allI impI)
    fix a b assume occ: "query_key key o' a b" and "length a < f'"
    with replaced_value_occurrences [OF key key cut(2,3,5,4) occ [unfolded cut(6)]] cut(7)
    consider "length (takeWhile in_value b) \<le> 7"
      | b0 where "query_key key out a b0" "length (takeWhile in_value b0) \<le> 7 \<longrightarrow> length (takeWhile in_value b) \<le> 7" "length a < length p"
      unfolding cut(1) by fastforce
    then show "length (takeWhile in_value b) \<le> 7"
    proof cases
      case 2
      then have "length a < pos" using cut(8) by (meson leD not_le)
      with before 2 show ?thesis by (auto simp: short_before_def)
    qed
  qed
next
  case (keep p t)
  show ?thesis
    unfolding short_before_def
  proof (intro allI impI)
    fix a b assume "query_key key o' a b" "length a < f'"
    then have occ: "query_key key out a b" "length a < length p + length key" using keep by simp_all
    then consider "length a < pos" | "a = p" | c where "a = p @ c" "c \<noteq> []" "set c \<subseteq> set key"
      using inside_key [of out p key t a b] keep(1,5) by (metis leI)
    then show "length (takeWhile in_value b) \<le> 7"
    proof cases
      case 1
      with before occ show ?thesis by (simp add: short_before_def)
    next
      case 2
      with keep(4) occ byte_len_bounds(1) [of "takeWhile in_value b"] show ?thesis by fastforce
    next
      case (3 c)
      then have "last a \<in> set key" by auto
      with occ(1) 3 key show ?thesis by (auto simp: query_key_def plain_key_def)
    qed
  qed
qed

lemma redact_step_keeps_short:
  assumes "plain_key key" "plain_key key2" "short_values key out" "redact_step key2 out pos = Some (o', f')"
  shows "short_values key o'"
  using assms(4,2)
proof (cases rule: redact_step_cases)
  case (cut p v q)
  show ?thesis
    using replaced_value_occurrences [OF assms(1,2) cut(2,3,5,4)] assms(3)
    unfolding short_values_def cut(1,6) by meson
next
  case (keep p t)
  then show ?thesis using assms(3) by simp
qed

lemma redact_loop_short:
  assumes key: "plain_key key" "redact_loop key out 0 = Some res"
  shows "short_values key res" and "\<lbrakk>plain_key key1; short_values key1 out\<rbrakk> \<Longrightarrow> short_values key1 res"
proof -
  have "key \<noteq> []" using key(1) by (auto simp: plain_key_def)
  note inv = redact_loop_invariant [OF this]
  have "short_before key out 0" by (simp add: short_before_def)
  then have "\<exists>r f. redact_loop key out 0 = Some r \<and> short_before key r f \<and> redact_step key r f = None"
    by (rule inv) (rule redact_step_advances [OF key(1)])
  with key(2) obtain f where f: "short_before key res f" "redact_step key res f = None" by auto
  then have "find_text key (drop f res) = None" by (simp add: redact_step_def Let_def split: option.splits)
  then have "length a < f" if "query_key key res a b" for a b
    using find_text_None [of key "drop f res" "drop f a" "61 # b"] that by (cases "length a < f") (simp_all add: query_key_def)
  with f(1) show "short_values key res" by (auto simp: short_values_def short_before_def)
  show "short_values key1 res" if "plain_key key1" "short_values key1 out"
  proof -
    have "\<exists>r f. redact_loop key out 0 = Some r \<and> short_values key1 r \<and> redact_step key r f = None"
      using that(2) by (rule inv) (rule redact_step_keeps_short [OF that(1) key(1)])
    with key(2) show ?thesis by simp
  qed
qed

lemma redact_keys_short:
  assumes "redact_keys keys out = Some res" "\<forall>key \<in> set keys. plain_key key"
    and "key1 \<in> set keys \<or> plain_key key1 \<and> short_values key1 out"
  shows "short_values key1 res"
  using assms
proof (induction keys arbitrary: out)
  case (Cons key keys)
  then obtain mid where mid: "redact_loop key out 0 = Some mid" "redact_keys keys mid = Some res"
    by (auto split: option.splits)
  have "plain_key key" "plain_key key1" using Cons.prems(2,3) by auto
  note short = redact_loop_short [OF this(1) mid(1)]
  show ?case
  proof (rule Cons.IH [OF mid(2)])
    show "key1 \<in> set keys \<or> plain_key key1 \<and> short_values key1 mid"
      using Cons.prems(3) short \<open>plain_key key1\<close> by auto
  qed (use Cons.prems(2) in auto)
qed simp

text \<open>
  C27: No credential of a link is logged.  The redaction of any link returns, and
  in the text it returns every sensitive parameter, at the start or after a
  question mark or an ampersand, has a value of at most seven characters up to
  the next ampersand or white space: six of the original and a mark.
\<close>

theorem no_credential_logged:
  "\<exists>out. redact_sensitive_params url = Some out \<and>
     (\<forall>key \<in> set SENSITIVE_PARAMS. \<forall>a b. out = a @ key @ 61 # b \<longrightarrow> (a = [] \<or> last a = 63 \<or> last a = 38) \<longrightarrow>
        length (takeWhile (\<lambda>c. \<not> (c = 38 \<or> is_white c)) b) \<le> 7)"
proof -
  obtain out where out: "redact_keys SENSITIVE_PARAMS url = Some out"
    using redact_keys_total [of SENSITIVE_PARAMS url] by (auto simp: SENSITIVE_PARAMS_def)
  have "short_values key out" if "key \<in> set SENSITIVE_PARAMS" for key
    using redact_keys_short [OF out, of key] that sensitive_plain by blast
  then show ?thesis
    using out by (auto simp: redact_sensitive_params_def short_values_def query_key_def in_value_def [abs_def])
qed

theorem no_credential_logged_witness:
  "\<exists>out. redact_sensitive_params (uni ''https://x.org/?token=abcdefghij&state=12'') = Some out \<and>
     (\<forall>a b. out = a @ uni ''token'' @ 61 # b \<longrightarrow> (a = [] \<or> last a = 63 \<or> last a = 38) \<longrightarrow>
        length (takeWhile (\<lambda>c. \<not> (c = 38 \<or> is_white c)) b) \<le> 7)"
proof -
  have "uni ''token'' \<in> set SENSITIVE_PARAMS" by (simp add: SENSITIVE_PARAMS_def)
  with no_credential_logged [of "uni ''https://x.org/?token=abcdefghij&state=12''"] show ?thesis by blast
qed

end
