(* ===== verification/Outbound.thy ===== *)
theory Outbound
  imports Mail_Senders Ssrf
begin

text \<open>
  Outbound traffic: the connector that resolves a host, drops the addresses the
  guard blocks and races the rest (\<open>security/outbound_connector.rs\<close>,
  \<open>net/happy_eyeballs.rs\<close>), and the HTTP helpers over the client built on it
  (\<open>http_client/outbound.rs\<close>).  The resolver, the outcome of a connection
  attempt, the answers of a server, validity of header texts and the JSON
  library are arguments or events.
\<close>

section \<open>The connector\<close>

record socket_addr =
  sa_ip :: ip_addr
  sa_port :: nat

record request_uri =
  uri_host :: "string option"
  uri_scheme :: "string option"
  uri_port :: "nat option"

definition unbracket :: "string \<Rightarrow> string" where
  "unbracket host =
     (if host \<noteq> [] \<and> hd host = CHR ''['' \<and> tl host \<noteq> [] \<and> last (tl host) = CHR '']'' then butlast (tl host) else host)"

definition CONNECT_TIMEOUT :: duration where
  "CONNECT_TIMEOUT = seconds 10"

text \<open>An error of the connector: a text, or the refusal that prints the blocked address.\<close>

datatype connect_error = ConnectText string | AddressBlocked ip_addr

definition request_port :: "request_uri \<Rightarrow> nat" where
  "request_port dst =
     (let scheme = (case uri_scheme dst of Some s \<Rightarrow> s | None \<Rightarrow> ''http'')
      in case uri_port dst of Some p \<Rightarrow> p | None \<Rightarrow> if scheme = ''https'' then 443 else 80)"

definition connector_addrs ::
  "ssrf_guard \<Rightarrow> (string \<Rightarrow> nat \<Rightarrow> string + socket_addr list) \<Rightarrow> request_uri \<Rightarrow> connect_error + socket_addr list" where
  "connector_addrs guard lookup_host dst =
     (case uri_host dst of
        None \<Rightarrow> Err (ConnectText ''missing host in URI'')
      | Some raw \<Rightarrow>
         (let host = unbracket raw
          in case lookup_host host (request_port dst) of
               Inl e \<Rightarrow> Err (ConnectText e)
             | Inr resolved \<Rightarrow>
                (case filter_addrs guard host (map sa_ip resolved) of
                   Inl (AllBlocked _) \<Rightarrow> Err (ConnectText (''refusing to connect to '' @ [CHR 0x27] @ host @ [CHR 0x27] @
                     '': every resolved address is in a blocked range (loopback / private / link-local / metadata). Set security.allow_private_targets=true to permit private destinations in development.''))
                 | Inl (BlockedAddress ip) \<Rightarrow> Err (AddressBlocked ip)
                 | Inr allowed \<Rightarrow> Ok (filter (\<lambda>a. sa_ip a \<in> set allowed) resolved))))"

section \<open>The race\<close>

definition STAGGER :: duration where
  "STAGGER = 250 * 1000000"

fun is_ipv6 :: "socket_addr \<Rightarrow> bool" where
  "is_ipv6 a = (case sa_ip a of V6 _ \<Rightarrow> True | V4 _ \<Rightarrow> False)"

fun weave :: "'a list \<Rightarrow> 'a list \<Rightarrow> 'a list" where
  "weave (a # as) (b # bs) = a # b # weave as bs"
| "weave (a # as) [] = a # weave as []"
| "weave [] (b # bs) = b # weave [] bs"
| "weave [] [] = []"

definition interleave_v6_first :: "socket_addr list \<Rightarrow> socket_addr list" where
  "interleave_v6_first addrs = (case partition is_ipv6 addrs of (v6, v4) \<Rightarrow> weave v6 v4)"

text \<open>
  The state of the loop: the addresses not tried yet, the attempts under way,
  the first error, the clock at the head of the loop, and every address an
  attempt was started for.
\<close>

record race =
  ra_iter :: "socket_addr list"
  ra_attempts :: "socket_addr list"
  ra_first_err :: "string option"
  ra_now :: instant
  ra_started :: "socket_addr list"

datatype race_state = Racing race | Connected socket_addr | GaveUp string

definition start_next :: "race \<Rightarrow> race" where
  "start_next r =
     (case ra_iter r of
        [] \<Rightarrow> r
      | a # as \<Rightarrow> r\<lparr>ra_iter := as, ra_attempts := ra_attempts r @ [a], ra_started := ra_started r @ [a]\<rparr>)"

definition race_start :: "socket_addr list \<Rightarrow> instant \<Rightarrow> race_state" where
  "race_start addrs now =
     (if addrs = [] then GaveUp ''happy-eyeballs: no addresses to connect''
      else Racing (start_next \<lparr>ra_iter = interleave_v6_first addrs, ra_attempts = [], ra_first_err = None, ra_now = now, ra_started = []\<rparr>))"

definition err_or :: "string \<Rightarrow> race \<Rightarrow> string" where
  "err_or fallback r = (case ra_first_err r of Some e \<Rightarrow> e | None \<Rightarrow> fallback)"

definition remember_err :: "string \<Rightarrow> race \<Rightarrow> race" where
  "remember_err e r = (case ra_first_err r of None \<Rightarrow> r\<lparr>ra_first_err := Some e\<rparr> | Some _ \<Rightarrow> r)"

inductive race_step :: "instant \<Rightarrow> race_state \<Rightarrow> race_state \<Rightarrow> bool" for deadline where
  exhausted: "ra_attempts r = [] \<Longrightarrow> ra_iter r = [] \<Longrightarrow>
     race_step deadline (Racing r) (GaveUp (err_or ''happy-eyeballs: connect failed'' r))"
| timed_out: "\<not> (ra_attempts r = [] \<and> ra_iter r = []) \<Longrightarrow> ra_now r \<ge> deadline \<Longrightarrow>
     race_step deadline (Racing r) (GaveUp (err_or ''happy-eyeballs: overall timeout'' r))"
| won: "ra_now r < deadline \<Longrightarrow> a \<in> set (ra_attempts r) \<Longrightarrow> race_step deadline (Racing r) (Connected a)"
| failed: "ra_now r < deadline \<Longrightarrow> a \<in> set (ra_attempts r) \<Longrightarrow> ra_now r \<le> t \<Longrightarrow>
     race_step deadline (Racing r)
       (Racing ((start_next (remember_err e (r\<lparr>ra_attempts := remove1 a (ra_attempts r)\<rparr>)))\<lparr>ra_now := t\<rparr>))"
| stagger: "ra_now r < deadline \<Longrightarrow> \<not> (ra_attempts r = [] \<and> ra_iter r = []) \<Longrightarrow> min (ra_now r + STAGGER) deadline \<le> t \<Longrightarrow>
     race_step deadline (Racing r) (Racing ((start_next r)\<lparr>ra_now := t\<rparr>))"

inductive_cases race_stepE: "race_step deadline (Racing r) st"
inductive_simps race_step_final: "race_step deadline (Connected a) st" "race_step deadline (GaveUp e) st"

section \<open>HTTP helpers\<close>

definition MAX_RESPONSE_BYTES :: nat where
  "MAX_RESPONSE_BYTES = 2 ^ 20"

definition REQUEST_TIMEOUT :: duration where
  "REQUEST_TIMEOUT = seconds 30"

record http_out =
  ho_method :: string
  ho_url :: utext
  ho_headers :: "(utext \<times> utext) list"
  ho_body :: "8 word list"

text \<open>
  What comes back within the timeout: an error of the client, or the head of a
  response; reading at most \<open>MAX_RESPONSE_BYTES\<close> of its body may fail.
\<close>

record http_head =
  hh_success :: bool
  hh_status :: utext
  hh_body :: "utext + 8 word list"

datatype send_outcome = Answered http_head | SendError utext | Elapsed

record http_lib =
  hl_send :: "http_out \<Rightarrow> send_outcome"
  hl_header_ok :: "utext \<Rightarrow> utext \<Rightarrow> bool"
  hl_lossy :: "8 word list \<Rightarrow> utext"
  hl_json :: "8 word list \<Rightarrow> utext + json"

definition with_request_timeout :: "utext \<Rightarrow> send_outcome \<Rightarrow> utext + http_head" where
  "with_request_timeout url outcome =
     (case outcome of
        Answered h \<Rightarrow> Ok h
      | SendError e \<Rightarrow> Err (uni ''sending request to '' @ url @ uni '': '' @ e)
      | Elapsed \<Rightarrow> Err (uni ''request to '' @ url @ uni '' exceeded 30s''))"

definition body_or_empty :: "http_head \<Rightarrow> 8 word list" where
  "body_or_empty h = (case hh_body h of Inr b \<Rightarrow> b | Inl _ \<Rightarrow> [])"

definition post_bytes_ct ::
  "http_lib \<Rightarrow> utext \<Rightarrow> string \<Rightarrow> 8 word list \<Rightarrow> (utext \<times> utext) list \<Rightarrow> http_out \<times> (utext + unit)" where
  "post_bytes_ct H url content_type payload headers =
     (let req = \<lparr>ho_method = ''POST'', ho_url = url,
            ho_headers = (uni ''content-type'', uni content_type) # filter (\<lambda>(k, v). hl_header_ok H k v) headers,
            ho_body = payload\<rparr>
      in (req,
        case with_request_timeout url (hl_send H req) of
          Inl e \<Rightarrow> Err e
        | Inr h \<Rightarrow>
           if hh_success h then Ok ()
           else Err (uni ''endpoint returned '' @ hh_status h @ uni '': '' @ hl_lossy H (body_or_empty h))))"

definition post_bytes_with_headers ::
  "http_lib \<Rightarrow> utext \<Rightarrow> 8 word list \<Rightarrow> (utext \<times> utext) list \<Rightarrow> http_out \<times> (utext + unit)" where
  "post_bytes_with_headers H url payload headers = post_bytes_ct H url ''application/json'' payload headers"

definition post_form_with_headers ::
  "http_lib \<Rightarrow> utext \<Rightarrow> 8 word list \<Rightarrow> (utext \<times> utext) list \<Rightarrow> http_out \<times> (utext + unit)" where
  "post_form_with_headers H url payload headers = post_bytes_ct H url ''application/x-www-form-urlencoded'' payload headers"

definition post_text :: "http_lib \<Rightarrow> utext \<Rightarrow> 8 word list \<Rightarrow> http_out \<times> (utext + unit)" where
  "post_text H url payload = post_bytes_ct H url ''text/plain'' payload []"

definition post_json_capture :: "http_lib \<Rightarrow> utext \<Rightarrow> 8 word list \<Rightarrow> http_out \<times> (utext + json)" where
  "post_json_capture H url payload =
     (let req = \<lparr>ho_method = ''POST'', ho_url = url,
            ho_headers = [(uni ''content-type'', uni ''application/json''), (uni ''accept'', uni ''application/json'')],
            ho_body = payload\<rparr>
      in (req,
        case with_request_timeout url (hl_send H req) of
          Inl e \<Rightarrow> Err e
        | Inr h \<Rightarrow>
           if \<not> hh_success h
           then Err (uni ''endpoint returned '' @ hh_status h @ uni '': '' @ hl_lossy H (body_or_empty h))
           else (case hl_json H (body_or_empty h) of Inl e \<Rightarrow> Err (url @ uni '': '' @ e) | Inr v \<Rightarrow> Ok v)))"

definition get_request :: "utext \<Rightarrow> (utext \<times> utext) list \<Rightarrow> http_out" where
  "get_request url headers = \<lparr>ho_method = ''GET'', ho_url = url, ho_headers = headers, ho_body = []\<rparr>"

definition get_ok :: "http_lib \<Rightarrow> utext \<Rightarrow> http_out \<times> (utext + unit)" where
  "get_ok H url =
     (let req = get_request url []
      in (req,
        case with_request_timeout url (hl_send H req) of
          Inl e \<Rightarrow> Err e
        | Inr h \<Rightarrow> if hh_success h then Ok () else Err (url @ uni '' returned '' @ hh_status h)))"

fun fit_prefix :: "nat \<Rightarrow> utext \<Rightarrow> utext" where
  "fit_prefix budget [] = []"
| "fit_prefix budget (c # s) = (if utf8_width c > budget then [] else c # fit_prefix (budget - utf8_width c) s)"

definition truncate_bytes :: "utext \<Rightarrow> nat \<Rightarrow> utext" where
  "truncate_bytes s max_bytes =
     (if byte_len s \<le> max_bytes then s else fit_prefix (max_bytes - utf8_width 8230) s @ [8230])"

definition white_trim :: "utext \<Rightarrow> utext" where
  "white_trim s = rev (dropWhile is_white (rev (dropWhile is_white s)))"

fun join_with :: "utext \<Rightarrow> utext list \<Rightarrow> utext" where
  "join_with sep [] = []"
| "join_with sep [x] = x"
| "join_with sep (x # y # ys) = x @ sep @ join_with sep (y # ys)"

fun string_items :: "json list \<Rightarrow> utext list" where
  "string_items [] = []"
| "string_items (JString s # vs) = uni s # string_items vs"
| "string_items (_ # vs) = string_items vs"

fun error_field :: "json option \<Rightarrow> utext option" where
  "error_field (Some (JString s)) = Some (white_trim (uni s))"
| "error_field (Some (JArray items)) =
     Some (join_with (uni ''; '') (filter (\<lambda>s. s \<noteq> []) (map white_trim (string_items items))))"
| "error_field _ = None"

fun first_error_text :: "json \<Rightarrow> string list \<Rightarrow> utext option" where
  "first_error_text v [] = None"
| "first_error_text v (key # keys) =
     (case error_field (json_get v key) of
        None \<Rightarrow> first_error_text v keys
      | Some t \<Rightarrow> if t \<noteq> [] then Some t else first_error_text v keys)"

definition ERROR_BODY_CAP :: nat where
  "ERROR_BODY_CAP = 300"

definition error_body_summary :: "http_lib \<Rightarrow> 8 word list \<Rightarrow> utext" where
  "error_body_summary H bytes =
     (case (case hl_json H bytes of
              Inr v \<Rightarrow> first_error_text v [''description'', ''title'', ''message'', ''error'', ''error_description'']
            | Inl _ \<Rightarrow> None) of
        Some t \<Rightarrow> truncate_bytes t ERROR_BODY_CAP
      | None \<Rightarrow> truncate_bytes (white_trim (hl_lossy H bytes)) ERROR_BODY_CAP)"

definition get_json :: "http_lib \<Rightarrow> utext \<Rightarrow> http_out \<times> (utext + json)" where
  "get_json H url =
     (let req = get_request url [(uni ''accept'', uni ''application/json'')]
      in (req,
        case with_request_timeout url (hl_send H req) of
          Inl e \<Rightarrow> Err e
        | Inr h \<Rightarrow>
           if \<not> hh_success h then
             (let detail = (case hh_body h of
                  Inl _ \<Rightarrow> []
                | Inr b \<Rightarrow> (let summary = error_body_summary H b in if summary = [] then [] else uni '': '' @ summary))
              in Err (url @ uni '' returned '' @ hh_status h @ detail))
           else (case hh_body h of
                   Inl e \<Rightarrow> Err (url @ uni '' body exceeded 1048576 bytes or read failed: '' @ e)
                 | Inr b \<Rightarrow> (case hl_json H b of Inl e \<Rightarrow> Err (url @ uni '': '' @ e) | Inr v \<Rightarrow> Ok v))))"

section \<open>Truncation\<close>

lemma byte_len_simps [simp]: "byte_len [] = 0" "byte_len (c # s) = utf8_width c + byte_len s" "byte_len (s @ t) = byte_len s + byte_len t"
  by (simp_all add: byte_len_def)

lemma fit_prefix_bound: "byte_len (fit_prefix n s) \<le> n"
  by (induction n s rule: fit_prefix.induct) auto

lemma fit_prefix_prefix: "\<exists>t. s = fit_prefix n s @ t"
  by (induction n s rule: fit_prefix.induct) auto

lemma fit_prefix_longest: "fit_prefix n s @ c # t = s \<Longrightarrow> n < byte_len (fit_prefix n s) + utf8_width c"
  by (induction n s rule: fit_prefix.induct) (auto split: if_splits)

lemma truncate_bytes_bound: "3 \<le> m \<Longrightarrow> byte_len (truncate_bytes s m) \<le> m"
  using fit_prefix_bound [of "m - 3" s] by (auto simp: truncate_bytes_def utf8_width_def)

text \<open>
  C29: The error text of a failed request is bounded.  The summary of a response
  body of any size has at most 300 bytes, and when it is cut it is the longest
  prefix of the reason that leaves room for the mark.
\<close>

theorem error_summary_bounded:
  "byte_len (error_body_summary H bytes) \<le> 300 \<and>
   (\<forall>s m. byte_len s > m \<and> 3 \<le> m \<longrightarrow>
      (\<exists>p t. truncate_bytes s m = p @ [8230] \<and> s = p @ t \<and> byte_len p \<le> m - 3 \<and> (\<forall>c r. t = c # r \<longrightarrow> m - 3 < byte_len p + utf8_width c)))"
proof (intro conjI allI impI)
  show "byte_len (error_body_summary H bytes) \<le> 300"
    by (simp add: error_body_summary_def ERROR_BODY_CAP_def truncate_bytes_bound split: option.split)
next
  fix s :: utext and m :: nat
  assume m: "byte_len s > m \<and> 3 \<le> m"
  let ?p = "fit_prefix (m - 3) s"
  obtain t where t: "s = ?p @ t" using fit_prefix_prefix by blast
  have "truncate_bytes s m = ?p @ [8230]" using m by (simp add: truncate_bytes_def utf8_width_def)
  with t fit_prefix_bound [of "m - 3" s] fit_prefix_longest [of "m - 3" s]
  show "\<exists>p t. truncate_bytes s m = p @ [8230] \<and> s = p @ t \<and> byte_len p \<le> m - 3 \<and> (\<forall>c r. t = c # r \<longrightarrow> m - 3 < byte_len p + utf8_width c)"
    by metis
qed

theorem error_summary_bounded_witness:
  "\<exists>p t. truncate_bytes (replicate 10 65) 5 = p @ [8230] \<and> replicate 10 65 = p @ t \<and> byte_len p \<le> 2"
proof -
  have "byte_len (replicate 10 65) > 5 \<and> (3 :: nat) \<le> 5" by (simp add: byte_len_def utf8_width_def sum_list_replicate)
  with error_summary_bounded [of "\<lparr>hl_send = (\<lambda>_. Elapsed), hl_header_ok = (\<lambda>_ _. True), hl_lossy = (\<lambda>_. []), hl_json = (\<lambda>_. Err [])\<rparr>" "[]"]
  have "\<exists>p t. truncate_bytes (replicate 10 65) 5 = p @ [8230] \<and>
      replicate 10 65 = p @ t \<and> byte_len p \<le> 5 - 3" by blast
  then show ?thesis by simp
qed

section \<open>Where the connector goes\<close>

lemma weave_mset: "mset (weave xs ys) = mset xs + mset ys"
  by (induction xs ys rule: weave.induct) auto

lemma weave_set: "set (weave xs ys) = set xs \<union> set ys"
  by (induction xs ys rule: weave.induct) auto

lemma weave_families:
  assumes "\<forall>x \<in> set xs. P x" "\<forall>y \<in> set ys. \<not> P y"
  shows "filter P (weave xs ys) = xs \<and> filter (\<lambda>x. \<not> P x) (weave xs ys) = ys"
  using assms by (induction xs ys rule: weave.induct) auto

lemma weave_turns: "i < length xs \<Longrightarrow> i < length ys \<Longrightarrow> weave xs ys ! (2 * i) = xs ! i \<and> weave xs ys ! (2 * i + 1) = ys ! i"
proof (induction xs ys arbitrary: i rule: weave.induct)
  case (1 a as b bs)
  then show ?case by (cases i) auto
qed simp_all

lemma interleave_set: "set (interleave_v6_first addrs) = set addrs"
  by (auto simp: interleave_v6_first_def weave_set simp del: is_ipv6.simps)

definition race_within :: "socket_addr set \<Rightarrow> race_state \<Rightarrow> bool" where
  "race_within good st \<longleftrightarrow>
     (case st of
        Racing r \<Rightarrow> set (ra_iter r) \<union> set (ra_attempts r) \<union> set (ra_started r) \<subseteq> good
      | Connected a \<Rightarrow> a \<in> good
      | GaveUp _ \<Rightarrow> True)"

lemma start_next_within: "race_within good (Racing r) \<Longrightarrow> race_within good (Racing (start_next r))"
  by (auto simp: race_within_def start_next_def split: list.splits)

lemma race_step_within:
  assumes "race_step deadline st st'" "race_within good st"
  shows "race_within good st'"
  using assms
proof cases
  case (failed r a t e)
  have "race_within good (Racing (remember_err e (r\<lparr>ra_attempts := remove1 a (ra_attempts r)\<rparr>)))"
    using assms(2) failed by (auto simp: race_within_def remember_err_def dest: notin_set_remove1 split: option.splits)
  from start_next_within [OF this] failed show ?thesis by (simp add: race_within_def)
next
  case (stagger r t)
  with assms(2) start_next_within [of good r] show ?thesis by (simp add: race_within_def)
qed (auto simp: race_within_def)

lemma race_start_within: "set addrs \<subseteq> good \<Longrightarrow> race_within good (race_start addrs now)"
  using start_next_within [of good "\<lparr>ra_iter = interleave_v6_first addrs, ra_attempts = [], ra_first_err = None, ra_now = now, ra_started = []\<rparr>"]
  by (auto simp: race_start_def race_within_def interleave_set)

lemma race_run_within:
  "(race_step deadline)\<^sup>*\<^sup>* st st' \<Longrightarrow> race_within good st \<Longrightarrow> race_within good st'"
  by (induction rule: rtranclp_induct) (auto intro: race_step_within)

lemma connector_addrs_allowed:
  assumes "connector_addrs guard lookup_host dst = Ok addrs" "a \<in> set addrs"
  shows "allow guard (sa_ip a) \<and>
    (\<exists>host resolved. uri_host dst = Some host \<and> lookup_host (unbracket host) (request_port dst) = Ok resolved \<and> a \<in> set resolved)"
  using assms
  by (auto simp: connector_addrs_def filter_addrs_def allow_def Let_def split: option.splits sum.splits ssrf_error.splits if_splits)

text \<open>
  C24: The connector opens no connection to a blocked address.  Whatever the
  resolver answers at that moment and however the race goes, every address a
  connection attempt is started for, and the one that wins, was resolved for
  the host of the request and is allowed by the guard; with the strict guard it
  is in no blocked range.
\<close>

theorem connector_contacts_allowed:
  assumes "connector_addrs guard lookup_host dst = Ok addrs"
    and "(race_step deadline)\<^sup>*\<^sup>* (race_start addrs now) st"
  shows "\<forall>a \<in> (case st of Racing r \<Rightarrow> set (ra_started r) | Connected a \<Rightarrow> {a} | GaveUp _ \<Rightarrow> {}).
    allow guard (sa_ip a) \<and> (guard = strict \<longrightarrow> \<not> is_blocked_ip (sa_ip a)) \<and>
    (\<exists>host resolved. uri_host dst = Some host \<and> lookup_host (unbracket host) (request_port dst) = Ok resolved \<and> a \<in> set resolved)"
proof -
  have "race_within (set addrs) st" using race_run_within [OF assms(2)] race_start_within [of addrs "set addrs" now] by simp
  then have "(case st of Racing r \<Rightarrow> set (ra_started r) | Connected a \<Rightarrow> {a} | GaveUp _ \<Rightarrow> {}) \<subseteq> set addrs"
    by (auto simp: race_within_def split: race_state.splits)
  moreover have "\<not> is_blocked_ip (sa_ip a)" if "guard = strict" "allow guard (sa_ip a)" for a
    using that by (simp add: strict_def allow_def)
  ultimately show ?thesis using connector_addrs_allowed [OF assms(1)] by blast
qed

definition sample_lookup :: "string \<Rightarrow> nat \<Rightarrow> string + socket_addr list" where
  "sample_lookup host port =
     Ok [\<lparr>sa_ip = V4 (Ipv4Addr 127 0 0 1), sa_port = port\<rparr>, \<lparr>sa_ip = V4 (Ipv4Addr 93 184 216 34), sa_port = port\<rparr>]"

theorem connector_contacts_allowed_witness:
  "\<not> is_blocked_ip (V4 (Ipv4Addr 93 184 216 34))"
proof -
  let ?dst = "\<lparr>uri_host = Some ''example.org'', uri_scheme = Some ''https'', uri_port = None\<rparr>"
  let ?a = "\<lparr>sa_ip = V4 (Ipv4Addr 93 184 216 34), sa_port = 443\<rparr>"
  have addrs: "connector_addrs strict sample_lookup ?dst = Ok [?a]" by code_simp
  have "race_start [?a] 0 = Racing \<lparr>ra_iter = [], ra_attempts = [?a], ra_first_err = None, ra_now = 0, ra_started = [?a]\<rparr>" by code_simp
  then have "(race_step 1)\<^sup>*\<^sup>* (race_start [?a] 0) (Connected ?a)" by (auto intro!: r_into_rtranclp race_step.won)
  from connector_contacts_allowed [OF addrs this] show ?thesis by simp
qed

section \<open>The race ends\<close>

definition rounds_left :: "instant \<Rightarrow> race \<Rightarrow> nat" where
  "rounds_left deadline r =
     2 * length (ra_iter r) + length (ra_attempts r) + nat ((deadline - ra_now r + STAGGER - 1) div STAGGER)"

lemma start_next_measure:
  "2 * length (ra_iter (start_next r)) + length (ra_attempts (start_next r)) =
     2 * length (ra_iter r) + length (ra_attempts r) - (if ra_iter r = [] then 0 else 1)"
  "ra_now (start_next r) = ra_now r"
  by (auto simp: start_next_def split: list.split)

lemma remember_err_fields [simp]:
  "ra_iter (remember_err e r) = ra_iter r" "ra_attempts (remember_err e r) = ra_attempts r"
  "ra_now (remember_err e r) = ra_now r" "ra_started (remember_err e r) = ra_started r"
  by (auto simp: remember_err_def split: option.split)

lemma rounds_of_time_mono: "now \<le> t \<Longrightarrow> nat ((deadline - t + STAGGER - 1) div STAGGER) \<le> nat ((deadline - now + STAGGER - 1) div STAGGER)"
  by (intro nat_mono zdiv_mono1) (simp_all add: STAGGER_def)

lemma rounds_of_time_less:
  assumes "now < deadline" "min (now + STAGGER) deadline \<le> t"
  shows "nat ((deadline - t + STAGGER - 1) div STAGGER) < nat ((deadline - now + STAGGER - 1) div STAGGER)"
proof -
  have "0 < STAGGER" by (simp add: STAGGER_def)
  have step: "(deadline - now + STAGGER - 1) div STAGGER = (deadline - now - 1) div STAGGER + 1"
    using div_add_self2 [of STAGGER "deadline - now - 1"] \<open>0 < STAGGER\<close> by (simp add: algebra_simps)
  have "0 \<le> (deadline - now - 1) div STAGGER" using assms(1) \<open>0 < STAGGER\<close> by (simp add: pos_imp_zdiv_nonneg_iff)
  moreover have "nat ((deadline - t + STAGGER - 1) div STAGGER) \<le> nat ((deadline - now - 1) div STAGGER)"
  proof (cases "now + STAGGER \<le> t")
    case True
    then show ?thesis using \<open>0 < STAGGER\<close> by (intro nat_mono zdiv_mono1) simp_all
  next
    case False
    then have "deadline \<le> t" using assms(2) by linarith
    then have "(deadline - t + STAGGER - 1) div STAGGER \<le> (STAGGER - 1) div STAGGER"
      using \<open>0 < STAGGER\<close> by (intro zdiv_mono1) simp_all
    then show ?thesis using \<open>0 < STAGGER\<close> by (simp add: div_pos_pos_trivial)
  qed
  ultimately show ?thesis unfolding step by linarith
qed

lemma race_step_progress:
  assumes "race_step deadline (Racing r) (Racing r')"
  shows "rounds_left deadline r' < rounds_left deadline r"
  using assms
proof cases
  case (failed a t e)
  then obtain n where "length (ra_attempts r) = Suc n" by (cases "ra_attempts r") auto
  with failed rounds_of_time_mono [of "ra_now r" t deadline] show ?thesis
    by (auto simp: rounds_left_def start_next_measure length_remove1)
next
  case (stagger t)
  then show ?thesis
    using rounds_of_time_less [of "ra_now r" deadline t] by (auto simp: rounds_left_def start_next_measure)
qed

lemma race_final_steps: "(race_step deadline ^^ k) st0 st \<Longrightarrow> \<forall>r. st0 \<noteq> Racing r \<Longrightarrow> k = 0"
  by (cases k; cases st0) (auto elim!: relpowp_Suc_E2 simp: race_step_final simp del: relpowp.simps)

lemma race_steps_bounded: "(race_step deadline ^^ k) (Racing r) st \<Longrightarrow> k \<le> Suc (rounds_left deadline r)"
proof (induction k arbitrary: r)
  case (Suc k)
  then obtain st1 where first: "race_step deadline (Racing r) st1" and rest: "(race_step deadline ^^ k) st1 st"
    by (meson relpowp_Suc_E2)
  show ?case
  proof (cases st1)
    case (Racing r1)
    with Suc.IH [of r1] race_step_progress [of deadline r r1] first rest show ?thesis by force
  next
    case (Connected a)
    with race_final_steps [OF rest] show ?thesis by simp
  next
    case (GaveUp e)
    with race_final_steps [OF rest] show ?thesis by simp
  qed
qed simp

lemma race_continues: "\<exists>st. race_step deadline (Racing r) st"
proof (cases "ra_attempts r = [] \<and> ra_iter r = []")
  case True
  then show ?thesis by (blast intro: race_step.exhausted)
next
  case False
  show ?thesis
  proof (cases "ra_now r \<ge> deadline")
    case True
    with False show ?thesis by (blast intro: race_step.timed_out)
  next
    case before: False
    show ?thesis using race_step.stagger [OF _ False order.refl] before by (meson not_le)
  qed
qed

definition all_addresses :: "socket_addr list \<Rightarrow> race_state \<Rightarrow> bool" where
  "all_addresses addrs st \<longleftrightarrow> (\<forall>r. st = Racing r \<longrightarrow> set (ra_started r) \<union> set (ra_iter r) = set addrs)"

lemma start_next_addresses: "set (ra_started (start_next r)) \<union> set (ra_iter (start_next r)) = set (ra_started r) \<union> set (ra_iter r)"
  by (auto simp: start_next_def split: list.split)

lemma race_start_addresses: "all_addresses addrs (race_start addrs now)"
  using start_next_addresses [of "\<lparr>ra_iter = interleave_v6_first addrs, ra_attempts = [], ra_first_err = None, ra_now = now, ra_started = []\<rparr>"]
  by (auto simp: all_addresses_def race_start_def interleave_set)

lemma race_step_addresses: "race_step deadline st st' \<Longrightarrow> all_addresses addrs st \<Longrightarrow> all_addresses addrs st'"
  by (induction rule: race_step.induct) (simp_all add: all_addresses_def start_next_addresses)

lemma race_run_addresses: "(race_step deadline ^^ k) st st' \<Longrightarrow> all_addresses addrs st \<Longrightarrow> all_addresses addrs st'"
  by (induction k arbitrary: st') (auto dest: race_step_addresses)

lemma race_start_rounds:
  "race_start addrs now = Racing r \<Longrightarrow> rounds_left (now + CONNECT_TIMEOUT) r \<le> 2 * length addrs + 40"
proof -
  have "length (interleave_v6_first addrs) = length addrs"
    using arg_cong [OF weave_mset [of "filter is_ipv6 addrs" "filter (Not \<circ> is_ipv6) addrs"], of size]
      sum_length_filter_compl [of is_ipv6 addrs] by (simp add: interleave_v6_first_def comp_def del: is_ipv6.simps)
  moreover assume "race_start addrs now = Racing r"
  ultimately show ?thesis
    by (auto simp: race_start_def rounds_left_def start_next_measure CONNECT_TIMEOUT_def STAGGER_def instant_simps split: if_splits)
qed

text \<open>
  C25: The race for a connection ends and tries every address.  It makes at most
  two rounds per address and forty more (the connect timeout in steps of the
  stagger), can always go on until it has ended, and gives up before its
  deadline only after an attempt was started for every allowed address.
\<close>

theorem connect_race_ends:
  assumes run: "(race_step (now + CONNECT_TIMEOUT) ^^ k) (race_start addrs now) st"
  shows "k \<le> 2 * length addrs + 41 \<and>
    ((\<exists>r. st = Racing r) \<longleftrightarrow> (\<exists>st'. race_step (now + CONNECT_TIMEOUT) st st')) \<and>
    (\<forall>r e. st = Racing r \<and> ra_now r < now + CONNECT_TIMEOUT \<and> race_step (now + CONNECT_TIMEOUT) st (GaveUp e) \<longrightarrow>
       set (ra_started r) = set addrs)"
proof (intro conjI allI impI)
  show "k \<le> 2 * length addrs + 41"
  proof (cases "race_start addrs now")
    case (Racing r)
    with race_steps_bounded [of k "now + CONNECT_TIMEOUT" r st] race_start_rounds [of addrs now r] run show ?thesis by simp
  qed (use race_final_steps [OF run] in auto)
  show "(\<exists>r. st = Racing r) \<longleftrightarrow> (\<exists>st'. race_step (now + CONNECT_TIMEOUT) st st')"
    using race_continues by (cases st) (auto simp: race_step_final)
  fix r e assume st: "st = Racing r \<and> ra_now r < now + CONNECT_TIMEOUT \<and> race_step (now + CONNECT_TIMEOUT) st (GaveUp e)"
  then have "ra_iter r = []" by (auto elim!: race_stepE)
  with race_run_addresses [OF run race_start_addresses] st show "set (ra_started r) = set addrs"
    by (simp add: all_addresses_def)
qed

theorem connect_race_ends_witness:
  "\<exists>st. (race_step (0 + CONNECT_TIMEOUT) ^^ 1) (race_start [\<lparr>sa_ip = V4 (Ipv4Addr 93 184 216 34), sa_port = 443\<rparr>] 0) st \<and>
     (1 :: nat) \<le> 2 * length [\<lparr>sa_ip = V4 (Ipv4Addr 93 184 216 34), sa_port = 443\<rparr>] + 41 \<and>
     \<not> (\<exists>st'. race_step (0 + CONNECT_TIMEOUT) st st')"
proof -
  let ?a = "\<lparr>sa_ip = V4 (Ipv4Addr 93 184 216 34), sa_port = 443\<rparr>"
  have "race_start [?a] 0 = Racing \<lparr>ra_iter = [], ra_attempts = [?a], ra_first_err = None, ra_now = 0, ra_started = [?a]\<rparr>" by code_simp
  then have run: "(race_step (0 + CONNECT_TIMEOUT) ^^ 1) (race_start [?a] 0) (Connected ?a)"
    by (auto intro!: race_step.won simp: CONNECT_TIMEOUT_def instant_simps)
  from connect_race_ends [OF run] run show ?thesis by blast
qed

end
