(* ===== verification/Sealing.thy ===== *)
theory Sealing
  imports Store_Types
begin

text \<open>
  Secrets at rest (\<open>crates/common/src/security/crypto.rs\<close>): the envelope of an
  encrypted value and the sealing of stored strings.  The authenticated cipher,
  the nonce source, the base64 codecs and the decoding of UTF-8 are arguments.
\<close>

section \<open>Envelopes\<close>

type_synonym bytes = "8 word list"

definition VERSION :: string where
  "VERSION = ''v1''"

datatype crypto_error =
    InvalidKekLength nat
  | InvalidKekBase64
  | BadVersion
  | BadShape
  | InvalidBase64
  | InvalidNonceLength nat
  | DecryptFailed
  | EncryptFailed

record cipher_lib =
  cl_encode :: "bytes \<Rightarrow> string"
  cl_decode :: "string \<Rightarrow> bytes option"
  cl_decode_standard :: "string \<Rightarrow> bytes option"
  cl_aead_seal :: "bytes \<Rightarrow> bytes \<Rightarrow> bytes \<Rightarrow> bytes option"
  cl_aead_open :: "bytes \<Rightarrow> bytes \<Rightarrow> bytes \<Rightarrow> bytes option"
  cl_to_utf8 :: "string \<Rightarrow> bytes"
  cl_from_utf8 :: "bytes \<Rightarrow> string option"

record cipher =
  ci_key :: bytes

definition decode_base64_flexible :: "cipher_lib \<Rightarrow> string \<Rightarrow> bytes option" where
  "decode_base64_flexible L s =
     (let trimmed = trim s in
      case cl_decode L trimmed of Some b \<Rightarrow> Some b | None \<Rightarrow> cl_decode_standard L trimmed)"

definition from_base64 :: "cipher_lib \<Rightarrow> string \<Rightarrow> crypto_error + cipher" where
  "from_base64 L kek =
     (case decode_base64_flexible L kek of
        None \<Rightarrow> Err InvalidKekBase64
      | Some b \<Rightarrow> if length b \<noteq> 32 then Err (InvalidKekLength (length b)) else Ok \<lparr>ci_key = b\<rparr>)"

definition encrypt :: "cipher_lib \<Rightarrow> bytes \<Rightarrow> cipher \<Rightarrow> bytes \<Rightarrow> crypto_error + string" where
  "encrypt L nonce c plaintext =
     (case cl_aead_seal L (ci_key c) nonce plaintext of
        None \<Rightarrow> Err EncryptFailed
      | Some ct \<Rightarrow> Ok (VERSION @ '':'' @ cl_encode L nonce @ '':'' @ cl_encode L ct))"

text \<open>\<open>splitn(3, ':')\<close>: the texts before the first and between the first two colons, and the rest.\<close>

definition split_three :: "string \<Rightarrow> (string \<times> string \<times> string) option" where
  "split_three s =
     (case split_once CHR '':'' s of
        None \<Rightarrow> None
      | Some (a, r) \<Rightarrow> (case split_once CHR '':'' r of None \<Rightarrow> None | Some (b, c) \<Rightarrow> Some (a, b, c)))"

definition decrypt :: "cipher_lib \<Rightarrow> cipher \<Rightarrow> string \<Rightarrow> crypto_error + bytes" where
  "decrypt L c envelope =
     (case split_three envelope of
        None \<Rightarrow> Err BadShape
      | Some (version, nonce_b64, ct_b64) \<Rightarrow>
         if version \<noteq> VERSION then Err BadVersion
         else (case cl_decode L nonce_b64 of
                 None \<Rightarrow> Err InvalidBase64
               | Some nonce \<Rightarrow>
                  (case cl_decode L ct_b64 of
                     None \<Rightarrow> Err InvalidBase64
                   | Some ct \<Rightarrow>
                      if length nonce \<noteq> 12 then Err (InvalidNonceLength (length nonce))
                      else (case cl_aead_open L (ci_key c) nonce ct of None \<Rightarrow> Err DecryptFailed | Some p \<Rightarrow> Ok p))))"

section \<open>Stored strings\<close>

definition is_envelope :: "string \<Rightarrow> bool" where
  "is_envelope s = starts_with s ''v1:''"

definition seal_str :: "cipher_lib \<Rightarrow> bytes \<Rightarrow> string \<Rightarrow> cipher option \<Rightarrow> crypto_error + string" where
  "seal_str L nonce raw c = (case c of Some k \<Rightarrow> encrypt L nonce k (cl_to_utf8 L raw) | None \<Rightarrow> Ok raw)"

definition open_str :: "cipher_lib \<Rightarrow> string \<Rightarrow> cipher option \<Rightarrow> string option" where
  "open_str L stored c =
     (if is_envelope stored
      then (case c of
              None \<Rightarrow> None
            | Some k \<Rightarrow> (case decrypt L k stored of Inl _ \<Rightarrow> None | Inr b \<Rightarrow> cl_from_utf8 L b))
      else Some stored)"

definition ENC_KEY :: string where
  "ENC_KEY = ''$enc''"

definition wrap_envelope :: "string \<Rightarrow> json" where
  "wrap_envelope env = JObject [(ENC_KEY, JString env)]"

fun envelope_str :: "json \<Rightarrow> string option" where
  "envelope_str (JObject kvs) =
     (case map_of kvs ENC_KEY of
        Some (JString s) \<Rightarrow> if is_envelope s then Some s else None
      | _ \<Rightarrow> None)"
| "envelope_str _ = None"

section \<open>Round trip\<close>

text \<open>What the code relies on: the codecs invert, base64 text has no colon, and the cipher opens what it sealed.\<close>

definition cipher_laws :: "cipher_lib \<Rightarrow> bool" where
  "cipher_laws L \<longleftrightarrow>
     (\<forall>b. cl_decode L (cl_encode L b) = Some b) \<and>
     (\<forall>b. CHR '':'' \<notin> set (cl_encode L b)) \<and>
     (\<forall>k n p ct. length k = 32 \<longrightarrow> length n = 12 \<longrightarrow> cl_aead_seal L k n p = Some ct \<longrightarrow> cl_aead_open L k n ct = Some p) \<and>
     (\<forall>s. cl_from_utf8 L (cl_to_utf8 L s) = Some s)"

lemma split_once_at: "c \<notin> set a \<Longrightarrow> split_once c (a @ c # b) = Some (a, b)"
  by (induction a) (auto simp: split_once_def)

lemma decrypt_envelope:
  assumes "cipher_laws L" "length n = 12"
  shows "decrypt L k (VERSION @ '':'' @ cl_encode L n @ '':'' @ cl_encode L ct) =
    (case cl_aead_open L (ci_key k) n ct of None \<Rightarrow> Err DecryptFailed | Some p \<Rightarrow> Ok p)"
proof -
  have "split_three (VERSION @ '':'' @ cl_encode L n @ '':'' @ cl_encode L ct) = Some (VERSION, cl_encode L n, cl_encode L ct)"
    using assms(1) split_once_at [of "CHR '':''" VERSION] split_once_at [of "CHR '':''" "cl_encode L n"]
    by (simp add: split_three_def VERSION_def cipher_laws_def)
  with assms show ?thesis by (simp add: decrypt_def cipher_laws_def)
qed

text \<open>
  C28: What is sealed can be opened.  With a key the stored text is an envelope
  that the same key opens to the original; without a key the text is stored as
  it is and read back, except when it looks like an envelope itself: then it
  cannot be read at all.
\<close>

theorem sealed_strings_open:
  assumes laws: "cipher_laws L" and nonce: "length n = 12" and sealed: "seal_str L n raw c = Ok stored"
    and key: "\<And>k. c = Some k \<Longrightarrow> from_base64 L kek = Ok k"
  shows "open_str L stored c = (if c = None \<and> is_envelope raw then None else Some raw) \<and>
    (c \<noteq> None \<longrightarrow> is_envelope stored \<and> envelope_str (wrap_envelope stored) = Some stored)"
proof (cases c)
  case None
  with sealed show ?thesis by (simp add: seal_str_def open_str_def)
next
  case (Some k)
  have len: "length (ci_key k) = 32"
    using key [OF Some] by (auto simp: from_base64_def split: option.splits if_splits)
  obtain ct where ct: "cl_aead_seal L (ci_key k) n (cl_to_utf8 L raw) = Some ct"
    and stored: "stored = VERSION @ '':'' @ cl_encode L n @ '':'' @ cl_encode L ct"
    using sealed Some by (auto simp: seal_str_def encrypt_def split: option.splits)
  have env: "is_envelope stored" unfolding stored by (simp add: is_envelope_def starts_with_def VERSION_def)
  have "decrypt L k stored = Ok (cl_to_utf8 L raw)"
    unfolding stored decrypt_envelope [OF laws nonce] using laws len nonce ct by (simp add: cipher_laws_def)
  with Some env laws show ?thesis by (simp add: open_str_def wrap_envelope_def cipher_laws_def)
qed

text \<open>An instance of the laws: bytes in unary, and a cipher that does not encrypt.\<close>

fun unary_decode :: "nat \<Rightarrow> string \<Rightarrow> bytes option" where
  "unary_decode n [] = (if n = 0 then Some [] else None)"
| "unary_decode n (c # s) =
     (if c = CHR ''a'' then unary_decode (Suc n) s else map_option ((#) (of_nat n)) (unary_decode 0 s))"

definition unary_encode :: "bytes \<Rightarrow> string" where
  "unary_encode b = concat (map (\<lambda>w. replicate (unat w) CHR ''a'' @ ''b'') b)"

definition plain_lib :: cipher_lib where
  "plain_lib = \<lparr>cl_encode = unary_encode, cl_decode = unary_decode 0, cl_decode_standard = (\<lambda>_. None),
     cl_aead_seal = (\<lambda>_ _ p. Some p), cl_aead_open = (\<lambda>_ _ ct. Some ct),
     cl_to_utf8 = map (\<lambda>c. of_nat (of_char c)), cl_from_utf8 = (\<lambda>b. Some (map (\<lambda>w. char_of (unat w)) b))\<rparr>"

lemma unary_decode_run: "unary_decode n (replicate k CHR ''a'' @ CHR ''b'' # s) = map_option ((#) (of_nat (n + k))) (unary_decode 0 s)"
  by (induction k arbitrary: n) (auto simp: add.assoc)

lemma unary_roundtrip: "unary_decode 0 (unary_encode b) = Some b"
  by (induction b) (simp_all add: unary_encode_def unary_decode_run)

lemma unary_no_colon: "CHR '':'' \<notin> set (unary_encode b)"
  by (auto simp: unary_encode_def)

lemma char_byte: "char_of (unat (of_nat (of_char c) :: 8 word)) = c"
  by (simp add: unat_of_nat)

lemma plain_lib_laws: "cipher_laws plain_lib"
  by (simp add: cipher_laws_def plain_lib_def unary_roundtrip unary_no_colon comp_def char_byte)

theorem sealed_strings_open_witness:
  "\<exists>stored. seal_str plain_lib (replicate 12 0) ''key'' (Some \<lparr>ci_key = replicate 32 0\<rparr>) = Ok stored \<and>
     open_str plain_lib stored (Some \<lparr>ci_key = replicate 32 0\<rparr>) = Some ''key''"
proof -
  let ?c = "\<lparr>ci_key = replicate 32 0\<rparr>"
  obtain stored where stored: "seal_str plain_lib (replicate 12 0) ''key'' (Some ?c) = Ok stored"
    by (simp add: seal_str_def encrypt_def plain_lib_def)
  have "from_base64 plain_lib (replicate 32 CHR ''b'') = Ok ?c" by code_simp
  with sealed_strings_open [OF plain_lib_laws _ stored, of "replicate 32 CHR ''b''"] stored show ?thesis by simp
qed

end
