(* ===== verification/Seed.thy ===== *)
theory Seed
  imports Page_Api
begin

text \<open>
  Seeding at start-up (\<open>bin/status-server/src/seed.rs\<close>): channels, targets and
  status pages of the configuration file that the store does not have yet are
  created, and the pages get their components.  Fresh identifiers, the clock
  and the order in which a hash map is walked are arguments; errors are logged
  and the item is passed over.
\<close>

section \<open>The seed\<close>

record seed_channel_config =
  sch_name :: string
  sch_config :: channel_config

record seed_target_config =
  stc_name :: string
  stc_check :: check_spec
  stc_interval_secs :: nat
  stc_group_name :: "string option"
  stc_tags :: "string list"
  stc_alert_confirmations :: nat
  stc_notify_recovery :: bool
  stc_renotify_interval_secs :: nat
  stc_channel_names :: "string list"

record seed_status_page_config =
  ssp_name :: string
  ssp_slug :: string
  ssp_title :: "string option"

record seed_config =
  sd_channels :: "seed_channel_config list"
  sd_targets :: "seed_target_config list"
  sd_status_pages :: "seed_status_page_config list"

section \<open>Channels\<close>

definition find_channel_by_name :: "mem \<Rightarrow> string \<Rightarrow> uuid option" where
  "find_channel_by_name s name = map_option nc_id (find (\<lambda>c. nc_name c = name) (list_notification_channels s))"

fun sync_channels ::
  "instant \<Rightarrow> (nat \<Rightarrow> uuid) \<Rightarrow> nat \<Rightarrow> seed_channel_config list \<Rightarrow> (string \<times> uuid) list \<Rightarrow> mem \<Rightarrow> (string \<times> uuid) list \<times> mem" where
  "sync_channels now fresh i [] channel_ids s = (channel_ids, s)"
| "sync_channels now fresh i (ch # chs) channel_ids s =
     (case find_channel_by_name s (sch_name ch) of
        Some existing \<Rightarrow> sync_channels now fresh (Suc i) chs (hm_insert (sch_name ch) existing channel_ids) s
      | None \<Rightarrow>
         (case create_notification_channel now (fresh i)
                 \<lparr>nnc_name = sch_name ch, nnc_config = sch_config ch, nnc_enabled = True\<rparr> s of
            (Inr created, s') \<Rightarrow> sync_channels now fresh (Suc i) chs (hm_insert (sch_name ch) (nc_id created) channel_ids) s'
          | (Inl _, s') \<Rightarrow> sync_channels now fresh (Suc i) chs channel_ids s'))"

section \<open>Targets\<close>

definition seed_target :: "instant \<Rightarrow> uuid \<Rightarrow> (string \<times> uuid) list \<Rightarrow> seed_target_config \<Rightarrow> target" where
  "seed_target now k channel_ids t =
     \<lparr>tg_id = k, tg_name = stc_name t, tg_check = stc_check t, tg_interval = seconds (int (stc_interval_secs t)),
      tg_enabled = True, tg_tags = stc_tags t,
      tg_alerts = List.map_filter (hm_get channel_ids) (stc_channel_names t),
      tg_alert_confirmations = stc_alert_confirmations t, tg_notify_recovery = stc_notify_recovery t,
      tg_renotify_interval_secs = stc_renotify_interval_secs t, tg_region_policy = region_incident_policy.Majority,
      tg_group_name = stc_group_name t, tg_owner_user_id = None, tg_escalation_policy_id = None,
      tg_created_at = now, tg_updated_at = now, tg_write_source = Terraform\<rparr>"

definition target_ids_of :: "target list \<Rightarrow> (string \<times> uuid) list" where
  "target_ids_of ts = fold (\<lambda>t. hm_insert (tg_name t) (tg_id t)) ts []"

fun sync_targets ::
  "instant \<Rightarrow> (nat \<Rightarrow> uuid) \<Rightarrow> nat \<Rightarrow> (string \<times> uuid) list \<Rightarrow> seed_target_config list \<Rightarrow> (string \<times> uuid) list \<Rightarrow> mem \<Rightarrow>
   (string \<times> uuid) list \<times> mem" where
  "sync_targets now fresh i channel_ids [] target_ids s = (target_ids, s)"
| "sync_targets now fresh i channel_ids (t # ts) target_ids s =
     (if hm_contains target_ids (stc_name t) then sync_targets now fresh (Suc i) channel_ids ts target_ids s
      else (case create_target (seed_target now (fresh i) channel_ids t) s of
              (Inr created, s') \<Rightarrow> sync_targets now fresh (Suc i) channel_ids ts (hm_insert (stc_name t) (tg_id created) target_ids) s'
            | (Inl _, s') \<Rightarrow> sync_targets now fresh (Suc i) channel_ids ts target_ids s'))"

section \<open>Status pages\<close>

definition seed_page :: "instant \<Rightarrow> uuid \<Rightarrow> seed_status_page_config \<Rightarrow> status_page" where
  "seed_page now k sp =
     \<lparr>sp_id = k, sp_org_id = nil_uuid, sp_slug = ssp_slug sp, sp_name = ssp_name sp, sp_enabled = True,
      sp_branding = default_branding\<lparr>br_display_name := (case ssp_title sp of Some t \<Rightarrow> Some t | None \<Rightarrow> Some (ssp_name sp)),
        br_show_powered_by := Some False\<rparr>,
      sp_write_source = Terraform, sp_created_at = now, sp_updated_at = now\<rparr>"

definition seed_group :: "seed_target_config list \<Rightarrow> string \<Rightarrow> string" where
  "seed_group targets name =
     (case Option.bind (hm_get (fold (\<lambda>t. hm_insert (stc_name t) t) targets []) name) stc_group_name of
        Some g \<Rightarrow> g | None \<Rightarrow> ''General'')"

definition seed_component :: "seed_target_config list \<Rightarrow> nat \<Rightarrow> string \<times> uuid \<Rightarrow> status_page_component" where
  "seed_component targets idx e =
     \<lparr>spc_target_id = snd e, spc_monitor_name = fst e, spc_public_name = None, spc_public_description = None,
      spc_public_group = Some (seed_group targets (fst e)), spc_sort_order = wrap_i32 (int idx)\<rparr>"

fun bind_components :: "seed_target_config list \<Rightarrow> uuid \<Rightarrow> nat \<Rightarrow> (string \<times> uuid) list \<Rightarrow> mem \<Rightarrow> mem" where
  "bind_components targets page_id idx [] s = s"
| "bind_components targets page_id idx (e # es) s =
     bind_components targets page_id (Suc idx) es (snd (set_status_page_component page_id (seed_component targets idx e) s))"

fun sync_pages ::
  "instant \<Rightarrow> (nat \<Rightarrow> uuid) \<Rightarrow> nat \<Rightarrow> seed_target_config list \<Rightarrow> (string \<times> uuid) list \<Rightarrow> (string \<times> uuid) list \<Rightarrow>
   seed_status_page_config list \<Rightarrow> mem \<Rightarrow> mem" where
  "sync_pages now fresh i targets existing_slugs entries [] s = s"
| "sync_pages now fresh i targets existing_slugs entries (sp # sps) s =
     (case hm_get existing_slugs (ssp_slug sp) of
        Some page_id \<Rightarrow>
          sync_pages now fresh (Suc i) targets existing_slugs entries sps (bind_components targets page_id 0 entries s)
      | None \<Rightarrow>
         (case create_status_page (seed_page now (fresh i) sp) s of
            (Inr created, s') \<Rightarrow>
              sync_pages now fresh (Suc i) targets existing_slugs entries sps (bind_components targets (sp_id created) 0 entries s')
          | (Inl _, s') \<Rightarrow> sync_pages now fresh (Suc i) targets existing_slugs entries sps s'))"

definition slug_ids_of :: "status_page list \<Rightarrow> (string \<times> uuid) list" where
  "slug_ids_of ps = fold (\<lambda>p. hm_insert (sp_slug p) (sp_id p)) ps []"

text \<open>What a run of the seeding draws from outside: the clock, three streams of identifiers and the walk of a hash map.\<close>

record seed_env =
  se_now :: instant
  se_channel_ids :: "nat \<Rightarrow> uuid"
  se_target_ids :: "nat \<Rightarrow> uuid"
  se_page_ids :: "nat \<Rightarrow> uuid"
  se_walk :: "(string \<times> uuid) list \<Rightarrow> (string \<times> uuid) list"

definition sync_from_config :: "seed_env \<Rightarrow> seed_config \<Rightarrow> mem \<Rightarrow> mem" where
  "sync_from_config E seed s =
     (case sync_channels (se_now E) (se_channel_ids E) 0 (sd_channels seed) [] s of
        (channel_ids, s1) \<Rightarrow>
         (case sync_targets (se_now E) (se_target_ids E) 0 channel_ids (sd_targets seed) (target_ids_of (list_targets s1)) s1 of
            (target_ids, s2) \<Rightarrow>
              sync_pages (se_now E) (se_page_ids E) 0 (sd_targets seed) (slug_ids_of (list_status_pages s2))
                (se_walk E target_ids) (sd_status_pages seed) s2))"

section \<open>Seeding again creates nothing\<close>

definition channel_names :: "mem \<Rightarrow> string set" where
  "channel_names s = nc_name ` set (hm_values (m_notification_channels s))"

definition target_names :: "mem \<Rightarrow> string set" where
  "target_names s = tg_name ` set (hm_values (m_targets s))"

definition page_slugs :: "mem \<Rightarrow> string set" where
  "page_slugs s = sp_slug ` set (hm_values (m_status_pages s))"

definition unused_from :: "('k \<times> 'v) list \<Rightarrow> (nat \<Rightarrow> 'k) \<Rightarrow> nat \<Rightarrow> nat \<Rightarrow> bool" where
  "unused_from m fresh i n =
     (distinct (map fresh [i..<i + n]) \<and> list_all (\<lambda>k. \<not> hm_contains m k) (map fresh [i..<i + n]))"

lemma unused_from_Cons:
  "unused_from m fresh i (Suc n) \<longleftrightarrow>
     hm_get m (fresh i) = None \<and> fresh i \<notin> fresh ` {Suc i..<Suc i + n} \<and> unused_from m fresh (Suc i) n"
  by (auto simp: unused_from_def upt_conv_Cons simp del: upt_Suc)

lemma unused_from_Suc: "unused_from m fresh i (Suc n) \<Longrightarrow> unused_from m fresh (Suc i) n"
  by (simp add: unused_from_Cons)

lemma unused_from_insert: "unused_from m fresh i (Suc n) \<Longrightarrow> unused_from (hm_insert (fresh i) v m) fresh (Suc i) n"
  unfolding unused_from_Cons by (auto simp: unused_from_def list_all_iff image_iff simp del: upt_Suc)

lemma unused_now: "unused_from m fresh i (Suc n) \<Longrightarrow> hm_get m (fresh i) = None"
  by (simp add: unused_from_Cons)

lemma values_insert_new: "hm_get m k = None \<Longrightarrow> set (hm_values (hm_insert k v m)) = insert v (set (hm_values m))"
  by (induction m) (auto simp: hm_values_def hm_insert_def hm_get_def split: if_splits)

lemma find_channel_None: "find_channel_by_name s n = None \<longleftrightarrow> n \<notin> channel_names s"
  by (auto simp: find_channel_by_name_def channel_names_def list_notification_channels_def find_None_iff)


text \<open>One step of each loop on a name the store does not have, with an identifier nobody uses.\<close>

lemma sync_channels_new:
  "find_channel_by_name s (sch_name ch) = None \<Longrightarrow>
   sync_channels now fresh i (ch # chs) ids s =
     sync_channels now fresh (Suc i) chs (hm_insert (sch_name ch) (fresh i) ids)
       (snd (create_notification_channel now (fresh i)
          \<lparr>nnc_name = sch_name ch, nnc_config = sch_config ch, nnc_enabled = True\<rparr> s))"
  by (simp add: create_notification_channel_def Let_def)

lemma sync_targets_new:
  "hm_get ids (stc_name t) = None \<Longrightarrow> hm_get (m_targets s) (fresh i) = None \<Longrightarrow>
   sync_targets now fresh i cids (t # ts) ids s =
     sync_targets now fresh (Suc i) cids ts (hm_insert (stc_name t) (fresh i) ids)
       (s\<lparr>m_targets := hm_insert (fresh i) (seed_target now (fresh i) cids t) (m_targets s)\<rparr>)"
  by (simp add: create_target_def seed_target_def)

lemma sync_pages_new:
  "hm_get slugs (ssp_slug sp) = None \<Longrightarrow> hm_get (m_status_pages s) (fresh i) = None \<Longrightarrow>
   sync_pages now fresh i targets slugs es (sp # sps) s =
     sync_pages now fresh (Suc i) targets slugs es sps (bind_components targets (fresh i) 0 es
       (s\<lparr>m_status_pages := hm_insert (fresh i) (seed_page now (fresh i) sp) (m_status_pages s)\<rparr>))"
  by (simp add: create_status_page_def seed_page_def)

text \<open>What each loop leaves alone.\<close>

lemma sync_channels_frame:
  "(snd (sync_channels now fresh i chs ids s))\<lparr>m_notification_channels := []\<rparr> = s\<lparr>m_notification_channels := []\<rparr>"
  by (induction now fresh i chs ids s rule: sync_channels.induct)
    (simp_all add: create_notification_channel_def Let_def split: option.split)

lemma sync_targets_frame: "(snd (sync_targets now fresh i cids ts ids s))\<lparr>m_targets := []\<rparr> = s\<lparr>m_targets := []\<rparr>"
  by (induction ts arbitrary: i ids s) (simp_all add: create_target_def)

lemma bind_components_frame:
  "(bind_components targets pid n es s)\<lparr>m_status_page_components := []\<rparr> = s\<lparr>m_status_page_components := []\<rparr>"
  by (induction es arbitrary: n s) (simp_all add: set_status_page_component_def)

lemmas sync_channels_keeps [simp] =
  arg_cong [where f = m_targets, OF sync_channels_frame, simplified]
  arg_cong [where f = m_status_pages, OF sync_channels_frame, simplified]
  arg_cong [where f = m_status_page_components, OF sync_channels_frame, simplified]

lemmas sync_targets_keeps [simp] =
  arg_cong [where f = m_notification_channels, OF sync_targets_frame, simplified]
  arg_cong [where f = m_status_pages, OF sync_targets_frame, simplified]
  arg_cong [where f = m_status_page_components, OF sync_targets_frame, simplified]

lemmas bind_components_keeps [simp] =
  arg_cong [where f = m_notification_channels, OF bind_components_frame, simplified]
  arg_cong [where f = m_targets, OF bind_components_frame, simplified]
  arg_cong [where f = m_status_pages, OF bind_components_frame, simplified]

lemma sync_pages_keeps [simp]:
  "m_notification_channels (sync_pages now fresh i targets slugs es sps s) = m_notification_channels s"
  "m_targets (sync_pages now fresh i targets slugs es sps s) = m_targets s"
  by (induction sps arbitrary: i s) (simp_all add: create_status_page_def split: option.split)

text \<open>What each loop brings about, and that it does nothing once that holds.\<close>

lemma sync_channels_skips: "sch_name ` set chs \<subseteq> channel_names s \<Longrightarrow> snd (sync_channels now fresh i chs ids s) = s"
  by (induction now fresh i chs ids s rule: sync_channels.induct) (auto simp: find_channel_None split: option.split)

lemma sync_channels_names:
  "unused_from (m_notification_channels s) fresh i (length chs) \<Longrightarrow>
   channel_names s \<union> sch_name ` set chs \<subseteq> channel_names (snd (sync_channels now fresh i chs ids s))"
proof (induction chs arbitrary: i ids s)
  case (Cons ch chs)
  have unused: "unused_from (m_notification_channels s) fresh i (Suc (length chs))" using Cons.prems by simp
  show ?case
  proof (cases "find_channel_by_name s (sch_name ch)")
    case None
    let ?s = "snd (create_notification_channel now (fresh i)
      \<lparr>nnc_name = sch_name ch, nnc_config = sch_config ch, nnc_enabled = True\<rparr> s)"
    have "channel_names ?s = insert (sch_name ch) (channel_names s)"
      by (simp add: channel_names_def create_notification_channel_def Let_def values_insert_new [OF unused_now [OF unused]])
    moreover have "unused_from (m_notification_channels ?s) fresh (Suc i) (length chs)"
      using unused_from_insert [OF unused] by (simp add: create_notification_channel_def Let_def)
    ultimately show ?thesis using Cons.IH [of ?s "Suc i" "hm_insert (sch_name ch) (fresh i) ids"] sync_channels_new [OF None] by simp
  next
    case (Some k)
    then have "sch_name ch \<in> channel_names s" using find_channel_None by (metis option.distinct(1))
    with Some Cons.IH [OF unused_from_Suc [OF unused]] show ?thesis by auto
  qed
qed simp

lemma sync_targets_skips: "(\<And>t. t \<in> set ts \<Longrightarrow> hm_contains ids (stc_name t)) \<Longrightarrow> sync_targets now fresh i cids ts ids s = (ids, s)"
  by (induction ts arbitrary: i) auto

lemma sync_targets_names:
  "unused_from (m_targets s) fresh i (length ts) \<Longrightarrow> (\<And>n. hm_contains ids n \<Longrightarrow> n \<in> target_names s) \<Longrightarrow>
   target_names s \<union> stc_name ` set ts \<subseteq> target_names (snd (sync_targets now fresh i cids ts ids s))"
proof (induction ts arbitrary: i ids s)
  case (Cons t ts)
  have unused: "unused_from (m_targets s) fresh i (Suc (length ts))" using Cons.prems by simp
  show ?case
  proof (cases "hm_get ids (stc_name t)")
    case None
    let ?s = "s\<lparr>m_targets := hm_insert (fresh i) (seed_target now (fresh i) cids t) (m_targets s)\<rparr>"
    have names: "target_names ?s = insert (stc_name t) (target_names s)"
      by (simp add: target_names_def seed_target_def values_insert_new [OF unused_now [OF unused]])
    have "target_names ?s \<union> stc_name ` set ts
      \<subseteq> target_names (snd (sync_targets now fresh (Suc i) cids ts (hm_insert (stc_name t) (fresh i) ids) ?s))"
      using Cons.prems(2) by (intro Cons.IH) (auto simp: unused_from_insert [OF unused] names split: if_splits)
    then show ?thesis using names sync_targets_new [where s = s and i = i and fresh = fresh, OF None] unused_now [OF unused] by auto
  next
    case (Some k)
    then show ?thesis using Cons.IH [OF unused_from_Suc [OF unused] Cons.prems(2)] Cons.prems(2) [of "stc_name t"] by auto
  qed
qed simp

lemma fold_insert_contains:
  "hm_contains (fold (\<lambda>x. hm_insert (f x) (g x)) xs m) n \<longleftrightarrow> n \<in> f ` set xs \<or> hm_contains m n"
  by (induction xs arbitrary: m) auto

lemma target_ids_contains: "hm_contains (target_ids_of (list_targets s)) n \<longleftrightarrow> n \<in> target_names s"
  unfolding target_ids_of_def fold_insert_contains by (simp add: list_targets_def target_names_def)

lemma slug_ids_contains: "hm_contains (slug_ids_of (list_status_pages s)) n \<longleftrightarrow> n \<in> page_slugs s"
  unfolding slug_ids_of_def fold_insert_contains by (simp add: list_status_pages_def page_slugs_def)

lemma sync_pages_skips:
  "\<forall>sp \<in> set sps. hm_contains slugs (ssp_slug sp) \<Longrightarrow>
   (sync_pages now fresh i targets slugs es sps s)\<lparr>m_status_page_components := []\<rparr> = s\<lparr>m_status_page_components := []\<rparr>"
  by (induction sps arbitrary: i s) (auto simp: bind_components_frame)

lemma sync_pages_slugs:
  "unused_from (m_status_pages s) fresh i (length sps) \<Longrightarrow> (\<And>n. hm_contains slugs n \<Longrightarrow> n \<in> page_slugs s) \<Longrightarrow>
   page_slugs s \<union> ssp_slug ` set sps \<subseteq> page_slugs (sync_pages now fresh i targets slugs es sps s)"
proof (induction sps arbitrary: i s)
  case (Cons sp sps)
  have unused: "unused_from (m_status_pages s) fresh i (Suc (length sps))" using Cons.prems by simp
  show ?case
  proof (cases "hm_get slugs (ssp_slug sp)")
    case None
    let ?s = "bind_components targets (fresh i) 0 es
      (s\<lparr>m_status_pages := hm_insert (fresh i) (seed_page now (fresh i) sp) (m_status_pages s)\<rparr>)"
    have names: "page_slugs ?s = insert (ssp_slug sp) (page_slugs s)"
      by (simp add: page_slugs_def seed_page_def values_insert_new [OF unused_now [OF unused]])
    have "page_slugs ?s \<union> ssp_slug ` set sps \<subseteq> page_slugs (sync_pages now fresh (Suc i) targets slugs es sps ?s)"
      using Cons.prems(2) by (intro Cons.IH) (auto simp: unused_from_insert [OF unused] names)
    then show ?thesis
      using names sync_pages_new [where s = s and i = i and fresh = fresh, OF None] unused_now [OF unused] by auto
  next
    case (Some k)
    let ?s = "bind_components targets k 0 es s"
    have same: "page_slugs ?s = page_slugs s" by (simp add: page_slugs_def)
    have "page_slugs ?s \<union> ssp_slug ` set sps \<subseteq> page_slugs (sync_pages now fresh (Suc i) targets slugs es sps ?s)"
      using Cons.prems by (intro Cons.IH) (auto simp: unused_from_Suc [OF unused] same)
    then show ?thesis using Some Cons.prems(2) [of "ssp_slug sp"] same by auto
  qed
qed simp

section \<open>Every target of the store is bound\<close>

definition bound_unnamed :: "uuid \<Rightarrow> uuid \<Rightarrow> mem \<Rightarrow> bool" where
  "bound_unnamed pid k s =
     (case hm_get (m_status_page_components s) (pid, k) of
        Some c \<Rightarrow> spc_public_name c = None \<and> spc_public_description c = None
      | None \<Rightarrow> False)"

lemma bind_components_bound: "bound_unnamed pid k s \<Longrightarrow> bound_unnamed pid k (bind_components targets pid' n es s)"
  by (induction es arbitrary: n s) (auto simp: bound_unnamed_def set_status_page_component_def seed_component_def)

lemma bind_components_binds: "(nm, k) \<in> set es \<Longrightarrow> bound_unnamed pid k (bind_components targets pid n es s)"
proof (induction es arbitrary: n s)
  case (Cons e es)
  show ?case
  proof (cases "e = (nm, k)")
    case True
    show ?thesis unfolding True bind_components.simps
      by (rule bind_components_bound) (simp add: bound_unnamed_def set_status_page_component_def seed_component_def)
  qed (use Cons in auto)
qed simp

lemma sync_pages_bound: "bound_unnamed pid k s \<Longrightarrow> bound_unnamed pid k (sync_pages now fresh i targets slugs es sps s)"
proof (induction sps arbitrary: i s)
  case (Cons sp sps)
  have new: "bound_unnamed pid k (s\<lparr>m_status_pages := m\<rparr>)" for m using Cons.prems by (simp add: bound_unnamed_def)
  show ?case
    using Cons.IH [OF bind_components_bound [OF new]] Cons.IH [OF bind_components_bound [OF Cons.prems]] Cons.IH [OF Cons.prems]
    by (simp add: create_status_page_def split: option.split)
qed simp

lemma sync_pages_binds:
  "sp \<in> set sps \<Longrightarrow> hm_get slugs (ssp_slug sp) = Some pid \<Longrightarrow> (nm, k) \<in> set es \<Longrightarrow>
   bound_unnamed pid k (sync_pages now fresh i targets slugs es sps s)"
proof (induction sps arbitrary: i s)
  case (Cons p sps)
  show ?case
  proof (cases "p = sp")
    case True
    with Cons.prems show ?thesis by (simp add: sync_pages_bound bind_components_binds)
  next
    case False
    with Cons.prems Cons.IH show ?thesis by (auto split: option.split prod.split sum.split)
  qed
qed simp

lemma sync_targets_keeps_ids: "hm_get ids n = Some k \<Longrightarrow> hm_get (fst (sync_targets now fresh i cids ts ids s)) n = Some k"
proof (induction ts arbitrary: i ids s)
  case (Cons t ts)
  have "hm_get ids (stc_name t) = None \<Longrightarrow> stc_name t \<noteq> n" using Cons.prems by auto
  with Cons show ?case by (auto simp: create_target_def)
qed simp

lemma sync_from_config_unfold:
  "sync_from_config E seed s =
     (let r1 = sync_channels (se_now E) (se_channel_ids E) 0 (sd_channels seed) [] s;
          r2 = sync_targets (se_now E) (se_target_ids E) 0 (fst r1) (sd_targets seed) (target_ids_of (list_targets (snd r1))) (snd r1)
      in sync_pages (se_now E) (se_page_ids E) 0 (sd_targets seed) (slug_ids_of (list_status_pages (snd r2)))
           (se_walk E (fst r2)) (sd_status_pages seed) (snd r2))"
  by (simp add: sync_from_config_def Let_def split: prod.split)

lemma sync_names:
  assumes "unused_from (m_notification_channels s) (se_channel_ids E) 0 (length (sd_channels seed))"
    and "unused_from (m_targets s) (se_target_ids E) 0 (length (sd_targets seed))" and "unused_from (m_status_pages s) (se_page_ids E) 0 (length (sd_status_pages seed))"
  shows "sch_name ` set (sd_channels seed) \<subseteq> channel_names (sync_from_config E seed s)"
    and "stc_name ` set (sd_targets seed) \<subseteq> target_names (sync_from_config E seed s)"
    and "ssp_slug ` set (sd_status_pages seed) \<subseteq> page_slugs (sync_from_config E seed s)"
proof -
  define r1 where "r1 = sync_channels (se_now E) (se_channel_ids E) 0 (sd_channels seed) [] s"
  define r2 where "r2 = sync_targets (se_now E) (se_target_ids E) 0 (fst r1) (sd_targets seed)
    (target_ids_of (list_targets (snd r1))) (snd r1)"
  define s3 where "s3 = sync_pages (se_now E) (se_page_ids E) 0 (sd_targets seed) (slug_ids_of (list_status_pages (snd r2)))
    (se_walk E (fst r2)) (sd_status_pages seed) (snd r2)"
  have run: "sync_from_config E seed s = s3" by (simp add: sync_from_config_unfold Let_def r1_def r2_def s3_def)
  have keep: "m_targets (snd r1) = m_targets s" "m_status_pages (snd r2) = m_status_pages s"
    "m_notification_channels s3 = m_notification_channels (snd r1)" "m_targets s3 = m_targets (snd r2)"
    by (simp_all add: r1_def r2_def s3_def)
  have 1: "sch_name ` set (sd_channels seed) \<subseteq> channel_names (snd r1)"
    using sync_channels_names [OF assms(1)] by (auto simp: r1_def)
  have 2: "stc_name ` set (sd_targets seed) \<subseteq> target_names (snd r2)"
    using sync_targets_names [of "snd r1" "se_target_ids E" 0 "sd_targets seed" "target_ids_of (list_targets (snd r1))"] assms(2) target_ids_contains
    unfolding r2_def by (metis Un_subset_iff keep(1))
  have 3: "ssp_slug ` set (sd_status_pages seed) \<subseteq> page_slugs s3"
    using sync_pages_slugs [of "snd r2" "se_page_ids E" 0 "sd_status_pages seed" "slug_ids_of (list_status_pages (snd r2))"] assms(3) slug_ids_contains
    unfolding s3_def by (metis Un_subset_iff keep(2))
  show "sch_name ` set (sd_channels seed) \<subseteq> channel_names (sync_from_config E seed s)"
    and "stc_name ` set (sd_targets seed) \<subseteq> target_names (sync_from_config E seed s)"
    and "ssp_slug ` set (sd_status_pages seed) \<subseteq> page_slugs (sync_from_config E seed s)"
    using 1 2 3 keep(3,4) by (simp_all add: run channel_names_def target_names_def)
qed

lemma sync_nothing_new:
  assumes "sch_name ` set (sd_channels seed) \<subseteq> channel_names s" "stc_name ` set (sd_targets seed) \<subseteq> target_names s"
    "ssp_slug ` set (sd_status_pages seed) \<subseteq> page_slugs s"
  shows "(sync_from_config E seed s)\<lparr>m_status_page_components := []\<rparr> = s\<lparr>m_status_page_components := []\<rparr>"
proof -
  have 1: "snd (sync_channels (se_now E) (se_channel_ids E) 0 (sd_channels seed) [] s) = s"
    by (rule sync_channels_skips) (rule assms(1))
  have 2: "sync_targets (se_now E) (se_target_ids E) 0 cids (sd_targets seed) (target_ids_of (list_targets s)) s
      = (target_ids_of (list_targets s), s)" for cids
    using assms(2) by (intro sync_targets_skips) (auto simp: target_ids_contains simp del: hm_contains_get)
  have 3: "\<forall>sp \<in> set (sd_status_pages seed). hm_contains (slug_ids_of (list_status_pages s)) (ssp_slug sp)"
    using assms(3) by (auto simp: slug_ids_contains simp del: hm_contains_get)
  show ?thesis by (simp add: sync_from_config_unfold Let_def 1 2 sync_pages_skips [OF 3])
qed

section \<open>Properties\<close>

text \<open>
  C34: seeding is idempotent.  When the identifiers drawn by the first run are
  unused and pairwise different, its result has every channel, target and page
  of the configuration, and a second run, whatever it draws, creates nothing
  and changes nothing but the components of the pages.
\<close>

theorem seeding_again_creates_nothing:
  assumes "unused_from (m_notification_channels s) (se_channel_ids E) 0 (length (sd_channels seed))"
    and "unused_from (m_targets s) (se_target_ids E) 0 (length (sd_targets seed))"
    and "unused_from (m_status_pages s) (se_page_ids E) 0 (length (sd_status_pages seed))"
    and "s' = sync_from_config E seed s"
  shows "sch_name ` set (sd_channels seed) \<subseteq> channel_names s' \<and>
         stc_name ` set (sd_targets seed) \<subseteq> target_names s' \<and>
         ssp_slug ` set (sd_status_pages seed) \<subseteq> page_slugs s' \<and>
         (sync_from_config E' seed s')\<lparr>m_status_page_components := []\<rparr> = s'\<lparr>m_status_page_components := []\<rparr>"
  using sync_names [OF assms(1-3)] sync_nothing_new [OF sync_names [OF assms(1-3)]] unfolding assms(4) by (intro conjI)

definition sample_seed :: seed_config where
  "sample_seed = \<lparr>sd_channels = [\<lparr>sch_name = ''ops'', sch_config = channel_config.Slack ''https://hooks.example''\<rparr>],
     sd_targets = [\<lparr>stc_name = ''db'', stc_check = Ping \<lparr>png_host = ''db.example'', png_timeout = 1000\<rparr>, stc_interval_secs = 30,
        stc_group_name = None, stc_tags = [], stc_alert_confirmations = 3, stc_notify_recovery = True,
        stc_renotify_interval_secs = 3600, stc_channel_names = [''ops'']\<rparr>],
     sd_status_pages = [\<lparr>ssp_name = ''Main'', ssp_slug = ''main'', ssp_title = None\<rparr>, \<lparr>ssp_name = ''Eu'', ssp_slug = ''eu'', ssp_title = None\<rparr>]\<rparr>"

definition sample_env :: seed_env where
  "sample_env = \<lparr>se_now = 0, se_channel_ids = (\<lambda>i. word_of_nat i + 10), se_target_ids = (\<lambda>i. word_of_nat i + 20),
     se_page_ids = (\<lambda>i. word_of_nat i + 30), se_walk = (\<lambda>m. m)\<rparr>"

theorem seeding_again_creates_nothing_witness:
  "stc_name ` set (sd_targets sample_seed) \<subseteq> target_names (sync_from_config sample_env sample_seed new_storage) \<and>
   (sync_from_config sample_env sample_seed (sync_from_config sample_env sample_seed new_storage))\<lparr>m_status_page_components := []\<rparr>
     = (sync_from_config sample_env sample_seed new_storage)\<lparr>m_status_page_components := []\<rparr>"
proof -
  have "unused_from (m_notification_channels new_storage) (se_channel_ids sample_env) 0 (length (sd_channels sample_seed))"
    and "unused_from (m_targets new_storage) (se_target_ids sample_env) 0 (length (sd_targets sample_seed))"
    and "unused_from (m_status_pages new_storage) (se_page_ids sample_env) 0 (length (sd_status_pages sample_seed))"
    by (simp_all add: unused_from_def new_storage_def sample_env_def sample_seed_def)
  from seeding_again_creates_nothing [OF this refl, of sample_env] show ?thesis by simp
qed

text \<open>
  Each start rebinds every target of the store, also one the configuration
  does not name, on each seeded page, and drops the public name and description
  an operator gave it.
\<close>

theorem seeding_rebinds_every_target:
  assumes "sp \<in> set (sd_status_pages seed)"
    and "hm_get (slug_ids_of (list_status_pages s)) (ssp_slug sp) = Some pid"
    and "hm_get (target_ids_of (list_targets s)) n = Some k"
    and "\<And>m. set (se_walk E m) = set m"
  shows "bound_unnamed pid k (sync_from_config E seed s)"
proof -
  define r1 where "r1 = sync_channels (se_now E) (se_channel_ids E) 0 (sd_channels seed) [] s"
  define r2 where "r2 = sync_targets (se_now E) (se_target_ids E) 0 (fst r1) (sd_targets seed)
    (target_ids_of (list_targets (snd r1))) (snd r1)"
  have "list_targets (snd r1) = list_targets s" by (simp add: list_targets_def r1_def)
  then have "(n, k) \<in> set (fst r2)"
    using sync_targets_keeps_ids [OF assms(3)] by (simp add: r2_def hm_get_entry)
  moreover have "list_status_pages (snd r2) = list_status_pages s" by (simp add: list_status_pages_def r1_def r2_def)
  ultimately show ?thesis
    using assms(1,2,4) unfolding sync_from_config_unfold Let_def
    by (fold r1_def, fold r2_def) (simp add: sync_pages_binds)
qed

definition named_store :: mem where
  "named_store = new_storage\<lparr>m_targets := [(20, seed_target 0 20 [] (hd (sd_targets sample_seed)))],
     m_status_pages := [(30, seed_page 0 30 (hd (sd_status_pages sample_seed)))],
     m_status_page_components := [((30, 20), \<lparr>spc_target_id = 20, spc_monitor_name = ''db'', spc_public_name = Some ''Database'',
        spc_public_description = None, spc_public_group = None, spc_sort_order = 0\<rparr>)]\<rparr>"

theorem seeding_rebinds_every_target_witness:
  "\<not> bound_unnamed 30 20 named_store \<and>
   bound_unnamed 30 20 (sync_from_config sample_env (sample_seed\<lparr>sd_targets := []\<rparr>) named_store)"
proof
  show "\<not> bound_unnamed 30 20 named_store" by (simp add: bound_unnamed_def named_store_def hm_get_def)
  have "hm_get (slug_ids_of (list_status_pages named_store)) ''main'' = Some 30"
    and "hm_get (target_ids_of (list_targets named_store)) ''db'' = Some 20"
    by (simp_all add: slug_ids_of_def target_ids_of_def list_status_pages_def list_targets_def named_store_def hm_values_def
        seed_page_def seed_target_def sample_seed_def)
  with seeding_rebinds_every_target [of "hd (sd_status_pages sample_seed)" "sample_seed\<lparr>sd_targets := []\<rparr>" named_store 30 "''db''" 20 sample_env]
  show "bound_unnamed 30 20 (sync_from_config sample_env (sample_seed\<lparr>sd_targets := []\<rparr>) named_store)"
    by (simp add: sample_seed_def sample_env_def)
qed

end
