(* ===== verification/Agent_Probes.thy ===== *)
theory Agent_Probes
  imports Probes Memory_Delivery On_Call
begin

text \<open>
  The probes of the \<open>agent\<close> feature (\<open>bin/status-server/src/probes/\<close>): DNS
  records, the expiry of a TLS certificate and the expiry of a domain.

  The resolver, the TLS library, the certificate parser, the RDAP service, the
  JSON parser and the date parsers are arguments, each with the outcome of
  the call; error texts are lists of pieces, as in \<open>Probes\<close>.  A date is its day
  number, and one probe reads the clock once.
\<close>

section \<open>Shared\<close>

definition tick :: "string \<Rightarrow> string" where
  "tick s = CHR 0x27 # s @ [CHR 0x27]"

text \<open>\<open>TimeDelta::num_days\<close> rounds toward zero; \<open>days as u32\<close> wraps.\<close>

definition num_days :: "duration \<Rightarrow> int" where
  "num_days d = (if d < 0 then - ((- d) div day_nanos) else d div day_nanos)"

definition as_u32 :: "int \<Rightarrow> nat" where
  "as_u32 d = nat (d mod 2 ^ 32)"

type_synonym socket_addr = "ip_addr \<times> nat"

definition socket_text :: "socket_addr \<Rightarrow> piece list" where
  "socket_text sa =
     (case sa of (V4 a, port) \<Rightarrow> [Addr (V4 a), Txt '':'', Cnt port] | (V6 a, port) \<Rightarrow> [Txt ''['', Addr (V6 a), Txt '']:'', Cnt port])"

definition resolve_with_guard ::
  "(string \<Rightarrow> nat \<Rightarrow> string + socket_addr list) \<Rightarrow> string \<Rightarrow> nat \<Rightarrow> piece list + socket_addr list" where
  "resolve_with_guard lookup host port =
     (case lookup host port of
        Inl e \<Rightarrow> Err [Txt ''dns lookup '', Txt (tick host), Txt '': '', Txt e]
      | Inr resolved \<Rightarrow>
         (case filter_addrs strict host (map fst resolved) of
            Inl e \<Rightarrow> Err ([Txt ''ssrf '', Txt (tick host), Txt '': ''] @ ssrf_error_text e)
          | Inr allowed \<Rightarrow> Ok (filter (\<lambda>sa. fst sa \<in> set allowed) resolved)))"

section \<open>DNS\<close>

fun record_type_as_str :: "dns_record_type \<Rightarrow> string" where
  "record_type_as_str A = ''A''"
| "record_type_as_str Aaaa = ''AAAA''"
| "record_type_as_str Cname = ''CNAME''"
| "record_type_as_str Mx = ''MX''"
| "record_type_as_str Ns = ''NS''"
| "record_type_as_str dns_record_type.Txt = ''TXT''"
| "record_type_as_str Soa = ''SOA''"
| "record_type_as_str Ptr = ''PTR''"
| "record_type_as_str Caa = ''CAA''"
| "record_type_as_str Srv = ''SRV''"

text \<open>The derived \<open>Debug\<close> of the response codes.\<close>

fun rcode_debug :: "dns_rcode \<Rightarrow> string" where
  "rcode_debug Noerror = ''Noerror''"
| "rcode_debug Nxdomain = ''Nxdomain''"
| "rcode_debug Servfail = ''Servfail''"
| "rcode_debug Refused = ''Refused''"
| "rcode_debug Formerr = ''Formerr''"
| "rcode_debug Notimp = ''Notimp''"

text \<open>\<open>rl_build\<close> builds the resolver for an address (or the system one), \<open>rl_query\<close> asks it; both may fail with a text.\<close>

record resolver_lib =
  rl_build :: "string option \<Rightarrow> duration \<Rightarrow> string + unit"
  rl_query :: "string option \<Rightarrow> string \<Rightarrow> dns_record_type \<Rightarrow> string + string list"

definition build_resolver :: "resolver_lib \<Rightarrow> string option \<Rightarrow> duration \<Rightarrow> string + unit" where
  "build_resolver R addr timeout =
     (case rl_build R addr timeout of
        Inl e \<Rightarrow> Err ((case addr of Some _ \<Rightarrow> ''build single resolver: '' | None \<Rightarrow> ''system resolver build: '') @ e)
      | Inr _ \<Rightarrow> Ok ())"

definition judge_dns_failure :: "dns_check \<Rightarrow> string \<Rightarrow> outcome" where
  "judge_dns_failure c e =
     (case dns_expected_rcode c of
        Some expected \<Rightarrow>
          (let err_str = to_uppercase e in
           if contains_str err_str (to_uppercase (rcode_debug expected)) \<or> (expected = Nxdomain \<and> contains_str err_str ''NXDOMAIN'')
           then (Up, None, None)
           else (Down, None, Some [Txt ''dns '', Txt (tick (dns_domain c)), Txt '': expected '', Txt (rcode_debug expected),
                   Txt '', got error: '', Txt e]))
      | None \<Rightarrow> (Down, None, Some [Txt ''dns resolve '', Txt (tick (dns_domain c)), Txt '' '',
                   Txt (record_type_as_str (dns_rtype c)), Txt '': '', Txt e]))"

definition judge_records :: "dns_check \<Rightarrow> string list \<Rightarrow> outcome" where
  "judge_records c shown =
     (let answers = filter (\<lambda>s. s \<noteq> []) shown in
      if answers = [] then
        (Down, None, Some [Txt ''dns '', Txt (tick (dns_domain c)), Txt '': no '', Txt (record_type_as_str (dns_rtype c)),
           Txt '' records in answer''])
      else (case dns_expected_contains c of
         Some needle \<Rightarrow>
           if needle = [] \<or> (\<exists>a \<in> set answers. contains_str a needle) then (Up, None, None)
           else (Down, None, Some [Txt ''dns '', Txt (tick (dns_domain c)), Txt '': no '', Txt (record_type_as_str (dns_rtype c)),
                   Txt '' record contains '', Txt (tick needle)])
       | None \<Rightarrow> (Up, None, None)))"

definition judge_dns_answer :: "dns_check \<Rightarrow> string list \<Rightarrow> outcome" where
  "judge_dns_answer c shown =
     (case dns_expected_rcode c of
        Some expected \<Rightarrow>
          if expected \<noteq> Noerror
          then (Down, None, Some [Txt ''dns '', Txt (tick (dns_domain c)), Txt '': expected '', Txt (rcode_debug expected), Txt '', got NOERROR''])
          else judge_records c shown
      | None \<Rightarrow> judge_records c shown)"

definition probe_dns :: "resolver_lib \<Rightarrow> dns_check \<Rightarrow> outcome" where
  "probe_dns R c =
     (case build_resolver R (dns_resolver c) (dns_timeout c) of
        Inl e \<Rightarrow> (check_status.Error, None, Some (case dns_resolver c of
            Some addr \<Rightarrow> [Txt ''dns resolver '', Txt (tick addr), Txt '': '', Txt e]
          | None \<Rightarrow> [Txt ''dns resolver system: '', Txt e]))
      | Inr _ \<Rightarrow>
         (case rl_query R (dns_resolver c) (dns_domain c) (dns_rtype c) of
            Inl e \<Rightarrow> judge_dns_failure c e
          | Inr shown \<Rightarrow> judge_dns_answer c shown))"

section \<open>TLS certificates\<close>

text \<open>
  The calls of a TLS probe: building the connector, reading the server name,
  name lookup, connecting, the handshake with the chain the server presented,
  and the certificate parser with the conversion of a time stamp.
\<close>

record 'der tls_lib =
  tl_connector :: "string + unit"
  tl_server_name :: "string \<Rightarrow> string + unit"
  tl_lookup :: "string \<Rightarrow> nat \<Rightarrow> string + socket_addr list"
  tl_connect :: "socket_addr \<Rightarrow> unit attempt"
  tl_handshake :: "string \<Rightarrow> socket_addr \<Rightarrow> string + 'der list option"
  tl_not_after :: "'der \<Rightarrow> string + int"
  tl_from_timestamp :: "int \<Rightarrow> instant option"

definition tls_attempt :: "'der tls_lib \<Rightarrow> string \<Rightarrow> duration \<Rightarrow> socket_addr \<Rightarrow> piece list + 'der" where
  "tls_attempt T sni timeout sa =
     (case tl_connect T sa of
        TimedOut \<Rightarrow> Err (Txt ''tcp connect '' # socket_text sa @ [Txt '': timeout after '', Cnt (millis timeout), Txt '' ms''])
      | Broken e \<Rightarrow> Err (Txt ''tcp connect '' # socket_text sa @ [Txt '': '', Txt e])
      | Done _ \<Rightarrow>
         (case tl_handshake T sni sa of
            Inl e \<Rightarrow> Err (Txt ''tls handshake '' # socket_text sa @ [Txt '': '', Txt e])
          | Inr None \<Rightarrow> Err [Txt ''server presented no certificate'']
          | Inr (Some []) \<Rightarrow> Err [Txt ''empty peer certificate chain'']
          | Inr (Some (leaf # _)) \<Rightarrow> Ok leaf))"

text \<open>The loop over the addresses, with the addresses it tried.\<close>

fun tls_handshake ::
  "'der tls_lib \<Rightarrow> string \<Rightarrow> duration \<Rightarrow> socket_addr list \<Rightarrow> piece list option \<Rightarrow> (piece list + 'der) \<times> socket_addr list" where
  "tls_handshake T sni timeout [] last_err =
     (Err (case last_err of Some e \<Rightarrow> e | None \<Rightarrow> [Txt ''no addresses to connect to'']), [])"
| "tls_handshake T sni timeout (sa # addrs) last_err =
     (case tls_attempt T sni timeout sa of
        Inr der \<Rightarrow> (Ok der, [sa])
      | Inl e \<Rightarrow> (case tls_handshake T sni timeout addrs (Some e) of (r, tried) \<Rightarrow> (r, sa # tried)))"

definition cert_days_remaining :: "'der tls_lib \<Rightarrow> instant \<Rightarrow> 'der \<Rightarrow> string + int" where
  "cert_days_remaining T now der =
     (case tl_not_after T der of
        Inl e \<Rightarrow> Err (''x509 parse: '' @ e)
      | Inr ts \<Rightarrow>
         (case tl_from_timestamp T ts of
            None \<Rightarrow> Err ''x509 not_after: invalid timestamp''
          | Some not_after \<Rightarrow> Ok (num_days (not_after - now))))"

definition judge_certificate :: "tls_cert_check \<Rightarrow> int \<Rightarrow> outcome" where
  "judge_certificate c days_remaining =
     (let host_port = CHR 0x27 # tls_host c @ '':'' in
      if days_remaining < 0 then
        (Down, None, Some [Txt ''certificate for '', Txt host_port, Cnt (tls_port c), Txt [CHR 0x27], Txt '' expired '',
           Whole (- days_remaining), Txt '' day(s) ago''])
      else if as_u32 days_remaining < tls_warn_days c then
        (check_status.Degraded, None, Some [Txt ''certificate for '', Txt host_port, Cnt (tls_port c), Txt [CHR 0x27],
           Txt '' expires in '', Whole days_remaining, Txt '' day(s)''])
      else (Up, None, None))"

definition probe_tls_cert :: "'der tls_lib \<Rightarrow> instant \<Rightarrow> tls_cert_check \<Rightarrow> outcome \<times> socket_addr list" where
  "probe_tls_cert T now c =
     (let host_port = [Txt (CHR 0x27 # tls_host c @ '':''), Cnt (tls_port c), Txt [CHR 0x27], Txt '': ''];
          server_name = (case tls_server_name c of Some n \<Rightarrow> n | None \<Rightarrow> tls_host c) in
      case tl_connector T of
        Inl e \<Rightarrow> ((check_status.Error, None, Some [Txt ''tls connector build: '', Txt e]), [])
      | Inr _ \<Rightarrow>
         (case tl_server_name T server_name of
            Inl e \<Rightarrow> ((check_status.Error, None, Some [Txt ''tls sni '', Txt (tick server_name), Txt '': '', Txt e]), [])
          | Inr _ \<Rightarrow>
             (case resolve_with_guard (tl_lookup T) (tls_host c) (tls_port c) of
                Inl e \<Rightarrow> ((check_status.Error, None, Some (Txt ''tls resolve '' # host_port @ e)), [])
              | Inr [] \<Rightarrow> ((check_status.Error, None, Some (Txt ''tls '' # host_port @
                    [Txt ''every resolved address is in a blocked range''])), [])
              | Inr addrs \<Rightarrow>
                 (case tls_handshake T server_name (tls_timeout c) addrs None of
                    (Inl e, tried) \<Rightarrow> ((Down, None, Some (Txt ''tls handshake '' # host_port @ e)), tried)
                  | (Inr leaf, tried) \<Rightarrow>
                     (case cert_days_remaining T now leaf of
                        Inl e \<Rightarrow> ((check_status.Error, None, Some [Txt ''tls cert parse '', Txt (tick (tls_host c)), Txt '': '', Txt e]), tried)
                      | Inr days_remaining \<Rightarrow> (judge_certificate c days_remaining, tried))))))"

section \<open>Domain expiry\<close>

definition value_as_str :: "json \<Rightarrow> string option" where
  "value_as_str v = (case v of JString s \<Rightarrow> Some s | _ \<Rightarrow> None)"

definition value_as_array :: "json \<Rightarrow> json list option" where
  "value_as_array v = (case v of JArray vs \<Rightarrow> Some vs | _ \<Rightarrow> None)"

definition slice_get :: "'a list \<Rightarrow> nat \<Rightarrow> 'a option" where
  "slice_get xs i = (if i < length xs then Some (xs ! i) else None)"

fun find_map :: "('a \<Rightarrow> 'b option) \<Rightarrow> 'a list \<Rightarrow> 'b option" where
  "find_map f [] = None"
| "find_map f (x # xs) = (case f x of Some y \<Rightarrow> Some y | None \<Rightarrow> find_map f xs)"

definition fn_value :: "json list \<Rightarrow> string option" where
  "fn_value prop_arr =
     (case slice_get prop_arr 3 of
        None \<Rightarrow> None
      | Some v \<Rightarrow> (case value_as_str v of Some s \<Rightarrow> Some s | None \<Rightarrow> Option.bind (value_as_array v) (find_map value_as_str)))"

fun vcard_name :: "json list \<Rightarrow> string option" where
  "vcard_name [] = None"
| "vcard_name (p # ps) =
     (case value_as_array p of
        None \<Rightarrow> None
      | Some prop_arr \<Rightarrow>
         (case Option.bind (slice_get prop_arr 0) value_as_str of
            None \<Rightarrow> None
          | Some name \<Rightarrow>
             if name = ''fn'' then (case fn_value prop_arr of Some s \<Rightarrow> Some s | None \<Rightarrow> vcard_name ps)
             else vcard_name ps))"

definition entity_name_from_vcard :: "json \<Rightarrow> string option" where
  "entity_name_from_vcard entity =
     Option.bind (Option.bind (json_get entity ''vcardArray'') value_as_array) (\<lambda>vcard_array.
       Option.bind (Option.bind (slice_get vcard_array 1) value_as_array) vcard_name)"

record rdap_info =
  ri_expires_at :: "int option"
  ri_registrar :: "string option"

text \<open>An answer of the RDAP service: the status with its text, and the body or the error of reading it.\<close>

record rdap_answer =
  ra_status :: nat
  ra_shown :: string
  ra_body :: "string + string"

record rdap_lib =
  rd_client :: "string + unit"
  rd_get :: "nat \<Rightarrow> string \<Rightarrow> string + rdap_answer"
  rd_json :: "string \<Rightarrow> string + json"
  rd_rfc3339 :: "string \<Rightarrow> int option"
  rd_ymd :: "string \<Rightarrow> int option"
  rd_psl :: "string \<Rightarrow> string option"

definition parse_rdap_date :: "rdap_lib \<Rightarrow> string \<Rightarrow> int option" where
  "parse_rdap_date D s = (case rd_rfc3339 D s of Some d \<Rightarrow> Some d | None \<Rightarrow> rd_ymd D s)"

definition expiration_date_of :: "json \<Rightarrow> string option" where
  "expiration_date_of ev =
     Option.bind (Option.bind (json_get ev ''eventAction'') value_as_str) (\<lambda>action.
       if action = ''expiration'' then Option.bind (json_get ev ''eventDate'') value_as_str else None)"

definition registrar_of :: "json \<Rightarrow> string option" where
  "registrar_of entity =
     Option.bind (Option.bind (json_get entity ''roles'') value_as_array) (\<lambda>roles.
       if \<not> (\<exists>r \<in> set roles. value_as_str r = Some ''registrar'') then None else entity_name_from_vcard entity)"

definition parse_rdap_response :: "rdap_lib \<Rightarrow> json \<Rightarrow> rdap_info" where
  "parse_rdap_response D v =
     \<lparr>ri_expires_at = Option.bind (Option.bind (Option.bind (json_get v ''events'') value_as_array) (find_map expiration_date_of))
        (parse_rdap_date D),
      ri_registrar = Option.bind (Option.bind (json_get v ''entities'') value_as_array) (find_map registrar_of)\<rparr>"

definition read_rdap :: "rdap_lib \<Rightarrow> string \<Rightarrow> rdap_answer \<Rightarrow> string + rdap_info" where
  "read_rdap D url resp =
     (if \<not> (200 \<le> ra_status resp \<and> ra_status resp < 300) then Err (''GET '' @ url @ '': HTTP '' @ ra_shown resp)
      else (case ra_body resp of
         Inl e \<Rightarrow> Err (''GET '' @ url @ '': body read: '' @ e)
       | Inr body \<Rightarrow>
          (case rd_json D body of
             Inl e \<Rightarrow> Err (''GET '' @ url @ '': json parse: '' @ e)
           | Inr v \<Rightarrow> Ok (parse_rdap_response D v))))"

text \<open>\<open>rd_get\<close> takes the number of the attempt: a second request follows a 429.\<close>

definition query_rdap :: "rdap_lib \<Rightarrow> string \<Rightarrow> string + rdap_info" where
  "query_rdap D domain =
     (let url = ''https://rdap.org/domain/'' @ domain in
      case rd_client D of
        Inl e \<Rightarrow> Err (''client build: '' @ e)
      | Inr _ \<Rightarrow>
         (case rd_get D 0 url of
            Inl e \<Rightarrow> Err (''GET '' @ url @ '': '' @ e)
          | Inr resp \<Rightarrow>
             if ra_status resp = 429 then
               (case rd_get D 1 url of
                  Inl e \<Rightarrow> Err (''GET '' @ url @ '' (retry after 429): '' @ e)
                | Inr resp' \<Rightarrow> read_rdap D url resp')
             else read_rdap D url resp))"

definition evaluate :: "instant \<Rightarrow> string \<Rightarrow> int option \<Rightarrow> string option \<Rightarrow> nat \<Rightarrow> piece list option \<Rightarrow> outcome" where
  "evaluate now domain expires_at registrar warn_days stale_error =
     (case expires_at of
        None \<Rightarrow> (check_status.Error, None, Some [Txt ''rdap '', Txt (tick domain), Txt '': no expiration date ('',
                  Txt (case registrar of None \<Rightarrow> ''no registrar'' | Some r \<Rightarrow> ''registrar='' @ r), Txt '')''])
      | Some expiry \<Rightarrow>
         (let days_remaining = expiry - date_naive now;
              suffix = (case registrar of Some r \<Rightarrow> '' (registrar: '' @ r @ '')'' | None \<Rightarrow> []) in
          if days_remaining < 0 then
            (Down, None, Some (case stale_error of
               Some s \<Rightarrow> s @ [Txt ''; expired '', Whole (- days_remaining), Txt ''d ago'']
             | None \<Rightarrow> [Txt ''domain '', Txt (tick domain), Txt '' expired '', Whole (- days_remaining), Txt '' day(s) ago'', Txt suffix]))
          else if as_u32 days_remaining < warn_days then
            (check_status.Degraded, None, Some (case stale_error of
               Some s \<Rightarrow> s @ [Txt ''; expires in '', Whole days_remaining, Txt ''d'']
             | None \<Rightarrow> [Txt ''domain '', Txt (tick domain), Txt '' expires in '', Whole days_remaining, Txt '' day(s)'', Txt suffix]))
          else (case stale_error of Some s \<Rightarrow> (check_status.Degraded, None, Some s) | None \<Rightarrow> (Up, None, None))))"

definition stale_text :: "instant \<Rightarrow> domain_expiry_state \<Rightarrow> string \<Rightarrow> string \<Rightarrow> piece list" where
  "stale_text now cached domain e =
     [Txt SERVED_STALE_PREFIX, Txt '' age='', Whole (max 0 (num_days (now - des_fetched_at cached))),
      Txt (''d; {'' @ [CHR 0x22] @ ''domain'' @ [CHR 0x22] @ '':'' @ [CHR 0x22] @ domain @ [CHR 0x22] @ '','' @ [CHR 0x22] @
        ''rdap_error'' @ [CHR 0x22] @ '':'' @ [CHR 0x22] @ e @ [CHR 0x22] @ ''}'')]"

text \<open>The in-memory store never fails to read or write the cached state, so that branch of the source does not arise.\<close>

definition probe_domain_expiry :: "rdap_lib \<Rightarrow> instant \<Rightarrow> uuid \<Rightarrow> domain_expiry_check \<Rightarrow> mem \<Rightarrow> outcome \<times> mem" where
  "probe_domain_expiry D now target_id c s =
     (let domain = registered_domain (rd_psl D) (dx_domain c) in
      case query_rdap D domain of
        Inr info \<Rightarrow>
          (let state = \<lparr>des_target_id = target_id, des_domain = domain, des_expires_at = ri_expires_at info,
                        des_registrar = ri_registrar info, des_fetched_at = now\<rparr>
           in (evaluate now domain (ri_expires_at info) (ri_registrar info) (dx_warn_days c) None, snd (set_domain_expiry_state state s)))
      | Inl e \<Rightarrow>
         (case get_domain_expiry_state s target_id of
            Some cached \<Rightarrow>
              (evaluate now (des_domain cached) (des_expires_at cached) (des_registrar cached) (dx_warn_days c)
                 (Some (stale_text now cached domain e)), s)
          | None \<Rightarrow> ((check_status.Error, None, Some [Txt ''rdap '', Txt (tick domain), Txt '' failed and no cached state: '', Txt e]), s)))"

section \<open>Days\<close>

lemma day_pos: "0 < day_nanos"
  by (simp add: day_nanos_def)

lemma num_days_neg: "num_days d < 0 \<longleftrightarrow> d \<le> - day_nanos"
  using pos_imp_zdiv_pos_iff [OF day_pos, of "- d"] pos_imp_zdiv_nonneg_iff [OF day_pos, of d]
  by (auto simp: num_days_def day_nanos_def)

lemma num_days_less: "0 \<le> num_days d \<Longrightarrow> 0 < w \<Longrightarrow> num_days d < w \<longleftrightarrow> d < w * day_nanos"
  by (auto simp: num_days_def day_nanos_def split: if_splits)

lemma as_u32_small: "0 \<le> d \<Longrightarrow> d < 2 ^ 32 \<Longrightarrow> int (as_u32 d) = d"
  by (simp add: as_u32_def)

text \<open>The status of a certificate in terms of the time left.\<close>

lemma judge_certificate_time:
  assumes "d < 2 ^ 32 * day_nanos"
  shows "fst (judge_certificate c (num_days d)) =
    (if d \<le> - day_nanos then Down
     else if tls_warn_days c \<noteq> 0 \<and> d < int (tls_warn_days c) * day_nanos then check_status.Degraded else Up)"
proof (cases "num_days d < 0")
  case True
  then show ?thesis using num_days_neg by (simp add: judge_certificate_def Let_def)
next
  case False
  then have "num_days d < 2 ^ 32" using num_days_less [of d "2 ^ 32"] assms by simp
  with False have "as_u32 (num_days d) < tls_warn_days c \<longleftrightarrow> num_days d < int (tls_warn_days c)"
    using as_u32_small [of "num_days d"] by linarith
  moreover have "tls_warn_days c \<noteq> 0 \<Longrightarrow> num_days d < int (tls_warn_days c) \<longleftrightarrow> d < int (tls_warn_days c) * day_nanos"
    using False by (intro num_days_less) auto
  ultimately show ?thesis using False num_days_neg by (auto simp: judge_certificate_def Let_def)
qed

section \<open>Addresses\<close>

lemma resolve_allowed:
  assumes "resolve_with_guard lookup host port = Ok addrs"
  shows "\<exists>resolved. lookup host port = Inr resolved \<and> addrs = filter (\<lambda>sa. \<not> is_blocked_ip (fst sa)) resolved \<and> addrs \<noteq> []"
  using assms
  by (auto simp: resolve_with_guard_def filter_addrs_def strict_def Let_def filter_empty_conv split: sum.splits if_splits
      intro!: filter_cong) force+

lemma handshake_tried: "set (snd (tls_handshake T sni timeout addrs last_err)) \<subseteq> set addrs"
proof (induction addrs arbitrary: last_err)
  case (Cons sa addrs)
  then show ?case by (cases "tls_attempt T sni timeout sa") (simp_all add: split_beta subset_insertI2)
qed simp

lemma handshake_failed: "tls_handshake T sni timeout addrs last_err = (Inl e, tried) \<Longrightarrow> tried = addrs"
  by (induction addrs arbitrary: last_err tried e) (auto split: sum.splits prod.splits)

lemma probe_tried:
  assumes "sa \<in> set (snd (probe_tls_cert T now c))"
  obtains addrs where "resolve_with_guard (tl_lookup T) (tls_host c) (tls_port c) = Ok addrs" "sa \<in> set addrs"
proof -
  have "\<exists>addrs. resolve_with_guard (tl_lookup T) (tls_host c) (tls_port c) = Ok addrs \<and>
      sa \<in> set (snd (tls_handshake T (case tls_server_name c of Some n \<Rightarrow> n | None \<Rightarrow> tls_host c) (tls_timeout c) addrs None))"
    using assms by (auto simp: probe_tls_cert_def Let_def split: sum.splits list.splits prod.splits)
  then show thesis using that handshake_tried by (meson subsetD)
qed

section \<open>Properties\<close>

text \<open>
  C31: the verdict on a certificate, in time.  When the handshake delivers a
  leaf that can be read, the check is down when the certificate ended at least
  a day ago, degraded when a warning period is set and less than it is left,
  and up otherwise.
\<close>

theorem certificate_verdict_by_time:
  assumes "tl_connector T = Inr ()"
    and "tl_server_name T (case tls_server_name c of Some n \<Rightarrow> n | None \<Rightarrow> tls_host c) = Inr ()"
    and "resolve_with_guard (tl_lookup T) (tls_host c) (tls_port c) = Ok addrs"
    and "fst (tls_handshake T (case tls_server_name c of Some n \<Rightarrow> n | None \<Rightarrow> tls_host c) (tls_timeout c) addrs None) = Ok leaf"
    and "tl_not_after T leaf = Inr ts" and "tl_from_timestamp T ts = Some not_after"
    and "not_after - now < 2 ^ 32 * day_nanos"
  shows "fst (fst (probe_tls_cert T now c)) =
    (if not_after + day_nanos \<le> now then Down
     else if tls_warn_days c \<noteq> 0 \<and> not_after < now + int (tls_warn_days c) * day_nanos then check_status.Degraded
     else Up)"
proof -
  obtain tried where run: "tls_handshake T (case tls_server_name c of Some n \<Rightarrow> n | None \<Rightarrow> tls_host c) (tls_timeout c) addrs None
      = (Inr leaf, tried)"
    using assms(4) by (metis prod.collapse)
  obtain sa rest where addrs: "addrs = sa # rest" using resolve_allowed [OF assms(3)] by (cases addrs) auto
  have "fst (probe_tls_cert T now c) = judge_certificate c (num_days (not_after - now))"
    using assms(1-3,5,6) run by (simp add: probe_tls_cert_def cert_days_remaining_def addrs Let_def)
  moreover have "not_after - now \<le> - day_nanos \<longleftrightarrow> not_after + day_nanos \<le> now"
    and "not_after - now < int (tls_warn_days c) * day_nanos \<longleftrightarrow> not_after < now + int (tls_warn_days c) * day_nanos"
    by linarith+
  ultimately show ?thesis using judge_certificate_time [OF assms(7), of c] by simp
qed

definition sample_tls :: "int tls_lib" where
  "sample_tls = \<lparr>tl_connector = Inr (), tl_server_name = (\<lambda>_. Inr ()),
     tl_lookup = (\<lambda>_ port. Inr [(V4 (Ipv4Addr 10 0 0 1), port), (V4 (Ipv4Addr 93 184 216 34), port)]),
     tl_connect = (\<lambda>_. Done ()), tl_handshake = (\<lambda>_ _. Inr (Some [5])), tl_not_after = Inr,
     tl_from_timestamp = (\<lambda>ts. Some (ts * day_nanos))\<rparr>"

definition sample_tls_check :: tls_cert_check where
  "sample_tls_check = \<lparr>tls_host = ''a.example'', tls_port = 443, tls_server_name = None, tls_warn_days = 14,
     tls_critical_days = 7, tls_timeout = 1000\<rparr>"

lemma sample_tls_addrs:
  "resolve_with_guard (tl_lookup sample_tls) (tls_host sample_tls_check) (tls_port sample_tls_check)
     = Ok [(V4 (Ipv4Addr 93 184 216 34), 443)]"
  by code_simp

theorem certificate_verdict_by_time_witness: "fst (fst (probe_tls_cert sample_tls 0 sample_tls_check)) = check_status.Degraded"
proof -
  have "tl_connector sample_tls = Inr ()" "tl_not_after sample_tls 5 = Inr 5"
    and "tl_from_timestamp sample_tls 5 = Some (5 * day_nanos)"
    and "tl_server_name sample_tls (case tls_server_name sample_tls_check of Some n \<Rightarrow> n | None \<Rightarrow> tls_host sample_tls_check) = Inr ()"
    and "fst (tls_handshake sample_tls (case tls_server_name sample_tls_check of Some n \<Rightarrow> n | None \<Rightarrow> tls_host sample_tls_check)
      (tls_timeout sample_tls_check) [(V4 (Ipv4Addr 93 184 216 34), 443)] None) = Ok 5"
    by (simp_all add: sample_tls_def tls_attempt_def)
  from certificate_verdict_by_time [OF this(1,4) sample_tls_addrs this(5,2,3), of 0]
  show ?thesis by (simp add: day_nanos_def sample_tls_check_def)
qed

text \<open>A certificate that ended less than a day ago is not reported down; without a warning period it is up.\<close>

lemma just_expired_certificate_not_down:
  "now - day_nanos < not_after \<Longrightarrow> not_after < now \<Longrightarrow>
   fst (judge_certificate c (num_days (not_after - now))) = (if tls_warn_days c = 0 then Up else check_status.Degraded)"
  using judge_certificate_time [of "not_after - now" c] zero_le_mult_iff [of "int (tls_warn_days c)" day_nanos] day_pos
  by (auto simp: day_nanos_def)

text \<open>
  A TLS probe connects only to addresses the lookup gave and the guard does
  not block, and it gives up on the handshake only after it tried all of them.
\<close>

theorem tls_probe_contacts_allowed:
  "(\<forall>sa \<in> set (snd (probe_tls_cert T now c)). \<not> is_blocked_ip (fst sa) \<and>
      (\<exists>resolved. tl_lookup T (tls_host c) (tls_port c) = Inr resolved \<and> sa \<in> set resolved)) \<and>
   (resolve_with_guard (tl_lookup T) (tls_host c) (tls_port c) = Ok addrs \<longrightarrow>
      tls_handshake T sni timeout addrs None = (Inl e, tried) \<longrightarrow> tried = addrs)"
proof (intro conjI ballI impI)
  fix sa assume "sa \<in> set (snd (probe_tls_cert T now c))"
  then obtain addrs where "resolve_with_guard (tl_lookup T) (tls_host c) (tls_port c) = Ok addrs" "sa \<in> set addrs"
    by (rule probe_tried)
  then show "\<not> is_blocked_ip (fst sa)"
    and "\<exists>resolved. tl_lookup T (tls_host c) (tls_port c) = Inr resolved \<and> sa \<in> set resolved"
    using resolve_allowed [of "tl_lookup T" "tls_host c" "tls_port c" addrs] by auto
qed (rule handshake_failed)

text \<open>\<open>resolve_with_guard\<close> never returns the empty list its comment speaks of.\<close>

lemma resolve_never_empty: "resolve_with_guard lookup host port \<noteq> Ok []"
  using resolve_allowed [of lookup host port "[]"] by auto

text \<open>
  C33: an outage of RDAP keeps the last known expiry.  After a query that
  delivered an expiry date, a query of the same target that fails is judged by
  the date of the cache: down when the date is past on that day and degraded
  otherwise, never up; its text carries the mark that hides it from customers,
  and the cache is kept.
\<close>

theorem rdap_outage_keeps_expiry:
  assumes "query_rdap D (registered_domain (rd_psl D) (dx_domain c)) = Inr info" and "ri_expires_at info = Some e"
    and "query_rdap D' (registered_domain (rd_psl D') (dx_domain c')) = Inl err"
    and "probe_domain_expiry D t k c s = (o1, s1)" and "probe_domain_expiry D' t' k c' s1 = (o2, s2)"
  shows "fst o2 = (if e < date_naive t' then Down else check_status.Degraded) \<and>
    (\<exists>rest. snd (snd o2) = Some (Txt SERVED_STALE_PREFIX # rest)) \<and> s2 = s1"
proof -
  have "get_domain_expiry_state s1 k =
      Some \<lparr>des_target_id = k, des_domain = registered_domain (rd_psl D) (dx_domain c), des_expires_at = Some e,
        des_registrar = ri_registrar info, des_fetched_at = t\<rparr>"
    using assms(1,2,4) by (auto simp: probe_domain_expiry_def get_domain_expiry_state_def set_domain_expiry_state_def Let_def)
  then show ?thesis
    using assms(3,5) by (auto simp: probe_domain_expiry_def evaluate_def stale_text_def Let_def split: if_splits)
qed

definition sample_rdap :: "nat \<Rightarrow> rdap_lib" where
  "sample_rdap status = \<lparr>rd_client = Inr (), rd_get = (\<lambda>_ _. Inr \<lparr>ra_status = status, ra_shown = ''answer'', ra_body = Inr ''body''\<rparr>),
     rd_json = (\<lambda>_. Inr (JObject [(''events'', JArray [JObject [(''eventAction'', JString ''expiration''), (''eventDate'', JString ''2030-06-15'')]])])),
     rd_rfc3339 = (\<lambda>_. None), rd_ymd = (\<lambda>_. Some 22080), rd_psl = (\<lambda>_. None)\<rparr>"

definition sample_domain_check :: domain_expiry_check where
  "sample_domain_check = \<lparr>dx_domain = ''a.example'', dx_warn_days = 30, dx_critical_days = 7, dx_timeout = 1000\<rparr>"

theorem rdap_outage_keeps_expiry_witness:
  "fst (fst (probe_domain_expiry (sample_rdap 503) 0 1 sample_domain_check
     (snd (probe_domain_expiry (sample_rdap 200) 0 1 sample_domain_check new_storage)))) = check_status.Degraded"
proof -
  have "query_rdap (sample_rdap 200) d = Inr \<lparr>ri_expires_at = Some 22080, ri_registrar = None\<rparr>"
    and "query_rdap (sample_rdap 503) d' = Inl (''GET '' @ ''https://rdap.org/domain/'' @ d' @ '': HTTP answer'')" for d d'
    by (simp_all add: query_rdap_def read_rdap_def sample_rdap_def parse_rdap_response_def value_as_array_def value_as_str_def
        expiration_date_of_def parse_rdap_date_def Let_def)
  from rdap_outage_keeps_expiry [OF this(1) _ this(2) surjective_pairing surjective_pairing, of 22080]
  show ?thesis by (simp add: date_naive_def)
qed

text \<open>
  A DNS check is up in exactly two cases: the query failed and its text names
  the expected response code, or it succeeded, no other code was expected, and
  there is a record, one with the expected text where a text is expected.
\<close>

theorem dns_up_iff:
  "fst (probe_dns R c) = Up \<longleftrightarrow>
     rl_build R (dns_resolver c) (dns_timeout c) = Inr () \<and>
     (case rl_query R (dns_resolver c) (dns_domain c) (dns_rtype c) of
        Inl e \<Rightarrow> \<exists>rc. dns_expected_rcode c = Some rc \<and> contains_str (to_uppercase e) (to_uppercase (rcode_debug rc))
      | Inr shown \<Rightarrow> (dns_expected_rcode c = None \<or> dns_expected_rcode c = Some Noerror) \<and>
          (\<exists>a \<in> set shown. a \<noteq> [] \<and>
             (\<forall>needle. dns_expected_contains c = Some needle \<longrightarrow> needle = [] \<or> contains_str a needle)))"
proof -
  have nx: "to_uppercase ''Nxdomain'' = ''NXDOMAIN''"
    by code_simp
  have "fst (judge_dns_failure c e) = Up \<longleftrightarrow>
      (\<exists>rc. dns_expected_rcode c = Some rc \<and> contains_str (to_uppercase e) (to_uppercase (rcode_debug rc)))" for e
    by (auto simp: judge_dns_failure_def Let_def nx split: option.split)
  moreover have "fst (judge_records c shown) = Up \<longleftrightarrow> (\<exists>a \<in> set shown. a \<noteq> [] \<and>
      (\<forall>needle. dns_expected_contains c = Some needle \<longrightarrow> needle = [] \<or> contains_str a needle))" for shown
    by (auto simp: judge_records_def Let_def filter_empty_conv split: option.split)
  ultimately show ?thesis
    by (auto simp: probe_dns_def build_resolver_def judge_dns_answer_def split: sum.splits option.splits)
qed

end
