(* ===== verification/Spec2Isabelle.thy ===== *)
theory Spec2Isabelle
  imports Check_Spec Slugs Memory_Analytics Subscriber_Dispatch Escalation_Engine Incident_Writer Auth_Routes Condition_Dsl
    Scheduler Rate_Limit Incident_Domain Errors Escalation_Policy On_Call Glob Ssrf Channel_Config
    Config_Api Notifiers Cached_Storage Cleanup Mcp Outbound Sealing Seed Agent_Probes
begin

text \<open>
  A verification library for the status page server.

  \<^bold>\<open>The program.\<close>  A server probes targets (web sites, hosts, name servers) and
  stores every result.  The incident coalescer looks at the newest results of
  a target, opens and closes incidents, alerts the notification channels bound
  to the target, queues deliveries for the subscribers of the status pages
  that show it, and seeds the escalation state of the incident.  The
  escalation engine sweeps those states and pages the rungs of the policy,
  resolving on-call schedules to the person on duty.  The dispatch worker
  sends the queued deliveries with retries.  Operators log in by magic link or
  API token and manage all of this through HTTP endpoints; the public reads
  status pages, badges and a feed that are computed from the store and cached.
  Every part works on one storage interface, modelled here by its in-memory
  implementation.

  \<^bold>\<open>The theories and the code they model\<close> (paths under \<open>src/\<close>):

  \<^item> \<open>Prelude\<close>, \<open>Text_Util\<close>: durations and instants in nanoseconds, results
    (\<open>Ok\<close>, \<open>Err\<close>), list lemmas; the string functions of the standard library
    the code uses.
  \<^item> \<open>Domain_Types\<close>, \<open>Incident_Domain\<close> (\<open>crates/core/src/domain/result.rs\<close>,
    \<open>public.rs\<close>, \<open>incident.rs\<close>): enumerations with their database codecs,
    incidents, the coalescing of a history, downtime, the lifecycle.
  \<^item> \<open>Errors\<close> (\<open>core/src/error.rs\<close>, \<open>storage/src/traits.rs\<close>,
    \<open>api/error.rs\<close>): errors as values and the response of each.
  \<^item> \<open>Escalation_Policy\<close>, \<open>On_Call\<close> (\<open>escalation_policy.rs\<close>, \<open>on_call.rs\<close> and
    the policy endpoints): the ladder and the rotation arithmetic.
  \<^item> \<open>Glob\<close>, \<open>Condition_Dsl\<close> (\<open>condition_dsl.rs\<close>): the wildcard matcher, the
    parser and the evaluator of conditions.
  \<^item> \<open>Ssrf\<close> (\<open>common/src/security/ssrf.rs\<close>): the address guard.
  \<^item> \<open>Channel_Config\<close> (\<open>notification_channel/\<close>), \<open>Check_Spec\<close> (\<open>check.rs\<close>),
    \<open>Slugs\<close> (\<open>reserved_slugs.rs\<close>, \<open>word_lists.rs\<close>, \<open>org.rs\<close>), \<open>Store_Types\<close>
    (the other domain records).
  \<^item> \<open>Tables\<close>, \<open>Memory_State\<close>, \<open>Memory_Analytics\<close>, \<open>Memory_Delivery\<close>,
    \<open>Memory_Oncall\<close>, \<open>Memory_Auth\<close> (\<open>storage/src/memory.rs\<close>): the state record
    with one field per map or vector of the struct, one operation per method
    of the trait.
  \<^item> \<open>Subscriber_Dispatch\<close> (\<open>subscriber_dispatch.rs\<close>), \<open>Escalation_Engine\<close>
    (\<open>escalation_engine.rs\<close>, \<open>api/incident_ops.rs\<close>), \<open>Incident_Writer\<close>
    (\<open>incident_writer.rs\<close>, \<open>incident_writer/channel_dispatch.rs\<close>): the workers.
  \<^item> \<open>Notifiers\<close> (\<open>common/src/notifier/\<close>): the request each of the forty transports
    makes for a message or an incident, and its result.
  \<^item> \<open>Mail\<close>, \<open>Mail_Senders\<close> (\<open>common/src/email/\<close>): the eight mail templates, the
    senders, and the redaction of links in the log.
  \<^item> \<open>Outbound\<close> (\<open>security/outbound_connector.rs\<close>, \<open>net/happy_eyeballs.rs\<close>,
    \<open>http_client/outbound.rs\<close>): the connector that filters resolved addresses,
    the connection race as a step relation, the HTTP helpers.
  \<^item> \<open>Sealing\<close> (\<open>security/crypto.rs\<close>): envelopes of secrets at rest.
  \<^item> \<open>Seed\<close> (\<open>status-server/src/seed.rs\<close>): channels, targets and pages of the
    configuration created at start-up; a second run creates nothing.
  \<^item> \<open>Cleanup\<close> (\<open>cleanup.rs\<close>), \<open>Cached_Storage\<close> (\<open>storage/src/cached.rs\<close>): the
    periodic sweep over the store, the write-through cache of targets.
  \<^item> \<open>Auth_Service\<close>, \<open>Auth_Routes\<close> (\<open>auth/service.rs\<close>, \<open>auth/middleware.rs\<close>,
    \<open>auth/routes.rs\<close>): authentication and the account endpoints.
  \<^item> \<open>Probes\<close>, \<open>Scheduler\<close> (\<open>scheduler.rs\<close>, \<open>api/heartbeat.rs\<close>): the probes of
    the default build over the answers of the network, the schedule, one sweep
    of it and its hand-over to the coalescer, the heartbeat endpoint.
  \<^item> \<open>Agent_Probes\<close> (\<open>probes/\<close>): the DNS, certificate and domain-expiry probes of
    the agent build.
  \<^item> \<open>Ip_Text\<close>, \<open>Rate_Limit\<close> (\<open>rate_limit.rs\<close>): the address parser of the
    standard library, client identification behind proxies, token buckets.
  \<^item> \<open>Public_Status\<close>, \<open>Page_Cache\<close>, \<open>Markup\<close>, \<open>Public_Api\<close>
    (\<open>api/public_api.rs\<close>, \<open>public_status_cache.rs\<close>, \<open>api/badges.rs\<close>): the snapshot
    of a page, the two-layer cache in front of it, the texts of the feed and
    the badges, the public endpoints.
  \<^item> \<open>App_State\<close> (\<open>app.rs\<close>, \<open>idempotency.rs\<close>), \<open>Target_Api\<close>, \<open>Bulk_Api\<close>,
    \<open>Page_Api\<close>, \<open>Incident_Api\<close>, \<open>Config_Api\<close> (\<open>api/*.rs\<close>, \<open>router.rs\<close>): the state
    the handlers share, idempotency keys, and the handlers of the management
    API, each with its validation, its calls to the store and its cache
    invalidations.
  \<^item> \<open>Mcp\<close> (\<open>mcp.rs\<close>): the read-only JSON-RPC endpoint with its origin gate,
    preflight and tools.

  \<^bold>\<open>Conventions.\<close>  A struct is a record, an enum a datatype, a fallible function
  returns a sum whose left side is the error; a handler also returns the new
  store.  A panic is \<open>None\<close>.  A \<open>HashMap\<close> is an association list with distinct
  keys: statements never depend on its order where the code leaves it open.
  Strings are lists of characters with code points below 256; where the code
  counts or cuts bytes the UTF-8 length is computed.  A spawned send is a value
  of the returned list of effects.  Loops are structural recursion or come
  with a termination proof; the loop that redacts a link is a partial function
  with a proof that it returns; no definition uses fuel.

  \<^bold>\<open>Arguments that stand for code outside the repository.\<close>  The clock (one
  reading per operation unless the text says otherwise), fresh identifiers,
  tokens and random choices; the digest and the salted hash of credentials;
  the time-zone database, the public-suffix list, the URL parser, the text of
  a JSON value, the rendering of a message, the outcome of a transport, the
  answers of the network to a probe, the configured set of trusted proxies;
  the library cache (its operations with the laws of its documentation), the
  JSON text of requests and responses, the printers of dates, identifiers and
  decimal fractions.
  Floating-point percentages are reals.

  \<^bold>\<open>What is shown.\<close>  The locale of keyed collections in \<open>Tables\<close> is interpreted
  on four row collections of the store; any sequence of operations on targets,
  status pages or maintenance windows is seen as the same sequence on a finite
  map.  Over arbitrary runs (step relations, invariants by rule induction): at most one
  open incident per target, one bootstrap user, unique addresses, bounded
  session lifetimes, single use of magic links, consistent deliveries.  End to
  end: an evaluation writes the incident its newest results call for; the
  sweeps of the engine page an opened incident by the timetable of its policy,
  every step of every round when the levels of the policy ascend; the
  cookie a login sets authenticates the later requests; the schedule follows
  the store, every due target is probed, no internal host is contacted, and
  one sweep leaves at most one open incident per target.  A token bucket
  admits no more than its capacity plus the refill, and its retry hint is
  exact.  A cached page is one that was computed for it since its last
  invalidation, a stale one the page last shown, and the writes of the
  management API are on the page with the next request (the deletion of a page
  is not); a snapshot shows every component once and the worst state, and
  its badge agrees with it; retries with one idempotency key execute a batch
  once for each response that is kept; no management request passes without
  a stored credential and the forgery check; secrets are masked in every channel response; an
  accepted schedule is always staffed; verification and share links work and
  end as documented; an alert goes to the configured service and nowhere else;
  the cache of targets cannot be noticed by callers that come one after the
  other (refinement); the cleanup sweep logs nobody out, and blanks the days of
  the public strip that lie before the retention; the JSON-RPC endpoint answers
  well-formed responses, lists exactly the tools it runs, and refuses every
  browser origin that is not configured; no text reaches the markup of a mail,
  and the redaction of a link in the log ends and leaves no credential; the
  connection race contacts allowed addresses only, ends, and tries every one;
  a sealed secret opens to the original; seeding twice creates nothing; a
  certificate is judged by the time it has left, and an outage of RDAP keeps
  the last known expiry of a domain.  Routines against
  references: the wildcard matcher, the coalescing of a history, the rotation
  index, the address ranges, the slug generator, the analytics.  Round trips:
  database codecs.  The documented conditions decide, from their text to the
  verdict, what they say.  Where the code departs
  from its comments or loses an update, a theorem states what it does.

  \<^bold>\<open>Not modelled.\<close>  The SQL back ends (\<open>duckdb.rs\<close>, \<open>postgres.rs\<close>) run text in
  an external engine; the transports of the probes and of mail, the TLS client,
  metrics and assets are I/O around third-party libraries; the frontend is
  view code; timers, start-up, routing tables and configuration files are
  glue, and the validators of the configuration are never called; the helpers
  for regions, plans, agent messages and error labels have no caller either.
\<close>

end
